(* ===== verification/Json.thy ===== *)
theory Json
  imports Prelude
begin

text \<open>
  \<open>serde_json::Value\<close> as the daemon uses it (action parameters, state snapshots). An object is
  the list of its entries in key order (serde_json's map is a B-tree map: keys are distinct and
  sorted); \<open>wf_json\<close> says that keys are distinct at every level. A number is an unsigned integer,
  a negative integer or a float given by its 64 bits, as serde_json's \<open>N\<close> is.
\<close>

datatype json_number = PosInt "64 word" | NegInt "64 word" | JFloat "64 word"

datatype json =
    JNull
  | JBool bool
  | JNumber json_number
  | JString str
  | JArray "json list"
  | JObject "(str \<times> json) list"

text \<open>\<open>Value::get\<close>, \<open>as_str\<close>, \<open>as_bool\<close>, \<open>as_u64\<close> and \<open>as_array\<close>: \<open>None\<close> on any other variant.\<close>

fun json_get :: "json \<Rightarrow> str \<Rightarrow> json option" where
  "json_get (JObject m) k = map_of m k"
| "json_get _ k = None"

fun as_str :: "json \<Rightarrow> str option" where
  "as_str (JString s) = Some s"
| "as_str _ = None"

fun as_bool :: "json \<Rightarrow> bool option" where
  "as_bool (JBool b) = Some b"
| "as_bool _ = None"

fun as_u64 :: "json \<Rightarrow> 64 word option" where
  "as_u64 (JNumber (PosInt n)) = Some n"
| "as_u64 _ = None"

fun as_array :: "json \<Rightarrow> json list option" where
  "as_array (JArray xs) = Some xs"
| "as_array _ = None"

lemma as_str_Some [simp]: "as_str v = Some s \<longleftrightarrow> v = JString s"
  by (cases v) auto

lemma as_bool_Some [simp]: "as_bool v = Some b \<longleftrightarrow> v = JBool b"
  by (cases v) auto

lemma as_u64_Some [simp]: "as_u64 v = Some n \<longleftrightarrow> v = JNumber (PosInt n)"
  by (cases v rule: as_u64.cases) auto

lemma as_array_Some [simp]: "as_array v = Some xs \<longleftrightarrow> v = JArray xs"
  by (cases v) auto

text \<open>\<open>params.get(k).and_then(|v| v.as_str())\<close>, the form in which most handlers read a
  parameter.\<close>

definition get_str :: "json \<Rightarrow> str \<Rightarrow> str option" where
  "get_str p k = Option.bind (json_get p k) as_str"

definition get_bool :: "json \<Rightarrow> str \<Rightarrow> bool option" where
  "get_bool p k = Option.bind (json_get p k) as_bool"

definition get_u64 :: "json \<Rightarrow> str \<Rightarrow> 64 word option" where
  "get_u64 p k = Option.bind (json_get p k) as_u64"

lemma get_str_Some: "get_str p k = Some s \<longleftrightarrow> json_get p k = Some (JString s)"
  by (auto simp: get_str_def Option.bind_eq_Some_conv)

lemma get_bool_Some: "get_bool p k = Some b \<longleftrightarrow> json_get p k = Some (JBool b)"
  by (auto simp: get_bool_def Option.bind_eq_Some_conv)

lemma get_u64_Some: "get_u64 p k = Some n \<longleftrightarrow> json_get p k = Some (JNumber (PosInt n))"
  by (auto simp: get_u64_def Option.bind_eq_Some_conv)

fun wf_json :: "json \<Rightarrow> bool" where
  "wf_json (JArray xs) = list_all wf_json xs"
| "wf_json (JObject m) = (distinct (map fst m) \<and> list_all (\<lambda>(k, v). wf_json v) m)"
| "wf_json _ = True"

end
