(* ===== verification/Sys_Types.thy ===== *)
theory Sys_Types
  imports Json
begin

text \<open>
  The shared types of \<open>sysknife-types/src/lib.rs\<close>: the action catalogue and its parser, the
  two hash newtypes and their only sanctioned comparison, the role, risk, job state and failure
  enums, the envelopes, and the bridge between them and the protocol buffer messages of
  \<open>sysknife-proto\<close>, with its errors.
\<close>

section \<open>The action catalogue\<close>

definition KNOWN_ACTION_NAMES :: "str list" where
  "KNOWN_ACTION_NAMES = [
    ''GetSystemState'', ''CollectDiagnostics'', ''GetDeploymentHistory'', ''ListDeployments'',
    ''UpdateSystem'', ''CleanupDeployments'', ''RebootSystem'', ''RollbackDeployment'',
    ''GetKernelArguments'', ''PinDeployment'', ''UnpinDeployment'', ''RebaseSystem'',
    ''SetKernelArguments'', ''InstallFlatpak'', ''RemoveFlatpak'', ''UpdateFlatpak'',
    ''SearchFlatpakApps'', ''ListFlatpakRemotes'', ''ListInstalledFlatpaks'',
    ''AddFlatpakRemote'', ''RemoveFlatpakRemote'', ''GetFlatpakAppInfo'', ''ListToolboxes'',
    ''CreateToolbox'', ''RemoveToolbox'', ''GetLayeredPackages'',
    ''ResetLayeredPackageOverride'', ''GetPendingUpdates'', ''InstallPackages'',
    ''RemovePackages'', ''AddLayeredPackage'', ''RemoveLayeredPackage'',
    ''ReplaceLayeredPackage'', ''RemoveBasePackage'', ''ListServices'', ''ListTimers'',
    ''ReloadDaemon'', ''StartService'', ''StopService'', ''RestartService'', ''ReloadService'',
    ''SetServiceEnabled'', ''MaskService'', ''UnmaskService'', ''GetServiceLogs'',
    ''GetServiceStatus'', ''GetFirewallState'', ''GetNetworkStatus'', ''ConfigureWifi'',
    ''SetDnsServers'', ''ConfigureFirewall'', ''GetDiskUsage'', ''ListProcesses'',
    ''GetMemoryInfo'', ''GetDateTime'', ''SetHostname'', ''SetTimezone'', ''SetLocale'',
    ''SetNtp'', ''ListPackageRepositories'', ''AddPackageRepository'',
    ''RemovePackageRepository'', ''EnablePackageRepository'', ''DisablePackageRepository'',
    ''ListContainers'', ''CreateContainer'', ''StartContainer'', ''StopContainer'',
    ''RemoveContainer'', ''GetContainerInfo'', ''ListUsers'', ''ListGroups'', ''CreateUser'',
    ''DeleteUser'', ''AddUserToGroup'', ''RemoveUserFromGroup'', ''GetAuthorizedKeys'',
    ''AddAuthorizedKey'', ''RemoveAuthorizedKey'', ''ListJobHistory'', ''AptUpdate'',
    ''AptUpgrade'', ''AptInstall'', ''AptRemove'', ''AptPurge'', ''AptAutoremove'', ''AptHold'',
    ''AptUnhold'', ''AptSearch'', ''AptListInstalled'', ''AptShow'', ''AptListUpgradable'',
    ''AptHistoryList'', ''AddPpa'', ''RemovePpa'', ''SnapInstall'', ''SnapRemove'',
    ''SnapRefresh'', ''SnapHold'', ''SnapUnhold'', ''SnapList'', ''SnapInfo'', ''SnapRevert'',
    ''SnapClassicInstall'', ''UfwEnable'', ''UfwDisable'', ''UfwAllow'', ''UfwDeny'',
    ''UfwReset'', ''UfwStatus'', ''DistroboxList'', ''DistroboxCreate'', ''DistroboxRemove'',
    ''NetplanGetConfig'', ''NetplanApply'', ''NetplanSet'', ''NetplanGenerate'',
    ''GrubGetKargs'', ''GrubSetKargs'', ''CheckPendingReboot'', ''ResolvectlStatus'',
    ''ResolvectlSetDns'', ''AppArmorStatus'', ''AppArmorEnforce'', ''AppArmorComplain'',
    ''CloudInitStatus'', ''UbuntuInstallFlatpak'', ''UbuntuRemoveFlatpak'',
    ''UbuntuUpdateFlatpak'', ''UbuntuListFlatpaks'', ''Fail2banStatus'', ''Fail2banBanIp'',
    ''Fail2banUnbanIp'', ''UbuntuReleaseUpgrade'', ''ProStatus'', ''ProAttach'', ''ProDetach'',
    ''LivepatchStatus'', ''MultipassList'', ''UfwDeleteRule'', ''UfwLimit'']"

datatype unknown_action_name = UnknownActionName str

datatype action_name = ActionName str

definition parse_action_name :: "str \<Rightarrow> (unknown_action_name, action_name) result" where
  "parse_action_name name =
    (if List.member KNOWN_ACTION_NAMES name then Inr (ActionName name)
     else Inl (UnknownActionName name))"

fun action_name_str :: "action_name \<Rightarrow> str" where
  "action_name_str (ActionName s) = s"

lemma parse_action_name_Inr:
  "parse_action_name s = Inr a \<longleftrightarrow> s \<in> set KNOWN_ACTION_NAMES \<and> a = ActionName s"
  by (auto simp: parse_action_name_def)

section \<open>Hash newtypes\<close>

datatype request_hash = RequestHash str
datatype approval_hash = ApprovalHash str

fun request_hash_str :: "request_hash \<Rightarrow> str" where
  "request_hash_str (RequestHash s) = s"

fun approval_hash_str :: "approval_hash \<Rightarrow> str" where
  "approval_hash_str (ApprovalHash s) = s"

text \<open>\<open>subtle::ConstantTimeEq\<close> on slices of equal length: the bitwise differences of all bytes
  are collected and the result is 1 when there is none. \<open>ct_eq\<close> keeps that shape: it visits
  every pair of bytes.\<close>

fun ct_diff :: "str \<Rightarrow> str \<Rightarrow> nat" where
  "ct_diff (a # as) (b # bs) = (if a = b then 0 else 1) + ct_diff as bs"
| "ct_diff _ _ = 0"

definition ct_eq :: "str \<Rightarrow> str \<Rightarrow> bool" where
  "ct_eq a b = (length a = length b \<and> ct_diff a b = 0)"

lemma ct_eq_iff: "ct_eq a b \<longleftrightarrow> a = b"
proof -
  have "length a = length b \<Longrightarrow> ct_diff a b = 0 \<longleftrightarrow> a = b"
    by (induction a b rule: list_induct2) auto
  then show ?thesis by (auto simp: ct_eq_def)
qed

definition approval_matches_request :: "request_hash \<Rightarrow> approval_hash \<Rightarrow> bool" where
  "approval_matches_request request approval =
    (let r = request_hash_str request; a = approval_hash_str approval
     in if r = [] \<or> length r \<noteq> length a then False else ct_eq r a)"

lemma approval_matches_request_iff:
  "approval_matches_request r a \<longleftrightarrow> request_hash_str r = approval_hash_str a \<and> request_hash_str r \<noteq> []"
  by (auto simp: approval_matches_request_def Let_def ct_eq_iff)

section \<open>Enums\<close>

datatype caller_role = Observer | Dev | Admin | Boot
datatype risk_level = Low | Medium | High
datatype job_state = Queued | Running | Succeeded | Failed | Canceled | RolledBack | NeedsReboot
datatype failure_category =
    ValidationFailure | AuthorizationFailure | PolicyDenied | StaleApproval | ExecutionFailure
  | TransientInfrastructureFailure | Cancellation | StuckExecution | RebootRequired | RollbackFailure

fun caller_role_code :: "caller_role \<Rightarrow> 32 word" where
  "caller_role_code Observer = 1"
| "caller_role_code Dev = 2"
| "caller_role_code Admin = 3"
| "caller_role_code Boot = 4"

fun risk_level_code :: "risk_level \<Rightarrow> 32 word" where
  "risk_level_code Low = 1"
| "risk_level_code Medium = 2"
| "risk_level_code High = 3"

fun job_state_code :: "job_state \<Rightarrow> 32 word" where
  "job_state_code Queued = 1"
| "job_state_code Running = 2"
| "job_state_code Succeeded = 3"
| "job_state_code Failed = 4"
| "job_state_code Canceled = 5"
| "job_state_code RolledBack = 6"
| "job_state_code NeedsReboot = 7"

fun failure_category_code :: "failure_category \<Rightarrow> 32 word" where
  "failure_category_code ValidationFailure = 1"
| "failure_category_code AuthorizationFailure = 2"
| "failure_category_code PolicyDenied = 3"
| "failure_category_code StaleApproval = 4"
| "failure_category_code ExecutionFailure = 5"
| "failure_category_code TransientInfrastructureFailure = 6"
| "failure_category_code Cancellation = 7"
| "failure_category_code StuckExecution = 8"
| "failure_category_code RebootRequired = 9"
| "failure_category_code RollbackFailure = 10"


section \<open>Envelopes\<close>

record request_envelope =
  re_action_name :: str
  re_request_id :: str
  re_params :: json
  re_caller_role :: caller_role
  re_request_hash :: request_hash

record preview_envelope =
  pe_summary :: str
  pe_risk_level :: risk_level
  pe_current_state :: json
  pe_proposed_change :: json
  pe_expected_side_effects :: "str list"
  pe_reboot_required :: bool
  pe_rollback_available :: bool
  pe_warnings :: "str list"
  pe_request_hash :: request_hash

record result_envelope =
  rs_status :: job_state
  rs_summary :: str
  rs_warnings :: "str list"
  rs_job_id :: "str option"
  rs_needs_reboot :: bool
  rs_rollback_ref :: "str option"
  rs_transaction_id :: str

record transaction_record =
  tr_transaction_id :: str
  tr_request_id :: str
  tr_request_hash :: str
  tr_action_name :: str
  tr_risk_level :: risk_level
  tr_status :: job_state
  tr_approval_id :: "str option"
  tr_summary :: str
  tr_warnings :: "str list"

section \<open>The protocol buffer bridge\<close>

text \<open>The messages of \<open>sysknife.proto\<close>: an enum field is an \<open>i32\<close> on the wire, and
  prost's \<open>try_from\<close> accepts exactly the declared values, the unspecified value 0 among them.\<close>

record proto_request_envelope =
  pre_action_name :: str
  pre_request_id :: str
  pre_params_json :: str
  pre_caller_role :: "32 word"
  pre_request_hash :: str

record proto_preview_envelope =
  ppe_summary :: str
  ppe_risk_level :: "32 word"
  ppe_current_state_json :: str
  ppe_proposed_change_json :: str
  ppe_expected_side_effects :: "str list"
  ppe_reboot_required :: bool
  ppe_rollback_available :: bool
  ppe_warnings :: "str list"
  ppe_request_hash :: str

record proto_result_envelope =
  prs_status :: "32 word"
  prs_summary :: str
  prs_warnings :: "str list"
  prs_job_id :: str
  prs_needs_reboot :: bool
  prs_rollback_ref :: str
  prs_transaction_id :: str

record proto_transaction_record =
  ptr_transaction_id :: str
  ptr_request_id :: str
  ptr_request_hash :: str
  ptr_action_name :: str
  ptr_risk_level :: "32 word"
  ptr_status :: "32 word"
  ptr_approval_id :: str
  ptr_summary :: str
  ptr_warnings :: "str list"

definition proto_caller_role_values :: "32 word list" where
  "proto_caller_role_values = [0, 1, 2, 3, 4]"

definition proto_risk_level_values :: "32 word list" where
  "proto_risk_level_values = [0, 1, 2, 3]"

definition proto_job_state_values :: "32 word list" where
  "proto_job_state_values = [0, 1, 2, 3, 4, 5, 6, 7]"

definition proto_failure_category_values :: "32 word list" where
  "proto_failure_category_values = [0, 1, 2, 3, 4, 5, 6, 7, 8, 9, 10]"

definition proto_enum_try_from :: "32 word list \<Rightarrow> 32 word \<Rightarrow> 32 word option" where
  "proto_enum_try_from declared v = (if v \<in> set declared then Some v else None)"

datatype bridge_error =
    InvalidJson str
  | InvalidEnum str "32 word"

definition caller_role_try_from :: "32 word \<Rightarrow> (bridge_error, caller_role) result" where
  "caller_role_try_from v =
    (if v = 1 then Inr Observer else if v = 2 then Inr Dev else if v = 3 then Inr Admin
     else if v = 4 then Inr Boot else Inl (InvalidEnum ''caller_role'' v))"

definition risk_level_try_from :: "32 word \<Rightarrow> (bridge_error, risk_level) result" where
  "risk_level_try_from v =
    (if v = 1 then Inr Low else if v = 2 then Inr Medium else if v = 3 then Inr High
     else Inl (InvalidEnum ''risk_level'' v))"

definition job_state_try_from :: "32 word \<Rightarrow> (bridge_error, job_state) result" where
  "job_state_try_from v =
    (if v = 1 then Inr Queued else if v = 2 then Inr Running else if v = 3 then Inr Succeeded
     else if v = 4 then Inr Failed else if v = 5 then Inr Canceled
     else if v = 6 then Inr RolledBack else if v = 7 then Inr NeedsReboot
     else Inl (InvalidEnum ''job_state'' v))"

definition failure_category_try_from :: "32 word \<Rightarrow> (bridge_error, failure_category) result" where
  "failure_category_try_from v =
    (if v = 1 then Inr ValidationFailure else if v = 2 then Inr AuthorizationFailure
     else if v = 3 then Inr PolicyDenied else if v = 4 then Inr StaleApproval
     else if v = 5 then Inr ExecutionFailure else if v = 6 then Inr TransientInfrastructureFailure
     else if v = 7 then Inr Cancellation else if v = 8 then Inr StuckExecution
     else if v = 9 then Inr RebootRequired else if v = 10 then Inr RollbackFailure
     else Inl (InvalidEnum ''failure_category'' v))"

text \<open>The nested conversion of an enum field: prost's check, then the bridge's.\<close>

definition decode_caller_role :: "32 word \<Rightarrow> (bridge_error, caller_role) result" where
  "decode_caller_role v =
    rbind (ok_or (proto_enum_try_from proto_caller_role_values v) (InvalidEnum ''caller_role'' v))
      caller_role_try_from"

definition decode_risk_level :: "32 word \<Rightarrow> (bridge_error, risk_level) result" where
  "decode_risk_level v =
    rbind (ok_or (proto_enum_try_from proto_risk_level_values v) (InvalidEnum ''risk_level'' v))
      risk_level_try_from"

definition decode_job_state :: "32 word \<Rightarrow> (bridge_error, job_state) result" where
  "decode_job_state v =
    rbind (ok_or (proto_enum_try_from proto_job_state_values v) (InvalidEnum ''job_state'' v))
      job_state_try_from"

lemma decode_caller_role_code [simp]: "decode_caller_role (caller_role_code r) = Inr r"
  by (cases r) (simp_all add: decode_caller_role_def proto_enum_try_from_def
        proto_caller_role_values_def caller_role_try_from_def)

lemma decode_risk_level_code [simp]: "decode_risk_level (risk_level_code k) = Inr k"
  by (cases k) (simp_all add: decode_risk_level_def proto_enum_try_from_def
        proto_risk_level_values_def risk_level_try_from_def)

lemma decode_job_state_code [simp]: "decode_job_state (job_state_code s) = Inr s"
  by (cases s) (simp_all add: decode_job_state_def proto_enum_try_from_def
        proto_job_state_values_def job_state_try_from_def)

lemma failure_category_try_from_code [simp]:
  "failure_category_try_from (failure_category_code c) = Inr c"
  by (cases c) (simp_all add: failure_category_try_from_def)

lemma failure_category_code_declared:
  "proto_enum_try_from proto_failure_category_values (failure_category_code c)
     = Some (failure_category_code c)"
  by (cases c) (simp_all add: proto_enum_try_from_def proto_failure_category_values_def)

text \<open>The JSON text of a parameter object is serde_json's: \<open>ser\<close> and \<open>de\<close> are its
  \<open>to_string\<close> and \<open>from_str\<close>.\<close>

definition request_to_proto :: "(json \<Rightarrow> str) \<Rightarrow> request_envelope \<Rightarrow> proto_request_envelope" where
  "request_to_proto ser v =
    \<lparr> pre_action_name = re_action_name v, pre_request_id = re_request_id v,
      pre_params_json = ser (re_params v), pre_caller_role = caller_role_code (re_caller_role v),
      pre_request_hash = request_hash_str (re_request_hash v) \<rparr>"

definition request_from_proto ::
    "(str \<Rightarrow> json option) \<Rightarrow> proto_request_envelope \<Rightarrow> (bridge_error, request_envelope) result" where
  "request_from_proto de v =
    rbind (ok_or (de (pre_params_json v)) (InvalidJson ''params_json'')) (\<lambda>params.
    rbind (decode_caller_role (pre_caller_role v)) (\<lambda>role.
    Inr \<lparr> re_action_name = pre_action_name v, re_request_id = pre_request_id v,
          re_params = params, re_caller_role = role,
          re_request_hash = RequestHash (pre_request_hash v) \<rparr>))"

definition preview_to_proto :: "(json \<Rightarrow> str) \<Rightarrow> preview_envelope \<Rightarrow> proto_preview_envelope" where
  "preview_to_proto ser v =
    \<lparr> ppe_summary = pe_summary v, ppe_risk_level = risk_level_code (pe_risk_level v),
      ppe_current_state_json = ser (pe_current_state v),
      ppe_proposed_change_json = ser (pe_proposed_change v),
      ppe_expected_side_effects = pe_expected_side_effects v,
      ppe_reboot_required = pe_reboot_required v,
      ppe_rollback_available = pe_rollback_available v, ppe_warnings = pe_warnings v,
      ppe_request_hash = request_hash_str (pe_request_hash v) \<rparr>"

definition preview_from_proto ::
    "(str \<Rightarrow> json option) \<Rightarrow> proto_preview_envelope \<Rightarrow> (bridge_error, preview_envelope) result" where
  "preview_from_proto de v =
    rbind (ok_or (de (ppe_current_state_json v)) (InvalidJson ''current_state_json'')) (\<lambda>cur.
    rbind (ok_or (de (ppe_proposed_change_json v)) (InvalidJson ''proposed_change_json'')) (\<lambda>chg.
    rbind (decode_risk_level (ppe_risk_level v)) (\<lambda>risk.
    Inr \<lparr> pe_summary = ppe_summary v, pe_risk_level = risk, pe_current_state = cur,
          pe_proposed_change = chg, pe_expected_side_effects = ppe_expected_side_effects v,
          pe_reboot_required = ppe_reboot_required v,
          pe_rollback_available = ppe_rollback_available v, pe_warnings = ppe_warnings v,
          pe_request_hash = RequestHash (ppe_request_hash v) \<rparr>)))"

text \<open>An absent optional string is the empty string in the message, and is read back as absent.\<close>

definition unwrap_or_default :: "str option \<Rightarrow> str" where
  "unwrap_or_default x = unwrap_or x []"

definition non_empty :: "str \<Rightarrow> str option" where
  "non_empty s = (if s = [] then None else Some s)"

lemma non_empty_unwrap: "non_empty (unwrap_or_default x) = x \<longleftrightarrow> x \<noteq> Some []"
  by (cases x) (auto simp: non_empty_def unwrap_or_default_def)

definition result_to_proto :: "result_envelope \<Rightarrow> proto_result_envelope" where
  "result_to_proto v =
    \<lparr> prs_status = job_state_code (rs_status v), prs_summary = rs_summary v,
      prs_warnings = rs_warnings v, prs_job_id = unwrap_or_default (rs_job_id v),
      prs_needs_reboot = rs_needs_reboot v,
      prs_rollback_ref = unwrap_or_default (rs_rollback_ref v),
      prs_transaction_id = rs_transaction_id v \<rparr>"

definition result_from_proto :: "proto_result_envelope \<Rightarrow> (bridge_error, result_envelope) result" where
  "result_from_proto v =
    rbind (decode_job_state (prs_status v)) (\<lambda>st.
    Inr \<lparr> rs_status = st, rs_summary = prs_summary v, rs_warnings = prs_warnings v,
          rs_job_id = non_empty (prs_job_id v), rs_needs_reboot = prs_needs_reboot v,
          rs_rollback_ref = non_empty (prs_rollback_ref v),
          rs_transaction_id = prs_transaction_id v \<rparr>)"

definition transaction_to_proto :: "transaction_record \<Rightarrow> proto_transaction_record" where
  "transaction_to_proto v =
    \<lparr> ptr_transaction_id = tr_transaction_id v, ptr_request_id = tr_request_id v,
      ptr_request_hash = tr_request_hash v, ptr_action_name = tr_action_name v,
      ptr_risk_level = risk_level_code (tr_risk_level v),
      ptr_status = job_state_code (tr_status v),
      ptr_approval_id = unwrap_or_default (tr_approval_id v), ptr_summary = tr_summary v,
      ptr_warnings = tr_warnings v \<rparr>"

definition transaction_from_proto ::
    "proto_transaction_record \<Rightarrow> (bridge_error, transaction_record) result" where
  "transaction_from_proto v =
    rbind (decode_risk_level (ptr_risk_level v)) (\<lambda>risk.
    rbind (decode_job_state (ptr_status v)) (\<lambda>st.
    Inr \<lparr> tr_transaction_id = ptr_transaction_id v, tr_request_id = ptr_request_id v,
          tr_request_hash = ptr_request_hash v, tr_action_name = ptr_action_name v,
          tr_risk_level = risk, tr_status = st, tr_approval_id = non_empty (ptr_approval_id v),
          tr_summary = ptr_summary v, tr_warnings = ptr_warnings v \<rparr>))"

section \<open>Round trips of the bridge\<close>

lemma request_proto_roundtrip:
  "de (ser (re_params v)) = Some (re_params v) \<Longrightarrow> request_from_proto de (request_to_proto ser v) = Inr v"
  by (cases "re_request_hash v") (simp add: request_from_proto_def request_to_proto_def)

lemma preview_proto_roundtrip:
  "de (ser (pe_current_state v)) = Some (pe_current_state v) \<Longrightarrow>
   de (ser (pe_proposed_change v)) = Some (pe_proposed_change v) \<Longrightarrow>
   preview_from_proto de (preview_to_proto ser v) = Inr v"
  by (cases "pe_request_hash v") (simp add: preview_from_proto_def preview_to_proto_def)

lemma transaction_proto_roundtrip:
  "transaction_from_proto (transaction_to_proto v) = Inr v \<longleftrightarrow> tr_approval_id v \<noteq> Some []"
proof -
  have "transaction_from_proto (transaction_to_proto v)
      = Inr (v\<lparr>tr_approval_id := non_empty (unwrap_or_default (tr_approval_id v))\<rparr>)"
    by (simp add: transaction_from_proto_def transaction_to_proto_def)
  then show ?thesis
    using non_empty_unwrap [of "tr_approval_id v"] by (cases v) auto
qed

lemma result_proto_roundtrip:
  "result_from_proto (result_to_proto v) = Inr v \<longleftrightarrow>
     rs_job_id v \<noteq> Some [] \<and> rs_rollback_ref v \<noteq> Some []"
proof -
  have "result_from_proto (result_to_proto v)
      = Inr (v\<lparr>rs_job_id := non_empty (unwrap_or_default (rs_job_id v)),
               rs_rollback_ref := non_empty (unwrap_or_default (rs_rollback_ref v))\<rparr>)"
    by (simp add: result_from_proto_def result_to_proto_def)
  then show ?thesis
    using non_empty_unwrap [of "rs_job_id v"] non_empty_unwrap [of "rs_rollback_ref v"]
    by (cases v) auto
qed

text \<open>Each decoder fails with the offending value on anything but a declared code.\<close>

lemma decode_job_state_error:
  "(\<exists>e. decode_job_state v = Inl e) \<longleftrightarrow> v \<notin> set [1, 2, 3, 4, 5, 6, 7]"
  by (auto simp: decode_job_state_def proto_enum_try_from_def proto_job_state_values_def
      job_state_try_from_def)

end
