(* ===== verification/Validate.thy ===== *)
theory Validate
  imports Json Rust_Std
begin

text \<open>
  The parameter validators of \<open>actions/validate.rs\<close> and of \<open>executor.rs\<close>, and the readers of JSON
  parameters. Each validator has an exact characterisation of what it accepts (\<open>..._Inr\<close>); the
  collection \<open>valid_simps\<close> holds them. \<open>shell_inert\<close> is the alphabet of text that means nothing to a
  shell; every general validator accepts only such text.
\<close>

named_theorems valid_simps

datatype executor_error =
    UnknownActionError str
  | MissingParam str
  | InvalidParam str
  | InvalidIpAddress str str
  | ExecutorIo

section \<open>Alphabets\<close>

definition name_char :: "char \<Rightarrow> bool" where
  "name_char c = (is_ascii_alphanumeric c \<or> c = CHR ''.'' \<or> c = CHR ''_'' \<or> c = CHR ''-'')"

definition safe_arg_char :: "char \<Rightarrow> bool" where
  "safe_arg_char c = (is_ascii_alphanumeric c \<or>
     c \<in> {CHR ''.'', CHR ''_'', CHR '':'', CHR ''/'', CHR ''+'', CHR ''@'', CHR ''-''})"

text \<open>Text of these characters is passed through by a shell unchanged, quoted or not.\<close>

abbreviation shell_inert :: "str \<Rightarrow> bool" where
  "shell_inert s \<equiv> list_all safe_arg_char s"

section \<open>Validators\<close>

definition validated_username :: "str \<Rightarrow> str \<Rightarrow> (executor_error, str) result" where
  "validated_username s param =
    (if s = [] \<or> length s > 32 then Inl (InvalidParam param)
     else if starts_with s ''-'' then Inl (InvalidParam param)
     else if \<not> list_all (\<lambda>c. is_ascii_alphanumeric c \<or> c = CHR ''.'' \<or> c = CHR ''_'' \<or> c = CHR ''-'') s
     then Inl (InvalidParam param)
     else Inr s)"

definition validated_group :: "str \<Rightarrow> str \<Rightarrow> (executor_error, str) result" where
  "validated_group s param = validated_username s param"

definition validated_unit_name :: "str \<Rightarrow> str \<Rightarrow> (executor_error, str) result" where
  "validated_unit_name s param =
    (if s = [] then Inl (InvalidParam param)
     else if \<not> list_all (\<lambda>c. is_ascii_alphanumeric c \<or>
         c \<in> {CHR ''@'', CHR ''.'', CHR ''_'', CHR '':'', CHR ''-''}) s
     then Inl (InvalidParam param)
     else Inr s)"

definition validated_hostname :: "str \<Rightarrow> str \<Rightarrow> (executor_error, str) result" where
  "validated_hostname s param =
    (if s = [] \<or> length s > 253 then Inl (InvalidParam param)
     else if \<not> list_all (\<lambda>c. is_ascii_alphanumeric c \<or> c = CHR ''.'' \<or> c = CHR ''-'') s
     then Inl (InvalidParam param)
     else if list_ex (\<lambda>label. label = [] \<or> length label > 63) (split_on (CHR ''.'') s)
     then Inl (InvalidParam param)
     else Inr s)"

definition validated_timezone :: "str \<Rightarrow> str \<Rightarrow> (executor_error, str) result" where
  "validated_timezone s param =
    (if s = [] then Inl (InvalidParam param)
     else if contains_str s ''..'' then Inl (InvalidParam param)
     else if \<not> list_all (\<lambda>c. is_ascii_alphanumeric c \<or>
         c \<in> {CHR ''/'', CHR ''_'', CHR ''+'', CHR ''-''}) s
     then Inl (InvalidParam param)
     else Inr s)"

definition validated_locale :: "str \<Rightarrow> str \<Rightarrow> (executor_error, str) result" where
  "validated_locale s param =
    (if s = [] then Inl (InvalidParam param)
     else if \<not> list_all (\<lambda>c. is_ascii_alphanumeric c \<or> c = CHR ''.'' \<or> c = CHR ''_'' \<or> c = CHR ''-'') s
     then Inl (InvalidParam param)
     else Inr s)"

definition SAFE_ARG_MAX_BYTES :: nat where "SAFE_ARG_MAX_BYTES = 254"

definition validated_ppa_name :: "str \<Rightarrow> str \<Rightarrow> (executor_error, str) result" where
  "validated_ppa_name s param =
    (case splitn 3 (CHR ''/'') s of
       [user, ppa] \<Rightarrow>
         let ok = list_all (\<lambda>c. is_ascii_alphanumeric c \<or> c \<in> {CHR ''.'', CHR ''_'', CHR ''-''})
         in if user = [] \<or> ppa = [] then Inl (InvalidParam param)
            else if \<not> ok user \<or> \<not> ok ppa then Inl (InvalidParam param)
            else if length s > SAFE_ARG_MAX_BYTES then Inl (InvalidParam param)
            else Inr s
     | _ \<Rightarrow> Inl (InvalidParam param))"

definition APPARMOR_PROFILE_NAME_MAX :: nat where "APPARMOR_PROFILE_NAME_MAX = 128"

definition apparmor_prefix :: str where "apparmor_prefix = ''/etc/apparmor.d/''"

definition validated_apparmor_profile :: "str \<Rightarrow> str \<Rightarrow> (executor_error, str) result" where
  "validated_apparmor_profile s param =
    (if s = [] then Inl (InvalidParam param)
     else if starts_with s ''/'' then
       (if \<not> starts_with s apparmor_prefix then Inl (InvalidParam param)
        else if contains_str s ''..'' then Inl (InvalidParam param)
        else let suffix = drop (length apparmor_prefix) s
             in if suffix = [] then Inl (InvalidParam param)
                else if \<not> list_all (\<lambda>c. is_ascii_alphanumeric c \<or>
                    c \<in> {CHR ''.'', CHR ''_'', CHR ''-'', CHR ''/''}) suffix
                then Inl (InvalidParam param) else Inr s)
     else
       (if List.member s (CHR ''/'') then Inl (InvalidParam param)
        else if starts_with s ''.'' then Inl (InvalidParam param)
        else if length s > APPARMOR_PROFILE_NAME_MAX then Inl (InvalidParam param)
        else if \<not> list_all (\<lambda>c. is_ascii_alphanumeric c \<or>
            c \<in> {CHR ''.'', CHR ''_'', CHR ''-''}) s
        then Inl (InvalidParam param) else Inr s))"

definition UFW_APP_NAME_MAX :: nat where "UFW_APP_NAME_MAX = 64"

text \<open>\<open>parse::<u32>()\<close> of a string of digits, then the port range.\<close>

definition check_port :: "str \<Rightarrow> str \<Rightarrow> str \<Rightarrow> (executor_error, str) result" where
  "check_port digits s param =
    (case parse_uint u32_max digits of
       None \<Rightarrow> Inl (InvalidParam param)
     | Some port \<Rightarrow> if port = 0 \<or> port > 65535 then Inl (InvalidParam param) else Inr s)"

definition validated_port_or_service :: "str \<Rightarrow> str \<Rightarrow> (executor_error, str) result" where
  "validated_port_or_service s param =
    (if s = [] then Inl (InvalidParam param)
     else case split_once (CHR ''/'') s of
       Some (port_part, proto_part) \<Rightarrow>
         if proto_part \<noteq> ''tcp'' \<and> proto_part \<noteq> ''udp'' then Inl (InvalidParam param)
         else if port_part = [] \<or> \<not> list_all is_ascii_digit port_part then Inl (InvalidParam param)
         else check_port port_part s param
     | None \<Rightarrow>
         if list_all is_ascii_digit s then check_port s s param
         else if \<not> (s \<noteq> [] \<and> is_ascii_alphabetic (hd s)) then Inl (InvalidParam param)
         else if length s > UFW_APP_NAME_MAX then Inl (InvalidParam param)
         else if \<not> list_all (\<lambda>c. is_ascii_alphanumeric c \<or> c \<in> {CHR ''_'', CHR ''-''}) s
         then Inl (InvalidParam param)
         else Inr s)"

definition validated_safe_arg :: "str \<Rightarrow> str \<Rightarrow> (executor_error, str) result" where
  "validated_safe_arg s param =
    (if s = [] \<or> length s > SAFE_ARG_MAX_BYTES then Inl (InvalidParam param)
     else if starts_with s ''-'' then Inl (InvalidParam param)
     else if \<not> list_all (\<lambda>c. is_ascii_alphanumeric c \<or>
         c \<in> {CHR ''.'', CHR ''_'', CHR '':'', CHR ''/'', CHR ''+'', CHR ''@'', CHR ''-''}) s
     then Inl (InvalidParam param)
     else Inr s)"

section \<open>Readers of JSON parameters\<close>

definition require_str :: "json \<Rightarrow> str \<Rightarrow> (executor_error, str) result" where
  "require_str params key =
    (case json_get params key of
       None \<Rightarrow> Inl (MissingParam key)
     | Some v \<Rightarrow> ok_or (as_str v) (InvalidParam key))"

definition resolve_username :: "json \<Rightarrow> (executor_error, str) result" where
  "resolve_username params =
    rbind (ok_or (case json_get params ''username'' of
                    Some v \<Rightarrow> Some v | None \<Rightarrow> json_get params ''user'')
             (MissingParam ''username''))
      (\<lambda>v. ok_or (as_str v) (InvalidParam ''username''))"

definition validated_repo_id :: "json \<Rightarrow> (executor_error, str) result" where
  "validated_repo_id params =
    rbind (require_str params ''repo_id'') (\<lambda>i.
    if i \<noteq> [] \<and> list_all (\<lambda>c. is_ascii_alphanumeric c \<or> c = CHR ''-'' \<or> c = CHR ''_'') i
    then Inr i else Inl (InvalidParam ''repo_id''))"

definition validated_no_newline :: "json \<Rightarrow> str \<Rightarrow> (executor_error, str) result" where
  "validated_no_newline params key =
    rbind (require_str params key) (\<lambda>val.
    if List.member val (CHR 0x0A) \<or> List.member val (CHR 0x0D)
    then Inl (InvalidParam key) else Inr val)"

definition public_key_prefixes :: "str list" where
  "public_key_prefixes =
    [''ssh-rsa'', ''ssh-ed25519'', ''ssh-ed25519-sk'', ''ecdsa-sha2-nistp256'',
     ''ecdsa-sha2-nistp384'', ''ecdsa-sha2-nistp521'', ''sk-ssh-ed25519'', ''sk-ecdsa-sha2-nistp256'']"

definition public_key_forbidden :: "char \<Rightarrow> bool" where
  "public_key_forbidden c =
    (c \<in> {CHR 0x0A, CHR 0x0D, CHR 0x27, CHR ''|'', CHR '';'', CHR 0x60, CHR ''$'', CHR 0x5C, CHR ''&''}
     \<or> byte_of c \<ge> 128 \<or> is_ascii_control c)"

definition validated_public_key :: "str \<Rightarrow> (executor_error, str) result" where
  "validated_public_key s =
    (if s = [] \<or> length s > 8192 then Inl (InvalidParam ''public_key'')
     else if \<not> list_ex (\<lambda>p. starts_with s p) public_key_prefixes then Inl (InvalidParam ''public_key'')
     else if list_ex public_key_forbidden s then Inl (InvalidParam ''public_key'')
     else Inr s)"

definition require_bool :: "json \<Rightarrow> str \<Rightarrow> (executor_error, bool) result" where
  "require_bool params key =
    (case json_get params key of
       None \<Rightarrow> Inl (MissingParam key)
     | Some v \<Rightarrow> ok_or (as_bool v) (InvalidParam key))"

text \<open>\<open>u32::try_from(u64)\<close> fails above the 32-bit range.\<close>

definition u32_try_from :: "64 word \<Rightarrow> 32 word option" where
  "u32_try_from n = (if unat n \<le> u32_max then Some (ucast n) else None)"

definition require_u32 :: "json \<Rightarrow> str \<Rightarrow> (executor_error, 32 word) result" where
  "require_u32 params key =
    (case json_get params key of
       None \<Rightarrow> Inl (MissingParam key)
     | Some v \<Rightarrow> rbind (ok_or (as_u64 v) (InvalidParam key))
         (\<lambda>n. ok_or (u32_try_from n) (InvalidParam key)))"

definition require_positive_u32 :: "json \<Rightarrow> str \<Rightarrow> (executor_error, 32 word) result" where
  "require_positive_u32 params key =
    rbind (require_u32 params key) (\<lambda>n. if n = 0 then Inl (InvalidParam key) else Inr n)"

definition str_array_or_empty :: "json \<Rightarrow> str \<Rightarrow> (executor_error, str list) result" where
  "str_array_or_empty params key =
    (case json_get params key of
       None \<Rightarrow> Inr []
     | Some JNull \<Rightarrow> Inr []
     | Some (JArray arr) \<Rightarrow> map_result (\<lambda>v. ok_or (as_str v) (InvalidParam key)) arr
     | Some _ \<Rightarrow> Inl (InvalidParam key))"

section \<open>Kernel arguments\<close>

text \<open>\<open>str::to_lowercase\<close> on UTF-8 bytes, exact on the ASCII part of the result: besides the ASCII
  letters, the Kelvin sign lowers to \<open>k\<close> and the dotted capital I to \<open>i\<close> with a combining dot. Every
  other character lowers to non-ASCII text, and is kept: the tests below look at ASCII only.\<close>

fun to_lowercase :: "str \<Rightarrow> str" where
  "to_lowercase [] = []"
| "to_lowercase (a # s) =
    (case s of
       b # c # r \<Rightarrow>
         if a = CHR 0xE2 \<and> b = CHR 0x84 \<and> c = CHR 0xAA then CHR ''k'' # to_lowercase r
         else if a = CHR 0xC4 \<and> b = CHR 0xB0 then CHR ''i'' # CHR 0xCC # CHR 0x87 # to_lowercase (c # r)
         else to_ascii_lower a # to_lowercase (b # c # r)
     | [b] \<Rightarrow>
         if a = CHR 0xC4 \<and> b = CHR 0xB0 then [CHR ''i'', CHR 0xCC, CHR 0x87]
         else to_ascii_lower a # to_lowercase [b]
     | [] \<Rightarrow> [to_ascii_lower a])"

definition kernel_blocked_prefixes :: "str list" where
  "kernel_blocked_prefixes =
    [''init='', ''selinux=0'', ''enforcing=0'', ''security='', ''module_blacklist='']"

definition kernel_blocked_exact :: "str list" where
  "kernel_blocked_exact = [''single'', ''s'', ''1'']"

definition kernel_blocked_units :: "str list" where
  "kernel_blocked_units = [''emergency'', ''rescue'', ''single'']"

definition validated_safe_kernel_arg :: "str \<Rightarrow> (executor_error, unit) result" where
  "validated_safe_kernel_arg arg =
    (let lower = to_lowercase arg;
         base = hd (split_on (CHR ''='') lower)
     in if list_ex (\<lambda>p. starts_with lower p) kernel_blocked_prefixes then Inl (InvalidParam ''add'')
        else if List.member kernel_blocked_exact lower then Inl (InvalidParam ''add'')
        else if (case strip_prefix lower ''systemd.unit='' of
                   None \<Rightarrow> False
                 | Some unit_val \<Rightarrow> list_ex (\<lambda>u. starts_with unit_val u) kernel_blocked_units)
        then Inl (InvalidParam ''add'')
        else if List.member kernel_blocked_exact base then Inl (InvalidParam ''add'')
        else Inr ())"

section \<open>What the validators accept\<close>

lemma starts_with_char: "starts_with s [c] \<longleftrightarrow> s \<noteq> [] \<and> hd s = c"
  by (cases s) (auto simp: starts_with_def)

lemma inert_intro: "list_all P s \<Longrightarrow> (\<And>c. P c \<Longrightarrow> safe_arg_char c) \<Longrightarrow> shell_inert s"
  by (auto simp: list_all_iff)

lemma validated_username_Inr [valid_simps]:
  "validated_username s p = Inr t \<longleftrightarrow>
     t = s \<and> s \<noteq> [] \<and> length s \<le> 32 \<and> hd s \<noteq> CHR ''-'' \<and> list_all name_char s"
  by (auto simp: validated_username_def starts_with_char name_char_def [abs_def])

lemma validated_group_Inr [valid_simps]:
  "validated_group s p = Inr t \<longleftrightarrow>
     t = s \<and> s \<noteq> [] \<and> length s \<le> 32 \<and> hd s \<noteq> CHR ''-'' \<and> list_all name_char s"
  by (simp add: validated_group_def validated_username_Inr)

lemma validated_unit_name_Inr [valid_simps]:
  "validated_unit_name s p = Inr t \<longleftrightarrow> t = s \<and> s \<noteq> [] \<and>
     list_all (\<lambda>c. is_ascii_alphanumeric c \<or> c \<in> {CHR ''@'', CHR ''.'', CHR ''_'', CHR '':'', CHR ''-''}) s"
  by (auto simp: validated_unit_name_def)

lemma validated_hostname_Inr [valid_simps]:
  "validated_hostname s p = Inr t \<longleftrightarrow> t = s \<and> s \<noteq> [] \<and> length s \<le> 253 \<and>
     list_all (\<lambda>c. is_ascii_alphanumeric c \<or> c = CHR ''.'' \<or> c = CHR ''-'') s \<and>
     list_all (\<lambda>label. label \<noteq> [] \<and> length label \<le> 63) (split_on (CHR ''.'') s)"
  by (auto simp: validated_hostname_def list_all_iff list_ex_iff not_le)

lemma validated_timezone_Inr [valid_simps]:
  "validated_timezone s p = Inr t \<longleftrightarrow> t = s \<and> s \<noteq> [] \<and> \<not> contains_str s ''..'' \<and>
     list_all (\<lambda>c. is_ascii_alphanumeric c \<or> c \<in> {CHR ''/'', CHR ''_'', CHR ''+'', CHR ''-''}) s"
  by (auto simp: validated_timezone_def)

lemma validated_locale_Inr [valid_simps]:
  "validated_locale s p = Inr t \<longleftrightarrow> t = s \<and> s \<noteq> [] \<and> list_all name_char s"
  by (auto simp: validated_locale_def name_char_def [abs_def])

lemma validated_safe_arg_Inr [valid_simps]:
  "validated_safe_arg s p = Inr t \<longleftrightarrow>
     t = s \<and> s \<noteq> [] \<and> length s \<le> 254 \<and> hd s \<noteq> CHR ''-'' \<and> shell_inert s"
  by (auto simp: validated_safe_arg_def SAFE_ARG_MAX_BYTES_def starts_with_char safe_arg_char_def [abs_def])

lemma splitn_3_two: "splitn 3 d s = [a, b] \<longleftrightarrow> s = a @ d # b \<and> d \<notin> set a \<and> d \<notin> set b"
proof -
  have "splitn 3 d s = [a, b] \<longleftrightarrow> split_once d s = Some (a, b) \<and> split_once d b = None"
    by (auto simp: numeral_3_eq_3 split: option.splits)
  then show ?thesis by (auto simp: split_once_Some split_once_None)
qed

lemma validated_ppa_name_Inr [valid_simps]:
  "validated_ppa_name s p = Inr t \<longleftrightarrow> t = s \<and> length s \<le> 254 \<and>
     (\<exists>user ppa. s = user @ CHR ''/'' # ppa \<and> user \<noteq> [] \<and> ppa \<noteq> [] \<and>
        list_all name_char user \<and> list_all name_char ppa)"
proof -
  have nc: "name_char = (\<lambda>c. is_ascii_alphanumeric c \<or> c \<in> {CHR ''.'', CHR ''_'', CHR ''-''})"
    by (auto simp: name_char_def fun_eq_iff)
  have no_slash: "\<not> name_char (CHR ''/'')" by (simp add: name_char_def ascii_defs)
  have "validated_ppa_name s p = Inr t \<longleftrightarrow>
     (\<exists>user ppa. splitn 3 (CHR ''/'') s = [user, ppa] \<and> user \<noteq> [] \<and> ppa \<noteq> [] \<and>
        list_all name_char user \<and> list_all name_char ppa \<and> length s \<le> 254 \<and> t = s)"
    unfolding nc by (auto simp: validated_ppa_name_def Let_def SAFE_ARG_MAX_BYTES_def split: list.splits)
  also have "\<dots> \<longleftrightarrow> t = s \<and> length s \<le> 254 \<and>
     (\<exists>user ppa. s = user @ CHR ''/'' # ppa \<and> user \<noteq> [] \<and> ppa \<noteq> [] \<and>
        list_all name_char user \<and> list_all name_char ppa)"
    unfolding splitn_3_two using no_slash by (auto simp: list_all_iff)
  finally show ?thesis .
qed

lemma validated_apparmor_profile_Inr [valid_simps]:
  "validated_apparmor_profile s p = Inr t \<longleftrightarrow> t = s \<and>
     (if s \<noteq> [] \<and> hd s = CHR ''/''
      then starts_with s apparmor_prefix \<and> \<not> contains_str s ''..'' \<and> length apparmor_prefix < length s \<and>
        list_all (\<lambda>c. is_ascii_alphanumeric c \<or> c \<in> {CHR ''.'', CHR ''_'', CHR ''-'', CHR ''/''})
          (drop (length apparmor_prefix) s)
      else s \<noteq> [] \<and> hd s \<noteq> CHR ''.'' \<and> length s \<le> 128 \<and> list_all name_char s)"
proof -
  have nc: "name_char = (\<lambda>c. is_ascii_alphanumeric c \<or> c \<in> {CHR ''.'', CHR ''_'', CHR ''-''})"
    by (auto simp: name_char_def fun_eq_iff)
  have no_slash: "\<not> name_char (CHR ''/'')" by (simp add: name_char_def ascii_defs)
  then have "list_all name_char s \<Longrightarrow> CHR ''/'' \<notin> set s" by (auto simp: list_all_iff)
  then show ?thesis
    unfolding validated_apparmor_profile_def Let_def starts_with_char APPARMOR_PROFILE_NAME_MAX_def nc
    by (auto simp: not_less)
qed

lemma check_port_Inr: "check_port d s p = Inr t \<longleftrightarrow>
    t = s \<and> (\<exists>n. parse_uint u32_max d = Some n \<and> 1 \<le> n \<and> n \<le> 65535)"
  by (auto simp: check_port_def split: option.splits)

definition port_number :: "str \<Rightarrow> bool" where
  "port_number d \<longleftrightarrow> list_all is_ascii_digit d \<and>
     (\<exists>n. parse_uint u32_max d = Some n \<and> 1 \<le> n \<and> n \<le> 65535)"

lemma validated_port_or_service_Inr:
  assumes "validated_port_or_service s p = Inr t"
  shows "t = s \<and> s \<noteq> [] \<and>
     ((\<exists>port. port_number port \<and> (s = port @ ''/tcp'' \<or> s = port @ ''/udp'')) \<or> port_number s \<or>
      is_ascii_alphabetic (hd s) \<and> length s \<le> 64 \<and>
        list_all (\<lambda>c. is_ascii_alphanumeric c \<or> c \<in> {CHR ''_'', CHR ''-''}) s)"
proof (cases "split_once (CHR ''/'') s")
  case None
  with assms show ?thesis
    by (auto simp: validated_port_or_service_def check_port_Inr UFW_APP_NAME_MAX_def port_number_def
        split: if_splits)
next
  case (Some pq)
  then obtain port proto where pq: "split_once (CHR ''/'') s = Some (port, proto)" by (cases pq) auto
  then have s: "s = port @ CHR ''/'' # proto" by (simp add: split_once_Some)
  from assms pq have "t = s" "proto = ''tcp'' \<or> proto = ''udp''" "port_number port"
    by (auto simp: validated_port_or_service_def check_port_Inr port_number_def split: if_splits)
  with s show ?thesis by auto
qed

section \<open>What the readers accept\<close>

lemma require_str_Inr [valid_simps]: "require_str ps k = Inr s \<longleftrightarrow> json_get ps k = Some (JString s)"
  by (auto simp: require_str_def result_simps split: option.splits)

lemma resolve_username_Inr [valid_simps]:
  "resolve_username ps = Inr s \<longleftrightarrow> json_get ps ''username'' = Some (JString s) \<or>
     json_get ps ''username'' = None \<and> json_get ps ''user'' = Some (JString s)"
  by (auto simp: resolve_username_def result_simps split: option.splits)

lemma validated_repo_id_Inr [valid_simps]:
  "validated_repo_id ps = Inr s \<longleftrightarrow> json_get ps ''repo_id'' = Some (JString s) \<and> s \<noteq> [] \<and>
     list_all (\<lambda>c. is_ascii_alphanumeric c \<or> c = CHR ''-'' \<or> c = CHR ''_'') s"
  by (auto simp: validated_repo_id_def result_simps valid_simps)

lemma validated_no_newline_Inr [valid_simps]:
  "validated_no_newline ps k = Inr s \<longleftrightarrow> json_get ps k = Some (JString s) \<and>
     CHR 0x0A \<notin> set s \<and> CHR 0x0D \<notin> set s"
  by (auto simp: validated_no_newline_def result_simps valid_simps)

lemma validated_public_key_Inr [valid_simps]:
  "validated_public_key s = Inr t \<longleftrightarrow> t = s \<and> s \<noteq> [] \<and> length s \<le> 8192 \<and>
     list_ex (\<lambda>p. starts_with s p) public_key_prefixes \<and> list_all (\<lambda>c. \<not> public_key_forbidden c) s"
  by (auto simp: validated_public_key_def list_all_iff list_ex_iff)

lemma require_bool_Inr [valid_simps]: "require_bool ps k = Inr b \<longleftrightarrow> json_get ps k = Some (JBool b)"
  by (auto simp: require_bool_def result_simps split: option.splits)

lemma require_u32_Inr [valid_simps]:
  "require_u32 ps k = Inr n \<longleftrightarrow>
     (\<exists>m. json_get ps k = Some (JNumber (PosInt m)) \<and> unat m \<le> u32_max \<and> n = ucast m)"
  by (auto simp: require_u32_def u32_try_from_def result_simps split: option.splits)

lemma require_positive_u32_Inr [valid_simps]:
  "require_positive_u32 ps k = Inr n \<longleftrightarrow> require_u32 ps k = Inr n \<and> n \<noteq> 0"
  by (auto simp: require_positive_u32_def result_simps)

lemma str_array_or_empty_Inr [valid_simps]:
  "str_array_or_empty ps k = Inr xs \<longleftrightarrow>
     (xs = [] \<and> json_get ps k \<in> {None, Some JNull}) \<or> json_get ps k = Some (JArray (map JString xs))"
proof -
  have "map_result (\<lambda>v. ok_or (as_str v) (InvalidParam k)) arr = Inr xs \<longleftrightarrow> arr = map JString xs" for arr
    by (induction arr arbitrary: xs) (auto simp: result_simps)
  then show ?thesis
    by (auto simp: str_array_or_empty_def split: option.splits json.splits)
qed

section \<open>Shell safety\<close>

lemma name_char_safe: "name_char c \<Longrightarrow> safe_arg_char c"
  by (auto simp: name_char_def safe_arg_char_def)

lemma name_chars_inert: "list_all name_char s \<Longrightarrow> shell_inert s"
  by (erule inert_intro) (rule name_char_safe)

lemma digits_inert: "list_all is_ascii_digit s \<Longrightarrow> shell_inert s"
  by (erule inert_intro) (simp add: safe_arg_char_def is_ascii_alphanumeric_def)

lemma port_inert: "port_number d \<Longrightarrow> shell_inert d"
  by (simp add: port_number_def digits_inert)

lemma proto_inert: "shell_inert ''/tcp''" "shell_inert ''/udp''"
  by (simp_all add: safe_arg_char_def ascii_defs)

lemma port_or_service_inert:
  assumes "validated_port_or_service s p = Inr t" shows "shell_inert t"
proof -
  from validated_port_or_service_Inr [OF assms] consider
      port where "port_number port" "t = port @ ''/tcp'' \<or> t = port @ ''/udp''"
    | "port_number t"
    | "list_all (\<lambda>c. is_ascii_alphanumeric c \<or> c \<in> {CHR ''_'', CHR ''-''}) t"
    by auto
  then show ?thesis
  proof cases
    case 1
    with port_inert proto_inert show ?thesis by fastforce
  next
    case 2
    then show ?thesis by (rule port_inert)
  next
    case 3
    then show ?thesis by (rule inert_intro) (auto simp: safe_arg_char_def)
  qed
qed

lemma ppa_inert: "validated_ppa_name s p = Inr t \<Longrightarrow> shell_inert t"
  by (auto simp: validated_ppa_name_Inr name_chars_inert safe_arg_char_def [of "CHR ''/''"])

lemma validated_inert:
  "validated_username s p = Inr t \<Longrightarrow> shell_inert t"
  "validated_group s p = Inr t \<Longrightarrow> shell_inert t"
  "validated_unit_name s p = Inr t \<Longrightarrow> shell_inert t"
  "validated_hostname s p = Inr t \<Longrightarrow> shell_inert t"
  "validated_timezone s p = Inr t \<Longrightarrow> shell_inert t"
  "validated_locale s p = Inr t \<Longrightarrow> shell_inert t"
  "validated_safe_arg s p = Inr t \<Longrightarrow> shell_inert t"
  by (auto simp: valid_simps intro: name_chars_inert)
     (erule inert_intro, auto simp: safe_arg_char_def)+

end
