(* ===== verification/Ip_Addr.thy ===== *)
theory Ip_Addr
  imports Validate
begin

text \<open>
  \<open>std::net::IpAddr\<close>: the parser behind \<open>IpAddr::from_str\<close> (dotted quads without leading zeros,
  colon-separated groups with one \<open>::\<close> and an optional embedded quad at the end) and the
  canonical rendering of \<open>to_string\<close>. The lemmas bound the alphabet of what is parsed and rendered.
\<close>

datatype ip_addr = V4 nat nat nat nat | V6 "nat list"

section \<open>Parsing\<close>

definition hex_digit_val :: "char \<Rightarrow> nat" where
  "hex_digit_val c = (if is_ascii_digit c then byte_of c - 48
     else if is_ascii_lowercase c then byte_of c - 87 else byte_of c - 55)"

text \<open>\<open>read_number\<close>: the digits up to the first other character; too many digits, a value above the
  type's maximum and, where not allowed, a leading zero are errors.\<close>

definition read_number ::
    "nat \<Rightarrow> (char \<Rightarrow> bool) \<Rightarrow> nat \<Rightarrow> nat \<Rightarrow> bool \<Rightarrow> str \<Rightarrow> (nat \<times> str) option" where
  "read_number radix digit max_digits max_val allow_zero_prefix s =
    (let ds = takeWhile digit s; v = foldl (\<lambda>a c. a * radix + hex_digit_val c) 0 ds
     in if ds = [] \<or> length ds > max_digits \<or> v > max_val \<or>
           (\<not> allow_zero_prefix \<and> hd ds = CHR ''0'' \<and> length ds > 1)
        then None else Some (v, drop (length ds) s))"

definition read_octet :: "str \<Rightarrow> (nat \<times> str) option" where
  "read_octet s = read_number 10 is_ascii_digit 3 255 False s"

definition read_hextet :: "str \<Rightarrow> (nat \<times> str) option" where
  "read_hextet s = read_number 16 is_ascii_hexdigit 4 65535 True s"

definition read_sep :: "char \<Rightarrow> nat \<Rightarrow> (str \<Rightarrow> ('a \<times> str) option) \<Rightarrow> str \<Rightarrow> ('a \<times> str) option" where
  "read_sep sep i inner s =
    (if i = 0 then inner s else if s \<noteq> [] \<and> hd s = sep then inner (tl s) else None)"

definition read_ipv4 :: "str \<Rightarrow> ((nat \<times> nat \<times> nat \<times> nat) \<times> str) option" where
  "read_ipv4 s =
    Option.bind (read_octet s) (\<lambda>(a, s).
    Option.bind (read_sep (CHR ''.'') 1 read_octet s) (\<lambda>(b, s).
    Option.bind (read_sep (CHR ''.'') 2 read_octet s) (\<lambda>(c, s).
    Option.bind (read_sep (CHR ''.'') 3 read_octet s) (\<lambda>(d, s).
    Some ((a, b, c, d), s)))))"

function read_groups :: "nat \<Rightarrow> nat \<Rightarrow> str \<Rightarrow> nat list \<times> bool \<times> str" where
  "read_groups limit i s =
    (if limit \<le> i then ([], False, s)
     else case (if i < limit - 1 then read_sep (CHR '':'') i read_ipv4 s else None) of
       Some ((a, b, c, d), r) \<Rightarrow> ([a * 256 + b, c * 256 + d], True, r)
     | None \<Rightarrow>
        (case read_sep (CHR '':'') i read_hextet s of
           None \<Rightarrow> ([], False, s)
         | Some (g, r) \<Rightarrow> (case read_groups limit (i + 1) r of (gs, v4, r') \<Rightarrow> (g # gs, v4, r'))))"
  by pat_completeness auto
termination by (relation "measure (\<lambda>(limit, i, s). limit - i)") auto

declare read_groups.simps [simp del]

definition read_ipv6 :: "str \<Rightarrow> (nat list \<times> str) option" where
  "read_ipv6 s =
    (case read_groups 8 0 s of (head, head_v4, r) \<Rightarrow>
       if length head = 8 then Some (head, r)
       else if head_v4 then None
       else if \<not> starts_with r ''::'' then None
       else (case read_groups (8 - (length head + 1)) 0 (drop 2 r) of (tail, _, r') \<Rightarrow>
          Some (head @ replicate (8 - length head - length tail) 0 @ tail, r')))"

definition parse_ip :: "str \<Rightarrow> ip_addr option" where
  "parse_ip s =
    (case (case read_ipv4 s of
             Some ((a, b, c, d), r) \<Rightarrow> Some (V4 a b c d, r)
           | None \<Rightarrow> map_option (\<lambda>(gs, r). (V6 gs, r)) (read_ipv6 s)) of
       Some (ip, []) \<Rightarrow> Some ip
     | _ \<Rightarrow> None)"

section \<open>Rendering\<close>

fun show_hex :: "nat \<Rightarrow> str" where
  "show_hex n = (if n < 16 then [hex_char n] else show_hex (n div 16) @ [hex_char (n mod 16)])"

declare show_hex.simps [simp del]

definition show_v4 :: "nat \<Rightarrow> nat \<Rightarrow> nat \<Rightarrow> nat \<Rightarrow> str" where
  "show_v4 a b c d = join_with ''.'' [show_nat a, show_nat b, show_nat c, show_nat d]"

text \<open>The first longest run of zero groups, as start and length.\<close>

fun zero_run :: "nat list \<Rightarrow> nat \<Rightarrow> nat \<times> nat \<Rightarrow> nat \<times> nat \<Rightarrow> nat \<times> nat" where
  "zero_run [] i cur best = best"
| "zero_run (g # gs) i (st, len) (bst, blen) =
    (if g = 0 then
       (let cur = (if len = 0 then i else st, len + 1)
        in zero_run gs (i + 1) cur (if snd cur > blen then cur else (bst, blen)))
     else zero_run gs (i + 1) (0, 0) (bst, blen))"

definition show_v6 :: "nat list \<Rightarrow> str" where
  "show_v6 gs =
    (if length gs = 8 \<and> take 6 gs = [0, 0, 0, 0, 0, 65535] then
       ''::ffff:'' @ show_v4 (gs ! 6 div 256) (gs ! 6 mod 256) (gs ! 7 div 256) (gs ! 7 mod 256)
     else (case zero_run gs 0 (0, 0) (0, 0) of (st, len) \<Rightarrow>
       if len > 1 then
         join_with '':'' (map show_hex (take st gs)) @ ''::'' @ join_with '':'' (map show_hex (drop (st + len) gs))
       else join_with '':'' (map show_hex gs)))"

fun ip_to_string :: "ip_addr \<Rightarrow> str" where
  "ip_to_string (V4 a b c d) = show_v4 a b c d"
| "ip_to_string (V6 gs) = show_v6 gs"

section \<open>The alphabet\<close>

definition ip_char :: "char \<Rightarrow> bool" where
  "ip_char c = (is_ascii_hexdigit c \<or> c = CHR ''.'' \<or> c = CHR '':'')"

lemma ip_char_safe: "ip_char c \<Longrightarrow> safe_arg_char c"
  by (auto simp: ip_char_def safe_arg_char_def ascii_defs)

lemma ip_chars_inert: "list_all ip_char s \<Longrightarrow> shell_inert s"
  by (erule inert_intro) (rule ip_char_safe)

text \<open>A reader consumes a prefix of address characters.\<close>

definition reads_ip_chars :: "(str \<Rightarrow> ('a \<times> str) option) \<Rightarrow> bool" where
  "reads_ip_chars f \<longleftrightarrow> (\<forall>s v r. f s = Some (v, r) \<longrightarrow> (\<exists>u. s = u @ r \<and> list_all ip_char u \<and> u \<noteq> []))"

lemma reads_ip_charsD: "reads_ip_chars f \<Longrightarrow> f s = Some (v, r) \<Longrightarrow> \<exists>u. s = u @ r \<and> list_all ip_char u \<and> u \<noteq> []"
  by (auto simp: reads_ip_chars_def)

lemma reads_number:
  assumes "\<And>c. digit c \<Longrightarrow> is_ascii_hexdigit c"
  shows "reads_ip_chars (read_number radix digit md mv z)"
  unfolding reads_ip_chars_def
proof (intro allI impI)
  fix s v r
  assume "read_number radix digit md mv z s = Some (v, r)"
  then have "takeWhile digit s \<noteq> []" "r = drop (length (takeWhile digit s)) s"
    by (auto simp: read_number_def Let_def split: if_splits)
  moreover have "s = takeWhile digit s @ drop (length (takeWhile digit s)) s"
    by (simp flip: dropWhile_eq_drop)
  moreover have "list_all ip_char (takeWhile digit s)"
    using assms by (auto simp: list_all_iff ip_char_def dest!: set_takeWhileD)
  ultimately show "\<exists>u. s = u @ r \<and> list_all ip_char u \<and> u \<noteq> []" by metis
qed

lemma reads_octet: "reads_ip_chars read_octet"
  unfolding read_octet_def [abs_def] by (rule reads_number) (simp add: is_ascii_hexdigit_def)

lemma reads_hextet: "reads_ip_chars read_hextet"
  unfolding read_hextet_def [abs_def] by (rule reads_number)

lemma reads_sep: "reads_ip_chars f \<Longrightarrow> ip_char sep \<Longrightarrow> reads_ip_chars (read_sep sep i f)"
  unfolding reads_ip_chars_def read_sep_def
proof (intro allI impI)
  fix s v r
  assume f: "\<forall>s v r. f s = Some (v, r) \<longrightarrow> (\<exists>u. s = u @ r \<and> list_all ip_char u \<and> u \<noteq> [])"
    and sep: "ip_char sep"
    and s: "(if i = 0 then f s else if s \<noteq> [] \<and> hd s = sep then f (tl s) else None) = Some (v, r)"
  show "\<exists>u. s = u @ r \<and> list_all ip_char u \<and> u \<noteq> []"
  proof (cases "i = 0")
    case False
    with s f obtain u where "s \<noteq> []" "hd s = sep" "tl s = u @ r" "list_all ip_char u"
      by (auto split: if_splits)
    with sep have "s = (sep # u) @ r \<and> list_all ip_char (sep # u) \<and> sep # u \<noteq> []"
      by (cases s) auto
    then show ?thesis by blast
  qed (use f s in auto)
qed

lemma reads_append:
  "s = u @ r \<Longrightarrow> r = u' @ r' \<Longrightarrow> list_all ip_char u \<Longrightarrow> list_all ip_char u' \<Longrightarrow> u \<noteq> [] \<Longrightarrow>
     \<exists>w. s = w @ r' \<and> list_all ip_char w \<and> w \<noteq> []"
  by (rule exI [of _ "u @ u'"]) simp

lemma ip_char_seps: "ip_char (CHR ''.'')" "ip_char (CHR '':'')"
  by (simp_all add: ip_char_def)

lemma reads_ipv4: "reads_ip_chars read_ipv4"
  unfolding reads_ip_chars_def
proof (intro allI impI)
  fix s v r
  assume "read_ipv4 s = Some (v, r)"
  then obtain a s1 b s2 c s3 d where *:
      "read_octet s = Some (a, s1)" "read_sep (CHR ''.'') 1 read_octet s1 = Some (b, s2)"
      "read_sep (CHR ''.'') 2 read_octet s2 = Some (c, s3)" "read_sep (CHR ''.'') 3 read_octet s3 = Some (d, r)"
    by (auto simp: read_ipv4_def Option.bind_eq_Some_conv)
  note seps = reads_sep [OF reads_octet ip_char_seps(1)]
  from reads_ip_charsD [OF reads_octet *(1)] reads_ip_charsD [OF seps *(2)]
    reads_ip_charsD [OF seps *(3)] reads_ip_charsD [OF seps *(4)]
  show "\<exists>u. s = u @ r \<and> list_all ip_char u \<and> u \<noteq> []"
    by (elim exE conjE) (rule exI, rule conjI, simp only: append_assoc [symmetric], simp)
qed

lemma read_groups_chars:
  "read_groups limit i s = (gs, v4, r) \<Longrightarrow> \<exists>u. s = u @ r \<and> list_all ip_char u"
proof (induction limit i s arbitrary: gs v4 r rule: read_groups.induct)
  case (1 limit i s)
  let ?v4 = "if i < limit - 1 then read_sep (CHR '':'') i read_ipv4 s else None"
  show ?case
  proof (cases "limit \<le> i")
    case True
    with 1(2) show ?thesis by (auto simp: read_groups.simps [of limit i s])
  next
    case nle: False
    show ?thesis
    proof (cases ?v4)
      case (Some q)
      then have "read_sep (CHR '':'') i read_ipv4 s = Some q" by (auto split: if_splits)
      with reads_ip_charsD [OF reads_sep [OF reads_ipv4 ip_char_seps(2)], of i s "fst q" "snd q"]
      obtain u where "s = u @ snd q" "list_all ip_char u" by auto
      moreover from 1(2) nle Some have "r = snd q"
        by (cases q) (auto simp: read_groups.simps [of limit i s] split: prod.splits)
      ultimately show ?thesis by blast
    next
      case None
      show ?thesis
      proof (cases "read_sep (CHR '':'') i read_hextet s")
        case none2: None
        with 1(2) nle None show ?thesis by (auto simp: read_groups.simps [of limit i s])
      next
        case (Some q)
        obtain g r1 where q: "q = (g, r1)" by (cases q)
        from reads_ip_charsD [OF reads_sep [OF reads_hextet ip_char_seps(2)] Some [unfolded q]]
        obtain u where u: "s = u @ r1" "list_all ip_char u" by auto
        obtain gs' v4' r' where rec: "read_groups limit (i + 1) r1 = (gs', v4', r')"
          by (cases "read_groups limit (i + 1) r1") auto
        with 1(2) nle None Some q have "r = r'"
          by (simp add: read_groups.simps [of limit i s])
        with 1(1) [OF nle None Some q [symmetric] rec] u obtain u' where "r1 = u' @ r" "list_all ip_char u'" by auto
        with u show ?thesis by (intro exI [of _ "u @ u'"]) simp
      qed
    qed
  qed
qed

lemma mapped_prefix_ip_chars: "list_all ip_char ''::ffff:''" "list_all ip_char ''::''"
  by (simp_all add: ip_char_def ascii_defs)

lemma parse_ip_chars: "parse_ip s = Some ip \<Longrightarrow> list_all ip_char s"
proof -
  assume p: "parse_ip s = Some ip"
  show "list_all ip_char s"
  proof (cases "read_ipv4 s")
    case (Some q)
    with p have "read_ipv4 s = Some (fst q, [])"
      by (cases q) (auto simp: parse_ip_def split: list.splits)
    from reads_ip_charsD [OF reads_ipv4 this] show ?thesis by auto
  next
    case None
    with p obtain gs where v6: "read_ipv6 s = Some (gs, [])"
      by (auto simp: parse_ip_def split: option.splits list.splits prod.splits)
    obtain head v4 r where h: "read_groups 8 0 s = (head, v4, r)" by (cases "read_groups 8 0 s") auto
    obtain u where u: "s = u @ r" "list_all ip_char u" using read_groups_chars [OF h] by blast
    show ?thesis
    proof (cases "length head = 8")
      case True
      with v6 h u show ?thesis by (simp add: read_ipv6_def)
    next
      case False
      with v6 h have r: "starts_with r ''::''"
        by (auto simp: read_ipv6_def split: if_splits)
      obtain tail v4' r' where t: "read_groups (8 - (length head + 1)) 0 (drop 2 r) = (tail, v4', r')"
        by (cases "read_groups (8 - (length head + 1)) 0 (drop 2 r)") auto
      with v6 h False have "r' = []" by (auto simp: read_ipv6_def split: if_splits)
      with read_groups_chars [OF t] have "list_all ip_char (drop 2 r)" by auto
      moreover from r have "r = ''::'' @ drop 2 r" by (auto simp: starts_with_def prefix_def)
      ultimately have "list_all ip_char r"
        by (metis list_all_append mapped_prefix_ip_chars(2))
      with u show ?thesis by simp
    qed
  qed
qed

lemma digit_ip_char: "is_ascii_digit c \<Longrightarrow> ip_char c"
  by (simp add: ip_char_def is_ascii_hexdigit_def)

lemma show_nat_ip_chars: "list_all ip_char (show_nat n)"
  by (auto simp: list_all_iff intro: digit_ip_char show_nat_digits)

lemma hex_char_ip_char: "n < 16 \<Longrightarrow> ip_char (hex_char n)"
  by (auto simp: ip_char_def hex_char_def ascii_defs)

lemma show_hex_ip_chars: "list_all ip_char (show_hex n)"
  by (induction n rule: show_hex.induct)
     (subst show_hex.simps, simp add: hex_char_ip_char)

lemma join_ip_chars: "list_all ip_char d \<Longrightarrow> list_all (list_all ip_char) xs \<Longrightarrow> list_all ip_char (join_with d xs)"
  by (induction d xs rule: join_with.induct) auto

lemma show_v4_ip_chars: "list_all ip_char (show_v4 a b c d)"
  unfolding show_v4_def by (rule join_ip_chars) (simp_all add: ip_char_seps show_nat_ip_chars)

lemma show_hexes_ip_chars: "list_all ip_char (join_with '':'' (map show_hex gs))"
  by (rule join_ip_chars) (simp_all add: ip_char_seps show_hex_ip_chars list_all_iff [of "list_all ip_char"])

lemma show_v6_ip_chars: "list_all ip_char (show_v6 gs)"
  unfolding show_v6_def
  by (simp add: show_v4_ip_chars show_hexes_ip_chars mapped_prefix_ip_chars
      del: list.pred_inject append.append_Cons split: prod.split)

lemma ip_to_string_chars: "list_all ip_char (ip_to_string ip)"
  by (cases ip) (simp_all add: show_v4_ip_chars show_v6_ip_chars)

lemma ip_string_not_flag: "list_all ip_char s \<Longrightarrow> \<not> starts_with s ''-''"
  by (cases s) (auto simp: starts_with_def ip_char_def ascii_defs)

end
