(* ===== verification/Actions.thy ===== *)
theory Actions
  imports Sys_Types Validate Ip_Addr
begin

text \<open>
  What an action is to the daemon (\<open>actions/mod.rs\<close>): a name, a mechanism (a command line or an edit of
  one file), a risk level and two flags. The last section holds the notion of shell safety used for the
  actions that run a script: \<open>shell_operators\<close> is the part of a script that a shell can read as
  anything but plain words, namely the active characters outside single quotes.
\<close>

section \<open>Mechanisms and specifications\<close>

datatype mechanism =
    Command str "str list"
  | FileScan str
  | FileWrite str str
  | FilePatch str str str
  | FileDelete str

record action_spec =
  sp_action_name :: str
  sp_mechanism :: mechanism
  sp_risk_level :: risk_level
  sp_reboot_required :: bool
  sp_rollback_available :: bool

definition action :: "str \<Rightarrow> mechanism \<Rightarrow> risk_level \<Rightarrow> bool \<Rightarrow> bool \<Rightarrow> action_spec" where
  "action name mech risk reboot rollback =
    \<lparr>sp_action_name = name, sp_mechanism = mech, sp_risk_level = risk,
     sp_reboot_required = reboot, sp_rollback_available = rollback\<rparr>"

lemma action_sel [simp]:
  "sp_action_name (action n m r b k) = n"
  "sp_mechanism (action n m r b k) = m"
  "sp_risk_level (action n m r b k) = r"
  "sp_reboot_required (action n m r b k) = b"
  "sp_rollback_available (action n m r b k) = k"
  by (simp_all add: action_def)

definition command_mechanism :: "str \<Rightarrow> str list \<Rightarrow> mechanism" where
  "command_mechanism program args = Command program args"

definition file_write_mechanism :: "str \<Rightarrow> str \<Rightarrow> mechanism" where
  "file_write_mechanism path content = FileWrite path content"

definition file_patch_mechanism :: "str \<Rightarrow> str \<Rightarrow> str \<Rightarrow> mechanism" where
  "file_patch_mechanism path search rep = FilePatch path search rep"

definition file_scan_mechanism :: "str \<Rightarrow> mechanism" where
  "file_scan_mechanism path = FileScan path"

definition file_delete_mechanism :: "str \<Rightarrow> mechanism" where
  "file_delete_mechanism path = FileDelete path"

lemmas mechanism_defs = command_mechanism_def file_write_mechanism_def file_patch_mechanism_def
  file_scan_mechanism_def file_delete_mechanism_def

section \<open>Scripts\<close>

text \<open>The scripts put parameters between single quotes.\<close>

definition quoted :: "str \<Rightarrow> str" where
  "quoted s = [CHR 0x27] @ s @ [CHR 0x27]"

text \<open>The characters of a script outside single quotes, and whether it ends inside one.\<close>

fun scan_quotes :: "bool \<Rightarrow> str \<Rightarrow> bool \<times> str" where
  "scan_quotes q [] = (q, [])"
| "scan_quotes q (c # s) =
    (if c = CHR 0x27 then scan_quotes (\<not> q) s
     else if q then scan_quotes q s
     else (case scan_quotes q s of (q', t) \<Rightarrow> (q', c # t)))"

text \<open>What a shell reads as more than plain words: everything outside quotes but blanks and characters
  that are inert. A script with an unclosed quote has no reading.\<close>

definition shell_operators :: "str \<Rightarrow> str option" where
  "shell_operators script =
    (case scan_quotes False script of
       (True, _) \<Rightarrow> None
     | (False, t) \<Rightarrow> Some (filter (\<lambda>c. \<not> safe_arg_char c \<and> c \<noteq> CHR '' '') t))"

text \<open>The script of a command line: the argument of \<open>bash -c\<close>, \<open>sudo sh -c\<close> or
  \<open>sudo runuser -l user -c\<close>. Every other program gets its arguments verbatim.\<close>

definition command_script :: "str \<Rightarrow> str list \<Rightarrow> str option" where
  "command_script program args =
    (if program = ''bash'' \<and> take 1 args = [''-c''] then Some (args ! 1)
     else if program = ''sudo'' \<and> take 2 args = [''sh'', ''-c''] then Some (args ! 2)
     else if program = ''sudo'' \<and> take 2 args = [''runuser'', ''-l''] \<and> drop 3 (take 4 args) = [''-c'']
     then Some (args ! 4)
     else None)"

definition shell_script :: "action_spec \<Rightarrow> str option" where
  "shell_script spec =
    (case sp_mechanism spec of Command program args \<Rightarrow> command_script program args | _ \<Rightarrow> None)"

lemma scan_quotes_append:
  "scan_quotes q (s @ t) = (case scan_quotes q s of (q1, u) \<Rightarrow> case scan_quotes q1 t of (q2, v) \<Rightarrow> (q2, u @ v))"
  by (induction q s rule: scan_quotes.induct) (auto split: prod.splits)

lemma scan_quotes_plain: "CHR 0x27 \<notin> set s \<Longrightarrow> scan_quotes q s = (q, if q then [] else s)"
  by (induction q s rule: scan_quotes.induct) (auto split: prod.splits)

lemma scan_quotes_quoted [simp]: "CHR 0x27 \<notin> set s \<Longrightarrow> scan_quotes False (quoted s) = (False, [])"
  by (simp add: quoted_def scan_quotes_append scan_quotes_plain)

text \<open>A script is put together from pieces that start and end outside quotes; its operators are those of
  the pieces.\<close>

definition piece_ops :: "str \<Rightarrow> str \<Rightarrow> bool" where
  "piece_ops s ops \<longleftrightarrow> shell_operators s = Some ops"

lemma piece_append: "piece_ops s a \<Longrightarrow> piece_ops t b \<Longrightarrow> piece_ops (s @ t) (a @ b)"
  by (auto simp: piece_ops_def shell_operators_def scan_quotes_append split: prod.splits bool.splits)

lemma piece_quoted: "CHR 0x27 \<notin> set s \<Longrightarrow> piece_ops (quoted s) []"
  by (simp add: piece_ops_def shell_operators_def)

lemma piece_plain: "CHR 0x27 \<notin> set s \<Longrightarrow>
  piece_ops s (filter (\<lambda>c. \<not> safe_arg_char c \<and> c \<noteq> CHR '' '') s)"
  by (simp add: piece_ops_def shell_operators_def scan_quotes_plain)

lemma inert_no_quote: "shell_inert s \<Longrightarrow> CHR 0x27 \<notin> set s"
  by (auto simp: list_all_iff safe_arg_char_def ascii_defs)

lemma piece_inert: "shell_inert s \<Longrightarrow> piece_ops s []"
  using piece_plain [OF inert_no_quote] by (simp add: filter_False list_all_iff)

end
