(* ===== verification/Actions_Fedora.thy ===== *)
theory Actions_Fedora
  imports Actions
begin

text \<open>
  The constructors of the rpm-ostree deployment and layering actions, of the package repositories and of
  the per-user Flatpak, Podman and Toolbox actions, one definition per function of \<open>actions/*.rs\<close>.
\<close>

section \<open>deployment.rs\<close>

definition get_system_state :: "action_spec" where
  "get_system_state =
    action ''GetSystemState'' (command_mechanism ''rpm-ostree'' [''status'', ''--json'']) Low False False"

definition collect_diagnostics :: "action_spec" where
  "collect_diagnostics =
    action ''CollectDiagnostics''
      (command_mechanism ''journalctl'' [''-b'', ''-n'', ''500'', ''--no-pager''])
      Low False False"

definition get_deployment_history :: "action_spec" where
  "get_deployment_history =
    action ''GetDeploymentHistory'' (command_mechanism ''rpm-ostree'' [''status'', ''--json'']) Low False False"

definition list_deployments :: "action_spec" where
  "list_deployments =
    action ''ListDeployments'' (command_mechanism ''rpm-ostree'' [''status'', ''--json'']) Low False False"

definition update_system :: "action_spec" where
  "update_system =
    action ''UpdateSystem'' (command_mechanism ''sudo'' [''rpm-ostree'', ''upgrade'']) High True True"

definition pin_deployment :: "32 word \<Rightarrow> action_spec" where
  "pin_deployment index =
    action ''PinDeployment''
      (Command ''sudo'' [''ostree'', ''admin'', ''pin'', show_nat (unat index)])
      High False False"

definition unpin_deployment :: "32 word \<Rightarrow> action_spec" where
  "unpin_deployment index =
    action ''UnpinDeployment''
      (Command ''sudo'' [''ostree'', ''admin'', ''pin'', ''--unpin'', show_nat (unat index)])
      High False False"

definition rebase_system :: "str \<Rightarrow> action_spec" where
  "rebase_system target_ref =
    action ''RebaseSystem'' (command_mechanism ''sudo'' [''rpm-ostree'', ''rebase'', target_ref]) High True True"

definition cleanup_deployments :: "action_spec" where
  "cleanup_deployments =
    action ''CleanupDeployments''
      (command_mechanism ''sudo'' [''rpm-ostree'', ''cleanup'', ''--rollback'', ''--pending''])
      High False False"

definition reboot_system :: "action_spec" where
  "reboot_system =
    action ''RebootSystem'' (command_mechanism ''sudo'' [''systemctl'', ''reboot'']) High True False"

definition rollback_deployment :: "action_spec" where
  "rollback_deployment =
    action ''RollbackDeployment'' (command_mechanism ''sudo'' [''rpm-ostree'', ''rollback'']) High True False"

definition get_kernel_arguments :: "action_spec" where
  "get_kernel_arguments =
    action ''GetKernelArguments'' (command_mechanism ''rpm-ostree'' [''kargs'']) Low False False"

definition set_kernel_arguments :: "str list \<Rightarrow> str list \<Rightarrow> action_spec" where
  "set_kernel_arguments args_to_add args_to_remove =
    action ''SetKernelArguments''
      (Command ''sudo'' ([''rpm-ostree'', ''kargs''] @ map (\<lambda>a. ''--append='' @ a) args_to_add
       @ map (\<lambda>a. ''--delete='' @ a) args_to_remove))
      High True True"

lemmas deployment_defs =
  get_system_state_def collect_diagnostics_def get_deployment_history_def list_deployments_def
  update_system_def pin_deployment_def unpin_deployment_def rebase_system_def cleanup_deployments_def
  reboot_system_def rollback_deployment_def get_kernel_arguments_def set_kernel_arguments_def

section \<open>layering.rs\<close>

definition install_packages :: "str list \<Rightarrow> action_spec" where
  "install_packages packages =
    action ''InstallPackages''
      (command_mechanism ''sudo'' ([''rpm-ostree'', ''install'', ''--idempotent''] @ packages))
      High True True"

definition remove_packages :: "str list \<Rightarrow> action_spec" where
  "remove_packages packages =
    action ''RemovePackages''
      (command_mechanism ''sudo'' ([''rpm-ostree'', ''uninstall''] @ packages))
      High True True"

definition get_layered_packages :: "action_spec" where
  "get_layered_packages =
    action ''GetLayeredPackages'' (command_mechanism ''rpm-ostree'' [''status'', ''--json'']) Low False False"

definition add_layered_package :: "str \<Rightarrow> action_spec" where
  "add_layered_package package =
    action ''AddLayeredPackage''
      (command_mechanism ''sudo'' [''rpm-ostree'', ''install'', ''--idempotent'', package])
      High True True"

definition remove_layered_package :: "str \<Rightarrow> action_spec" where
  "remove_layered_package package =
    action ''RemoveLayeredPackage'' (command_mechanism ''sudo'' [''rpm-ostree'', ''uninstall'', package]) High True True"

definition replace_layered_package :: "str \<Rightarrow> str \<Rightarrow> action_spec" where
  "replace_layered_package old new =
    action ''ReplaceLayeredPackage''
      (command_mechanism ''sudo'' [''rpm-ostree'', ''install'', new, ''--uninstall'', old])
      High True True"

definition remove_base_package :: "str \<Rightarrow> action_spec" where
  "remove_base_package package =
    action ''RemoveBasePackage''
      (command_mechanism ''sudo'' [''rpm-ostree'', ''override'', ''remove'', package])
      High True True"

definition get_pending_updates :: "action_spec" where
  "get_pending_updates =
    action ''GetPendingUpdates'' (command_mechanism ''rpm-ostree'' [''upgrade'', ''--check'']) Low False False"

definition reset_layered_package_override :: "action_spec" where
  "reset_layered_package_override =
    action ''ResetLayeredPackageOverride''
      (command_mechanism ''sudo'' [''rpm-ostree'', ''override'', ''reset'', ''--all''])
      High True True"

lemmas layering_defs =
  install_packages_def remove_packages_def get_layered_packages_def add_layered_package_def
  remove_layered_package_def replace_layered_package_def remove_base_package_def
  get_pending_updates_def reset_layered_package_override_def

section \<open>layering_ubuntu.rs\<close>

definition install_package_apt :: "str \<Rightarrow> action_spec" where
  "install_package_apt package =
    action ''AddLayeredPackage'' (command_mechanism ''sudo'' [''apt-get'', ''install'', ''-y'', package]) High False False"

definition remove_package_apt :: "str \<Rightarrow> action_spec" where
  "remove_package_apt package =
    action ''RemoveLayeredPackage'' (command_mechanism ''sudo'' [''apt-get'', ''remove'', ''-y'', package]) High False False"

definition install_packages_apt :: "str list \<Rightarrow> action_spec" where
  "install_packages_apt packages =
    action ''InstallPackages'' (Command ''sudo'' ([''apt-get'', ''install'', ''-y''] @ packages)) High False False"

definition remove_packages_apt :: "str list \<Rightarrow> action_spec" where
  "remove_packages_apt packages =
    action ''RemovePackages'' (Command ''sudo'' ([''apt-get'', ''remove'', ''-y''] @ packages)) High False False"

lemmas layering_ubuntu_defs =
  install_package_apt_def remove_package_apt_def install_packages_apt_def remove_packages_apt_def

section \<open>package_repos.rs\<close>

definition list_package_repositories :: "action_spec" where
  "list_package_repositories =
    action ''ListPackageRepositories'' (file_scan_mechanism ''/etc/yum.repos.d'') Low False False"

definition add_package_repository :: "str \<Rightarrow> str \<Rightarrow> action_spec" where
  "add_package_repository repo_id repo_url =
    action ''AddPackageRepository''
      (file_write_mechanism (''/etc/yum.repos.d/'' @ repo_id @ ''.repo'')
       (''['' @ repo_id @ '']'' @ [CHR 0x0A] @ ''baseurl='' @ repo_url @ [CHR 0x0A] @ ''enabled=1'' @ [CHR 0x0A]))
      High False False"

definition remove_package_repository :: "str \<Rightarrow> action_spec" where
  "remove_package_repository repo_id =
    action ''RemovePackageRepository'' (file_delete_mechanism (''/etc/yum.repos.d/'' @ repo_id @ ''.repo'')) Medium False False"

definition enable_package_repository :: "str \<Rightarrow> action_spec" where
  "enable_package_repository repo_id =
    action ''EnablePackageRepository''
      (file_patch_mechanism (''/etc/yum.repos.d/'' @ repo_id @ ''.repo'') ''enabled=0'' ''enabled=1'')
      Medium False False"

definition disable_package_repository :: "str \<Rightarrow> action_spec" where
  "disable_package_repository repo_id =
    action ''DisablePackageRepository''
      (file_patch_mechanism (''/etc/yum.repos.d/'' @ repo_id @ ''.repo'') ''enabled=1'' ''enabled=0'')
      Medium False False"

lemmas package_repos_defs =
  list_package_repositories_def add_package_repository_def remove_package_repository_def
  enable_package_repository_def disable_package_repository_def

section \<open>flatpak.rs\<close>

definition flatpak_as :: "str \<Rightarrow> str list \<Rightarrow> mechanism" where
  "flatpak_as username args =
    Command ''sudo'' ([''runuser'', ''-u'', username, ''--'', ''flatpak''] @ args)"

definition install_flatpak :: "str \<Rightarrow> str \<Rightarrow> str \<Rightarrow> action_spec" where
  "install_flatpak username app_id remote =
    action ''InstallFlatpak'' (flatpak_as username [''install'', ''--user'', ''-y'', remote, app_id]) Medium False False"

definition remove_flatpak :: "str \<Rightarrow> str \<Rightarrow> action_spec" where
  "remove_flatpak username app_id =
    action ''RemoveFlatpak'' (flatpak_as username [''uninstall'', ''--user'', ''-y'', app_id]) Medium False False"

definition search_flatpak_apps :: "str \<Rightarrow> action_spec" where
  "search_flatpak_apps term =
    action ''SearchFlatpakApps'' (command_mechanism ''flatpak'' [''search'', term]) Low False False"

definition list_flatpak_remotes :: "str \<Rightarrow> action_spec" where
  "list_flatpak_remotes username =
    action ''ListFlatpakRemotes'' (flatpak_as username [''remotes'', ''--user'', ''--columns=name,url'']) Low False False"

definition add_flatpak_remote :: "str \<Rightarrow> str \<Rightarrow> str \<Rightarrow> action_spec" where
  "add_flatpak_remote username remote url =
    action ''AddFlatpakRemote''
      (flatpak_as username [''remote-add'', ''--user'', ''--if-not-exists'', remote, url])
      Medium False False"

definition remove_flatpak_remote :: "str \<Rightarrow> str \<Rightarrow> action_spec" where
  "remove_flatpak_remote username remote =
    action ''RemoveFlatpakRemote'' (flatpak_as username [''remote-delete'', ''--user'', remote]) Medium False False"

definition list_installed_flatpaks :: "str \<Rightarrow> action_spec" where
  "list_installed_flatpaks username =
    action ''ListInstalledFlatpaks''
      (flatpak_as username [''list'', ''--user'', ''--app'', ''--columns=application,name,version,origin''])
      Low False False"

definition update_flatpak :: "str \<Rightarrow> str option \<Rightarrow> action_spec" where
  "update_flatpak username app_id =
    action ''UpdateFlatpak''
      (case app_id of Some i \<Rightarrow> flatpak_as username [''update'', ''--user'', ''-y'', i]
       | None \<Rightarrow> flatpak_as username [''update'', ''--user'', ''-y''])
      Medium False False"

definition get_flatpak_app_info :: "str \<Rightarrow> str \<Rightarrow> action_spec" where
  "get_flatpak_app_info username app_id =
    action ''GetFlatpakAppInfo'' (flatpak_as username [''info'', ''--user'', app_id]) Low False False"

definition ubuntu_install_flatpak :: "str \<Rightarrow> str \<Rightarrow> str \<Rightarrow> action_spec" where
  "ubuntu_install_flatpak username app_id remote =
    action ''UbuntuInstallFlatpak'' (flatpak_as username [''install'', ''--user'', ''-y'', remote, app_id]) Medium False False"

definition ubuntu_remove_flatpak :: "str \<Rightarrow> str \<Rightarrow> action_spec" where
  "ubuntu_remove_flatpak username app_id =
    action ''UbuntuRemoveFlatpak'' (flatpak_as username [''uninstall'', ''--user'', ''-y'', app_id]) Medium False False"

definition ubuntu_update_flatpak :: "str \<Rightarrow> str option \<Rightarrow> action_spec" where
  "ubuntu_update_flatpak username app_id =
    action ''UbuntuUpdateFlatpak''
      (case app_id of Some i \<Rightarrow> flatpak_as username [''update'', ''--user'', ''-y'', i]
       | None \<Rightarrow> flatpak_as username [''update'', ''--user'', ''-y''])
      Medium False False"

definition ubuntu_list_flatpaks :: "str \<Rightarrow> action_spec" where
  "ubuntu_list_flatpaks username =
    action ''UbuntuListFlatpaks''
      (flatpak_as username [''list'', ''--user'', ''--app'', ''--columns=application,name,version,origin''])
      Low False False"

lemmas flatpak_defs =
  flatpak_as_def install_flatpak_def remove_flatpak_def search_flatpak_apps_def
  list_flatpak_remotes_def add_flatpak_remote_def remove_flatpak_remote_def
  list_installed_flatpaks_def update_flatpak_def get_flatpak_app_info_def ubuntu_install_flatpak_def
  ubuntu_remove_flatpak_def ubuntu_update_flatpak_def ubuntu_list_flatpaks_def

section \<open>containers.rs\<close>

definition podman_as :: "str \<Rightarrow> str \<Rightarrow> mechanism" where
  "podman_as username podman_cmd =
    Command ''sudo'' [''runuser'', ''-l'', username, ''-c'', podman_cmd]"

definition list_containers :: "str \<Rightarrow> action_spec" where
  "list_containers username =
    action ''ListContainers''
      (command_mechanism ''sudo'' [''runuser'', ''-l'', username, ''-c'', ''podman ps --all --format json''])
      Low False False"

definition create_container :: "str \<Rightarrow> str \<Rightarrow> str \<Rightarrow> action_spec" where
  "create_container username name img =
    action ''CreateContainer''
      (podman_as username (''podman create --name '' @ quoted name @ '' '' @ quoted img))
      Medium False False"

definition start_container :: "str \<Rightarrow> str \<Rightarrow> action_spec" where
  "start_container username name =
    action ''StartContainer'' (podman_as username (''podman start '' @ quoted name)) Medium False False"

definition stop_container :: "str \<Rightarrow> str \<Rightarrow> action_spec" where
  "stop_container username name =
    action ''StopContainer'' (podman_as username (''podman stop '' @ quoted name)) Medium False False"

definition remove_container :: "str \<Rightarrow> str \<Rightarrow> action_spec" where
  "remove_container username name =
    action ''RemoveContainer'' (podman_as username (''podman rm '' @ quoted name)) Medium False False"

definition get_container_info :: "str \<Rightarrow> str \<Rightarrow> action_spec" where
  "get_container_info username name =
    action ''GetContainerInfo'' (podman_as username (''podman inspect '' @ quoted name)) Low False False"

lemmas containers_defs =
  podman_as_def list_containers_def create_container_def start_container_def stop_container_def
  remove_container_def get_container_info_def

section \<open>toolbox.rs\<close>

definition toolbox_as :: "str \<Rightarrow> str \<Rightarrow> mechanism" where
  "toolbox_as username toolbox_cmd =
    Command ''sudo'' [''runuser'', ''-l'', username, ''-c'',
       ''XDG_RUNTIME_DIR=/run/user/$(id -u) '' @ toolbox_cmd]"

definition list_toolboxes :: "str \<Rightarrow> action_spec" where
  "list_toolboxes username =
    action ''ListToolboxes'' (toolbox_as username ''toolbox list'') Low False False"

definition create_toolbox :: "str \<Rightarrow> str \<Rightarrow> str option \<Rightarrow> str option \<Rightarrow> action_spec" where
  "create_toolbox username name release img =
    action ''CreateToolbox''
      (toolbox_as username
       (''toolbox create --container '' @ quoted name
        @ (case release of Some r \<Rightarrow> '' --release '' @ quoted r | None \<Rightarrow> [])
        @ (case img of Some i \<Rightarrow> '' --image '' @ quoted i | None \<Rightarrow> [])))
      Medium False False"

definition remove_toolbox :: "str \<Rightarrow> str \<Rightarrow> action_spec" where
  "remove_toolbox username name =
    action ''RemoveToolbox'' (toolbox_as username (''toolbox rm '' @ quoted name)) Medium False False"

lemmas toolbox_defs =
  toolbox_as_def list_toolboxes_def create_toolbox_def remove_toolbox_def

end
