(* ===== verification/Actions_System.thy ===== *)
theory Actions_System
  imports Actions
begin

text \<open>
  The constructors of the service, identity, inspection, network, user, SSH and resolver actions.
\<close>

section \<open>services.rs\<close>

definition list_services :: "action_spec" where
  "list_services =
    action ''ListServices''
      (command_mechanism ''systemctl'' [''list-units'', ''--type=service'', ''--all'', ''--no-legend'', ''--no-pager''])
      Low False False"

definition start_service :: "str \<Rightarrow> action_spec" where
  "start_service unit =
    action ''StartService'' (command_mechanism ''sudo'' [''systemctl'', ''start'', unit]) Medium False False"

definition stop_service :: "str \<Rightarrow> action_spec" where
  "stop_service unit =
    action ''StopService'' (command_mechanism ''sudo'' [''systemctl'', ''stop'', unit]) Medium False False"

definition restart_service :: "str \<Rightarrow> action_spec" where
  "restart_service unit =
    action ''RestartService'' (command_mechanism ''sudo'' [''systemctl'', ''restart'', unit]) Medium False False"

definition set_service_enabled :: "str \<Rightarrow> bool \<Rightarrow> action_spec" where
  "set_service_enabled unit enabled =
    action ''SetServiceEnabled''
      (command_mechanism ''sudo'' [''systemctl'', if enabled then ''enable'' else ''disable'', unit])
      Medium False False"

definition mask_service :: "str \<Rightarrow> action_spec" where
  "mask_service unit =
    action ''MaskService'' (command_mechanism ''sudo'' [''systemctl'', ''mask'', unit]) High False False"

definition unmask_service :: "str \<Rightarrow> action_spec" where
  "unmask_service unit =
    action ''UnmaskService'' (command_mechanism ''sudo'' [''systemctl'', ''unmask'', unit]) Medium False False"

definition get_service_status :: "str \<Rightarrow> action_spec" where
  "get_service_status unit =
    action ''GetServiceStatus'' (command_mechanism ''systemctl'' [''status'', unit, ''--no-pager'']) Low False False"

definition reload_service :: "str \<Rightarrow> action_spec" where
  "reload_service unit =
    action ''ReloadService'' (command_mechanism ''sudo'' [''systemctl'', ''reload'', unit]) Medium False False"

definition list_timers :: "action_spec" where
  "list_timers =
    action ''ListTimers''
      (command_mechanism ''systemctl'' [''list-timers'', ''--all'', ''--no-legend'', ''--no-pager''])
      Low False False"

definition reload_daemon :: "action_spec" where
  "reload_daemon =
    action ''ReloadDaemon'' (command_mechanism ''sudo'' [''systemctl'', ''daemon-reload'']) Medium False False"

definition get_service_logs :: "str \<Rightarrow> action_spec" where
  "get_service_logs unit =
    action ''GetServiceLogs''
      (command_mechanism ''journalctl'' [''-u'', unit, ''-n'', ''200'', ''--no-pager''])
      Low False False"

lemmas services_defs =
  list_services_def start_service_def stop_service_def restart_service_def set_service_enabled_def
  mask_service_def unmask_service_def get_service_status_def reload_service_def list_timers_def
  reload_daemon_def get_service_logs_def

section \<open>identity.rs\<close>

definition get_datetime :: "action_spec" where
  "get_datetime =
    action ''GetDateTime'' (command_mechanism ''timedatectl'' []) Low False False"

definition set_hostname :: "str \<Rightarrow> action_spec" where
  "set_hostname hostname =
    action ''SetHostname''
      (command_mechanism ''sudo'' [''hostnamectl'', ''set-hostname'', hostname])
      Medium False False"

definition set_timezone :: "str \<Rightarrow> action_spec" where
  "set_timezone timezone =
    action ''SetTimezone''
      (command_mechanism ''sudo'' [''timedatectl'', ''set-timezone'', timezone])
      Medium False False"

definition set_locale :: "str \<Rightarrow> action_spec" where
  "set_locale locale =
    action ''SetLocale'' (command_mechanism ''sudo'' [''localectl'', ''set-locale'', locale]) Medium False False"

definition set_ntp :: "bool \<Rightarrow> action_spec" where
  "set_ntp enabled =
    action ''SetNtp''
      (command_mechanism ''sudo'' [''timedatectl'', ''set-ntp'', if enabled then ''true'' else ''false''])
      Medium False False"

lemmas identity_defs =
  get_datetime_def set_hostname_def set_timezone_def set_locale_def set_ntp_def

section \<open>filesystem.rs\<close>

definition disk_usage_spec :: "action_spec" where
  "disk_usage_spec =
    action ''GetDiskUsage''
      (command_mechanism ''df'' [''-h'', ''--output=source,fstype,size,used,avail,pcent,target'', ''--exclude-type=composefs'', ''--exclude-type=tmpfs'', ''--exclude-type=devtmpfs'', ''--exclude-type=efivarfs''])
      Low False False"

lemmas filesystem_defs =
  disk_usage_spec_def

section \<open>processes.rs\<close>

definition list_processes_spec :: "action_spec" where
  "list_processes_spec =
    action ''ListProcesses'' (command_mechanism ''ps'' [''aux'', ''--sort=-%mem'']) Low False False"

lemmas processes_defs =
  list_processes_spec_def

section \<open>system_info.rs\<close>

definition get_memory_info_spec :: "action_spec" where
  "get_memory_info_spec =
    action ''GetMemoryInfo'' (command_mechanism ''free'' [''-h'']) Low False False"

lemmas system_info_defs =
  get_memory_info_spec_def

section \<open>network.rs\<close>

definition configure_wifi :: "str \<Rightarrow> str option \<Rightarrow> action_spec" where
  "configure_wifi ssid password =
    action ''ConfigureWifi''
      (Command ''sudo'' ([''nmcli'', ''device'', ''wifi'', ''connect'', ssid]
       @ (case password of Some pw \<Rightarrow> [''password'', pw] | None \<Rightarrow> [])))
      Medium False False"

definition set_dns_servers :: "str \<Rightarrow> str list \<Rightarrow> action_spec" where
  "set_dns_servers interface servers =
    action ''SetDnsServers''
      (command_mechanism ''sudo'' ([''resolvectl'', ''dns'', interface] @ servers))
      High False False"

definition configure_firewall :: "str \<Rightarrow> str \<Rightarrow> bool \<Rightarrow> action_spec" where
  "configure_firewall zone service enabled =
    action ''ConfigureFirewall''
      (Command ''sudo'' [''sh'', ''-c'',
       ''firewall-cmd --permanent --zone='' @ quoted zone @ '' --'' @ (if enabled then ''add-service'' else ''remove-service'')
       @ ''='' @ quoted service @ '' && firewall-cmd --reload''])
      High False False"

definition get_firewall_state :: "action_spec" where
  "get_firewall_state =
    action ''GetFirewallState'' (command_mechanism ''firewall-cmd'' [''--list-all'']) Low False False"

definition get_network_status :: "action_spec" where
  "get_network_status =
    action ''GetNetworkStatus'' (command_mechanism ''ip'' [''-brief'', ''addr'']) Low False False"

lemmas network_defs =
  configure_wifi_def set_dns_servers_def configure_firewall_def get_firewall_state_def
  get_network_status_def

section \<open>users.rs\<close>

definition list_users :: "action_spec" where
  "list_users =
    action ''ListUsers'' (command_mechanism ''getent'' [''passwd'']) Low False False"

definition list_groups :: "action_spec" where
  "list_groups =
    action ''ListGroups'' (command_mechanism ''getent'' [''group'']) Low False False"

definition create_user :: "str \<Rightarrow> str option \<Rightarrow> str option \<Rightarrow> action_spec" where
  "create_user username shell home =
    action ''CreateUser''
      (Command ''sudo'' ([''useradd'', ''--create-home'']
       @ (case home of Some h \<Rightarrow> [''--home-dir'', h] | None \<Rightarrow> [])
       @ (case shell of Some s \<Rightarrow> [''--shell'', s] | None \<Rightarrow> [])
       @ [username]))
      High False False"

definition delete_user :: "str \<Rightarrow> action_spec" where
  "delete_user username =
    action ''DeleteUser'' (command_mechanism ''sudo'' [''userdel'', username]) High False False"

definition add_user_to_group :: "str \<Rightarrow> str \<Rightarrow> action_spec" where
  "add_user_to_group username grp =
    action ''AddUserToGroup''
      (command_mechanism ''sudo'' [''sh'', ''-c'',
       ''grep -q '' @ quoted (''^'' @ grp @ '':'') @ '' /etc/group || getent group '' @ quoted grp
       @ '' >> /etc/group; usermod --append --groups '' @ quoted grp @ '' '' @ quoted username])
      High False False"

definition remove_user_from_group :: "str \<Rightarrow> str \<Rightarrow> action_spec" where
  "remove_user_from_group username grp =
    action ''RemoveUserFromGroup''
      (command_mechanism ''sudo'' [''sh'', ''-c'',
       ''grep -q '' @ quoted (''^'' @ grp @ '':'') @ '' /etc/group || getent group '' @ quoted grp
       @ '' >> /etc/group; gpasswd --delete '' @ quoted username @ '' '' @ quoted grp])
      High False False"

lemmas users_defs =
  list_users_def list_groups_def create_user_def delete_user_def add_user_to_group_def
  remove_user_from_group_def

section \<open>ssh.rs\<close>

definition get_authorized_keys :: "str \<Rightarrow> action_spec" where
  "get_authorized_keys username =
    action ''GetAuthorizedKeys''
      (command_mechanism ''cat'' [''/home/'' @ username @ ''/.ssh/authorized_keys''])
      Low False False"

definition add_authorized_key :: "str \<Rightarrow> str \<Rightarrow> action_spec" where
  "add_authorized_key username public_key =
    action ''AddAuthorizedKey''
      (let keys_path = ''/home/'' @ username @ ''/.ssh/authorized_keys''
       in Command ''sudo'' [''sh'', ''-c'', ''grep -Fxq '' @ quoted public_key @ '' '' @ quoted keys_path
         @ '' 2>/dev/null || echo '' @ quoted public_key @ '' >> '' @ quoted keys_path])
      Medium False False"

definition remove_authorized_key :: "str \<Rightarrow> str \<Rightarrow> action_spec" where
  "remove_authorized_key username public_key =
    action ''RemoveAuthorizedKey''
      (let keys_path = ''/home/'' @ username @ ''/.ssh/authorized_keys''
       in Command ''sudo'' [''sh'', ''-c'', ''sed -i '' @ quoted ([CHR 0x5C] @ ''|^'' @ public_key @ ''$|d'')
         @ '' '' @ quoted keys_path])
      Medium False False"

lemmas ssh_defs =
  get_authorized_keys_def add_authorized_key_def remove_authorized_key_def

section \<open>resolvectl.rs\<close>

definition resolvectl_status :: "action_spec" where
  "resolvectl_status =
    action ''ResolvectlStatus'' (command_mechanism ''resolvectl'' [''status'']) Low False False"

definition resolvectl_set_dns :: "str \<Rightarrow> ip_addr list \<Rightarrow> action_spec" where
  "resolvectl_set_dns interface servers =
    action ''ResolvectlSetDns''
      (Command ''sudo'' ([''resolvectl''] @ [''dns'', interface] @ map ip_to_string servers))
      Medium False False"

lemmas resolvectl_defs =
  resolvectl_status_def resolvectl_set_dns_def

end
