(* ===== verification/Actions_Ubuntu.thy ===== *)
theory Actions_Ubuntu
  imports Actions
begin

text \<open>
  The constructors of the actions of Ubuntu: apt, PPAs, snap, GRUB, ufw, distrobox, netplan, Ubuntu Pro,
  AppArmor, cloud-init and fail2ban. Those that check their arguments return a result.
\<close>

section \<open>apt.rs\<close>

definition APT_GET :: str where "APT_GET = ''apt-get''"

definition DEBIAN_FRONTEND_VALUE :: str where "DEBIAN_FRONTEND_VALUE = ''DEBIAN_FRONTEND=noninteractive''"

definition NEEDRESTART_MODE_VALUE :: str where "NEEDRESTART_MODE_VALUE = ''NEEDRESTART_MODE=a''"

definition apt_update :: "action_spec" where
  "apt_update =
    action ''AptUpdate''
      (command_mechanism ''sudo'' [''env'', DEBIAN_FRONTEND_VALUE, NEEDRESTART_MODE_VALUE, APT_GET, ''update''])
      Low False False"

definition apt_upgrade :: "action_spec" where
  "apt_upgrade =
    action ''AptUpgrade''
      (command_mechanism ''sudo'' [''env'', DEBIAN_FRONTEND_VALUE, NEEDRESTART_MODE_VALUE, APT_GET, ''dist-upgrade'', ''-y''])
      High False False"

definition apt_install :: "str \<Rightarrow> action_spec" where
  "apt_install package =
    action ''AptInstall''
      (command_mechanism ''sudo'' [''env'', DEBIAN_FRONTEND_VALUE, NEEDRESTART_MODE_VALUE, APT_GET, ''install'', ''-y'', package])
      Medium False False"

definition apt_remove :: "str \<Rightarrow> action_spec" where
  "apt_remove package =
    action ''AptRemove''
      (command_mechanism ''sudo'' [''env'', DEBIAN_FRONTEND_VALUE, NEEDRESTART_MODE_VALUE, APT_GET, ''remove'', ''-y'', package])
      Medium False False"

definition apt_purge :: "str \<Rightarrow> action_spec" where
  "apt_purge package =
    action ''AptPurge''
      (command_mechanism ''sudo'' [''env'', DEBIAN_FRONTEND_VALUE, NEEDRESTART_MODE_VALUE, APT_GET, ''purge'', ''-y'', package])
      Medium False False"

definition apt_autoremove :: "action_spec" where
  "apt_autoremove =
    action ''AptAutoremove''
      (command_mechanism ''sudo'' [''env'', DEBIAN_FRONTEND_VALUE, NEEDRESTART_MODE_VALUE, APT_GET, ''autoremove'', ''-y''])
      Low False False"

definition apt_hold :: "str \<Rightarrow> action_spec" where
  "apt_hold package =
    action ''AptHold'' (command_mechanism ''sudo'' [''apt-mark'', ''hold'', package]) Medium False False"

definition apt_unhold :: "str \<Rightarrow> action_spec" where
  "apt_unhold package =
    action ''AptUnhold'' (command_mechanism ''sudo'' [''apt-mark'', ''unhold'', package]) Medium False False"

definition apt_search :: "str \<Rightarrow> action_spec" where
  "apt_search term =
    action ''AptSearch'' (command_mechanism ''apt-cache'' [''search'', term]) Low False False"

definition apt_list_installed :: "action_spec" where
  "apt_list_installed =
    action ''AptListInstalled'' (command_mechanism ''dpkg'' [''-l'']) Low False False"

definition apt_show :: "str \<Rightarrow> action_spec" where
  "apt_show package =
    action ''AptShow'' (command_mechanism ''apt-cache'' [''show'', package]) Low False False"

definition apt_list_upgradable :: "action_spec" where
  "apt_list_upgradable =
    action ''AptListUpgradable''
      (command_mechanism ''bash'' [''-c'', ''apt list --upgradable 2>/dev/null''])
      Low False False"

definition apt_history_list :: "action_spec" where
  "apt_history_list =
    action ''AptHistoryList''
      (command_mechanism ''bash'' [''-c'', ''grep -A 4 '' @ quoted ''^Start-Date'' @ '' /var/log/apt/history.log | tail -n 80''])
      Low False False"

lemmas apt_defs =
  apt_update_def apt_upgrade_def apt_install_def apt_remove_def apt_purge_def apt_autoremove_def
  apt_hold_def apt_unhold_def apt_search_def apt_list_installed_def apt_show_def
  apt_list_upgradable_def apt_history_list_def

section \<open>ppa.rs\<close>

definition ADD_APT_REPOSITORY :: str where "ADD_APT_REPOSITORY = ''add-apt-repository''"

definition YES_FLAG :: str where "YES_FLAG = ''-y''"

definition REMOVE_FLAG :: str where "REMOVE_FLAG = ''--remove''"

definition ppa_arg :: "str \<Rightarrow> str" where
  "ppa_arg name =
    ''ppa:'' @ name"

definition add_ppa :: "str \<Rightarrow> action_spec" where
  "add_ppa name =
    action ''AddPpa''
      (command_mechanism ''sudo'' [ADD_APT_REPOSITORY, YES_FLAG, ppa_arg name])
      Medium False True"

definition remove_ppa :: "str \<Rightarrow> action_spec" where
  "remove_ppa name =
    action ''RemovePpa''
      (command_mechanism ''sudo'' [ADD_APT_REPOSITORY, YES_FLAG, REMOVE_FLAG, ppa_arg name])
      Medium False True"

lemmas ppa_defs =
  ppa_arg_def add_ppa_def remove_ppa_def

section \<open>snap.rs\<close>

definition snap_install :: "str \<Rightarrow> str option \<Rightarrow> bool \<Rightarrow> action_spec" where
  "snap_install name channel auto_update =
    (if auto_update then
       action ''SnapInstall'' (command_mechanism ''sudo''
         (''snap'' # [''install''] @ (case channel of Some ch \<Rightarrow> [''--channel='' @ ch] | None \<Rightarrow> []) @ [name]))
         Medium False False
     else let channel_arg = unwrap_or channel ''stable'' in
       action ''SnapInstall'' (command_mechanism ''sudo'' [''sh'', ''-c'',
         ''snap install --channel='' @ channel_arg @ '' '' @ name @ '' && snap refresh --hold '' @ name])
         Medium False False)"

definition snap_remove :: "str \<Rightarrow> action_spec" where
  "snap_remove name =
    action ''SnapRemove'' (command_mechanism ''sudo'' [''snap'', ''remove'', name]) Medium False False"

definition snap_refresh :: "str option \<Rightarrow> action_spec" where
  "snap_refresh name =
    (case name of
       Some n \<Rightarrow> action ''SnapRefresh'' (command_mechanism ''sudo'' [''snap'', ''refresh'', n]) Medium False False
     | None \<Rightarrow> action ''SnapRefresh'' (command_mechanism ''sudo'' [''snap'', ''refresh'']) Medium False False)"

definition snap_hold :: "str \<Rightarrow> action_spec" where
  "snap_hold name =
    action ''SnapHold'' (command_mechanism ''sudo'' [''snap'', ''refresh'', ''--hold'', name]) Medium False False"

definition snap_unhold :: "str \<Rightarrow> action_spec" where
  "snap_unhold name =
    action ''SnapUnhold'' (command_mechanism ''sudo'' [''snap'', ''refresh'', ''--unhold'', name]) Medium False False"

definition snap_list :: "action_spec" where
  "snap_list =
    action ''SnapList'' (command_mechanism ''snap'' [''list'']) Low False False"

definition snap_info :: "str \<Rightarrow> action_spec" where
  "snap_info name =
    action ''SnapInfo'' (command_mechanism ''snap'' [''info'', name]) Low False False"

definition snap_revert :: "str \<Rightarrow> action_spec" where
  "snap_revert name =
    action ''SnapRevert'' (command_mechanism ''sudo'' [''snap'', ''revert'', name]) Medium False False"

definition snap_classic_install :: "str \<Rightarrow> action_spec" where
  "snap_classic_install name =
    action ''SnapClassicInstall''
      (command_mechanism ''sudo'' [''snap'', ''install'', ''--classic'', name])
      Medium False False"

lemmas snap_defs =
  snap_install_def snap_remove_def snap_refresh_def snap_hold_def snap_unhold_def snap_list_def
  snap_info_def snap_revert_def snap_classic_install_def

section \<open>grub.rs\<close>

datatype kargs_error = KargsBothEmpty

definition GRUB_KARGS_HELPER :: str where "GRUB_KARGS_HELPER = ''/usr/lib/sysknife/grub-kargs-edit''"

definition grub_get_kargs :: "action_spec" where
  "grub_get_kargs =
    action ''GrubGetKargs''
      (command_mechanism ''grep'' [''-E'', ''^GRUB_CMDLINE_LINUX'', ''/etc/default/grub''])
      Low False False"

definition grub_set_kargs :: "str list \<Rightarrow> str list \<Rightarrow> (kargs_error, action_spec) result" where
  "grub_set_kargs to_append to_delete =
    (if to_append = [] \<and> to_delete = [] then Inl KargsBothEmpty
     else Inr (action ''GrubSetKargs''
       (command_mechanism ''sudo'' [GRUB_KARGS_HELPER, ''--append'', join_with '','' to_append,
          ''--delete'', join_with '','' to_delete]) High True True))"

lemmas grub_defs =
  grub_get_kargs_def grub_set_kargs_def

section \<open>reboot.rs\<close>

definition REBOOT_REQUIRED_FILE :: str where "REBOOT_REQUIRED_FILE = ''/var/run/reboot-required''"

definition REBOOT_REQUIRED_PKGS_FILE :: str where "REBOOT_REQUIRED_PKGS_FILE = ''/var/run/reboot-required-pkgs''"

definition check_pending_reboot :: "action_spec" where
  "check_pending_reboot =
    action ''CheckPendingReboot''
      (command_mechanism ''bash'' [''-c'',
       ''if test -f '' @ REBOOT_REQUIRED_FILE @ ''; then cat '' @ REBOOT_REQUIRED_FILE @ ''; cat ''
       @ REBOOT_REQUIRED_PKGS_FILE @ '' 2>/dev/null; else echo '' @ quoted ''No reboot required.'' @ ''; fi''])
      Low False False"

lemmas reboot_defs =
  check_pending_reboot_def

section \<open>ufw.rs\<close>

definition ufw_enable :: "action_spec" where
  "ufw_enable =
    action ''UfwEnable'' (command_mechanism ''sudo'' [''ufw'', ''--force'', ''enable'']) High False False"

definition ufw_disable :: "action_spec" where
  "ufw_disable =
    action ''UfwDisable'' (command_mechanism ''sudo'' [''ufw'', ''disable'']) High False False"

definition ufw_allow :: "str \<Rightarrow> action_spec" where
  "ufw_allow port_or_service =
    action ''UfwAllow'' (command_mechanism ''sudo'' [''ufw'', ''allow'', port_or_service]) High False False"

definition ufw_deny :: "str \<Rightarrow> action_spec" where
  "ufw_deny port_or_service =
    action ''UfwDeny'' (command_mechanism ''sudo'' [''ufw'', ''deny'', port_or_service]) High False False"

definition ufw_reset :: "action_spec" where
  "ufw_reset =
    action ''UfwReset'' (command_mechanism ''sudo'' [''ufw'', ''--force'', ''reset'']) High False False"

definition ufw_status :: "action_spec" where
  "ufw_status =
    action ''UfwStatus'' (command_mechanism ''sudo'' [''ufw'', ''status'', ''verbose'']) Low False False"

definition ufw_delete_rule :: "32 word \<Rightarrow> (str, action_spec) result" where
  "ufw_delete_rule rule_number =
    (if rule_number = 0 then Inl ''rule_number must be a positive integer (>= 1)''
     else Inr (action ''UfwDeleteRule''
       (command_mechanism ''sudo'' [''ufw'', ''--force'', ''delete'', show_nat (unat rule_number)]) High False False))"

definition ufw_limit :: "str \<Rightarrow> action_spec" where
  "ufw_limit target =
    action ''UfwLimit'' (command_mechanism ''sudo'' [''ufw'', ''limit'', target]) High False False"

lemmas ufw_defs =
  ufw_enable_def ufw_disable_def ufw_allow_def ufw_deny_def ufw_reset_def ufw_status_def
  ufw_delete_rule_def ufw_limit_def

section \<open>distrobox.rs\<close>

definition distrobox_list :: "action_spec" where
  "distrobox_list =
    action ''DistroboxList'' (command_mechanism ''distrobox'' [''list'']) Low False False"

definition distrobox_create :: "str \<Rightarrow> str \<Rightarrow> action_spec" where
  "distrobox_create name img =
    action ''DistroboxCreate''
      (command_mechanism ''distrobox'' [''create'', ''--yes'', ''--name'', name, ''--image'', img])
      Medium False False"

definition distrobox_remove :: "str \<Rightarrow> action_spec" where
  "distrobox_remove name =
    action ''DistroboxRemove'' (command_mechanism ''distrobox'' [''rm'', ''--force'', name]) Medium False False"

lemmas distrobox_defs =
  distrobox_list_def distrobox_create_def distrobox_remove_def

section \<open>netplan.rs\<close>

definition netplan_get_config :: "action_spec" where
  "netplan_get_config =
    action ''NetplanGetConfig''
      (command_mechanism ''find'' [''/etc/netplan'', ''-maxdepth'', ''1'', ''-name'', ''*.yaml'', ''-print'', ''-exec'', ''cat'', ''{}'', ''+''])
      Low False False"

definition netplan_set :: "str \<Rightarrow> str \<Rightarrow> action_spec" where
  "netplan_set key value =
    action ''NetplanSet'' (command_mechanism ''sudo'' [''netplan'', ''set'', key @ ''='' @ value]) High False True"

definition netplan_generate :: "action_spec" where
  "netplan_generate =
    action ''NetplanGenerate'' (command_mechanism ''sudo'' [''netplan'', ''generate'']) Medium False False"

definition netplan_apply :: "action_spec" where
  "netplan_apply =
    action ''NetplanApply'' (command_mechanism ''sudo'' [''netplan'', ''apply'']) High False False"

lemmas netplan_defs =
  netplan_get_config_def netplan_set_def netplan_generate_def netplan_apply_def

section \<open>ubuntu_pro.rs\<close>

definition pro_status :: "action_spec" where
  "pro_status =
    action ''ProStatus'' (command_mechanism ''pro'' [''status'', ''--all'']) Low False False"

definition pro_attach :: "str \<Rightarrow> action_spec" where
  "pro_attach token =
    action ''ProAttach'' (command_mechanism ''sudo'' [''pro'', ''attach'', token]) High False True"

definition pro_detach :: "action_spec" where
  "pro_detach =
    action ''ProDetach'' (command_mechanism ''sudo'' [''pro'', ''detach'', ''--assume-yes'']) High False True"

lemmas ubuntu_pro_defs =
  pro_status_def pro_attach_def pro_detach_def

section \<open>livepatch.rs\<close>

definition livepatch_status :: "action_spec" where
  "livepatch_status =
    action ''LivepatchStatus''
      (command_mechanism ''sudo'' [''canonical-livepatch'', ''status'', ''--verbose''])
      Low False False"

lemmas livepatch_defs =
  livepatch_status_def

section \<open>multipass.rs\<close>

definition multipass_list :: "action_spec" where
  "multipass_list =
    action ''MultipassList'' (command_mechanism ''multipass'' [''list'']) Low False False"

lemmas multipass_defs =
  multipass_list_def

section \<open>release_upgrade.rs\<close>

definition ubuntu_release_upgrade :: "action_spec" where
  "ubuntu_release_upgrade =
    action ''UbuntuReleaseUpgrade''
      (command_mechanism ''sudo'' [''do-release-upgrade'', ''-f'', ''DistUpgradeViewNonInteractive''])
      High True False"

lemmas release_upgrade_defs =
  ubuntu_release_upgrade_def

section \<open>apparmor.rs\<close>

definition apparmor_status :: "action_spec" where
  "apparmor_status =
    action ''AppArmorStatus'' (command_mechanism ''sudo'' [''aa-status'']) Low False False"

definition apparmor_enforce :: "str \<Rightarrow> action_spec" where
  "apparmor_enforce profile_path =
    action ''AppArmorEnforce'' (command_mechanism ''sudo'' [''aa-enforce'', profile_path]) High False False"

definition apparmor_complain :: "str \<Rightarrow> action_spec" where
  "apparmor_complain profile_path =
    action ''AppArmorComplain'' (command_mechanism ''sudo'' [''aa-complain'', profile_path]) Medium False False"

lemmas apparmor_defs =
  apparmor_status_def apparmor_enforce_def apparmor_complain_def

section \<open>cloudinit.rs\<close>

definition cloud_init_status :: "action_spec" where
  "cloud_init_status =
    action ''CloudInitStatus'' (command_mechanism ''cloud-init'' [''status'', ''--long'']) Low False False"

lemmas cloudinit_defs =
  cloud_init_status_def

section \<open>fail2ban.rs\<close>

datatype fail2ban_error = Fail2banInvalidIp str | Fail2banInvalidJail str

definition jail_is_valid :: "str \<Rightarrow> bool" where
  "jail_is_valid jail =
    (if jail = [] \<or> length jail > 64 then False
     else if starts_with jail ''-'' then False
     else list_all (\<lambda>c. is_ascii_alphanumeric c \<or> c = CHR ''_'' \<or> c = CHR ''-'' \<or> c = CHR ''.'') jail)"

definition fail2ban_status :: "str option \<Rightarrow> action_spec" where
  "fail2ban_status jail =
    action ''Fail2banStatus''
      (command_mechanism ''sudo''
       (case jail of Some j \<Rightarrow> [''fail2ban-client'', ''status'', j]
        | None \<Rightarrow> [''fail2ban-client'', ''status'']))
      Low False False"

definition fail2ban_ban_ip :: "str \<Rightarrow> str \<Rightarrow> (fail2ban_error, action_spec) result" where
  "fail2ban_ban_ip jail ip =
    (if \<not> jail_is_valid jail then Inl (Fail2banInvalidJail jail)
     else case parse_ip ip of
       None \<Rightarrow> Inl (Fail2banInvalidIp ip)
     | Some _ \<Rightarrow> Inr (action ''Fail2banBanIp''
         (command_mechanism ''sudo'' [''fail2ban-client'', ''set'', jail, ''banip'', ip]) High False False))"

definition fail2ban_unban_ip :: "str \<Rightarrow> str \<Rightarrow> (fail2ban_error, action_spec) result" where
  "fail2ban_unban_ip jail ip =
    (if \<not> jail_is_valid jail then Inl (Fail2banInvalidJail jail)
     else case parse_ip ip of
       None \<Rightarrow> Inl (Fail2banInvalidIp ip)
     | Some _ \<Rightarrow> Inr (action ''Fail2banUnbanIp''
         (command_mechanism ''sudo'' [''fail2ban-client'', ''set'', jail, ''unbanip'', ip]) Medium False False))"

lemmas fail2ban_defs =
  jail_is_valid_def fail2ban_status_def fail2ban_ban_ip_def fail2ban_unban_ip_def

end
