(* ===== verification/Executor.thy ===== *)
theory Executor
  imports Actions_Fedora Actions_System Actions_Ubuntu
begin

text \<open>
  \<open>build_action_spec\<close> of \<open>executor.rs\<close>: the match over action names, one arm list per section of the
  source. An arm reads and validates the parameters in the order of the code and calls the constructor.
  \<open>rollback_spec_for\<close> and \<open>execute_spec\<close> follow; the operating system is a record of functions.
\<close>

type_synonym arms = "(str \<times> (json \<Rightarrow> (executor_error, action_spec) result)) list"

section \<open>Readers the arms share\<close>

definition user_param :: "json \<Rightarrow> (executor_error, str) result" where
  "user_param ps = rbind (resolve_username ps) (\<lambda>u. validated_username u ''username'')"

definition checked_param ::
  "(str \<Rightarrow> str \<Rightarrow> (executor_error, str) result) \<Rightarrow> json \<Rightarrow> str \<Rightarrow> (executor_error, str) result" where
  "checked_param validate ps key = rbind (require_str ps key) (\<lambda>s. validate s key)"

definition safe_param :: "json \<Rightarrow> str \<Rightarrow> (executor_error, str) result" where
  "safe_param ps key = checked_param validated_safe_arg ps key"

text \<open>\<open>.map(validated_safe_arg).transpose()?\<close>; \<open>opt_checked\<close> has \<open>.filter(|s| !s.is_empty())\<close> before it.\<close>

definition opt_checked_any :: "json \<Rightarrow> str \<Rightarrow> (executor_error, str option) result" where
  "opt_checked_any ps key =
    (case get_str ps key of
       None \<Rightarrow> Inr None
     | Some s \<Rightarrow> rbind (validated_safe_arg s key) (\<lambda>t. Inr (Some t)))"

definition opt_checked :: "json \<Rightarrow> str \<Rightarrow> (executor_error, str option) result" where
  "opt_checked ps key =
    (case get_str ps key of
       None \<Rightarrow> Inr None
     | Some s \<Rightarrow> if s = [] then Inr None else rbind (validated_safe_arg s key) (\<lambda>t. Inr (Some t)))"

text \<open>The strings among the items of an array; a missing key or another value gives none.\<close>

definition str_items :: "json \<Rightarrow> str \<Rightarrow> str list" where
  "str_items ps key =
    (case Option.bind (json_get ps key) as_array of
       None \<Rightarrow> [] | Some arr \<Rightarrow> List.map_filter as_str arr)"

fun fail2ban_err :: "fail2ban_error \<Rightarrow> executor_error" where
  "fail2ban_err (Fail2banInvalidIp v) = InvalidIpAddress ''ip'' v"
| "fail2ban_err (Fail2banInvalidJail v) = InvalidParam ''jail''"

section \<open>The arms\<close>

definition deployment_arms :: arms where
  "deployment_arms =
    [(''GetSystemState'', \<lambda>ps. Inr get_system_state),
     (''CollectDiagnostics'', \<lambda>ps. Inr collect_diagnostics),
     (''GetDeploymentHistory'', \<lambda>ps. Inr get_deployment_history),
     (''ListDeployments'', \<lambda>ps. Inr list_deployments),
     (''UpdateSystem'', \<lambda>ps. Inr update_system),
     (''CleanupDeployments'', \<lambda>ps. Inr cleanup_deployments),
     (''RebootSystem'', \<lambda>ps. Inr reboot_system),
     (''RollbackDeployment'', \<lambda>ps. Inr rollback_deployment),
     (''GetKernelArguments'', \<lambda>ps. Inr get_kernel_arguments),
     (''PinDeployment'', \<lambda>ps.
       rbind (require_u32 ps ''index'') (\<lambda>index.
       Inr (pin_deployment index))),
     (''UnpinDeployment'', \<lambda>ps.
       rbind (require_u32 ps ''index'') (\<lambda>index.
       Inr (unpin_deployment index))),
     (''RebaseSystem'', \<lambda>ps.
       rbind (safe_param ps ''target_ref'') (\<lambda>target_ref.
       Inr (rebase_system target_ref))),
     (''SetKernelArguments'', \<lambda>ps.
       rbind (str_array_or_empty ps ''add'') (\<lambda>add.
       rbind (str_array_or_empty ps ''remove'') (\<lambda>rem.
       rbind (check_all validated_safe_kernel_arg add) (\<lambda>_.
       Inr (set_kernel_arguments add rem)))))]"

definition flatpak_arms :: arms where
  "flatpak_arms =
    [(''ListFlatpakRemotes'', \<lambda>ps.
       rbind (user_param ps) (\<lambda>username.
       Inr (list_flatpak_remotes username))),
     (''InstallFlatpak'', \<lambda>ps.
       rbind (user_param ps) (\<lambda>username.
       rbind (safe_param ps ''app_id'') (\<lambda>app_id.
       rbind (validated_safe_arg (unwrap_or (get_str ps ''remote'') ''flathub'') ''remote'') (\<lambda>remote.
       Inr (install_flatpak username app_id remote))))),
     (''RemoveFlatpak'', \<lambda>ps.
       rbind (user_param ps) (\<lambda>username.
       rbind (safe_param ps ''app_id'') (\<lambda>app_id.
       Inr (remove_flatpak username app_id)))),
     (''SearchFlatpakApps'', \<lambda>ps.
       rbind (safe_param ps ''term'') (\<lambda>term.
       Inr (search_flatpak_apps term))),
     (''AddFlatpakRemote'', \<lambda>ps.
       rbind (user_param ps) (\<lambda>username.
       rbind (safe_param ps ''remote'') (\<lambda>remote.
       rbind (safe_param ps ''url'') (\<lambda>url.
       Inr (add_flatpak_remote username remote url))))),
     (''RemoveFlatpakRemote'', \<lambda>ps.
       rbind (user_param ps) (\<lambda>username.
       rbind (safe_param ps ''remote'') (\<lambda>remote.
       Inr (remove_flatpak_remote username remote)))),
     (''GetFlatpakAppInfo'', \<lambda>ps.
       rbind (user_param ps) (\<lambda>username.
       rbind (safe_param ps ''app_id'') (\<lambda>app_id.
       Inr (get_flatpak_app_info username app_id)))),
     (''ListInstalledFlatpaks'', \<lambda>ps.
       rbind (user_param ps) (\<lambda>username.
       Inr (list_installed_flatpaks username))),
     (''UpdateFlatpak'', \<lambda>ps.
       rbind (user_param ps) (\<lambda>username.
       rbind (opt_checked ps ''app_id'') (\<lambda>app_id.
       Inr (update_flatpak username app_id))))]"

definition container_arms :: arms where
  "container_arms =
    [(''ListContainers'', \<lambda>ps.
       rbind (user_param ps) (\<lambda>username.
       Inr (list_containers username))),
     (''CreateContainer'', \<lambda>ps.
       rbind (user_param ps) (\<lambda>username.
       rbind (safe_param ps ''name'') (\<lambda>name.
       rbind (safe_param ps ''image'') (\<lambda>img.
       Inr (create_container username name img))))),
     (''StartContainer'', \<lambda>ps.
       rbind (user_param ps) (\<lambda>username.
       rbind (safe_param ps ''name'') (\<lambda>name.
       Inr (start_container username name)))),
     (''StopContainer'', \<lambda>ps.
       rbind (user_param ps) (\<lambda>username.
       rbind (safe_param ps ''name'') (\<lambda>name.
       Inr (stop_container username name)))),
     (''RemoveContainer'', \<lambda>ps.
       rbind (user_param ps) (\<lambda>username.
       rbind (safe_param ps ''name'') (\<lambda>name.
       Inr (remove_container username name)))),
     (''GetContainerInfo'', \<lambda>ps.
       rbind (user_param ps) (\<lambda>username.
       rbind (safe_param ps ''name'') (\<lambda>name.
       Inr (get_container_info username name))))]"

definition layering_arms :: arms where
  "layering_arms =
    [(''GetLayeredPackages'', \<lambda>ps. Inr get_layered_packages),
     (''ResetLayeredPackageOverride'', \<lambda>ps. Inr reset_layered_package_override),
     (''InstallPackages'', \<lambda>ps.
       rbind (str_array_or_empty ps ''packages'') (\<lambda>pkgs.
       rbind (map_result (\<lambda>p. validated_safe_arg p ''packages'') pkgs) (\<lambda>validated.
       Inr (install_packages validated)))),
     (''RemovePackages'', \<lambda>ps.
       rbind (str_array_or_empty ps ''packages'') (\<lambda>pkgs.
       rbind (map_result (\<lambda>p. validated_safe_arg p ''packages'') pkgs) (\<lambda>validated.
       Inr (remove_packages validated)))),
     (''AddLayeredPackage'', \<lambda>ps.
       rbind (safe_param ps ''package'') (\<lambda>package.
       Inr (add_layered_package package))),
     (''RemoveLayeredPackage'', \<lambda>ps.
       rbind (safe_param ps ''package'') (\<lambda>package.
       Inr (remove_layered_package package))),
     (''ReplaceLayeredPackage'', \<lambda>ps.
       rbind (safe_param ps ''old'') (\<lambda>old.
       rbind (safe_param ps ''new'') (\<lambda>new.
       Inr (replace_layered_package old new)))),
     (''RemoveBasePackage'', \<lambda>ps.
       rbind (safe_param ps ''package'') (\<lambda>package.
       Inr (remove_base_package package))),
     (''GetPendingUpdates'', \<lambda>ps. Inr get_pending_updates),
     (''ListPackageRepositories'', \<lambda>ps. Inr list_package_repositories),
     (''AddPackageRepository'', \<lambda>ps.
       rbind (validated_repo_id ps) (\<lambda>repo_id.
       rbind (validated_no_newline ps ''repo_url'') (\<lambda>repo_url.
       Inr (add_package_repository repo_id repo_url)))),
     (''RemovePackageRepository'', \<lambda>ps.
       rbind (validated_repo_id ps) (\<lambda>repo_id.
       Inr (remove_package_repository repo_id))),
     (''EnablePackageRepository'', \<lambda>ps.
       rbind (validated_repo_id ps) (\<lambda>repo_id.
       Inr (enable_package_repository repo_id))),
     (''DisablePackageRepository'', \<lambda>ps.
       rbind (validated_repo_id ps) (\<lambda>repo_id.
       Inr (disable_package_repository repo_id)))]"

definition service_arms :: arms where
  "service_arms =
    [(''ListServices'', \<lambda>ps. Inr list_services),
     (''StartService'', \<lambda>ps.
       rbind (checked_param validated_unit_name ps ''unit'') (\<lambda>unit.
       Inr (start_service unit))),
     (''StopService'', \<lambda>ps.
       rbind (checked_param validated_unit_name ps ''unit'') (\<lambda>unit.
       Inr (stop_service unit))),
     (''RestartService'', \<lambda>ps.
       rbind (checked_param validated_unit_name ps ''unit'') (\<lambda>unit.
       Inr (restart_service unit))),
     (''SetServiceEnabled'', \<lambda>ps.
       rbind (checked_param validated_unit_name ps ''unit'') (\<lambda>unit.
       rbind (require_bool ps ''enabled'') (\<lambda>enabled.
       Inr (set_service_enabled unit enabled)))),
     (''MaskService'', \<lambda>ps.
       rbind (checked_param validated_unit_name ps ''unit'') (\<lambda>unit.
       Inr (mask_service unit))),
     (''UnmaskService'', \<lambda>ps.
       rbind (checked_param validated_unit_name ps ''unit'') (\<lambda>unit.
       Inr (unmask_service unit))),
     (''GetServiceLogs'', \<lambda>ps.
       rbind (checked_param validated_unit_name ps ''unit'') (\<lambda>unit.
       Inr (get_service_logs unit))),
     (''GetServiceStatus'', \<lambda>ps.
       rbind (checked_param validated_unit_name ps ''unit'') (\<lambda>unit.
       Inr (get_service_status unit))),
     (''ReloadService'', \<lambda>ps.
       rbind (checked_param validated_unit_name ps ''unit'') (\<lambda>unit.
       Inr (reload_service unit))),
     (''ListTimers'', \<lambda>ps. Inr list_timers),
     (''ReloadDaemon'', \<lambda>ps. Inr reload_daemon)]"

definition toolbox_arms :: arms where
  "toolbox_arms =
    [(''ListToolboxes'', \<lambda>ps.
       rbind (user_param ps) (\<lambda>username.
       Inr (list_toolboxes username))),
     (''CreateToolbox'', \<lambda>ps.
       rbind (user_param ps) (\<lambda>username.
       rbind (safe_param ps ''name'') (\<lambda>name.
       rbind (opt_checked_any ps ''image'') (\<lambda>img.
       rbind (opt_checked_any ps ''release'') (\<lambda>release.
       Inr (create_toolbox username name release img)))))),
     (''RemoveToolbox'', \<lambda>ps.
       rbind (user_param ps) (\<lambda>username.
       rbind (safe_param ps ''name'') (\<lambda>name.
       Inr (remove_toolbox username name))))]"

definition system_arms :: arms where
  "system_arms =
    [(''GetDateTime'', \<lambda>ps. Inr get_datetime),
     (''SetHostname'', \<lambda>ps.
       rbind (checked_param validated_hostname ps ''hostname'') (\<lambda>hostname.
       Inr (set_hostname hostname))),
     (''SetTimezone'', \<lambda>ps.
       rbind (checked_param validated_timezone ps ''timezone'') (\<lambda>timezone.
       Inr (set_timezone timezone))),
     (''SetLocale'', \<lambda>ps.
       rbind (checked_param validated_locale ps ''locale'') (\<lambda>locale.
       Inr (set_locale locale))),
     (''SetNtp'', \<lambda>ps.
       rbind (require_bool ps ''enabled'') (\<lambda>enabled.
       Inr (set_ntp enabled))),
     (''GetDiskUsage'', \<lambda>ps. Inr disk_usage_spec),
     (''ListProcesses'', \<lambda>ps. Inr list_processes_spec),
     (''GetMemoryInfo'', \<lambda>ps. Inr get_memory_info_spec),
     (''GetFirewallState'', \<lambda>ps. Inr get_firewall_state),
     (''GetNetworkStatus'', \<lambda>ps. Inr get_network_status),
     (''ConfigureWifi'', \<lambda>ps.
       rbind (safe_param ps ''ssid'') (\<lambda>ssid.
       rbind (opt_checked ps ''password'') (\<lambda>password.
       Inr (configure_wifi ssid password)))),
     (''SetDnsServers'', \<lambda>ps.
       rbind (safe_param ps ''interface'') (\<lambda>interface.
       rbind (str_array_or_empty ps ''servers'') (\<lambda>servers.
       rbind (map_result (\<lambda>s. validated_safe_arg s ''servers'') servers) (\<lambda>validated.
       Inr (set_dns_servers interface validated))))),
     (''ConfigureFirewall'', \<lambda>ps.
       rbind (safe_param ps ''zone'') (\<lambda>zone.
       rbind (safe_param ps ''service'') (\<lambda>service.
       rbind (require_bool ps ''enabled'') (\<lambda>enabled.
       Inr (configure_firewall zone service enabled)))))]"

definition user_arms :: arms where
  "user_arms =
    [(''ListUsers'', \<lambda>ps. Inr list_users),
     (''ListGroups'', \<lambda>ps. Inr list_groups),
     (''CreateUser'', \<lambda>ps.
       rbind (user_param ps) (\<lambda>username.
       rbind (opt_checked_any ps ''shell'') (\<lambda>shell.
       rbind (opt_checked_any ps ''home'') (\<lambda>home.
       Inr (create_user username shell home))))),
     (''DeleteUser'', \<lambda>ps.
       rbind (user_param ps) (\<lambda>username.
       Inr (delete_user username))),
     (''AddUserToGroup'', \<lambda>ps.
       rbind (user_param ps) (\<lambda>username.
       rbind (checked_param validated_group ps ''group'') (\<lambda>grp.
       Inr (add_user_to_group username grp)))),
     (''RemoveUserFromGroup'', \<lambda>ps.
       rbind (user_param ps) (\<lambda>username.
       rbind (checked_param validated_group ps ''group'') (\<lambda>grp.
       Inr (remove_user_from_group username grp)))),
     (''GetAuthorizedKeys'', \<lambda>ps.
       rbind (user_param ps) (\<lambda>username.
       Inr (get_authorized_keys username))),
     (''AddAuthorizedKey'', \<lambda>ps.
       rbind (user_param ps) (\<lambda>username.
       rbind (rbind (require_str ps ''public_key'') validated_public_key) (\<lambda>public_key.
       Inr (add_authorized_key username public_key)))),
     (''RemoveAuthorizedKey'', \<lambda>ps.
       rbind (user_param ps) (\<lambda>username.
       rbind (rbind (require_str ps ''public_key'') validated_public_key) (\<lambda>public_key.
       Inr (remove_authorized_key username public_key))))]"

definition apt_arms :: arms where
  "apt_arms =
    [(''AptUpdate'', \<lambda>ps. Inr apt_update),
     (''AptUpgrade'', \<lambda>ps. Inr apt_upgrade),
     (''AptInstall'', \<lambda>ps.
       rbind (safe_param ps ''package'') (\<lambda>package.
       Inr (apt_install package))),
     (''AptRemove'', \<lambda>ps.
       rbind (safe_param ps ''package'') (\<lambda>package.
       Inr (apt_remove package))),
     (''AptPurge'', \<lambda>ps.
       rbind (safe_param ps ''package'') (\<lambda>package.
       Inr (apt_purge package))),
     (''AptAutoremove'', \<lambda>ps. Inr apt_autoremove),
     (''AptHold'', \<lambda>ps.
       rbind (safe_param ps ''package'') (\<lambda>package.
       Inr (apt_hold package))),
     (''AptUnhold'', \<lambda>ps.
       rbind (safe_param ps ''package'') (\<lambda>package.
       Inr (apt_unhold package))),
     (''AptSearch'', \<lambda>ps.
       rbind (safe_param ps ''term'') (\<lambda>term.
       Inr (apt_search term))),
     (''AptListInstalled'', \<lambda>ps. Inr apt_list_installed),
     (''AptShow'', \<lambda>ps.
       rbind (safe_param ps ''package'') (\<lambda>package.
       Inr (apt_show package))),
     (''AptListUpgradable'', \<lambda>ps. Inr apt_list_upgradable),
     (''AptHistoryList'', \<lambda>ps. Inr apt_history_list),
     (''AddPpa'', \<lambda>ps.
       rbind (checked_param validated_ppa_name ps ''name'') (\<lambda>name.
       Inr (add_ppa name))),
     (''RemovePpa'', \<lambda>ps.
       rbind (checked_param validated_ppa_name ps ''name'') (\<lambda>name.
       Inr (remove_ppa name)))]"

definition snap_arms :: arms where
  "snap_arms =
    [(''SnapInstall'', \<lambda>ps.
       rbind (safe_param ps ''name'') (\<lambda>name.
       rbind (opt_checked ps ''channel'') (\<lambda>channel.
       let auto_update = unwrap_or (get_bool ps ''auto_update'') False in Inr (snap_install name channel auto_update)))),
     (''SnapRemove'', \<lambda>ps.
       rbind (safe_param ps ''name'') (\<lambda>name.
       Inr (snap_remove name))),
     (''SnapRefresh'', \<lambda>ps.
       rbind (opt_checked ps ''name'') (\<lambda>name.
       Inr (snap_refresh name))),
     (''SnapHold'', \<lambda>ps.
       rbind (safe_param ps ''name'') (\<lambda>name.
       Inr (snap_hold name))),
     (''SnapUnhold'', \<lambda>ps.
       rbind (safe_param ps ''name'') (\<lambda>name.
       Inr (snap_unhold name))),
     (''SnapList'', \<lambda>ps. Inr snap_list),
     (''SnapInfo'', \<lambda>ps.
       rbind (safe_param ps ''name'') (\<lambda>name.
       Inr (snap_info name))),
     (''SnapRevert'', \<lambda>ps.
       rbind (safe_param ps ''name'') (\<lambda>name.
       Inr (snap_revert name))),
     (''SnapClassicInstall'', \<lambda>ps.
       rbind (safe_param ps ''name'') (\<lambda>name.
       Inr (snap_classic_install name)))]"

definition grub_arms :: arms where
  "grub_arms =
    [(''GrubGetKargs'', \<lambda>ps. Inr grub_get_kargs),
     (''GrubSetKargs'', \<lambda>ps.
       let to_append = str_items ps ''append''; to_delete = str_items ps ''delete'' in
       rbind (map_result (\<lambda>a. validated_safe_arg a ''append'') to_append) (\<lambda>_.
       rbind (map_result (\<lambda>d. validated_safe_arg d ''delete'') to_delete) (\<lambda>_.
       map_err (\<lambda>_. MissingParam ''append or delete'') (grub_set_kargs to_append to_delete)))),
     (''CheckPendingReboot'', \<lambda>ps. Inr check_pending_reboot)]"

definition ufw_arms :: arms where
  "ufw_arms =
    [(''UfwEnable'', \<lambda>ps. Inr ufw_enable),
     (''UfwDisable'', \<lambda>ps. Inr ufw_disable),
     (''UfwAllow'', \<lambda>ps.
       rbind (checked_param validated_port_or_service ps ''port_or_service'') (\<lambda>port_or_service.
       Inr (ufw_allow port_or_service))),
     (''UfwDeny'', \<lambda>ps.
       rbind (checked_param validated_port_or_service ps ''port_or_service'') (\<lambda>port_or_service.
       Inr (ufw_deny port_or_service))),
     (''UfwReset'', \<lambda>ps. Inr ufw_reset),
     (''UfwStatus'', \<lambda>ps. Inr ufw_status),
     (''DistroboxList'', \<lambda>ps. Inr distrobox_list),
     (''DistroboxCreate'', \<lambda>ps.
       rbind (safe_param ps ''name'') (\<lambda>name.
       rbind (safe_param ps ''image'') (\<lambda>img.
       Inr (distrobox_create name img)))),
     (''DistroboxRemove'', \<lambda>ps.
       rbind (safe_param ps ''name'') (\<lambda>name.
       Inr (distrobox_remove name))),
     (''NetplanGetConfig'', \<lambda>ps. Inr netplan_get_config),
     (''NetplanApply'', \<lambda>ps. Inr netplan_apply),
     (''NetplanSet'', \<lambda>ps.
       rbind (safe_param ps ''key'') (\<lambda>key.
       rbind (safe_param ps ''value'') (\<lambda>value.
       Inr (netplan_set key value)))),
     (''NetplanGenerate'', \<lambda>ps. Inr netplan_generate)]"

definition pro_arms :: arms where
  "pro_arms =
    [(''UfwDeleteRule'', \<lambda>ps.
       rbind (require_positive_u32 ps ''rule_number'') (\<lambda>rule_number.
       map_err (\<lambda>_. InvalidParam ''rule_number'') (ufw_delete_rule rule_number))),
     (''UfwLimit'', \<lambda>ps.
       rbind (checked_param validated_port_or_service ps ''target'') (\<lambda>target.
       Inr (ufw_limit target))),
     (''ProStatus'', \<lambda>ps. Inr pro_status),
     (''ProAttach'', \<lambda>ps.
       rbind (safe_param ps ''token'') (\<lambda>token.
       Inr (pro_attach token))),
     (''ProDetach'', \<lambda>ps. Inr pro_detach),
     (''LivepatchStatus'', \<lambda>ps. Inr livepatch_status),
     (''MultipassList'', \<lambda>ps. Inr multipass_list),
     (''UbuntuReleaseUpgrade'', \<lambda>ps. Inr ubuntu_release_upgrade),
     (''ResolvectlStatus'', \<lambda>ps. Inr resolvectl_status),
     (''ResolvectlSetDns'', \<lambda>ps.
       rbind (safe_param ps ''interface'') (\<lambda>interface.
       let raw_servers = str_items ps ''servers'' in
       if raw_servers = [] then Inl (MissingParam ''servers'')
       else rbind (map_result (\<lambda>s. ok_or (parse_ip s) (InvalidIpAddress ''servers'' s)) raw_servers) (\<lambda>parsed_servers.
       Inr (resolvectl_set_dns interface parsed_servers))))]"

definition apparmor_arms :: arms where
  "apparmor_arms =
    [(''AppArmorStatus'', \<lambda>ps. Inr apparmor_status),
     (''AppArmorEnforce'', \<lambda>ps.
       rbind (checked_param validated_apparmor_profile ps ''profile_path'') (\<lambda>profile_path.
       Inr (apparmor_enforce profile_path))),
     (''AppArmorComplain'', \<lambda>ps.
       rbind (checked_param validated_apparmor_profile ps ''profile_path'') (\<lambda>profile_path.
       Inr (apparmor_complain profile_path))),
     (''CloudInitStatus'', \<lambda>ps. Inr cloud_init_status),
     (''UbuntuInstallFlatpak'', \<lambda>ps.
       rbind (user_param ps) (\<lambda>username.
       rbind (safe_param ps ''app_id'') (\<lambda>app_id.
       rbind (safe_param ps ''remote'') (\<lambda>remote.
       Inr (ubuntu_install_flatpak username app_id remote))))),
     (''UbuntuRemoveFlatpak'', \<lambda>ps.
       rbind (user_param ps) (\<lambda>username.
       rbind (safe_param ps ''app_id'') (\<lambda>app_id.
       Inr (ubuntu_remove_flatpak username app_id)))),
     (''UbuntuUpdateFlatpak'', \<lambda>ps.
       rbind (user_param ps) (\<lambda>username.
       rbind (opt_checked ps ''app_id'') (\<lambda>app_id.
       Inr (ubuntu_update_flatpak username app_id)))),
     (''UbuntuListFlatpaks'', \<lambda>ps.
       rbind (user_param ps) (\<lambda>username.
       Inr (ubuntu_list_flatpaks username)))]"

definition fail2ban_arms :: arms where
  "fail2ban_arms =
    [(''Fail2banStatus'', \<lambda>ps.
       rbind (opt_checked ps ''jail'') (\<lambda>jail.
       Inr (fail2ban_status jail))),
     (''Fail2banBanIp'', \<lambda>ps.
       rbind (safe_param ps ''jail'') (\<lambda>jail.
       rbind (require_str ps ''ip'') (\<lambda>ip.
       map_err fail2ban_err (fail2ban_ban_ip jail ip)))),
     (''Fail2banUnbanIp'', \<lambda>ps.
       rbind (safe_param ps ''jail'') (\<lambda>jail.
       rbind (require_str ps ''ip'') (\<lambda>ip.
       map_err fail2ban_err (fail2ban_unban_ip jail ip))))]"
definition action_arms :: arms where
  "action_arms =
    deployment_arms @ flatpak_arms @ container_arms @ layering_arms @ service_arms @ toolbox_arms @
    system_arms @ user_arms @ apt_arms @ snap_arms @ grub_arms @ ufw_arms @ pro_arms @ apparmor_arms @
    fail2ban_arms"

definition build_action_spec :: "str \<Rightarrow> json \<Rightarrow> (executor_error, action_spec) result" where
  "build_action_spec action_name params =
    (case map_of action_arms action_name of
       Some arm \<Rightarrow> arm params
     | None \<Rightarrow> Inl (UnknownActionError action_name))"

section \<open>Rollback\<close>

definition rollback_actions :: "str list" where
  "rollback_actions =
    [''UpdateSystem'', ''InstallPackages'', ''RemovePackages'', ''RebaseSystem'', ''SetKernelArguments'',
     ''AddLayeredPackage'', ''RemoveLayeredPackage'', ''ReplaceLayeredPackage'',
     ''ResetLayeredPackageOverride'', ''RemoveBasePackage'']"

definition rollback_spec_for :: "str \<Rightarrow> action_spec option" where
  "rollback_spec_for action_name =
    (if action_name \<in> set rollback_actions
     then Some (action ''RollbackDeployment'' (Command ''rpm-ostree'' [''rollback'']) High True False)
     else None)"

section \<open>The file system\<close>

text \<open>Files by path with their text, and the directories. A path is split at its last slash; the root
  directory is the empty text.\<close>

record machine =
  m_files :: "(str \<times> str) list"
  m_dirs :: "str list"

definition path_parent :: "str \<Rightarrow> str" where
  "path_parent p = rev (drop 1 (dropWhile (\<lambda>c. c \<noteq> CHR ''/'') (rev p)))"

definition path_name :: "str \<Rightarrow> str" where
  "path_name p = rev (takeWhile (\<lambda>c. c \<noteq> CHR ''/'') (rev p))"

text \<open>What the operating system adds: the outcome of a process (its output decoded as by
  \<open>from_utf8_lossy\<close>, no exit code when a signal ended it, nothing when it could not be spawned), with
  its effect on the files, and the file operations it refuses.\<close>

datatype fs_op = ReadDir | CreateDirs | WriteFile | ReadFile | RemoveFile

record os =
  os_run :: "str \<Rightarrow> str list \<Rightarrow> machine \<Rightarrow> (str \<times> str \<times> int option) option \<times> machine"
  os_denies :: "fs_op \<Rightarrow> str \<Rightarrow> bool"

definition fs_read_dir :: "os \<Rightarrow> str \<Rightarrow> machine \<Rightarrow> (executor_error, str list) result" where
  "fs_read_dir os p m =
    (if os_denies os ReadDir p \<or> \<not> List.member (m_dirs m) p then Inl ExecutorIo
     else Inr (map path_name (filter (\<lambda>q. path_parent q = p) (map fst (m_files m) @ m_dirs m))))"

lemma path_parent_shorter: "CHR ''/'' \<in> set p \<Longrightarrow> length (path_parent p) < length p"
proof -
  assume "CHR ''/'' \<in> set p"
  then have "0 < length p" by (cases p) auto
  moreover have "length (dropWhile (\<lambda>c. c \<noteq> CHR ''/'') (rev p)) \<le> length (rev p)"
    by (rule length_dropWhile_le)
  ultimately show ?thesis by (simp only: path_parent_def length_rev length_drop)
qed

function ancestors :: "str \<Rightarrow> str list" where
  "ancestors p = (if CHR ''/'' \<in> set p then p # ancestors (path_parent p) else [p])"
  by auto

termination ancestors
  by (relation "measure length") (simp_all add: path_parent_shorter)

declare ancestors.simps [simp del]

definition fs_create_dir_all :: "os \<Rightarrow> str \<Rightarrow> machine \<Rightarrow> (executor_error, machine) result" where
  "fs_create_dir_all os p m =
    (if os_denies os CreateDirs p \<or> list_ex (\<lambda>a. map_of (m_files m) a \<noteq> None) (ancestors p)
     then Inl ExecutorIo
     else Inr (m\<lparr>m_dirs := m_dirs m @ filter (\<lambda>a. \<not> List.member (m_dirs m) a) (ancestors p)\<rparr>))"

definition fs_write :: "os \<Rightarrow> str \<Rightarrow> str \<Rightarrow> machine \<Rightarrow> (executor_error, machine) result" where
  "fs_write os p content m =
    (if os_denies os WriteFile p \<or> List.member (m_dirs m) p \<or> \<not> List.member (m_dirs m) (path_parent p)
     then Inl ExecutorIo
     else Inr (m\<lparr>m_files := AList.update p content (m_files m)\<rparr>))"

definition fs_read_to_string :: "os \<Rightarrow> str \<Rightarrow> machine \<Rightarrow> (executor_error, str) result" where
  "fs_read_to_string os p m =
    (if os_denies os ReadFile p then Inl ExecutorIo else ok_or (map_of (m_files m) p) ExecutorIo)"

definition fs_remove_file :: "os \<Rightarrow> str \<Rightarrow> machine \<Rightarrow> (executor_error, machine) result" where
  "fs_remove_file os p m =
    (if os_denies os RemoveFile p \<or> map_of (m_files m) p = None then Inl ExecutorIo
     else Inr (m\<lparr>m_files := AList.delete p (m_files m)\<rparr>))"

text \<open>\<open>str::replacen(search, replace, 1)\<close>.\<close>

fun replace_first :: "str \<Rightarrow> str \<Rightarrow> str \<Rightarrow> str" where
  "replace_first search rep [] = (if search = [] then rep else [])"
| "replace_first search rep (c # s) =
    (if starts_with (c # s) search then rep @ drop (length search) (c # s)
     else c # replace_first search rep s)"

section \<open>Execution\<close>

record execution_output =
  eo_stdout :: str
  eo_stderr :: str
  eo_exit_code :: int

definition action_output :: "str \<Rightarrow> str \<Rightarrow> int \<Rightarrow> execution_output" where
  "action_output out err code = \<lparr>eo_stdout = out, eo_stderr = err, eo_exit_code = code\<rparr>"

definition is_success :: "execution_output \<Rightarrow> bool" where
  "is_success out = (eo_exit_code out = 0)"

definition is_nonzero :: "execution_output \<Rightarrow> bool" where
  "is_nonzero out = (eo_exit_code out \<noteq> 0)"

text \<open>The machine keeps what was done before an error: a failed write leaves the created directories.\<close>

definition execute_spec ::
  "os \<Rightarrow> action_spec \<Rightarrow> machine \<Rightarrow> (executor_error, execution_output) result \<times> machine" where
  "execute_spec os spec m =
    (case sp_mechanism spec of
       Command program args \<Rightarrow>
         (case os_run os program args m of
            (None, m') \<Rightarrow> (Inl ExecutorIo, m')
          | (Some (out, err, code), m') \<Rightarrow> (Inr (action_output out err (unwrap_or code (-1))), m'))
     | FileScan path \<Rightarrow>
         (rbind (fs_read_dir os path m) (\<lambda>names. Inr (action_output (join_with [CHR 0x0A] (sort names)) [] 0)), m)
     | FileWrite path content \<Rightarrow>
         (case fs_create_dir_all os (path_parent path) m of
            Inl e \<Rightarrow> (Inl e, m)
          | Inr m1 \<Rightarrow>
              (case fs_write os path content m1 of
                 Inl e \<Rightarrow> (Inl e, m1)
               | Inr m2 \<Rightarrow> (Inr (action_output [] [] 0), m2)))
     | FilePatch path search rep \<Rightarrow>
         (case fs_read_to_string os path m of
            Inl e \<Rightarrow> (Inl e, m)
          | Inr content \<Rightarrow>
              let patched = replace_first search rep content in
              if patched = content \<and> search \<noteq> []
              then (Inr (action_output [] (''search string not found in file: '' @ path) 1), m)
              else (case fs_write os path patched m of
                 Inl e \<Rightarrow> (Inl e, m)
               | Inr m' \<Rightarrow> (Inr (action_output [] [] 0), m')))
     | FileDelete path \<Rightarrow>
         (case fs_remove_file os path m of
            Inl e \<Rightarrow> (Inl e, m)
          | Inr m' \<Rightarrow> (Inr (action_output [] [] 0), m')))"

end
