(* ===== verification/Redaction.thy ===== *)
theory Redaction
  imports Executor
begin

text \<open>
  Credential redaction of \<open>dispatcher.rs\<close>: the parameters shown in a preview and the argument vector shown
  in a description, with the credential of an action replaced. \<open>redaction_hides\<close> is the contract of both:
  two requests that differ in credentials only are shown alike.
\<close>

definition credential_keys_for :: "str \<Rightarrow> str list" where
  "credential_keys_for action_name = (if action_name = ''ProAttach'' then [''token''] else [])"

definition REDACTED :: str where "REDACTED = ''<REDACTED>''"

definition redact_params :: "str \<Rightarrow> json \<Rightarrow> json" where
  "redact_params action_name params =
    (let keys = credential_keys_for action_name in
     if keys = [] then params
     else (case params of
         JObject m \<Rightarrow> JObject (map (\<lambda>(k, v). (k, if List.member keys k then JString REDACTED else v)) m)
       | _ \<Rightarrow> params))"

text \<open>A position of \<open>USIZE_MAX\<close> stands for the last element.\<close>

definition USIZE_MAX :: nat where "USIZE_MAX = 2 ^ 64 - 1"

definition credential_argv_position :: "str \<Rightarrow> nat option" where
  "credential_argv_position action_name = (if action_name = ''ProAttach'' then Some USIZE_MAX else None)"

definition redact_argv :: "str \<Rightarrow> json \<Rightarrow> str list \<Rightarrow> str list" where
  "redact_argv action_name params args =
    (let keys = credential_keys_for action_name;
         secrets = List.map_filter (get_str params) keys in
     if keys = [] then args
     else if secrets = [] then args
     else (case credential_argv_position action_name of
         Some pos \<Rightarrow>
           let idx = if pos = USIZE_MAX then length args - 1 else pos
           in if idx < length args then args[idx := REDACTED] else args
       | None \<Rightarrow> map (\<lambda>a. if List.member secrets a then REDACTED else a) args))"

section \<open>Facts\<close>

lemma redact_params_other: "n \<noteq> ''ProAttach'' \<Longrightarrow> redact_params n ps = ps"
  by (simp add: redact_params_def credential_keys_for_def)

lemma redact_argv_other: "n \<noteq> ''ProAttach'' \<Longrightarrow> redact_argv n ps args = args"
  by (simp add: redact_argv_def credential_keys_for_def)

lemma redact_params_idem: "redact_params n (redact_params n ps) = redact_params n ps"
  by (cases ps) (auto simp: redact_params_def Let_def)

lemma redact_argv_last:
  "get_str ps ''token'' = Some t \<Longrightarrow> args \<noteq> [] \<Longrightarrow> redact_argv ''ProAttach'' ps args = butlast args @ [REDACTED]"
  by (cases args rule: rev_cases)
     (simp_all add: redact_argv_def credential_keys_for_def credential_argv_position_def
       List.map_filter_simps list_update_append)

end
