(* ===== verification/Auth.thy ===== *)
theory Auth
  imports Sys_Types Rust_Std
begin

text \<open>
  Role resolution of \<open>auth.rs\<close> and of the first half of \<open>dispatcher.rs\<close>: the rank of a role and
  the linear order it gives, the highest role of a set of Unix groups, the group database and the
  group line of a process status file, and the token check of a vsock peer.
\<close>

section \<open>The order of roles\<close>

fun role_rank :: "caller_role \<Rightarrow> nat" where
  "role_rank Observer = 0"
| "role_rank Dev = 1"
| "role_rank Admin = 2"
| "role_rank Boot = 3"

lemma role_rank_inj: "role_rank r = role_rank s \<longleftrightarrow> r = s"
  by (cases r; cases s) auto

instantiation caller_role :: linorder
begin

definition less_eq_caller_role :: "caller_role \<Rightarrow> caller_role \<Rightarrow> bool" where
  "less_eq_caller_role r s = (role_rank r \<le> role_rank s)"

definition less_caller_role :: "caller_role \<Rightarrow> caller_role \<Rightarrow> bool" where
  "less_caller_role r s = (role_rank r < role_rank s)"

instance
  by standard (auto simp: less_eq_caller_role_def less_caller_role_def role_rank_inj)

end

instantiation risk_level :: linorder
begin

fun risk_rank :: "risk_level \<Rightarrow> nat" where
  "risk_rank Low = 0"
| "risk_rank Medium = 1"
| "risk_rank High = 2"

definition less_eq_risk_level :: "risk_level \<Rightarrow> risk_level \<Rightarrow> bool" where
  "less_eq_risk_level r s = (risk_rank r \<le> risk_rank s)"

definition less_risk_level :: "risk_level \<Rightarrow> risk_level \<Rightarrow> bool" where
  "less_risk_level r s = (risk_rank r < risk_rank s)"

instance
proof
  fix r s :: risk_level
  show "r \<le> s \<Longrightarrow> s \<le> r \<Longrightarrow> r = s"
    by (cases r; cases s) (auto simp: less_eq_risk_level_def)
qed (auto simp: less_eq_risk_level_def less_risk_level_def)

end

lemma Observer_least [simp]: "Observer \<le> r"
  by (simp add: less_eq_caller_role_def)

lemma role_le_simps [simp]:
  "r \<le> Observer \<longleftrightarrow> r = Observer"
  "r \<le> Boot" "Dev \<le> Admin" "\<not> Admin \<le> Dev" "\<not> Boot \<le> Admin" "\<not> Boot \<le> Dev"
  by (cases r; simp add: less_eq_caller_role_def)+

definition higher_role :: "caller_role \<Rightarrow> caller_role \<Rightarrow> caller_role" where
  "higher_role current candidate =
    (if role_rank candidate > role_rank current then candidate else current)"

lemma higher_role_max: "higher_role r s = max r s"
  by (auto simp: higher_role_def max_def less_eq_caller_role_def role_rank_inj)

section \<open>Groups\<close>

definition OBSERVER_GROUP :: str where "OBSERVER_GROUP = ''sysknife-observer''"
definition DEV_GROUP :: str where "DEV_GROUP = ''sysknife-dev''"
definition ADMIN_GROUP :: str where "ADMIN_GROUP = ''sysknife-admin''"
definition BOOT_GROUP :: str where "BOOT_GROUP = ''sysknife-boot''"
definition WHEEL_GROUP :: str where "WHEEL_GROUP = ''wheel''"

lemmas group_defs = OBSERVER_GROUP_def DEV_GROUP_def ADMIN_GROUP_def BOOT_GROUP_def WHEEL_GROUP_def

definition role_for_group :: "str \<Rightarrow> caller_role" where
  "role_for_group g =
    (if g = BOOT_GROUP then Boot
     else if g = ADMIN_GROUP \<or> g = WHEEL_GROUP then Admin
     else if g = DEV_GROUP then Dev
     else if g = OBSERVER_GROUP then Observer
     else Observer)"

definition highest_role_from_groups :: "str list \<Rightarrow> caller_role" where
  "highest_role_from_groups groups = foldl higher_role Observer (map role_for_group groups)"

lemma foldl_higher_role: "foldl higher_role r rs = Max (insert r (set rs))"
proof (induction rs arbitrary: r)
  case (Cons s rs)
  have "foldl higher_role r (s # rs) = foldl higher_role (max r s) rs"
    by (simp add: higher_role_max)
  also have "\<dots> = Max (insert (max r s) (set rs))" by (rule Cons.IH)
  also have "\<dots> = Max (insert r (insert s (set rs)))"
    by (cases "set rs = {}") (auto simp: max.assoc)
  finally show ?case by simp
qed simp

lemma highest_role_Max: "highest_role_from_groups gs = Max (insert Observer (role_for_group ` set gs))"
  by (simp add: highest_role_from_groups_def foldl_higher_role)

lemma highest_role_ge:
  "r \<le> highest_role_from_groups gs \<longleftrightarrow> r = Observer \<or> (\<exists>g\<in>set gs. r \<le> role_for_group g)"
  by (auto simp: highest_role_Max Max_ge_iff)

lemma highest_role_set_cong: "set gs = set hs \<Longrightarrow> highest_role_from_groups gs = highest_role_from_groups hs"
  by (simp add: highest_role_Max)

lemma highest_role_append: "highest_role_from_groups (gs @ hs)
    = max (highest_role_from_groups gs) (highest_role_from_groups hs)"
  by (simp add: highest_role_Max image_Un Max_Un [symmetric] insert_commute
      Max.union [symmetric] Un_insert_left Un_insert_right)

section \<open>The group database and the peer's groups\<close>

text \<open>\<open>str::lines\<close>: split at line feeds, a final empty piece dropped, a carriage return before a
  line feed dropped.\<close>

definition strip_cr :: "str \<Rightarrow> str" where
  "strip_cr l = (if l \<noteq> [] \<and> last l = CHR 0x0D then butlast l else l)"

definition str_lines :: "str \<Rightarrow> str list" where
  "str_lines s =
    (let ps = split_on (CHR 0x0A) s
     in map strip_cr (butlast ps) @ (if last ps = [] then [] else [last ps]))"

definition group_line :: "str \<Rightarrow> (nat \<times> str) option" where
  "group_line l = (case splitn 4 (CHR '':'') l of
      name # pw # gid # _ \<Rightarrow> map_option (\<lambda>g. (g, name)) (parse_uint u32_max gid)
    | _ \<Rightarrow> None)"

text \<open>\<open>HashMap::insert\<close> keeps the last name of a group id; an unreadable file is \<open>None\<close>.\<close>

definition read_gid_map :: "str option \<Rightarrow> (nat \<rightharpoonup> str)" where
  "read_gid_map file = (case file of
      None \<Rightarrow> Map.empty
    | Some content \<Rightarrow>
        foldl (\<lambda>m l. case group_line l of None \<Rightarrow> m | Some (g, name) \<Rightarrow> m(g \<mapsto> name))
          Map.empty (str_lines content))"

definition ascii_ws :: "char \<Rightarrow> bool" where
  "ascii_ws c = (byte_of c \<in> {9, 10, 11, 12, 13, 32})"

text \<open>\<open>split_whitespace\<close> on the ASCII text of a status file.\<close>

fun split_ws :: "str \<Rightarrow> str \<Rightarrow> str list" where
  "split_ws acc [] = (if acc = [] then [] else [rev acc])"
| "split_ws acc (c # cs) =
    (if ascii_ws c then (if acc = [] then split_ws [] cs else rev acc # split_ws [] cs)
     else split_ws (c # acc) cs)"

definition filter_map :: "('a \<Rightarrow> 'b option) \<Rightarrow> 'a list \<Rightarrow> 'b list" where
  "filter_map f xs = concat (map (\<lambda>x. case f x of None \<Rightarrow> [] | Some y \<Rightarrow> [y]) xs)"

lemma filter_map_set: "y \<in> set (filter_map f xs) \<longleftrightarrow> (\<exists>x\<in>set xs. f x = Some y)"
  by (auto simp: filter_map_def split: option.splits) force

text \<open>\<open>trim_start_matches("Groups:")\<close> drops every leading copy of the label.\<close>

definition groups_of_line :: "(nat \<rightharpoonup> str) \<Rightarrow> str \<Rightarrow> str list" where
  "groups_of_line gm l =
    filter_map gm (filter_map (parse_uint u32_max) (split_ws [] (strip_all [''Groups:''] l)))"

definition groups_for_pid :: "str option \<Rightarrow> (nat \<rightharpoonup> str) \<Rightarrow> str list" where
  "groups_for_pid status gm = (case status of
      None \<Rightarrow> []
    | Some s \<Rightarrow> (case find (\<lambda>l. starts_with l ''Groups:'') (str_lines s) of
          None \<Rightarrow> []
        | Some l \<Rightarrow> groups_of_line gm l))"

text \<open>The peer's credentials: \<open>None\<close> when \<open>peer_cred\<close> fails, else the process id when the
  kernel gives one, and the primary group id. \<open>proc_status\<close> reads \<open>/proc/<pid>/status\<close>.\<close>

definition resolve_caller_role ::
    "(int option \<times> nat) option \<Rightarrow> str option \<Rightarrow> (nat \<Rightarrow> str option) \<Rightarrow> caller_role" where
  "resolve_caller_role cred group_file proc_status = (case cred of
      None \<Rightarrow> Observer
    | Some (None, gid) \<Rightarrow> Observer
    | Some (Some p, gid) \<Rightarrow>
        if p < 0 then Observer
        else let gm = read_gid_map group_file;
                 groups = groups_for_pid (proc_status (nat p)) gm;
                 groups' = (case gm gid of
                     None \<Rightarrow> groups
                   | Some name \<Rightarrow> if List.member groups name then groups else groups @ [name])
             in highest_role_from_groups groups')"

section \<open>Token authentication\<close>

text \<open>\<open>SYSKNIFE_TOKEN_ROLE\<close>, \<open>None\<close> when unset.\<close>

definition token_role :: "str option \<Rightarrow> caller_role" where
  "token_role env =
    (let v = to_ascii_lowercase (unwrap_or env [])
     in if v = ''observer'' then Observer else if v = ''admin'' then Admin
        else if v = ''boot'' then Boot else Dev)"

datatype read_error = NotFound | OtherIo

definition validate_token_against_file ::
    "str \<Rightarrow> (read_error, str) result \<Rightarrow> str option \<Rightarrow> caller_role option" where
  "validate_token_against_file presented file env =
    (if presented = [] then None
     else case file of
       Inl NotFound \<Rightarrow> None
     | Inl OtherIo \<Rightarrow> None
     | Inr content \<Rightarrow>
         let stored = trim content
         in if stored = [] then None
            else if length stored \<noteq> length presented then None
            else if \<not> ct_eq stored presented then None
            else Some (token_role env))"

lemma validate_token_Some:
  "validate_token_against_file t fr env = Some r \<longleftrightarrow>
     t \<noteq> [] \<and> (\<exists>c. fr = Inr c \<and> trim c = t) \<and> r = token_role env"
  by (cases fr) (auto simp: validate_token_against_file_def Let_def ct_eq_iff split: read_error.splits)

end
