(* ===== verification/State_Collector.thy ===== *)
theory State_Collector
  imports Auth Json
begin

text \<open>
  \<open>state_collector.rs\<close>: the snapshot of the system, read from the outputs of seven commands. Only the
  host name is required. The command runner is a parameter (\<open>None\<close> is a failed command), so is the
  parser of JSON text.
\<close>

record collected_state =
  cs_host_name :: str
  cs_deployment :: str
  cs_services :: "str list"
  cs_flatpaks :: "str list"
  cs_toolboxes :: "str list"
  cs_layered_packages :: "str list"
  cs_containers :: "str list"
  cs_users :: "str list"

datatype collector_error = CommandFailed str str

section \<open>Parsers of the outputs\<close>

text \<open>The first word of a line: what precedes the next white space after the leading one.\<close>

fun upto_ws :: "str \<Rightarrow> str" where
  "upto_ws [] = []"
| "upto_ws (c # s) = (if list_ex (\<lambda>w. prefix w (c # s)) unicode_ws then [] else c # upto_ws s)"

definition first_word :: "str \<Rightarrow> str option" where
  "first_word l = (let w = upto_ws (trim_start l) in if w = [] then None else Some w)"

definition parse_service_lines :: "str \<Rightarrow> str list" where
  "parse_service_lines out = List.map_filter first_word (str_lines out)"

definition parse_lines :: "str \<Rightarrow> str list" where
  "parse_lines out = filter (\<lambda>l. l \<noteq> []) (map trim (str_lines out))"

text \<open>\<open>Value::get\<close> on the first deployment.\<close>

definition first_deployment :: "json \<Rightarrow> json option" where
  "first_deployment val =
    Option.bind (Option.bind (json_get val ''deployments'') as_array)
      (\<lambda>arr. case arr of [] \<Rightarrow> None | d # _ \<Rightarrow> Some d)"

definition parse_deployment_summary :: "(str \<Rightarrow> json option) \<Rightarrow> str \<Rightarrow> str" where
  "parse_deployment_summary parse json_output =
    (case Option.bind (parse json_output) first_deployment of
       None \<Rightarrow> []
     | Some dep \<Rightarrow>
         let origin = unwrap_or (get_str dep ''origin'') ''unknown'';
             is_booted = unwrap_or (get_bool dep ''booted'') False;
             tags = (if is_booted then [''booted''] else []) @
               (case get_str dep ''version'' of None \<Rightarrow> [] | Some v \<Rightarrow> [''v'' @ v])
         in origin @ (if tags = [] then [] else '' ('' @ join_with '', '' tags @ '')''))"

definition package_items :: "json \<Rightarrow> str \<Rightarrow> str list" where
  "package_items dep key =
    (case Option.bind (json_get dep key) as_array of
       None \<Rightarrow> []
     | Some arr \<Rightarrow> filter (\<lambda>s. s \<noteq> []) (List.map_filter as_str arr))"

definition parse_layered_packages :: "(str \<Rightarrow> json option) \<Rightarrow> str \<Rightarrow> str list" where
  "parse_layered_packages parse json_output =
    (case Option.bind (parse json_output) first_deployment of
       None \<Rightarrow> []
     | Some booted \<Rightarrow> package_items booted ''requested-packages'' @ package_items booted ''requested-local-packages'')"

definition local_user :: "str \<Rightarrow> str option" where
  "local_user line =
    (let fields = split_on (CHR '':'') line in
     if length fields < 7 then None
     else (case parse_uint u32_max (fields ! 2) of
         None \<Rightarrow> None
       | Some uid \<Rightarrow>
           if uid \<ge> 1000 \<and> fields ! 0 \<noteq> ''nobody'' \<and> fields ! 0 \<noteq> ''nfsnobody'' \<and>
              \<not> ends_with (fields ! 6) ''nologin'' \<and> \<not> ends_with (fields ! 6) ''/false''
           then Some (fields ! 0) else None))"

definition parse_local_users :: "str \<Rightarrow> str list" where
  "parse_local_users out = List.map_filter local_user (str_lines out)"

section \<open>The snapshot\<close>

type_synonym runner = "str \<Rightarrow> str list \<Rightarrow> (str, str) result"

definition best_effort :: "(str, str) result \<Rightarrow> (str \<Rightarrow> 'a list) \<Rightarrow> 'a list" where
  "best_effort r parse = (case r of Inl e \<Rightarrow> [] | Inr s \<Rightarrow> parse s)"

definition collect_state :: "(str \<Rightarrow> json option) \<Rightarrow> runner \<Rightarrow> (collector_error, collected_state) result" where
  "collect_state parse run =
    rbind (map_err (CommandFailed ''hostname'') (run ''hostname'' [])) (\<lambda>host.
    let ostree = best_effort (run ''rpm-ostree'' [''status'', ''--booted'', ''--json'']) trim
    in Inr \<lparr>cs_host_name = trim host,
         cs_deployment = parse_deployment_summary parse ostree,
         cs_services = best_effort (run ''systemctl'' [''list-units'', ''--type=service'', ''--state=running'',
             ''--no-legend'', ''--no-pager'', ''--plain'']) parse_service_lines,
         cs_flatpaks = best_effort (run ''flatpak'' [''list'', ''--columns=application'']) parse_lines,
         cs_toolboxes = best_effort (run ''toolbox'' [''list'', ''--containers'']) parse_lines,
         cs_layered_packages = parse_layered_packages parse ostree,
         cs_containers = best_effort (run ''podman'' [''ps'', ''--format'', ''{{.Names}}'']) parse_lines,
         cs_users = best_effort (run ''getent'' [''passwd'', ''--service'', ''files'']) parse_local_users\<rparr>)"

text \<open>\<open>#[error(...)]\<close> of \<open>CollectorError\<close>, and the derived serialisation of the snapshot.\<close>

fun collector_error_text :: "collector_error \<Rightarrow> str" where
  "collector_error_text (CommandFailed command reason) = ''command failed for '' @ command @ '': '' @ reason"

definition strings_json :: "str list \<Rightarrow> json" where
  "strings_json xs = JArray (map JString xs)"

definition collected_json :: "collected_state \<Rightarrow> json" where
  "collected_json s = JObject
    [(''host_name'', JString (cs_host_name s)), (''deployment'', JString (cs_deployment s)),
     (''services'', strings_json (cs_services s)), (''flatpaks'', strings_json (cs_flatpaks s)),
     (''toolboxes'', strings_json (cs_toolboxes s)),
     (''layered_packages'', strings_json (cs_layered_packages s)),
     (''containers'', strings_json (cs_containers s)), (''users'', strings_json (cs_users s))]"

section \<open>Facts\<close>

lemma map_filter_set: "y \<in> set (List.map_filter f xs) \<longleftrightarrow> (\<exists>x\<in>set xs. f x = Some y)"
  by (force simp: List.map_filter_def)

lemma upto_ws_prefix: "prefix (upto_ws s) s"
  by (induction s) auto

text \<open>The lines of a text made of lines.\<close>

lemma join_lines: "join_with [CHR 0x0A] (ls @ [[]]) = concat (map (\<lambda>l. l @ [CHR 0x0A]) ls)"
proof (induction ls)
  case (Cons l ls)
  then show ?case by (cases "ls @ [[]]") auto
qed simp

lemma str_lines_concat:
  assumes "list_all (\<lambda>l. CHR 0x0A \<notin> set l \<and> (l = [] \<or> last l \<noteq> CHR 0x0D)) ls"
  shows "str_lines (concat (map (\<lambda>l. l @ [CHR 0x0A]) ls)) = ls"
proof -
  have "split_on (CHR 0x0A) (join_with [CHR 0x0A] (ls @ [[]])) = ls @ [[]]"
    by (rule split_join) (use assms in \<open>auto simp: list_all_iff\<close>)
  moreover have "map strip_cr ls = ls"
    using assms by (induction ls) (auto simp: strip_cr_def)
  ultimately show ?thesis using join_lines [of ls] by (simp add: str_lines_def)
qed

section \<open>Properties\<close>

record passwd_entry =
  pw_name :: str
  pw_passwd :: str
  pw_uid :: nat
  pw_gid :: str
  pw_gecos :: str
  pw_home :: str
  pw_shell :: str

definition passwd_fields :: "passwd_entry \<Rightarrow> str list" where
  "passwd_fields e = [pw_name e, pw_passwd e, show_nat (pw_uid e), pw_gid e, pw_gecos e, pw_home e, pw_shell e]"

definition passwd_text :: "passwd_entry list \<Rightarrow> str" where
  "passwd_text es = concat (map (\<lambda>e. join_with '':'' (passwd_fields e) @ [CHR 0x0A]) es)"

text \<open>Fields hold no separator and no line end, and the id fits 32 bits.\<close>

definition wf_passwd :: "passwd_entry \<Rightarrow> bool" where
  "wf_passwd e \<longleftrightarrow> pw_uid e \<le> u32_max \<and>
     list_all (\<lambda>f. CHR '':'' \<notin> set f \<and> CHR 0x0A \<notin> set f \<and> CHR 0x0D \<notin> set f) (passwd_fields e)"

definition human_account :: "passwd_entry \<Rightarrow> bool" where
  "human_account e \<longleftrightarrow> pw_uid e \<ge> 1000 \<and> pw_name e \<notin> {''nobody'', ''nfsnobody''} \<and>
     \<not> suffix ''nologin'' (pw_shell e) \<and> \<not> suffix ''/false'' (pw_shell e)"

lemma local_user_passwd:
  "wf_passwd e \<Longrightarrow> local_user (join_with '':'' (passwd_fields e)) = (if human_account e then Some (pw_name e) else None)"
proof -
  assume wf: "wf_passwd e"
  have "split_on (CHR '':'') (join_with '':'' (passwd_fields e)) = passwd_fields e"
    by (rule split_join) (use wf in \<open>auto simp: wf_passwd_def list_all_iff passwd_fields_def\<close>)
  with wf show ?thesis
    by (simp add: local_user_def Let_def passwd_fields_def wf_passwd_def parse_show_nat human_account_def
        ends_with_def)
qed

lemma passwd_line_ok:
  "wf_passwd e \<Longrightarrow> CHR 0x0A \<notin> set (join_with '':'' (passwd_fields e)) \<and>
     last (join_with '':'' (passwd_fields e)) \<noteq> CHR 0x0D"
proof -
  assume "wf_passwd e"
  then have "x \<noteq> CHR 0x0A \<and> x \<noteq> CHR 0x0D" if "x \<in> set (join_with '':'' (passwd_fields e))" for x
    using that by (auto simp: wf_passwd_def passwd_fields_def)
  moreover have "join_with '':'' (passwd_fields e) \<noteq> []" by (simp add: passwd_fields_def)
  ultimately show ?thesis by (metis last_in_set)
qed

text \<open>The users of the snapshot are exactly the human accounts of the password database in its order:
  the names with a user id of at least 1000 and a login shell, \<open>nobody\<close> excluded.\<close>

theorem users_are_human_accounts:
  assumes "list_all wf_passwd es"
  shows "parse_local_users (passwd_text es) = map pw_name (filter human_account es)"
proof -
  let ?l = "\<lambda>e. join_with '':'' (passwd_fields e)"
  have "str_lines (passwd_text es) = map ?l es"
    unfolding passwd_text_def
    using str_lines_concat [of "map ?l es"] assms passwd_line_ok by (simp add: list_all_iff o_def)
  moreover have "List.map_filter local_user (map ?l es) = map pw_name (filter human_account es)"
    using assms by (induction es) (simp_all add: List.map_filter_simps local_user_passwd)
  ultimately show ?thesis by (simp add: parse_local_users_def)
qed

definition passwd_sample :: "passwd_entry list" where
  "passwd_sample =
    [\<lparr>pw_name = ''root'', pw_passwd = ''x'', pw_uid = 0, pw_gid = ''0'', pw_gecos = ''root'', pw_home = ''/root'', pw_shell = ''/bin/bash''\<rparr>,
     \<lparr>pw_name = ''jane'', pw_passwd = ''x'', pw_uid = 1000, pw_gid = ''1000'', pw_gecos = ''Jane'', pw_home = ''/home/jane'', pw_shell = ''/bin/bash''\<rparr>]"

lemma show_nat_sample: "show_nat 0 = ''0''" "show_nat 1000 = ''1000''"
  by code_simp+

theorem users_are_human_accounts_witness: "parse_local_users (passwd_text passwd_sample) = [''jane'']"
proof -
  have "list_all wf_passwd passwd_sample"
    by (simp add: passwd_sample_def wf_passwd_def passwd_fields_def u32_max_def show_nat_sample)
  then have "parse_local_users (passwd_text passwd_sample) = map pw_name (filter human_account passwd_sample)"
    by (rule users_are_human_accounts)
  then show ?thesis by (simp add: passwd_sample_def human_account_def suffix_to_prefix)
qed

end
