(* ===== verification/Externs.thy ===== *)
theory Externs
  imports Json
begin

text \<open>
  The code outside \<open>src/\<close> that the model's functions call, as one record of functions that they take
  as an argument: HMAC-SHA256 and SHA-256 (raw bytes in, raw bytes out), and serde_json's
  rendering and parsing of strings, numbers and string lists. A theorem that needs a documented law
  of one of them has that law as a hypothesis. \<open>plain_externs\<close> is a concrete choice that satisfies
  the laws; the witnesses use it.
\<close>

record externs =
  ex_mac :: "str \<Rightarrow> str \<Rightarrow> str"
  ex_sha256 :: "str \<Rightarrow> str"
  ex_json_quote :: "str \<Rightarrow> str"
  ex_json_unquote :: "str \<Rightarrow> str option"
  ex_json_number :: "json_number \<Rightarrow> str"
  ex_ser_strings :: "str list \<Rightarrow> str"
  ex_de_strings :: "str \<Rightarrow> str list option"

text \<open>serde_json reads back the list of strings it wrote.\<close>

definition strings_roundtrip :: "externs \<Rightarrow> bool" where
  "strings_roundtrip ext \<longleftrightarrow> (\<forall>ws. ex_de_strings ext (ex_ser_strings ext ws) = Some ws)"

text \<open>A quoted string is a quote, a body and a quote; the body of a string of letters and
  underscores is the string.\<close>

definition unquote_plain :: "externs \<Rightarrow> bool" where
  "unquote_plain ext \<longleftrightarrow>
     (\<forall>s. list_all (\<lambda>c. c = CHR ''_'' \<or> (97 \<le> byte_of c \<and> byte_of c \<le> 122)) s \<longrightarrow>
        ex_json_unquote ext (CHR 0x22 # s @ [CHR 0x22]) = Some s)"

section \<open>A concrete choice\<close>

text \<open>The tag and the digest are the message behind a marker, and the list of strings is written as
  lengths in unary followed by the strings.\<close>

definition plain_strip :: "str \<Rightarrow> str option" where
  "plain_strip s = (if 2 \<le> length s \<and> hd s = CHR 0x22 \<and> last s = CHR 0x22
     then Some (butlast (tl s)) else None)"

definition plain_ser :: "str list \<Rightarrow> str" where
  "plain_ser ws = concat (map (\<lambda>w. replicate (length w) (CHR ''#'') @ CHR '':'' # w) ws)"

fun plain_de_fuel :: "nat \<Rightarrow> str \<Rightarrow> str list option" where
  "plain_de_fuel fuel [] = Some []"
| "plain_de_fuel 0 (c # cs) = None"
| "plain_de_fuel (Suc f) (c # cs) =
    (let k = length (takeWhile (\<lambda>x. x = CHR ''#'') (c # cs));
         rest = drop (Suc k) (c # cs)
     in map_option (\<lambda>ws. take k rest # ws) (plain_de_fuel f (drop k rest)))"

definition plain_de :: "str \<Rightarrow> str list option" where
  "plain_de s = plain_de_fuel (length s) s"

definition plain_externs :: externs where
  "plain_externs =
    \<lparr> ex_mac = (\<lambda>k m. CHR ''m'' # m), ex_sha256 = (\<lambda>m. CHR ''h'' # m),
      ex_json_quote = (\<lambda>s. CHR 0x22 # s @ [CHR 0x22]), ex_json_unquote = plain_strip,
      ex_json_number = (\<lambda>n. ''0''), ex_ser_strings = plain_ser, ex_de_strings = plain_de \<rparr>"

lemma plain_ser_nonempty: "w # ws = v \<Longrightarrow> plain_ser v \<noteq> []"
  by (auto simp: plain_ser_def)

lemma plain_de_fuel_Suc:
  "s \<noteq> [] \<Longrightarrow> plain_de_fuel (Suc f) s =
    (let k = length (takeWhile (\<lambda>x. x = CHR ''#'') s); rest = drop (Suc k) s
     in map_option (\<lambda>ws. take k rest # ws) (plain_de_fuel f (drop k rest)))"
  by (cases s) simp_all

lemma plain_de_fuel_ser: "length (plain_ser ws) \<le> f \<Longrightarrow> plain_de_fuel f (plain_ser ws) = Some ws"
proof (induction ws arbitrary: f)
  case Nil
  then show ?case by (simp add: plain_ser_def)
next
  case (Cons w ws)
  let ?s = "replicate (length w) (CHR ''#'') @ CHR '':'' # w @ plain_ser ws"
  have s: "plain_ser (w # ws) = ?s" by (simp add: plain_ser_def)
  from Cons.prems s obtain g where g: "f = Suc g" "length (plain_ser ws) \<le> g"
    by (cases f) auto
  have tw: "takeWhile (\<lambda>x. x = CHR ''#'') ?s = replicate (length w) (CHR ''#'')"
    by (subst takeWhile_append2) auto
  show ?case
    unfolding s g(1) using Cons.IH [OF g(2)]
    by (subst plain_de_fuel_Suc) (simp_all add: tw Let_def del: takeWhile_append1 takeWhile_append2)
qed

lemma plain_externs_roundtrip: "strings_roundtrip plain_externs"
  by (simp add: strings_roundtrip_def plain_externs_def plain_de_def plain_de_fuel_ser)

lemma plain_externs_unquote: "unquote_plain plain_externs"
  by (simp add: unquote_plain_def plain_externs_def plain_strip_def)

lemma plain_externs_mac: "ex_mac plain_externs k m \<noteq> []"
  by (simp add: plain_externs_def)

end
