(* ===== verification/Prefix_Code.thy ===== *)
theory Prefix_Code
  imports Prelude
begin

text \<open>
  Uniquely decodable encodings. \<open>prefix_code\<close> is the interface of an encoder whose output can be
  followed by anything and still be read back; \<open>escaped_code\<close> is the interface of an escape table
  with a terminator that no escape contains, and gives a prefix code on strings. The canonical
  audit record, the canonical JSON of a request and the wire frames are instances.
\<close>

locale prefix_code =
  fixes enc :: "'a \<Rightarrow> 'c list"
  assumes decodable: "enc x @ r = enc y @ s \<Longrightarrow> x = y \<and> r = s"
begin

lemma enc_append_iff: "enc x @ r = enc y @ s \<longleftrightarrow> x = y \<and> r = s"
  using decodable by blast

lemma enc_inj: "enc x = enc y \<longleftrightarrow> x = y"
  using decodable [of x "[]" y "[]"] by auto

lemma enc_prefix: "prefix (enc x) (enc y) \<longleftrightarrow> x = y"
  using decodable [of x _ y "[]"] by (auto simp: prefix_def)

lemma concat_decodable:
  "length xs = length ys \<Longrightarrow> concat (map enc xs) @ r = concat (map enc ys) @ s \<longleftrightarrow> xs = ys \<and> r = s"
proof (induction xs ys rule: list_induct2)
  case (Cons x xs y ys)
  then show ?case
    using decodable [of x "concat (map enc xs) @ r" y "concat (map enc ys) @ s"] by auto
qed simp

end

locale escaped_code =
  fixes esc :: "'a \<Rightarrow> 'c list" and stop :: 'c
  assumes esc_nonempty: "esc x \<noteq> []"
    and esc_no_stop: "stop \<notin> set (esc x)"
    and esc_decodable: "esc x @ r = esc y @ s \<Longrightarrow> x = y \<and> r = s"
begin

definition field :: "'a list \<Rightarrow> 'c list" where
  "field v = concat (map esc v) @ [stop]"

lemma field_no_early_stop: "stop \<notin> set (concat (map esc v))"
  using esc_no_stop by auto

lemma field_decodable: "field v @ r = field w @ s \<Longrightarrow> v = w \<and> r = s"
proof (induction v arbitrary: w)
  case Nil
  show ?case
  proof (cases w)
    case Nil
    with \<open>field [] @ r = field w @ s\<close> show ?thesis by (simp add: field_def)
  next
    case (Cons y ys)
    obtain c cs where "esc y = c # cs" using esc_nonempty [of y] by (cases "esc y") auto
    with esc_no_stop [of y] Cons \<open>field [] @ r = field w @ s\<close> show ?thesis
      by (auto simp: field_def)
  qed
next
  case (Cons x v)
  show ?case
  proof (cases w)
    case Nil
    obtain c cs where "esc x = c # cs" using esc_nonempty [of x] by (cases "esc x") auto
    with esc_no_stop [of x] Nil Cons.prems show ?thesis by (auto simp: field_def)
  next
    case (Cons y w')
    with Cons.prems have "esc x @ (field v @ r) = esc y @ (field w' @ s)"
      by (simp add: field_def)
    from esc_decodable [OF this] Cons.IH [of w'] Cons show ?thesis by simp
  qed
qed

end

sublocale escaped_code \<subseteq> field: prefix_code field
  by unfold_locales (rule field_decodable)

end
