(* ===== verification/Request_Hash.thy ===== *)
theory Request_Hash
  imports Externs Rust_Std Prefix_Code
begin

text \<open>
  The request hash of the dispatcher: SHA-256 over the action name, a zero byte and the canonical JSON of
  the parameters. \<open>json_display\<close> is serde_json's compact rendering, \<open>canonical_json\<close> renders with keys
  sorted at every level. Under the laws of JSON text the rendering is uniquely decodable
  (\<open>display_decodable\<close>), so that equal canonical texts are equal values up to the order of keys.
\<close>

section \<open>Rendering\<close>

fun json_display :: "externs \<Rightarrow> json \<Rightarrow> str" where
  "json_display ext JNull = ''null''"
| "json_display ext (JBool b) = (if b then ''true'' else ''false'')"
| "json_display ext (JNumber n) = ex_json_number ext n"
| "json_display ext (JString s) = ex_json_quote ext s"
| "json_display ext (JArray xs) = ''['' @ join_with '','' (map (json_display ext) xs) @ '']''"
| "json_display ext (JObject m) =
    ''{'' @ join_with '','' (map (\<lambda>(k, v). ex_json_quote ext k @ '':'' @ json_display ext v) m) @ ''}''"

fun canonical_json :: "externs \<Rightarrow> json \<Rightarrow> str" where
  "canonical_json ext (JObject m) =
    (let pairs = map (\<lambda>(k, text). ex_json_quote ext k @ '':'' @ text)
           (sort_key fst (map (\<lambda>(k, v). (k, canonical_json ext v)) m))
     in ''{'' @ join_with '','' pairs @ ''}'')"
| "canonical_json ext (JArray xs) = ''['' @ join_with '','' (map (canonical_json ext) xs) @ '']''"
| "canonical_json ext v = json_display ext v"

definition compute_request_hash :: "externs \<Rightarrow> str \<Rightarrow> json \<Rightarrow> str" where
  "compute_request_hash ext action_name params =
    hex_encode (ex_sha256 ext (action_name @ [CHR 0x00] @ canonical_json ext params))"

text \<open>The value with its keys sorted at every level.\<close>

fun sort_json :: "json \<Rightarrow> json" where
  "sort_json (JObject m) = JObject (sort_key fst (map (\<lambda>(k, v). (k, sort_json v)) m))"
| "sort_json (JArray xs) = JArray (map sort_json xs)"
| "sort_json v = v"

lemma sort_key_map_snd:
  "sort_key fst (map (\<lambda>(k, v). (k, f v)) m) = map (\<lambda>(k, v). (k, f v)) (sort_key fst m)"
proof (induction m)
  case (Cons p m)
  obtain k v where p: "p = (k, v)" by (cases p)
  have "insort_key fst (k, f v) (map (\<lambda>(k, v). (k, f v)) xs) = map (\<lambda>(k, v). (k, f v)) (insort_key fst (k, v) xs)" for xs
    by (induction xs) auto
  with Cons p show ?case by (simp add: sort_key_def)
qed simp

lemma canonical_display: "canonical_json ext v = json_display ext (sort_json v)"
proof (induction v)
  case (JArray xs)
  then have "map (canonical_json ext) xs = map (json_display ext) (map sort_json xs)" by simp
  then show ?case by (simp only: canonical_json.simps sort_json.simps json_display.simps)
next
  case (JObject m)
  then have "map (\<lambda>(k, v). (k, canonical_json ext v)) m =
      map (\<lambda>(k, v). (k, json_display ext v)) (map (\<lambda>(k, v). (k, sort_json v)) m)"
    by (fastforce)
  then show ?case
    by (simp add: Let_def sort_key_map_snd o_def case_prod_beta del: map_map)
       (simp add: o_def case_prod_beta)
qed simp_all

section \<open>Unique decoding\<close>

text \<open>The laws of JSON text: a quoted string begins with a quote and can be told from what follows it; a
  number is a nonempty text over the number alphabet that determines the number.\<close>

definition number_char :: "char \<Rightarrow> bool" where
  "number_char c = (is_ascii_digit c \<or> c \<in> {CHR ''-'', CHR ''+'', CHR ''.'', CHR ''e'', CHR ''E''})"

definition json_text_laws :: "externs \<Rightarrow> bool" where
  "json_text_laws ext \<longleftrightarrow>
    (\<forall>s t x y. ex_json_quote ext s @ x = ex_json_quote ext t @ y \<longrightarrow> s = t \<and> x = y) \<and>
    (\<forall>s. \<exists>r. ex_json_quote ext s = CHR 0x22 # r) \<and>
    (\<forall>n. ex_json_number ext n \<noteq> [] \<and> list_all number_char (ex_json_number ext n)) \<and>
    (\<forall>m n. ex_json_number ext m = ex_json_number ext n \<longrightarrow> m = n)"

text \<open>What may follow a value inside a text.\<close>

fun delimited :: "str \<Rightarrow> bool" where
  "delimited [] = True"
| "delimited (c # s) = (c = CHR '','' \<or> c = CHR '']'' \<or> c = CHR ''}'')"

lemma delimited_no_number: "delimited s \<Longrightarrow> s = [] \<or> \<not> number_char (hd s)"
  by (cases s) (auto simp: number_char_def ascii_defs)

lemma number_split:
  assumes "list_all number_char u" "list_all number_char w" "delimited x" "delimited y" "u @ x = w @ y"
  shows "u = w \<and> x = y"
proof -
  have tw: "takeWhile number_char (u @ x) = u" if "list_all number_char u" "delimited x" for u x
    using that delimited_no_number [OF that(2)]
    by (cases x) (auto simp: list_all_iff takeWhile_append2)
  have "u = takeWhile number_char (u @ x)" using tw [OF assms(1,3)] by simp
  also have "\<dots> = w" unfolding assms(5) by (rule tw [OF assms(2,4)])
  finally show ?thesis using assms(5) by simp
qed

text \<open>The first character tells the kinds of value apart.\<close>

fun kind_char :: "externs \<Rightarrow> json \<Rightarrow> char" where
  "kind_char ext JNull = CHR ''n''"
| "kind_char ext (JBool b) = (if b then CHR ''t'' else CHR ''f'')"
| "kind_char ext (JNumber n) = hd (ex_json_number ext n)"
| "kind_char ext (JString s) = CHR 0x22"
| "kind_char ext (JArray xs) = CHR ''[''"
| "kind_char ext (JObject m) = CHR ''{''"

lemma quote_split: "json_text_laws ext \<Longrightarrow> ex_json_quote ext s @ x = ex_json_quote ext t @ y \<longleftrightarrow> s = t \<and> x = y"
  unfolding json_text_laws_def by metis

lemma number_text: "json_text_laws ext \<Longrightarrow> ex_json_number ext n \<noteq> []"
  "json_text_laws ext \<Longrightarrow> list_all number_char (ex_json_number ext n)"
  unfolding json_text_laws_def by metis+

lemma number_inj: "json_text_laws ext \<Longrightarrow> ex_json_number ext m = ex_json_number ext n \<longleftrightarrow> m = n"
  unfolding json_text_laws_def by metis

lemma quote_start: "json_text_laws ext \<Longrightarrow> \<exists>r. ex_json_quote ext s = CHR 0x22 # r"
  unfolding json_text_laws_def by metis

lemma number_kind: "json_text_laws ext \<Longrightarrow> number_char (hd (ex_json_number ext n))"
  using number_text [of ext n] by (cases "ex_json_number ext n") auto

lemma display_start:
  assumes "json_text_laws ext" shows "\<exists>r. json_display ext v = kind_char ext v # r"
proof (cases v)
  case (JNumber n)
  with number_text(1) [OF assms, of n] show ?thesis by (cases "ex_json_number ext n") auto
next
  case (JString s)
  with quote_start [OF assms, of s] show ?thesis by simp
qed auto

text \<open>A bracketed list of items, each decodable before a delimiter, is decodable.\<close>

lemma join_step:
  "join_with '','' (map f (v # vs)) @ close # x =
     f v @ (if vs = [] then close # x else CHR '','' # join_with '','' (map f vs) @ close # x)"
  by (cases vs) simp_all

lemma join_decodable:
  assumes "\<And>v w x y. v \<in> set xs \<Longrightarrow> delimited x \<Longrightarrow> delimited y \<Longrightarrow> f v @ x = f w @ y \<Longrightarrow> v = w \<and> x = y"
    and "\<And>w. \<exists>c r. f w = c # r \<and> c \<noteq> close" "close = CHR '']'' \<or> close = CHR ''}''"
    and "join_with '','' (map f xs) @ close # x = join_with '','' (map f ys) @ close # y"
  shows "xs = ys \<and> x = y"
  using assms
proof (induction xs arbitrary: ys)
  case Nil
  show ?case
  proof (cases ys)
    case Nil
    with \<open>join_with '','' (map f []) @ close # x = _\<close> show ?thesis by simp
  next
    case (Cons w ws)
    obtain c r where "f w = c # r" "c \<noteq> close" using Nil(2) by blast
    with Cons Nil(4) show ?thesis by (simp add: join_step del: list.map(2))
  qed
next
  case (Cons v vs)
  show ?case
  proof (cases ys)
    case Nil
    obtain c r where "f v = c # r" "c \<noteq> close" using Cons.prems(2) by blast
    with Nil Cons.prems(4) show ?thesis by (simp add: join_step del: list.map(2))
  next
    case (Cons w ws)
    let ?R = "\<lambda>us z. if us = [] then close # z else CHR '','' # join_with '','' (map f us) @ close # z"
    have "f v @ ?R vs x = f w @ ?R ws y"
      using Cons.prems(4) unfolding \<open>ys = w # ws\<close> join_step .
    moreover have "delimited (?R us z)" for us z using Cons.prems(3) by auto
    ultimately have vw: "v = w" "?R vs x = ?R ws y"
      using Cons.prems(1) [OF list.set_intros(1)] by blast+
    have "vs = ws \<and> x = y"
    proof (cases "vs = [] \<or> ws = []")
      case True
      with vw(2) Cons.prems(3) show ?thesis by (auto split: if_splits)
    next
      case False
      with vw(2) have "join_with '','' (map f vs) @ close # x = join_with '','' (map f ws) @ close # y" by simp
      with Cons.IH [of ws] Cons.prems(1,2,3) show ?thesis by auto
    qed
    with vw(1) \<open>ys = w # ws\<close> show ?thesis by simp
  qed
qed

fun kind :: "json \<Rightarrow> nat" where
  "kind JNull = 0" | "kind (JBool b) = 1" | "kind (JNumber n) = 2" | "kind (JString s) = 3"
| "kind (JArray xs) = 4" | "kind (JObject m) = 5"

definition kind_of_char :: "char \<Rightarrow> nat" where
  "kind_of_char c =
    (if number_char c then 2 else if c = CHR ''n'' then 0 else if c = CHR 0x22 then 3
     else if c = CHR ''['' then 4 else if c = CHR ''{'' then 5 else 1)"

lemma kind_char_kind: "json_text_laws ext \<Longrightarrow> kind_of_char (kind_char ext v) = kind v"
  by (cases v) (auto simp: kind_of_char_def number_kind, simp_all add: number_char_def ascii_defs)

lemma display_kind:
  assumes "json_text_laws ext" "json_display ext v @ x = json_display ext w @ y"
  shows "kind v = kind w"
proof -
  obtain r r' where "json_display ext v = kind_char ext v # r" "json_display ext w = kind_char ext w # r'"
    using display_start [OF assms(1)] by metis
  with assms(2) have "kind_char ext v = kind_char ext w" by simp
  then show ?thesis using kind_char_kind [OF assms(1)] by metis
qed

lemma display_no_close:
  assumes "json_text_laws ext"
  shows "\<exists>c r. json_display ext v = c # r \<and> c \<noteq> CHR '']''"
proof -
  have "kind_of_char (CHR '']'') = 1" by (simp add: kind_of_char_def number_char_def ascii_defs)
  then have "kind_char ext v \<noteq> CHR '']''"
    using kind_char_kind [OF assms, of v] by (cases v) (auto split: if_splits)
  then show ?thesis using display_start [OF assms, of v] by auto
qed

lemma display_decodable:
  assumes laws: "json_text_laws ext"
  shows "delimited x \<Longrightarrow> delimited y \<Longrightarrow> json_display ext v @ x = json_display ext w @ y \<Longrightarrow> v = w \<and> x = y"
proof (induction v arbitrary: w x y)
  case JNull
  with display_kind [OF laws JNull(3)] show ?case by (cases w) auto
next
  case (JBool b)
  with display_kind [OF laws JBool(3)] show ?case by (cases w) (auto split: if_splits)
next
  case (JNumber n)
  with display_kind [OF laws JNumber(3)] obtain k where w: "w = JNumber k" by (cases w) auto
  with number_split [OF number_text(2) [OF laws] number_text(2) [OF laws] JNumber(1,2)] JNumber(3) laws
  show ?case by (auto simp: number_inj)
next
  case (JString s)
  with display_kind [OF laws JString(3)] laws show ?case by (cases w) (auto simp: quote_split)
next
  case (JArray vs)
  with display_kind [OF laws JArray(4)] obtain ws where w: "w = JArray ws" by (cases w) auto
  have "vs = ws \<and> x = y"
    by (rule join_decodable [where f = "json_display ext" and close = "CHR '']''"])
       (use JArray w laws display_no_close in \<open>auto\<close>)
  with w show ?case by simp
next
  case (JObject m)
  with display_kind [OF laws JObject(4)] obtain m' where w: "w = JObject m'" by (cases w) auto
  let ?f = "\<lambda>(k, v). ex_json_quote ext k @ '':'' @ json_display ext v"
  have "m = m' \<and> x = y"
  proof (rule join_decodable [where f = ?f and close = "CHR ''}''"])
    show "\<exists>c r. ?f p = c # r \<and> c \<noteq> CHR ''}''" for p
      using quote_start [OF laws, of "fst p"] by (auto split: prod.split)
    show "p = q \<and> x = y" if "p \<in> set m" "delimited x" "delimited y" "?f p @ x = ?f q @ y" for p q x y
    proof -
      obtain k u l u' where pq: "p = (k, u)" "q = (l, u')" by (cases p; cases q)
      with that(4) laws have "k = l" "json_display ext u @ x = json_display ext u' @ y"
        by (auto simp: quote_split)
      with JObject.IH [of p u x y u'] that pq show ?thesis by auto
    qed
  qed (use JObject w in auto)
  with w show ?case by simp
qed

text \<open>Equal canonical texts are equal values up to the order of their keys.\<close>

lemma canonical_json_eq:
  "json_text_laws ext \<Longrightarrow> canonical_json ext v = canonical_json ext w \<longleftrightarrow> sort_json v = sort_json w"
  using display_decodable [of ext "[]" "[]" "sort_json v" "sort_json w"] by (auto simp: canonical_display)

end
