(* ===== verification/Preview.thy ===== *)
theory Preview
  imports Sys_Types Auth
begin

text \<open>
  \<open>preview.rs\<close>: the static profile shown before an action runs. The match over action names is a list of
  arms in source order, each with its names; a name in no arm gets the profile of an unclassified action.
\<close>

record preview_profile =
  pp_risk_level :: risk_level
  pp_expected_side_effects :: "str list"
  pp_reboot_required :: bool
  pp_rollback_available :: bool
  pp_warnings :: "str list"

definition profile :: "risk_level \<Rightarrow> str list \<Rightarrow> bool \<Rightarrow> bool \<Rightarrow> str list \<Rightarrow> preview_profile" where
  "profile risk effects reboot rollback warnings =
    \<lparr>pp_risk_level = risk, pp_expected_side_effects = effects, pp_reboot_required = reboot,
     pp_rollback_available = rollback, pp_warnings = warnings\<rparr>"

lemma profile_sel [simp]:
  "pp_risk_level (profile r e b k w) = r"
  "pp_expected_side_effects (profile r e b k w) = e"
  "pp_reboot_required (profile r e b k w) = b"
  "pp_rollback_available (profile r e b k w) = k"
  "pp_warnings (profile r e b k w) = w"
  by (simp_all add: profile_def)

section \<open>The arms\<close>

definition readonly_preview_arms :: "(str list \<times> preview_profile) list" where
  "readonly_preview_arms =
    [([''GetSystemState'', ''CollectDiagnostics'', ''GetDeploymentHistory'', ''ListDeployments'',
       ''GetKernelArguments'', ''GetPendingUpdates'', ''SearchFlatpakApps'', ''ListFlatpakRemotes'',
       ''ListInstalledFlatpaks'', ''GetFlatpakAppInfo'', ''ListToolboxes'', ''ListServices'',
       ''GetServiceLogs'', ''GetServiceStatus'', ''ListTimers'', ''GetFirewallState'', ''ListUsers'',
       ''ListGroups'', ''ListPackageRepositories'', ''ListContainers'', ''GetContainerInfo'',
       ''GetLayeredPackages'', ''GetDiskUsage'', ''ListProcesses'', ''GetMemoryInfo'',
       ''GetNetworkStatus'', ''GetAuthorizedKeys'', ''GetDateTime'', ''ListJobHistory'',
       ''AptSearch'', ''AptListInstalled'', ''AptShow'', ''SnapList'', ''SnapInfo'', ''UfwStatus'',
       ''DistroboxList'', ''NetplanGetConfig'', ''ProStatus'', ''LivepatchStatus'', ''MultipassList''],
      profile Low [] False False
        [])]"

definition ubuntu_package_preview_arms :: "(str list \<times> preview_profile) list" where
  "ubuntu_package_preview_arms =
    [([''AptInstall'', ''AptRemove'', ''AptPurge'', ''AptHold'', ''AptUnhold''],
      profile Medium [''package state will change'',
        ''services may be restarted by needrestart''] False False
        [''approval required'']),
     ([''SnapInstall'', ''SnapRemove'', ''SnapRefresh'', ''SnapHold'', ''SnapUnhold''],
      profile Medium [''snap state will change''] False False
        [''approval required'',
        ''snap auto-refresh: install is paired with --hold by default'']),
     ([''DistroboxCreate'', ''DistroboxRemove''],
      profile Medium [''container lifecycle will change''] False False
        [''approval required'']),
     ([''AptUpgrade''],
      profile High [''all packages will be upgraded'',
        ''packages may be removed to resolve dependency conflicts'',
        ''services may be restarted by needrestart''] False False
        [''dist-upgrade may remove packages'',
        ''exact approval required''])]"

definition ubuntu_network_preview_arms :: "(str list \<times> preview_profile) list" where
  "ubuntu_network_preview_arms =
    [([''UfwEnable'', ''UfwDisable'', ''UfwAllow'', ''UfwDeny'', ''UfwReset''],
      profile High [''firewall rules will change'',
        ''network access may be immediately affected''] False False
        [''misconfigured rules can lock out SSH access'',
        ''exact approval required'']),
     ([''NetplanApply''],
      profile High [''network interfaces will be reconfigured immediately'',
        ''SSH session may be disconnected''] False False
        [''can disconnect the current SSH session if config is wrong'',
        ''exact approval required'']),
     ([''NetplanGenerate''],
      profile Medium [''backend network config files will be regenerated''] False False
        [''approval required'']),
     ([''NetplanSet''],
      profile High [''netplan configuration will be modified'',
        ''network may be affected when NetplanApply is run''] False True
        [''run NetplanApply to activate the change'',
        ''exact approval required'']),
     ([''UfwDeleteRule'', ''UfwLimit''],
      profile High [''firewall rules will change'',
        ''network access may be immediately affected''] False False
        [''misconfigured rules can lock out SSH access'',
        ''exact approval required''])]"

definition ubuntu_system_preview_arms :: "(str list \<times> preview_profile) list" where
  "ubuntu_system_preview_arms =
    [([''ProAttach''],
      profile High [''Ubuntu Pro subscription will be attached'',
        ''Pro services (ESM, Livepatch, FIPS) may be enabled''] False True
        [''exact approval required'',
        ''token is redacted from the preview, audit log, and diagnostic output'']),
     ([''ProDetach''],
      profile High [''Ubuntu Pro subscription will be released'',
        ''ESM, Livepatch, and FIPS services will be disabled''] False True
        [''exact approval required'',
        ''after detach, this machine no longer receives Pro security patches'']),
     ([''UbuntuReleaseUpgrade''],
      profile High [''entire OS will be upgraded to the next Ubuntu release'',
        ''takes 20'' @ [CHR 0xE2, CHR 0x80, CHR 0x93] @ ''45 minutes; system will be rebooted to complete'',
        ''third-party PPAs may be disabled or break during upgrade''] True False
        [''reboot required to complete the upgrade'',
        ''long-running operation '' @ [CHR 0xE2, CHR 0x80, CHR 0x94] @ '' configure timeout >= 3600 seconds'',
        ''exact approval required''])]"

definition host_preview_arms :: "(str list \<times> preview_profile) list" where
  "host_preview_arms =
    [([''ReloadService''],
      profile Medium [''service config will be reloaded''] False False
        [''approval required'',
        ''requires ExecReload= to be defined in the unit file; if not defined, use RestartService instead'']),
     ([''RestartService'', ''ReloadDaemon'', ''SetServiceEnabled'', ''StartService'', ''StopService'',
       ''ConfigureWifi'', ''SetDnsServers'', ''ConfigureFirewall'', ''CreateToolbox'',
       ''RemoveToolbox'', ''InstallFlatpak'', ''RemoveFlatpak'', ''UpdateFlatpak'',
       ''AddFlatpakRemote'', ''RemoveFlatpakRemote'', ''MaskService'', ''UnmaskService'',
       ''SetHostname'', ''SetTimezone'', ''SetLocale'', ''SetNtp'', ''CreateUser''],
      profile Medium [''service interruption''] False False
        [''approval required'']),
     ([''AddUserToGroup'', ''RemoveUserFromGroup'', ''DeleteUser'', ''AddAuthorizedKey'',
       ''RemoveAuthorizedKey''],
      profile High [''access control will change''] False False
        [''privilege change'',
        ''exact approval required''])]"

definition resource_preview_arms :: "(str list \<times> preview_profile) list" where
  "resource_preview_arms =
    [([''AddPackageRepository'', ''RemovePackageRepository'', ''EnablePackageRepository'',
       ''DisablePackageRepository''],
      profile Medium [''package repository configuration will change''] False False
        [''approval required'']),
     ([''CreateContainer'', ''StartContainer'', ''StopContainer'', ''RemoveContainer''],
      profile Medium [''container lifecycle will change''] False False
        [''approval required''])]"

definition deployment_preview_arms :: "(str list \<times> preview_profile) list" where
  "deployment_preview_arms =
    [([''UpdateSystem'', ''InstallPackages'', ''RemovePackages'', ''RebaseSystem'',
       ''RollbackDeployment'', ''AddLayeredPackage'', ''RemoveLayeredPackage'',
       ''ReplaceLayeredPackage'', ''ResetLayeredPackageOverride'', ''RemoveBasePackage''],
      profile High [''system deployment will change'',
        ''reboot may be required''] True True
        [''reboot required'',
        ''exact approval required'']),
     ([''SetKernelArguments''],
      profile High [''boot arguments will change''] True True
        [''reboot required'',
        ''exact approval required'']),
     ([''RebootSystem''],
      profile High [''system reboot will interrupt running work''] True False
        [''reboot required'',
        ''exact approval required'']),
     ([''CleanupDeployments''],
      profile High [''old deployments may be removed''] False False
        [''exact approval required'']),
     ([''PinDeployment'', ''UnpinDeployment''],
      profile High [''deployment pin state will change''] False False
        [''exact approval required''])]"
definition unclassified_profile :: preview_profile where
  "unclassified_profile =
    profile High [''unclassified action''] False False [''action profile not recognized'']"

definition preview_arms :: "(str list \<times> preview_profile) list" where
  "preview_arms =
    readonly_preview_arms @ ubuntu_package_preview_arms @ ubuntu_network_preview_arms @
    ubuntu_system_preview_arms @ host_preview_arms @ resource_preview_arms @ deployment_preview_arms"

fun match_arm :: "str \<Rightarrow> (str list \<times> preview_profile) list \<Rightarrow> preview_profile" where
  "match_arm n [] = unclassified_profile"
| "match_arm n ((names, p) # arms) = (if n \<in> set names then p else match_arm n arms)"

definition preview_profile_of :: "str \<Rightarrow> preview_profile" where
  "preview_profile_of action_name = match_arm action_name preview_arms"

section \<open>The preview\<close>

fun risk_words :: "risk_level \<Rightarrow> str" where
  "risk_words Low = ''low-risk''"
| "risk_words Medium = ''medium-risk''"
| "risk_words High = ''high-risk''"

definition preview_summary :: "str \<Rightarrow> risk_level \<Rightarrow> str" where
  "preview_summary action_name risk = action_name @ '' preview ('' @ risk_words risk @ '')''"

definition preview_action :: "request_envelope \<Rightarrow> json \<Rightarrow> json \<Rightarrow> preview_envelope" where
  "preview_action request current_state proposed_change =
    (let p = preview_profile_of (re_action_name request)
     in \<lparr>pe_summary = preview_summary (re_action_name request) (pp_risk_level p),
         pe_risk_level = pp_risk_level p,
         pe_current_state = current_state,
         pe_proposed_change = proposed_change,
         pe_expected_side_effects = pp_expected_side_effects p,
         pe_reboot_required = pp_reboot_required p,
         pe_rollback_available = pp_rollback_available p,
         pe_warnings = pp_warnings p,
         pe_request_hash = re_request_hash request\<rparr>)"

section \<open>Facts\<close>

lemma match_arm_append:
  "match_arm n (xs @ ys) = (if list_ex (\<lambda>(ns, _). n \<in> set ns) xs then match_arm n xs else match_arm n ys)"
  by (induction xs) auto

lemma match_arm_cases: "match_arm n arms = unclassified_profile \<or> (\<exists>ns. n \<in> set ns \<and> (ns, match_arm n arms) \<in> set arms)"
  by (induction n arms rule: match_arm.induct) auto

lemmas preview_arms_defs = preview_arms_def readonly_preview_arms_def ubuntu_package_preview_arms_def
  ubuntu_network_preview_arms_def ubuntu_system_preview_arms_def host_preview_arms_def
  resource_preview_arms_def deployment_preview_arms_def

text \<open>Whatever the name, a profile asks for approval exactly when it is above low risk.\<close>

lemma profiles_warn:
  "list_all (\<lambda>(_, p). pp_risk_level p = Low \<longleftrightarrow> pp_warnings p = [] \<and> pp_expected_side_effects p = []) preview_arms"
  by (simp add: preview_arms_defs)

lemma profiles_reboot:
  "list_all (\<lambda>(_, p). pp_reboot_required p \<longrightarrow> pp_risk_level p = High) preview_arms"
  by (simp add: preview_arms_defs)

lemma profile_low_iff:
  "pp_risk_level (preview_profile_of n) = Low \<longleftrightarrow>
     pp_warnings (preview_profile_of n) = [] \<and> pp_expected_side_effects (preview_profile_of n) = []"
  using match_arm_cases [of n preview_arms] profiles_warn
  by (auto simp: preview_profile_of_def unclassified_profile_def list_all_iff split: prod.splits)

lemma profile_reboot_High:
  "pp_reboot_required (preview_profile_of n) \<Longrightarrow> pp_risk_level (preview_profile_of n) = High"
  using match_arm_cases [of n preview_arms] profiles_reboot
  by (auto simp: preview_profile_of_def unclassified_profile_def list_all_iff split: prod.splits)

end
