(* ===== verification/Audit_Chain.thy ===== *)
theory Audit_Chain
  imports Prefix_Code Sys_Types Rust_Std
begin

text \<open>
  The audit hash chain of \<open>audit_chain.rs\<close>: the escaped canonical encoding of a row, the chained
  MAC, the verifier and its exit codes, and the loading of the key file. HMAC-SHA256 is the
  parameter \<open>mac\<close> (key bytes and message to the raw tag); what is used of it is that a tag is not
  empty. Collision freedom is never assumed: where it matters the theorems name the collision.
\<close>

section \<open>Keys\<close>

definition CURRENT_KEY_ID :: str where "CURRENT_KEY_ID = ''v1''"

definition HASH_HEX_LEN :: nat where "HASH_HEX_LEN = 64"

record audit_key =
  ak_key_id :: str
  ak_key_bytes :: str

datatype audit_key_error =
    KeyIo
  | UnsafePermissions "32 word"
  | KeyTooShort nat

unbundle bit_operations_syntax

text \<open>The key file on disk, when there is one, and the outcomes of the system calls:
  \<open>io_random\<close> is what \<open>/dev/urandom\<close> gives (\<open>None\<close> when creating the directory or the file, or
  reading the random bytes, fails), the flags say whether \<open>stat\<close> and \<open>read\<close> succeed.\<close>

record key_file =
  kf_mode :: "32 word"
  kf_bytes :: str

record key_io =
  io_random :: "str option"
  io_stat_ok :: bool
  io_read_ok :: bool

definition generate_key_at :: "key_io \<Rightarrow> (audit_key_error, key_file) result" where
  "generate_key_at io = (case io_random io of
      None \<Rightarrow> Inl KeyIo
    | Some bs \<Rightarrow> Inr \<lparr> kf_mode = 0x180, kf_bytes = bs \<rparr>)"

definition load_key_file :: "key_io \<Rightarrow> key_file \<Rightarrow> (audit_key_error, audit_key) result" where
  "load_key_file io f =
    (if \<not> io_stat_ok io then Inl KeyIo
     else let mode = kf_mode f AND 0x1FF
     in if mode AND 0x3F \<noteq> 0 then Inl (UnsafePermissions mode)
        else if \<not> io_read_ok io then Inl KeyIo
        else if length (kf_bytes f) < 32 then Inl (KeyTooShort (length (kf_bytes f)))
        else Inr \<lparr> ak_key_id = CURRENT_KEY_ID, ak_key_bytes = kf_bytes f \<rparr>)"

definition load_or_generate ::
    "key_io \<Rightarrow> key_file option \<Rightarrow> (audit_key_error, audit_key) result \<times> key_file option" where
  "load_or_generate io file_opt = (case file_opt of
      Some f \<Rightarrow> (load_key_file io f, Some f)
    | None \<Rightarrow> (case generate_key_at io of
          Inl e \<Rightarrow> (Inl e, None)
        | Inr f \<Rightarrow> (load_key_file io f, Some f)))"

lemma load_key_file_ok:
  "load_key_file io f = Inr k \<Longrightarrow>
     kf_mode f AND 0x3F = 0 \<and> 32 \<le> length (ak_key_bytes k) \<and> ak_key_bytes k = kf_bytes f \<and>
     ak_key_id k = CURRENT_KEY_ID"
  by (auto simp: load_key_file_def Let_def and.assoc split: if_splits)

lemma load_or_generate_ok:
  "load_or_generate io fo = (Inr k, fo') \<Longrightarrow>
     \<exists>f. fo' = Some f \<and> kf_mode f AND 0x3F = 0 \<and> 32 \<le> length (kf_bytes f) \<and>
       k = \<lparr> ak_key_id = CURRENT_KEY_ID, ak_key_bytes = kf_bytes f \<rparr> \<and> (fo \<noteq> None \<longrightarrow> fo = Some f)"
  by (auto simp: load_or_generate_def split: option.splits sum.splits dest!: load_key_file_ok)

text \<open>A second start loads the key the first one generated.\<close>

lemma load_generated_again:
  "load_or_generate io None = (Inr k, Some f) \<Longrightarrow> io_stat_ok io' \<Longrightarrow> io_read_ok io' \<Longrightarrow>
     load_or_generate io' (Some f) = (Inr k, Some f)"
  by (auto simp: load_or_generate_def generate_key_at_def load_key_file_def Let_def
      split: option.splits sum.splits if_splits)

section \<open>The canonical encoding\<close>

record chain_content =
  cc_seq :: nat
  cc_key_id :: str
  cc_transaction_id :: str
  cc_request_id :: str
  cc_request_hash :: str
  cc_action_name :: str
  cc_risk_level :: risk_level
  cc_summary :: str
  cc_approval_id :: "str option"
  cc_warnings_json :: str
  cc_created_at :: str

definition RS :: char where "RS = CHR 0x1E"
definition US :: char where "US = CHR 0x1F"

definition escape_byte :: "char \<Rightarrow> str" where
  "escape_byte b =
    (if b = CHR 0x5C then [CHR 0x5C, CHR 0x5C]
     else if b = CHR 0x00 then [CHR 0x5C, CHR ''0'']
     else if b = CHR 0x1E then [CHR 0x5C, CHR ''1'', CHR ''E'']
     else if b = CHR 0x1F then [CHR 0x5C, CHR ''1'', CHR ''F'']
     else [b])"

definition push_field :: "str \<Rightarrow> str \<Rightarrow> str \<Rightarrow> str" where
  "push_field buf tag v = buf @ tag @ [RS] @ concat (map escape_byte v) @ [US]"

fun risk_level_str :: "risk_level \<Rightarrow> str" where
  "risk_level_str Low = ''low''"
| "risk_level_str Medium = ''medium''"
| "risk_level_str High = ''high''"

definition canonical_bytes :: "chain_content \<Rightarrow> str" where
  "canonical_bytes c =
    (let buf = push_field [] ''seq'' (show_nat (cc_seq c));
         buf = push_field buf ''key_id'' (cc_key_id c);
         buf = push_field buf ''transaction_id'' (cc_transaction_id c);
         buf = push_field buf ''request_id'' (cc_request_id c);
         buf = push_field buf ''request_hash'' (cc_request_hash c);
         buf = push_field buf ''action_name'' (cc_action_name c);
         buf = push_field buf ''risk_level'' (risk_level_str (cc_risk_level c));
         buf = push_field buf ''summary'' (cc_summary c);
         buf = push_field buf ''approval_id'' (unwrap_or (cc_approval_id c) []);
         buf = push_field buf ''warnings_json'' (cc_warnings_json c);
         buf = push_field buf ''created_at'' (cc_created_at c)
     in buf)"

definition chain_hash :: "(str \<Rightarrow> str \<Rightarrow> str) \<Rightarrow> audit_key \<Rightarrow> chain_content \<Rightarrow> str \<Rightarrow> str" where
  "chain_hash mac key content prev_chain_hash =
    hex_encode (mac (ak_key_bytes key) (canonical_bytes content @ prev_chain_hash))"

section \<open>Injectivity of the encoding\<close>

lemma escape_byte_first: "hd (escape_byte b) = CHR 0x5C \<longleftrightarrow> length (escape_byte b) \<noteq> 1"
  by (simp add: escape_byte_def)

lemma escape_byte_decodable: "escape_byte x @ r = escape_byte y @ s \<Longrightarrow> x = y \<and> r = s"
  by (auto simp: escape_byte_def split: if_splits)

interpretation audit_field: escaped_code escape_byte US
proof
  fix x y :: char and r s :: str
  show "escape_byte x \<noteq> []" by (simp add: escape_byte_def)
  show "US \<notin> set (escape_byte x)" by (simp add: escape_byte_def US_def)
  show "x = y \<and> r = s" if "escape_byte x @ r = escape_byte y @ s"
    using that by (rule escape_byte_decodable)
qed

lemma risk_level_str_inj [simp]: "risk_level_str k = risk_level_str l \<longleftrightarrow> k = l"
  by (cases k; cases l) simp_all

lemma push_field_field: "push_field buf tag v = buf @ tag @ [RS] @ audit_field.field v"
  by (simp add: push_field_def audit_field.field_def)

text \<open>The encoding forgets one bit: an absent approval and an empty one are the same bytes.\<close>

definition norm_content :: "chain_content \<Rightarrow> chain_content" where
  "norm_content c = c\<lparr>cc_approval_id := Some (unwrap_or (cc_approval_id c) [])\<rparr>"

lemma canonical_norm: "canonical_bytes (norm_content c) = canonical_bytes c"
  by (simp add: canonical_bytes_def norm_content_def)

lemma canonical_decodable:
  "canonical_bytes c @ p = canonical_bytes d @ q \<longleftrightarrow> norm_content c = norm_content d \<and> p = q"
  by (cases c; cases d)
     (auto simp: canonical_bytes_def push_field_field audit_field.field.enc_append_iff show_nat_inj
       norm_content_def Let_def)

section \<open>Rows and verification\<close>

record chain_row =
  cr_seq :: nat
  cr_key_id :: str
  cr_transaction_id :: str
  cr_request_id :: str
  cr_request_hash :: str
  cr_action_name :: str
  cr_risk_level :: risk_level
  cr_summary :: str
  cr_approval_id :: "str option"
  cr_warnings_json :: str
  cr_created_at :: str
  cr_prev_chain_hash :: str
  cr_chain_hash :: str

definition row_content :: "chain_row \<Rightarrow> chain_content" where
  "row_content r =
    \<lparr> cc_seq = cr_seq r, cc_key_id = cr_key_id r, cc_transaction_id = cr_transaction_id r,
      cc_request_id = cr_request_id r, cc_request_hash = cr_request_hash r,
      cc_action_name = cr_action_name r, cc_risk_level = cr_risk_level r,
      cc_summary = cr_summary r, cc_approval_id = cr_approval_id r,
      cc_warnings_json = cr_warnings_json r, cc_created_at = cr_created_at r \<rparr>"

text \<open>The reason of \<open>CannotVerify\<close> is kept as the values its message is formatted from: the row's
  \<open>seq\<close> and key id, and the loaded key's id.\<close>

datatype verify_outcome =
    Intact nat
  | Broken nat nat str str str
  | CannotVerify nat str str

fun outcome_to_exit_code :: "verify_outcome \<Rightarrow> nat" where
  "outcome_to_exit_code (Intact _) = 0"
| "outcome_to_exit_code (Broken _ _ _ _ _) = 1"
| "outcome_to_exit_code (CannotVerify _ _ _) = 2"

fun verify_loop :: "(str \<Rightarrow> str \<Rightarrow> str) \<Rightarrow> audit_key \<Rightarrow> str \<Rightarrow> nat \<Rightarrow> chain_row list \<Rightarrow> verify_outcome" where
  "verify_loop mac key last_hash rows_checked [] = Intact rows_checked"
| "verify_loop mac key last_hash rows_checked (row # rows) =
    (if cr_key_id row \<noteq> ak_key_id key then CannotVerify (cr_seq row) (cr_key_id row) (ak_key_id key)
     else if cr_prev_chain_hash row \<noteq> last_hash then
       Broken rows_checked (cr_seq row) (cr_transaction_id row)
         (''prev_chain_hash='' @ last_hash) (''prev_chain_hash='' @ cr_prev_chain_hash row)
     else let expected = chain_hash mac key (row_content row) (cr_prev_chain_hash row)
          in if expected \<noteq> cr_chain_hash row then
               Broken rows_checked (cr_seq row) (cr_transaction_id row) expected (cr_chain_hash row)
             else verify_loop mac key (cr_chain_hash row) (rows_checked + 1) rows)"

definition verify_chain :: "(str \<Rightarrow> str \<Rightarrow> str) \<Rightarrow> audit_key \<Rightarrow> chain_row list \<Rightarrow> verify_outcome" where
  "verify_chain mac key rows = verify_loop mac key [] 0 rows"

section \<open>What verification establishes\<close>

text \<open>A row is linked to a hash when its three checks pass; a log is linked from a hash when every
  row is linked to the hash of the row before it. \<open>log_tip\<close> is the hash the next row must name.\<close>

definition row_linked :: "(str \<Rightarrow> str \<Rightarrow> str) \<Rightarrow> audit_key \<Rightarrow> str \<Rightarrow> chain_row \<Rightarrow> bool" where
  "row_linked mac key h r \<longleftrightarrow> cr_key_id r = ak_key_id key \<and> cr_prev_chain_hash r = h \<and>
     cr_chain_hash r = chain_hash mac key (row_content r) h"

fun log_linked :: "(str \<Rightarrow> str \<Rightarrow> str) \<Rightarrow> audit_key \<Rightarrow> str \<Rightarrow> chain_row list \<Rightarrow> bool" where
  "log_linked mac key h [] = True"
| "log_linked mac key h (r # rs) = (row_linked mac key h r \<and> log_linked mac key (cr_chain_hash r) rs)"

definition log_tip :: "str \<Rightarrow> chain_row list \<Rightarrow> str" where
  "log_tip h rs = (if rs = [] then h else cr_chain_hash (last rs))"

lemma log_tip_simps [simp]:
  "log_tip h [] = h"
  "log_tip h (r # rs) = log_tip (cr_chain_hash r) rs"
  "log_tip h (rs @ [r]) = cr_chain_hash r"
  by (simp_all add: log_tip_def)

lemma log_linked_append [simp]:
  "log_linked mac key h (xs @ ys) \<longleftrightarrow> log_linked mac key h xs \<and> log_linked mac key (log_tip h xs) ys"
  by (induction xs arbitrary: h) auto

lemma verify_loop_linked:
  "verify_loop mac key h n rows = Intact m \<longleftrightarrow> log_linked mac key h rows \<and> m = n + length rows"
  by (induction rows arbitrary: h n) (auto simp: row_linked_def Let_def)

lemma verify_chain_Intact:
  "verify_chain mac key rows = Intact m \<longleftrightarrow> log_linked mac key [] rows \<and> m = length rows"
  by (simp add: verify_chain_def verify_loop_linked)

lemma verify_loop_prefix:
  "log_linked mac key h pre \<Longrightarrow>
     verify_loop mac key h n (pre @ rows) = verify_loop mac key (log_tip h pre) (n + length pre) rows"
  by (induction pre arbitrary: h n) (auto simp: row_linked_def Let_def)

text \<open>The first row that is not linked decides the outcome, whatever follows it.\<close>

definition break_outcome :: "(str \<Rightarrow> str \<Rightarrow> str) \<Rightarrow> audit_key \<Rightarrow> str \<Rightarrow> nat \<Rightarrow> chain_row \<Rightarrow> verify_outcome" where
  "break_outcome mac key h n r =
    (if cr_key_id r \<noteq> ak_key_id key then CannotVerify (cr_seq r) (cr_key_id r) (ak_key_id key)
     else if cr_prev_chain_hash r \<noteq> h then Broken n (cr_seq r) (cr_transaction_id r)
         (''prev_chain_hash='' @ h) (''prev_chain_hash='' @ cr_prev_chain_hash r)
     else Broken n (cr_seq r) (cr_transaction_id r)
         (chain_hash mac key (row_content r) h) (cr_chain_hash r))"

lemma verify_chain_break:
  assumes "log_linked mac key [] pre" "\<not> row_linked mac key (log_tip [] pre) r"
  shows "verify_chain mac key (pre @ r # post) = break_outcome mac key (log_tip [] pre) (length pre) r"
  using assms verify_loop_prefix [of mac key "[]" pre 0 "r # post"]
  by (auto simp: verify_chain_def row_linked_def break_outcome_def Let_def)

lemma break_outcome_not_Intact [simp]: "break_outcome mac key h n r \<noteq> Intact m"
  by (simp add: break_outcome_def)

section \<open>Commitment\<close>

definition norm_row :: "chain_row \<Rightarrow> chain_row" where
  "norm_row r = r\<lparr>cr_approval_id := Some (unwrap_or (cr_approval_id r) [])\<rparr>"

definition row_message :: "chain_row \<Rightarrow> str" where
  "row_message r = canonical_bytes (row_content r) @ cr_prev_chain_hash r"

lemma row_message_eq:
  "row_message r = row_message s \<longleftrightarrow>
     norm_content (row_content r) = norm_content (row_content s) \<and>
     cr_prev_chain_hash r = cr_prev_chain_hash s"
  by (simp add: row_message_def canonical_decodable)

lemma norm_row_eq:
  "norm_row r = norm_row s \<longleftrightarrow>
     norm_content (row_content r) = norm_content (row_content s) \<and>
     cr_prev_chain_hash r = cr_prev_chain_hash s \<and> cr_chain_hash r = cr_chain_hash s"
  by (cases r; cases s) (auto simp: norm_row_def norm_content_def row_content_def)

text \<open>A collision: two different messages, one authenticated in each log, with the same tag.\<close>

definition mac_collision :: "(str \<Rightarrow> str \<Rightarrow> str) \<Rightarrow> audit_key \<Rightarrow> chain_row list \<Rightarrow> chain_row list \<Rightarrow> bool" where
  "mac_collision mac key rows rows' \<longleftrightarrow>
     (\<exists>r\<in>set rows. \<exists>s\<in>set rows'. row_message r \<noteq> row_message s \<and>
        mac (ak_key_bytes key) (row_message r) = mac (ak_key_bytes key) (row_message s))"

lemma mac_collision_mono:
  "mac_collision mac key xs ys \<Longrightarrow> set xs \<subseteq> set xs' \<Longrightarrow> set ys \<subseteq> set ys' \<Longrightarrow> mac_collision mac key xs' ys'"
  by (auto simp: mac_collision_def)

lemma row_linked_hash:
  "row_linked mac key h r \<Longrightarrow> cr_chain_hash r = hex_encode (mac (ak_key_bytes key) (row_message r))"
  by (simp add: row_linked_def chain_hash_def row_message_def)

lemma linked_rows_equal:
  assumes "row_linked mac key h r" "row_linked mac key h' s" "cr_chain_hash r = cr_chain_hash s"
    and "\<not> mac_collision mac key (xs @ [r]) (ys @ [s])"
  shows "norm_row r = norm_row s \<and> h = h'"
proof -
  from row_linked_hash [OF assms(1)] row_linked_hash [OF assms(2)] assms(3)
  have "mac (ak_key_bytes key) (row_message r) = mac (ak_key_bytes key) (row_message s)"
    by (simp add: hex_encode_inj)
  with assms(4) have "row_message r = row_message s" by (auto simp: mac_collision_def)
  with assms(1-3) show ?thesis
    by (simp add: row_message_eq norm_row_eq row_linked_def)
qed

lemma tip_commits:
  assumes "\<And>m. mac (ak_key_bytes key) m \<noteq> []"
    and "log_linked mac key [] rows" "log_linked mac key [] rows'"
    and "log_tip [] rows = log_tip [] rows'" "\<not> mac_collision mac key rows rows'"
  shows "map norm_row rows = map norm_row rows'"
  using assms(2-)
proof (induction rows arbitrary: rows' rule: rev_induct)
  case Nil
  show ?case
  proof (cases rows' rule: rev_cases)
    case (snoc ys s)
    with Nil have "[] = hex_encode (mac (ak_key_bytes key) (row_message s))"
      using row_linked_hash by fastforce
    with assms(1) have False by (metis hex_encode_inj hex_encode_def list.map(1) concat.simps(1))
    then show ?thesis ..
  qed simp
next
  case (snoc r xs)
  show ?case
  proof (cases rows' rule: rev_cases)
    case Nil
    with snoc.prems have "hex_encode (mac (ak_key_bytes key) (row_message r)) = []"
      using row_linked_hash by fastforce
    with assms(1) have False by (metis hex_encode_inj hex_encode_def list.map(1) concat.simps(1))
    then show ?thesis ..
  next
    case (snoc ys s)
    from snoc.prems snoc have l: "row_linked mac key (log_tip [] xs) r"
        "row_linked mac key (log_tip [] ys) s" "cr_chain_hash r = cr_chain_hash s"
      by auto
    with snoc.prems(4) snoc have "norm_row r = norm_row s \<and> log_tip [] xs = log_tip [] ys"
      by (metis linked_rows_equal)
    moreover have "\<not> mac_collision mac key xs ys"
      using snoc.prems(4) snoc by (auto simp: mac_collision_def)
    ultimately show ?thesis using snoc.IH [of ys] snoc.prems snoc by auto
  qed
qed

text \<open>Editing a stored row in place, its stored hash kept, breaks the link at that row.\<close>

lemma edit_unlinks:
  assumes "row_linked mac key h r" "cr_chain_hash r' = cr_chain_hash r" "norm_row r' \<noteq> norm_row r"
    and "\<not> mac_collision mac key [r'] [r]"
  shows "\<not> row_linked mac key h r'"
  using linked_rows_equal [of mac key h r' h r "[]" "[]"] assms by auto

end
