(* ===== verification/Jobs.thy ===== *)
theory Jobs
  imports Sys_Types
begin

text \<open>
  The job state machine of \<open>jobs.rs\<close>: a job starts \<open>Queued\<close>, and \<open>transition_to\<close> moves it
  along the allowed edges or returns an error and leaves it alone. The step relation \<open>job_step\<close>
  is the graph of the allowed edges; the lemmas show that every run is at most two steps long and
  that a terminal state is never left.
\<close>

datatype job_error = InvalidTransition job_state job_state

record job_state_machine =
  jm_job_id :: str
  jm_state :: job_state

definition new_job :: "str \<Rightarrow> job_state_machine" where
  "new_job i = \<lparr> jm_job_id = i, jm_state = Queued \<rparr>"

fun allowed_transition :: "job_state \<Rightarrow> job_state \<Rightarrow> bool" where
  "allowed_transition Queued Running = True"
| "allowed_transition Queued Canceled = True"
| "allowed_transition Running Succeeded = True"
| "allowed_transition Running Failed = True"
| "allowed_transition Running Canceled = True"
| "allowed_transition Running RolledBack = True"
| "allowed_transition Running NeedsReboot = True"
| "allowed_transition _ _ = False"

text \<open>\<open>transition_to\<close> takes the machine by mutable reference: the model returns the machine after
  the call beside the result.\<close>

definition transition_to ::
    "job_state_machine \<Rightarrow> job_state \<Rightarrow> job_state_machine \<times> (job_error, unit) result" where
  "transition_to m nxt =
    (if allowed_transition (jm_state m) nxt then (m\<lparr>jm_state := nxt\<rparr>, Inr ())
     else (m, Inl (InvalidTransition (jm_state m) nxt)))"

definition cancel :: "job_state_machine \<Rightarrow> job_state_machine \<times> (job_error, unit) result" where
  "cancel m = transition_to m Canceled"

definition needs_reboot :: "job_state_machine \<Rightarrow> job_state_machine \<times> (job_error, unit) result" where
  "needs_reboot m = transition_to m NeedsReboot"

fun terminal_state :: "job_state \<Rightarrow> bool" where
  "terminal_state Succeeded = True"
| "terminal_state Failed = True"
| "terminal_state Canceled = True"
| "terminal_state RolledBack = True"
| "terminal_state NeedsReboot = True"
| "terminal_state _ = False"

definition is_terminal :: "job_state_machine \<Rightarrow> bool" where
  "is_terminal m = terminal_state (jm_state m)"

section \<open>The step relation\<close>

inductive job_step :: "job_state \<Rightarrow> job_state \<Rightarrow> bool" where
  claim: "job_step Queued Running"
| expire: "job_step Queued Canceled"
| finish: "terminal_state t \<Longrightarrow> job_step Running t"

code_pred job_step .

inductive_cases job_step_fromE: "job_step Queued t" "job_step Running t"
inductive_cases job_step_terminalE: "job_step Succeeded t" "job_step Failed t" "job_step Canceled t"
  "job_step RolledBack t" "job_step NeedsReboot t"
inductive_simps job_step_Queued [step_simps]: "job_step Queued t"
inductive_simps job_step_Running [step_simps]: "job_step Running t"

lemma allowed_transition_step: "allowed_transition s t \<longleftrightarrow> job_step s t"
  by (cases s; cases t) (auto intro: job_step.intros elim: job_step.cases)

lemma terminal_no_step: "terminal_state s \<Longrightarrow> \<not> job_step s t"
  by (cases s) (auto elim: job_step.cases)

lemma allowed_transition_irrefl [simp]: "\<not> allowed_transition s s"
  by (cases s) auto

lemma allowed_not_to_Queued [simp]: "\<not> allowed_transition s Queued"
  by (cases s) auto

lemma allowed_to_Running [simp]: "allowed_transition s Running \<longleftrightarrow> s = Queued"
  by (cases s) auto

lemma allowed_from_terminal: "terminal_state s \<Longrightarrow> \<not> allowed_transition s t"
  by (simp add: allowed_transition_step terminal_no_step)

lemma job_step_star_terminal: "job_step\<^sup>*\<^sup>* s t \<Longrightarrow> terminal_state s \<Longrightarrow> t = s"
  by (induction rule: converse_rtranclp_induct) (auto simp: terminal_no_step)

text \<open>How far a state is from the end; every step lowers it.\<close>

fun steps_left :: "job_state \<Rightarrow> nat" where
  "steps_left Queued = 2"
| "steps_left Running = 1"
| "steps_left _ = 0"

lemma steps_left_decr: "job_step s t \<Longrightarrow> steps_left t < steps_left s"
  by (erule job_step.cases) (auto, case_tac t, auto)

lemma steps_left_0: "steps_left s = 0 \<longleftrightarrow> terminal_state s"
  by (cases s) auto

lemma steps_left_star: "job_step\<^sup>*\<^sup>* s t \<Longrightarrow> steps_left t \<le> steps_left s"
  by (induction rule: rtranclp_induct) (auto dest!: steps_left_decr)

lemma job_step_star_iff: "job_step\<^sup>*\<^sup>* s t \<longleftrightarrow>
    s = t \<or> allowed_transition s t \<or> s = Queued \<and> terminal_state t"
proof
  assume "job_step\<^sup>*\<^sup>* s t"
  then show "s = t \<or> allowed_transition s t \<or> s = Queued \<and> terminal_state t"
    by (induction rule: rtranclp_induct)
       (auto simp: allowed_transition_step step_simps terminal_no_step elim: job_step.cases)
next
  have "job_step\<^sup>*\<^sup>* Queued t" if "terminal_state t"
    using that by (meson job_step.claim job_step.finish rtranclp.rtrancl_refl rtranclp.rtrancl_into_rtrancl)
  then show "job_step\<^sup>*\<^sup>* s t" if "s = t \<or> allowed_transition s t \<or> s = Queued \<and> terminal_state t"
    using that by (auto simp: allowed_transition_step)
qed

section \<open>Runs\<close>

text \<open>A caller's sequence of \<open>transition_to\<close> calls on one machine; a refused call changes
  nothing. The second component counts the accepted calls.\<close>

fun run_transitions :: "job_state_machine \<Rightarrow> job_state list \<Rightarrow> job_state_machine \<times> nat" where
  "run_transitions m [] = (m, 0)"
| "run_transitions m (s # ss) =
    (case transition_to m s of
       (m', Inr _) \<Rightarrow> (case run_transitions m' ss of (m'', n) \<Rightarrow> (m'', Suc n))
     | (m', Inl _) \<Rightarrow> run_transitions m' ss)"

lemma transition_to_job_id: "jm_job_id (fst (transition_to m s)) = jm_job_id m"
  by (simp add: transition_to_def)

lemma run_transitions_reach:
  "run_transitions m ss = (m', n) \<Longrightarrow>
     job_step\<^sup>*\<^sup>* (jm_state m) (jm_state m') \<and> n + steps_left (jm_state m') \<le> steps_left (jm_state m)"
proof (induction ss arbitrary: m m' n)
  case (Cons s ss)
  show ?case
  proof (cases "allowed_transition (jm_state m) s")
    case True
    then have st: "job_step (jm_state m) s" by (simp add: allowed_transition_step)
    from True Cons.prems obtain k where k: "run_transitions (m\<lparr>jm_state := s\<rparr>) ss = (m', k)" "n = Suc k"
      by (auto simp: transition_to_def split: prod.splits)
    have "job_step\<^sup>*\<^sup>* s (jm_state m') \<and> k + steps_left (jm_state m') \<le> steps_left s"
      using Cons.IH [OF k(1)] by simp
    with st steps_left_decr [OF st] k(2) show ?thesis
      by (auto intro: converse_rtranclp_into_rtranclp)
  next
    case False
    with Cons show ?thesis by (simp add: transition_to_def)
  qed
qed auto

end
