(* ===== verification/Audit_Store.thy ===== *)
theory Audit_Store
  imports Audit_Chain Jobs
begin

text \<open>
  The interface of the audit log, trait \<open>AuditStore\<close> of \<open>store.rs\<close>: the record \<open>audit_store\<close> is its
  table of methods, and the locale of the same purpose, \<open>audit_log\<close>, states what the dispatcher
  relies on, over two observations of a store: the status and the request hash of a transaction.
  The lemmas of the locale are proved for every backend that keeps the laws; they include the
  guarantee that a transaction is claimed at most once, whatever the sequence of operations.
\<close>

record new_transaction =
  nt_request_id :: str
  nt_request_hash :: str
  nt_action_name :: str
  nt_risk_level :: risk_level
  nt_approval_id :: "str option"
  nt_summary :: str
  nt_warnings :: "str list"

record recorded_previewed =
  rp_transaction :: transaction_record
  rp_preview :: preview_envelope

datatype store_error =
    StoreIo
  | Sqlite
  | JsonField
  | NotFound str
  | InvalidStatus job_state job_state
  | AuditChainMissing

text \<open>The methods. A method that reads the clock takes the time, one that creates a row takes the
  fresh identifier, and a method that writes returns the store after the call.\<close>

record 's audit_store =
  as_record :: "nat \<Rightarrow> str \<Rightarrow> new_transaction \<Rightarrow> 's \<Rightarrow> (store_error, transaction_record) result \<times> 's"
  as_record_previewed :: "nat \<Rightarrow> str \<Rightarrow> new_transaction \<Rightarrow> preview_envelope \<Rightarrow> 's \<Rightarrow>
      (store_error, recorded_previewed) result \<times> 's"
  as_get :: "str \<Rightarrow> 's \<Rightarrow> (store_error, transaction_record option) result"
  as_find_by_request_hash :: "nat \<Rightarrow> str \<Rightarrow> 's \<Rightarrow> (store_error, transaction_record option) result"
  as_get_preview :: "str \<Rightarrow> 's \<Rightarrow> (store_error, preview_envelope option) result"
  as_update_status :: "str \<Rightarrow> job_state \<Rightarrow> 's \<Rightarrow> (store_error, unit) result \<times> 's"
  as_claim_for_execution :: "str \<Rightarrow> 's \<Rightarrow> (store_error, bool) result \<times> 's"
  as_cleanup_stale_queued :: "nat \<Rightarrow> 's \<Rightarrow> (store_error, nat) result \<times> 's"
  as_list_transactions :: "nat \<Rightarrow> 32 word \<Rightarrow> str option \<Rightarrow> str option \<Rightarrow> 32 word option \<Rightarrow> 's \<Rightarrow>
      (store_error, transaction_record list) result"
  as_fetch_chain_row :: "str \<Rightarrow> 's \<Rightarrow> (store_error, chain_row option) result"
  as_fetch_chain_rows :: "'s \<Rightarrow> (store_error, chain_row list) result"
  as_verify_audit_chain :: "audit_key \<Rightarrow> 's \<Rightarrow> (store_error, verify_outcome) result"

section \<open>Sequences of writes\<close>

text \<open>The writes of the trait, in the order in which the database serialises them. The dispatcher issues
  the previews, claims and updates; \<open>record\<close> and the cleanup are offered by the trait and not called by it.\<close>

datatype store_op =
    OpRecord nat str new_transaction
  | OpRecordPreviewed nat str new_transaction preview_envelope
  | OpUpdate str job_state
  | OpClaim str
  | OpCleanup nat

fun run_op :: "'s audit_store \<Rightarrow> store_op \<Rightarrow> 's \<Rightarrow> 's" where
  "run_op as (OpRecord now i nt) s = snd (as_record as now i nt s)"
| "run_op as (OpRecordPreviewed now i nt p) s = snd (as_record_previewed as now i nt p s)"
| "run_op as (OpUpdate i st) s = snd (as_update_status as i st s)"
| "run_op as (OpClaim i) s = snd (as_claim_for_execution as i s)"
| "run_op as (OpCleanup now) s = snd (as_cleanup_stale_queued as now s)"

definition run_ops :: "'s audit_store \<Rightarrow> store_op list \<Rightarrow> 's \<Rightarrow> 's" where
  "run_ops as ops s = fold (run_op as) ops s"

text \<open>How many of the claims of transaction \<open>i\<close> in the sequence are granted.\<close>

fun claim_granted :: "'s audit_store \<Rightarrow> str \<Rightarrow> store_op \<Rightarrow> 's \<Rightarrow> bool" where
  "claim_granted as i (OpClaim j) s = (i = j \<and> fst (as_claim_for_execution as j s) = Inr True)"
| "claim_granted as i _ s = False"

fun claims_granted :: "'s audit_store \<Rightarrow> str \<Rightarrow> store_op list \<Rightarrow> 's \<Rightarrow> nat" where
  "claims_granted as i [] s = 0"
| "claims_granted as i (x # ops) s =
    (if claim_granted as i x s then 1 else 0) + claims_granted as i ops (run_op as x s)"

section \<open>The contract\<close>

locale audit_log =
  fixes as :: "'s audit_store"
    and inv :: "'s \<Rightarrow> bool"
    and status_of :: "'s \<Rightarrow> str \<Rightarrow> job_state option"
    and hash_of :: "'s \<Rightarrow> str \<Rightarrow> str option"
  assumes inv_run: "inv s \<Longrightarrow> inv (run_op as op s)"
    and find_queued: "inv s \<Longrightarrow> as_find_by_request_hash as now h s = Inr (Some r) \<Longrightarrow>
        status_of s (tr_transaction_id r) = Some Queued \<and> hash_of s (tr_transaction_id r) = Some h"
    and claim_cas: "inv s \<Longrightarrow> as_claim_for_execution as i s = (Inr b, s') \<Longrightarrow>
        (b \<longleftrightarrow> status_of s i = Some Queued) \<and>
        status_of s' = (if b then (status_of s)(i \<mapsto> Running) else status_of s) \<and> hash_of s' = hash_of s"
    and claim_fails: "inv s \<Longrightarrow> as_claim_for_execution as i s = (Inl e, s') \<Longrightarrow> s' = s"
    and update_allowed: "inv s \<Longrightarrow> as_update_status as i st s = (Inr u, s') \<Longrightarrow>
        (\<exists>c. status_of s i = Some c \<and> allowed_transition c st) \<and>
        status_of s' = (status_of s)(i \<mapsto> st) \<and> hash_of s' = hash_of s"
    and update_fails: "inv s \<Longrightarrow> as_update_status as i st s = (Inl e, s') \<Longrightarrow> s' = s"
    and record_new: "inv s \<Longrightarrow> as_record as now i nt s = (Inr r, s') \<Longrightarrow>
        tr_transaction_id r = i \<and> status_of s i = None \<and> status_of s' = (status_of s)(i \<mapsto> Queued) \<and>
        hash_of s' = (hash_of s)(i \<mapsto> nt_request_hash nt)"
    and record_fails: "inv s \<Longrightarrow> as_record as now i nt s = (Inl e, s') \<Longrightarrow> s' = s"
    and preview_new: "inv s \<Longrightarrow> as_record_previewed as now i nt p s = (Inr rp, s') \<Longrightarrow>
        tr_transaction_id (rp_transaction rp) = i \<and> status_of s i = None \<and>
        status_of s' = (status_of s)(i \<mapsto> Queued) \<and> hash_of s' = (hash_of s)(i \<mapsto> nt_request_hash nt)"
    and preview_fails: "inv s \<Longrightarrow> as_record_previewed as now i nt p s = (Inl e, s') \<Longrightarrow> s' = s"
    and cleanup_cancels: "inv s \<Longrightarrow> snd (as_cleanup_stale_queued as now s) = s' \<Longrightarrow>
        (status_of s' i = status_of s i \<or>
         status_of s i = Some Queued \<and> status_of s' i = Some Canceled) \<and> hash_of s' = hash_of s"
begin

text \<open>Every write moves the status of a transaction along an edge of the job state machine, or
  creates it \<open>Queued\<close>, or leaves it alone.\<close>

lemma run_op_status:
  assumes "inv s"
  shows "status_of (run_op as op s) i = status_of s i \<or>
     (status_of s i = None \<and> status_of (run_op as op s) i = Some Queued) \<or>
     (\<exists>c d. status_of s i = Some c \<and> status_of (run_op as op s) i = Some d \<and> job_step c d)"
proof (cases op)
  case (OpRecord now j nt)
  then show ?thesis
    using record_new [OF assms, of now j nt] record_fails [OF assms, of now j nt]
    by (cases "as_record as now j nt s"; cases "fst (as_record as now j nt s)") auto
next
  case (OpRecordPreviewed now j nt p)
  then show ?thesis
    using preview_new [OF assms, of now j nt p] preview_fails [OF assms, of now j nt p]
    by (cases "as_record_previewed as now j nt p s"; cases "fst (as_record_previewed as now j nt p s)") auto
next
  case (OpUpdate j st)
  then show ?thesis
    using update_allowed [OF assms, of j st] update_fails [OF assms, of j st]
    by (cases "as_update_status as j st s"; cases "fst (as_update_status as j st s)")
       (auto simp: allowed_transition_step)
next
  case (OpClaim j)
  then show ?thesis
    using claim_cas [OF assms, of j] claim_fails [OF assms, of j]
    by (cases "as_claim_for_execution as j s"; cases "fst (as_claim_for_execution as j s)")
       (auto intro: job_step.claim)
next
  case (OpCleanup now)
  then show ?thesis
    using cleanup_cancels [OF assms refl, of now i] by (auto intro: job_step.expire)
qed

lemma run_ops_inv: "inv s \<Longrightarrow> inv (run_ops as ops s)"
  by (induction ops arbitrary: s) (auto simp: run_ops_def inv_run)

lemma run_ops_status:
  "inv s \<Longrightarrow> status_of s i = Some c \<Longrightarrow> \<exists>d. status_of (run_ops as ops s) i = Some d \<and> job_step\<^sup>*\<^sup>* c d"
proof (induction ops arbitrary: s c)
  case (Cons op ops)
  from run_op_status [OF Cons.prems(1), of op i] Cons.prems(2)
  obtain d where d: "status_of (run_op as op s) i = Some d" "job_step\<^sup>*\<^sup>* c d" by auto
  from Cons.IH [OF inv_run [OF Cons.prems(1)] d(1)] d(2)
  show ?case by (auto simp: run_ops_def intro: rtranclp_trans)
qed (auto simp: run_ops_def)

lemma run_ops_terminal:
  "inv s \<Longrightarrow> status_of s i = Some c \<Longrightarrow> terminal_state c \<Longrightarrow> status_of (run_ops as ops s) i = Some c"
  using run_ops_status [of s i c ops] job_step_star_terminal by fastforce

text \<open>A granted claim needs the transaction \<open>Queued\<close> and leaves it \<open>Running\<close>; it never is
  \<open>Queued\<close> again.\<close>

lemma claim_granted_status:
  "inv s \<Longrightarrow> claim_granted as i op s \<Longrightarrow>
     status_of s i = Some Queued \<and> status_of (run_op as op s) i = Some Running"
proof (cases op)
  case (OpClaim j)
  assume "inv s" "claim_granted as i op s"
  with OpClaim claim_cas [of s j True "snd (as_claim_for_execution as j s)"] show ?thesis
    by (cases "as_claim_for_execution as j s") auto
qed auto

lemma claims_after_Queued:
  "inv s \<Longrightarrow> status_of s i = Some c \<Longrightarrow> c \<noteq> Queued \<Longrightarrow> claims_granted as i ops s = 0"
proof (induction ops arbitrary: s c)
  case (Cons op ops)
  from Cons.prems have no: "\<not> claim_granted as i op s" using claim_granted_status by fastforce
  from run_op_status [OF Cons.prems(1), of op i] Cons.prems(2)
  obtain d where d: "status_of (run_op as op s) i = Some d" "d = c \<or> job_step c d" by auto
  with Cons.prems(3) have "d \<noteq> Queued"
    by (metis allowed_not_to_Queued allowed_transition_step)
  with Cons.IH [OF inv_run [OF Cons.prems(1)] d(1)] no show ?case by simp
qed simp

lemma claims_at_most_one: "inv s \<Longrightarrow> claims_granted as i ops s \<le> 1"
proof (induction ops arbitrary: s)
  case (Cons op ops)
  show ?case
  proof (cases "claim_granted as i op s")
    case True
    from claim_granted_status [OF Cons.prems True]
    have "claims_granted as i ops (run_op as op s) = 0"
      by (intro claims_after_Queued [where c = Running]) (auto simp: inv_run Cons.prems)
    with True show ?thesis by simp
  next
    case False
    with Cons.IH [OF inv_run [OF Cons.prems]] show ?thesis by simp
  qed
qed simp

end

end
