(* ===== verification/Policy.thy ===== *)
theory Policy
  imports Auth
begin

text \<open>
  The authorization policy of \<open>policy.rs\<close>: the compile-time minimum role of every action (the arms
  of the \<open>match\<close> as name lists, tried in order), the operator overrides of \<open>[policy.risk_overrides]\<close>
  with their validation, and approval freshness. The table lemmas \<open>min_role_table\<close> evaluate the
  minimum role of each catalogue name once; the other proofs rewrite with them.
\<close>

section \<open>Per-action minimum role\<close>

definition observer_actions :: "str list" where
  "observer_actions = [
    ''GetSystemState'', ''CollectDiagnostics'', ''GetDeploymentHistory'', ''ListDeployments'',
    ''GetKernelArguments'', ''GetPendingUpdates'', ''ListFlatpakRemotes'', ''SearchFlatpakApps'',
    ''GetFlatpakAppInfo'', ''ListInstalledFlatpaks'', ''ListContainers'', ''GetContainerInfo'',
    ''GetLayeredPackages'', ''ListPackageRepositories'', ''ListServices'', ''GetServiceLogs'',
    ''GetServiceStatus'', ''ListTimers'', ''ListToolboxes'', ''GetFirewallState'',
    ''GetNetworkStatus'', ''GetDiskUsage'', ''GetDateTime'', ''ListProcesses'',
    ''GetMemoryInfo'', ''GetAuthorizedKeys'', ''ListUsers'', ''ListGroups'', ''ListJobHistory'',
    ''AptUpdate'', ''AptSearch'', ''AptListInstalled'', ''AptShow'', ''AptListUpgradable'',
    ''AptHistoryList'', ''SnapList'', ''SnapInfo'', ''UfwStatus'', ''DistroboxList'',
    ''NetplanGetConfig'', ''GrubGetKargs'', ''CheckPendingReboot'', ''ResolvectlStatus'',
    ''AppArmorStatus'', ''CloudInitStatus'', ''UbuntuListFlatpaks'', ''Fail2banStatus'',
    ''ProStatus'', ''LivepatchStatus'', ''MultipassList'']"

definition dev_actions :: "str list" where
  "dev_actions = [
    ''InstallFlatpak'', ''RemoveFlatpak'', ''UpdateFlatpak'', ''AddFlatpakRemote'',
    ''RemoveFlatpakRemote'', ''CreateContainer'', ''StartContainer'', ''StopContainer'',
    ''RemoveContainer'', ''StartService'', ''StopService'', ''RestartService'',
    ''ReloadService'', ''ReloadDaemon'', ''SetServiceEnabled'', ''UnmaskService'',
    ''CreateToolbox'', ''RemoveToolbox'', ''SetHostname'', ''SetTimezone'', ''SetLocale'',
    ''SetNtp'', ''ConfigureWifi'', ''RemovePackageRepository'', ''EnablePackageRepository'',
    ''DisablePackageRepository'', ''AptAutoremove'', ''AptInstall'', ''AptRemove'', ''AptPurge'',
    ''AptHold'', ''AptUnhold'', ''SnapInstall'', ''SnapRemove'', ''SnapRefresh'', ''SnapHold'',
    ''SnapUnhold'', ''SnapRevert'', ''SnapClassicInstall'', ''DistroboxCreate'',
    ''DistroboxRemove'', ''AddPpa'', ''RemovePpa'', ''ResolvectlSetDns'', ''AppArmorComplain'',
    ''UbuntuInstallFlatpak'', ''UbuntuRemoveFlatpak'', ''UbuntuUpdateFlatpak'',
    ''Fail2banUnbanIp'', ''NetplanGenerate'']"

definition admin_actions :: "str list" where
  "admin_actions = [
    ''UpdateSystem'', ''PinDeployment'', ''UnpinDeployment'', ''RebaseSystem'',
    ''CleanupDeployments'', ''RebootSystem'', ''RollbackDeployment'', ''SetKernelArguments'',
    ''InstallPackages'', ''RemovePackages'', ''AddLayeredPackage'', ''RemoveLayeredPackage'',
    ''ReplaceLayeredPackage'', ''ResetLayeredPackageOverride'', ''RemoveBasePackage'',
    ''AddUserToGroup'', ''RemoveUserFromGroup'', ''DeleteUser'', ''AddAuthorizedKey'',
    ''RemoveAuthorizedKey'', ''CreateUser'', ''ConfigureFirewall'', ''MaskService'',
    ''AddPackageRepository'', ''SetDnsServers'', ''AptUpgrade'', ''UfwEnable'', ''UfwDisable'',
    ''UfwAllow'', ''UfwDeny'', ''UfwReset'', ''NetplanApply'', ''GrubSetKargs'',
    ''AppArmorEnforce'', ''Fail2banBanIp'', ''UfwDeleteRule'', ''UfwLimit'', ''NetplanSet'',
    ''ProAttach'', ''ProDetach'', ''UbuntuReleaseUpgrade'']"

definition min_role_for_action :: "str \<Rightarrow> caller_role option" where
  "min_role_for_action a =
    (if List.member observer_actions a then Some Observer
     else if List.member dev_actions a then Some Dev
     else if List.member admin_actions a then Some Admin
     else None)"

text \<open>Membership as one disjunction: it rewrites in a single pass.\<close>

lemma min_role_or: "min_role_for_action a =
   (if a = ''GetSystemState'' \<or> a = ''CollectDiagnostics'' \<or> a = ''GetDeploymentHistory'' \<or> a
      = ''ListDeployments'' \<or> a = ''GetKernelArguments'' \<or> a = ''GetPendingUpdates'' \<or> a =
      ''ListFlatpakRemotes'' \<or> a = ''SearchFlatpakApps'' \<or> a = ''GetFlatpakAppInfo'' \<or> a =
      ''ListInstalledFlatpaks'' \<or> a = ''ListContainers'' \<or> a = ''GetContainerInfo'' \<or> a =
      ''GetLayeredPackages'' \<or> a = ''ListPackageRepositories'' \<or> a = ''ListServices'' \<or> a =
      ''GetServiceLogs'' \<or> a = ''GetServiceStatus'' \<or> a = ''ListTimers'' \<or> a =
      ''ListToolboxes'' \<or> a = ''GetFirewallState'' \<or> a = ''GetNetworkStatus'' \<or> a =
      ''GetDiskUsage'' \<or> a = ''GetDateTime'' \<or> a = ''ListProcesses'' \<or> a = ''GetMemoryInfo''
      \<or> a = ''GetAuthorizedKeys'' \<or> a = ''ListUsers'' \<or> a = ''ListGroups'' \<or> a =
      ''ListJobHistory'' \<or> a = ''AptUpdate'' \<or> a = ''AptSearch'' \<or> a = ''AptListInstalled''
      \<or> a = ''AptShow'' \<or> a = ''AptListUpgradable'' \<or> a = ''AptHistoryList'' \<or> a =
      ''SnapList'' \<or> a = ''SnapInfo'' \<or> a = ''UfwStatus'' \<or> a = ''DistroboxList'' \<or> a =
      ''NetplanGetConfig'' \<or> a = ''GrubGetKargs'' \<or> a = ''CheckPendingReboot'' \<or> a =
      ''ResolvectlStatus'' \<or> a = ''AppArmorStatus'' \<or> a = ''CloudInitStatus'' \<or> a =
      ''UbuntuListFlatpaks'' \<or> a = ''Fail2banStatus'' \<or> a = ''ProStatus'' \<or> a =
      ''LivepatchStatus'' \<or> a = ''MultipassList''
    then Some Observer
    else if a = ''InstallFlatpak'' \<or> a = ''RemoveFlatpak'' \<or> a = ''UpdateFlatpak'' \<or> a =
      ''AddFlatpakRemote'' \<or> a = ''RemoveFlatpakRemote'' \<or> a = ''CreateContainer'' \<or> a =
      ''StartContainer'' \<or> a = ''StopContainer'' \<or> a = ''RemoveContainer'' \<or> a =
      ''StartService'' \<or> a = ''StopService'' \<or> a = ''RestartService'' \<or> a =
      ''ReloadService'' \<or> a = ''ReloadDaemon'' \<or> a = ''SetServiceEnabled'' \<or> a =
      ''UnmaskService'' \<or> a = ''CreateToolbox'' \<or> a = ''RemoveToolbox'' \<or> a =
      ''SetHostname'' \<or> a = ''SetTimezone'' \<or> a = ''SetLocale'' \<or> a = ''SetNtp'' \<or> a =
      ''ConfigureWifi'' \<or> a = ''RemovePackageRepository'' \<or> a = ''EnablePackageRepository''
      \<or> a = ''DisablePackageRepository'' \<or> a = ''AptAutoremove'' \<or> a = ''AptInstall'' \<or>
      a = ''AptRemove'' \<or> a = ''AptPurge'' \<or> a = ''AptHold'' \<or> a = ''AptUnhold'' \<or> a =
      ''SnapInstall'' \<or> a = ''SnapRemove'' \<or> a = ''SnapRefresh'' \<or> a = ''SnapHold'' \<or> a
      = ''SnapUnhold'' \<or> a = ''SnapRevert'' \<or> a = ''SnapClassicInstall'' \<or> a =
      ''DistroboxCreate'' \<or> a = ''DistroboxRemove'' \<or> a = ''AddPpa'' \<or> a = ''RemovePpa''
      \<or> a = ''ResolvectlSetDns'' \<or> a = ''AppArmorComplain'' \<or> a = ''UbuntuInstallFlatpak''
      \<or> a = ''UbuntuRemoveFlatpak'' \<or> a = ''UbuntuUpdateFlatpak'' \<or> a = ''Fail2banUnbanIp''
      \<or> a = ''NetplanGenerate''
    then Some Dev
    else if a = ''UpdateSystem'' \<or> a = ''PinDeployment'' \<or> a = ''UnpinDeployment'' \<or> a =
      ''RebaseSystem'' \<or> a = ''CleanupDeployments'' \<or> a = ''RebootSystem'' \<or> a =
      ''RollbackDeployment'' \<or> a = ''SetKernelArguments'' \<or> a = ''InstallPackages'' \<or> a =
      ''RemovePackages'' \<or> a = ''AddLayeredPackage'' \<or> a = ''RemoveLayeredPackage'' \<or> a =
      ''ReplaceLayeredPackage'' \<or> a = ''ResetLayeredPackageOverride'' \<or> a =
      ''RemoveBasePackage'' \<or> a = ''AddUserToGroup'' \<or> a = ''RemoveUserFromGroup'' \<or> a =
      ''DeleteUser'' \<or> a = ''AddAuthorizedKey'' \<or> a = ''RemoveAuthorizedKey'' \<or> a =
      ''CreateUser'' \<or> a = ''ConfigureFirewall'' \<or> a = ''MaskService'' \<or> a =
      ''AddPackageRepository'' \<or> a = ''SetDnsServers'' \<or> a = ''AptUpgrade'' \<or> a =
      ''UfwEnable'' \<or> a = ''UfwDisable'' \<or> a = ''UfwAllow'' \<or> a = ''UfwDeny'' \<or> a =
      ''UfwReset'' \<or> a = ''NetplanApply'' \<or> a = ''GrubSetKargs'' \<or> a = ''AppArmorEnforce''
      \<or> a = ''Fail2banBanIp'' \<or> a = ''UfwDeleteRule'' \<or> a = ''UfwLimit'' \<or> a =
      ''NetplanSet'' \<or> a = ''ProAttach'' \<or> a = ''ProDetach'' \<or> a = ''UbuntuReleaseUpgrade''
    then Some Admin
    else None)"
  unfolding min_role_for_action_def observer_actions_def dev_actions_def admin_actions_def
  by (simp only: List.member_iff list.set insert_iff empty_iff simp_thms)

lemma known_or: "a \<in> set KNOWN_ACTION_NAMES \<longleftrightarrow>
      a = ''GetSystemState'' \<or> a = ''CollectDiagnostics'' \<or> a = ''GetDeploymentHistory'' \<or> a
      = ''ListDeployments'' \<or> a = ''UpdateSystem'' \<or> a = ''CleanupDeployments'' \<or> a =
      ''RebootSystem'' \<or> a = ''RollbackDeployment'' \<or> a = ''GetKernelArguments'' \<or> a =
      ''PinDeployment'' \<or> a = ''UnpinDeployment'' \<or> a = ''RebaseSystem'' \<or> a =
      ''SetKernelArguments'' \<or> a = ''InstallFlatpak'' \<or> a = ''RemoveFlatpak'' \<or> a =
      ''UpdateFlatpak'' \<or> a = ''SearchFlatpakApps'' \<or> a = ''ListFlatpakRemotes'' \<or> a =
      ''ListInstalledFlatpaks'' \<or> a = ''AddFlatpakRemote'' \<or> a = ''RemoveFlatpakRemote'' \<or> a
      = ''GetFlatpakAppInfo'' \<or> a = ''ListToolboxes'' \<or> a = ''CreateToolbox'' \<or> a =
      ''RemoveToolbox'' \<or> a = ''GetLayeredPackages'' \<or> a = ''ResetLayeredPackageOverride'' \<or>
      a = ''GetPendingUpdates'' \<or> a = ''InstallPackages'' \<or> a = ''RemovePackages'' \<or> a =
      ''AddLayeredPackage'' \<or> a = ''RemoveLayeredPackage'' \<or> a = ''ReplaceLayeredPackage'' \<or>
      a = ''RemoveBasePackage'' \<or> a = ''ListServices'' \<or> a = ''ListTimers'' \<or> a =
      ''ReloadDaemon'' \<or> a = ''StartService'' \<or> a = ''StopService'' \<or> a = ''RestartService''
      \<or> a = ''ReloadService'' \<or> a = ''SetServiceEnabled'' \<or> a = ''MaskService'' \<or> a =
      ''UnmaskService'' \<or> a = ''GetServiceLogs'' \<or> a = ''GetServiceStatus'' \<or> a =
      ''GetFirewallState'' \<or> a = ''GetNetworkStatus'' \<or> a = ''ConfigureWifi'' \<or> a =
      ''SetDnsServers'' \<or> a = ''ConfigureFirewall'' \<or> a = ''GetDiskUsage'' \<or> a =
      ''ListProcesses'' \<or> a = ''GetMemoryInfo'' \<or> a = ''GetDateTime'' \<or> a = ''SetHostname''
      \<or> a = ''SetTimezone'' \<or> a = ''SetLocale'' \<or> a = ''SetNtp'' \<or> a =
      ''ListPackageRepositories'' \<or> a = ''AddPackageRepository'' \<or> a =
      ''RemovePackageRepository'' \<or> a = ''EnablePackageRepository'' \<or> a =
      ''DisablePackageRepository'' \<or> a = ''ListContainers'' \<or> a = ''CreateContainer'' \<or> a =
      ''StartContainer'' \<or> a = ''StopContainer'' \<or> a = ''RemoveContainer'' \<or> a =
      ''GetContainerInfo'' \<or> a = ''ListUsers'' \<or> a = ''ListGroups'' \<or> a = ''CreateUser''
      \<or> a = ''DeleteUser'' \<or> a = ''AddUserToGroup'' \<or> a = ''RemoveUserFromGroup'' \<or> a =
      ''GetAuthorizedKeys'' \<or> a = ''AddAuthorizedKey'' \<or> a = ''RemoveAuthorizedKey'' \<or> a =
      ''ListJobHistory'' \<or> a = ''AptUpdate'' \<or> a = ''AptUpgrade'' \<or> a = ''AptInstall'' \<or>
      a = ''AptRemove'' \<or> a = ''AptPurge'' \<or> a = ''AptAutoremove'' \<or> a = ''AptHold'' \<or> a
      = ''AptUnhold'' \<or> a = ''AptSearch'' \<or> a = ''AptListInstalled'' \<or> a = ''AptShow'' \<or>
      a = ''AptListUpgradable'' \<or> a = ''AptHistoryList'' \<or> a = ''AddPpa'' \<or> a =
      ''RemovePpa'' \<or> a = ''SnapInstall'' \<or> a = ''SnapRemove'' \<or> a = ''SnapRefresh'' \<or> a
      = ''SnapHold'' \<or> a = ''SnapUnhold'' \<or> a = ''SnapList'' \<or> a = ''SnapInfo'' \<or> a =
      ''SnapRevert'' \<or> a = ''SnapClassicInstall'' \<or> a = ''UfwEnable'' \<or> a = ''UfwDisable''
      \<or> a = ''UfwAllow'' \<or> a = ''UfwDeny'' \<or> a = ''UfwReset'' \<or> a = ''UfwStatus'' \<or>
      a = ''DistroboxList'' \<or> a = ''DistroboxCreate'' \<or> a = ''DistroboxRemove'' \<or> a =
      ''NetplanGetConfig'' \<or> a = ''NetplanApply'' \<or> a = ''NetplanSet'' \<or> a =
      ''NetplanGenerate'' \<or> a = ''GrubGetKargs'' \<or> a = ''GrubSetKargs'' \<or> a =
      ''CheckPendingReboot'' \<or> a = ''ResolvectlStatus'' \<or> a = ''ResolvectlSetDns'' \<or> a =
      ''AppArmorStatus'' \<or> a = ''AppArmorEnforce'' \<or> a = ''AppArmorComplain'' \<or> a =
      ''CloudInitStatus'' \<or> a = ''UbuntuInstallFlatpak'' \<or> a = ''UbuntuRemoveFlatpak'' \<or> a =
      ''UbuntuUpdateFlatpak'' \<or> a = ''UbuntuListFlatpaks'' \<or> a = ''Fail2banStatus'' \<or> a =
      ''Fail2banBanIp'' \<or> a = ''Fail2banUnbanIp'' \<or> a = ''UbuntuReleaseUpgrade'' \<or> a =
      ''ProStatus'' \<or> a = ''ProAttach'' \<or> a = ''ProDetach'' \<or> a = ''LivepatchStatus'' \<or>
      a = ''MultipassList'' \<or> a = ''UfwDeleteRule'' \<or> a = ''UfwLimit''"
  unfolding KNOWN_ACTION_NAMES_def by (simp only: list.set insert_iff empty_iff simp_thms)

lemma min_role_table_1 [table_simps]:
  "min_role_for_action ''GetSystemState'' = Some Observer"
  "min_role_for_action ''CollectDiagnostics'' = Some Observer"
  "min_role_for_action ''GetDeploymentHistory'' = Some Observer"
  "min_role_for_action ''ListDeployments'' = Some Observer"
  "min_role_for_action ''UpdateSystem'' = Some Admin"
  "min_role_for_action ''CleanupDeployments'' = Some Admin"
  "min_role_for_action ''RebootSystem'' = Some Admin"
  "min_role_for_action ''RollbackDeployment'' = Some Admin"
  "min_role_for_action ''GetKernelArguments'' = Some Observer"
  "min_role_for_action ''PinDeployment'' = Some Admin"
  "min_role_for_action ''UnpinDeployment'' = Some Admin"
  "min_role_for_action ''RebaseSystem'' = Some Admin"
  "min_role_for_action ''SetKernelArguments'' = Some Admin"
  "min_role_for_action ''InstallFlatpak'' = Some Dev"
  "min_role_for_action ''RemoveFlatpak'' = Some Dev"
  "min_role_for_action ''UpdateFlatpak'' = Some Dev"
  "min_role_for_action ''SearchFlatpakApps'' = Some Observer"
  "min_role_for_action ''ListFlatpakRemotes'' = Some Observer"
  "min_role_for_action ''ListInstalledFlatpaks'' = Some Observer"
  "min_role_for_action ''AddFlatpakRemote'' = Some Dev"
  by (simp_all only: min_role_or string_eq cong: if_weak_cong)

lemma min_role_table_2 [table_simps]:
  "min_role_for_action ''RemoveFlatpakRemote'' = Some Dev"
  "min_role_for_action ''GetFlatpakAppInfo'' = Some Observer"
  "min_role_for_action ''ListToolboxes'' = Some Observer"
  "min_role_for_action ''CreateToolbox'' = Some Dev"
  "min_role_for_action ''RemoveToolbox'' = Some Dev"
  "min_role_for_action ''GetLayeredPackages'' = Some Observer"
  "min_role_for_action ''ResetLayeredPackageOverride'' = Some Admin"
  "min_role_for_action ''GetPendingUpdates'' = Some Observer"
  "min_role_for_action ''InstallPackages'' = Some Admin"
  "min_role_for_action ''RemovePackages'' = Some Admin"
  "min_role_for_action ''AddLayeredPackage'' = Some Admin"
  "min_role_for_action ''RemoveLayeredPackage'' = Some Admin"
  "min_role_for_action ''ReplaceLayeredPackage'' = Some Admin"
  "min_role_for_action ''RemoveBasePackage'' = Some Admin"
  "min_role_for_action ''ListServices'' = Some Observer"
  "min_role_for_action ''ListTimers'' = Some Observer"
  "min_role_for_action ''ReloadDaemon'' = Some Dev"
  "min_role_for_action ''StartService'' = Some Dev"
  "min_role_for_action ''StopService'' = Some Dev"
  "min_role_for_action ''RestartService'' = Some Dev"
  by (simp_all only: min_role_or string_eq cong: if_weak_cong)

lemma min_role_table_3 [table_simps]:
  "min_role_for_action ''ReloadService'' = Some Dev"
  "min_role_for_action ''SetServiceEnabled'' = Some Dev"
  "min_role_for_action ''MaskService'' = Some Admin"
  "min_role_for_action ''UnmaskService'' = Some Dev"
  "min_role_for_action ''GetServiceLogs'' = Some Observer"
  "min_role_for_action ''GetServiceStatus'' = Some Observer"
  "min_role_for_action ''GetFirewallState'' = Some Observer"
  "min_role_for_action ''GetNetworkStatus'' = Some Observer"
  "min_role_for_action ''ConfigureWifi'' = Some Dev"
  "min_role_for_action ''SetDnsServers'' = Some Admin"
  "min_role_for_action ''ConfigureFirewall'' = Some Admin"
  "min_role_for_action ''GetDiskUsage'' = Some Observer"
  "min_role_for_action ''ListProcesses'' = Some Observer"
  "min_role_for_action ''GetMemoryInfo'' = Some Observer"
  "min_role_for_action ''GetDateTime'' = Some Observer"
  "min_role_for_action ''SetHostname'' = Some Dev"
  "min_role_for_action ''SetTimezone'' = Some Dev"
  "min_role_for_action ''SetLocale'' = Some Dev"
  "min_role_for_action ''SetNtp'' = Some Dev"
  "min_role_for_action ''ListPackageRepositories'' = Some Observer"
  by (simp_all only: min_role_or string_eq cong: if_weak_cong)

lemma min_role_table_4 [table_simps]:
  "min_role_for_action ''AddPackageRepository'' = Some Admin"
  "min_role_for_action ''RemovePackageRepository'' = Some Dev"
  "min_role_for_action ''EnablePackageRepository'' = Some Dev"
  "min_role_for_action ''DisablePackageRepository'' = Some Dev"
  "min_role_for_action ''ListContainers'' = Some Observer"
  "min_role_for_action ''CreateContainer'' = Some Dev"
  "min_role_for_action ''StartContainer'' = Some Dev"
  "min_role_for_action ''StopContainer'' = Some Dev"
  "min_role_for_action ''RemoveContainer'' = Some Dev"
  "min_role_for_action ''GetContainerInfo'' = Some Observer"
  "min_role_for_action ''ListUsers'' = Some Observer"
  "min_role_for_action ''ListGroups'' = Some Observer"
  "min_role_for_action ''CreateUser'' = Some Admin"
  "min_role_for_action ''DeleteUser'' = Some Admin"
  "min_role_for_action ''AddUserToGroup'' = Some Admin"
  "min_role_for_action ''RemoveUserFromGroup'' = Some Admin"
  "min_role_for_action ''GetAuthorizedKeys'' = Some Observer"
  "min_role_for_action ''AddAuthorizedKey'' = Some Admin"
  "min_role_for_action ''RemoveAuthorizedKey'' = Some Admin"
  "min_role_for_action ''ListJobHistory'' = Some Observer"
  by (simp_all only: min_role_or string_eq cong: if_weak_cong)

lemma min_role_table_5 [table_simps]:
  "min_role_for_action ''AptUpdate'' = Some Observer"
  "min_role_for_action ''AptUpgrade'' = Some Admin"
  "min_role_for_action ''AptInstall'' = Some Dev"
  "min_role_for_action ''AptRemove'' = Some Dev"
  "min_role_for_action ''AptPurge'' = Some Dev"
  "min_role_for_action ''AptAutoremove'' = Some Dev"
  "min_role_for_action ''AptHold'' = Some Dev"
  "min_role_for_action ''AptUnhold'' = Some Dev"
  "min_role_for_action ''AptSearch'' = Some Observer"
  "min_role_for_action ''AptListInstalled'' = Some Observer"
  "min_role_for_action ''AptShow'' = Some Observer"
  "min_role_for_action ''AptListUpgradable'' = Some Observer"
  "min_role_for_action ''AptHistoryList'' = Some Observer"
  "min_role_for_action ''AddPpa'' = Some Dev"
  "min_role_for_action ''RemovePpa'' = Some Dev"
  "min_role_for_action ''SnapInstall'' = Some Dev"
  "min_role_for_action ''SnapRemove'' = Some Dev"
  "min_role_for_action ''SnapRefresh'' = Some Dev"
  "min_role_for_action ''SnapHold'' = Some Dev"
  "min_role_for_action ''SnapUnhold'' = Some Dev"
  by (simp_all only: min_role_or string_eq cong: if_weak_cong)

lemma min_role_table_6 [table_simps]:
  "min_role_for_action ''SnapList'' = Some Observer"
  "min_role_for_action ''SnapInfo'' = Some Observer"
  "min_role_for_action ''SnapRevert'' = Some Dev"
  "min_role_for_action ''SnapClassicInstall'' = Some Dev"
  "min_role_for_action ''UfwEnable'' = Some Admin"
  "min_role_for_action ''UfwDisable'' = Some Admin"
  "min_role_for_action ''UfwAllow'' = Some Admin"
  "min_role_for_action ''UfwDeny'' = Some Admin"
  "min_role_for_action ''UfwReset'' = Some Admin"
  "min_role_for_action ''UfwStatus'' = Some Observer"
  "min_role_for_action ''DistroboxList'' = Some Observer"
  "min_role_for_action ''DistroboxCreate'' = Some Dev"
  "min_role_for_action ''DistroboxRemove'' = Some Dev"
  "min_role_for_action ''NetplanGetConfig'' = Some Observer"
  "min_role_for_action ''NetplanApply'' = Some Admin"
  "min_role_for_action ''NetplanSet'' = Some Admin"
  "min_role_for_action ''NetplanGenerate'' = Some Dev"
  "min_role_for_action ''GrubGetKargs'' = Some Observer"
  "min_role_for_action ''GrubSetKargs'' = Some Admin"
  "min_role_for_action ''CheckPendingReboot'' = Some Observer"
  by (simp_all only: min_role_or string_eq cong: if_weak_cong)

lemma min_role_table_7 [table_simps]:
  "min_role_for_action ''ResolvectlStatus'' = Some Observer"
  "min_role_for_action ''ResolvectlSetDns'' = Some Dev"
  "min_role_for_action ''AppArmorStatus'' = Some Observer"
  "min_role_for_action ''AppArmorEnforce'' = Some Admin"
  "min_role_for_action ''AppArmorComplain'' = Some Dev"
  "min_role_for_action ''CloudInitStatus'' = Some Observer"
  "min_role_for_action ''UbuntuInstallFlatpak'' = Some Dev"
  "min_role_for_action ''UbuntuRemoveFlatpak'' = Some Dev"
  "min_role_for_action ''UbuntuUpdateFlatpak'' = Some Dev"
  "min_role_for_action ''UbuntuListFlatpaks'' = Some Observer"
  "min_role_for_action ''Fail2banStatus'' = Some Observer"
  "min_role_for_action ''Fail2banBanIp'' = Some Admin"
  "min_role_for_action ''Fail2banUnbanIp'' = Some Dev"
  "min_role_for_action ''UbuntuReleaseUpgrade'' = Some Admin"
  "min_role_for_action ''ProStatus'' = Some Observer"
  "min_role_for_action ''ProAttach'' = Some Admin"
  "min_role_for_action ''ProDetach'' = Some Admin"
  "min_role_for_action ''LivepatchStatus'' = Some Observer"
  "min_role_for_action ''MultipassList'' = Some Observer"
  "min_role_for_action ''UfwDeleteRule'' = Some Admin"
  by (simp_all only: min_role_or string_eq cong: if_weak_cong)

lemma min_role_table_8 [table_simps]:
  "min_role_for_action ''UfwLimit'' = Some Admin"
  by (simp_all only: min_role_or string_eq cong: if_weak_cong)

lemmas min_role_table = min_role_table_1 min_role_table_2 min_role_table_3 min_role_table_4 min_role_table_5 min_role_table_6 min_role_table_7 min_role_table_8

lemma known_actions_have_role: "list_all (\<lambda>a. min_role_for_action a \<noteq> None) KNOWN_ACTION_NAMES"
  by (simp only: KNOWN_ACTION_NAMES_def list.pred_inject table_simps option.distinct simp_thms not_False_eq_True)

lemma observer_actions_known: "list_all (\<lambda>a. a \<in> set KNOWN_ACTION_NAMES) observer_actions"
  by (simp only: observer_actions_def list.pred_inject known_or string_eq)

lemma dev_actions_known: "list_all (\<lambda>a. a \<in> set KNOWN_ACTION_NAMES) dev_actions"
  by (simp only: dev_actions_def list.pred_inject known_or string_eq)

lemma admin_actions_known: "list_all (\<lambda>a. a \<in> set KNOWN_ACTION_NAMES) admin_actions"
  by (simp only: admin_actions_def list.pred_inject known_or string_eq)

lemma min_role_None_iff: "min_role_for_action a = None \<longleftrightarrow> a \<notin> set KNOWN_ACTION_NAMES"
  using known_actions_have_role observer_actions_known dev_actions_known admin_actions_known
  by (auto simp: min_role_for_action_def List.member_iff list_all_iff split: if_splits)

lemma min_role_not_Boot: "min_role_for_action a \<noteq> Some Boot"
  by (simp add: min_role_for_action_def)

definition baseline_action_allowed :: "caller_role \<Rightarrow> str \<Rightarrow> bool" where
  "baseline_action_allowed caller a =
    (case min_role_for_action a of
       Some required \<Rightarrow> role_rank caller \<ge> role_rank required
     | None \<Rightarrow> False)"

section \<open>Operator overrides\<close>

text \<open>A \<open>HashMap\<close> is the list of its entries in iteration order, which is arbitrary; its keys are
  distinct. \<open>insert\<close> is \<open>AList.update\<close>.\<close>

record policy_table =
  pt_overrides :: "(str \<times> caller_role) list"

datatype policy_error =
    UnknownAction str
  | InvalidRiskLevel str str
  | CannotLower str caller_role caller_role

definition empty_policy :: policy_table where
  "empty_policy = \<lparr> pt_overrides = [] \<rparr>"

fun role_for_risk_level :: "risk_level \<Rightarrow> caller_role" where
  "role_for_risk_level Low = Observer"
| "role_for_risk_level Medium = Dev"
| "role_for_risk_level High = Admin"

lemma role_for_risk_level_mono: "k \<le> l \<Longrightarrow> role_for_risk_level k \<le> role_for_risk_level l"
  by (cases k; cases l) (auto simp: less_eq_risk_level_def less_eq_caller_role_def)

definition parse_risk_level :: "str \<Rightarrow> risk_level option" where
  "parse_risk_level s =
    (let v = to_ascii_lowercase (trim s)
     in if v = ''low'' then Some Low else if v = ''medium'' then Some Medium
        else if v = ''high'' then Some High else None)"

definition check_override :: "str \<times> str \<Rightarrow> (policy_error, caller_role) result" where
  "check_override = (\<lambda>(action, level_str).
    rbind (ok_or (min_role_for_action action) (UnknownAction action)) (\<lambda>baseline.
    rbind (ok_or (parse_risk_level level_str) (InvalidRiskLevel action level_str)) (\<lambda>level.
    let attempted = role_for_risk_level level
    in if role_rank attempted < role_rank baseline
       then Inl (CannotLower action baseline attempted) else Inr attempted)))"

fun add_overrides ::
    "(str \<times> caller_role) list \<Rightarrow> (str \<times> str) list \<Rightarrow> (policy_error, (str \<times> caller_role) list) result" where
  "add_overrides acc [] = Inr acc"
| "add_overrides acc (e # raw) =
    rbind (check_override e) (\<lambda>r. add_overrides (AList.update (fst e) r acc) raw)"

definition from_overrides :: "(str \<times> str) list \<Rightarrow> (policy_error, policy_table) result" where
  "from_overrides raw =
    rbind (add_overrides [] raw) (\<lambda>ov. Inr \<lparr> pt_overrides = ov \<rparr>)"

definition table_min_role :: "policy_table \<Rightarrow> str \<Rightarrow> caller_role option" where
  "table_min_role pt a =
    (case min_role_for_action a of
       None \<Rightarrow> None
     | Some baseline \<Rightarrow> Some (unwrap_or (map_of (pt_overrides pt) a) baseline))"

definition action_allowed :: "policy_table \<Rightarrow> caller_role \<Rightarrow> str \<Rightarrow> bool" where
  "action_allowed pt caller a =
    (case table_min_role pt a of
       Some required \<Rightarrow> role_rank caller \<ge> role_rank required
     | None \<Rightarrow> False)"

definition active_overrides :: "policy_table \<Rightarrow> (str \<times> caller_role) list" where
  "active_overrides pt = sort_key fst (pt_overrides pt)"

definition override_count :: "policy_table \<Rightarrow> nat" where
  "override_count pt = length (pt_overrides pt)"

text \<open>The table's invariant: distinct keys, and every override at or above the baseline of a known
  action. \<open>from_overrides\<close> establishes it and no operation changes a table.\<close>

definition wf_policy :: "policy_table \<Rightarrow> bool" where
  "wf_policy pt = (distinct (map fst (pt_overrides pt)) \<and>
     list_all (\<lambda>(a, r). case min_role_for_action a of None \<Rightarrow> False | Some b \<Rightarrow> b \<le> r) (pt_overrides pt))"

lemma wf_empty_policy [simp]: "wf_policy empty_policy"
  by (simp add: wf_policy_def empty_policy_def)

lemma wf_policy_lookup:
  "wf_policy pt \<Longrightarrow> map_of (pt_overrides pt) a = Some r \<Longrightarrow>
     \<exists>b. min_role_for_action a = Some b \<and> b \<le> r"
  by (force simp: wf_policy_def list_all_iff split: option.splits dest!: map_of_SomeD)

lemma check_override_Inr:
  "check_override (a, l) = Inr r \<longleftrightarrow>
     (\<exists>b k. min_role_for_action a = Some b \<and> parse_risk_level l = Some k \<and>
        r = role_for_risk_level k \<and> b \<le> r)"
  by (auto simp: check_override_def Let_def result_simps less_eq_caller_role_def not_less)

lemma wf_policy_update:
  "wf_policy \<lparr>pt_overrides = ov\<rparr> \<Longrightarrow> check_override (a, l) = Inr r \<Longrightarrow>
     wf_policy \<lparr>pt_overrides = AList.update a r ov\<rparr>"
proof -
  assume wf: "wf_policy \<lparr>pt_overrides = ov\<rparr>" and ok: "check_override (a, l) = Inr r"
  have "set (AList.update a r ov) \<subseteq> insert (a, r) (set ov)"
    by (induction ov) auto
  with wf ok show ?thesis
    by (force simp: wf_policy_def list_all_iff check_override_Inr distinct_update)
qed

lemma add_overrides_wf:
  "wf_policy \<lparr>pt_overrides = acc\<rparr> \<Longrightarrow> add_overrides acc raw = Inr ov \<Longrightarrow> wf_policy \<lparr>pt_overrides = ov\<rparr>"
proof (induction acc raw rule: add_overrides.induct)
  case (2 acc e raw)
  then obtain r where r: "check_override e = Inr r"
      "add_overrides (AList.update (fst e) r acc) raw = Inr ov"
    by (auto simp: result_simps)
  with 2 show ?case
    by (metis prod.collapse wf_policy_update)
qed simp

lemma from_overrides_wf: "from_overrides raw = Inr pt \<Longrightarrow> wf_policy pt"
  by (auto simp: from_overrides_def result_simps intro: add_overrides_wf wf_empty_policy
      [unfolded empty_policy_def])

lemma add_overrides_lookup:
  "add_overrides acc raw = Inr ov \<Longrightarrow> distinct (map fst raw) \<Longrightarrow>
   map_of ov a = (case map_of raw a of
      None \<Rightarrow> map_of acc a
    | Some l \<Rightarrow> res_ok (check_override (a, l)))"
proof (induction acc raw rule: add_overrides.induct)
  case (2 acc e raw)
  then obtain r where r: "check_override e = Inr r"
      "add_overrides (AList.update (fst e) r acc) raw = Inr ov"
    by (auto simp: result_simps)
  with 2 have "map_of ov a = (case map_of raw a of
      None \<Rightarrow> map_of (AList.update (fst e) r acc) a
    | Some l \<Rightarrow> res_ok (check_override (a, l)))" by simp
  moreover have "map_of raw (fst e) = None" using 2(3) by (auto simp: map_of_eq_None_iff)
  ultimately show ?case
    using r(1) by (cases e) (auto simp: update_conv' split: option.split)
qed simp

lemma add_overrides_checked:
  "add_overrides acc raw = Inr ov \<Longrightarrow> e \<in> set raw \<Longrightarrow> is_ok (check_override e)"
  by (induction acc raw rule: add_overrides.induct) (auto simp: result_simps is_ok_iff)

lemma from_overrides_lookup:
  assumes "from_overrides raw = Inr pt" "distinct (map fst raw)" "map_of raw a = Some l"
  shows "table_min_role pt a = map_option role_for_risk_level (parse_risk_level l)"
proof -
  from assms(1) have add: "add_overrides [] raw = Inr (pt_overrides pt)"
    by (auto simp: from_overrides_def result_simps)
  from add_overrides_checked [OF this map_of_SomeD [OF assms(3)]]
  obtain r where r: "check_override (a, l) = Inr r" by (auto simp: is_ok_iff)
  with add_overrides_lookup [OF add assms(2), of a] assms(3)
  have "map_of (pt_overrides pt) a = Some r" by simp
  with r show ?thesis by (auto simp: table_min_role_def check_override_Inr)
qed

lemma from_overrides_no_lookup:
  assumes "from_overrides raw = Inr pt" "distinct (map fst raw)" "a \<notin> fst ` set raw"
  shows "table_min_role pt a = min_role_for_action a"
proof -
  from assms(1) have add: "add_overrides [] raw = Inr (pt_overrides pt)"
    by (auto simp: from_overrides_def result_simps)
  note add_overrides_lookup [OF this assms(2), of a]
  moreover have "map_of raw a = None" using assms(3) by (simp add: map_of_eq_None_iff)
  ultimately have "map_of (pt_overrides pt) a = None" by simp
  then show ?thesis by (auto simp: table_min_role_def split: option.splits)
qed

section \<open>What a table grants\<close>

lemma table_min_role_Some:
  "table_min_role pt a = Some r \<longleftrightarrow>
     (\<exists>b. min_role_for_action a = Some b \<and> r = unwrap_or (map_of (pt_overrides pt) a) b)"
  by (auto simp: table_min_role_def split: option.splits)

lemma table_min_role_ge:
  "wf_policy pt \<Longrightarrow> table_min_role pt a = Some r \<Longrightarrow> \<exists>b. min_role_for_action a = Some b \<and> b \<le> r"
  by (cases "map_of (pt_overrides pt) a") (auto simp: table_min_role_Some dest: wf_policy_lookup)

lemma action_allowed_iff:
  "action_allowed pt c a \<longleftrightarrow> (\<exists>r. table_min_role pt a = Some r \<and> r \<le> c)"
  by (auto simp: action_allowed_def less_eq_caller_role_def split: option.splits)

lemma baseline_action_allowed_iff:
  "baseline_action_allowed c a \<longleftrightarrow> (\<exists>r. min_role_for_action a = Some r \<and> r \<le> c)"
  by (auto simp: baseline_action_allowed_def less_eq_caller_role_def split: option.splits)

lemma action_allowed_mono: "action_allowed pt c a \<Longrightarrow> c \<le> d \<Longrightarrow> action_allowed pt d a"
  by (auto simp: action_allowed_iff intro: order_trans)

lemma action_allowed_baseline: "wf_policy pt \<Longrightarrow> action_allowed pt c a \<Longrightarrow> baseline_action_allowed c a"
  by (auto simp: action_allowed_iff baseline_action_allowed_iff dest!: table_min_role_ge intro: order_trans)

lemma action_allowed_known: "action_allowed pt c a \<Longrightarrow> a \<in> set KNOWN_ACTION_NAMES"
  using min_role_None_iff [of a] by (force simp: action_allowed_iff table_min_role_Some)

lemma empty_policy_baseline: "action_allowed empty_policy c a = baseline_action_allowed c a"
  by (simp add: action_allowed_iff baseline_action_allowed_iff table_min_role_Some empty_policy_def)

section \<open>Approval freshness\<close>

datatype approval_error = StaleApprovalError str str

definition policy_approval_matches :: "str \<Rightarrow> str \<Rightarrow> bool" where
  "policy_approval_matches request_hash approval_hash =
    approval_matches_request (RequestHash request_hash) (ApprovalHash approval_hash)"

definition require_fresh_approval :: "str \<Rightarrow> str \<Rightarrow> (approval_error, unit) result" where
  "require_fresh_approval request_hash approval_hash =
    (if policy_approval_matches request_hash approval_hash then Inr ()
     else Inl (StaleApprovalError request_hash approval_hash))"

lemma require_fresh_approval_Inr [result_simps]:
  "require_fresh_approval r a = Inr u \<longleftrightarrow> r = a \<and> r \<noteq> []"
  by (auto simp: require_fresh_approval_def policy_approval_matches_def approval_matches_request_iff)

end
