(* ===== verification/Framing.thy ===== *)
theory Framing
  imports Rust_Std Prefix_Code "HOL-Library.Word"
begin

text \<open>
  \<open>transport/framing.rs\<close>: a message is its length in four little-endian bytes and its body, at most
  \<open>MAX_MESSAGE_BYTES\<close> long. The stream is the list of bytes still to be read; \<open>recv\<close> returns what is left
  after the frame. The frames of legal messages form a uniquely decodable code.
\<close>

definition MAX_MESSAGE_BYTES :: nat where "MAX_MESSAGE_BYTES = 4 * 1024 * 1024"

datatype framing_error = MessageTooLarge nat | FramingIo

section \<open>Little-endian words\<close>

definition byte_at :: "32 word \<Rightarrow> nat \<Rightarrow> char" where
  "byte_at w i = char_of (unat (drop_bit (8 * i) w))"

definition to_le_bytes :: "32 word \<Rightarrow> str" where
  "to_le_bytes w = [byte_at w 0, byte_at w 1, byte_at w 2, byte_at w 3]"

fun from_le_bytes :: "str \<Rightarrow> nat" where
  "from_le_bytes [] = 0"
| "from_le_bytes (c # cs) = byte_of c + 256 * from_le_bytes cs"

lemma byte_of_byte_at: "byte_of (byte_at w i) = unat w div 2 ^ (8 * i) mod 256"
  by (simp only: byte_at_def of_char_of unat_drop_bit_eq) (simp add: drop_bit_eq_div)

lemma from_to_le_bytes: "from_le_bytes (to_le_bytes w) = unat w"
proof -
  have "unat w < 2 ^ 32" using unsigned_less [of w] by simp
  then have b: "unat w div 2 ^ 24 mod 256 = unat w div 2 ^ 24" by (simp add: less_mult_imp_div_less)
  have "n = n mod 256 + 256 * (n div 256 mod 256 + 256 * (n div 256 div 256 mod 256 + 256 * (n div 256 div 256 div 256)))"
    for n :: nat by (metis mod_mult_div_eq add.commute)
  from this [of "unat w"] b show ?thesis
    by (simp add: to_le_bytes_def byte_of_byte_at div_mult2_eq [symmetric])
qed

section \<open>Sending and receiving\<close>

definition send_frame :: "str \<Rightarrow> (framing_error, str) result" where
  "send_frame data =
    (if length data > MAX_MESSAGE_BYTES then Inl (MessageTooLarge (length data))
     else Inr (to_le_bytes (of_nat (length data)) @ data))"

text \<open>\<open>read_exact\<close> fails at the end of the stream.\<close>

definition read_exact :: "nat \<Rightarrow> str \<Rightarrow> (framing_error, str \<times> str) result" where
  "read_exact n s = (if n \<le> length s then Inr (take n s, drop n s) else Inl FramingIo)"

definition recv_frame :: "str \<Rightarrow> (framing_error, str \<times> str) result" where
  "recv_frame s =
    rbind (read_exact 4 s) (\<lambda>(header, s1).
    let len = from_le_bytes header
    in if len > MAX_MESSAGE_BYTES then Inl (MessageTooLarge len)
       else read_exact len s1)"

section \<open>Facts\<close>

lemma frame_length_word: "length data \<le> MAX_MESSAGE_BYTES \<Longrightarrow> unat (of_nat (length data) :: 32 word) = length data"
  by (simp add: unsigned_of_nat take_bit_nat_eq_self MAX_MESSAGE_BYTES_def)

lemma send_frame_Inr: "send_frame d = Inr f \<longleftrightarrow>
    length d \<le> MAX_MESSAGE_BYTES \<and> f = to_le_bytes (of_nat (length d)) @ d"
  by (auto simp: send_frame_def)

lemma recv_after_send:
  assumes "send_frame d = Inr f" shows "recv_frame (f @ rest) = Inr (d, rest)"
proof -
  from assms have d: "length d \<le> MAX_MESSAGE_BYTES" "f = to_le_bytes (of_nat (length d)) @ d"
    by (simp_all add: send_frame_Inr)
  have len: "length (to_le_bytes w) = 4" for w by (simp add: to_le_bytes_def)
  have "read_exact 4 (f @ rest) = Inr (to_le_bytes (of_nat (length d)), d @ rest)"
    using d(2) len by (simp add: read_exact_def)
  moreover have "from_le_bytes (to_le_bytes (of_nat (length d))) = length d"
    using d(1) by (simp add: from_to_le_bytes frame_length_word)
  ultimately show ?thesis using d(1) by (simp add: recv_frame_def Let_def) (simp add: read_exact_def)
qed

text \<open>Reading a whole stream frame by frame, as the dispatch loop does.\<close>

function recv_all :: "str \<Rightarrow> str list \<times> framing_error" where
  "recv_all s = (case recv_frame s of
      Inl e \<Rightarrow> ([], e)
    | Inr (d, rest) \<Rightarrow> (case recv_all rest of (ds, e) \<Rightarrow> (d # ds, e)))"
  by auto

lemma recv_frame_shorter: "recv_frame s = Inr (d, rest) \<Longrightarrow> length rest < length s"
  by (auto simp: recv_frame_def read_exact_def Let_def rbind_eq_Inr_conv split: if_splits)

termination recv_all
  by (relation "measure length") (auto dest: recv_frame_shorter)

declare recv_all.simps [simp del]

definition encode_frames :: "str list \<Rightarrow> str" where
  "encode_frames ds = concat (map (\<lambda>d. to_le_bytes (of_nat (length d)) @ d) ds)"

lemma recv_all_frames:
  "list_all (\<lambda>d. length d \<le> MAX_MESSAGE_BYTES) ds \<Longrightarrow>
   recv_all (encode_frames ds @ rest) = (ds @ fst (recv_all rest), snd (recv_all rest))"
proof (induction ds)
  case (Cons d ds)
  then have "send_frame d = Inr (to_le_bytes (of_nat (length d)) @ d)" by (simp add: send_frame_Inr)
  from recv_after_send [OF this, of "encode_frames ds @ rest"]
  have "recv_frame (encode_frames (d # ds) @ rest) = Inr (d, encode_frames ds @ rest)"
    by (simp add: encode_frames_def)
  with Cons show ?case by (subst recv_all.simps) simp
qed (simp add: encode_frames_def)

lemma recv_all_empty: "recv_all [] = ([], FramingIo)"
  by (subst recv_all.simps) (simp add: recv_frame_def read_exact_def)

lemma from_le_bytes_bound: "from_le_bytes cs < 256 ^ length cs"
proof (induction cs)
  case (Cons c cs)
  have "byte_of c < 256" by (rule byte_of_less_256)
  with Cons have "byte_of c + 256 * from_le_bytes cs < 256 * 256 ^ length cs" by linarith
  then show ?case by simp
qed simp

lemma from_le_bytes_nth: "i < length cs \<Longrightarrow> from_le_bytes cs div 256 ^ i mod 256 = byte_of (cs ! i)"
proof (induction cs arbitrary: i)
  case (Cons c cs)
  have "byte_of c < 256" by (rule byte_of_less_256)
  then have "(byte_of c + 256 * n) div 256 = n" "(byte_of c + 256 * n) mod 256 = byte_of c" for n :: nat
    by simp_all
  with Cons show ?case by (cases i) (simp_all add: div_mult2_eq)
qed simp

lemma to_from_le_bytes:
  assumes "length h = 4" shows "to_le_bytes (of_nat (from_le_bytes h)) = h"
proof -
  have "from_le_bytes h < 2 ^ 32" using from_le_bytes_bound [of h] assms by simp
  then have "byte_of (byte_at (of_nat (from_le_bytes h)) i) = from_le_bytes h div 2 ^ (8 * i) mod 256" for i
    by (simp only: byte_of_byte_at) (simp add: unsigned_of_nat take_bit_nat_eq_self)
  then have "byte_at (of_nat (from_le_bytes h)) i = h ! i" if "i < 4" for i
    using from_le_bytes_nth [of i h] assms that by (simp add: power_mult byte_of_inj [symmetric])
  moreover from assms have "h = [h ! 0, h ! 1, h ! 2, h ! 3]"
    by (auto simp: length_Suc_conv numeral_eq_Suc)
  ultimately show ?thesis by (simp add: to_le_bytes_def)
qed

lemma recv_frame_Inr:
  assumes "recv_frame s = Inr (d, rest)"
  shows "length d \<le> MAX_MESSAGE_BYTES \<and> s = to_le_bytes (of_nat (length d)) @ d @ rest"
proof -
  define h where "h = take 4 s"
  define s1 where "s1 = drop 4 s"
  from assms have four: "4 \<le> length s" and len: "from_le_bytes h \<le> MAX_MESSAGE_BYTES"
    and d: "d = take (from_le_bytes h) s1" "rest = drop (from_le_bytes h) s1" "from_le_bytes h \<le> length s1"
    by (auto simp: recv_frame_def read_exact_def Let_def rbind_eq_Inr_conv h_def s1_def split: if_splits)
  then have dl: "length d = from_le_bytes h" by simp
  have "length h = 4" using four by (simp add: h_def)
  then have "to_le_bytes (of_nat (length d)) = h" unfolding dl by (rule to_from_le_bytes)
  moreover have "s = h @ s1" by (simp add: h_def s1_def)
  moreover have "s1 = d @ rest" using d by simp
  ultimately show ?thesis using len dl by simp
qed

lemma recv_all_decodes:
  "recv_all s = (ds, e) \<Longrightarrow>
   list_all (\<lambda>d. length d \<le> MAX_MESSAGE_BYTES) ds \<and>
   (\<exists>rest. s = encode_frames ds @ rest \<and> recv_frame rest = Inl e)"
proof (induction s arbitrary: ds rule: recv_all.induct)
  case (1 s)
  show ?case
  proof (cases "recv_frame s")
    case (Inl e')
    with 1(2) have "ds = []" "e' = e" by (simp_all add: recv_all.simps [of s])
    with Inl show ?thesis by (simp add: encode_frames_def)
  next
    case (Inr p)
    obtain d rest where p: "p = (d, rest)" by (cases p)
    obtain ds' e' where r: "recv_all rest = (ds', e')" by (cases "recv_all rest")
    from 1(2) Inr p r have ds: "ds = d # ds'" "e' = e" by (simp_all add: recv_all.simps [of s])
    from 1(1) [OF Inr p [symmetric]] r ds(2)
    obtain rest' where "list_all (\<lambda>d. length d \<le> MAX_MESSAGE_BYTES) ds'" "rest = encode_frames ds' @ rest'"
      "recv_frame rest' = Inl e" by auto
    with recv_frame_Inr [of s d rest] Inr p ds show ?thesis by (auto simp: encode_frames_def)
  qed
qed

lemma sent_frames:
  "list_all2 (\<lambda>d f. send_frame d = Inr f) ds fs \<longleftrightarrow>
    list_all (\<lambda>d. length d \<le> MAX_MESSAGE_BYTES) ds \<and> fs = map (\<lambda>d. to_le_bytes (of_nat (length d)) @ d) ds"
proof (induction ds arbitrary: fs)
  case (Cons d ds)
  then show ?case by (cases fs) (auto simp: send_frame_Inr)
qed simp

section \<open>Properties\<close>

text \<open>C40. A frame is read back as it was sent, and nothing but sent frames is read: the sender refuses exactly the
  messages above the limit, and the messages the receiver takes from a stream, one \<open>recv\<close> after the other (\<open>recv_all\<close>),
  are \<open>ds\<close> exactly when the stream starts with the frames \<open>send\<close> makes of them and what follows is refused, an
  oversized announcement or a truncated frame. The bodies may hold any bytes.\<close>

theorem framing_is_exact:
  "(is_ok (send_frame d) \<longleftrightarrow> length d \<le> MAX_MESSAGE_BYTES) \<and>
    (recv_all s = (ds, e) \<longleftrightarrow>
      (\<exists>fs rest. list_all2 (\<lambda>d f. send_frame d = Inr f) ds fs \<and> s = concat fs @ rest \<and> recv_frame rest = Inl e))"
proof
  show "is_ok (send_frame d) \<longleftrightarrow> length d \<le> MAX_MESSAGE_BYTES" by (auto simp: is_ok_iff send_frame_Inr)
  show "recv_all s = (ds, e) \<longleftrightarrow>
      (\<exists>fs rest. list_all2 (\<lambda>d f. send_frame d = Inr f) ds fs \<and> s = concat fs @ rest \<and> recv_frame rest = Inl e)"
  proof
    show "recv_all s = (ds, e) \<Longrightarrow>
        \<exists>fs rest. list_all2 (\<lambda>d f. send_frame d = Inr f) ds fs \<and> s = concat fs @ rest \<and> recv_frame rest = Inl e"
      using recv_all_decodes [of s ds e] by (auto simp: sent_frames encode_frames_def)
  next
    assume "\<exists>fs rest. list_all2 (\<lambda>d f. send_frame d = Inr f) ds fs \<and> s = concat fs @ rest \<and> recv_frame rest = Inl e"
    then obtain rest where a: "list_all (\<lambda>d. length d \<le> MAX_MESSAGE_BYTES) ds" "s = encode_frames ds @ rest"
        "recv_frame rest = Inl e"
      by (auto simp: sent_frames encode_frames_def)
    then have "recv_all rest = ([], e)" by (simp add: recv_all.simps [of rest])
    with a recv_all_frames [of ds rest] show "recv_all s = (ds, e)" by simp
  qed
qed

end
