(* ===== verification/Dispatch_Types.thy ===== *)
theory Dispatch_Types
  imports Redaction State_Collector Request_Hash Preview Audit_Store Policy Framing
begin

text \<open>
  The wire types of \<open>dispatcher.rs\<close>: requests with their derived deserialisation, responses with their
  derived serialisation, the texts of the errors it reports, and the programs its handlers are. A handler
  is a tree of effects: each node names one call of the dispatcher on its surroundings (a frame sent, a
  store method, a process, the state collector, the forwarder) and continues with what the call returns.
  The order of the calls and the use of their results are those of the code; what the surroundings answer
  is left open here and fixed by the system's steps.
\<close>

section \<open>Requests\<close>

datatype daemon_request =
    QueryState str
  | Preview str str json
  | Execute str str json str
  | Cancel str
  | QueryAction str str json
  | Describe str str json

text \<open>An internally tagged enum, from an object with its fields by name, or from an array of the tag and
  the fields in order. Further keys of an object are ignored.\<close>

definition read_action :: "(str \<Rightarrow> str \<Rightarrow> json \<Rightarrow> daemon_request) \<Rightarrow> json option \<Rightarrow> json option \<Rightarrow> json option \<Rightarrow>
    daemon_request option" where
  "read_action build request_id action_name params =
    (case (Option.bind request_id as_str, Option.bind action_name as_str, params) of
       (Some r, Some n, Some p) \<Rightarrow> Some (build r n p)
     | _ \<Rightarrow> None)"

definition parse_fields :: "str \<Rightarrow> (str \<Rightarrow> json option) \<Rightarrow> daemon_request option" where
  "parse_fields tag get =
    (if tag = ''query_state'' then map_option QueryState (Option.bind (get ''request_id'') as_str)
     else if tag = ''preview'' then read_action Preview (get ''request_id'') (get ''action_name'') (get ''params'')
     else if tag = ''execute'' then
       Option.bind (Option.bind (get ''approval_hash'') as_str) (\<lambda>h.
         read_action (\<lambda>r n p. Execute r n p h) (get ''request_id'') (get ''action_name'') (get ''params''))
     else if tag = ''cancel'' then map_option Cancel (Option.bind (get ''job_id'') as_str)
     else if tag = ''query_action'' then
       read_action QueryAction (get ''request_id'') (get ''action_name'') (get ''params'')
     else if tag = ''describe'' then
       read_action Describe (get ''request_id'') (get ''action_name'') (get ''params'')
     else None)"

definition field_names :: "str \<Rightarrow> str list" where
  "field_names tag =
    (if tag = ''query_state'' then [''request_id'']
     else if tag = ''cancel'' then [''job_id'']
     else if tag = ''execute'' then [''request_id'', ''action_name'', ''params'', ''approval_hash'']
     else [''request_id'', ''action_name'', ''params''])"

fun parse_request :: "json \<Rightarrow> daemon_request option" where
  "parse_request (JObject m) =
    Option.bind (Option.bind (map_of m ''type'') as_str) (\<lambda>tag. parse_fields tag (map_of m))"
| "parse_request (JArray (JString tag # fs)) =
    (if length fs = length (field_names tag) then parse_fields tag (map_of (zip (field_names tag) fs))
     else None)"
| "parse_request _ = None"

section \<open>Responses\<close>

record job_result =
  jr_status :: str
  jr_summary :: str
  jr_warnings :: "str list"
  jr_job_id :: str
  jr_needs_reboot :: bool
  jr_rollback_ref :: "str option"
  jr_transaction_id :: str

datatype daemon_response =
    StateResponse str collected_state
  | PreviewResponse str preview_envelope str
  | JobStarted str str str
  | JobProgress str str
  | JobCompleted str job_result
  | QueryActionResponse str str str
  | DescribeResponse str str str bool
  | ErrorResponse str str str

fun opt_json :: "str option \<Rightarrow> json" where
  "opt_json None = JNull"
| "opt_json (Some s) = JString s"

fun risk_level_json :: "risk_level \<Rightarrow> json" where
  "risk_level_json Low = JString ''low''"
| "risk_level_json Medium = JString ''medium''"
| "risk_level_json High = JString ''high''"

definition preview_json :: "preview_envelope \<Rightarrow> json" where
  "preview_json p = JObject
    [(''summary'', JString (pe_summary p)), (''risk_level'', risk_level_json (pe_risk_level p)),
     (''current_state'', pe_current_state p), (''proposed_change'', pe_proposed_change p),
     (''expected_side_effects'', strings_json (pe_expected_side_effects p)),
     (''reboot_required'', JBool (pe_reboot_required p)),
     (''rollback_available'', JBool (pe_rollback_available p)),
     (''warnings'', strings_json (pe_warnings p)),
     (''request_hash'', JString (request_hash_str (pe_request_hash p)))]"

definition job_result_json :: "job_result \<Rightarrow> json" where
  "job_result_json r = JObject
    [(''status'', JString (jr_status r)), (''summary'', JString (jr_summary r)),
     (''warnings'', strings_json (jr_warnings r)), (''job_id'', JString (jr_job_id r)),
     (''needs_reboot'', JBool (jr_needs_reboot r)), (''rollback_ref'', opt_json (jr_rollback_ref r)),
     (''transaction_id'', JString (jr_transaction_id r))]"

definition tagged :: "str \<Rightarrow> (str \<times> json) list \<Rightarrow> json" where
  "tagged tag fs = JObject ((''type'', JString tag) # fs)"

fun response_json :: "daemon_response \<Rightarrow> json" where
  "response_json (StateResponse request_id state) =
    tagged ''state_response'' [(''request_id'', JString request_id), (''state'', collected_json state)]"
| "response_json (PreviewResponse request_id preview transaction_id) =
    tagged ''preview_response'' [(''request_id'', JString request_id), (''preview'', preview_json preview),
      (''transaction_id'', JString transaction_id)]"
| "response_json (JobStarted request_id job_id transaction_id) =
    tagged ''job_started'' [(''request_id'', JString request_id), (''job_id'', JString job_id),
      (''transaction_id'', JString transaction_id)]"
| "response_json (JobProgress job_id line) =
    tagged ''job_progress'' [(''job_id'', JString job_id), (''line'', JString line)]"
| "response_json (JobCompleted job_id result) =
    tagged ''job_completed'' [(''job_id'', JString job_id), (''result'', job_result_json result)]"
| "response_json (QueryActionResponse request_id action_name out) =
    tagged ''query_action_response'' [(''request_id'', JString request_id),
      (''action_name'', JString action_name), (''output'', JString out)]"
| "response_json (DescribeResponse request_id command risk_level reboot_required) =
    tagged ''describe_response'' [(''request_id'', JString request_id), (''command'', JString command),
      (''risk_level'', JString risk_level), (''reboot_required'', JBool reboot_required)]"
| "response_json (ErrorResponse request_id category message) =
    tagged ''error_response'' [(''request_id'', JString request_id), (''category'', JString category),
      (''message'', JString message)]"

definition response_frame :: "externs \<Rightarrow> daemon_response \<Rightarrow> (framing_error, str) result" where
  "response_frame ext r = send_frame (json_display ext (response_json r))"

section \<open>Texts\<close>

fun debug_role :: "caller_role \<Rightarrow> str" where
  "debug_role Observer = ''Observer''"
| "debug_role Dev = ''Dev''"
| "debug_role Admin = ''Admin''"
| "debug_role Boot = ''Boot''"

fun debug_state :: "job_state \<Rightarrow> str" where
  "debug_state Queued = ''Queued''"
| "debug_state Running = ''Running''"
| "debug_state Succeeded = ''Succeeded''"
| "debug_state Failed = ''Failed''"
| "debug_state Canceled = ''Canceled''"
| "debug_state RolledBack = ''RolledBack''"
| "debug_state NeedsReboot = ''NeedsReboot''"

fun debug_risk :: "risk_level \<Rightarrow> str" where
  "debug_risk Low = ''Low''"
| "debug_risk Medium = ''Medium''"
| "debug_risk High = ''High''"

fun job_state_str :: "job_state \<Rightarrow> str" where
  "job_state_str Queued = ''queued''"
| "job_state_str Running = ''running''"
| "job_state_str Succeeded = ''succeeded''"
| "job_state_str Failed = ''failed''"
| "job_state_str Canceled = ''canceled''"
| "job_state_str RolledBack = ''rolled_back''"
| "job_state_str NeedsReboot = ''needs_reboot''"

definition show_int :: "int \<Rightarrow> str" where
  "show_int i = (if i < 0 then CHR ''-'' # show_nat (nat (- i)) else show_nat (nat i))"

text \<open>The texts of foreign errors (of the system, SQLite and serde_json) are parameters, as are the
  parser of JSON text and serde's message for a value that is no request.\<close>

record daemon_env =
  ev_ext :: externs
  ev_policy :: policy_table
  ev_forwarder :: bool
  ev_io_text :: str
  ev_sqlite_text :: str
  ev_json_text :: str
  ev_chain_text :: str
  ev_parse :: "str \<Rightarrow> json option"
  ev_request_text :: "json \<Rightarrow> str"

fun executor_error_text :: "daemon_env \<Rightarrow> executor_error \<Rightarrow> str" where
  "executor_error_text env (UnknownActionError n) = ''unknown action: '' @ n"
| "executor_error_text env (MissingParam k) = ''missing required param: '' @ k"
| "executor_error_text env (InvalidParam k) = ''invalid param type for: '' @ k"
| "executor_error_text env (InvalidIpAddress k v) =
    ''invalid IP address for param '' @ quoted k @ '': '' @ quoted v"
| "executor_error_text env ExecutorIo = ''io error: '' @ ev_io_text env"

fun store_error_text :: "daemon_env \<Rightarrow> store_error \<Rightarrow> str" where
  "store_error_text env StoreIo = ''io error: '' @ ev_io_text env"
| "store_error_text env Sqlite = ''sqlite error: '' @ ev_sqlite_text env"
| "store_error_text env JsonField = ''json error: '' @ ev_json_text env"
| "store_error_text env (NotFound i) = ''transaction not found: '' @ i"
| "store_error_text env (InvalidStatus a b) =
    ''invalid transition from '' @ debug_state a @ '' to '' @ debug_state b"
| "store_error_text env AuditChainMissing = ''audit chain misconfiguration: '' @ ev_chain_text env"

text \<open>The dash of the message is U+2014 in UTF-8.\<close>

definition em_dash :: str where "em_dash = [CHR 0xE2, CHR 0x80, CHR 0x94]"

fun approval_error_text :: "approval_error \<Rightarrow> str" where
  "approval_error_text (StaleApprovalError request_hash approval_hash) =
    ''stale approval: approval_hash='' @ approval_hash @ '' does not match current request_hash='' @
    request_hash @ '' '' @ em_dash @ '' re-prompt the operator''"

section \<open>Programs\<close>

text \<open>A spawned process is what it will do: the lines of its standard output, whether reading them fails
  then (an I/O error or a line that is not UTF-8), its exit code (\<open>None\<close> when waiting fails, \<open>Some None\<close>
  for a signal) and its standard error, when it can be read.\<close>

record process =
  pr_lines :: "str list"
  pr_read_fails :: bool
  pr_exit :: "int option option"
  pr_stderr :: "str option"

datatype 'a prog =
    Return 'a
  | Send daemon_response "bool \<Rightarrow> 'a prog"
  | CollectState "(str, (collector_error, collected_state) result) result \<Rightarrow> 'a prog"
  | FindByHash str "(store_error, transaction_record option) result \<Rightarrow> 'a prog"
  | ClaimForExecution str "(store_error, bool) result \<Rightarrow> 'a prog"
  | UpdateStatus str job_state "(store_error, unit) result \<Rightarrow> 'a prog"
  | RecordPreviewed new_transaction preview_envelope "(store_error, recorded_previewed) result \<Rightarrow> 'a prog"
  | ListTransactions "32 word" "str option" "str option" "32 word option"
      "(store_error, transaction_record list) result \<Rightarrow> 'a prog"
  | FreshId "str \<Rightarrow> 'a prog"
  | ExecuteSpec action_spec "(executor_error, execution_output) result \<Rightarrow> 'a prog"
  | SpawnCommand str "str list" "process option \<Rightarrow> 'a prog"
  | Forward str caller_role "job_state option" "'a prog"

primrec pbind :: "'a prog \<Rightarrow> ('a \<Rightarrow> 'b prog) \<Rightarrow> 'b prog" where
  "pbind (Return x) f = f x"
| "pbind (Send r k) f = Send r (\<lambda>x. pbind (k x) f)"
| "pbind (CollectState k) f = CollectState (\<lambda>x. pbind (k x) f)"
| "pbind (FindByHash h k) f = FindByHash h (\<lambda>x. pbind (k x) f)"
| "pbind (ClaimForExecution i k) f = ClaimForExecution i (\<lambda>x. pbind (k x) f)"
| "pbind (UpdateStatus i st k) f = UpdateStatus i st (\<lambda>x. pbind (k x) f)"
| "pbind (RecordPreviewed nt pe k) f = RecordPreviewed nt pe (\<lambda>x. pbind (k x) f)"
| "pbind (ListTransactions l st a h k) f = ListTransactions l st a h (\<lambda>x. pbind (k x) f)"
| "pbind (FreshId k) f = FreshId (\<lambda>x. pbind (k x) f)"
| "pbind (ExecuteSpec sp k) f = ExecuteSpec sp (\<lambda>x. pbind (k x) f)"
| "pbind (SpawnCommand p as k) f = SpawnCommand p as (\<lambda>x. pbind (k x) f)"
| "pbind (Forward i r st p) f = Forward i r st (pbind p f)"

datatype handler_error = FramingFailed | InternalError str

type_synonym handler = "(handler_error, unit) result prog"

definition send_response :: "daemon_response \<Rightarrow> handler" where
  "send_response r = Send r (\<lambda>ok. Return (if ok then Inr () else Inl FramingFailed))"

definition send_error :: "str \<Rightarrow> str \<Rightarrow> str \<Rightarrow> handler" where
  "send_error request_id category message = send_response (ErrorResponse request_id category message)"

text \<open>\<open>let _ = send_response(...).await\<close>.\<close>

definition progress :: "str \<Rightarrow> str \<Rightarrow> 'a prog \<Rightarrow> 'a prog" where
  "progress job_id line p = Send (JobProgress job_id line) (\<lambda>_. p)"

end
