(* ===== verification/Dispatcher.thy ===== *)
theory Dispatcher
  imports Dispatch_Types
begin

text \<open>
  The handlers of \<open>dispatcher.rs\<close>, one per request, as programs over the effects of \<open>Dispatch_Types\<close>.
\<close>

definition authorize_action :: "policy_table \<Rightarrow> caller_role \<Rightarrow> str \<Rightarrow> bool" where
  "authorize_action policy caller action_name = action_allowed policy caller action_name"

definition not_allowed_text :: "str \<Rightarrow> caller_role \<Rightarrow> str" where
  "not_allowed_text action_name caller_role =
    ''action '' @ quoted action_name @ '' is not allowed for '' @ debug_role caller_role @ '' role''"

section \<open>Query state\<close>

definition handle_query_state :: "str \<Rightarrow> handler" where
  "handle_query_state request_id = CollectState (\<lambda>joined. case joined of
      Inl e \<Rightarrow> Return (Inl (InternalError (''collect_state task failed: '' @ e)))
    | Inr (Inl e) \<Rightarrow> send_error request_id ''state_collection_failed'' (collector_error_text e)
    | Inr (Inr s) \<Rightarrow> send_response (StateResponse request_id s))"

section \<open>Query action\<close>

definition DEFAULT_HISTORY_LIMIT :: "32 word" where "DEFAULT_HISTORY_LIMIT = 20"

definition TRANSACTION_ID_DISPLAY_PREFIX_LEN :: nat where "TRANSACTION_ID_DISPLAY_PREFIX_LEN = 8"

definition char_count :: "str \<Rightarrow> nat" where
  "char_count s = length (filter (\<lambda>c. \<not> utf8_continuation c) s)"

fun take_chars :: "nat \<Rightarrow> str \<Rightarrow> str" where
  "take_chars n [] = []"
| "take_chars n (c # s) =
    (if utf8_continuation c then c # take_chars n s
     else (case n of 0 \<Rightarrow> [] | Suc k \<Rightarrow> c # take_chars k s))"

definition pad_right :: "nat \<Rightarrow> str \<Rightarrow> str" where
  "pad_right n s = s @ replicate (n - char_count s) (CHR '' '')"

definition history_line :: "transaction_record \<Rightarrow> str" where
  "history_line r = ''  '' @ take_chars TRANSACTION_ID_DISPLAY_PREFIX_LEN (tr_transaction_id r) @ ''  '' @
     pad_right 30 (tr_action_name r) @ ''  '' @
     pad_right 12 (to_ascii_lowercase (debug_state (tr_status r))) @ ''  '' @ tr_summary r @ [CHR 0x0A]"

definition format_job_history :: "transaction_record list \<Rightarrow> str" where
  "format_job_history records =
    (if records = [] then ''No transactions found.''
     else ''Transaction history ('' @ show_nat (length records) @ '' entries):'' @ [CHR 0x0A, CHR 0x0A] @
       concat (map history_line records))"

text \<open>\<open>match params.get(k) \<dots> n as u32\<close>: a missing key is \<open>None\<close>, a value that is no unsigned integer is
  the error; the conversion drops the upper half.\<close>

definition u32_param :: "externs \<Rightarrow> json \<Rightarrow> str \<Rightarrow> (str, 32 word option) result" where
  "u32_param ext params k = (case json_get params k of
      None \<Rightarrow> Inr None
    | Some v \<Rightarrow> (case as_u64 v of
          Some n \<Rightarrow> Inr (Some (ucast n))
        | None \<Rightarrow> Inl (quoted k @ '' must be an integer, got: '' @ json_display ext v)))"

definition no_history_text :: "str option \<Rightarrow> str option \<Rightarrow> 32 word option \<Rightarrow> str" where
  "no_history_text status_filter action_filter since_hours =
    (let filters =
       (case status_filter of None \<Rightarrow> [] | Some s \<Rightarrow> [''status='' @ s]) @
       (case action_filter of None \<Rightarrow> [] | Some a \<Rightarrow> [''action='' @ a]) @
       (case since_hours of None \<Rightarrow> [] | Some h \<Rightarrow> [''since_hours='' @ show_nat (unat h)])
     in ''No transactions found'' @
        (if filters = [] then [] else '' (filters: '' @ join_with '', '' filters @ '')'') @ ''.'')"

definition list_job_history :: "daemon_env \<Rightarrow> str \<Rightarrow> str \<Rightarrow> json \<Rightarrow> handler" where
  "list_job_history env request_id action_name params =
    (case u32_param (ev_ext env) params ''limit'' of
       Inl e \<Rightarrow> send_error request_id ''validation_failure'' e
     | Inr limit_opt \<Rightarrow>
       let limit = unwrap_or limit_opt DEFAULT_HISTORY_LIMIT;
           status_filter = get_str params ''status_filter'';
           action_filter = get_str params ''action_filter''
       in (case u32_param (ev_ext env) params ''since_hours'' of
            Inl e \<Rightarrow> send_error request_id ''validation_failure'' e
          | Inr since_hours \<Rightarrow>
            ListTransactions limit status_filter action_filter since_hours (\<lambda>r. case r of
              Inl e \<Rightarrow> send_error request_id ''execution_failure''
                 (''failed to query transaction log: '' @ store_error_text env e)
            | Inr records \<Rightarrow>
                send_response (QueryActionResponse request_id action_name
                  (if records = [] then no_history_text status_filter action_filter since_hours
                   else format_job_history records)))))"

definition is_informational_exit :: "str \<Rightarrow> int \<Rightarrow> bool" where
  "is_informational_exit action_name exit_code =
    (action_name = ''GetServiceStatus'' \<and> 1 \<le> exit_code \<and> exit_code \<le> 4)"

definition query_output :: "str \<Rightarrow> str \<Rightarrow> execution_output \<Rightarrow> handler" where
  "query_output request_id action_name out =
    (if is_nonzero out \<and> \<not> is_informational_exit action_name (eo_exit_code out)
     then send_error request_id ''execution_failure''
       (action_name @ '' failed with exit code '' @ show_int (eo_exit_code out) @
        (if trim (eo_stderr out) = [] then [] else '': '' @ trim (eo_stderr out)))
     else send_response (QueryActionResponse request_id action_name
       (if eo_stderr out = [] then eo_stdout out
        else eo_stdout out @ [CHR 0x0A] @ ''[stderr]'' @ [CHR 0x0A] @ eo_stderr out)))"

definition handle_query_action :: "daemon_env \<Rightarrow> str \<Rightarrow> json \<Rightarrow> str \<Rightarrow> handler" where
  "handle_query_action env action_name params request_id =
    (case table_min_role (ev_policy env) action_name of
       None \<Rightarrow> send_error request_id ''validation_failure'' (''unknown action: '' @ action_name)
     | Some min_role \<Rightarrow>
       if min_role \<noteq> Observer
       then send_error request_id ''authorization_failure''
         (action_name @ '' is not a read-only action; use preview+execute instead'')
       else if action_name = ''ListJobHistory'' then list_job_history env request_id action_name params
       else (case build_action_spec action_name params of
           Inl e \<Rightarrow> send_error request_id ''validation_failure'' (executor_error_text env e)
         | Inr spec \<Rightarrow>
             ExecuteSpec spec (\<lambda>r. case r of
               Inl e \<Rightarrow> send_error request_id ''execution_failure'' (executor_error_text env e)
             | Inr out \<Rightarrow> query_output request_id action_name out)))"

section \<open>Describe\<close>

definition describe_command :: "str \<Rightarrow> json \<Rightarrow> action_spec \<Rightarrow> str" where
  "describe_command action_name params spec =
    (case sp_mechanism spec of
       Command program args \<Rightarrow>
         let display_args = redact_argv action_name params args
         in if display_args = [] then program else program @ '' '' @ join_with '' '' display_args
     | FileScan path \<Rightarrow> ''read '' @ path
     | FileWrite path content \<Rightarrow> ''write '' @ path
     | FilePatch path search rep \<Rightarrow> ''patch '' @ path
     | FileDelete path \<Rightarrow> ''rm '' @ path)"

definition handle_describe :: "daemon_env \<Rightarrow> str \<Rightarrow> json \<Rightarrow> str \<Rightarrow> handler" where
  "handle_describe env action_name params request_id =
    (if action_name = ''ListJobHistory''
     then send_response (DescribeResponse request_id ''query daemon job history (SQLite)'' ''low'' False)
     else (case build_action_spec action_name params of
         Inl e \<Rightarrow> send_error request_id ''validation_failure''
           (''unknown action: '' @ action_name @ '' ('' @ executor_error_text env e @ '')'')
       | Inr spec \<Rightarrow>
           send_response (DescribeResponse request_id (describe_command action_name params spec)
             (to_ascii_lowercase (debug_risk (sp_risk_level spec))) (sp_reboot_required spec))))"

section \<open>Preview\<close>

text \<open>State is best effort: any failure gives the null value. A value's map is in key order.\<close>

definition snapshot_json :: "(str, (collector_error, collected_state) result) result \<Rightarrow> json" where
  "snapshot_json joined = (case joined of
      Inl _ \<Rightarrow> JNull | Inr (Inl _) \<Rightarrow> JNull | Inr (Inr s) \<Rightarrow> sort_json (collected_json s))"

definition proposed_change :: "str \<Rightarrow> json \<Rightarrow> json" where
  "proposed_change action_name params =
    JObject [(''action'', JString action_name), (''params'', redact_params action_name params)]"

definition forward_audit_event :: "daemon_env \<Rightarrow> str \<Rightarrow> caller_role \<Rightarrow> 'a prog \<Rightarrow> 'a prog" where
  "forward_audit_event env transaction_id caller p =
    (if ev_forwarder env then Forward transaction_id caller None p else p)"

definition forward_status_change_event ::
  "daemon_env \<Rightarrow> str \<Rightarrow> caller_role \<Rightarrow> job_state \<Rightarrow> 'a prog \<Rightarrow> 'a prog" where
  "forward_status_change_event env transaction_id caller final_status p =
    (if ev_forwarder env then Forward transaction_id caller (Some final_status) p else p)"

definition preview_of :: "daemon_env \<Rightarrow> caller_role \<Rightarrow> str \<Rightarrow> str \<Rightarrow> json \<Rightarrow> json \<Rightarrow> preview_envelope" where
  "preview_of env caller_role request_id action_name params current_state =
    preview_action
      \<lparr>re_action_name = action_name, re_request_id = request_id, re_params = params,
       re_caller_role = caller_role,
       re_request_hash = RequestHash (compute_request_hash (ev_ext env) action_name params)\<rparr>
      current_state (proposed_change action_name params)"

definition new_tx_of :: "daemon_env \<Rightarrow> str \<Rightarrow> str \<Rightarrow> json \<Rightarrow> action_spec \<Rightarrow> preview_envelope \<Rightarrow> new_transaction" where
  "new_tx_of env request_id action_name params spec preview =
    \<lparr>nt_request_id = request_id, nt_request_hash = compute_request_hash (ev_ext env) action_name params,
     nt_action_name = action_name, nt_risk_level = sp_risk_level spec, nt_approval_id = None,
     nt_summary = pe_summary preview, nt_warnings = pe_warnings preview\<rparr>"

definition handle_preview :: "daemon_env \<Rightarrow> caller_role \<Rightarrow> str \<Rightarrow> str \<Rightarrow> json \<Rightarrow> handler" where
  "handle_preview env caller_role request_id action_name params =
    (case build_action_spec action_name params of
       Inl e \<Rightarrow> send_error request_id ''validation_failure'' (executor_error_text env e)
     | Inr spec \<Rightarrow>
       if \<not> authorize_action (ev_policy env) caller_role action_name
       then send_error request_id ''authorization_failure'' (not_allowed_text action_name caller_role)
       else CollectState (\<lambda>joined.
         let preview = preview_of env caller_role request_id action_name params (snapshot_json joined)
         in RecordPreviewed (new_tx_of env request_id action_name params spec preview) preview (\<lambda>r. case r of
              Inl e \<Rightarrow> send_error request_id ''transient_infrastructure_failure''
                (''failed to record preview transaction: '' @ store_error_text env e)
            | Inr recorded \<Rightarrow>
              let tid = tr_transaction_id (rp_transaction recorded)
              in forward_audit_event env tid caller_role
                   (send_response (PreviewResponse request_id preview tid)))))"

section \<open>Execute\<close>

text \<open>Every line is kept, and sent unless it is empty; a failed send is only logged.\<close>

fun stream_lines :: "str \<Rightarrow> str list \<Rightarrow> str \<Rightarrow> (str \<Rightarrow> 'a prog) \<Rightarrow> 'a prog" where
  "stream_lines job_id [] buf k = k buf"
| "stream_lines job_id (l # ls) buf k =
    (if l \<noteq> [] then progress job_id l (stream_lines job_id ls (buf @ l @ [CHR 0x0A]) k)
     else stream_lines job_id ls (buf @ l @ [CHR 0x0A]) k)"

type_synonym outcome = "(executor_error, execution_output) result"

definition stream_command_with_progress :: "str \<Rightarrow> str \<Rightarrow> str list \<Rightarrow> (outcome \<Rightarrow> 'a prog) \<Rightarrow> 'a prog" where
  "stream_command_with_progress job_id program args k =
    SpawnCommand program args (\<lambda>spawned. case spawned of
      None \<Rightarrow> k (Inl ExecutorIo)
    | Some child \<Rightarrow> stream_lines job_id (pr_lines child) [] (\<lambda>stdout_buf.
        if pr_read_fails child then k (Inl ExecutorIo)
        else (case pr_exit child of
            None \<Rightarrow> k (Inl ExecutorIo)
          | Some code \<Rightarrow> (case pr_stderr child of
                None \<Rightarrow> k (Inl ExecutorIo)
              | Some err \<Rightarrow> k (Inr (action_output stdout_buf err (unwrap_or code (-1))))))))"

definition run_spec :: "str \<Rightarrow> action_spec \<Rightarrow> (outcome \<Rightarrow> 'a prog) \<Rightarrow> 'a prog" where
  "run_spec job_id spec k =
    (case sp_mechanism spec of
       Command program args \<Rightarrow> stream_command_with_progress job_id program args k
     | _ \<Rightarrow> ExecuteSpec spec k)"

definition initial_result :: "daemon_env \<Rightarrow> str \<Rightarrow> action_spec \<Rightarrow> outcome \<Rightarrow> job_state \<times> str" where
  "initial_result env action_name spec r = (case r of
      Inr out \<Rightarrow>
        if is_success out then
          (if sp_reboot_required spec then (NeedsReboot, action_name @ '' completed; reboot required'')
           else (Succeeded, action_name @ '' completed successfully''))
        else (Failed, action_name @ '' failed with exit code '' @ show_int (eo_exit_code out))
    | Inl e \<Rightarrow> (Failed, action_name @ '' failed: '' @ executor_error_text env e))"

definition completion_line :: "daemon_env \<Rightarrow> str \<Rightarrow> outcome \<Rightarrow> str" where
  "completion_line env action_name r = (case r of
      Inr out \<Rightarrow> action_name @ '' completed with exit code '' @ show_int (eo_exit_code out)
    | Inl e \<Rightarrow> action_name @ '' completed with error: '' @ executor_error_text env e)"

definition attempt_rollback_if_needed ::
  "daemon_env \<Rightarrow> str \<Rightarrow> str \<Rightarrow> action_spec \<Rightarrow> job_state \<Rightarrow> str \<Rightarrow> (job_state \<Rightarrow> str \<Rightarrow> str option \<Rightarrow> 'a prog) \<Rightarrow> 'a prog" where
  "attempt_rollback_if_needed env job_id action_name spec status summary k =
    (if status \<noteq> Failed \<or> \<not> sp_rollback_available spec then k status summary None
     else (case rollback_spec_for action_name of
         None \<Rightarrow> k status summary None
       | Some rb_spec \<Rightarrow>
           progress job_id (action_name @ '' failed '' @ em_dash @ '' attempting automatic rollback via rpm-ostree rollback'')
             (ExecuteSpec rb_spec (\<lambda>r.
               if (case r of Inr out \<Rightarrow> is_success out | Inl _ \<Rightarrow> False)
               then progress job_id (''Rollback succeeded '' @ em_dash @ '' previous deployment restored'')
                 (k RolledBack (action_name @ '' failed and was automatically rolled back to the previous deployment'')
                   (Some ''rpm-ostree rollback''))
               else
                 let detail = (case r of
                     Inr out \<Rightarrow> ''exit code '' @ show_int (eo_exit_code out)
                   | Inl e \<Rightarrow> executor_error_text env e)
                 in progress job_id (''Rollback also failed ('' @ detail @ '') '' @ em_dash @
                      '' system may need manual intervention'')
                    (k status summary None)))))"

text \<open>From the final status to the reply.\<close>

definition finish_job :: "daemon_env \<Rightarrow> caller_role \<Rightarrow> str \<Rightarrow> str \<Rightarrow> job_state \<Rightarrow> str \<Rightarrow> str option \<Rightarrow> handler" where
  "finish_job env caller_role job_id transaction_id final_status summary rollback_ref =
    (let completed = (\<lambda>warnings. send_response (JobCompleted job_id
        \<lparr>jr_status = job_state_str final_status, jr_summary = summary, jr_warnings = warnings,
         jr_job_id = job_id, jr_needs_reboot = (final_status = NeedsReboot), jr_rollback_ref = rollback_ref,
         jr_transaction_id = transaction_id\<rparr>))
     in UpdateStatus transaction_id final_status (\<lambda>r. case r of
          Inr _ \<Rightarrow> forward_status_change_event env transaction_id caller_role final_status (completed [])
        | Inl e \<Rightarrow> completed [''audit trail update failed: '' @ store_error_text env e]))"

text \<open>From the granted claim on. The reply that the job has started is the only send whose failure ends
  the handler.\<close>

definition run_claimed :: "daemon_env \<Rightarrow> caller_role \<Rightarrow> str \<Rightarrow> str \<Rightarrow> action_spec \<Rightarrow> str \<Rightarrow> handler" where
  "run_claimed env caller_role request_id action_name spec transaction_id =
    FreshId (\<lambda>job_id.
      Send (JobStarted request_id job_id transaction_id) (\<lambda>ok.
        if \<not> ok then Return (Inl FramingFailed)
        else
          progress job_id (''Authorization passed for '' @ action_name) (
          progress job_id (''Executing '' @ action_name @ ''...'') (
          run_spec job_id spec (\<lambda>r.
          let (initial_status, initial_summary) = initial_result env action_name spec r
          in progress job_id (completion_line env action_name r) (
             attempt_rollback_if_needed env job_id action_name spec initial_status initial_summary
               (finish_job env caller_role job_id transaction_id)))))))"

definition handle_execute :: "daemon_env \<Rightarrow> caller_role \<Rightarrow> str \<Rightarrow> str \<Rightarrow> json \<Rightarrow> str \<Rightarrow> handler" where
  "handle_execute env caller_role request_id action_name params approval_hash =
    (case build_action_spec action_name params of
       Inl e \<Rightarrow> send_error request_id ''validation_failure'' (executor_error_text env e)
     | Inr spec \<Rightarrow>
       if \<not> authorize_action (ev_policy env) caller_role action_name
       then send_error request_id ''authorization_failure'' (not_allowed_text action_name caller_role)
       else let stored_hash = compute_request_hash (ev_ext env) action_name params in
       (case require_fresh_approval stored_hash approval_hash of
          Inl e \<Rightarrow> send_error request_id ''stale_approval'' (approval_error_text e)
        | Inr _ \<Rightarrow>
          FindByHash stored_hash (\<lambda>found. case found of
            Inl e \<Rightarrow> send_error request_id ''transient_infrastructure_failure''
              (''transaction lookup failed: '' @ store_error_text env e)
          | Inr None \<Rightarrow> send_error request_id ''stale_approval''
              ''no prior preview found for this action; preview before executing''
          | Inr (Some tx) \<Rightarrow>
            ClaimForExecution (tr_transaction_id tx) (\<lambda>claimed. case claimed of
              Inl e \<Rightarrow> send_error request_id ''transient_infrastructure_failure''
                (''failed to claim transaction: '' @ store_error_text env e)
            | Inr False \<Rightarrow> send_error request_id ''stale_approval''
                ''transaction already claimed by a concurrent request''
            | Inr True \<Rightarrow> run_claimed env caller_role request_id action_name spec (tr_transaction_id tx)))))"

section \<open>Dispatch\<close>

fun handle_request :: "daemon_env \<Rightarrow> caller_role \<Rightarrow> daemon_request \<Rightarrow> handler" where
  "handle_request env role (QueryState request_id) = handle_query_state request_id"
| "handle_request env role (Preview request_id action_name params) =
    handle_preview env role request_id action_name params"
| "handle_request env role (Execute request_id action_name params approval_hash) =
    handle_execute env role request_id action_name params approval_hash"
| "handle_request env role (QueryAction request_id action_name params) =
    handle_query_action env action_name params request_id"
| "handle_request env role (Describe request_id action_name params) =
    handle_describe env action_name params request_id"
| "handle_request env role (Cancel job_id) =
    send_error job_id ''not_implemented'' ''cancel not yet implemented''"

text \<open>One round of the loop on a received frame: \<open>None\<close> closes the connection; otherwise the program to
  run before the next frame is read, its errors only logged.\<close>

definition dispatch_frame :: "daemon_env \<Rightarrow> caller_role \<Rightarrow> str \<Rightarrow> handler option" where
  "dispatch_frame env role raw = (case ev_parse env raw of
      None \<Rightarrow> None
    | Some msg \<Rightarrow> Some (case parse_request msg of
          None \<Rightarrow> send_error [] ''validation_failure'' (''unknown message type: '' @ ev_request_text env msg)
        | Some request \<Rightarrow> handle_request env role request))"

text \<open>The first frame of a vsock connection. The frame is a JSON object with the two strings (or the
  array of both); \<open>token_check\<close> is the comparison with the token file.\<close>

definition parse_auth_frame :: "json \<Rightarrow> (str \<times> str) option" where
  "parse_auth_frame v = (case v of
      JObject m \<Rightarrow> (case (map_of m ''type'', map_of m ''token'') of
          (Some (JString t), Some (JString tok)) \<Rightarrow> Some (t, tok) | _ \<Rightarrow> None)
    | JArray [JString t, JString tok] \<Rightarrow> Some (t, tok)
    | _ \<Rightarrow> None)"

definition authenticate_vsock_token ::
  "daemon_env \<Rightarrow> (str \<Rightarrow> caller_role option) \<Rightarrow> (framing_error, str \<times> str) result option \<Rightarrow> (caller_role \<times> str) option" where
  "authenticate_vsock_token env token_check received = (case received of
      None \<Rightarrow> None
    | Some (Inl _) \<Rightarrow> None
    | Some (Inr (raw, rest)) \<Rightarrow>
        (case Option.bind (ev_parse env raw) parse_auth_frame of
           None \<Rightarrow> None
         | Some (msg_type, token) \<Rightarrow>
             if msg_type \<noteq> ''auth'' then None
             else map_option (\<lambda>role. (role, rest)) (token_check token)))"

end
