(* ===== verification/Dispatch_Protocol.thy ===== *)
theory Dispatch_Protocol
  imports Dispatcher
begin

text \<open>
  The calls a handler makes, as a sequence of events, and the protocol they follow: a monitor with one
  phase per step of an execution (looked up, claimed, announced, run, rolled back, recorded) and the events
  permitted in each. \<open>obeys\<close> says that every path of a program keeps to the monitor; the programs of the
  dispatcher do (\<open>handle_request_obeys\<close>), whatever their surroundings answer.
\<close>

section \<open>Events\<close>

datatype event =
    Sent daemon_response bool
  | Collected "(str, (collector_error, collected_state) result) result"
  | FoundHash str "(store_error, transaction_record option) result"
  | ClaimedTx str "(store_error, bool) result"
  | Updated str job_state "(store_error, unit) result"
  | Previewed new_transaction preview_envelope "(store_error, recorded_previewed) result"
  | Listed "32 word" "str option" "str option" "32 word option" "(store_error, transaction_record list) result"
  | GotId str
  | Executed action_spec outcome
  | Spawned str "str list" "process option"
  | Forwarded str caller_role "job_state option"

primrec react :: "'a prog \<Rightarrow> event \<Rightarrow> 'a prog option" where
  "react (Return x) e = None"
| "react (Send r k) e = (case e of Sent r' ok \<Rightarrow> if r' = r then Some (k ok) else None | _ \<Rightarrow> None)"
| "react (CollectState k) e = (case e of Collected x \<Rightarrow> Some (k x) | _ \<Rightarrow> None)"
| "react (FindByHash h k) e = (case e of FoundHash h' x \<Rightarrow> if h' = h then Some (k x) else None | _ \<Rightarrow> None)"
| "react (ClaimForExecution i k) e = (case e of ClaimedTx j x \<Rightarrow> if j = i then Some (k x) else None | _ \<Rightarrow> None)"
| "react (UpdateStatus i st k) e =
    (case e of Updated j st' x \<Rightarrow> if j = i \<and> st' = st then Some (k x) else None | _ \<Rightarrow> None)"
| "react (RecordPreviewed nt pe k) e =
    (case e of Previewed nt' pe' x \<Rightarrow> if nt' = nt \<and> pe' = pe then Some (k x) else None | _ \<Rightarrow> None)"
| "react (ListTransactions l st a h k) e =
    (case e of Listed l' st' a' h' x \<Rightarrow> if l' = l \<and> st' = st \<and> a' = a \<and> h' = h then Some (k x) else None
     | _ \<Rightarrow> None)"
| "react (FreshId k) e = (case e of GotId i \<Rightarrow> Some (k i) | _ \<Rightarrow> None)"
| "react (ExecuteSpec sp k) e = (case e of Executed sp' x \<Rightarrow> if sp' = sp then Some (k x) else None | _ \<Rightarrow> None)"
| "react (SpawnCommand p as k) e =
    (case e of Spawned p' as' x \<Rightarrow> if p' = p \<and> as' = as then Some (k x) else None | _ \<Rightarrow> None)"
| "react (Forward i r st p) e =
    (case e of Forwarded i' r' st' \<Rightarrow> if i' = i \<and> r' = r \<and> st' = st then Some p else None | _ \<Rightarrow> None)"

fun follow :: "'a prog \<Rightarrow> event list \<Rightarrow> 'a prog option" where
  "follow p [] = Some p"
| "follow p (e # es) = Option.bind (react p e) (\<lambda>q. follow q es)"

text \<open>The mechanism an event runs on the system, and whether it succeeded.\<close>

fun run_of :: "event \<Rightarrow> mechanism option" where
  "run_of (Executed spec r) = Some (sp_mechanism spec)"
| "run_of (Spawned program args p) = Some (Command program args)"
| "run_of _ = None"

definition process_succeeds :: "process \<Rightarrow> bool" where
  "process_succeeds p = (\<not> pr_read_fails p \<and> pr_exit p = Some (Some 0) \<and> pr_stderr p \<noteq> None)"

fun run_succeeds :: "event \<Rightarrow> bool" where
  "run_succeeds (Executed spec r) = (case r of Inr out \<Rightarrow> is_success out | Inl e \<Rightarrow> False)"
| "run_succeeds (Spawned program args p) = (case p of Some child \<Rightarrow> process_succeeds child | None \<Rightarrow> False)"
| "run_succeeds _ = False"

section \<open>The monitor\<close>

datatype phase =
    Idle
  | Found str str
  | Holding str str
  | Announced str str
  | Abandoned str str
  | Ran str str bool
  | Reverted str str bool
  | Closed

fun run_step :: "phase \<Rightarrow> bool \<Rightarrow> phase" where
  "run_step (Announced h i) ok = Ran h i ok"
| "run_step (Ran h i b) ok = Reverted h i ok"
| "run_step ph ok = ph"

fun advance :: "phase \<Rightarrow> event \<Rightarrow> phase" where
  "advance ph (FoundHash h r) = (case r of Inr (Some tx) \<Rightarrow> Found h (tr_transaction_id tx) | _ \<Rightarrow> Closed)"
| "advance ph (ClaimedTx i r) = (case ph of Found h j \<Rightarrow> (if r = Inr True then Holding h i else Closed) | _ \<Rightarrow> Closed)"
| "advance ph (Sent r ok) = (case r of
      JobStarted rid j i \<Rightarrow> (case ph of
          Holding h i' \<Rightarrow> if ok then Announced h i else Abandoned h i | _ \<Rightarrow> ph)
    | _ \<Rightarrow> ph)"
| "advance ph (Executed spec r) = run_step ph (run_succeeds (Executed spec r))"
| "advance ph (Spawned program args p) = run_step ph (run_succeeds (Spawned program args p))"
| "advance ph (Updated i st r) = Closed"
| "advance ph _ = ph"

definition reads :: "daemon_env \<Rightarrow> daemon_request \<Rightarrow> mechanism \<Rightarrow> bool" where
  "reads env rq m \<longleftrightarrow> (\<exists>rid n ps spec. rq = QueryAction rid n ps \<and> build_action_spec n ps = Inr spec \<and>
     sp_mechanism spec = m \<and> table_min_role (ev_policy env) n = Some Observer)"

definition approved :: "daemon_env \<Rightarrow> caller_role \<Rightarrow> daemon_request \<Rightarrow> str \<Rightarrow> bool" where
  "approved env role rq h \<longleftrightarrow> (\<exists>rid n ps spec. rq = Execute rid n ps h \<and> build_action_spec n ps = Inr spec \<and>
     action_allowed (ev_policy env) role n \<and> h = compute_request_hash (ev_ext env) n ps)"

definition executes :: "daemon_request \<Rightarrow> mechanism \<Rightarrow> bool" where
  "executes rq m \<longleftrightarrow> (\<exists>rid n ps h spec. rq = Execute rid n ps h \<and> build_action_spec n ps = Inr spec \<and>
     sp_mechanism spec = m)"

definition reverts :: "daemon_request \<Rightarrow> mechanism \<Rightarrow> bool" where
  "reverts rq m \<longleftrightarrow> (\<exists>rid n ps h rb. rq = Execute rid n ps h \<and> rollback_spec_for n = Some rb \<and> sp_mechanism rb = m)"

definition previews :: "daemon_env \<Rightarrow> caller_role \<Rightarrow> daemon_request \<Rightarrow> new_transaction \<Rightarrow> preview_envelope \<Rightarrow> bool" where
  "previews env role rq nt pe \<longleftrightarrow> (\<exists>rid n ps spec. rq = Preview rid n ps \<and> build_action_spec n ps = Inr spec \<and>
     action_allowed (ev_policy env) role n \<and> nt_action_name nt = n \<and>
     nt_request_hash nt = compute_request_hash (ev_ext env) n ps \<and>
     pe_request_hash pe = RequestHash (nt_request_hash nt))"

fun may_run :: "daemon_env \<Rightarrow> daemon_request \<Rightarrow> phase \<Rightarrow> mechanism \<Rightarrow> bool" where
  "may_run env rq Idle m = reads env rq m"
| "may_run env rq (Announced h i) m = executes rq m"
| "may_run env rq (Ran h i ok) m = (\<not> ok \<and> reverts rq m)"
| "may_run env rq _ m = False"

text \<open>The status recorded is what happened.\<close>

fun truthful :: "phase \<Rightarrow> str \<Rightarrow> job_state \<Rightarrow> bool" where
  "truthful (Ran h i ok) j st = (i = j \<and> (if ok then st = Succeeded \<or> st = NeedsReboot else st = Failed))"
| "truthful (Reverted h i ok) j st = (i = j \<and> st = (if ok then RolledBack else Failed))"
| "truthful _ j st = False"

fun permitted :: "daemon_env \<Rightarrow> caller_role \<Rightarrow> daemon_request \<Rightarrow> phase \<Rightarrow> event \<Rightarrow> bool" where
  "permitted env role rq ph (FoundHash h r) = (ph = Idle \<and> approved env role rq h)"
| "permitted env role rq ph (ClaimedTx i r) = (\<exists>h. ph = Found h i)"
| "permitted env role rq ph (Sent r ok) = (case r of
      JobStarted rid j i \<Rightarrow> \<exists>h. ph = Holding h i
    | JobCompleted j res \<Rightarrow> ph = Closed
    | _ \<Rightarrow> True)"
| "permitted env role rq ph (Executed spec r) = may_run env rq ph (sp_mechanism spec)"
| "permitted env role rq ph (Spawned program args p) = may_run env rq ph (Command program args)"
| "permitted env role rq ph (Updated i st r) = truthful ph i st"
| "permitted env role rq ph (Previewed nt pe r) = (ph = Idle \<and> previews env role rq nt pe)"
| "permitted env role rq ph _ = True"

fun settled :: "phase \<Rightarrow> bool" where
  "settled Idle = True"
| "settled Closed = True"
| "settled (Abandoned h i) = True"
| "settled _ = False"

section \<open>Programs that keep to it\<close>

primrec obeys :: "'a prog \<Rightarrow> (phase \<Rightarrow> event \<Rightarrow> bool) \<Rightarrow> phase \<Rightarrow> bool" where
  "obeys (Return x) ok ph = settled ph"
| "obeys (Send r k) ok ph = (\<forall>b. ok ph (Sent r b) \<and> obeys (k b) ok (advance ph (Sent r b)))"
| "obeys (CollectState k) ok ph = (\<forall>x. ok ph (Collected x) \<and> obeys (k x) ok (advance ph (Collected x)))"
| "obeys (FindByHash h k) ok ph = (\<forall>x. ok ph (FoundHash h x) \<and> obeys (k x) ok (advance ph (FoundHash h x)))"
| "obeys (ClaimForExecution i k) ok ph = (\<forall>x. ok ph (ClaimedTx i x) \<and> obeys (k x) ok (advance ph (ClaimedTx i x)))"
| "obeys (UpdateStatus i st k) ok ph = (\<forall>x. ok ph (Updated i st x) \<and> obeys (k x) ok (advance ph (Updated i st x)))"
| "obeys (RecordPreviewed nt pe k) ok ph =
    (\<forall>x. ok ph (Previewed nt pe x) \<and> obeys (k x) ok (advance ph (Previewed nt pe x)))"
| "obeys (ListTransactions l st a h k) ok ph =
    (\<forall>x. ok ph (Listed l st a h x) \<and> obeys (k x) ok (advance ph (Listed l st a h x)))"
| "obeys (FreshId k) ok ph = (\<forall>x. ok ph (GotId x) \<and> obeys (k x) ok (advance ph (GotId x)))"
| "obeys (ExecuteSpec sp k) ok ph = (\<forall>x. ok ph (Executed sp x) \<and> obeys (k x) ok (advance ph (Executed sp x)))"
| "obeys (SpawnCommand p as k) ok ph = (\<forall>x. ok ph (Spawned p as x) \<and> obeys (k x) ok (advance ph (Spawned p as x)))"
| "obeys (Forward i r st p) ok ph = (ok ph (Forwarded i r st) \<and> obeys p ok (advance ph (Forwarded i r st)))"

lemma obeys_react:
  assumes "obeys p ok ph" "react p e = Some q" shows "ok ph e \<and> obeys q ok (advance ph e)"
  using assms by (cases p) (auto split: event.splits if_splits simp del: advance.simps)

lemma obeys_follow:
  "obeys p ok ph \<Longrightarrow> follow p es = Some q \<Longrightarrow> obeys q ok (fold (\<lambda>e ph. advance ph e) es ph)"
proof (induction es arbitrary: p ph)
  case (Cons e es)
  then obtain q' where q: "react p e = Some q'" "follow q' es = Some q"
    by (auto simp: Option.bind_eq_Some_conv)
  with Cons.prems(1) have "obeys q' ok (advance ph e)" using obeys_react by blast
  with Cons.IH q(2) show ?case by simp
qed simp

text \<open>Replies and progress are no steps of an execution.\<close>

lemma obeys_progress [simp]:
  "obeys (progress j l p) (permitted env role rq) ph \<longleftrightarrow> obeys p (permitted env role rq) ph"
  by (simp add: progress_def)

lemma obeys_reply [simp]:
  "obeys (send_error i c m) (permitted env role rq) ph \<longleftrightarrow> settled ph"
  "obeys (send_response (StateResponse i s)) (permitted env role rq) ph \<longleftrightarrow> settled ph"
  "obeys (send_response (QueryActionResponse i n out)) (permitted env role rq) ph \<longleftrightarrow> settled ph"
  "obeys (send_response (DescribeResponse i c k b)) (permitted env role rq) ph \<longleftrightarrow> settled ph"
  "obeys (send_response (PreviewResponse i pe t)) (permitted env role rq) ph \<longleftrightarrow> settled ph"
  "obeys (send_response (JobCompleted j res)) (permitted env role rq) Closed"
  by (auto simp: send_error_def send_response_def)

lemma obeys_stream:
  "obeys (stream_lines j ls buf k) (permitted env role rq) ph \<longleftrightarrow>
     obeys (k (buf @ concat (map (\<lambda>l. l @ [CHR 0x0A]) ls))) (permitted env role rq) ph"
  by (induction ls arbitrary: buf) auto

section \<open>The handlers keep to it\<close>

lemma obeys_finish:
  "truthful ph i st \<Longrightarrow> obeys (finish_job env role j i st s rb) (permitted env role' rq) ph"
  by (auto simp: finish_job_def forward_status_change_event_def split: sum.split)

lemma obeys_rollback:
  assumes "rq = Execute rid n ps h'"
    and "ok \<longleftrightarrow> st \<noteq> Failed" "ok \<longrightarrow> st = Succeeded \<or> st = NeedsReboot"
  shows "obeys (attempt_rollback_if_needed env j n spec st s (finish_job env role j i)) (permitted env role' rq) (Ran h i ok)"
proof -
  have fin: "obeys (finish_job env role j i st s rb) (permitted env role' rq) (Ran h i ok)" for rb
    using assms(2,3) by (intro obeys_finish) auto
  show ?thesis
  proof (cases "st \<noteq> Failed \<or> \<not> sp_rollback_available spec \<or> rollback_spec_for n = None")
    case True
    then show ?thesis using fin by (auto simp: attempt_rollback_if_needed_def)
  next
    case False
    then obtain rb where rb: "rollback_spec_for n = Some rb" by auto
    have "reverts rq (sp_mechanism rb)" using assms(1) rb by (auto simp: reverts_def)
    with False rb assms(2) show ?thesis
      by (auto simp: attempt_rollback_if_needed_def Let_def intro!: obeys_finish)
  qed
qed

lemma initial_result_truth:
  "(case r of Inr out \<Rightarrow> is_success out | Inl e \<Rightarrow> False) = ok \<Longrightarrow>
   (ok \<longleftrightarrow> fst (initial_result env n spec r) \<noteq> Failed) \<and>
   (ok \<longrightarrow> fst (initial_result env n spec r) = Succeeded \<or> fst (initial_result env n spec r) = NeedsReboot)"
  by (auto simp: initial_result_def split: sum.splits)

lemma obeys_run_spec:
  assumes "executes rq (sp_mechanism spec)"
    and k: "\<And>r ok. (case r of Inr out \<Rightarrow> is_success out | Inl e \<Rightarrow> False) = ok \<Longrightarrow>
        obeys (k r) (permitted env role rq) (Ran h i ok)"
  shows "obeys (run_spec j spec k) (permitted env role rq) (Announced h i)"
proof (cases "sp_mechanism spec")
  case (Command program args)
  have "obeys (k (Inl e)) (permitted env role rq) (Ran h i False)"
    "obeys (k (Inr \<lparr>eo_stdout = out, eo_stderr = err, eo_exit_code = c\<rparr>)) (permitted env role rq) (Ran h i (c = 0))"
    "obeys (k (Inr \<lparr>eo_stdout = out, eo_stderr = err, eo_exit_code = -1\<rparr>)) (permitted env role rq) (Ran h i False)"
    for e out err c
    by (rule k; simp add: is_success_def)+
  with Command assms(1) show ?thesis
    by (auto simp: run_spec_def stream_command_with_progress_def obeys_stream process_succeeds_def
        action_output_def is_success_def unwrap_or_def split: option.split)
qed (use assms in \<open>simp_all add: run_spec_def\<close>)

lemma obeys_run_claimed:
  assumes "rq = Execute rid n ps h'" "build_action_spec n ps = Inr spec"
  shows "obeys (run_claimed env role rid n spec i) (permitted env role rq) (Holding h i)"
proof -
  have ex: "executes rq (sp_mechanism spec)" using assms by (auto simp: executes_def)
  have "obeys (run_spec j spec (\<lambda>r.
      let (initial_status, initial_summary) = initial_result env n spec r
      in progress j (completion_line env n r) (
         attempt_rollback_if_needed env j n spec initial_status initial_summary
           (finish_job env role j i)))) (permitted env role rq) (Announced h i)" for j
    by (rule obeys_run_spec [OF ex])
       (use initial_result_truth [of _ _ env n spec] in
         \<open>auto simp: case_prod_beta assms(1) Let_def intro!: obeys_rollback [OF refl]\<close>)
  then show ?thesis by (auto simp: run_claimed_def)
qed

lemma handle_execute_obeys:
  "obeys (handle_execute env role rid n ps a) (permitted env role (Execute rid n ps a)) Idle"
proof (cases "build_action_spec n ps")
  case (Inr spec)
  show ?thesis
  proof (cases "authorize_action (ev_policy env) role n \<and> a = compute_request_hash (ev_ext env) n ps \<and> a \<noteq> []")
    case True
    then have "approved env role (Execute rid n ps a) a"
      using Inr by (auto simp: approved_def authorize_action_def)
    moreover have "require_fresh_approval (compute_request_hash (ev_ext env) n ps) a = Inr ()"
      using True by (auto simp: require_fresh_approval_Inr)
    ultimately show ?thesis
      using True Inr obeys_run_claimed [OF refl Inr, of env role rid]
      by (auto simp: handle_execute_def split: sum.split option.split bool.split)
  next
    case False
    then show ?thesis
      using Inr require_fresh_approval_Inr [of "compute_request_hash (ev_ext env) n ps" a]
      by (auto simp: handle_execute_def Let_def split: sum.split)
  qed
qed (simp add: handle_execute_def)

lemma handle_preview_obeys:
  "obeys (handle_preview env role rid n ps) (permitted env role (Preview rid n ps)) Idle"
proof (cases "build_action_spec n ps")
  case (Inr spec)
  have "previews env role (Preview rid n ps) (new_tx_of env rid n ps spec pe) (preview_of env role rid n ps s)"
    if "action_allowed (ev_policy env) role n" "pe = preview_of env role rid n ps s" for pe s
    using that Inr by (auto simp: previews_def new_tx_of_def preview_of_def preview_action_def Let_def)
  with Inr show ?thesis
    by (auto simp: handle_preview_def Let_def authorize_action_def forward_audit_event_def split: sum.split)
qed (simp add: handle_preview_def)

lemma handle_query_action_obeys:
  "obeys (handle_query_action env n ps rid) (permitted env role (QueryAction rid n ps)) Idle"
proof -
  have "obeys (list_job_history env rid n ps) (permitted env role rq) Idle" for rq
    by (auto simp: list_job_history_def Let_def split: sum.split)
  then show ?thesis
    by (auto simp: handle_query_action_def query_output_def reads_def split: option.split sum.split)
qed

theorem handle_request_obeys: "obeys (handle_request env role rq) (permitted env role rq) Idle"
  by (cases rq)
     (auto simp: handle_query_state_def handle_describe_def handle_execute_obeys handle_preview_obeys
       handle_query_action_obeys split: sum.split)

end
