(* ===== verification/Listen.thy ===== *)
theory Listen
  imports Rust_Std
begin

text \<open>
  \<open>transport/listen.rs\<close>: the listen address and the preparation of the Unix socket. What the file system
  answers to each call of the preparation is a parameter.
\<close>

datatype listen_target = Unix str | Vsock nat

datatype listen_error =
    UnsupportedScheme str
  | InvalidUri str
  | ExistingPathNotSocket str
  | ListenIo

definition parse_vsock_listen_uri :: "str \<Rightarrow> str \<Rightarrow> (listen_error, listen_target) result" where
  "parse_vsock_listen_uri uri rest = (case strip_prefix rest '':'' of
      None \<Rightarrow> Inl (InvalidUri (''vsock listen URI must have the form vsock://:PORT (no CID); got: '' @ uri))
    | Some port_str \<Rightarrow>
        if port_str = [] then Inl (InvalidUri (''vsock listen URI missing port: '' @ uri))
        else (case parse_uint u32_max port_str of
            None \<Rightarrow> Inl (InvalidUri (''vsock listen URI port is not a valid u32: '' @ uri))
          | Some port \<Rightarrow> Inr (Vsock port)))"

definition try_from_uri :: "str \<Rightarrow> (listen_error, listen_target) result" where
  "try_from_uri uri = (case strip_prefix uri ''unix://'' of
      Some path \<Rightarrow>
        if path = [] then Inl (InvalidUri uri)
        else if \<not> starts_with path ''/'' then Inl (InvalidUri uri)
        else Inr (Unix path)
    | None \<Rightarrow> (case strip_prefix uri ''vsock://'' of
          Some rest \<Rightarrow> parse_vsock_listen_uri uri rest
        | None \<Rightarrow> Inl (UnsupportedScheme uri)))"

text \<open>The answers of the file system, and the calls made: the steps of \<open>bind_unix_listener\<close> in order.\<close>

datatype bind_call = CreateParent | RemovePath | BindPath | SetMode nat

record bind_answers =
  ba_has_parent :: bool
  ba_exists :: bool
  ba_is_socket :: "(unit, bool) result"
  ba_denies :: "bind_call \<Rightarrow> bool"

definition bind_do :: "bind_answers \<Rightarrow> bind_call \<Rightarrow> (listen_error, bind_call list) result" where
  "bind_do ba c = (if ba_denies ba c then Inl ListenIo else Inr [c])"

definition bind_unix_listener :: "bind_answers \<Rightarrow> listen_target \<Rightarrow> (listen_error, bind_call list) result" where
  "bind_unix_listener ba target = (case target of
      Vsock port \<Rightarrow> Inl (InvalidUri ''use bind_vsock_listener() for vsock targets, not bind_unix_listener()'')
    | Unix path \<Rightarrow>
        rbind (if ba_has_parent ba then bind_do ba CreateParent else Inr []) (\<lambda>created.
        rbind (if ba_exists ba then
            (case ba_is_socket ba of
               Inl _ \<Rightarrow> Inl ListenIo
             | Inr False \<Rightarrow> Inl (ExistingPathNotSocket path)
             | Inr True \<Rightarrow> bind_do ba RemovePath)
          else Inr []) (\<lambda>removed.
        rbind (bind_do ba BindPath) (\<lambda>bound.
        rbind (bind_do ba (SetMode 432)) (\<lambda>mode.
        Inr (created @ removed @ bound @ mode))))))"

section \<open>Properties\<close>

lemma strip_unix_vsock: "strip_prefix (''vsock://'' @ r) ''unix://'' = None" "strip_prefix (''unix://'' @ r) ''unix://'' = Some r"
  "strip_prefix (''vsock://'' @ r) ''vsock://'' = Some r"
  by (simp_all add: strip_prefix_def)

lemma strip_colon: "strip_prefix (c # p) [c] = Some p"
  by (simp add: strip_prefix_Some)

text \<open>An address is accepted exactly when it is \<open>unix://\<close> and an absolute path, or \<open>vsock://:\<close> and a
  port that reads as a 32-bit number, and the target is that path or port; every port can be written and
  read back.\<close>

theorem listen_uri_exact:
  "(try_from_uri uri = Inr (Unix path) \<longleftrightarrow> uri = ''unix://'' @ path \<and> starts_with path ''/'') \<and>
   (try_from_uri uri = Inr (Vsock port) \<longleftrightarrow> (\<exists>p. uri = ''vsock://:'' @ p \<and> parse_uint u32_max p = Some port)) \<and>
   (n \<le> u32_max \<longrightarrow> try_from_uri (''vsock://:'' @ show_nat n) = Inr (Vsock n))"
proof -
  have v: "try_from_uri (''vsock://'' @ r) = parse_vsock_listen_uri (''vsock://'' @ r) r" for r
    unfolding try_from_uri_def strip_unix_vsock by simp
  have pv: "parse_vsock_listen_uri u r = Inr (Vsock k) \<longleftrightarrow> (\<exists>p. r = '':'' @ p \<and> parse_uint u32_max p = Some k)" for u r k
    by (auto simp: parse_vsock_listen_uri_def strip_prefix_Some strip_colon parse_uint_def split: option.splits if_splits)
  have no: "parse_vsock_listen_uri u r \<noteq> Inr (Unix p)" for u r p
    by (auto simp: parse_vsock_listen_uri_def split: option.splits if_splits)
  have u: "try_from_uri uri = Inr (Unix path) \<longleftrightarrow> uri = ''unix://'' @ path \<and> starts_with path ''/''"
  proof
    assume "try_from_uri uri = Inr (Unix path)"
    with no show "uri = ''unix://'' @ path \<and> starts_with path ''/''"
      by (auto simp: try_from_uri_def strip_prefix_Some split: option.splits if_splits)
  next
    assume a: "uri = ''unix://'' @ path \<and> starts_with path ''/''"
    then have "strip_prefix uri ''unix://'' = Some path" by (simp only: strip_unix_vsock)
    moreover from a have "path \<noteq> []" by (auto simp: starts_with_def)
    ultimately show "try_from_uri uri = Inr (Unix path)" using a by (simp add: try_from_uri_def)
  qed
  have w: "try_from_uri uri = Inr (Vsock k) \<longleftrightarrow> (\<exists>p. uri = ''vsock://:'' @ p \<and> parse_uint u32_max p = Some k)" for uri k
  proof
    assume "try_from_uri uri = Inr (Vsock k)"
    then obtain r where "uri = ''vsock://'' @ r" "parse_vsock_listen_uri uri r = Inr (Vsock k)"
      by (auto simp: try_from_uri_def strip_prefix_Some split: option.splits if_splits)
    with pv show "\<exists>p. uri = ''vsock://:'' @ p \<and> parse_uint u32_max p = Some k" by auto
  next
    assume "\<exists>p. uri = ''vsock://:'' @ p \<and> parse_uint u32_max p = Some k"
    then obtain p where "uri = ''vsock://'' @ ('':'' @ p)" "parse_uint u32_max p = Some k" by auto
    with pv [of uri "'':'' @ p" k] v [of "'':'' @ p"] show "try_from_uri uri = Inr (Vsock k)" by simp
  qed
  show ?thesis using u w parse_show_nat by blast
qed

theorem listen_uri_exact_witness: "try_from_uri (''vsock://:'' @ show_nat 1024) = Inr (Vsock 1024)"
  using listen_uri_exact [of "[]" "[]" 0 1024] by (simp add: u32_max_def)

text \<open>The socket is never bound over a file of another kind, and a bound socket always has mode
  \<open>0660\<close> when the function succeeds: success makes the calls create, remove, bind and chmod in this
  order, the removal exactly when a socket was there.\<close>

theorem bind_replaces_sockets_only:
  "bind_unix_listener ba target = Inr calls \<longleftrightarrow>
    (\<exists>path. target = Unix path \<and> (ba_exists ba \<longrightarrow> ba_is_socket ba = Inr True) \<and>
       calls = (if ba_has_parent ba then [CreateParent] else []) @ (if ba_exists ba then [RemovePath] else []) @
         [BindPath, SetMode 432] \<and>
       list_all (\<lambda>c. \<not> ba_denies ba c) calls)"
proof (cases target)
  case (Unix path)
  show ?thesis
  proof (cases "ba_exists ba \<and> ba_is_socket ba \<noteq> Inr True")
    case True
    then show ?thesis using Unix
      by (cases "ba_is_socket ba") (simp_all add: bind_unix_listener_def rbind_eq_Inr_conv bind_do_def)
  next
    case False
    then have "bind_unix_listener ba target =
        rbind (if ba_has_parent ba then bind_do ba CreateParent else Inr []) (\<lambda>created.
        rbind (if ba_exists ba then bind_do ba RemovePath else Inr []) (\<lambda>removed.
        rbind (bind_do ba BindPath) (\<lambda>bound.
        rbind (bind_do ba (SetMode 432)) (\<lambda>mode. Inr (created @ removed @ bound @ mode)))))"
      using Unix by (cases "ba_exists ba") (simp_all add: bind_unix_listener_def)
    with False Unix show ?thesis
      by (cases "ba_has_parent ba"; cases "ba_exists ba") (auto simp: bind_do_def)
  qed
qed (simp add: bind_unix_listener_def)

theorem bind_replaces_sockets_only_witness:
  "bind_unix_listener \<lparr>ba_has_parent = True, ba_exists = True, ba_is_socket = Inr True, ba_denies = (\<lambda>_. False)\<rparr> (Unix ''/s'') =
    Inr [CreateParent, RemovePath, BindPath, SetMode 432]"
  by (rule bind_replaces_sockets_only [THEN iffD2]) simp

end
