(* ===== verification/Sql_Time.thy ===== *)
theory Sql_Time
  imports Rust_Std
begin

text \<open>
  The date functions of SQLite the store's statements call. A clock value is the number of
  milliseconds since 1970-01-01T00:00:00Z. \<open>strftime('%Y-%m-%dT%H:%M:%fZ', 'now')\<close> is
  \<open>strftime_ms\<close>, and \<open>datetime('now', ...)\<close> is \<open>datetime_text\<close>. Both are \<open>TEXT\<close>, and SQLite compares
  \<open>TEXT\<close> byte by byte, which is the order of strings here. The lemmas decide how the two formats
  compare: the dates decide, and on equal dates the \<open>T\<close> of one against the blank of the other does.
\<close>

section \<open>The calendar\<close>

definition is_leap :: "nat \<Rightarrow> bool" where
  "is_leap y = (4 dvd y \<and> (\<not> 100 dvd y \<or> 400 dvd y))"

definition days_in_month :: "nat \<Rightarrow> nat \<Rightarrow> nat" where
  "days_in_month y m =
    (if m = 2 then (if is_leap y then 29 else 28)
     else if m \<in> {4, 6, 9, 11} then 30 else 31)"

fun next_date :: "nat \<times> nat \<times> nat \<Rightarrow> nat \<times> nat \<times> nat" where
  "next_date (y, m, d) =
    (if d < days_in_month y m then (y, m, d + 1)
     else if m < 12 then (y, m + 1, 1) else (y + 1, 1, 1))"

fun date_of_day :: "nat \<Rightarrow> nat \<times> nat \<times> nat" where
  "date_of_day 0 = (1970, 1, 1)"
| "date_of_day (Suc n) = next_date (date_of_day n)"

fun date_less :: "nat \<times> nat \<times> nat \<Rightarrow> nat \<times> nat \<times> nat \<Rightarrow> bool" where
  "date_less (y, m, d) (y', m', d') =
    (y < y' \<or> y = y' \<and> (m < m' \<or> m = m' \<and> d < d'))"

fun date_ok :: "nat \<times> nat \<times> nat \<Rightarrow> bool" where
  "date_ok (y, m, d) = (1 \<le> m \<and> m \<le> 12 \<and> 1 \<le> d \<and> d \<le> days_in_month y m)"

lemma days_in_month_bounds: "28 \<le> days_in_month y m" "days_in_month y m \<le> 31"
  by (auto simp: days_in_month_def)

lemma days_in_month_pos: "Suc 0 \<le> days_in_month y m"
  using days_in_month_bounds(1) [of y m] by linarith

lemma next_date_ok: "date_ok p \<Longrightarrow> date_ok (next_date p)"
  by (cases p) (auto simp: days_in_month_pos)

lemma date_of_day_ok: "date_ok (date_of_day n)"
  by (induction n) (auto simp: days_in_month_def next_date_ok simp del: next_date.simps date_ok.simps,
      simp add: days_in_month_def)

lemma date_less_next: "date_ok p \<Longrightarrow> date_less p (next_date p)"
  by (cases p) auto

lemma date_less_trans: "date_less p q \<Longrightarrow> date_less q r \<Longrightarrow> date_less p r"
  by (cases p; cases q; cases r) auto

lemma date_of_day_less: "m < n \<Longrightarrow> date_less (date_of_day m) (date_of_day n)"
proof (induction n)
  case (Suc n)
  have step: "date_less (date_of_day n) (date_of_day (Suc n))"
    using date_less_next [OF date_of_day_ok [of n]] by simp
  show ?case
  proof (cases "m = n")
    case False
    with Suc have "date_less (date_of_day m) (date_of_day n)" by simp
    with step show ?thesis using date_less_trans by blast
  qed (use step in simp)
qed simp

text \<open>A year has at least 336 days: the year of day \<open>n\<close> is at most \<open>1970 + n div 336\<close>.\<close>

fun day_potential :: "nat \<times> nat \<times> nat \<Rightarrow> nat" where
  "day_potential (y, m, d) = 336 * y + 28 * (m - 1) + min (d - 1) 27"

lemma day_potential_next: "date_ok p \<Longrightarrow> day_potential (next_date p) \<le> Suc (day_potential p)"
proof -
  assume ok: "date_ok p"
  obtain y m d where p: "p = (y, m, d)" by (cases p) auto
  have "28 \<le> days_in_month y m" by (rule days_in_month_bounds)
  with ok p show ?thesis by (auto simp: min_def)
qed

lemma day_potential_day: "day_potential (date_of_day n) \<le> 336 * 1970 + n"
proof (induction n)
  case (Suc n)
  have "day_potential (date_of_day (Suc n)) \<le> Suc (day_potential (date_of_day n))"
    unfolding date_of_day.simps by (rule day_potential_next [OF date_of_day_ok])
  with Suc.IH show ?case by linarith
qed simp

definition day_limit :: nat where "day_limit = 2698080"

lemma year_bound: "n < day_limit \<Longrightarrow> fst (date_of_day n) < 10000"
proof -
  assume n: "n < day_limit"
  obtain y m d where p: "date_of_day n = (y, m, d)" by (cases "date_of_day n") auto
  with day_potential_day [of n] n show ?thesis by (simp add: day_limit_def)
qed

section \<open>Rendering\<close>

text \<open>Zero-padded decimal fields of fixed width.\<close>

fun pad :: "nat \<Rightarrow> nat \<Rightarrow> str" where
  "pad 0 n = []"
| "pad (Suc w) n = pad w (n div 10) @ [digit_char (n mod 10)]"

lemma pad_length [simp]: "length (pad w n) = w"
  by (induction w arbitrary: n) auto

fun render_date :: "nat \<times> nat \<times> nat \<Rightarrow> str" where
  "render_date (y, m, d) = pad 4 y @ CHR ''-'' # pad 2 m @ CHR ''-'' # pad 2 d"

definition ms_per_day :: nat where "ms_per_day = 86400000"

definition day_of :: "nat \<Rightarrow> nat" where "day_of t = t div ms_per_day"

definition render_hms :: "nat \<Rightarrow> str" where
  "render_hms t =
    (let s = t mod ms_per_day div 1000
     in pad 2 (s div 3600) @ CHR '':'' # pad 2 (s div 60 mod 60) @ CHR '':'' # pad 2 (s mod 60))"

definition strftime_ms :: "nat \<Rightarrow> str" where
  "strftime_ms t = render_date (date_of_day (day_of t)) @ CHR ''T'' # render_hms t
     @ CHR ''.'' # pad 3 (t mod 1000) @ ''Z''"

definition datetime_text :: "nat \<Rightarrow> str" where
  "datetime_text t = render_date (date_of_day (day_of t)) @ CHR '' '' # render_hms t"

section \<open>Comparison\<close>

lemma str_less_append_same [simp]: "(xs :: str) @ ys < xs @ zs \<longleftrightarrow> ys < zs"
  by (induction xs) auto

lemma str_less_append_diff:
  "length xs = length ys \<Longrightarrow> (xs :: str) < ys \<Longrightarrow> xs @ us < ys @ vs"
  by (induction xs ys rule: list_induct2) auto

lemma str_less_append_iff:
  "length xs = length ys \<Longrightarrow> (xs :: str) @ us < ys @ vs \<longleftrightarrow> xs < ys \<or> xs = ys \<and> us < vs"
  by (induction xs ys rule: list_induct2) auto

lemma digit_char_less: "m < 10 \<Longrightarrow> n < 10 \<Longrightarrow> digit_char m < digit_char n \<longleftrightarrow> m < n"
  by (simp add: digit_char_def less_char_def)

lemma digit_char_inj: "m < 10 \<Longrightarrow> n < 10 \<Longrightarrow> digit_char m = digit_char n \<longleftrightarrow> m = n"
  by (metis digit_val_char)

lemma pad_less: "m < 10 ^ w \<Longrightarrow> n < 10 ^ w \<Longrightarrow> pad w m < pad w n \<longleftrightarrow> m < n"
  and pad_inj: "m < 10 ^ w \<Longrightarrow> n < 10 ^ w \<Longrightarrow> pad w m = pad w n \<longleftrightarrow> m = n"
proof (induction w arbitrary: m n)
  case (Suc w)
  {
    case 1
    then have b: "m div 10 < 10 ^ w" "n div 10 < 10 ^ w" by (simp_all add: less_mult_imp_div_less)
    have "pad (Suc w) m < pad (Suc w) n \<longleftrightarrow>
        m div 10 < n div 10 \<or> m div 10 = n div 10 \<and> m mod 10 < n mod 10"
      by (simp add: str_less_append_iff Suc.IH b digit_char_less)
    also have "\<dots> \<longleftrightarrow> m < n"
      using div_mult_mod_eq [of m 10] div_mult_mod_eq [of n 10] mod_less_divisor [of 10 m]
        mod_less_divisor [of 10 n] by linarith
    finally show ?case .
  next
    case 2
    then have b: "m div 10 < 10 ^ w" "n div 10 < 10 ^ w" by (simp_all add: less_mult_imp_div_less)
    show ?case
      by (simp add: Suc.IH b digit_char_inj) (metis div_mult_mod_eq)
  }
qed auto

lemma render_date_less:
  assumes "date_ok p" "date_ok q" "fst p < 10000" "fst q < 10000"
  shows "render_date p < render_date q \<longleftrightarrow> date_less p q" "render_date p = render_date q \<longleftrightarrow> p = q"
proof -
  obtain y m d y' m' d' where pq: "p = (y, m, d)" "q = (y', m', d')" by (cases p; cases q) auto
  have "d < 100" "d' < 100" "m < 100" "m' < 100"
    using assms pq days_in_month_bounds(2) [of y m] days_in_month_bounds(2) [of y' m'] by auto
  then have b: "d < 10 ^ 2" "d' < 10 ^ 2" "m < 10 ^ 2" "m' < 10 ^ 2" "y < 10 ^ 4" "y' < 10 ^ 4"
    using assms pq by auto
  note pads = pad_less [OF b(1,2)] pad_less [OF b(3,4)] pad_less [OF b(5,6)]
    pad_inj [OF b(1,2)] pad_inj [OF b(3,4)] pad_inj [OF b(5,6)]
  show "render_date p < render_date q \<longleftrightarrow> date_less p q"
    unfolding pq render_date.simps date_less.simps
    by (simp add: str_less_append_iff pads del: pad.simps)
  show "render_date p = render_date q \<longleftrightarrow> p = q"
    unfolding pq render_date.simps
    by (auto simp: pads simp del: pad.simps)
qed

lemma render_day_less:
  assumes "m < day_limit" "n < day_limit"
  shows "render_date (date_of_day m) < render_date (date_of_day n) \<longleftrightarrow> m < n"
    and "render_date (date_of_day m) = render_date (date_of_day n) \<longleftrightarrow> m = n"
proof -
  have irr: "\<not> date_less p p" for p by (cases p) auto
  have l: "date_less (date_of_day m) (date_of_day n) \<longleftrightarrow> m < n"
    using date_of_day_less irr date_less_trans by (metis nat_neq_iff)
  have e: "date_of_day m = date_of_day n \<longleftrightarrow> m = n"
    using date_of_day_less irr by (metis nat_neq_iff)
  note r = render_date_less [OF date_of_day_ok date_of_day_ok year_bound [OF assms(1)] year_bound [OF assms(2)]]
  show "render_date (date_of_day m) < render_date (date_of_day n) \<longleftrightarrow> m < n" using r(1) l by simp
  show "render_date (date_of_day m) = render_date (date_of_day n) \<longleftrightarrow> m = n" using r(2) e by simp
qed

lemma render_date_length [simp]: "length (render_date p) = 10"
  by (cases p) (simp del: pad.simps)

text \<open>The comparison of the two formats looks at the dates only.\<close>

lemma datetime_less_strftime:
  assumes "day_of c < day_limit" "day_of t < day_limit"
  shows "datetime_text c < strftime_ms t \<longleftrightarrow> day_of c \<le> day_of t"
  unfolding datetime_text_def strftime_ms_def
  using render_day_less [OF assms] by (auto simp: str_less_append_iff)

lemma strftime_le_datetime:
  assumes "day_of c < day_limit" "day_of t < day_limit"
  shows "strftime_ms t \<le> datetime_text c \<longleftrightarrow> day_of t < day_of c"
  using datetime_less_strftime [OF assms] by auto

end
