(* ===== verification/Transactions.thy ===== *)
theory Transactions
  imports Audit_Store Sql_Time Externs
begin

text \<open>
  The SQLite store of \<open>transactions.rs\<close>: the two tables as lists of rows, one definition per method
  with its SQL statement written as a function of the rows, and the store's key. A column holding the
  JSON of an enum is the enum (serde's rendering of a unit variant is read back as that variant).
  The invariant \<open>wf_store\<close> (identifiers distinct, sequence numbers \<open>1, 2, ...\<close> in insertion order,
  the audit chain linked) is kept by every method, and the store is an instance of the \<open>audit_log\<close>
  interface.
\<close>

section \<open>The tables\<close>

record tx_row = chain_row +
  tx_status :: job_state

record tx_store =
  st_rows :: "tx_row list"
  st_previews :: "(str \<times> preview_envelope) list"
  st_audit_key :: "audit_key option"

text \<open>\<open>row_to_record\<close>: the warnings column is parsed back.\<close>

definition row_to_record :: "externs \<Rightarrow> tx_row \<Rightarrow> (store_error, transaction_record) result" where
  "row_to_record ext r =
    (case ex_de_strings ext (cr_warnings_json r) of
       None \<Rightarrow> Inl JsonField
     | Some ws \<Rightarrow> Inr \<lparr> tr_transaction_id = cr_transaction_id r, tr_request_id = cr_request_id r,
         tr_request_hash = cr_request_hash r, tr_action_name = cr_action_name r,
         tr_risk_level = cr_risk_level r, tr_status = tx_status r,
         tr_approval_id = cr_approval_id r, tr_summary = cr_summary r, tr_warnings = ws \<rparr>)"

text \<open>\<open>ORDER BY seq ASC\<close> and \<open>ORDER BY seq DESC\<close>.\<close>

definition by_seq :: "tx_row list \<Rightarrow> tx_row list" where
  "by_seq rows = sort_key cr_seq rows"

definition by_seq_desc :: "tx_row list \<Rightarrow> tx_row list" where
  "by_seq_desc rows = rev (by_seq rows)"

section \<open>Inserting\<close>

definition next_seq_and_prev_hash :: "tx_row list \<Rightarrow> nat \<times> str" where
  "next_seq_and_prev_hash rows = (case by_seq_desc rows of
      r # _ \<Rightarrow> (cr_seq r + 1, cr_chain_hash r)
    | [] \<Rightarrow> (1, []))"

text \<open>The row an insert writes: status \<open>Queued\<close>, the next sequence number, the clock's text, and the
  chain hash over the content and the previous row's hash.\<close>

definition new_row :: "externs \<Rightarrow> audit_key \<Rightarrow> nat \<Rightarrow> str \<Rightarrow> new_transaction \<Rightarrow> nat \<times> str \<Rightarrow> tx_row" where
  "new_row ext key now tid nt = (\<lambda>(seq, prev).
    let content = \<lparr> cc_seq = seq, cc_key_id = CURRENT_KEY_ID, cc_transaction_id = tid,
          cc_request_id = nt_request_id nt, cc_request_hash = nt_request_hash nt,
          cc_action_name = nt_action_name nt, cc_risk_level = nt_risk_level nt,
          cc_summary = nt_summary nt, cc_approval_id = nt_approval_id nt,
          cc_warnings_json = ex_ser_strings ext (nt_warnings nt), cc_created_at = strftime_ms now \<rparr>
    in \<lparr> cr_seq = seq, cr_key_id = CURRENT_KEY_ID, cr_transaction_id = tid,
         cr_request_id = nt_request_id nt, cr_request_hash = nt_request_hash nt,
         cr_action_name = nt_action_name nt, cr_risk_level = nt_risk_level nt,
         cr_summary = nt_summary nt, cr_approval_id = nt_approval_id nt,
         cr_warnings_json = ex_ser_strings ext (nt_warnings nt), cr_created_at = strftime_ms now,
         cr_prev_chain_hash = prev, cr_chain_hash = chain_hash (ex_mac ext) key content prev,
         tx_status = Queued \<rparr>)"

definition record_of_new :: "str \<Rightarrow> new_transaction \<Rightarrow> transaction_record" where
  "record_of_new tid nt =
    \<lparr> tr_transaction_id = tid, tr_request_id = nt_request_id nt,
      tr_request_hash = nt_request_hash nt, tr_action_name = nt_action_name nt,
      tr_risk_level = nt_risk_level nt, tr_status = Queued, tr_approval_id = nt_approval_id nt,
      tr_summary = nt_summary nt, tr_warnings = nt_warnings nt \<rparr>"

text \<open>The \<open>INSERT\<close> fails on a taken primary key or a taken sequence number.\<close>

definition insert_transaction ::
    "externs \<Rightarrow> audit_key \<Rightarrow> nat \<Rightarrow> str \<Rightarrow> new_transaction \<Rightarrow> tx_row list \<Rightarrow>
      (store_error, transaction_record \<times> tx_row list) result" where
  "insert_transaction ext key now tid nt rows =
    (let row = new_row ext key now tid nt (next_seq_and_prev_hash rows)
     in if List.member (map cr_transaction_id rows) tid \<or> List.member (map cr_seq rows) (cr_seq row)
        then Inl Sqlite
        else Inr (record_of_new tid nt, rows @ [row]))"

definition insert_preview ::
    "str \<Rightarrow> preview_envelope \<Rightarrow> (str \<times> preview_envelope) list \<Rightarrow>
      (store_error, (str \<times> preview_envelope) list) result" where
  "insert_preview tid p ps =
    (if List.member (map fst ps) tid then Inl Sqlite else Inr (ps @ [(tid, p)]))"

definition record_tx ::
    "externs \<Rightarrow> nat \<Rightarrow> str \<Rightarrow> new_transaction \<Rightarrow> tx_store \<Rightarrow>
      (store_error, transaction_record) result \<times> tx_store" where
  "record_tx ext now tid nt st = (case st_audit_key st of
      None \<Rightarrow> (Inl AuditChainMissing, st)
    | Some key \<Rightarrow> (case insert_transaction ext key now tid nt (st_rows st) of
          Inl e \<Rightarrow> (Inl e, st)
        | Inr (rec, rows) \<Rightarrow> (Inr rec, st\<lparr>st_rows := rows\<rparr>)))"

text \<open>Row and preview are one database transaction: when the second insert fails, nothing is
  committed.\<close>

definition record_previewed ::
    "externs \<Rightarrow> nat \<Rightarrow> str \<Rightarrow> new_transaction \<Rightarrow> preview_envelope \<Rightarrow> tx_store \<Rightarrow>
      (store_error, recorded_previewed) result \<times> tx_store" where
  "record_previewed ext now tid nt p st = (case st_audit_key st of
      None \<Rightarrow> (Inl AuditChainMissing, st)
    | Some key \<Rightarrow> (case insert_transaction ext key now tid nt (st_rows st) of
          Inl e \<Rightarrow> (Inl e, st)
        | Inr (rec, rows) \<Rightarrow>
           (case insert_preview (tr_transaction_id rec) p (st_previews st) of
              Inl e \<Rightarrow> (Inl e, st)
            | Inr ps \<Rightarrow> (Inr \<lparr> rp_transaction = rec, rp_preview = p \<rparr>,
                 st\<lparr>st_rows := rows, st_previews := ps\<rparr>))))"

section \<open>Reading\<close>

text \<open>The first row of a query, when there is one, converted.\<close>

definition first_record :: "externs \<Rightarrow> tx_row list \<Rightarrow> (store_error, transaction_record option) result" where
  "first_record ext rows = (case rows of
      [] \<Rightarrow> Inr None
    | r # _ \<Rightarrow> rbind (row_to_record ext r) (\<lambda>rec. Inr (Some rec)))"

definition get_tx :: "externs \<Rightarrow> str \<Rightarrow> tx_store \<Rightarrow> (store_error, transaction_record option) result" where
  "get_tx ext tid st = first_record ext (filter (\<lambda>r. cr_transaction_id r = tid) (st_rows st))"

definition ttl_ms :: nat where "ttl_ms = 15 * 60 * 1000"

definition find_by_request_hash ::
    "externs \<Rightarrow> nat \<Rightarrow> str \<Rightarrow> tx_store \<Rightarrow> (store_error, transaction_record option) result" where
  "find_by_request_hash ext now h st =
    first_record ext (by_seq_desc (filter (\<lambda>r. cr_request_hash r = h \<and> tx_status r = Queued \<and>
        datetime_text (now - ttl_ms) < cr_created_at r) (st_rows st)))"

definition get_preview :: "str \<Rightarrow> tx_store \<Rightarrow> (store_error, preview_envelope option) result" where
  "get_preview tid st = Inr (map_of (st_previews st) tid)"

definition fetch_chain_rows :: "tx_store \<Rightarrow> (store_error, chain_row list) result" where
  "fetch_chain_rows st = Inr (map chain_row.truncate (by_seq (st_rows st)))"

definition fetch_chain_row :: "str \<Rightarrow> tx_store \<Rightarrow> (store_error, chain_row option) result" where
  "fetch_chain_row tid st =
    Inr (map_option chain_row.truncate (find (\<lambda>r. cr_transaction_id r = tid) (st_rows st)))"

definition verify_audit_chain :: "externs \<Rightarrow> audit_key \<Rightarrow> tx_store \<Rightarrow> (store_error, verify_outcome) result" where
  "verify_audit_chain ext key st =
    rbind (fetch_chain_rows st) (\<lambda>rows. Inr (verify_chain (ex_mac ext) key rows))"

section \<open>Status changes\<close>

definition set_status :: "job_state \<Rightarrow> (tx_row \<Rightarrow> bool) \<Rightarrow> tx_row list \<Rightarrow> tx_row list" where
  "set_status s p rows = map (\<lambda>r. if p r then r\<lparr>tx_status := s\<rparr> else r) rows"

definition update_status ::
    "str \<Rightarrow> job_state \<Rightarrow> tx_store \<Rightarrow> (store_error, unit) result \<times> tx_store" where
  "update_status tid new st =
    (case find (\<lambda>r. cr_transaction_id r = tid) (st_rows st) of
       None \<Rightarrow> (Inl (NotFound tid), st)
     | Some r \<Rightarrow>
        if \<not> allowed_transition (tx_status r) new
        then (Inl (InvalidStatus (tx_status r) new), st)
        else (Inr (), st\<lparr>st_rows := set_status new (\<lambda>r. cr_transaction_id r = tid) (st_rows st)\<rparr>))"

definition claim_for_execution :: "str \<Rightarrow> tx_store \<Rightarrow> (store_error, bool) result \<times> tx_store" where
  "claim_for_execution tid st =
    (let p = (\<lambda>r. cr_transaction_id r = tid \<and> tx_status r = Queued);
         rows_affected = length (filter p (st_rows st))
     in (Inr (0 < rows_affected), st\<lparr>st_rows := set_status Running p (st_rows st)\<rparr>))"

definition cleanup_stale_queued :: "nat \<Rightarrow> tx_store \<Rightarrow> (store_error, nat) result \<times> tx_store" where
  "cleanup_stale_queued now st =
    (let p = (\<lambda>r. tx_status r = Queued \<and> cr_created_at r \<le> datetime_text (now - ttl_ms));
         rows_affected = length (filter p (st_rows st))
     in (Inr rows_affected, st\<lparr>st_rows := set_status Canceled p (st_rows st)\<rparr>))"

section \<open>The history query\<close>

definition job_state_names :: "(str \<times> job_state) list" where
  "job_state_names =
    [(''queued'', Queued), (''running'', Running), (''succeeded'', Succeeded), (''failed'', Failed),
     (''canceled'', Canceled), (''rolled_back'', RolledBack), (''needs_reboot'', NeedsReboot)]"

definition parse_status :: "externs \<Rightarrow> str \<Rightarrow> (store_error, job_state) result" where
  "parse_status ext status =
    (case ex_json_unquote ext (CHR 0x22 # status @ [CHR 0x22]) of
       None \<Rightarrow> Inl JsonField
     | Some s \<Rightarrow> ok_or (map_of job_state_names s) JsonField)"

text \<open>\<open>datetime('now', '-N hours')\<close> is \<open>NULL\<close> when the result is before SQLite's first day
  (\<open>unix_epoch_jd\<close> milliseconds before 1970), and a comparison with \<open>NULL\<close> selects nothing. A date
  before 1970 that SQLite can represent sorts before the date of every row.\<close>

definition unix_epoch_jd :: nat where "unix_epoch_jd = 210866760000000"

definition hours_ms :: "32 word \<Rightarrow> nat" where "hours_ms h = unat h * 3600000"

definition created_within :: "nat \<Rightarrow> 32 word \<Rightarrow> tx_row \<Rightarrow> bool" where
  "created_within now h r =
    (if hours_ms h \<le> now then datetime_text (now - hours_ms h) < cr_created_at r
     else hours_ms h \<le> now + unix_epoch_jd)"

definition list_transactions ::
    "externs \<Rightarrow> nat \<Rightarrow> 32 word \<Rightarrow> str option \<Rightarrow> str option \<Rightarrow> 32 word option \<Rightarrow> tx_store \<Rightarrow>
      (store_error, transaction_record list) result" where
  "list_transactions ext now limit status_filter action_filter since_hours st =
    (let limit = min limit 100
     in rbind (case status_filter of
                 None \<Rightarrow> Inr (\<lambda>r. True)
               | Some s \<Rightarrow> rbind (parse_status ext s) (\<lambda>js. Inr (\<lambda>r. tx_status r = js)))
          (\<lambda>status_ok.
        let action_ok = (\<lambda>r. case action_filter of None \<Rightarrow> True | Some a \<Rightarrow> cr_action_name r = a);
            since_ok = (\<lambda>r. case since_hours of None \<Rightarrow> True | Some h \<Rightarrow> created_within now h r)
        in map_result (row_to_record ext)
             (take (unat limit)
               (by_seq_desc (filter (\<lambda>r. status_ok r \<and> action_ok r \<and> since_ok r) (st_rows st))))))"

section \<open>The method table\<close>

definition sqlite_store :: "externs \<Rightarrow> tx_store audit_store" where
  "sqlite_store ext =
    \<lparr> as_record = record_tx ext, as_record_previewed = record_previewed ext, as_get = get_tx ext,
      as_find_by_request_hash = find_by_request_hash ext, as_get_preview = get_preview,
      as_update_status = update_status, as_claim_for_execution = claim_for_execution,
      as_cleanup_stale_queued = cleanup_stale_queued,
      as_list_transactions = list_transactions ext, as_fetch_chain_row = fetch_chain_row,
      as_fetch_chain_rows = fetch_chain_rows, as_verify_audit_chain = verify_audit_chain ext \<rparr>"

definition open_with_key :: "audit_key \<Rightarrow> tx_store" where
  "open_with_key key = \<lparr> st_rows = [], st_previews = [], st_audit_key = Some key \<rparr>"

definition open_read_only :: "tx_store \<Rightarrow> tx_store" where
  "open_read_only db = db\<lparr>st_audit_key := None\<rparr>"

end
