(* ===== verification/Store_Invariant.thy ===== *)
theory Store_Invariant
  imports Transactions
begin

text \<open>
  The invariant of the SQLite store and its preservation by every method, the abstract views
  \<open>tx_status_of\<close> and \<open>tx_hash_of\<close>, and the interpretation of the \<open>audit_log\<close> interface on the
  store. The facts of the interface for this backend are \<open>sqlite.<lemma>\<close>.
\<close>

section \<open>The invariant\<close>

definition chain_rows :: "tx_row list \<Rightarrow> chain_row list" where
  "chain_rows rows = map chain_row.truncate rows"

definition wf_store :: "externs \<Rightarrow> audit_key \<Rightarrow> tx_store \<Rightarrow> bool" where
  "wf_store ext key st \<longleftrightarrow>
     st_audit_key st = Some key \<and> ak_key_id key = CURRENT_KEY_ID \<and>
     distinct (map cr_transaction_id (st_rows st)) \<and>
     map cr_seq (st_rows st) = [1..<Suc (length (st_rows st))] \<and>
     distinct (map fst (st_previews st)) \<and>
     fst ` set (st_previews st) \<subseteq> cr_transaction_id ` set (st_rows st) \<and>
     log_linked (ex_mac ext) key [] (chain_rows (st_rows st))"

lemma wf_open: "ak_key_id key = CURRENT_KEY_ID \<Longrightarrow> wf_store ext key (open_with_key key)"
  by (simp add: wf_store_def open_with_key_def chain_rows_def)

lemma truncate_status [simp]: "chain_row.truncate (r\<lparr>tx_status := s\<rparr>) = chain_row.truncate r"
  by (simp add: chain_row.truncate_def)

lemma truncate_hash [simp]: "cr_chain_hash (chain_row.truncate r) = cr_chain_hash r"
  by (simp add: chain_row.truncate_def)

lemma set_status_map:
  assumes "\<And>r. f (r\<lparr>tx_status := s\<rparr>) = f r"
  shows "map f (set_status s p rows) = map f rows"
  using assms by (induction rows) (auto simp: set_status_def)

lemma set_status_views [simp]:
  "map cr_transaction_id (set_status s p rows) = map cr_transaction_id rows"
  "map cr_seq (set_status s p rows) = map cr_seq rows"
  "map cr_request_hash (set_status s p rows) = map cr_request_hash rows"
  "chain_rows (set_status s p rows) = chain_rows rows"
  "length (set_status s p rows) = length rows"
  by (simp_all add: set_status_map chain_rows_def) (simp add: set_status_def)

lemma set_status_ids: "cr_transaction_id ` set (set_status s p rows) = cr_transaction_id ` set rows"
  by (metis list.set_map set_status_views(1))

lemma wf_set_status: "wf_store ext key st \<Longrightarrow> wf_store ext key (st\<lparr>st_rows := set_status s p (st_rows st)\<rparr>)"
  by (simp add: wf_store_def set_status_ids)

lemma wf_seqs: "wf_store ext key st \<Longrightarrow> map cr_seq (st_rows st) = [1..<Suc (length (st_rows st))]"
  by (simp add: wf_store_def del: upt_Suc)

lemma wf_sorted: "wf_store ext key st \<Longrightarrow> sorted (map cr_seq (st_rows st))"
  using sorted_upt [of 1 "Suc (length (st_rows st))"] by (simp only: wf_seqs)

lemma by_seq_id: "sorted (map cr_seq rows) \<Longrightarrow> by_seq rows = rows"
  by (simp add: by_seq_def sort_key_id_if_sorted)

lemma sort_key_map_same: "(\<And>x. f (g x) = f x) \<Longrightarrow> sort_key f (map g xs) = map g (sort_key f xs)"
proof (induction xs)
  case (Cons x xs)
  have "insort_key f (g y) (map g ys) = map g (insort_key f y ys)" for y ys
    by (induction ys) (auto simp: Cons.prems)
  with Cons show ?case by simp
qed simp

lemma by_seq_wf [simp]: "wf_store ext key st \<Longrightarrow> by_seq (st_rows st) = st_rows st"
  by (simp add: by_seq_id wf_sorted)

lemma by_seq_filter_wf: "wf_store ext key st \<Longrightarrow> by_seq (filter p (st_rows st)) = filter p (st_rows st)"
  by (simp add: by_seq_def filter_sort [symmetric]) (simp add: by_seq_def [symmetric])

lemma wf_last_seq: "wf_store ext key st \<Longrightarrow> st_rows st \<noteq> [] \<Longrightarrow> cr_seq (last (st_rows st)) = length (st_rows st)"
proof -
  assume wf: "wf_store ext key st" and ne: "st_rows st \<noteq> []"
  have "cr_seq (last (st_rows st)) = last (map cr_seq (st_rows st))" using ne by (simp add: last_map)
  also have "\<dots> = last [1..<Suc (length (st_rows st))]" by (simp only: wf_seqs [OF wf])
  also have "\<dots> = length (st_rows st)" using ne by (cases "st_rows st") auto
  finally show ?thesis .
qed

lemma next_seq_wf:
  assumes "wf_store ext key st"
  shows "next_seq_and_prev_hash (st_rows st) =
     (Suc (length (st_rows st)), log_tip [] (chain_rows (st_rows st)))"
proof (cases "st_rows st" rule: rev_cases)
  case Nil
  with assms show ?thesis
    by (simp add: next_seq_and_prev_hash_def by_seq_desc_def by_seq_def chain_rows_def)
next
  case (snoc rows r)
  with wf_last_seq [OF assms] by_seq_wf [OF assms] show ?thesis
    by (simp add: next_seq_and_prev_hash_def by_seq_desc_def chain_rows_def)
qed

section \<open>Inserts keep the invariant\<close>

lemma new_row_views [simp]:
  "cr_seq (new_row ext key now tid nt (n, h)) = n"
  "cr_transaction_id (new_row ext key now tid nt (n, h)) = tid"
  "cr_request_hash (new_row ext key now tid nt (n, h)) = nt_request_hash nt"
  "cr_created_at (new_row ext key now tid nt (n, h)) = strftime_ms now"
  "tx_status (new_row ext key now tid nt (n, h)) = Queued"
  by (simp_all add: new_row_def Let_def)

lemma new_row_linked:
  "ak_key_id key = CURRENT_KEY_ID \<Longrightarrow>
     row_linked (ex_mac ext) key h (chain_row.truncate (new_row ext key now tid nt (n, h)))"
  by (simp add: new_row_def Let_def row_linked_def row_content_def chain_row.truncate_def)

lemma new_row_record: "ex_de_strings ext (ex_ser_strings ext (nt_warnings nt)) = Some (nt_warnings nt) \<Longrightarrow>
     row_to_record ext (new_row ext key now tid nt (n, h)) = Inr (record_of_new tid nt)"
  by (simp add: row_to_record_def new_row_def Let_def record_of_new_def)

definition appended_row :: "externs \<Rightarrow> audit_key \<Rightarrow> nat \<Rightarrow> str \<Rightarrow> new_transaction \<Rightarrow> tx_store \<Rightarrow> tx_row" where
  "appended_row ext key now tid nt st =
     new_row ext key now tid nt (Suc (length (st_rows st)), log_tip [] (chain_rows (st_rows st)))"

lemma appended_row_views [simp]:
  "cr_transaction_id (appended_row ext key now tid nt st) = tid"
  "cr_request_hash (appended_row ext key now tid nt st) = nt_request_hash nt"
  "tx_status (appended_row ext key now tid nt st) = Queued"
  "cr_created_at (appended_row ext key now tid nt st) = strftime_ms now"
  by (simp_all add: appended_row_def)

lemma insert_transaction_wf:
  assumes "wf_store ext key st"
  shows "insert_transaction ext key now tid nt (st_rows st) =
    (if tid \<in> cr_transaction_id ` set (st_rows st) then Inl Sqlite
     else Inr (record_of_new tid nt, st_rows st @ [appended_row ext key now tid nt st]))"
proof -
  have "Suc (length (st_rows st)) \<notin> cr_seq ` set (st_rows st)"
    using assms by (simp add: wf_store_def flip: set_map)
  then show ?thesis
    by (simp add: insert_transaction_def Let_def next_seq_wf [OF assms] appended_row_def)
qed

lemma wf_append:
  assumes "wf_store ext key st" "tid \<notin> cr_transaction_id ` set (st_rows st)"
  shows "wf_store ext key (st\<lparr>st_rows := st_rows st @ [appended_row ext key now tid nt st]\<rparr>)"
  using assms new_row_linked [of key ext "log_tip [] (chain_rows (st_rows st))"]
  by (auto simp: wf_store_def chain_rows_def appended_row_def)

lemma record_tx_cases:
  assumes "wf_store ext key st"
  shows "record_tx ext now tid nt st =
    (if tid \<in> cr_transaction_id ` set (st_rows st) then (Inl Sqlite, st)
     else (Inr (record_of_new tid nt), st\<lparr>st_rows := st_rows st @ [appended_row ext key now tid nt st]\<rparr>))"
  using assms by (simp add: record_tx_def insert_transaction_wf wf_store_def [of ext key st])

text \<open>The preview table has no row of an identifier that the transaction table lacks, so the second
  insert cannot fail.\<close>

lemma record_previewed_cases:
  assumes "wf_store ext key st"
  shows "record_previewed ext now tid nt p st =
    (if tid \<in> cr_transaction_id ` set (st_rows st) then (Inl Sqlite, st)
     else (Inr \<lparr> rp_transaction = record_of_new tid nt, rp_preview = p \<rparr>,
           st\<lparr>st_rows := st_rows st @ [appended_row ext key now tid nt st],
              st_previews := st_previews st @ [(tid, p)]\<rparr>))"
proof -
  have k: "st_audit_key st = Some key" using assms by (simp add: wf_store_def)
  have "tid \<notin> fst ` set (st_previews st)" if "tid \<notin> cr_transaction_id ` set (st_rows st)"
    using assms that by (auto simp: wf_store_def)
  with k insert_transaction_wf [OF assms] show ?thesis
    by (simp add: record_previewed_def insert_preview_def record_of_new_def)
qed

lemma wf_record_tx: "wf_store ext key st \<Longrightarrow> wf_store ext key (snd (record_tx ext now tid nt st))"
  by (simp add: record_tx_cases wf_append)

lemma wf_record_previewed:
  assumes "wf_store ext key st"
  shows "wf_store ext key (snd (record_previewed ext now tid nt p st))"
proof (cases "tid \<in> cr_transaction_id ` set (st_rows st)")
  case False
  have "tid \<notin> fst ` set (st_previews st)" using assms False by (auto simp: wf_store_def)
  with wf_append [OF assms False, of now nt] False show ?thesis
    by (auto simp: record_previewed_cases [OF assms] wf_store_def)
qed (simp add: record_previewed_cases [OF assms] assms)

lemma wf_update_status: "wf_store ext key st \<Longrightarrow> wf_store ext key (snd (update_status tid s st))"
  by (auto simp: update_status_def wf_set_status split: option.split)

lemma wf_claim: "wf_store ext key st \<Longrightarrow> wf_store ext key (snd (claim_for_execution tid st))"
  by (simp add: claim_for_execution_def Let_def wf_set_status)

lemma wf_cleanup: "wf_store ext key st \<Longrightarrow> wf_store ext key (snd (cleanup_stale_queued now st))"
  by (simp add: cleanup_stale_queued_def Let_def wf_set_status)

lemma wf_run_op: "wf_store ext key st \<Longrightarrow> wf_store ext key (run_op (sqlite_store ext) x st)"
  by (cases x) (simp_all add: sqlite_store_def wf_record_tx wf_record_previewed wf_update_status
      wf_claim wf_cleanup)

section \<open>The abstract views\<close>

definition find_tx :: "tx_row list \<Rightarrow> str \<Rightarrow> tx_row option" where
  "find_tx rows i = find (\<lambda>r. cr_transaction_id r = i) rows"

definition tx_status_of :: "tx_store \<Rightarrow> str \<Rightarrow> job_state option" where
  "tx_status_of st i = map_option tx_status (find_tx (st_rows st) i)"

definition tx_hash_of :: "tx_store \<Rightarrow> str \<Rightarrow> str option" where
  "tx_hash_of st i = map_option cr_request_hash (find_tx (st_rows st) i)"

lemma find_tx_Some: "distinct (map cr_transaction_id rows) \<Longrightarrow>
    find_tx rows i = Some r \<longleftrightarrow> r \<in> set rows \<and> cr_transaction_id r = i"
  by (induction rows) (auto simp: find_tx_def image_iff)

lemma find_tx_None: "find_tx rows i = None \<longleftrightarrow> i \<notin> cr_transaction_id ` set rows"
  by (auto simp: find_tx_def find_None_iff)

lemma find_tx_append: "find_tx (rows @ [r]) i =
    (case find_tx rows i of None \<Rightarrow> if cr_transaction_id r = i then Some r else None | Some x \<Rightarrow> Some x)"
  by (induction rows) (auto simp: find_tx_def)

lemma find_tx_set_status: "find_tx (set_status s p rows) i =
    map_option (\<lambda>r. if p r then r\<lparr>tx_status := s\<rparr> else r) (find_tx rows i)"
  by (induction rows) (auto simp: find_tx_def set_status_def)

lemma tx_hash_set_status [simp]:
  "tx_hash_of (st\<lparr>st_rows := set_status s p (st_rows st)\<rparr>) = tx_hash_of st"
  by (auto simp: tx_hash_of_def find_tx_set_status option.map_comp comp_def fun_eq_iff
      intro!: arg_cong2 [where f = map_option])

lemma tx_views_append:
  assumes "i \<notin> cr_transaction_id ` set (st_rows st)"
  shows "tx_status_of (st\<lparr>st_rows := st_rows st @ [appended_row ext key now i nt st]\<rparr>) = (tx_status_of st)(i \<mapsto> Queued)"
    and "tx_hash_of (st\<lparr>st_rows := st_rows st @ [appended_row ext key now i nt st]\<rparr>) = (tx_hash_of st)(i \<mapsto> nt_request_hash nt)"
    and "tx_status_of st i = None"
  using assms find_tx_None [of "st_rows st" i]
  by (auto simp: tx_status_of_def tx_hash_of_def find_tx_append fun_eq_iff split: option.splits)

lemma tx_views_previews [simp]:
  "tx_status_of (st\<lparr>st_previews := ps\<rparr>) = tx_status_of st"
  "tx_hash_of (st\<lparr>st_previews := ps\<rparr>) = tx_hash_of st"
  by (simp_all add: tx_status_of_def tx_hash_of_def fun_eq_iff)

lemma tx_status_set_status:
  "tx_status_of (st\<lparr>st_rows := set_status s p (st_rows st)\<rparr>) i =
     (case find_tx (st_rows st) i of None \<Rightarrow> None | Some r \<Rightarrow> Some (if p r then s else tx_status r))"
  by (auto simp: tx_status_of_def find_tx_set_status split: option.split)

lemma find_tx_id: "find_tx rows i = Some r \<Longrightarrow> cr_transaction_id r = i"
  by (auto simp: find_tx_def dest: find_Some_mem)

lemma find_tx_mem: "find_tx rows i = Some r \<Longrightarrow> r \<in> set rows"
  by (auto simp: find_tx_def dest: find_Some_mem)

lemma tx_status_set_status_id:
  "tx_status_of (st\<lparr>st_rows := set_status s (\<lambda>r. cr_transaction_id r = i \<and> q r) (st_rows st)\<rparr>) =
     (case find_tx (st_rows st) i of
        None \<Rightarrow> tx_status_of st
      | Some r \<Rightarrow> if q r then (tx_status_of st)(i \<mapsto> s) else tx_status_of st)"
proof
  fix j
  have j: "tx_status_of st j = map_option tx_status (find_tx (st_rows st) j)" for j
    by (simp add: tx_status_of_def)
  show "tx_status_of (st\<lparr>st_rows := set_status s (\<lambda>r. cr_transaction_id r = i \<and> q r) (st_rows st)\<rparr>) j =
     (case find_tx (st_rows st) i of
        None \<Rightarrow> tx_status_of st
      | Some r \<Rightarrow> if q r then (tx_status_of st)(i \<mapsto> s) else tx_status_of st) j"
    unfolding tx_status_set_status
    by (cases "find_tx (st_rows st) j"; cases "find_tx (st_rows st) i"; cases "i = j")
       (auto simp: j dest: find_tx_id)
qed

section \<open>The methods on the views\<close>

lemma first_record_Some: "first_record ext rows = Inr (Some rec) \<longleftrightarrow>
    (\<exists>r rs. rows = r # rs \<and> row_to_record ext r = Inr rec)"
  by (auto simp: first_record_def result_simps split: list.splits)

lemma first_record_None: "first_record ext rows = Inr None \<longleftrightarrow> rows = []"
  by (auto simp: first_record_def result_simps split: list.splits)

lemma row_to_record_views:
  "row_to_record ext r = Inr rec \<Longrightarrow>
     tr_transaction_id rec = cr_transaction_id r \<and> tr_request_id rec = cr_request_id r \<and>
     tr_request_hash rec = cr_request_hash r \<and> tr_action_name rec = cr_action_name r \<and>
     tr_risk_level rec = cr_risk_level r \<and> tr_status rec = tx_status r \<and>
     tr_approval_id rec = cr_approval_id r \<and> tr_summary rec = cr_summary r"
  by (auto simp: row_to_record_def split: option.splits)

lemma by_seq_desc_set [simp]: "set (by_seq_desc rows) = set rows"
  by (simp add: by_seq_desc_def by_seq_def)

lemma by_seq_desc_filter_wf:
  "wf_store ext key st \<Longrightarrow> by_seq_desc (filter p (st_rows st)) = rev (filter p (st_rows st))"
  by (simp add: by_seq_desc_def by_seq_filter_wf)

lemma wf_find_tx: "wf_store ext key st \<Longrightarrow> r \<in> set (st_rows st) \<Longrightarrow>
    find_tx (st_rows st) (cr_transaction_id r) = Some r"
  by (simp add: wf_store_def find_tx_Some)

text \<open>The row a lookup by hash returns: the last inserted of the matching rows.\<close>

definition live_preview :: "nat \<Rightarrow> str \<Rightarrow> tx_row \<Rightarrow> bool" where
  "live_preview now h r \<longleftrightarrow> cr_request_hash r = h \<and> tx_status r = Queued \<and>
     datetime_text (now - ttl_ms) < cr_created_at r"

lemma find_by_request_hash_Some:
  assumes "wf_store ext key st" "find_by_request_hash ext now h st = Inr (Some rec)"
  obtains r where "r \<in> set (st_rows st)" "live_preview now h r" "row_to_record ext r = Inr rec"
    "\<And>r'. r' \<in> set (st_rows st) \<Longrightarrow> live_preview now h r' \<Longrightarrow> cr_seq r' \<le> cr_seq r"
proof -
  from assms(2) obtain r rs where r: "rev (filter (live_preview now h) (st_rows st)) = r # rs"
      "row_to_record ext r = Inr rec"
    unfolding find_by_request_hash_def first_record_Some by_seq_desc_filter_wf [OF assms(1)]
    by (auto simp: live_preview_def [abs_def])
  then have f: "filter (live_preview now h) (st_rows st) = rev rs @ [r]" by (simp add: rev_swap)
  have "sorted (map cr_seq (filter (live_preview now h) (st_rows st)))"
    by (rule sorted_filter [OF wf_sorted [OF assms(1)]])
  with f have le: "\<forall>x\<in>set rs. cr_seq x \<le> cr_seq r" by (simp add: sorted_append)
  have mem: "r' \<in> insert r (set rs) \<longleftrightarrow> r' \<in> set (st_rows st) \<and> live_preview now h r'" for r'
    using arg_cong [OF f, of set] by auto
  show ?thesis
  proof (rule that [of r])
    show "r \<in> set (st_rows st)" "live_preview now h r" using mem [of r] by auto
    show "cr_seq r' \<le> cr_seq r" if "r' \<in> set (st_rows st)" "live_preview now h r'" for r'
      using mem [of r'] that le by auto
  qed (rule r(2))
qed

lemma find_queued_views:
  assumes "wf_store ext key st" "find_by_request_hash ext now h st = Inr (Some rec)"
  shows "tx_status_of st (tr_transaction_id rec) = Some Queued \<and> tx_hash_of st (tr_transaction_id rec) = Some h"
proof -
  from assms obtain r where "r \<in> set (st_rows st)" "live_preview now h r" "row_to_record ext r = Inr rec"
    by (rule find_by_request_hash_Some)
  with wf_find_tx [OF assms(1)] row_to_record_views [of ext r rec] show ?thesis
    by (simp add: tx_status_of_def tx_hash_of_def live_preview_def)
qed

lemma claim_views:
  assumes "wf_store ext key st" "claim_for_execution i st = (Inr b, st')"
  shows "b \<longleftrightarrow> tx_status_of st i = Some Queued"
    and "tx_status_of st' = (if b then (tx_status_of st)(i \<mapsto> Running) else tx_status_of st)"
    and "tx_hash_of st' = tx_hash_of st"
proof -
  let ?p = "\<lambda>r. cr_transaction_id r = i \<and> tx_status r = Queued"
  from assms(2) have b: "b \<longleftrightarrow> filter ?p (st_rows st) \<noteq> []"
    and st': "st' = st\<lparr>st_rows := set_status Running ?p (st_rows st)\<rparr>"
    by (auto simp: claim_for_execution_def Let_def)
  have "filter ?p (st_rows st) \<noteq> [] \<longleftrightarrow> (\<exists>r\<in>set (st_rows st). ?p r)" by (auto simp: filter_empty_conv)
  also have "\<dots> \<longleftrightarrow> tx_status_of st i = Some Queued"
    using wf_find_tx [OF assms(1)]
    by (auto simp: tx_status_of_def dest: find_tx_mem find_tx_id)
  finally show q: "b \<longleftrightarrow> tx_status_of st i = Some Queued" using b by simp
  show "tx_status_of st' = (if b then (tx_status_of st)(i \<mapsto> Running) else tx_status_of st)"
    unfolding st' tx_status_set_status_id q by (auto simp: tx_status_of_def split: option.split)
  show "tx_hash_of st' = tx_hash_of st" by (simp add: st')
qed

lemma update_views:
  assumes "update_status i s st = (Inr u, st')"
  shows "\<exists>c. tx_status_of st i = Some c \<and> allowed_transition c s"
    and "tx_status_of st' = (tx_status_of st)(i \<mapsto> s)" and "tx_hash_of st' = tx_hash_of st"
proof -
  from assms obtain r where r: "find_tx (st_rows st) i = Some r" "allowed_transition (tx_status r) s"
      "st' = st\<lparr>st_rows := set_status s (\<lambda>r. cr_transaction_id r = i \<and> True) (st_rows st)\<rparr>"
    by (auto simp: update_status_def find_tx_def split: option.splits if_splits)
  then show "\<exists>c. tx_status_of st i = Some c \<and> allowed_transition c s"
    by (simp add: tx_status_of_def)
  show "tx_status_of st' = (tx_status_of st)(i \<mapsto> s)"
    unfolding r(3) tx_status_set_status_id r(1) by simp
  show "tx_hash_of st' = tx_hash_of st" unfolding r(3) by simp
qed

lemma update_fails_same: "update_status i s st = (Inl e, st') \<Longrightarrow> st' = st"
  by (auto simp: update_status_def split: option.splits if_splits)

lemma cleanup_views:
  "(tx_status_of (snd (cleanup_stale_queued now st)) i = tx_status_of st i \<or>
    tx_status_of st i = Some Queued \<and> tx_status_of (snd (cleanup_stale_queued now st)) i = Some Canceled) \<and>
   tx_hash_of (snd (cleanup_stale_queued now st)) = tx_hash_of st"
  by (auto simp: cleanup_stale_queued_def Let_def tx_status_set_status)
     (auto simp: tx_status_of_def split: option.splits if_splits)

section \<open>The store is an audit log\<close>

interpretation sqlite: audit_log "sqlite_store ext" "wf_store ext key" tx_status_of tx_hash_of
  for ext key
proof (unfold_locales, goal_cases)
  case (1 s op)
  then show ?case by (rule wf_run_op)
next
  case (2 s now h r)
  then show ?case by (simp add: sqlite_store_def find_queued_views)
next
  case (3 s i b s')
  then have "claim_for_execution i s = (Inr b, s')" by (simp add: sqlite_store_def)
  from claim_views [OF 3(1) this] show ?case by simp
next
  case (4 s i e s')
  then show ?case by (simp add: sqlite_store_def claim_for_execution_def Let_def)
next
  case (5 s i st u s')
  then have "update_status i st s = (Inr u, s')" by (simp add: sqlite_store_def)
  from update_views [OF this] show ?case by simp
next
  case (6 s i st e s')
  then show ?case by (simp add: sqlite_store_def update_fails_same)
next
  case (7 s now i nt r s')
  then have new: "i \<notin> cr_transaction_id ` set (st_rows s)" and r: "tr_transaction_id r = i"
    and s': "s' = s\<lparr>st_rows := st_rows s @ [appended_row ext key now i nt s]\<rparr>"
    by (auto simp: sqlite_store_def record_tx_cases record_of_new_def split: if_splits)
  from r tx_views_append(1,2) [OF new, of ext key now nt] tx_views_append(3) [OF new]
  show ?case unfolding s' by simp
next
  case (8 s now i nt e s')
  then show ?case by (auto simp: sqlite_store_def record_tx_cases split: if_splits)
next
  case (9 s now i nt p rp s')
  then have new: "i \<notin> cr_transaction_id ` set (st_rows s)"
    and rp: "tr_transaction_id (rp_transaction rp) = i"
    and s': "s' = s\<lparr>st_rows := st_rows s @ [appended_row ext key now i nt s]\<rparr>
               \<lparr>st_previews := st_previews s @ [(i, p)]\<rparr>"
    by (auto simp: sqlite_store_def record_previewed_cases record_of_new_def split: if_splits)
  from rp tx_views_append(1,2) [OF new, of ext key now nt] tx_views_append(3) [OF new]
  show ?case unfolding s' tx_views_previews by simp
next
  case (10 s now i nt p e s')
  then show ?case by (auto simp: sqlite_store_def record_previewed_cases split: if_splits)
next
  case (11 s now s' i)
  then show ?case using cleanup_views [of now s i] by (auto simp: sqlite_store_def)
qed

section \<open>Stale previews\<close>

text \<open>A row whose \<open>created_at\<close> the store wrote at time \<open>t\<close>: the lookup's and the cleanup's date
  conditions are complementary, and both look at calendar days only.\<close>

definition stale_text :: "nat \<Rightarrow> str \<Rightarrow> bool" where
  "stale_text now created \<longleftrightarrow> created \<le> datetime_text (now - ttl_ms)"

lemma live_or_stale: "datetime_text (now - ttl_ms) < created \<longleftrightarrow> \<not> stale_text now created"
  by (auto simp: stale_text_def)

lemma stale_text_days:
  "day_of t < day_limit \<Longrightarrow> day_of (now - ttl_ms) < day_limit \<Longrightarrow>
     stale_text now (strftime_ms t) \<longleftrightarrow> day_of t < day_of (now - ttl_ms)"
  by (simp add: stale_text_def strftime_le_datetime)

lemma cleanup_row_by_row:
  "st_rows (snd (cleanup_stale_queued now st)) =
     map (\<lambda>r. if stale_text now (cr_created_at r) \<and> tx_status r = Queued
              then r\<lparr>tx_status := Canceled\<rparr> else r) (st_rows st)"
  by (auto simp: cleanup_stale_queued_def Let_def set_status_def stale_text_def)

end
