(* ===== verification/Daemon_System.thy ===== *)
theory Daemon_System
  imports Dispatch_Protocol Listen Store_Invariant
begin

text \<open>
  The daemon as a whole: the accept loops of \<open>main.rs\<close> with their connection limit, and any number of
  connections that each read a frame, run its handler and read the next, interleaved call by call over one
  audit store and one machine. A call to the store may fail, before or after its effect. The invariant is
  proved for every store that keeps the contract \<open>audit_log\<close>; its consequence is that no transaction is run
  twice, whatever the clients do.
\<close>

section \<open>The world\<close>

definition MAX_CONNECTIONS :: nat where "MAX_CONNECTIONS = 16"

text \<open>A connection has no role until a vsock peer is authenticated.\<close>

record conn =
  cn_role :: "caller_role option"
  cn_input :: str
  cn_open :: bool
  cn_prog :: handler

datatype entry = Began nat "daemon_request option" | Did nat event

record 's world =
  w_store :: 's
  w_machine :: machine
  w_conns :: "conn list"
  w_log :: "entry list"

record 's deployment =
  dp_env :: daemon_env
  dp_audit :: "'s audit_store"
  dp_os :: os
  dp_target :: listen_target

definition open_count :: "'s world \<Rightarrow> nat" where
  "open_count w = length (filter cn_open (w_conns w))"

fun idle :: "handler \<Rightarrow> bool" where
  "idle (Return x) = True"
| "idle _ = False"

definition new_conn :: "caller_role option \<Rightarrow> conn" where
  "new_conn role = \<lparr>cn_role = role, cn_input = [], cn_open = True, cn_prog = Return (Inr ())\<rparr>"

definition add_conn :: "caller_role option \<Rightarrow> 's world \<Rightarrow> 's world" where
  "add_conn role w = w\<lparr>w_conns := w_conns w @ [new_conn role]\<rparr>"

definition set_conn :: "nat \<Rightarrow> conn \<Rightarrow> 's world \<Rightarrow> 's world" where
  "set_conn c cn w = w\<lparr>w_conns := (w_conns w)[c := cn]\<rparr>"

text \<open>What the surroundings answer to a call, with its effect on the store and the machine. A frame is
  delivered only if it fits the transport. The answer of a store call may be lost after its effect.\<close>

inductive happens :: "'s deployment \<Rightarrow> 's \<times> machine \<Rightarrow> event \<Rightarrow> 's \<times> machine \<Rightarrow> bool" for dp where
  sent: "b \<longrightarrow> is_ok (response_frame (ev_ext (dp_env dp)) r) \<Longrightarrow> happens dp (s, m) (Sent r b) (s, m)"
| collected: "happens dp (s, m) (Collected x) (s, m)"
| found: "happens dp (s, m) (FoundHash h (as_find_by_request_hash (dp_audit dp) now h s)) (s, m)"
| find_fails: "happens dp (s, m) (FoundHash h (Inl e)) (s, m)"
| claimed: "as_claim_for_execution (dp_audit dp) i s = (r, s') \<Longrightarrow> happens dp (s, m) (ClaimedTx i r) (s', m)"
| claim_lost: "as_claim_for_execution (dp_audit dp) i s = (r, s') \<Longrightarrow> happens dp (s, m) (ClaimedTx i (Inl e)) (s', m)"
| claim_fails: "happens dp (s, m) (ClaimedTx i (Inl e)) (s, m)"
| updated: "as_update_status (dp_audit dp) i st s = (r, s') \<Longrightarrow> happens dp (s, m) (Updated i st r) (s', m)"
| update_lost: "as_update_status (dp_audit dp) i st s = (r, s') \<Longrightarrow> happens dp (s, m) (Updated i st (Inl e)) (s', m)"
| update_fails: "happens dp (s, m) (Updated i st (Inl e)) (s, m)"
| previewed: "as_record_previewed (dp_audit dp) now i nt pe s = (r, s') \<Longrightarrow> happens dp (s, m) (Previewed nt pe r) (s', m)"
| preview_lost: "as_record_previewed (dp_audit dp) now i nt pe s = (r, s') \<Longrightarrow>
    happens dp (s, m) (Previewed nt pe (Inl e)) (s', m)"
| preview_fails: "happens dp (s, m) (Previewed nt pe (Inl e)) (s, m)"
| listed: "happens dp (s, m) (Listed l st a h (as_list_transactions (dp_audit dp) now l st a h s)) (s, m)"
| list_fails: "happens dp (s, m) (Listed l st a h (Inl e)) (s, m)"
| got_id: "happens dp (s, m) (GotId i) (s, m)"
| executed: "execute_spec (dp_os dp) spec m = (r, m') \<Longrightarrow> happens dp (s, m) (Executed spec r) (s, m')"
| spawn_fails: "os_run (dp_os dp) program args m = (None, m') \<Longrightarrow> happens dp (s, m) (Spawned program args None) (s, m')"
| spawned: "os_run (dp_os dp) program args m = (Some (out, err, code), m') \<Longrightarrow>
    pr_lines child = (if pr_read_fails child then take k (str_lines out) else str_lines out) \<Longrightarrow>
    pr_exit child \<in> {None, Some code} \<Longrightarrow> pr_stderr child \<in> {None, Some err} \<Longrightarrow>
    happens dp (s, m) (Spawned program args (Some child)) (s, m')"
| forwarded: "happens dp (s, m) (Forwarded i r st) (s, m)"

text \<open>The steps. A connection beyond the limit is dropped, which is no step. Bytes arrive at any time.\<close>

inductive daemon_step :: "'s deployment \<Rightarrow> 's world \<Rightarrow> 's world \<Rightarrow> bool" for dp where
  accept_unix: "dp_target dp = Unix path \<Longrightarrow> open_count w < MAX_CONNECTIONS \<Longrightarrow>
    daemon_step dp w (add_conn (Some (resolve_caller_role cred group_file proc_status)) w)"
| accept_vsock: "dp_target dp = Vsock port \<Longrightarrow> open_count w < MAX_CONNECTIONS \<Longrightarrow>
    daemon_step dp w (add_conn None w)"
| arrive: "c < length (w_conns w) \<Longrightarrow> cn = w_conns w ! c \<Longrightarrow>
    daemon_step dp w (set_conn c (cn\<lparr>cn_input := cn_input cn @ bytes\<rparr>) w)"
| authenticated: "c < length (w_conns w) \<Longrightarrow> cn = w_conns w ! c \<Longrightarrow> cn_open cn \<Longrightarrow> cn_role cn = None \<Longrightarrow>
    authenticate_vsock_token (dp_env dp) (\<lambda>t. validate_token_against_file t token_file role_var)
      (Some (recv_frame (cn_input cn))) = Some (role, rest) \<Longrightarrow>
    daemon_step dp w (set_conn c (cn\<lparr>cn_role := Some role, cn_input := rest\<rparr>) w)"
| refused: "c < length (w_conns w) \<Longrightarrow> cn = w_conns w ! c \<Longrightarrow> cn_open cn \<Longrightarrow> cn_role cn = None \<Longrightarrow>
    received \<in> {None, Some (recv_frame (cn_input cn))} \<Longrightarrow>
    authenticate_vsock_token (dp_env dp) (\<lambda>t. validate_token_against_file t token_file role_var) received = None \<Longrightarrow>
    daemon_step dp w (set_conn c (cn\<lparr>cn_open := False\<rparr>) w)"
| receive: "c < length (w_conns w) \<Longrightarrow> cn = w_conns w ! c \<Longrightarrow> cn_open cn \<Longrightarrow> cn_role cn = Some role \<Longrightarrow>
    idle (cn_prog cn) \<Longrightarrow> recv_frame (cn_input cn) = Inr (raw, rest) \<Longrightarrow>
    dispatch_frame (dp_env dp) role raw = Some p \<Longrightarrow>
    daemon_step dp w
      ((set_conn c (cn\<lparr>cn_input := rest, cn_prog := p\<rparr>) w)
        \<lparr>w_log := w_log w @ [Began c (Option.bind (ev_parse (dp_env dp) raw) parse_request)]\<rparr>)"
| hang_up: "c < length (w_conns w) \<Longrightarrow> cn = w_conns w ! c \<Longrightarrow> cn_open cn \<Longrightarrow> cn_role cn = Some role \<Longrightarrow>
    idle (cn_prog cn) \<Longrightarrow>
    (case recv_frame (cn_input cn) of Inl e \<Rightarrow> True | Inr (raw, rest) \<Rightarrow> dispatch_frame (dp_env dp) role raw = None) \<Longrightarrow>
    daemon_step dp w (set_conn c (cn\<lparr>cn_open := False\<rparr>) w)"
| act: "c < length (w_conns w) \<Longrightarrow> cn = w_conns w ! c \<Longrightarrow> react (cn_prog cn) e = Some p \<Longrightarrow>
    happens dp (w_store w, w_machine w) e (s', m') \<Longrightarrow>
    daemon_step dp w
      ((set_conn c (cn\<lparr>cn_prog := p\<rparr>) w)\<lparr>w_store := s', w_machine := m', w_log := w_log w @ [Did c e]\<rparr>)"

definition booted :: "'s \<Rightarrow> machine \<Rightarrow> 's world" where
  "booted s m = \<lparr>w_store = s, w_machine = m, w_conns = [], w_log = []\<rparr>"

definition daemon_reaches :: "'s deployment \<Rightarrow> 's world \<Rightarrow> 's world \<Rightarrow> bool" where
  "daemon_reaches dp = (daemon_step dp)\<^sup>*\<^sup>*"

section \<open>Reading the log\<close>

text \<open>The phase of each connection after a log, and the first run of each announced job, with its
  connection, its transaction and what was run.\<close>

fun phase_step :: "entry \<Rightarrow> (nat \<Rightarrow> phase) \<Rightarrow> nat \<Rightarrow> phase" where
  "phase_step (Began c rq) ph = ph(c := Idle)"
| "phase_step (Did c e) ph = ph(c := advance (ph c) e)"

fun run_entry :: "(nat \<Rightarrow> phase) \<Rightarrow> entry \<Rightarrow> (nat \<times> str \<times> mechanism) list" where
  "run_entry ph (Did c e) = (case (ph c, run_of e) of (Announced h i, Some m) \<Rightarrow> [(c, i, m)] | _ \<Rightarrow> [])"
| "run_entry ph (Began c rq) = []"

definition log_phase :: "entry list \<Rightarrow> nat \<Rightarrow> phase" where
  "log_phase log = fold phase_step log (\<lambda>_. Idle)"

fun runs_from :: "(nat \<Rightarrow> phase) \<Rightarrow> entry list \<Rightarrow> (nat \<times> str \<times> mechanism) list" where
  "runs_from ph [] = []"
| "runs_from ph (x # log) = run_entry ph x @ runs_from (phase_step x ph) log"

definition action_runs :: "entry list \<Rightarrow> (nat \<times> str \<times> mechanism) list" where
  "action_runs log = runs_from (\<lambda>_. Idle) log"

definition run_ids :: "entry list \<Rightarrow> str list" where
  "run_ids log = map (\<lambda>(c, i, m). i) (action_runs log)"

lemma runs_from_snoc: "runs_from ph (log @ [x]) = runs_from ph log @ run_entry (fold phase_step log ph) x"
  by (induction log arbitrary: ph) simp_all

lemma log_snoc [simp]:
  "log_phase (log @ [x]) = phase_step x (log_phase log)"
  "action_runs (log @ [x]) = action_runs log @ run_entry (log_phase log) x"
  by (simp_all add: log_phase_def action_runs_def runs_from_snoc)

section \<open>The invariant\<close>

text \<open>\<open>st\<close> and \<open>hs\<close> are the status and the hash of the transactions.\<close>

type_synonym views = "(str \<rightharpoonup> job_state) \<times> (str \<rightharpoonup> str)"

definition begun :: "views \<Rightarrow> str \<Rightarrow> bool" where
  "begun vw i \<longleftrightarrow> fst vw i \<noteq> None \<and> fst vw i \<noteq> Some Queued"

definition keeps :: "views \<Rightarrow> views \<Rightarrow> bool" where
  "keeps vw vw' \<longleftrightarrow> (\<forall>i. fst vw i \<noteq> None \<longrightarrow> fst vw' i \<noteq> None \<and> snd vw' i = snd vw i) \<and>
     (\<forall>i. begun vw i \<longrightarrow> begun vw' i)"

fun held :: "phase \<Rightarrow> str option" where
  "held (Holding h i) = Some i"
| "held (Announced h i) = Some i"
| "held _ = None"

definition phase_ok :: "views \<Rightarrow> str list \<Rightarrow> (str \<Rightarrow> bool) \<Rightarrow> phase \<Rightarrow> bool" where
  "phase_ok vw before appr ph \<longleftrightarrow>
    (\<forall>h i. ph = Found h i \<longrightarrow> appr h \<and> snd vw i = Some h \<and> fst vw i \<noteq> None) \<and>
    (\<forall>h i. ph = Holding h i \<or> ph = Announced h i \<longrightarrow> appr h \<and> snd vw i = Some h \<and> begun vw i \<and> i \<notin> set before)"

text \<open>serde_json's objects have distinct keys; where that holds, the parameters of a request have them.\<close>

definition parses_wf :: "daemon_env \<Rightarrow> bool" where
  "parses_wf env \<longleftrightarrow> (\<forall>raw v. ev_parse env raw = Some v \<longrightarrow> wf_json v)"

fun request_params :: "daemon_request \<Rightarrow> json" where
  "request_params (Preview i n ps) = ps"
| "request_params (Execute i n ps h) = ps"
| "request_params (QueryAction i n ps) = ps"
| "request_params (Describe i n ps) = ps"
| "request_params _ = JNull"

definition wf_request :: "daemon_env \<Rightarrow> daemon_request \<Rightarrow> bool" where
  "wf_request env rq \<longleftrightarrow> (parses_wf env \<longrightarrow> wf_json (request_params rq))"

lemma wf_cancel: "wf_request env (Cancel [])"
  by (simp add: wf_request_def)

definition conn_ok :: "daemon_env \<Rightarrow> views \<Rightarrow> str list \<Rightarrow> conn \<Rightarrow> phase \<Rightarrow> bool" where
  "conn_ok env vw before cn ph \<longleftrightarrow>
    (cn_role cn = None \<and> idle (cn_prog cn) \<and> held ph = None \<and> settled ph) \<or>
    (\<exists>role rq. cn_role cn = Some role \<and> wf_request env rq \<and> obeys (cn_prog cn) (permitted env role rq) ph \<and>
       phase_ok vw before (approved env role rq) ph)"

definition run_ok :: "daemon_env \<Rightarrow> views \<Rightarrow> conn list \<Rightarrow> nat \<times> str \<times> mechanism \<Rightarrow> bool" where
  "run_ok env vw conns = (\<lambda>(c, i, m). begun vw i \<and> c < length conns \<and>
     (\<exists>role n ps spec. cn_role (conns ! c) = Some role \<and> action_allowed (ev_policy env) role n \<and>
        build_action_spec n ps = Inr spec \<and> m = sp_mechanism spec \<and>
        snd vw i = Some (compute_request_hash (ev_ext env) n ps) \<and> (parses_wf env \<longrightarrow> wf_json ps)))"

definition preview_ok :: "daemon_env \<Rightarrow> conn list \<Rightarrow> nat \<Rightarrow> new_transaction \<Rightarrow> bool" where
  "preview_ok env conns c nt \<longleftrightarrow> c < length conns \<and>
     (\<exists>role n ps spec. cn_role (conns ! c) = Some role \<and> action_allowed (ev_policy env) role n \<and>
        build_action_spec n ps = Inr spec \<and> nt_request_hash nt = compute_request_hash (ev_ext env) n ps \<and>
        (parses_wf env \<longrightarrow> wf_json ps))"

definition system_ok :: "daemon_env \<Rightarrow> views \<Rightarrow> 's world \<Rightarrow> bool" where
  "system_ok env vw w \<longleftrightarrow>
    (\<forall>c < length (w_conns w). conn_ok env vw (run_ids (w_log w)) (w_conns w ! c) (log_phase (w_log w) c)) \<and>
    (\<forall>c \<ge> length (w_conns w). log_phase (w_log w) c = Idle) \<and>
    (\<forall>c d i. held (log_phase (w_log w) c) = Some i \<longrightarrow> held (log_phase (w_log w) d) = Some i \<longrightarrow> c = d) \<and>
    distinct (run_ids (w_log w)) \<and>
    (\<forall>x \<in> set (action_runs (w_log w)). run_ok env vw (w_conns w) x) \<and>
    (\<forall>c nt pe r. Did c (Previewed nt pe r) \<in> set (w_log w) \<longrightarrow> preview_ok env (w_conns w) c nt)"

lemma set_conn_sel [simp]:
  "w_conns (set_conn c cn w) = (w_conns w)[c := cn]" "w_log (set_conn c cn w) = w_log w"
  "w_store (set_conn c cn w) = w_store w" "w_machine (set_conn c cn w) = w_machine w"
  "w_conns (add_conn r w) = w_conns w @ [new_conn r]" "w_log (add_conn r w) = w_log w"
  "w_store (add_conn r w) = w_store w"
  by (simp_all add: set_conn_def add_conn_def)

lemma system_okI:
  assumes "\<And>c. c < length (w_conns w) \<Longrightarrow> conn_ok env vw (run_ids (w_log w)) (w_conns w ! c) (log_phase (w_log w) c)"
    and "\<And>c. c \<ge> length (w_conns w) \<Longrightarrow> log_phase (w_log w) c = Idle"
    and "\<And>c d i. held (log_phase (w_log w) c) = Some i \<Longrightarrow> held (log_phase (w_log w) d) = Some i \<Longrightarrow> c = d"
    and "distinct (run_ids (w_log w))"
    and "\<And>x. x \<in> set (action_runs (w_log w)) \<Longrightarrow> run_ok env vw (w_conns w) x"
    and "\<And>c nt pe r. Did c (Previewed nt pe r) \<in> set (w_log w) \<Longrightarrow> preview_ok env (w_conns w) c nt"
  shows "system_ok env vw w"
  using assms unfolding system_ok_def by blast

lemma system_okD:
  assumes "system_ok env vw w"
  shows "c < length (w_conns w) \<Longrightarrow> conn_ok env vw (run_ids (w_log w)) (w_conns w ! c) (log_phase (w_log w) c)"
    and "c \<ge> length (w_conns w) \<Longrightarrow> log_phase (w_log w) c = Idle"
    and "held (log_phase (w_log w) c) = Some i \<Longrightarrow> held (log_phase (w_log w) d) = Some i \<Longrightarrow> c = d"
    and "distinct (run_ids (w_log w))"
    and "x \<in> set (action_runs (w_log w)) \<Longrightarrow> run_ok env vw (w_conns w) x"
    and "Did a (Previewed nt pe r) \<in> set (w_log w) \<Longrightarrow> preview_ok env (w_conns w) a nt"
  using assms unfolding system_ok_def by blast+

lemma keeps_refl: "keeps vw vw"
  by (simp add: keeps_def)

lemma keepsD:
  assumes "keeps vw vw'"
  shows "fst vw i \<noteq> None \<Longrightarrow> fst vw' i \<noteq> None \<and> snd vw' i = snd vw i" "begun vw i \<Longrightarrow> begun vw' i"
  using assms by (simp_all add: keeps_def)

lemma begun_known: "begun vw i \<Longrightarrow> fst vw i \<noteq> None"
  by (simp add: begun_def)

lemma begun_keeps: "keeps vw vw' \<Longrightarrow> begun vw i \<Longrightarrow> begun vw' i \<and> snd vw' i = snd vw i"
  using keepsD [of vw vw' i] begun_known [of vw i] by blast

lemma phase_ok_keeps:
  assumes "keeps vw vw'" "phase_ok vw before appr ph" shows "phase_ok vw' before appr ph"
proof (cases ph)
  case (Found h i)
  with assms keepsD(1) [OF assms(1), of i] show ?thesis by (simp add: phase_ok_def)
next
  case (Holding h i)
  with assms begun_keeps [OF assms(1), of i] show ?thesis by (simp add: phase_ok_def)
next
  case (Announced h i)
  with assms begun_keeps [OF assms(1), of i] show ?thesis by (simp add: phase_ok_def)
qed (simp_all add: phase_ok_def)

lemma conn_ok_keeps: "keeps vw vw' \<Longrightarrow> conn_ok env vw before cn ph \<Longrightarrow> conn_ok env vw' before cn ph"
  unfolding conn_ok_def using phase_ok_keeps by blast

lemma run_ok_keeps: "keeps vw vw' \<Longrightarrow> run_ok env vw conns x \<Longrightarrow> run_ok env vw' conns x"
  unfolding run_ok_def using begun_keeps [of vw vw'] by (clarsimp split: prod.splits)

text \<open>Only the role of a connection matters for the runs.\<close>

definition same_roles :: "conn list \<Rightarrow> conn list \<Rightarrow> bool" where
  "same_roles conns conns' \<longleftrightarrow> length conns \<le> length conns' \<and>
    (\<forall>c r. c < length conns \<longrightarrow> cn_role (conns ! c) = Some r \<longrightarrow> cn_role (conns' ! c) = Some r)"

lemma run_ok_conns:
  assumes "run_ok env vw conns x" "same_roles conns conns'" shows "run_ok env vw conns' x"
proof -
  obtain c i m where x: "x = (c, i, m)" by (cases x)
  with assms(1) have "c < length conns" "begun vw i"
    and "\<exists>role n ps spec. cn_role (conns ! c) = Some role \<and> action_allowed (ev_policy env) role n \<and>
      build_action_spec n ps = Inr spec \<and> m = sp_mechanism spec \<and>
      snd vw i = Some (compute_request_hash (ev_ext env) n ps) \<and> (parses_wf env \<longrightarrow> wf_json ps)"
    by (simp_all add: run_ok_def)
  with x assms(2) show ?thesis unfolding run_ok_def same_roles_def by (simp del: split_paired_Ex) blast
qed

lemma preview_ok_conns:
  assumes "preview_ok env conns c nt" "same_roles conns conns'" shows "preview_ok env conns' c nt"
  using assms unfolding preview_ok_def same_roles_def by (simp del: split_paired_Ex) blast

lemma same_roles_set:
  "c < length conns \<Longrightarrow> (\<And>r. cn_role (conns ! c) = Some r \<Longrightarrow> cn_role cn = Some r) \<Longrightarrow> same_roles conns (conns[c := cn])"
  by (auto simp: same_roles_def nth_list_update)

lemma same_roles_add: "same_roles conns (conns @ [cn])"
  by (simp add: same_roles_def nth_append)

text \<open>Steps that make no call.\<close>

lemma system_ok_quiet:
  assumes ok: "system_ok env vw w" and c: "c < length (w_conns w)"
    and role: "\<And>r. cn_role (w_conns w ! c) = Some r \<Longrightarrow> cn_role cn = Some r"
    and conn: "conn_ok env vw (run_ids (w_log w)) cn (log_phase (w_log w) c)"
  shows "system_ok env vw (set_conn c cn w)"
proof (rule system_okI)
  fix d assume "d < length (w_conns (set_conn c cn w))"
  then show "conn_ok env vw (run_ids (w_log (set_conn c cn w))) (w_conns (set_conn c cn w) ! d)
      (log_phase (w_log (set_conn c cn w)) d)"
    using system_okD(1) [OF ok, of d] conn by (cases "d = c") simp_all
next
  fix x assume "x \<in> set (action_runs (w_log (set_conn c cn w)))"
  then show "run_ok env vw (w_conns (set_conn c cn w)) x"
    using run_ok_conns [OF system_okD(5) [OF ok] same_roles_set [OF c role]] by simp
next
  fix d nt pe r assume "Did d (Previewed nt pe r) \<in> set (w_log (set_conn c cn w))"
  then show "preview_ok env (w_conns (set_conn c cn w)) d nt"
    using preview_ok_conns [OF system_okD(6) [OF ok] same_roles_set [OF c role]] by simp
next
  fix a b i assume "held (log_phase (w_log (set_conn c cn w)) a) = Some i" "held (log_phase (w_log (set_conn c cn w)) b) = Some i"
  then show "a = b" using system_okD(3) [OF ok, of a i b] by simp
qed (use system_okD(2,4) [OF ok] in simp_all)

lemma system_ok_add:
  assumes ok: "system_ok env vw w" shows "system_ok env vw (add_conn r w)"
proof (rule system_okI)
  fix d assume d: "d < length (w_conns (add_conn r w))"
  show "conn_ok env vw (run_ids (w_log (add_conn r w))) (w_conns (add_conn r w) ! d) (log_phase (w_log (add_conn r w)) d)"
  proof (cases "d < length (w_conns w)")
    case True
    with system_okD(1) [OF ok, of d] show ?thesis by (simp add: nth_append)
  next
    case False
    with d have "d = length (w_conns w)" by simp
    moreover have "conn_ok env vw before (new_conn r) Idle" for before
      using wf_cancel [of env] by (cases r) (auto simp: conn_ok_def new_conn_def phase_ok_def)
    ultimately show ?thesis using system_okD(2) [OF ok, of d] by (simp add: nth_append)
  qed
next
  fix x assume "x \<in> set (action_runs (w_log (add_conn r w)))"
  then show "run_ok env vw (w_conns (add_conn r w)) x"
    using run_ok_conns [OF system_okD(5) [OF ok] same_roles_add] by simp
next
  fix d nt pe r' assume "Did d (Previewed nt pe r') \<in> set (w_log (add_conn r w))"
  then show "preview_ok env (w_conns (add_conn r w)) d nt"
    using preview_ok_conns [OF system_okD(6) [OF ok] same_roles_add] by simp
next
  fix a b i assume "held (log_phase (w_log (add_conn r w)) a) = Some i" "held (log_phase (w_log (add_conn r w)) b) = Some i"
  then show "a = b" using system_okD(3) [OF ok, of a i b] by simp
qed (use system_okD(2,4) [OF ok] in simp_all)

lemma read_action_Some:
  "read_action build r n p = Some rq \<longleftrightarrow>
     (\<exists>r' n' p'. r = Some (JString r') \<and> n = Some (JString n') \<and> p = Some p' \<and> rq = build r' n' p')"
  by (auto simp: read_action_def Option.bind_eq_Some_conv split: option.splits)

lemma parse_fields_wf:
  "parse_fields tag get = Some rq \<Longrightarrow> (\<And>k v. get k = Some v \<Longrightarrow> wf_json v) \<Longrightarrow> wf_json (request_params rq)"
  by (auto simp: parse_fields_def read_action_Some Option.bind_eq_Some_conv split: if_splits)

lemma parse_request_wf: "parse_request v = Some rq \<Longrightarrow> wf_json v \<Longrightarrow> wf_json (request_params rq)"
proof (induction v rule: parse_request.induct)
  case (1 m)
  then obtain tag where "parse_fields tag (map_of m) = Some rq" by (auto simp: Option.bind_eq_Some_conv)
  then show ?case by (rule parse_fields_wf) (use 1(2) in \<open>auto simp: list_all_iff dest!: map_of_SomeD\<close>)
next
  case (2 tag fs)
  then have "parse_fields tag (map_of (zip (field_names tag) fs)) = Some rq" by (simp split: if_splits)
  then show ?case
  proof (rule parse_fields_wf)
    fix k v assume "map_of (zip (field_names tag) fs) k = Some v"
    then have "v \<in> set fs" by (meson map_of_SomeD set_zip_rightD)
    with 2(2) show "wf_json v" by (simp add: list_all_iff)
  qed
qed simp_all

lemma handle_any_obeys:
  assumes "dispatch_frame env role raw = Some p"
  shows "\<exists>rq. wf_request env rq \<and> obeys p (permitted env role rq) Idle"
proof -
  from assms obtain msg where msg: "ev_parse env raw = Some msg"
    by (auto simp: dispatch_frame_def split: option.splits)
  show ?thesis
  proof (cases "parse_request msg")
    case None
    with assms msg have "obeys p (permitted env role (Cancel [])) Idle" by (auto simp: dispatch_frame_def)
    then show ?thesis by (intro exI [of _ "Cancel []"]) (simp add: wf_request_def)
  next
    case (Some rq)
    with msg have "wf_request env rq" by (auto simp: wf_request_def parses_wf_def intro: parse_request_wf)
    moreover have "p = handle_request env role rq" using assms msg Some by (simp add: dispatch_frame_def)
    ultimately show ?thesis using handle_request_obeys by blast
  qed
qed

lemma system_ok_receive:
  assumes ok: "system_ok env vw w" and c: "c < length (w_conns w)" "cn_role (w_conns w ! c) = Some role"
    and cn: "cn_role cn = Some role" "cn_prog cn = p" and p: "dispatch_frame env role raw = Some p"
  shows "system_ok env vw ((set_conn c cn w)\<lparr>w_log := w_log w @ [Began c rq]\<rparr>)" (is "system_ok env vw ?w")
proof (rule system_okI)
  have log: "log_phase (w_log ?w) d = (if d = c then Idle else log_phase (w_log w) d)"
    "run_ids (w_log ?w) = run_ids (w_log w)" "action_runs (w_log ?w) = action_runs (w_log w)" for d
    by (simp_all add: run_ids_def)
  have new: "conn_ok env vw before cn Idle" for before
    using handle_any_obeys [OF p] cn by (auto simp: conn_ok_def phase_ok_def)
  show "conn_ok env vw (run_ids (w_log ?w)) (w_conns ?w ! d) (log_phase (w_log ?w) d)"
    if "d < length (w_conns ?w)" for d
    using that system_okD(1) [OF ok, of d] new unfolding log by (cases "d = c") simp_all
  show "log_phase (w_log ?w) d = Idle" if "length (w_conns ?w) \<le> d" for d
    using that system_okD(2) [OF ok, of d] unfolding log by simp
  show "a = b" if "held (log_phase (w_log ?w) a) = Some i" "held (log_phase (w_log ?w) b) = Some i" for a b i
    using that system_okD(3) [OF ok, of a i b] unfolding log by (simp split: if_splits)
  show "distinct (run_ids (w_log ?w))" using system_okD(4) [OF ok] unfolding log .
  have same: "same_roles (w_conns w) (w_conns ?w)" using same_roles_set [of c "w_conns w" cn] c cn by simp
  show "run_ok env vw (w_conns ?w) x" if "x \<in> set (action_runs (w_log ?w))" for x
    using that run_ok_conns [OF system_okD(5) [OF ok] same] unfolding log by simp
  show "preview_ok env (w_conns ?w) d nt" if "Did d (Previewed nt pe r) \<in> set (w_log ?w)" for d nt pe r
    using that preview_ok_conns [OF system_okD(6) [OF ok] same] by simp
qed

text \<open>What a call must establish: a found transaction has the hash, a granted claim finds it \<open>Queued\<close>.\<close>

fun call_ok :: "views \<Rightarrow> views \<Rightarrow> event \<Rightarrow> bool" where
  "call_ok vw vw' (FoundHash h r) = (\<forall>tx. r = Inr (Some tx) \<longrightarrow>
     fst vw (tr_transaction_id tx) \<noteq> None \<and> snd vw (tr_transaction_id tx) = Some h)"
| "call_ok vw vw' (ClaimedTx i r) = (r = Inr True \<longrightarrow> \<not> begun vw i \<and> begun vw' i)"
| "call_ok vw vw' e = True"

lemma held_advance:
  assumes "permitted env role rq ph e" "held (advance ph e) = Some i"
  shows "held ph = Some i \<or> (\<exists>h. ph = Found h i \<and> e = ClaimedTx i (Inr True))"
proof (cases e)
  case (ClaimedTx j r)
  with assms show ?thesis by (auto split: if_splits)
next
  case (Sent r b)
  with assms show ?thesis by (cases r) (auto split: if_splits)
next
  case (FoundHash h r)
  with assms show ?thesis by (auto split: sum.splits option.splits)
next
  case (Executed spec r)
  with assms show ?thesis by (cases ph) auto
next
  case (Spawned program args p)
  with assms show ?thesis by (cases ph) auto
qed (use assms in auto)

lemma phase_ok_run: "phase_ok vw before appr (run_step ph b) \<longleftrightarrow>
    phase_ok vw before appr ph \<or> (\<exists>h i. ph = Announced h i)"
  by (cases ph) (simp_all add: phase_ok_def)

lemma phase_ok_advance:
  assumes per: "permitted env role rq ph e" and ok: "phase_ok vw before (approved env role rq) ph"
    and k: "keeps vw vw'" and call: "call_ok vw vw' e" and run: "\<And>i. i \<in> set before \<Longrightarrow> begun vw i"
  shows "phase_ok vw' before (approved env role rq) (advance ph e)"
proof (cases e)
  case (FoundHash h r)
  show ?thesis
  proof (cases "\<exists>tx. r = Inr (Some tx)")
    case True
    then obtain tx where r: "r = Inr (Some tx)" ..
    with FoundHash per call have "approved env role rq h" "fst vw (tr_transaction_id tx) \<noteq> None"
      "snd vw (tr_transaction_id tx) = Some h" by auto
    with keepsD(1) [OF k, of "tr_transaction_id tx"] r FoundHash show ?thesis by (simp add: phase_ok_def)
  next
    case False
    then have "advance ph e = Closed" using FoundHash by (auto split: sum.split option.split)
    then show ?thesis by (simp add: phase_ok_def)
  qed
next
  case (ClaimedTx i r)
  with per obtain h where ph: "ph = Found h i" by auto
  show ?thesis
  proof (cases "r = Inr True")
    case True
    with ph ok have "approved env role rq h" "snd vw i = Some h" "fst vw i \<noteq> None" by (simp_all add: phase_ok_def)
    moreover have "\<not> begun vw i" "begun vw' i" using call ClaimedTx True by simp_all
    ultimately show ?thesis
      using keepsD(1) [OF k, of i] run [of i] ph ClaimedTx True by (auto simp: phase_ok_def)
  qed (use ph ClaimedTx in \<open>simp add: phase_ok_def\<close>)
next
  case (Sent r b)
  have "phase_ok vw' before (approved env role rq) ph" using phase_ok_keeps [OF k ok] .
  with Sent per show ?thesis by (cases r; cases ph; cases b) (auto simp: phase_ok_def)
next
  case (Executed spec r)
  with phase_ok_keeps [OF k ok] show ?thesis by (simp add: phase_ok_run)
next
  case (Spawned program args p)
  with phase_ok_keeps [OF k ok] show ?thesis by (simp add: phase_ok_run)
next
  case (Updated i st r)
  then show ?thesis by (simp add: phase_ok_def)
qed (use phase_ok_keeps [OF k ok] in simp_all)

text \<open>A call of a connection keeps the invariant.\<close>

lemma begun_runs: "system_ok env vw w \<Longrightarrow> i \<in> set (run_ids (w_log w)) \<Longrightarrow> begun vw i"
  using system_okD(5) [of env vw w] by (fastforce simp: run_ids_def run_ok_def)

lemma system_ok_act:
  assumes ok: "system_ok env vw w" and c: "c < length (w_conns w)"
    and re: "react (cn_prog (w_conns w ! c)) e = Some p" and k: "keeps vw vw'" and call: "call_ok vw vw' e"
  shows "system_ok env vw' ((set_conn c ((w_conns w ! c)\<lparr>cn_prog := p\<rparr>) w)
      \<lparr>w_store := s', w_machine := m', w_log := w_log w @ [Did c e]\<rparr>)" (is "system_ok env vw' ?w")
proof -
  let ?ph = "log_phase (w_log w)" and ?ids = "run_ids (w_log w)" and ?cn = "w_conns w ! c"
  have "\<not> idle (cn_prog ?cn)" using re by (cases "cn_prog ?cn") auto
  with system_okD(1) [OF ok c] obtain role rq where
    cn: "cn_role ?cn = Some role" "wf_request env rq" "obeys (cn_prog ?cn) (permitted env role rq) (?ph c)"
      "phase_ok vw ?ids (approved env role rq) (?ph c)"
    by (auto simp: conn_ok_def)
  from obeys_react [OF cn(3) re] have
    per: "permitted env role rq (?ph c) e" and ob: "obeys p (permitted env role rq) (advance (?ph c) e)" by auto
  have new: "phase_ok vw' ?ids (approved env role rq) (advance (?ph c) e)"
    by (rule phase_ok_advance [OF per cn(4) k call begun_runs [OF ok]])
  define new_runs where "new_runs = run_entry ?ph (Did c e)"
  have log: "log_phase (w_log ?w) d = (if d = c then advance (?ph c) e else ?ph d)"
    "run_ids (w_log ?w) = ?ids @ map (\<lambda>(c, i, m). i) new_runs"
    "action_runs (w_log ?w) = action_runs (w_log w) @ new_runs" for d
    by (simp_all add: run_ids_def new_runs_def)
  have entry: "\<exists>h. ?ph c = Announced h i \<and> new_runs = [(c, i, m)] \<and> executes rq m \<and> (\<exists>b. advance (?ph c) e = Ran h i b)"
    if "(a, i, m) \<in> set new_runs" for a i m
    using that per by (cases e) (auto simp: new_runs_def split: phase.splits)
  have one: "new_runs = [] \<or> (\<exists>i m. new_runs = [(c, i, m)])"
    by (auto simp: new_runs_def split: phase.split option.split)
  have same: "same_roles (w_conns w) (w_conns ?w)"
    using same_roles_set [of c "w_conns w" "?cn\<lparr>cn_prog := p\<rparr>"] c by simp
  show ?thesis
  proof (rule system_okI)
    fix d assume d: "d < length (w_conns ?w)"
    show "conn_ok env vw' (run_ids (w_log ?w)) (w_conns ?w ! d) (log_phase (w_log ?w) d)"
    proof (cases "d = c")
      case True
      have "phase_ok vw' (run_ids (w_log ?w)) (approved env role rq) (advance (?ph c) e)"
      proof (cases "new_runs = []")
        case True
        with new log(2) show ?thesis by simp
      next
        case False
        with one entry obtain h i b where "advance (?ph c) e = Ran h i b" by fastforce
        then show ?thesis by (simp add: phase_ok_def)
      qed
      with True d c cn(1,2) ob log(1) show ?thesis by (auto simp: conn_ok_def)
    next
      case False
      have "i \<notin> set (map (\<lambda>(c, i, m). i) new_runs)" if "held (?ph d) = Some i" for i
        using entry that system_okD(3) [OF ok, of c i d] False by fastforce
      then have "phase_ok vw' before appr (?ph d) \<Longrightarrow>
          phase_ok vw' (before @ map (\<lambda>(c, i, m). i) new_runs) appr (?ph d)" for before appr
        by (auto simp: phase_ok_def)
      with conn_ok_keeps [OF k system_okD(1) [OF ok, of d]] False d show ?thesis
        unfolding log by (auto simp: conn_ok_def)
    qed
  next
    show "log_phase (w_log ?w) d = Idle" if "length (w_conns ?w) \<le> d" for d
      using that c system_okD(2) [OF ok, of d] unfolding log by auto
  next
    fix a b i assume h: "held (log_phase (w_log ?w) a) = Some i" "held (log_phase (w_log ?w) b) = Some i"
    have fresh: "held (?ph c) = Some i" if "held (advance (?ph c) e) = Some i" "held (?ph d) = Some i" for d
    proof -
      from that(2) have "begun vw i"
        using system_okD(1,2) [OF ok, of d] by (cases "d < length (w_conns w)"; cases "?ph d") (auto simp: conn_ok_def phase_ok_def)
      with held_advance [OF per that(1)] call show ?thesis by auto
    qed
    show "a = b"
      using h fresh [of a] fresh [of b] system_okD(3) [OF ok, of a i b] system_okD(3) [OF ok, of c i b]
        system_okD(3) [OF ok, of a i c] unfolding log by (auto split: if_splits)
  next
    show "distinct (run_ids (w_log ?w))"
    proof (cases "new_runs = []")
      case False
      with one obtain i m where n: "new_runs = [(c, i, m)]" by auto
      with entry [of c i m] obtain h where "?ph c = Announced h i" by auto
      with cn(4) have "i \<notin> set ?ids" by (simp add: phase_ok_def)
      with n system_okD(4) [OF ok] show ?thesis unfolding log by simp
    qed (use system_okD(4) [OF ok] in \<open>simp only: log list.map append_Nil2\<close>)
  next
    fix x assume "x \<in> set (action_runs (w_log ?w))"
    then consider "x \<in> set (action_runs (w_log w))" | "x \<in> set new_runs" unfolding log by auto
    then show "run_ok env vw' (w_conns ?w) x"
    proof cases
      case 1
      from run_ok_keeps [OF k system_okD(5) [OF ok 1]] same show ?thesis by (rule run_ok_conns)
    next
      case 2
      obtain a i m where x: "x = (a, i, m)" by (cases x)
      with 2 one entry obtain h where a: "a = c" "?ph c = Announced h i" "executes rq m" by fastforce
      with cn(4) have "approved env role rq h" "snd vw i = Some h" "begun vw i" by (simp_all add: phase_ok_def)
      moreover from this begun_keeps [OF k] have "begun vw' i" "snd vw' i = Some h" by auto
      ultimately show ?thesis
        using a x cn(1,2) c by (fastforce simp: run_ok_def executes_def approved_def wf_request_def)
    qed
  next
    fix d nt pe r assume "Did d (Previewed nt pe r) \<in> set (w_log ?w)"
    then consider "Did d (Previewed nt pe r) \<in> set (w_log w)" | "d = c" "e = Previewed nt pe r" by auto
    then show "preview_ok env (w_conns ?w) d nt"
    proof cases
      case 1
      from system_okD(6) [OF ok 1] same show ?thesis by (rule preview_ok_conns)
    next
      case 2
      with per have "previews env role rq nt pe" by simp
      with 2 cn(1,2) c show ?thesis by (fastforce simp: previews_def preview_ok_def wf_request_def)
    qed
  qed
qed

end
