(* ===== verification/Executor_Safety.thy ===== *)
theory Executor_Safety
  imports Executor
begin

text \<open>
  What every action the executor can build looks like. A profile gives the risk level, the two flags and,
  for an action that runs a script, the shell operators of that script. \<open>arms_fit\<close> relates the arms to
  their profiles one by one: whatever the parameters, the specification has the profile's values, its
  script has exactly the profile's operators and a file it touches is a repository file.
\<close>

section \<open>Profiles\<close>

type_synonym spec_profile = "str \<times> risk_level \<times> bool \<times> bool \<times> str option"

definition deployment_profiles :: "spec_profile list" where
  "deployment_profiles =
    [(''GetSystemState'', Low, False, False, None),
     (''CollectDiagnostics'', Low, False, False, None),
     (''GetDeploymentHistory'', Low, False, False, None),
     (''ListDeployments'', Low, False, False, None),
     (''UpdateSystem'', High, True, True, None),
     (''CleanupDeployments'', High, False, False, None),
     (''RebootSystem'', High, True, False, None),
     (''RollbackDeployment'', High, True, False, None),
     (''GetKernelArguments'', Low, False, False, None),
     (''PinDeployment'', High, False, False, None),
     (''UnpinDeployment'', High, False, False, None),
     (''RebaseSystem'', High, True, True, None),
     (''SetKernelArguments'', High, True, True, None)]"

definition flatpak_profiles :: "spec_profile list" where
  "flatpak_profiles =
    [(''ListFlatpakRemotes'', Low, False, False, None),
     (''InstallFlatpak'', Medium, False, False, None),
     (''RemoveFlatpak'', Medium, False, False, None),
     (''SearchFlatpakApps'', Low, False, False, None),
     (''AddFlatpakRemote'', Medium, False, False, None),
     (''RemoveFlatpakRemote'', Medium, False, False, None),
     (''GetFlatpakAppInfo'', Low, False, False, None),
     (''ListInstalledFlatpaks'', Low, False, False, None),
     (''UpdateFlatpak'', Medium, False, False, None)]"

definition container_profiles :: "spec_profile list" where
  "container_profiles =
    [(''ListContainers'', Low, False, False, Some []),
     (''CreateContainer'', Medium, False, False, Some []),
     (''StartContainer'', Medium, False, False, Some []),
     (''StopContainer'', Medium, False, False, Some []),
     (''RemoveContainer'', Medium, False, False, Some []),
     (''GetContainerInfo'', Low, False, False, Some [])]"

definition layering_profiles :: "spec_profile list" where
  "layering_profiles =
    [(''GetLayeredPackages'', Low, False, False, None),
     (''ResetLayeredPackageOverride'', High, True, True, None),
     (''InstallPackages'', High, True, True, None),
     (''RemovePackages'', High, True, True, None),
     (''AddLayeredPackage'', High, True, True, None),
     (''RemoveLayeredPackage'', High, True, True, None),
     (''ReplaceLayeredPackage'', High, True, True, None),
     (''RemoveBasePackage'', High, True, True, None),
     (''GetPendingUpdates'', Low, False, False, None),
     (''ListPackageRepositories'', Low, False, False, None),
     (''AddPackageRepository'', High, False, False, None),
     (''RemovePackageRepository'', Medium, False, False, None),
     (''EnablePackageRepository'', Medium, False, False, None),
     (''DisablePackageRepository'', Medium, False, False, None)]"

definition service_profiles :: "spec_profile list" where
  "service_profiles =
    [(''ListServices'', Low, False, False, None),
     (''StartService'', Medium, False, False, None),
     (''StopService'', Medium, False, False, None),
     (''RestartService'', Medium, False, False, None),
     (''SetServiceEnabled'', Medium, False, False, None),
     (''MaskService'', High, False, False, None),
     (''UnmaskService'', Medium, False, False, None),
     (''GetServiceLogs'', Low, False, False, None),
     (''GetServiceStatus'', Low, False, False, None),
     (''ReloadService'', Medium, False, False, None),
     (''ListTimers'', Low, False, False, None),
     (''ReloadDaemon'', Medium, False, False, None)]"

definition toolbox_profiles :: "spec_profile list" where
  "toolbox_profiles =
    [(''ListToolboxes'', Low, False, False, Some ''=$()''),
     (''CreateToolbox'', Medium, False, False, Some ''=$()''),
     (''RemoveToolbox'', Medium, False, False, Some ''=$()'')]"

definition system_profiles :: "spec_profile list" where
  "system_profiles =
    [(''GetDateTime'', Low, False, False, None),
     (''SetHostname'', Medium, False, False, None),
     (''SetTimezone'', Medium, False, False, None),
     (''SetLocale'', Medium, False, False, None),
     (''SetNtp'', Medium, False, False, None),
     (''GetDiskUsage'', Low, False, False, None),
     (''ListProcesses'', Low, False, False, None),
     (''GetMemoryInfo'', Low, False, False, None),
     (''GetFirewallState'', Low, False, False, None),
     (''GetNetworkStatus'', Low, False, False, None),
     (''ConfigureWifi'', Medium, False, False, None),
     (''SetDnsServers'', High, False, False, None),
     (''ConfigureFirewall'', High, False, False, Some ''==&&'')]"

definition user_profiles :: "spec_profile list" where
  "user_profiles =
    [(''ListUsers'', Low, False, False, None),
     (''ListGroups'', Low, False, False, None),
     (''CreateUser'', High, False, False, None),
     (''DeleteUser'', High, False, False, None),
     (''AddUserToGroup'', High, False, False, Some ''||>>;''),
     (''RemoveUserFromGroup'', High, False, False, Some ''||>>;''),
     (''GetAuthorizedKeys'', Low, False, False, None),
     (''AddAuthorizedKey'', Medium, False, False, Some ''>||>>''),
     (''RemoveAuthorizedKey'', Medium, False, False, Some [])]"

definition apt_profiles :: "spec_profile list" where
  "apt_profiles =
    [(''AptUpdate'', Low, False, False, None),
     (''AptUpgrade'', High, False, False, None),
     (''AptInstall'', Medium, False, False, None),
     (''AptRemove'', Medium, False, False, None),
     (''AptPurge'', Medium, False, False, None),
     (''AptAutoremove'', Low, False, False, None),
     (''AptHold'', Medium, False, False, None),
     (''AptUnhold'', Medium, False, False, None),
     (''AptSearch'', Low, False, False, None),
     (''AptListInstalled'', Low, False, False, None),
     (''AptShow'', Low, False, False, None),
     (''AptListUpgradable'', Low, False, False, Some ''>''),
     (''AptHistoryList'', Low, False, False, Some ''|''),
     (''AddPpa'', Medium, False, True, None),
     (''RemovePpa'', Medium, False, True, None)]"

definition snap_profiles :: "spec_profile list" where
  "snap_profiles =
    [(''SnapInstall'', Medium, False, False, Some ''=&&''),
     (''SnapRemove'', Medium, False, False, None),
     (''SnapRefresh'', Medium, False, False, None),
     (''SnapHold'', Medium, False, False, None),
     (''SnapUnhold'', Medium, False, False, None),
     (''SnapList'', Low, False, False, None),
     (''SnapInfo'', Low, False, False, None),
     (''SnapRevert'', Medium, False, False, None),
     (''SnapClassicInstall'', Medium, False, False, None)]"

definition grub_profiles :: "spec_profile list" where
  "grub_profiles =
    [(''GrubGetKargs'', Low, False, False, None),
     (''GrubSetKargs'', High, True, True, None),
     (''CheckPendingReboot'', Low, False, False, Some '';;>;;'')]"

definition ufw_profiles :: "spec_profile list" where
  "ufw_profiles =
    [(''UfwEnable'', High, False, False, None),
     (''UfwDisable'', High, False, False, None),
     (''UfwAllow'', High, False, False, None),
     (''UfwDeny'', High, False, False, None),
     (''UfwReset'', High, False, False, None),
     (''UfwStatus'', Low, False, False, None),
     (''DistroboxList'', Low, False, False, None),
     (''DistroboxCreate'', Medium, False, False, None),
     (''DistroboxRemove'', Medium, False, False, None),
     (''NetplanGetConfig'', Low, False, False, None),
     (''NetplanApply'', High, False, False, None),
     (''NetplanSet'', High, False, True, None),
     (''NetplanGenerate'', Medium, False, False, None)]"

definition pro_profiles :: "spec_profile list" where
  "pro_profiles =
    [(''UfwDeleteRule'', High, False, False, None),
     (''UfwLimit'', High, False, False, None),
     (''ProStatus'', Low, False, False, None),
     (''ProAttach'', High, False, True, None),
     (''ProDetach'', High, False, True, None),
     (''LivepatchStatus'', Low, False, False, None),
     (''MultipassList'', Low, False, False, None),
     (''UbuntuReleaseUpgrade'', High, True, False, None),
     (''ResolvectlStatus'', Low, False, False, None),
     (''ResolvectlSetDns'', Medium, False, False, None)]"

definition apparmor_profiles :: "spec_profile list" where
  "apparmor_profiles =
    [(''AppArmorStatus'', Low, False, False, None),
     (''AppArmorEnforce'', High, False, False, None),
     (''AppArmorComplain'', Medium, False, False, None),
     (''CloudInitStatus'', Low, False, False, None),
     (''UbuntuInstallFlatpak'', Medium, False, False, None),
     (''UbuntuRemoveFlatpak'', Medium, False, False, None),
     (''UbuntuUpdateFlatpak'', Medium, False, False, None),
     (''UbuntuListFlatpaks'', Low, False, False, None)]"

definition fail2ban_profiles :: "spec_profile list" where
  "fail2ban_profiles =
    [(''Fail2banStatus'', Low, False, False, None),
     (''Fail2banBanIp'', High, False, False, None),
     (''Fail2banUnbanIp'', Medium, False, False, None)]"

definition spec_profiles :: "spec_profile list" where
  "spec_profiles =
    deployment_profiles @ flatpak_profiles @ container_profiles @ layering_profiles @ service_profiles @ toolbox_profiles @ system_profiles @ user_profiles @ apt_profiles @ snap_profiles @ grub_profiles @ ufw_profiles @ pro_profiles @ apparmor_profiles @ fail2ban_profiles"
section \<open>Fitting a profile\<close>

definition script_fits :: "action_spec \<Rightarrow> str option \<Rightarrow> bool" where
  "script_fits spec ops =
    (case shell_script spec of None \<Rightarrow> True | Some s \<Rightarrow> ops \<noteq> None \<and> shell_operators s = ops)"

definition repo_id_char :: "char \<Rightarrow> bool" where
  "repo_id_char c = (is_ascii_alphanumeric c \<or> c = CHR ''-'' \<or> c = CHR ''_'')"

definition repo_path :: "str \<Rightarrow> bool" where
  "repo_path p \<longleftrightarrow>
    (\<exists>i. p = ''/etc/yum.repos.d/'' @ i @ ''.repo'' \<and> i \<noteq> [] \<and> list_all repo_id_char i)"

fun file_confined :: "mechanism \<Rightarrow> bool" where
  "file_confined (Command _ _) = True"
| "file_confined (FileScan p) = (p = ''/etc/yum.repos.d'')"
| "file_confined (FileWrite p _) = repo_path p"
| "file_confined (FilePatch p _ _) = repo_path p"
| "file_confined (FileDelete p) = repo_path p"

fun fits :: "action_spec \<Rightarrow> spec_profile \<Rightarrow> bool" where
  "fits spec (n, r, b, k, ops) =
    (sp_action_name spec = n \<and> sp_risk_level spec = r \<and> sp_reboot_required spec = b \<and>
     sp_rollback_available spec = k \<and> script_fits spec ops \<and> file_confined (sp_mechanism spec))"

definition arm_fits :: "str \<times> (json \<Rightarrow> (executor_error, action_spec) result) \<Rightarrow> spec_profile \<Rightarrow> bool" where
  "arm_fits arm p \<longleftrightarrow> fst arm = fst p \<and> (\<forall>ps spec. snd arm ps = Inr spec \<longrightarrow> fits spec p)"

lemma arm_fitsI: "n = fst p \<Longrightarrow> (\<And>ps spec. h ps = Inr spec \<Longrightarrow> fits spec p) \<Longrightarrow> arm_fits (n, h) p"
  by (simp add: arm_fits_def)

section \<open>Parameters are quotable\<close>

abbreviation no_quote :: "str \<Rightarrow> bool" where
  "no_quote s \<equiv> CHR 0x27 \<notin> set s"

lemma user_param_inert: "user_param ps = Inr u \<Longrightarrow> shell_inert u"
  by (auto simp: user_param_def rbind_eq_Inr_conv dest: validated_inert(1))

lemma safe_param_inert: "safe_param ps k = Inr s \<Longrightarrow> shell_inert s"
  by (auto simp: safe_param_def checked_param_def rbind_eq_Inr_conv dest: validated_inert(7))

lemma group_param_inert: "checked_param validated_group ps k = Inr s \<Longrightarrow> shell_inert s"
  by (auto simp: checked_param_def rbind_eq_Inr_conv dest: validated_inert(2))

lemma opt_checked_inert: "opt_checked ps k = Inr (Some s) \<Longrightarrow> shell_inert s"
  by (auto simp: opt_checked_def rbind_eq_Inr_conv dest: validated_inert(7) split: option.splits if_splits)

lemma opt_checked_any_inert: "opt_checked_any ps k = Inr (Some s) \<Longrightarrow> shell_inert s"
  by (auto simp: opt_checked_any_def rbind_eq_Inr_conv dest: validated_inert(7) split: option.splits)

lemma public_key_no_quote: "validated_public_key s = Inr t \<Longrightarrow> no_quote t"
  by (auto simp: validated_public_key_Inr list_all_iff public_key_forbidden_def)

lemma safe_no_quote: "safe_param ps k = Inr s \<Longrightarrow> no_quote s"
  by (rule inert_no_quote) (rule safe_param_inert)

lemma user_no_quote: "user_param ps = Inr s \<Longrightarrow> no_quote s"
  by (rule inert_no_quote) (rule user_param_inert)

lemma group_no_quote: "checked_param validated_group ps k = Inr s \<Longrightarrow> no_quote s"
  by (rule inert_no_quote) (rule group_param_inert)

lemma opt_any_no_quote: "opt_checked_any ps k = Inr (Some s) \<Longrightarrow> no_quote s"
  by (rule inert_no_quote) (rule opt_checked_any_inert)

lemma repo_id_path: "validated_repo_id ps = Inr i \<Longrightarrow> repo_path (''/etc/yum.repos.d/'' @ i @ ''.repo'')"
  unfolding repo_path_def
  by (intro exI [of _ i]) (simp add: validated_repo_id_Inr repo_id_char_def [abs_def])

section \<open>Scripts\<close>

text \<open>Rewriting of \<open>shell_operators\<close> over a script whose holes are quoted or inert.\<close>

lemma ops_Nil: "shell_operators [] = Some []"
  by (simp add: shell_operators_def)

lemma ops_Cons: "c \<noteq> CHR 0x27 \<Longrightarrow> shell_operators (c # s) =
    (if safe_arg_char c \<or> c = CHR '' '' then shell_operators s else map_option ((#) c) (shell_operators s))"
  by (auto simp: shell_operators_def split: prod.splits bool.splits)

lemma ops_quoted: "no_quote x \<Longrightarrow> shell_operators (quoted x @ s) = shell_operators s"
  by (simp add: shell_operators_def scan_quotes_append)

lemma ops_quoted_end: "no_quote x \<Longrightarrow> shell_operators (quoted x) = Some []"
  by (simp add: shell_operators_def)

lemma ops_inert: "shell_inert x \<Longrightarrow> shell_operators (x @ s) = shell_operators s"
  by (auto simp: shell_operators_def scan_quotes_append scan_quotes_plain inert_no_quote
      filter_False list_all_iff split: prod.splits bool.splits)

lemma ops_inert_end: "shell_inert x \<Longrightarrow> shell_operators x = Some []"
  using piece_inert by (simp add: piece_ops_def)

text \<open>Printable characters, decided once.\<close>

lemma safe_chars:
  "safe_arg_char (CHR ''a'')" "safe_arg_char (CHR ''b'')" "safe_arg_char (CHR ''c'')"
  "safe_arg_char (CHR ''d'')" "safe_arg_char (CHR ''e'')" "safe_arg_char (CHR ''f'')"
  "safe_arg_char (CHR ''g'')" "safe_arg_char (CHR ''h'')" "safe_arg_char (CHR ''i'')"
  "safe_arg_char (CHR ''j'')" "safe_arg_char (CHR ''k'')" "safe_arg_char (CHR ''l'')"
  "safe_arg_char (CHR ''m'')" "safe_arg_char (CHR ''n'')" "safe_arg_char (CHR ''o'')"
  "safe_arg_char (CHR ''p'')" "safe_arg_char (CHR ''q'')" "safe_arg_char (CHR ''r'')"
  "safe_arg_char (CHR ''s'')" "safe_arg_char (CHR ''t'')" "safe_arg_char (CHR ''u'')"
  "safe_arg_char (CHR ''v'')" "safe_arg_char (CHR ''w'')" "safe_arg_char (CHR ''x'')"
  "safe_arg_char (CHR ''y'')" "safe_arg_char (CHR ''z'')" "safe_arg_char (CHR ''A'')"
  "safe_arg_char (CHR ''B'')" "safe_arg_char (CHR ''C'')" "safe_arg_char (CHR ''D'')"
  "safe_arg_char (CHR ''E'')" "safe_arg_char (CHR ''F'')" "safe_arg_char (CHR ''G'')"
  "safe_arg_char (CHR ''H'')" "safe_arg_char (CHR ''I'')" "safe_arg_char (CHR ''J'')"
  "safe_arg_char (CHR ''K'')" "safe_arg_char (CHR ''L'')" "safe_arg_char (CHR ''M'')"
  "safe_arg_char (CHR ''N'')" "safe_arg_char (CHR ''O'')" "safe_arg_char (CHR ''P'')"
  "safe_arg_char (CHR ''Q'')" "safe_arg_char (CHR ''R'')" "safe_arg_char (CHR ''S'')"
  "safe_arg_char (CHR ''T'')" "safe_arg_char (CHR ''U'')" "safe_arg_char (CHR ''V'')"
  "safe_arg_char (CHR ''W'')" "safe_arg_char (CHR ''X'')" "safe_arg_char (CHR ''Y'')"
  "safe_arg_char (CHR ''Z'')" "safe_arg_char (CHR ''0'')" "safe_arg_char (CHR ''1'')"
  "safe_arg_char (CHR ''2'')" "safe_arg_char (CHR ''3'')" "safe_arg_char (CHR ''4'')"
  "safe_arg_char (CHR ''5'')" "safe_arg_char (CHR ''6'')" "safe_arg_char (CHR ''7'')"
  "safe_arg_char (CHR ''8'')" "safe_arg_char (CHR ''9'')" "safe_arg_char (CHR ''.'')"
  "safe_arg_char (CHR ''_'')" "safe_arg_char (CHR '':'')" "safe_arg_char (CHR ''/'')"
  "safe_arg_char (CHR ''+'')" "safe_arg_char (CHR ''@'')" "safe_arg_char (CHR ''-'')"
  by (simp_all add: safe_arg_char_def ascii_defs)

lemma active_chars:
  "\<not> safe_arg_char (CHR '' '')" "\<not> safe_arg_char (CHR ''!'')" "\<not> safe_arg_char (CHR 0x22)"
  "\<not> safe_arg_char (CHR ''#'')" "\<not> safe_arg_char (CHR ''$'')" "\<not> safe_arg_char (CHR ''%'')"
  "\<not> safe_arg_char (CHR ''&'')" "\<not> safe_arg_char (CHR 0x27)" "\<not> safe_arg_char (CHR ''('')"
  "\<not> safe_arg_char (CHR '')'')" "\<not> safe_arg_char (CHR ''*'')" "\<not> safe_arg_char (CHR '','')"
  "\<not> safe_arg_char (CHR '';'')" "\<not> safe_arg_char (CHR ''<'')" "\<not> safe_arg_char (CHR ''='')"
  "\<not> safe_arg_char (CHR ''>'')" "\<not> safe_arg_char (CHR ''?'')" "\<not> safe_arg_char (CHR ''['')"
  "\<not> safe_arg_char (CHR 0x5C)" "\<not> safe_arg_char (CHR '']'')" "\<not> safe_arg_char (CHR ''^'')"
  "\<not> safe_arg_char (CHR 0x60)" "\<not> safe_arg_char (CHR ''{'')" "\<not> safe_arg_char (CHR ''|'')"
  "\<not> safe_arg_char (CHR ''}'')" "\<not> safe_arg_char (CHR ''~'')"
  by (simp_all add: safe_arg_char_def ascii_defs)

lemmas ops_simps = ops_Nil ops_Cons ops_quoted ops_quoted_end ops_inert ops_inert_end
  safe_chars active_chars

section \<open>Every arm fits its profile\<close>

lemmas fit_simps = script_fits_def shell_script_def command_script_def mechanism_defs ops_simps
lemmas no_quotes = safe_no_quote user_no_quote group_no_quote opt_any_no_quote

lemma fit_deployment: "list_all2 arm_fits deployment_arms deployment_profiles"
  unfolding deployment_arms_def deployment_profiles_def list.rel_inject
  by (intro conjI arm_fitsI list.rel_intros(1); clarsimp simp: rbind_eq_Inr_conv)
     (simp_all add: fit_simps deployment_defs)

lemma fit_flatpak: "list_all2 arm_fits flatpak_arms flatpak_profiles"
  unfolding flatpak_arms_def flatpak_profiles_def list.rel_inject
  by (intro conjI arm_fitsI list.rel_intros(1); clarsimp simp: rbind_eq_Inr_conv)
     (simp_all add: fit_simps flatpak_defs split: option.splits)

lemma fit_container: "list_all2 arm_fits container_arms container_profiles"
  unfolding container_arms_def container_profiles_def list.rel_inject
  by (intro conjI arm_fitsI list.rel_intros(1); clarsimp simp: rbind_eq_Inr_conv)
     (simp_all add: fit_simps containers_defs no_quotes)

lemma fit_layering: "list_all2 arm_fits layering_arms layering_profiles"
  unfolding layering_arms_def layering_profiles_def list.rel_inject
  by (intro conjI arm_fitsI list.rel_intros(1); clarsimp simp: rbind_eq_Inr_conv)
     (simp_all add: fit_simps layering_defs package_repos_defs repo_id_path [simplified])

lemma fit_service: "list_all2 arm_fits service_arms service_profiles"
  unfolding service_arms_def service_profiles_def list.rel_inject
  by (intro conjI arm_fitsI list.rel_intros(1); clarsimp simp: rbind_eq_Inr_conv)
     (simp_all add: fit_simps services_defs)

lemma fit_toolbox: "list_all2 arm_fits toolbox_arms toolbox_profiles"
  unfolding toolbox_arms_def toolbox_profiles_def list.rel_inject
  by (intro conjI arm_fitsI list.rel_intros(1); clarsimp simp: rbind_eq_Inr_conv)
     (auto simp: fit_simps toolbox_defs no_quotes split: option.split)

lemma fit_system: "list_all2 arm_fits system_arms system_profiles"
  unfolding system_arms_def system_profiles_def list.rel_inject
  by (intro conjI arm_fitsI list.rel_intros(1); clarsimp simp: rbind_eq_Inr_conv)
     (simp_all add: fit_simps identity_defs filesystem_defs processes_defs system_info_defs network_defs no_quotes)

lemma home_no_quote: "no_quote u \<Longrightarrow> no_quote (''/home/'' @ u @ ''/.ssh/authorized_keys'')"
  by simp

lemma fit_user: "list_all2 arm_fits user_arms user_profiles"
  unfolding user_arms_def user_profiles_def list.rel_inject
  by (intro conjI arm_fitsI list.rel_intros(1); clarsimp simp: rbind_eq_Inr_conv)
     (simp_all add: fit_simps users_defs ssh_defs Let_def no_quotes public_key_no_quote)

lemma fit_apt: "list_all2 arm_fits apt_arms apt_profiles"
  unfolding apt_arms_def apt_profiles_def list.rel_inject
  by (intro conjI arm_fitsI list.rel_intros(1); clarsimp simp: rbind_eq_Inr_conv)
     (simp_all add: fit_simps apt_defs ppa_defs ADD_APT_REPOSITORY_def)

lemma snap_channel_inert: "opt_checked ps k = Inr c \<Longrightarrow> shell_inert (unwrap_or c ''stable'')"
  by (cases c) (simp_all add: safe_chars opt_checked_inert)

lemma fit_snap: "list_all2 arm_fits snap_arms snap_profiles"
  unfolding snap_arms_def snap_profiles_def list.rel_inject
  by (intro conjI arm_fitsI list.rel_intros(1); clarsimp simp: rbind_eq_Inr_conv)
     (simp_all add: fit_simps snap_defs Let_def safe_param_inert snap_channel_inert split: option.split)

lemma fit_grub: "list_all2 arm_fits grub_arms grub_profiles"
  unfolding grub_arms_def grub_profiles_def list.rel_inject
  by (intro conjI arm_fitsI list.rel_intros(1); clarsimp simp: rbind_eq_Inr_conv Let_def)
     (auto simp: fit_simps grub_defs reboot_defs REBOOT_REQUIRED_FILE_def REBOOT_REQUIRED_PKGS_FILE_def
       GRUB_KARGS_HELPER_def map_err_def split: if_splits sum.splits)

lemma fit_ufw: "list_all2 arm_fits ufw_arms ufw_profiles"
  unfolding ufw_arms_def ufw_profiles_def list.rel_inject
  by (intro conjI arm_fitsI list.rel_intros(1); clarsimp simp: rbind_eq_Inr_conv)
     (simp_all add: fit_simps ufw_defs distrobox_defs netplan_defs)

lemma fit_pro: "list_all2 arm_fits pro_arms pro_profiles"
  unfolding pro_arms_def pro_profiles_def list.rel_inject
  by (intro conjI arm_fitsI list.rel_intros(1); clarsimp simp: rbind_eq_Inr_conv Let_def)
     (auto simp: fit_simps ufw_defs ubuntu_pro_defs livepatch_defs multipass_defs release_upgrade_defs
       resolvectl_defs map_err_def rbind_eq_Inr_conv split: if_splits sum.splits)

lemma fit_apparmor: "list_all2 arm_fits apparmor_arms apparmor_profiles"
  unfolding apparmor_arms_def apparmor_profiles_def list.rel_inject
  by (intro conjI arm_fitsI list.rel_intros(1); clarsimp simp: rbind_eq_Inr_conv)
     (simp_all add: fit_simps apparmor_defs cloudinit_defs flatpak_defs split: option.split)

lemma fit_fail2ban: "list_all2 arm_fits fail2ban_arms fail2ban_profiles"
  unfolding fail2ban_arms_def fail2ban_profiles_def list.rel_inject
  by (intro conjI arm_fitsI list.rel_intros(1); clarsimp simp: rbind_eq_Inr_conv)
     (auto simp: fit_simps fail2ban_defs map_err_def split: if_splits option.splits sum.splits)

theorem arms_fit: "list_all2 arm_fits action_arms spec_profiles"
  unfolding action_arms_def spec_profiles_def
  by (intro list_all2_appendI fit_deployment fit_flatpak fit_container fit_layering fit_service fit_toolbox
      fit_system fit_user fit_apt fit_snap fit_grub fit_ufw fit_pro fit_apparmor fit_fail2ban)

section \<open>Consequences\<close>

lemma list_all2_map_of:
  "list_all2 arm_fits arms ps \<Longrightarrow> map_of arms n = Some h \<Longrightarrow>
   \<exists>p. map_of ps n = Some p \<and> arm_fits (n, h) (n, p)"
  by (induction arms ps rule: list_all2_induct) (auto simp: arm_fits_def split: if_splits)

lemma find_arm: "map_of (xs @ ys) n = (case map_of xs n of Some h \<Rightarrow> Some h | None \<Rightarrow> map_of ys n)"
  by (auto simp: map_add_def split: option.split)

lemma build_inv:
  assumes "build_action_spec n ps = Inr spec"
  obtains h where "map_of action_arms n = Some h" "h ps = Inr spec"
  using assms by (auto simp: build_action_spec_def split: option.splits)

lemma build_fits:
  assumes "build_action_spec n ps = Inr spec"
  obtains p where "map_of spec_profiles n = Some p" "fits spec (n, p)"
proof -
  obtain h where h: "map_of action_arms n = Some h" "h ps = Inr spec" using assms by (rule build_inv)
  from list_all2_map_of [OF arms_fit h(1)] obtain p where
    p: "map_of spec_profiles n = Some p" "arm_fits (n, h) (n, p)" by auto
  with h(2) have "fits spec (n, p)" by (auto simp: arm_fits_def)
  with p(1) show ?thesis by (rule that)
qed

lemma build_confined: "build_action_spec n ps = Inr spec \<Longrightarrow> file_confined (sp_mechanism spec)"
  by (erule build_fits) (auto elim!: fits.elims)

end
