(* ===== verification/Approval_Binding.thy ===== *)
theory Approval_Binding
  imports Executor_Safety Request_Hash
begin

text \<open>
  What an approval covers. The readers of parameters do not see the order of keys, so the action built from
  a request depends on the sorted parameters only; with the unique decoding of canonical JSON, two requests
  with the same hash build the same action, or exhibit a SHA-256 collision.
\<close>

section \<open>Readers ignore the order of keys\<close>

named_theorems sorted_simps

lemma as_str_sort [simp]: "as_str (sort_json v) = as_str v"
  by (cases v) simp_all

lemma as_bool_sort [simp]: "as_bool (sort_json v) = as_bool v"
  by (cases v) simp_all

lemma as_u64_sort [simp]: "as_u64 (sort_json v) = as_u64 v"
  by (cases v) simp_all

lemma map_of_sort_key: "distinct (map fst m) \<Longrightarrow> map_of (sort_key fst m) = map_of m"
  by (rule map_of_eqI) (auto simp: map_of_eq_Some_iff distinct_map)

lemma json_get_sort:
  assumes "wf_json p" shows "json_get (sort_json p) k = map_option sort_json (json_get p k)"
proof (cases p)
  case (JObject m)
  have "map_of (map (\<lambda>(k, v). (k, sort_json v)) m) k = map_option sort_json (map_of m k)"
    by (induction m) auto
  moreover have "distinct (map fst (map (\<lambda>(k, v). (k, sort_json v)) m))"
    using assms JObject by (simp add: o_def case_prod_beta)
  ultimately show ?thesis using JObject by (simp add: map_of_sort_key)
qed simp_all

lemma get_str_sort [sorted_simps]: "wf_json p \<Longrightarrow> get_str (sort_json p) k = get_str p k"
  by (cases "json_get p k") (simp_all add: get_str_def json_get_sort)

lemma get_bool_sort [sorted_simps]: "wf_json p \<Longrightarrow> get_bool (sort_json p) k = get_bool p k"
  by (cases "json_get p k") (simp_all add: get_bool_def json_get_sort)

lemma require_str_sort [sorted_simps]: "wf_json p \<Longrightarrow> require_str (sort_json p) k = require_str p k"
  by (cases "json_get p k") (simp_all add: require_str_def json_get_sort)

lemma require_bool_sort [sorted_simps]: "wf_json p \<Longrightarrow> require_bool (sort_json p) k = require_bool p k"
  by (cases "json_get p k") (simp_all add: require_bool_def json_get_sort)

lemma require_u32_sort [sorted_simps]: "wf_json p \<Longrightarrow> require_u32 (sort_json p) k = require_u32 p k"
  by (cases "json_get p k") (simp_all add: require_u32_def json_get_sort)

lemma resolve_username_sort [sorted_simps]: "wf_json p \<Longrightarrow> resolve_username (sort_json p) = resolve_username p"
  by (cases "json_get p ''username''"; cases "json_get p ''user''")
     (simp_all add: resolve_username_def json_get_sort)

lemma str_array_sort [sorted_simps]: "wf_json p \<Longrightarrow> str_array_or_empty (sort_json p) k = str_array_or_empty p k"
proof -
  assume "wf_json p"
  moreover have "map_result (\<lambda>v. ok_or (as_str v) (InvalidParam k)) (map sort_json arr) =
      map_result (\<lambda>v. ok_or (as_str v) (InvalidParam k)) arr" for arr
    by (induction arr) simp_all
  ultimately show ?thesis
    by (auto simp: str_array_or_empty_def json_get_sort split: option.split json.split)
qed

lemma str_items_sort [sorted_simps]: "wf_json p \<Longrightarrow> str_items (sort_json p) k = str_items p k"
proof -
  assume "wf_json p"
  moreover have "List.map_filter as_str (map sort_json arr) = List.map_filter as_str arr" for arr
    by (induction arr) (simp_all add: List.map_filter_simps split: option.split)
  moreover have "as_array (sort_json v) = map_option (map sort_json) (as_array v)" for v
    by (cases v) simp_all
  ultimately show ?thesis
    by (cases "json_get p k"; simp add: str_items_def json_get_sort split: option.split)
qed

lemma readers_sort [sorted_simps]:
  assumes "wf_json p"
  shows "user_param (sort_json p) = user_param p"
    and "checked_param validate (sort_json p) k = checked_param validate p k"
    and "safe_param (sort_json p) k = safe_param p k"
    and "opt_checked (sort_json p) k = opt_checked p k"
    and "opt_checked_any (sort_json p) k = opt_checked_any p k"
    and "require_positive_u32 (sort_json p) k = require_positive_u32 p k"
    and "validated_repo_id (sort_json p) = validated_repo_id p"
    and "validated_no_newline (sort_json p) k = validated_no_newline p k"
  using assms
  by (simp_all add: user_param_def checked_param_def safe_param_def opt_checked_def opt_checked_any_def
      require_positive_u32_def validated_repo_id_def validated_no_newline_def sorted_simps)

section \<open>So does every arm\<close>

definition order_blind :: "arms \<Rightarrow> bool" where
  "order_blind arms \<longleftrightarrow> (\<forall>ps. wf_json ps \<longrightarrow> list_all (\<lambda>(n, h). h (sort_json ps) = h ps) arms)"

lemma order_blind_append: "order_blind xs \<Longrightarrow> order_blind ys \<Longrightarrow> order_blind (xs @ ys)"
  by (simp add: order_blind_def)

lemma arms_blind:
  "order_blind deployment_arms" "order_blind flatpak_arms" "order_blind container_arms"
  "order_blind layering_arms" "order_blind service_arms" "order_blind toolbox_arms"
  "order_blind system_arms" "order_blind user_arms" "order_blind apt_arms" "order_blind snap_arms"
  "order_blind grub_arms" "order_blind ufw_arms" "order_blind pro_arms" "order_blind apparmor_arms"
  "order_blind fail2ban_arms"
  by (simp_all add: order_blind_def sorted_simps deployment_arms_def flatpak_arms_def container_arms_def
      layering_arms_def service_arms_def toolbox_arms_def system_arms_def user_arms_def apt_arms_def
      snap_arms_def grub_arms_def ufw_arms_def pro_arms_def apparmor_arms_def fail2ban_arms_def)

lemma build_sort: "wf_json ps \<Longrightarrow> build_action_spec n (sort_json ps) = build_action_spec n ps"
proof -
  assume "wf_json ps"
  moreover have "order_blind action_arms"
    unfolding action_arms_def by (intro order_blind_append arms_blind)
  ultimately show ?thesis
    by (force simp: build_action_spec_def order_blind_def list_all_iff split: option.split dest: map_of_SomeD)
qed

section \<open>The hash binds the action\<close>

lemma spec_names_plain: "list_all (\<lambda>p. CHR 0x00 \<notin> set (fst p)) spec_profiles"
  unfolding spec_profiles_def deployment_profiles_def flatpak_profiles_def container_profiles_def
    layering_profiles_def service_profiles_def toolbox_profiles_def system_profiles_def user_profiles_def
    apt_profiles_def snap_profiles_def grub_profiles_def ufw_profiles_def pro_profiles_def
    apparmor_profiles_def fail2ban_profiles_def list_all_append
  by (intro conjI; simp only: list.pred_inject fst_conv list.set insert_iff empty_iff char.inject simp_thms)

lemma build_name_plain: "build_action_spec n ps = Inr spec \<Longrightarrow> CHR 0x00 \<notin> set n"
  using spec_names_plain by (elim build_fits) (force simp: list_all_iff dest: map_of_SomeD)

lemma request_text_eq:
  assumes "CHR 0x00 \<notin> set n" "CHR 0x00 \<notin> set n'"
  shows "n @ [CHR 0x00] @ c = n' @ [CHR 0x00] @ c' \<longleftrightarrow> n = n' \<and> c = c'"
  using assms by (auto simp: append_eq_append_conv2 append_eq_Cons_conv Cons_eq_append_conv)

definition sha_collision :: "externs \<Rightarrow> bool" where
  "sha_collision ext \<longleftrightarrow> (\<exists>a b. a \<noteq> b \<and> ex_sha256 ext a = ex_sha256 ext b)"

text \<open>C9. An approval binds exactly one action: two requests that the executor accepts and that have the
  same request hash have the same name and build the same command, whatever the order of their
  parameters' keys, unless SHA-256 collides.\<close>

theorem hash_binds_action:
  assumes "json_text_laws ext" "wf_json ps" "wf_json ps'"
    and "build_action_spec n ps = Inr spec" "build_action_spec n' ps' = Inr spec'"
    and "compute_request_hash ext n ps = compute_request_hash ext n' ps'"
  shows "n = n' \<and> spec = spec' \<or> sha_collision ext"
proof (cases "sha_collision ext")
  case False
  from assms(6) have "ex_sha256 ext (n @ [CHR 0x00] @ canonical_json ext ps) =
      ex_sha256 ext (n' @ [CHR 0x00] @ canonical_json ext ps')"
    by (simp only: compute_request_hash_def hex_encode_inj)
  with False have "n @ [CHR 0x00] @ canonical_json ext ps = n' @ [CHR 0x00] @ canonical_json ext ps'"
    unfolding sha_collision_def by metis
  then have eq: "n = n'" "sort_json ps = sort_json ps'"
    using request_text_eq [OF build_name_plain [OF assms(4)] build_name_plain [OF assms(5)]]
      canonical_json_eq [OF assms(1)] by auto
  then have "build_action_spec n ps = build_action_spec n' ps'"
    using build_sort [OF assms(2), of n] build_sort [OF assms(3), of n'] by simp
  with assms(4,5) eq show ?thesis by simp
qed simp

text \<open>A concrete rendering with these laws: a string is written with an escape for quotes and escapes, a
  number as its kind and its bits.\<close>

definition esc_char :: "char \<Rightarrow> str" where
  "esc_char c = (if c = CHR 0x22 then [CHR 0x5C, CHR ''q''] else if c = CHR 0x5C then [CHR 0x5C, CHR 0x5C] else [c])"

interpretation json_string: escaped_code esc_char "CHR 0x22"
  by unfold_locales (auto simp: esc_char_def split: if_splits)

fun plain_number :: "json_number \<Rightarrow> str" where
  "plain_number (PosInt n) = show_nat (unat n)"
| "plain_number (NegInt n) = CHR ''-'' # show_nat (unat n)"
| "plain_number (JFloat n) = CHR ''.'' # show_nat (unat n)"

definition text_externs :: externs where
  "text_externs = plain_externs\<lparr>ex_json_quote := \<lambda>s. CHR 0x22 # json_string.field s, ex_json_number := plain_number\<rparr>"

lemma plain_number_inj: "plain_number m = plain_number n \<longleftrightarrow> m = n"
proof -
  have "CHR ''-'' \<notin> set (show_nat a)" "CHR ''.'' \<notin> set (show_nat a)" for a
    using show_nat_digits [of "CHR ''-''" a] show_nat_digits [of "CHR ''.''" a] by (auto simp: ascii_defs)
  then have "show_nat a \<noteq> CHR ''-'' # r" "show_nat a \<noteq> CHR ''.'' # r" for a r
    by (metis list.set_intros(1))+
  then show ?thesis
    by (cases m; cases n) (auto simp: show_nat_inj word_unat_eq_iff dest: sym)
qed

lemma text_externs_laws: "json_text_laws text_externs"
  unfolding json_text_laws_def
proof (intro conjI allI)
  fix s t x y n
  show "ex_json_quote text_externs s @ x = ex_json_quote text_externs t @ y \<longrightarrow> s = t \<and> x = y"
    by (simp add: text_externs_def json_string.field.enc_append_iff)
  show "\<exists>r. ex_json_quote text_externs s = CHR 0x22 # r" by (simp add: text_externs_def)
  show "ex_json_number text_externs n \<noteq> []" "list_all number_char (ex_json_number text_externs n)"
    by (cases n; simp add: text_externs_def show_nat_nonempty list_all_iff number_char_def show_nat_digits)+
next
  fix m n show "ex_json_number text_externs m = ex_json_number text_externs n \<longrightarrow> m = n"
    by (simp add: text_externs_def plain_number_inj)
qed

text \<open>Two orders of the same parameters.\<close>

definition start_request :: json where
  "start_request = JObject [(''username'', JString ''ann''), (''name'', JString ''db'')]"

definition start_request' :: json where
  "start_request' = JObject [(''name'', JString ''db''), (''username'', JString ''ann'')]"

lemma start_request_build:
  "build_action_spec ''StartContainer'' start_request = Inr (start_container ''ann'' ''db'')"
  "build_action_spec ''StartContainer'' start_request' = Inr (start_container ''ann'' ''db'')"
  by (simp_all add: start_request_def start_request'_def build_action_spec_def action_arms_def find_arm
      deployment_arms_def flatpak_arms_def container_arms_def safe_param_def checked_param_def
      require_str_def validated_safe_arg_def ascii_defs SAFE_ARG_MAX_BYTES_def starts_with_char
      user_param_def resolve_username_def validated_username_def del: map_of_append)

lemma start_request_sort: "sort_json start_request = sort_json start_request'"
  by (simp add: start_request_def start_request'_def sort_key_def)

theorem hash_binds_action_witness:
  "''StartContainer'' = ''StartContainer'' \<and> start_container ''ann'' ''db'' = start_container ''ann'' ''db'' \<or>
   sha_collision text_externs"
proof (rule hash_binds_action [OF text_externs_laws _ _ start_request_build])
  show "wf_json start_request" "wf_json start_request'"
    by (simp_all add: start_request_def start_request'_def)
  show "compute_request_hash text_externs ''StartContainer'' start_request =
    compute_request_hash text_externs ''StartContainer'' start_request'"
    by (simp only: compute_request_hash_def canonical_display start_request_sort)
qed

end
