(* ===== verification/Dispatch_Properties.thy ===== *)
theory Dispatch_Properties
  imports Dispatch_Protocol Approval_Binding
begin

text \<open>
  What the protocol gives for one request: the calls that precede a run, the truth of the recorded status,
  exactly one reply, and what previews and descriptions show of a credential.
\<close>

section \<open>What a phase remembers\<close>

inductive monitored :: "(phase \<Rightarrow> event \<Rightarrow> bool) \<Rightarrow> event list \<Rightarrow> phase \<Rightarrow> bool" for ok where
  start: "monitored ok [] Idle"
| step: "monitored ok es ph \<Longrightarrow> ok ph e \<Longrightarrow> monitored ok (es @ [e]) (advance ph e)"

lemma monitored_follow:
  "monitored ok es ph \<Longrightarrow> obeys p ok ph \<Longrightarrow> follow p fs = Some q \<Longrightarrow>
     \<exists>ph'. monitored ok (es @ fs) ph' \<and> obeys q ok ph'"
proof (induction fs arbitrary: es ph p)
  case (Cons e fs)
  then obtain p' where p': "react p e = Some p'" "follow p' fs = Some q"
    by (auto simp: Option.bind_eq_Some_conv)
  with Cons.prems(2) have "ok ph e" "obeys p' ok (advance ph e)" using obeys_react by blast+
  with Cons.IH [of "es @ [e]" "advance ph e" p'] Cons.prems(1) p'(2) show ?case
    by (auto intro: monitored.step)
qed auto

lemma request_monitored:
  "follow (handle_request env role rq) es = Some q \<Longrightarrow>
     \<exists>ph. monitored (permitted env role rq) es ph \<and> obeys q (permitted env role rq) ph"
  using monitored_follow [OF monitored.start handle_request_obeys] by simp

text \<open>The calls that consent to a run, in their order.\<close>

definition consent :: "str \<Rightarrow> str \<Rightarrow> event list \<Rightarrow> bool" where
  "consent h i es \<longleftrightarrow> (\<exists>tx rid job. tr_transaction_id tx = i \<and>
     subseq [FoundHash h (Inr (Some tx)), ClaimedTx i (Inr True), Sent (JobStarted rid job i) True] es)"

text \<open>The runs of a path: of the requested action once, or of the action and then of its rollback.\<close>

definition runs :: "event list \<Rightarrow> event list" where
  "runs es = filter (\<lambda>e. run_of e \<noteq> None) es"

definition ran_once :: "daemon_request \<Rightarrow> bool \<Rightarrow> event list \<Rightarrow> bool" where
  "ran_once rq ok es \<longleftrightarrow> (\<exists>e m. runs es = [e] \<and> run_of e = Some m \<and> executes rq m \<and> run_succeeds e = ok)"

definition ran_back :: "daemon_request \<Rightarrow> bool \<Rightarrow> event list \<Rightarrow> bool" where
  "ran_back rq ok es \<longleftrightarrow> (\<exists>e m e' m'. runs es = [e, e'] \<and> run_of e = Some m \<and> executes rq m \<and> \<not> run_succeeds e \<and>
     run_of e' = Some m' \<and> reverts rq m' \<and> run_succeeds e' = ok)"

text \<open>How a claimed transaction ends.\<close>

fun happened :: "daemon_request \<Rightarrow> event list \<Rightarrow> job_state \<Rightarrow> bool" where
  "happened rq es Succeeded = ran_once rq True es"
| "happened rq es NeedsReboot = ran_once rq True es"
| "happened rq es Failed = (ran_once rq False es \<or> ran_back rq False es)"
| "happened rq es RolledBack = ran_back rq True es"
| "happened rq es _ = False"

definition accounted :: "daemon_request \<Rightarrow> str \<Rightarrow> event list \<Rightarrow> bool" where
  "accounted rq i es \<longleftrightarrow> (\<exists>st r. Updated i st r \<in> set es \<and> happened rq es st)"

fun granted :: "event \<Rightarrow> str option" where
  "granted (ClaimedTx i r) = (if r = Inr True then Some i else None)"
| "granted _ = None"

definition no_claim :: "event list \<Rightarrow> bool" where
  "no_claim es \<longleftrightarrow> (\<forall>e\<in>set es. granted e = None)"

definition only_claim :: "str \<Rightarrow> event list \<Rightarrow> bool" where
  "only_claim i es \<longleftrightarrow> (\<forall>e\<in>set es. granted e = None \<or> granted e = Some i)"

fun remembers :: "daemon_env \<Rightarrow> caller_role \<Rightarrow> daemon_request \<Rightarrow> event list \<Rightarrow> phase \<Rightarrow> bool" where
  "remembers env role rq es Idle = (no_claim es \<and> ((\<exists>r n ps h. rq = Execute r n ps h) \<longrightarrow> runs es = []))"
| "remembers env role rq es (Found h i) = (no_claim es \<and> runs es = [] \<and> approved env role rq h \<and>
     (\<exists>tx. tr_transaction_id tx = i \<and> subseq [FoundHash h (Inr (Some tx))] es))"
| "remembers env role rq es (Holding h i) = (only_claim i es \<and> runs es = [] \<and> approved env role rq h \<and>
     (\<exists>tx. tr_transaction_id tx = i \<and> subseq [FoundHash h (Inr (Some tx)), ClaimedTx i (Inr True)] es))"
| "remembers env role rq es (Announced h i) =
     (only_claim i es \<and> runs es = [] \<and> approved env role rq h \<and> consent h i es)"
| "remembers env role rq es (Abandoned h i) =
     (only_claim i es \<and> runs es = [] \<and> (\<exists>rid job. Sent (JobStarted rid job i) False \<in> set es))"
| "remembers env role rq es (Ran h i ok) =
     (only_claim i es \<and> approved env role rq h \<and> consent h i es \<and> ran_once rq ok es)"
| "remembers env role rq es (Reverted h i ok) = (only_claim i es \<and> ran_back rq ok es)"
| "remembers env role rq es Closed = (\<forall>i. (\<exists>e\<in>set es. granted e = Some i) \<longrightarrow> accounted rq i es)"

lemma consent_snoc: "consent h i es \<Longrightarrow> consent h i (es @ xs)"
  unfolding consent_def using subseq_rev_drop_many by blast

lemma runs_plain: "run_of e = None \<Longrightarrow> runs (es @ [e]) = runs es"
  by (simp add: runs_def)

lemma runs_snoc: "run_of e = Some m \<Longrightarrow> runs (es @ [e]) = runs es @ [e]"
  by (simp add: runs_def)

lemma ran_plain:
  assumes "run_of e = None"
  shows "ran_once rq ok (es @ [e]) = ran_once rq ok es" "ran_back rq ok (es @ [e]) = ran_back rq ok es"
    "happened rq (es @ [e]) st = happened rq es st"
proof -
  show "ran_once rq ok (es @ [e]) = ran_once rq ok es" "ran_back rq ok (es @ [e]) = ran_back rq ok es" for ok
    using assms by (simp_all add: ran_once_def ran_back_def runs_plain)
  then show "happened rq (es @ [e]) st = happened rq es st" by (cases st) simp_all
qed

lemma accounted_plain: "run_of e = None \<Longrightarrow> accounted rq i es \<Longrightarrow> accounted rq i (es @ [e])"
  by (auto simp: accounted_def ran_plain)

lemma claims_snoc:
  "no_claim (es @ [e]) \<longleftrightarrow> no_claim es \<and> granted e = None"
  "only_claim i (es @ [e]) \<longleftrightarrow> only_claim i es \<and> (granted e = None \<or> granted e = Some i)"
  by (auto simp: no_claim_def only_claim_def)

lemmas snoc_facts = consent_snoc runs_plain ran_plain accounted_plain claims_snoc

lemma no_claim_only: "no_claim es \<Longrightarrow> only_claim i es"
  by (simp add: no_claim_def only_claim_def)

lemma remembers_plain:
  "remembers env role rq es ph \<Longrightarrow> granted e = None \<Longrightarrow> run_of e = None \<Longrightarrow> advance ph e = ph \<Longrightarrow>
     remembers env role rq (es @ [e]) ph"
  by (cases ph) (auto simp: snoc_facts intro: subseq_rev_drop_many)

lemma approved_reads: "approved env role rq h \<Longrightarrow> \<not> reads env rq m"
  by (auto simp: approved_def reads_def)

lemma remembers_run:
  assumes "remembers env role rq es ph" "run_of e = Some m" "may_run env rq ph m"
  shows "remembers env role rq (es @ [e]) (run_step ph (run_succeeds e))"
proof -
  from assms(2) have g: "granted e = None" by (cases e) auto
  show ?thesis
  proof (cases ph)
    case (Announced h i)
    with assms have "ran_once rq (run_succeeds e) (es @ [e])" by (auto simp: ran_once_def runs_snoc)
    with Announced assms g show ?thesis by (simp add: snoc_facts)
  next
    case (Ran h i ok)
    with assms have "ran_back rq (run_succeeds e) (es @ [e])"
      by (auto simp: ran_back_def ran_once_def runs_snoc)
    with Ran assms g show ?thesis by (simp add: snoc_facts)
  qed (use assms g in \<open>auto simp: snoc_facts reads_def\<close>)
qed

lemma remembers_step:
  assumes mem: "remembers env role rq es ph" and ok: "permitted env role rq ph e"
  shows "remembers env role rq (es @ [e]) (advance ph e)"
proof (cases e)
  case (FoundHash h r)
  with ok have ph: "ph = Idle" "approved env role rq h" by auto
  show ?thesis
  proof (cases "\<exists>tx. r = Inr (Some tx)")
    case True
    then obtain tx where "r = Inr (Some tx)" ..
    with FoundHash ph mem show ?thesis by (auto simp: snoc_facts approved_def)
  next
    case False
    then have "advance ph e = Closed" using FoundHash by (auto split: sum.split option.split)
    with FoundHash ph mem show ?thesis by (auto simp: no_claim_def)
  qed
next
  case (ClaimedTx i r)
  with ok obtain h where ph: "ph = Found h i" by auto
  show ?thesis
  proof (cases "r = Inr True")
    case True
    from mem ph obtain tx where tx: "tr_transaction_id tx = i" "subseq [FoundHash h (Inr (Some tx))] es" by auto
    then have "subseq ([FoundHash h (Inr (Some tx))] @ [ClaimedTx i (Inr True)]) (es @ [ClaimedTx i (Inr True)])"
      by (simp only: subseq_append)
    with True ClaimedTx ph mem tx(1) show ?thesis by (auto simp: snoc_facts no_claim_only)
  next
    case False
    with ClaimedTx ph mem show ?thesis by (auto simp: no_claim_def)
  qed
next
  case (Sent r b)
  show ?thesis
  proof (cases "\<exists>rid job i h. r = JobStarted rid job i \<and> ph = Holding h i")
    case True
    then obtain rid job i h where r: "r = JobStarted rid job i" "ph = Holding h i" by auto
    show ?thesis
    proof (cases b)
      case True
      from mem r obtain tx where tx: "tr_transaction_id tx = i"
        "subseq [FoundHash h (Inr (Some tx)), ClaimedTx i (Inr True)] es" by auto
      then have "subseq ([FoundHash h (Inr (Some tx)), ClaimedTx i (Inr True)] @ [Sent r True]) (es @ [Sent r True])"
        by (simp only: subseq_append)
      with True tx(1) r Sent mem show ?thesis by (auto simp: snoc_facts consent_def)
    next
      case False
      with r Sent mem show ?thesis by (auto simp: snoc_facts)
    qed
  next
    case False
    with ok Sent have "advance ph e = ph" by (auto split: daemon_response.splits)
    moreover from this have "remembers env role rq (es @ [e]) ph"
      using Sent by (intro remembers_plain [OF mem]) simp_all
    ultimately show ?thesis by simp
  qed
next
  case (Executed spec r)
  with remembers_run [OF mem, of e "sp_mechanism spec"] ok show ?thesis by simp
next
  case (Spawned program args p)
  with remembers_run [OF mem, of e "Command program args"] ok show ?thesis by simp
next
  case (Updated i st r)
  with ok have t: "truthful ph i st" by simp
  then have "accounted rq i (es @ [e])" "only_claim i es"
    using mem Updated ran_plain(1,2) [of e rq _ es]
    by (cases ph; auto simp: accounted_def split: if_splits)+
  with Updated mem show ?thesis by (auto simp: only_claim_def)
qed (use mem in \<open>simp_all add: remembers_plain\<close>)

lemma monitored_remembers: "monitored (permitted env role rq) es ph \<Longrightarrow> remembers env role rq es ph"
  by (induction rule: monitored.induct) (auto simp: no_claim_def runs_def intro: remembers_step)

lemma follow_snoc: "follow p (es @ [e]) = Some q \<longleftrightarrow> (\<exists>p'. follow p es = Some p' \<and> react p' e = Some q)"
  by (induction es arbitrary: p) (auto simp: Option.bind_eq_Some_conv)

lemma follow_append: "follow p (es @ fs) = Option.bind (follow p es) (\<lambda>q. follow q fs)"
  by (induction es arbitrary: p) (simp_all add: bind_assoc)

lemma request_step:
  assumes "follow (handle_request env role rq) (es @ [e]) = Some q"
  obtains ph where "remembers env role rq es ph" "permitted env role rq ph e"
proof -
  from assms obtain p' where p': "follow (handle_request env role rq) es = Some p'" "react p' e = Some q"
    by (auto simp: follow_snoc)
  from request_monitored [OF p'(1)] obtain ph where
    "monitored (permitted env role rq) es ph" "obeys p' (permitted env role rq) ph" by blast
  with obeys_react [OF _ p'(2)] monitored_remembers that show ?thesis by blast
qed

section \<open>Properties\<close>

text \<open>C2. Nothing runs on the system without consent: whatever a client sends and whatever the store, the
  clock, the processes and the connection answer, each run of a mechanism is a query open to observers, or
  the first run of the very action the request names, built from its parameters, allowed to the caller's
  role, with the approval hash of exactly this action, after the preview of that hash was looked up, its
  transaction claimed and the start of the job delivered, in this order; or it is the rollback of that
  action after its single run failed.\<close>

theorem runs_need_consent:
  assumes "follow (handle_request env role rq) (es @ [e]) = Some q" "run_of e = Some m"
  shows "(\<exists>rid n ps spec. rq = QueryAction rid n ps \<and> build_action_spec n ps = Inr spec \<and> m = sp_mechanism spec \<and>
            table_min_role (ev_policy env) n = Some Observer) \<or>
    (\<exists>rid n ps h spec tx rid' job. rq = Execute rid n ps h \<and> build_action_spec n ps = Inr spec \<and>
       action_allowed (ev_policy env) role n \<and> h = compute_request_hash (ev_ext env) n ps \<and>
       subseq [FoundHash h (Inr (Some tx)), ClaimedTx (tr_transaction_id tx) (Inr True),
         Sent (JobStarted rid' job (tr_transaction_id tx)) True] es \<and>
       (runs es = [] \<and> m = sp_mechanism spec \<or>
        (\<exists>e1 rb. runs es = [e1] \<and> run_of e1 = Some (sp_mechanism spec) \<and> \<not> run_succeeds e1 \<and>
           rollback_spec_for n = Some rb \<and> m = sp_mechanism rb)))"
proof -
  from request_step [OF assms(1)] obtain ph where
    ph: "remembers env role rq es ph" "permitted env role rq ph e" .
  from assms(2) ph(2) have "may_run env rq ph m" by (cases e) auto
  then show ?thesis
  proof (cases ph)
    case (Announced h i)
    with \<open>may_run env rq ph m\<close> ph(1) show ?thesis
      by (auto simp: executes_def approved_def consent_def)
  next
    case (Ran h i ok)
    with \<open>may_run env rq ph m\<close> ph(1) show ?thesis
      by (fastforce simp: executes_def approved_def consent_def ran_once_def reverts_def)
  qed (auto simp: reads_def)
qed

text \<open>C5. The audit trail tells the truth: when a request that claimed a transaction has been handled,
  either the start of its job could not be delivered and nothing was run, or the status reported to the
  store is what happened: succeeded or reboot needed after one successful run of the action, failed after
  one failed run or after a failed run and a failed rollback, rolled back after a failed run and a
  successful rollback.\<close>

theorem recorded_status_is_true:
  assumes "follow (handle_request env role rq) es = Some (Return x)" "ClaimedTx i (Inr True) \<in> set es"
  shows "runs es = [] \<and> (\<exists>rid job. Sent (JobStarted rid job i) False \<in> set es) \<or>
    (\<exists>st r. Updated i st r \<in> set es \<and> happened rq es st)"
proof -
  from request_monitored [OF assms(1)] monitored_remembers obtain ph where
    ph: "remembers env role rq es ph" "settled ph" by fastforce
  from assms(2) have g: "\<exists>e\<in>set es. granted e = Some i" by force
  then have "\<not> no_claim es" "only_claim j es \<Longrightarrow> j = i" for j
    by (force simp: no_claim_def only_claim_def)+
  with ph g show ?thesis by (cases ph) (auto simp: accounted_def)
qed

text \<open>A run of an update that fails and is rolled back.\<close>

definition sample_env :: daemon_env where
  "sample_env = \<lparr>ev_ext = text_externs, ev_policy = empty_policy, ev_forwarder = False, ev_io_text = [],
    ev_sqlite_text = [], ev_json_text = [], ev_chain_text = [], ev_parse = (\<lambda>_. None), ev_request_text = (\<lambda>_. [])\<rparr>"

definition sample_hash :: str where
  "sample_hash = compute_request_hash text_externs ''UpdateSystem'' JNull"

definition sample_request :: daemon_request where
  "sample_request = Execute ''r'' ''UpdateSystem'' JNull sample_hash"

definition sample_tx :: transaction_record where
  "sample_tx = \<lparr>tr_transaction_id = ''t'', tr_request_id = ''p'', tr_request_hash = sample_hash,
    tr_action_name = ''UpdateSystem'', tr_risk_level = High, tr_status = Queued, tr_approval_id = None,
    tr_summary = [], tr_warnings = []\<rparr>"

definition sample_start :: "event list" where
  "sample_start = [FoundHash sample_hash (Inr (Some sample_tx)), ClaimedTx ''t'' (Inr True), GotId ''j'',
     Sent (JobStarted ''r'' ''j'' ''t'') True,
     Sent (JobProgress ''j'' ''Authorization passed for UpdateSystem'') True,
     Sent (JobProgress ''j'' ''Executing UpdateSystem...'') True]"

definition sample_child :: process where
  "sample_child = \<lparr>pr_lines = [], pr_read_fails = False, pr_exit = Some (Some 1), pr_stderr = Some []\<rparr>"

definition sample_run :: event where
  "sample_run = Spawned ''sudo'' [''rpm-ostree'', ''upgrade''] (Some sample_child)"

definition sample_rollback :: event where
  "sample_rollback = Executed (action ''RollbackDeployment'' (Command ''rpm-ostree'' [''rollback'']) High True False)
     (Inr (action_output [] [] 0))"

definition sample_finish :: "event list" where
  "sample_finish = [Sent (JobProgress ''j'' ''UpdateSystem completed with exit code 1'') True,
     Sent (JobProgress ''j'' (''UpdateSystem failed '' @ em_dash @ '' attempting automatic rollback via rpm-ostree rollback'')) True,
     sample_rollback,
     Sent (JobProgress ''j'' (''Rollback succeeded '' @ em_dash @ '' previous deployment restored'')) False,
     Updated ''t'' RolledBack (Inr ()),
     Sent (JobCompleted ''j'' \<lparr>jr_status = ''rolled_back'',
       jr_summary = ''UpdateSystem failed and was automatically rolled back to the previous deployment'', jr_warnings = [],
       jr_job_id = ''j'', jr_needs_reboot = False, jr_rollback_ref = Some ''rpm-ostree rollback'',
       jr_transaction_id = ''t''\<rparr>) False]"

lemma update_build: "build_action_spec ''UpdateSystem'' JNull = Inr update_system"
  by (simp add: build_action_spec_def action_arms_def find_arm deployment_arms_def del: map_of_append)

lemma update_allowed: "action_allowed empty_policy Admin ''UpdateSystem''"
  by (simp add: action_allowed_iff table_min_role_Some table_simps empty_policy_def)

lemma sample_hash_nonempty: "sample_hash \<noteq> []"
proof -
  have "ex_sha256 text_externs m \<noteq> []" for m by (simp add: text_externs_def plain_externs_def)
  then have "sample_hash \<noteq> []"
    by (simp add: sample_hash_def compute_request_hash_def hex_encode_def hex_byte_def neq_Nil_conv)
  then show ?thesis by simp
qed

lemma follow_claimed:
  assumes "build_action_spec n ps = Inr spec" "action_allowed (ev_policy env) role n"
    and "h = compute_request_hash (ev_ext env) n ps" "h \<noteq> []" "i = tr_transaction_id tx"
  shows "follow (handle_request env role (Execute rid n ps h)) (FoundHash h (Inr (Some tx)) # ClaimedTx i (Inr True) # es) =
    follow (run_claimed env role rid n spec i) es"
proof -
  have "require_fresh_approval h h = Inr ()" using assms(4) by (simp add: require_fresh_approval_Inr)
  with assms show ?thesis by (simp add: handle_execute_def authorize_action_def)
qed

lemma sample_env_sel [simp]:
  "ev_ext sample_env = text_externs" "ev_policy sample_env = empty_policy" "ev_forwarder sample_env = False"
  by (simp_all add: sample_env_def)

lemma update_rollback: "rollback_spec_for ''UpdateSystem'' =
    Some (action ''RollbackDeployment'' (Command ''rpm-ostree'' [''rollback'']) High True False)"
  by (simp add: rollback_spec_for_def rollback_actions_def)

lemma sample_path:
  "follow (handle_request sample_env Admin sample_request) (sample_start @ sample_run # sample_finish) =
     Some (Return (Inl FramingFailed))"
proof -
  have one: "show_int 1 = ''1''" by code_simp
  show ?thesis
    unfolding sample_request_def sample_start_def append.simps
    using update_build update_allowed sample_hash_nonempty
    by (subst follow_claimed [where spec = update_system])
      (simp_all add: sample_hash_def sample_tx_def run_claimed_def progress_def sample_run_def sample_finish_def
        run_spec_def update_system_def command_mechanism_def stream_command_with_progress_def sample_child_def
        initial_result_def is_success_def action_output_def completion_line_def attempt_rollback_if_needed_def
        update_rollback sample_rollback_def finish_job_def forward_status_change_event_def
        send_response_def one)
qed

text \<open>The rollback of the sample is consented to.\<close>

theorem runs_need_consent_witness:
  "\<exists>spec rb. build_action_spec ''UpdateSystem'' JNull = Inr spec \<and> action_allowed empty_policy Admin ''UpdateSystem'' \<and>
     run_of sample_run = Some (sp_mechanism spec) \<and> \<not> run_succeeds sample_run \<and>
     rollback_spec_for ''UpdateSystem'' = Some rb \<and> run_of sample_rollback = Some (sp_mechanism rb)"
proof -
  let ?es = "sample_start @ [sample_run] @ take 2 sample_finish"
  have "follow (handle_request sample_env Admin sample_request) (?es @ [sample_rollback] @ drop 3 sample_finish) =
     Some (Return (Inl FramingFailed))"
    using sample_path by (simp add: sample_finish_def)
  then obtain q where "follow (handle_request sample_env Admin sample_request) (?es @ [sample_rollback]) = Some q"
    unfolding follow_append append_assoc [symmetric] by (auto simp: Option.bind_eq_Some_conv)
  from runs_need_consent [OF this]
  have "\<exists>m. run_of sample_rollback = Some m" by (simp add: sample_rollback_def)
  moreover have "runs ?es = [sample_run]" by (simp add: runs_def sample_start_def sample_run_def sample_finish_def)
  ultimately show ?thesis
    using runs_need_consent [OF \<open>follow (handle_request sample_env Admin sample_request) (?es @ [sample_rollback]) = Some q\<close>]
    by (fastforce simp: sample_request_def)
qed

theorem recorded_status_is_true_witness:
  "\<exists>st r. Updated ''t'' st r \<in> set (sample_start @ sample_run # sample_finish) \<and>
     happened sample_request (sample_start @ sample_run # sample_finish) st"
proof -
  have "ClaimedTx ''t'' (Inr True) \<in> set (sample_start @ sample_run # sample_finish)"
    "runs (sample_start @ sample_run # sample_finish) \<noteq> []"
    by (simp_all add: sample_start_def runs_def sample_run_def)
  with recorded_status_is_true [OF sample_path] show ?thesis by blast
qed

text \<open>C12. The dispatcher refines the protocol: every sequence of calls it makes for a request is a run of
  the monitor in which each call is permitted, and it ends in a phase with nothing left to do.\<close>

theorem dispatcher_refines_protocol:
  assumes "follow (handle_request env role rq) es = Some q"
  shows "\<exists>ph. monitored (permitted env role rq) es ph \<and> (\<forall>x. q = Return x \<longrightarrow> settled ph)"
  using request_monitored [OF assms] by fastforce

theorem dispatcher_refines_protocol_witness:
  "\<exists>ph. monitored (permitted sample_env Admin sample_request) (sample_start @ sample_run # sample_finish) ph \<and> settled ph"
  using dispatcher_refines_protocol [OF sample_path] by blast

text \<open>C33. An approved request is executed: when the action is built and allowed, the approval is its hash,
  the lookup finds the preview and the claim is granted and the start delivered, the handler runs exactly
  the mechanism of the action next, whether or not the two progress messages are delivered, and accepts
  whatever the run answers.\<close>

theorem approved_request_runs:
  assumes "build_action_spec n ps = Inr spec" "action_allowed (ev_policy env) role n"
    and "h = compute_request_hash (ev_ext env) n ps" "h \<noteq> []"
    and "\<forall>program args. sp_mechanism spec = Command program args \<longrightarrow> (\<exists>p. e = Spawned program args p)"
    and "(\<forall>program args. sp_mechanism spec \<noteq> Command program args) \<longrightarrow> (\<exists>r. e = Executed spec r)"
  shows "\<exists>q. follow (handle_request env role (Execute rid n ps h))
    [FoundHash h (Inr (Some tx)), ClaimedTx (tr_transaction_id tx) (Inr True), GotId j,
     Sent (JobStarted rid j (tr_transaction_id tx)) True,
     Sent (JobProgress j (''Authorization passed for '' @ n)) b1, Sent (JobProgress j (''Executing '' @ n @ ''...'')) b2, e] = Some q"
  unfolding follow_claimed [OF assms(1-4) refl]
  using assms(5,6)
  by (cases "sp_mechanism spec") (auto simp: run_claimed_def progress_def run_spec_def stream_command_with_progress_def)

theorem approved_request_runs_witness:
  "\<exists>q. follow (handle_request sample_env Admin (Execute ''r'' ''UpdateSystem'' JNull sample_hash))
    [FoundHash sample_hash (Inr (Some sample_tx)), ClaimedTx (tr_transaction_id sample_tx) (Inr True), GotId ''j'',
     Sent (JobStarted ''r'' ''j'' (tr_transaction_id sample_tx)) True,
     Sent (JobProgress ''j'' (''Authorization passed for '' @ ''UpdateSystem'')) False,
     Sent (JobProgress ''j'' (''Executing '' @ ''UpdateSystem'' @ ''...'')) True, sample_run] = Some q"
  by (rule approved_request_runs [OF update_build])
     (use update_allowed sample_hash_nonempty in \<open>simp_all add: sample_hash_def update_system_def command_mechanism_def sample_run_def\<close>)

section \<open>One reply\<close>

text \<open>The messages that answer a request, and the identifier they carry: of the request, or of its job.\<close>

fun is_reply :: "daemon_response \<Rightarrow> bool" where
  "is_reply (JobStarted i j t) = False"
| "is_reply (JobProgress j l) = False"
| "is_reply _ = True"

fun is_start :: "daemon_response \<Rightarrow> bool" where
  "is_start (JobStarted i j t) = True"
| "is_start _ = False"

text \<open>Every path ends in one reply, the last call of the handler, whose delivery is its result; only a
  lost announcement of the job and a state collector that was cut off end it without.\<close>

primrec ends :: "handler \<Rightarrow> bool" where
  "ends (Return x) = False"
| "ends (Send r k) =
    (if is_reply r then k = (\<lambda>ok. Return (if ok then Inr () else Inl FramingFailed))
     else \<forall>b. is_start r \<and> \<not> b \<or> ends (k b))"
| "ends (CollectState k) = (\<forall>x. (\<forall>e. x \<noteq> Inl e) \<longrightarrow> ends (k x))"
| "ends (FindByHash h k) = (\<forall>x. ends (k x))"
| "ends (ClaimForExecution i k) = (\<forall>x. ends (k x))"
| "ends (UpdateStatus i st k) = (\<forall>x. ends (k x))"
| "ends (RecordPreviewed nt pe k) = (\<forall>x. ends (k x))"
| "ends (ListTransactions l st a h k) = (\<forall>x. ends (k x))"
| "ends (FreshId k) = (\<forall>x. ends (k x))"
| "ends (ExecuteSpec sp k) = (\<forall>x. ends (k x))"
| "ends (SpawnCommand p as k) = (\<forall>x. ends (k x))"
| "ends (Forward i r st p) = ends p"

fun silenced :: "event \<Rightarrow> bool" where
  "silenced (Sent r b) = (is_start r \<and> \<not> b)"
| "silenced (Collected x) = (\<exists>e. x = Inl e)"
| "silenced _ = False"

fun reply_of :: "event \<Rightarrow> daemon_response option" where
  "reply_of (Sent r b) = (if is_reply r then Some r else None)"
| "reply_of _ = None"

lemma ends_react:
  assumes "ends p" "react p e = Some q" "\<not> silenced e"
  shows "if reply_of e = None then ends q
    else \<exists>r b. e = Sent r b \<and> q = Return (if b then Inr () else Inl FramingFailed)"
  using assms by (cases p) (auto split: event.splits if_splits)

lemma follow_Return: "follow (Return x) es = Some q \<longleftrightarrow> es = [] \<and> q = Return x"
  by (cases es) auto

lemma ends_follow:
  "ends p \<Longrightarrow> follow p es = Some (Return x) \<Longrightarrow> \<not> list_ex silenced es \<Longrightarrow>
     \<exists>fs r b. es = fs @ [Sent r b] \<and> is_reply r \<and> list_all (\<lambda>e. reply_of e = None) fs \<and>
       x = (if b then Inr () else Inl FramingFailed)"
proof (induction es arbitrary: p)
  case (Cons e es)
  then obtain q where q: "react p e = Some q" "follow q es = Some (Return x)"
    by (auto simp: Option.bind_eq_Some_conv)
  have "\<not> silenced e" "\<not> list_ex silenced es" using Cons.prems(3) by auto
  note r = ends_react [OF Cons.prems(1) q(1) this(1)]
  show ?case
  proof (cases "reply_of e")
    case None
    with r Cons.IH [OF _ q(2) \<open>\<not> list_ex silenced es\<close>] obtain fs r b where
      "es = fs @ [Sent r b]" "is_reply r" "list_all (\<lambda>e. reply_of e = None) fs" "x = (if b then Inr () else Inl FramingFailed)"
      by auto
    with None show ?thesis by (intro exI [of _ "e # fs"]) auto
  next
    case (Some m)
    with r obtain r b where "e = Sent r b" "q = Return (if b then Inr () else Inl FramingFailed)" by auto
    with q(2) Some show ?thesis by (intro exI [of _ "[]"]) (auto simp: follow_Return split: if_splits)
  qed
qed simp

lemma ends_reply: "is_reply r \<Longrightarrow> ends (send_response r)" "ends (send_error i c m)"
  by (simp_all add: send_error_def send_response_def)

lemma ends_progress: "ends p \<Longrightarrow> ends (progress j l p)"
  by (simp add: progress_def)

lemma ends_stream: "(\<And>b. ends (k b)) \<Longrightarrow> ends (stream_lines j ls buf k)"
  by (induction ls arbitrary: buf) (auto simp: ends_progress)

lemma ends_finish: "ends (finish_job env role j i st s rb)"
  by (auto simp: finish_job_def Let_def forward_status_change_event_def ends_reply split: sum.split)

lemma ends_rollback: "ends (attempt_rollback_if_needed env j n spec st s (finish_job env role j i))"
  by (auto simp: attempt_rollback_if_needed_def Let_def ends_progress ends_finish split: option.split)

lemma ends_run_spec: "(\<And>r. ends (k r)) \<Longrightarrow> ends (run_spec j spec k)"
  by (auto simp: run_spec_def stream_command_with_progress_def ends_stream split: mechanism.split option.split
      intro!: ends_stream)

lemma ends_run_claimed: "ends (run_claimed env role rid n spec i)"
  by (auto simp: run_claimed_def Let_def case_prod_beta intro!: ends_progress ends_run_spec ends_rollback)

lemma ends_request: "ends (handle_request env role rq)"
  by (cases rq)
     (auto simp: handle_query_state_def handle_describe_def handle_preview_def handle_execute_def
       handle_query_action_def list_job_history_def query_output_def forward_audit_event_def Let_def
       ends_reply ends_run_claimed split: sum.split option.split bool.split)

text \<open>C34. Every request is answered exactly once: unless the announcement of a job was not delivered, or
  the state collector was cut off, the handling of a request ends with one reply, nothing before it is a
  reply, and the handler fails exactly when this reply is not delivered.\<close>

theorem one_reply:
  assumes "follow (handle_request env role rq) es = Some (Return x)"
    and "list_all (\<lambda>e. \<not> silenced e) es"
  shows "\<exists>fs r b. es = fs @ [Sent r b] \<and> is_reply r \<and> list_all (\<lambda>e. reply_of e = None) fs \<and>
    x = (if b then Inr () else Inl FramingFailed)"
  using ends_follow [OF ends_request assms(1)] assms(2) by (auto simp: list_all_iff list_ex_iff)

theorem one_reply_witness:
  "\<exists>fs r b. sample_start @ sample_run # sample_finish = fs @ [Sent r b] \<and> is_reply r \<and>
    list_all (\<lambda>e. reply_of e = None) fs \<and> Inl FramingFailed = (if b then Inr () else Inl FramingFailed)"
  by (rule one_reply [OF sample_path])
     (simp add: sample_start_def sample_run_def sample_finish_def sample_rollback_def)

section \<open>Credentials\<close>

lemma attach_build: "build_action_spec ''ProAttach'' ps = rbind (safe_param ps ''token'') (\<lambda>token. Inr (pro_attach token))"
  by (simp add: build_action_spec_def action_arms_def find_arm deployment_arms_def flatpak_arms_def
      container_arms_def layering_arms_def service_arms_def toolbox_arms_def system_arms_def user_arms_def
      apt_arms_def snap_arms_def grub_arms_def ufw_arms_def pro_arms_def del: map_of_append)

lemma attach_command:
  assumes "build_action_spec ''ProAttach'' ps = Inr spec"
  shows "\<exists>t. spec = pro_attach t \<and> describe_command ''ProAttach'' ps spec = ''sudo pro attach <REDACTED>''"
proof -
  from assms obtain t where t: "spec = pro_attach t" "get_str ps ''token'' = Some t"
    by (auto simp: attach_build safe_param_def checked_param_def rbind_eq_Inr_conv require_str_def get_str_Some
        ok_or_eq_conv validated_safe_arg_def split: option.splits if_splits)
  then show ?thesis
    by (intro exI [of _ t]) (simp add: describe_command_def pro_attach_def command_mechanism_def redact_argv_last REDACTED_def)
qed

text \<open>The parameters \<open>m\<close> with the given token.\<close>

definition with_token :: "str \<Rightarrow> (str \<times> json) list \<Rightarrow> json" where
  "with_token t m = JObject (map (\<lambda>(k, v). (k, if k = ''token'' then JString t else v)) m)"

definition token_preview :: "daemon_env \<Rightarrow> caller_role \<Rightarrow> str \<Rightarrow> (str \<times> json) list \<Rightarrow> str \<Rightarrow> json \<Rightarrow> preview_envelope" where
  "token_preview env role rid m t s = preview_of env role rid ''ProAttach'' (with_token t m) s"

lemma redacted_token: "redact_params ''ProAttach'' (with_token t m) = with_token REDACTED m"
  by (auto simp: redact_params_def credential_keys_for_def with_token_def)

text \<open>C28. The token of \<open>ProAttach\<close>, the one credential the daemon knows of, is not shown: two accepted requests that
  differ in the token only are described in the same words, which hold a mark in its place, and so is everything a
  preview stores and shows, apart from the request hash; the parameters shown have the mark for the token and are
  otherwise those of the request. No other secret is covered: see \<open>wifi_password_shown\<close>.\<close>

theorem credentials_not_shown:
  assumes "build_action_spec ''ProAttach'' (with_token t m) = Inr spec"
    and "build_action_spec ''ProAttach'' (with_token t' m) = Inr spec'"
  shows "handle_describe env ''ProAttach'' (with_token t m) rid = handle_describe env ''ProAttach'' (with_token t' m) rid \<and>
    describe_command ''ProAttach'' (with_token t m) spec = ''sudo pro attach <REDACTED>'' \<and>
    (token_preview env role rid m t s)\<lparr>pe_request_hash := RequestHash []\<rparr> = (token_preview env role rid m t' s)\<lparr>pe_request_hash := RequestHash []\<rparr> \<and>
    (new_tx_of env rid ''ProAttach'' (with_token t m) spec (token_preview env role rid m t s))\<lparr>nt_request_hash := []\<rparr> =
      (new_tx_of env rid ''ProAttach'' (with_token t' m) spec' (token_preview env role rid m t' s))\<lparr>nt_request_hash := []\<rparr> \<and>
    json_get (pe_proposed_change (token_preview env role rid m t s)) ''params'' = Some (with_token ''<REDACTED>'' m)"
proof -
  from attach_command [OF assms(1)] attach_command [OF assms(2)] obtain u u' where
    s: "spec = pro_attach u" "spec' = pro_attach u'"
    "describe_command ''ProAttach'' (with_token t m) spec = ''sudo pro attach <REDACTED>''"
    "describe_command ''ProAttach'' (with_token t' m) spec' = ''sudo pro attach <REDACTED>''" by auto
  have "handle_describe env ''ProAttach'' (with_token t m) rid = handle_describe env ''ProAttach'' (with_token t' m) rid"
    using assms(1,2) s by (simp add: handle_describe_def) (simp add: pro_attach_def)
  with s(3) show ?thesis 
    by (simp add: token_preview_def preview_of_def preview_action_def proposed_change_def Let_def redacted_token new_tx_of_def s(1,2)
        REDACTED_def) (simp add: pro_attach_def)
qed

definition token_params :: "(str \<times> json) list" where
  "token_params = [(''token'', JNull)]"

lemma token_build: "build_action_spec ''ProAttach'' (with_token ''C1'' token_params) = Inr (pro_attach ''C1'')"
  "build_action_spec ''ProAttach'' (with_token ''attach'' token_params) = Inr (pro_attach ''attach'')"
  by (simp_all add: attach_build safe_param_def checked_param_def require_str_def token_params_def with_token_def
      validated_safe_arg_def ascii_defs SAFE_ARG_MAX_BYTES_def starts_with_char)

theorem credentials_not_shown_witness:
  "handle_describe sample_env ''ProAttach'' (JObject [(''token'', JString ''C1'')]) ''r'' =
    handle_describe sample_env ''ProAttach'' (JObject [(''token'', JString ''attach'')]) ''r''"
  using credentials_not_shown [OF token_build, of sample_env "''r''"] by (simp add: with_token_def token_params_def)

lemma wifi_build: "build_action_spec ''ConfigureWifi'' ps =
    rbind (safe_param ps ''ssid'') (\<lambda>ssid. rbind (opt_checked ps ''password'') (\<lambda>password. Inr (configure_wifi ssid password)))"
  by (simp add: build_action_spec_def action_arms_def find_arm deployment_arms_def flatpak_arms_def
      container_arms_def layering_arms_def service_arms_def toolbox_arms_def system_arms_def del: map_of_append)

text \<open>The password of a wireless network is no credential to the redaction: the description of an
  accepted \<open>ConfigureWifi\<close> request is the command line with the password in clear, and the preview that is
  stored and sent holds the parameters unchanged.\<close>

theorem wifi_password_shown:
  assumes "build_action_spec ''ConfigureWifi'' ps = Inr spec" "get_str ps ''password'' = Some pw" "pw \<noteq> []"
  shows "\<exists>ssid. describe_command ''ConfigureWifi'' ps spec =
      ''sudo nmcli device wifi connect '' @ ssid @ '' password '' @ pw \<and>
    json_get (pe_proposed_change (preview_of env role rid ''ConfigureWifi'' ps s)) ''params'' = Some ps"
proof -
  from assms obtain ssid where "spec = configure_wifi ssid (Some pw)"
    by (auto simp: wifi_build rbind_eq_Inr_conv opt_checked_def validated_safe_arg_def split: if_splits)
  then show ?thesis
    by (simp add: describe_command_def configure_wifi_def redact_argv_other preview_of_def preview_action_def
        proposed_change_def redact_params_other Let_def)
qed

definition wifi_params :: json where
  "wifi_params = JObject [(''password'', JString ''secret''), (''ssid'', JString ''home'')]"

theorem wifi_password_shown_witness:
  "\<exists>ssid. describe_command ''ConfigureWifi'' wifi_params (configure_wifi ''home'' (Some ''secret'')) =
      ''sudo nmcli device wifi connect '' @ ssid @ '' password '' @ ''secret'' \<and>
    json_get (pe_proposed_change (preview_of sample_env Admin ''r'' ''ConfigureWifi'' wifi_params JNull)) ''params'' = Some wifi_params"
  by (rule wifi_password_shown)
     (simp_all add: wifi_build wifi_params_def safe_param_def checked_param_def require_str_def opt_checked_def
       get_str_def validated_safe_arg_def ascii_defs SAFE_ARG_MAX_BYTES_def starts_with_char)

end
