(* ===== verification/Daemon_Properties.thy ===== *)
theory Daemon_Properties
  imports Daemon_System Dispatch_Properties
begin

text \<open>
  The invariant of the whole daemon, for every store that keeps the contract, and its consequences for the
  SQLite store.
\<close>

section \<open>For every audit log\<close>

context audit_log begin

definition views_of :: "'s \<Rightarrow> views" where
  "views_of s = (status_of s, hash_of s)"

lemma op_keeps:
  assumes "inv s" shows "keeps (views_of s) (views_of (run_op as op s))"
proof -
  have h: "hash_of (run_op as op s) i = hash_of s i" if "status_of s i \<noteq> None" for i
  proof (cases op)
    case (OpRecord now j nt)
    then show ?thesis
      using that record_new [OF assms, of now j nt] record_fails [OF assms, of now j nt]
      by (cases "as_record as now j nt s"; cases "fst (as_record as now j nt s)") auto
  next
    case (OpRecordPreviewed now j nt p)
    then show ?thesis
      using that preview_new [OF assms, of now j nt p] preview_fails [OF assms, of now j nt p]
      by (cases "as_record_previewed as now j nt p s"; cases "fst (as_record_previewed as now j nt p s)") auto
  next
    case (OpUpdate j st)
    then show ?thesis
      using update_allowed [OF assms, of j st] update_fails [OF assms, of j st]
      by (cases "as_update_status as j st s"; cases "fst (as_update_status as j st s)") auto
  next
    case (OpClaim j)
    then show ?thesis
      using claim_cas [OF assms, of j] claim_fails [OF assms, of j]
      by (cases "as_claim_for_execution as j s"; cases "fst (as_claim_for_execution as j s)") auto
  next
    case (OpCleanup now)
    then show ?thesis using cleanup_cancels [OF assms refl, of now i] by simp
  qed
  have "status_of (run_op as op s) i \<noteq> None \<and>
      (status_of s i \<noteq> Some Queued \<longrightarrow> status_of (run_op as op s) i \<noteq> Some Queued)" if "status_of s i \<noteq> None" for i
    using run_op_status [OF assms, of op i] that by (auto simp: allowed_transition_step [symmetric] allowed_not_to_Queued)
  with h show ?thesis by (simp add: keeps_def views_of_def begun_def)
qed

lemma keeps_op: "inv s \<Longrightarrow> run_op as op s = s' \<Longrightarrow> inv s' \<and> keeps (views_of s) (views_of s')"
  using op_keeps inv_run by blast

lemma happens_keeps:
  assumes "inv s" "dp_audit dp = as" "happens dp (s, m) e (s', m')"
  shows "inv s' \<and> keeps (views_of s) (views_of s') \<and> call_ok (views_of s) (views_of s') e"
  using assms(3)
proof cases
  case (found h now)
  then show ?thesis
    using assms(1,2) find_queued [OF assms(1), of now h] by (auto simp: keeps_refl views_of_def)
next
  case (claimed i r)
  from keeps_op [OF assms(1), of "OpClaim i" s'] claimed assms(2) have "inv s' \<and> keeps (views_of s) (views_of s')" by simp
  moreover have "\<not> begun (views_of s) i \<and> begun (views_of s') i" if "r = Inr True"
    using claim_cas [OF assms(1), of i True s'] claimed that assms(2) by (auto simp: begun_def views_of_def)
  ultimately show ?thesis using claimed by simp
next
  case (claim_lost i r e)
  with keeps_op [OF assms(1), of "OpClaim i" s'] assms(2) show ?thesis by simp
next
  case (updated i st r)
  with keeps_op [OF assms(1), of "OpUpdate i st" s'] assms(2) show ?thesis by simp
next
  case (update_lost i st r e)
  with keeps_op [OF assms(1), of "OpUpdate i st" s'] assms(2) show ?thesis by simp
next
  case (previewed now i nt pe r)
  with keeps_op [OF assms(1), of "OpRecordPreviewed now i nt pe" s'] assms(2) show ?thesis by simp
next
  case (preview_lost now i nt pe r e)
  with keeps_op [OF assms(1), of "OpRecordPreviewed now i nt pe" s'] assms(2) show ?thesis by simp
qed (use assms(1) in \<open>simp_all add: keeps_refl\<close>)

text \<open>Where the hash of a transaction comes from.\<close>

definition sourced :: "(str \<rightharpoonup> str) \<Rightarrow> (str \<rightharpoonup> str) \<Rightarrow> entry list \<Rightarrow> bool" where
  "sourced h0 hs log \<longleftrightarrow> (\<forall>i h. hs i = Some h \<longrightarrow> h0 i = Some h \<or>
     (\<exists>c nt pe r. Did c (Previewed nt pe r) \<in> set log \<and> nt_request_hash nt = h))"

lemma happens_hash:
  assumes "inv s" "dp_audit dp = as" "happens dp (s, m) e (s', m')" "hash_of s' i = Some h"
  shows "hash_of s i = Some h \<or> (\<exists>nt pe r. e = Previewed nt pe r \<and> nt_request_hash nt = h)"
  using assms(3)
proof cases
  case (claimed j r)
  with assms claim_cas [OF assms(1), of j] claim_fails [OF assms(1), of j] show ?thesis by (cases r) auto
next
  case (claim_lost j r e)
  with assms claim_cas [OF assms(1), of j] claim_fails [OF assms(1), of j] show ?thesis by (cases r) auto
next
  case (updated j st r)
  with assms update_allowed [OF assms(1), of j st] update_fails [OF assms(1), of j st] show ?thesis by (cases r) auto
next
  case (update_lost j st r e)
  with assms update_allowed [OF assms(1), of j st] update_fails [OF assms(1), of j st] show ?thesis by (cases r) auto
next
  case (previewed now j nt pe r)
  with assms preview_new [OF assms(1), of now j nt pe] preview_fails [OF assms(1), of now j nt pe]
  show ?thesis by (cases r) (auto split: if_splits)
next
  case (preview_lost now j nt pe r e)
  with assms preview_new [OF assms(1), of now j nt pe] preview_fails [OF assms(1), of now j nt pe]
  show ?thesis by (cases r) (auto split: if_splits)
qed (use assms in simp_all)

definition daemon_inv :: "'s deployment \<Rightarrow> (str \<rightharpoonup> str) \<Rightarrow> 's world \<Rightarrow> bool" where
  "daemon_inv dp h0 w \<longleftrightarrow> inv (w_store w) \<and> system_ok (dp_env dp) (views_of (w_store w)) w \<and>
     sourced h0 (hash_of (w_store w)) (w_log w)"

lemma sourced_mono: "sourced h0 hs log \<Longrightarrow> sourced h0 hs (log @ [x])"
  unfolding sourced_def by (simp del: split_paired_Ex) blast

lemma daemon_inv_step:
  assumes i: "daemon_inv dp h0 w" and a: "dp_audit dp = as" and st: "daemon_step dp w w'"
  shows "daemon_inv dp h0 w'"
proof -
  from i have ok: "system_ok (dp_env dp) (views_of (w_store w)) w" and inv: "inv (w_store w)"
    and src: "sourced h0 (hash_of (w_store w)) (w_log w)"
    by (simp_all add: daemon_inv_def)
  show ?thesis
    using st
  proof cases
    case (accept_unix path cred gf ps)
    then show ?thesis using system_ok_add [OF ok] inv src by (simp add: daemon_inv_def)
  next
    case (accept_vsock port)
    then show ?thesis using system_ok_add [OF ok] inv src by (simp add: daemon_inv_def)
  next
    case (arrive c cn bytes)
    have "system_ok (dp_env dp) (views_of (w_store w)) w'"
      unfolding arrive(1) by (rule system_ok_quiet [OF ok arrive(2)])
        (use arrive system_okD(1) [OF ok arrive(2)] in \<open>simp_all add: conn_ok_def\<close>)
    with arrive inv src show ?thesis by (simp add: daemon_inv_def)
  next
    case (authenticated c cn tf rv role rest)
    from system_okD(1) [OF ok authenticated(2)] authenticated(3,5) have
      "idle (cn_prog cn)" "held (log_phase (w_log w) c) = None" "settled (log_phase (w_log w) c)"
      by (simp_all add: conn_ok_def)
    then have "\<exists>rq. wf_request (dp_env dp) rq \<and> obeys (cn_prog cn) (permitted (dp_env dp) role rq) (log_phase (w_log w) c) \<and>
        phase_ok (views_of (w_store w)) (run_ids (w_log w)) (approved (dp_env dp) role rq) (log_phase (w_log w) c)"
      using wf_cancel [of "dp_env dp"]
      by (intro exI [of _ "Cancel []"]) (cases "cn_prog cn"; cases "log_phase (w_log w) c"; simp add: phase_ok_def)
    then have "system_ok (dp_env dp) (views_of (w_store w)) w'"
      unfolding authenticated(1)
      by (intro system_ok_quiet [OF ok authenticated(2)]) (use authenticated in \<open>simp_all add: conn_ok_def\<close>)
    with authenticated inv src show ?thesis by (simp add: daemon_inv_def)
  next
    case (refused c cn received tf rv)
    have "system_ok (dp_env dp) (views_of (w_store w)) w'"
      unfolding refused(1) by (rule system_ok_quiet [OF ok refused(2)])
        (use refused system_okD(1) [OF ok refused(2)] in \<open>simp_all add: conn_ok_def\<close>)
    with refused inv src show ?thesis by (simp add: daemon_inv_def)
  next
    case (receive c cn role raw rest p)
    have "system_ok (dp_env dp) (views_of (w_store w)) w'"
      unfolding receive(1)
      by (rule system_ok_receive [OF ok receive(2) _ _ _ receive(8)]) (use receive in simp_all)
    with receive inv sourced_mono [OF src] show ?thesis by (simp add: daemon_inv_def)
  next
    case (hang_up c cn role)
    have "system_ok (dp_env dp) (views_of (w_store w)) w'"
      unfolding hang_up(1) by (rule system_ok_quiet [OF ok hang_up(2)])
        (use hang_up system_okD(1) [OF ok hang_up(2)] in \<open>simp_all add: conn_ok_def\<close>)
    with hang_up inv src show ?thesis by (simp add: daemon_inv_def)
  next
    case (act c cn e p s' m')
    from happens_keeps [OF inv a act(5)] have h: "inv s'" "keeps (views_of (w_store w)) (views_of s')"
      "call_ok (views_of (w_store w)) (views_of s') e" by auto
    have "system_ok (dp_env dp) (views_of s') w'"
      using system_ok_act [OF ok act(2) _ h(2,3)] act(1,3,4) by simp
    moreover have "sourced h0 (hash_of s') (w_log w @ [Did c e])"
      unfolding sourced_def
    proof (intro allI impI)
      fix i h assume "hash_of s' i = Some h"
      from happens_hash [OF inv a act(5) this] src
      show "h0 i = Some h \<or> (\<exists>c' nt pe r. Did c' (Previewed nt pe r) \<in> set (w_log w @ [Did c e]) \<and> nt_request_hash nt = h)"
        by (fastforce simp: sourced_def)
    qed
    ultimately show ?thesis using act(1) h(1) by (simp add: daemon_inv_def)
  qed
qed

lemma daemon_inv_reaches:
  assumes "inv s" "dp_audit dp = as" "daemon_reaches dp (booted s m) w"
  shows "daemon_inv dp (hash_of s) w"
proof -
  have "daemon_inv dp (hash_of s) (booted s m)"
    using assms(1) by (auto simp: daemon_inv_def booted_def sourced_def system_ok_def log_phase_def action_runs_def run_ids_def)
  with assms(3) show ?thesis
    unfolding daemon_reaches_def
    by (induction rule: rtranclp_induct) (auto intro: daemon_inv_step [OF _ assms(2)])
qed

end

section \<open>For the SQLite store\<close>

lemma sqlite_reaches:
  assumes "dp_audit dp = sqlite_store ext" "wf_store ext key s" "daemon_reaches dp (booted s m) w"
  shows "wf_store ext key (w_store w)"
    and "system_ok (dp_env dp) (tx_status_of (w_store w), tx_hash_of (w_store w)) w"
    and "tx_hash_of (w_store w) i = Some h \<Longrightarrow> tx_hash_of s i = Some h \<or>
      (\<exists>c nt pe r. Did c (Previewed nt pe r) \<in> set (w_log w) \<and> nt_request_hash nt = h)"
  using sqlite.daemon_inv_reaches [OF assms(2,1,3)]
  by (simp_all add: sqlite.daemon_inv_def sqlite.views_of_def sqlite.sourced_def)

text \<open>C1. No transaction is executed twice: in every state the daemon can reach, over any interleaving of
  its connections, any answers of the store, lost ones included, and any clients, the first runs of the
  announced jobs are of pairwise different transactions. Each ran the mechanism that \<open>build_action_spec\<close>
  gives for a request allowed to the role of its connection, whose hash is the one stored for that
  transaction.\<close>

theorem executed_at_most_once:
  assumes "dp_audit dp = sqlite_store ext" "wf_store ext key s" "daemon_reaches dp (booted s m) w"
  shows "distinct (run_ids (w_log w)) \<and>
    (\<forall>(c, i, mech) \<in> set (action_runs (w_log w)). \<exists>role n ps spec.
       cn_role (w_conns w ! c) = Some role \<and> action_allowed (ev_policy (dp_env dp)) role n \<and>
       build_action_spec n ps = Inr spec \<and> mech = sp_mechanism spec \<and>
       tx_hash_of (w_store w) i = Some (compute_request_hash (ev_ext (dp_env dp)) n ps))"
  using system_okD(4,5) [OF sqlite_reaches(2) [OF assms]]
  by (auto simp: run_ok_def del: exI split: prod.splits) (blast+)?

text \<open>C3. What runs was previewed: every action that ran is the very action of a preview that a caller
  allowed to use it asked of this daemon, unless its transaction was there when the daemon started or
  SHA-256 collides.\<close>

theorem what_runs_was_previewed:
  assumes "dp_audit dp = sqlite_store ext" "wf_store ext key s" "daemon_reaches dp (booted s m) w"
    and "json_text_laws (ev_ext (dp_env dp))" "parses_wf (dp_env dp)" "(c, i, mech) \<in> set (action_runs (w_log w))"
  shows "tx_hash_of s i \<noteq> None \<or> sha_collision (ev_ext (dp_env dp)) \<or>
    (\<exists>c' nt pe r role n ps spec. Did c' (Previewed nt pe r) \<in> set (w_log w) \<and>
       cn_role (w_conns w ! c') = Some role \<and> action_allowed (ev_policy (dp_env dp)) role n \<and>
       build_action_spec n ps = Inr spec \<and> mech = sp_mechanism spec \<and>
       nt_request_hash nt = compute_request_hash (ev_ext (dp_env dp)) n ps)"
proof -
  note ok = sqlite_reaches(2) [OF assms(1-3)]
  from system_okD(5) [OF ok assms(6)] assms(5) obtain n ps spec where
    run: "build_action_spec n ps = Inr spec" "mech = sp_mechanism spec" "wf_json ps"
      "tx_hash_of (w_store w) i = Some (compute_request_hash (ev_ext (dp_env dp)) n ps)"
    by (auto simp: run_ok_def)
  from sqlite_reaches(3) [OF assms(1-3) run(4)] show ?thesis
  proof
    assume "\<exists>c nt pe r. Did c (Previewed nt pe r) \<in> set (w_log w) \<and>
      nt_request_hash nt = compute_request_hash (ev_ext (dp_env dp)) n ps"
    then obtain c' nt pe r where p: "Did c' (Previewed nt pe r) \<in> set (w_log w)"
      "nt_request_hash nt = compute_request_hash (ev_ext (dp_env dp)) n ps" by blast
    from system_okD(6) [OF ok p(1)] assms(5) obtain role n' ps' spec' where
      q: "cn_role (w_conns w ! c') = Some role" "action_allowed (ev_policy (dp_env dp)) role n'"
        "build_action_spec n' ps' = Inr spec'" "wf_json ps'"
        "nt_request_hash nt = compute_request_hash (ev_ext (dp_env dp)) n' ps'"
      by (auto simp: preview_ok_def)
    from hash_binds_action [OF assms(4) run(3) q(4) run(1) q(3)] p(2) q(5)
    consider "spec = spec'" | "sha_collision (ev_ext (dp_env dp))" by auto
    then show ?thesis
    proof cases
      case 1
      with p(1) q run(2) show ?thesis by (simp del: split_paired_Ex) blast
    qed simp
  qed simp
qed

lemma wf_store_intact: "wf_store ext key st \<Longrightarrow> verify_audit_chain ext key st = Inr (Intact (length (st_rows st)))"
proof -
  assume wf: "wf_store ext key st"
  then have "fetch_chain_rows st = Inr (chain_rows (st_rows st))"
    by (simp add: fetch_chain_rows_def chain_rows_def)
  with wf show ?thesis
    by (simp add: verify_audit_chain_def verify_chain_Intact wf_store_def) (simp add: chain_rows_def)
qed

lemma open_count_set:
  assumes "c < length xs" "cn_open cn \<longrightarrow> cn_open (xs ! c)"
  shows "length (filter cn_open (xs[c := cn])) \<le> length (filter cn_open xs)"
proof -
  have "length (filter cn_open xs) = length (filter cn_open (take c xs @ xs ! c # drop (Suc c) xs))"
    using assms(1) by (simp add: id_take_nth_drop [symmetric])
  then show ?thesis using assms by (simp add: upd_conv_take_nth_drop)
qed

lemma open_count_step: "daemon_step dp w w' \<Longrightarrow> open_count w \<le> MAX_CONNECTIONS \<Longrightarrow> open_count w' \<le> MAX_CONNECTIONS"
proof (induction rule: daemon_step.cases)
qed (auto simp: open_count_def new_conn_def intro: order_trans [OF open_count_set])

text \<open>C8. At all times at most 16 connections are open, and the audit log verifies as intact.\<close>

theorem daemon_stays_sound:
  assumes "dp_audit dp = sqlite_store ext" "wf_store ext key s" "daemon_reaches dp (booted s m) w"
  shows "length (filter cn_open (w_conns w)) \<le> 16 \<and>
    verify_audit_chain ext key (w_store w) = Inr (Intact (length (st_rows (w_store w))))"
proof -
  have "open_count w \<le> MAX_CONNECTIONS"
    using assms(3) unfolding daemon_reaches_def
  proof (induction rule: rtranclp_induct)
    case (step w w')
    then show ?case using open_count_step by blast
  qed (simp add: open_count_def booted_def)
  with wf_store_intact [OF sqlite_reaches(1) [OF assms]] show ?thesis
    by (simp add: open_count_def MAX_CONNECTIONS_def)
qed

section \<open>A run of the daemon\<close>

text \<open>One connection with one request after the other: its calls, one after the other.\<close>

inductive calls :: "'s deployment \<Rightarrow> 's \<times> machine \<Rightarrow> event list \<Rightarrow> 's \<times> machine \<Rightarrow> bool" for dp where
  none: "calls dp sm [] sm"
| more: "happens dp sm e sm' \<Longrightarrow> calls dp sm' es sm'' \<Longrightarrow> calls dp sm (e # es) sm''"

definition solo :: "caller_role \<Rightarrow> str \<Rightarrow> handler \<Rightarrow> 's \<times> machine \<Rightarrow> entry list \<Rightarrow> 's world" where
  "solo role inp p sm log = \<lparr>w_store = fst sm, w_machine = snd sm,
     w_conns = [\<lparr>cn_role = Some role, cn_input = inp, cn_open = True, cn_prog = p\<rparr>], w_log = log\<rparr>"

lemma solo_calls:
  "daemon_reaches dp w0 (solo role inp p sm log) \<Longrightarrow> calls dp sm es sm' \<Longrightarrow> follow p es = Some q \<Longrightarrow>
     daemon_reaches dp w0 (solo role inp q sm' (log @ map (Did 0) es))"
proof (induction es arbitrary: p sm log)
  case Nil
  then show ?case by (auto elim: calls.cases)
next
  case (Cons e es)
  from Cons.prems(2) obtain sm1 where h: "happens dp sm e sm1" "calls dp sm1 es sm'" by (auto elim: calls.cases)
  from Cons.prems(3) obtain p1 where p1: "react p e = Some p1" "follow p1 es = Some q"
    by (auto simp: Option.bind_eq_Some_conv)
  have "daemon_step dp (solo role inp p sm log) (solo role inp p1 sm1 (log @ [Did 0 e]))"
    using daemon_step.act [of 0 "solo role inp p sm log" _ e p1 dp "fst sm1" "snd sm1"] h(1) p1(1)
    by (simp add: solo_def set_conn_def)
  with Cons.prems(1) have "daemon_reaches dp w0 (solo role inp p1 sm1 (log @ [Did 0 e]))"
    unfolding daemon_reaches_def by (rule rtranclp.rtrancl_into_rtrancl)
  from Cons.IH [OF this h(2) p1(2)] show ?case by simp
qed

lemma solo_receive:
  assumes "daemon_reaches dp w0 (solo role (f @ rest) (Return x) sm log)" "send_frame raw = Inr f"
    and "dispatch_frame (dp_env dp) role raw = Some p"
  shows "daemon_reaches dp w0
    (solo role rest p sm (log @ [Began 0 (Option.bind (ev_parse (dp_env dp) raw) parse_request)]))"
proof -
  have "daemon_step dp (solo role (f @ rest) (Return x) sm log)
     (solo role rest p sm (log @ [Began 0 (Option.bind (ev_parse (dp_env dp) raw) parse_request)]))"
    using daemon_step.receive [of 0 "solo role (f @ rest) (Return x) sm log" _ role raw rest dp p]
      recv_after_send [OF assms(2), of rest] assms(3)
    by (simp add: solo_def set_conn_def)
  with assms(1) show ?thesis unfolding daemon_reaches_def by (rule rtranclp.rtrancl_into_rtrancl)
qed

lemma solo_start:
  assumes "dp_target dp = Unix path" "role = resolve_caller_role cred gf ps"
  shows "daemon_reaches dp (booted s m) (solo role inp (Return (Inr ())) (s, m) [])"
proof -
  have a: "daemon_step dp (booted s m) (solo role [] (Return (Inr ())) (s, m) [])"
    using daemon_step.accept_unix [OF assms(1), of "booted s m" cred gf ps] assms(2)
    by (simp add: booted_def add_conn_def new_conn_def solo_def open_count_def MAX_CONNECTIONS_def)
  have "daemon_step dp (solo role [] (Return (Inr ())) (s, m) []) (solo role inp (Return (Inr ())) (s, m) [])"
    using daemon_step.arrive [of 0 "solo role [] (Return (Inr ())) (s, m) []" _ dp inp]
    by (simp add: solo_def set_conn_def)
  with a show ?thesis unfolding daemon_reaches_def by (meson converse_rtranclp_into_rtranclp rtranclp.rtrancl_refl)
qed

text \<open>An observer previews and then executes \<open>GetSystemState\<close>; the process cannot be spawned.\<close>

definition state_msg :: "str \<Rightarrow> (str \<times> json) list \<Rightarrow> json" where
  "state_msg tag extra = JObject ([(''type'', JString tag), (''request_id'', JString ''r''),
     (''action_name'', JString ''GetSystemState''), (''params'', JNull)] @ extra)"

definition state_hash :: str where
  "state_hash = compute_request_hash text_externs ''GetSystemState'' JNull"

definition demo_parse :: "str \<Rightarrow> json option" where
  "demo_parse raw = (if raw = ''p'' then Some (state_msg ''preview'' [])
     else if raw = ''x'' then Some (state_msg ''execute'' [(''approval_hash'', JString state_hash)]) else None)"

definition demo_env :: daemon_env where
  "demo_env = sample_env\<lparr>ev_parse := demo_parse\<rparr>"

definition demo_os :: os where
  "demo_os = \<lparr>os_run = (\<lambda>p as m. (None, m)), os_denies = (\<lambda>_ _. False)\<rparr>"

definition demo_deployment :: "tx_store deployment" where
  "demo_deployment = \<lparr>dp_env = demo_env, dp_audit = sqlite_store text_externs, dp_os = demo_os, dp_target = Unix ''/s''\<rparr>"

definition demo_audit_key :: audit_key where
  "demo_audit_key = \<lparr>ak_key_id = CURRENT_KEY_ID, ak_key_bytes = []\<rparr>"

definition demo_preview_env :: preview_envelope where
  "demo_preview_env = preview_of demo_env Observer ''r'' ''GetSystemState'' JNull JNull"

definition demo_new_tx :: new_transaction where
  "demo_new_tx = new_tx_of demo_env ''r'' ''GetSystemState'' JNull get_system_state demo_preview_env"

definition demo_previewed :: tx_store where
  "demo_previewed = snd (record_previewed text_externs 0 ''t'' demo_new_tx demo_preview_env (open_with_key demo_audit_key))"

definition demo_tx_record :: transaction_record where
  "demo_tx_record = record_of_new ''t'' demo_new_tx"

definition demo_preview_calls :: "event list" where
  "demo_preview_calls = [Collected (Inl []),
     Previewed demo_new_tx demo_preview_env (Inr \<lparr>rp_transaction = demo_tx_record, rp_preview = demo_preview_env\<rparr>),
     Sent (PreviewResponse ''r'' demo_preview_env ''t'') False]"

definition demo_execute_calls :: "event list" where
  "demo_execute_calls = [FoundHash state_hash (Inr (Some demo_tx_record)), ClaimedTx ''t'' (Inr True), GotId ''j'',
     Sent (JobStarted ''r'' ''j'' ''t'') True,
     Sent (JobProgress ''j'' ''Authorization passed for GetSystemState'') False,
     Sent (JobProgress ''j'' ''Executing GetSystemState...'') False,
     Spawned ''rpm-ostree'' [''status'', ''--json''] None]"

lemma state_build: "build_action_spec ''GetSystemState'' JNull = Inr get_system_state"
  by (simp add: build_action_spec_def action_arms_def find_arm deployment_arms_def del: map_of_append)

lemma state_allowed: "action_allowed empty_policy Observer ''GetSystemState''"
  by (simp add: action_allowed_iff table_min_role_Some table_simps empty_policy_def)

lemma demo_env_sel [simp]:
  "ev_ext demo_env = text_externs" "ev_policy demo_env = empty_policy" "ev_forwarder demo_env = False"
  "ev_parse demo_env = demo_parse"
  by (simp_all add: demo_env_def)

lemma state_hash_nonempty: "state_hash \<noteq> []"
proof -
  have "ex_sha256 text_externs m \<noteq> []" for m by (simp add: text_externs_def plain_externs_def)
  then show ?thesis
    by (simp add: state_hash_def compute_request_hash_def hex_encode_def hex_byte_def neq_Nil_conv)
qed

lemma boot_wf: "wf_store text_externs demo_audit_key (open_with_key demo_audit_key)"
  by (rule wf_open) (simp add: demo_audit_key_def)

lemma demo_record:
  "record_previewed text_externs 0 ''t'' demo_new_tx demo_preview_env (open_with_key demo_audit_key) =
     (Inr \<lparr>rp_transaction = demo_tx_record, rp_preview = demo_preview_env\<rparr>, demo_previewed)"
  unfolding demo_previewed_def
  by (simp add: record_previewed_def open_with_key_def insert_transaction_def next_seq_and_prev_hash_def by_seq_desc_def
      by_seq_def Let_def insert_preview_def record_of_new_def demo_tx_record_def)

lemma boot_rows: "st_rows demo_previewed = [new_row text_externs demo_audit_key 0 ''t'' demo_new_tx (1, [])]"
  by (simp add: demo_previewed_def record_previewed_def open_with_key_def insert_transaction_def
      next_seq_and_prev_hash_def by_seq_desc_def by_seq_def Let_def insert_preview_def record_of_new_def)

lemma demo_found: "find_by_request_hash text_externs 0 state_hash demo_previewed = Inr (Some demo_tx_record)"
proof -
  have "datetime_text (0 - ttl_ms) < strftime_ms 0"
    by (simp add: datetime_less_strftime day_of_def day_limit_def ms_per_day_def)
  moreover have "nt_request_hash demo_new_tx = state_hash"
    by (simp add: demo_new_tx_def new_tx_of_def state_hash_def)
  moreover have "strings_roundtrip text_externs"
    using plain_externs_roundtrip by (simp add: strings_roundtrip_def text_externs_def)
  then have "row_to_record text_externs (new_row text_externs demo_audit_key 0 ''t'' demo_new_tx (1, [])) = Inr demo_tx_record"
    unfolding demo_tx_record_def by (intro new_row_record) (simp add: strings_roundtrip_def)
  ultimately show ?thesis
    by (simp add: find_by_request_hash_def boot_rows by_seq_desc_def by_seq_def first_record_def)
qed

lemma demo_claim: "fst (claim_for_execution ''t'' demo_previewed) = Inr True"
  by (simp add: claim_for_execution_def Let_def boot_rows)

lemma demo_started: "is_ok (response_frame text_externs (JobStarted ''r'' ''j'' ''t''))"
  by (simp add: response_frame_def tagged_def text_externs_def json_string.field_def esc_char_def send_frame_def
      MAX_MESSAGE_BYTES_def)

lemma demo_requests:
  "dispatch_frame demo_env Observer ''p'' = Some (handle_preview demo_env Observer ''r'' ''GetSystemState'' JNull)"
  "dispatch_frame demo_env Observer ''x'' = Some (handle_request demo_env Observer (Execute ''r'' ''GetSystemState'' JNull state_hash))"
  by (simp_all add: dispatch_frame_def demo_parse_def state_msg_def parse_fields_def read_action_def)

lemma demo_preview_path:
  "follow (handle_preview demo_env Observer ''r'' ''GetSystemState'' JNull) demo_preview_calls = Some (Return (Inl FramingFailed))"
  using state_build state_allowed
  by (simp add: handle_preview_def authorize_action_def demo_preview_calls_def snapshot_json_def Let_def
      demo_preview_env_def [symmetric] demo_new_tx_def [symmetric] forward_audit_event_def demo_tx_record_def
      record_of_new_def send_response_def)

lemma demo_execute_path:
  "\<exists>q. follow (handle_request demo_env Observer (Execute ''r'' ''GetSystemState'' JNull state_hash)) demo_execute_calls = Some q"
  unfolding demo_execute_calls_def
  using state_build state_allowed state_hash_nonempty
  by (subst follow_claimed [where spec = get_system_state])
     (simp_all add: state_hash_def demo_tx_record_def record_of_new_def run_claimed_def progress_def run_spec_def
       get_system_state_def command_mechanism_def stream_command_with_progress_def)

lemma demo_calls:
  "calls demo_deployment (open_with_key demo_audit_key, m) demo_preview_calls (demo_previewed, m)"
  "calls demo_deployment (demo_previewed, m) demo_execute_calls (snd (claim_for_execution ''t'' demo_previewed), m)"
proof -
  have rec: "happens demo_deployment (open_with_key demo_audit_key, m)
     (Previewed demo_new_tx demo_preview_env (Inr \<lparr>rp_transaction = demo_tx_record, rp_preview = demo_preview_env\<rparr>))
     (demo_previewed, m)"
    by (rule happens.previewed [where now = 0 and i = "''t''"]) (simp add: demo_deployment_def sqlite_store_def demo_record)
  show "calls demo_deployment (open_with_key demo_audit_key, m) demo_preview_calls (demo_previewed, m)"
    unfolding demo_preview_calls_def
    by (rule calls.more [OF happens.collected calls.more [OF rec calls.more [OF happens.sent calls.none]]]) simp
  have found: "happens demo_deployment (demo_previewed, m) (FoundHash state_hash (Inr (Some demo_tx_record))) (demo_previewed, m)"
    using happens.found [of demo_deployment demo_previewed m state_hash 0]
    by (simp add: demo_deployment_def sqlite_store_def demo_found)
  have claim: "happens demo_deployment (demo_previewed, m) (ClaimedTx ''t'' (Inr True)) (snd (claim_for_execution ''t'' demo_previewed), m)"
    by (rule happens.claimed) (use demo_claim in \<open>simp add: demo_deployment_def sqlite_store_def prod_eq_iff\<close>)
  have start: "happens demo_deployment (s, m) (Sent (JobStarted ''r'' ''j'' ''t'') True) (s, m)" for s
    by (rule happens.sent) (simp add: demo_deployment_def demo_started)
  have run: "happens demo_deployment (s, m) (Spawned p as None) (s, m)" for s p as
    by (rule happens.spawn_fails) (simp add: demo_deployment_def demo_os_def)
  show "calls demo_deployment (demo_previewed, m) demo_execute_calls (snd (claim_for_execution ''t'' demo_previewed), m)"
    unfolding demo_execute_calls_def
    by (rule calls.more [OF found calls.more [OF claim calls.more [OF happens.got_id calls.more [OF start
        calls.more [OF happens.sent calls.more [OF happens.sent calls.more [OF run calls.none]]]]]]]) simp_all
qed

definition demo_log :: "entry list" where
  "demo_log = Began 0 (Some (Preview ''r'' ''GetSystemState'' JNull)) # map (Did 0) demo_preview_calls @
     Began 0 (Some (Execute ''r'' ''GetSystemState'' JNull state_hash)) # map (Did 0) demo_execute_calls"

lemma demo_reach:
  "\<exists>q sm. daemon_reaches demo_deployment (booted (open_with_key demo_audit_key) m) (solo Observer [] q sm demo_log)"
proof -
  obtain f where f: "send_frame ''p'' = Inr f" by (simp add: send_frame_def MAX_MESSAGE_BYTES_def)
  obtain g where g: "send_frame ''x'' = Inr g" by (simp add: send_frame_def MAX_MESSAGE_BYTES_def)
  obtain q where q: "follow (handle_request demo_env Observer (Execute ''r'' ''GetSystemState'' JNull state_hash)) demo_execute_calls = Some q"
    using demo_execute_path by blast
  have env: "dp_env demo_deployment = demo_env" "dp_target demo_deployment = Unix ''/s''" by (simp_all add: demo_deployment_def)
  have parsed: "Option.bind (demo_parse ''p'') parse_request = Some (Preview ''r'' ''GetSystemState'' JNull)"
    "Option.bind (demo_parse ''x'') parse_request = Some (Execute ''r'' ''GetSystemState'' JNull state_hash)"
    by (simp_all add: demo_parse_def state_msg_def parse_fields_def read_action_def)
  have "Observer = resolve_caller_role None None (\<lambda>_. None)" by (simp add: resolve_caller_role_def)
  from solo_start [OF env(2) this, of _ m "f @ g @ []"]
  have 1: "daemon_reaches demo_deployment (booted (open_with_key demo_audit_key) m)
     (solo Observer (f @ g @ []) (Return (Inr ())) (open_with_key demo_audit_key, m) [])" .
  note 2 = solo_receive [OF 1 f, of "handle_preview demo_env Observer ''r'' ''GetSystemState'' JNull",
      unfolded env, OF demo_requests(1)]
  note 3 = solo_calls [OF 2 demo_calls(1) demo_preview_path]
  note 4 = solo_receive [OF 3 g, unfolded env, OF demo_requests(2)]
  note 5 = solo_calls [OF 4 demo_calls(2) q]
  have log: "(([] @ [Began 0 (Option.bind (ev_parse demo_env ''p'') parse_request)]) @ map (Did 0) demo_preview_calls) @
      [Began 0 (Option.bind (ev_parse demo_env ''x'') parse_request)] @ map (Did 0) demo_execute_calls = demo_log"
    by (simp add: demo_log_def parsed)
  from 5 show ?thesis unfolding append_assoc [symmetric] log [unfolded append_assoc [symmetric]] by blast
qed

lemma demo_runs: "action_runs demo_log = [(0, ''t'', Command ''rpm-ostree'' [''status'', ''--json''])]"
  by (simp add: action_runs_def demo_log_def demo_preview_calls_def demo_execute_calls_def demo_tx_record_def record_of_new_def)

lemma demo_audit: "dp_audit demo_deployment = sqlite_store text_externs"
  by (simp add: demo_deployment_def)

theorem executed_at_most_once_witness:
  "\<exists>(w :: tx_store world) n ps spec. action_runs (w_log w) = [(0, ''t'', sp_mechanism spec)] \<and> distinct (run_ids (w_log w)) \<and>
     build_action_spec n ps = Inr spec \<and>
     tx_hash_of (w_store w) ''t'' = Some (compute_request_hash text_externs n ps)"
proof -
  obtain q sm where r: "daemon_reaches demo_deployment (booted (open_with_key demo_audit_key) \<lparr>m_files = [], m_dirs = []\<rparr>)
      (solo Observer [] q sm demo_log)" using demo_reach by blast
  from executed_at_most_once [OF demo_audit boot_wf r] show ?thesis
    by (intro exI [of _ "solo Observer [] q sm demo_log"])
       (fastforce simp: solo_def demo_runs demo_deployment_def)
qed

theorem daemon_stays_sound_witness:
  "\<exists>w :: tx_store world. w_log w = demo_log \<and> length (filter cn_open (w_conns w)) \<le> 16 \<and>
    verify_audit_chain text_externs demo_audit_key (w_store w) = Inr (Intact (length (st_rows (w_store w))))"
proof -
  obtain q sm where r: "daemon_reaches demo_deployment (booted (open_with_key demo_audit_key) \<lparr>m_files = [], m_dirs = []\<rparr>)
      (solo Observer [] q sm demo_log)" using demo_reach by blast
  from daemon_stays_sound [OF demo_audit boot_wf r] show ?thesis
    by (intro exI [of _ "solo Observer [] q sm demo_log"]) (simp add: solo_def)
qed

theorem what_runs_was_previewed_witness:
  "sha_collision text_externs \<or> (\<exists>c' nt pe r n ps spec. Did c' (Previewed nt pe r) \<in> set demo_log \<and>
     build_action_spec n ps = Inr spec \<and> Command ''rpm-ostree'' [''status'', ''--json''] = sp_mechanism spec \<and>
     nt_request_hash nt = compute_request_hash text_externs n ps)"
proof -
  obtain q sm where r: "daemon_reaches demo_deployment (booted (open_with_key demo_audit_key) \<lparr>m_files = [], m_dirs = []\<rparr>)
      (solo Observer [] q sm demo_log)" using demo_reach by blast
  have env: "dp_env demo_deployment = demo_env" by (simp add: demo_deployment_def)
  have pw: "parses_wf (dp_env demo_deployment)" by (simp add: parses_wf_def env demo_parse_def state_msg_def)
  have laws: "json_text_laws (ev_ext (dp_env demo_deployment))" by (simp add: env text_externs_laws)
  have mem: "(0, ''t'', Command ''rpm-ostree'' [''status'', ''--json'']) \<in> set (action_runs (w_log (solo Observer [] q sm demo_log)))"
    by (simp add: solo_def demo_runs)
  have none: "tx_hash_of (open_with_key demo_audit_key) ''t'' = None"
    by (simp add: tx_hash_of_def open_with_key_def find_tx_def)
  from what_runs_was_previewed [OF demo_audit boot_wf r laws pw mem] none show ?thesis
    by (simp add: env solo_def del: split_paired_Ex) blast
qed

end
