(* ===== verification/Audit_Properties.thy ===== *)
theory Audit_Properties
  imports Store_Invariant
begin

text \<open>
  The properties of the audit log: the canonical encoding is unambiguous, the tip of a verified log
  commits to the whole log, edits are reported where they are and cut tails are not, every sequence
  of writes keeps the log intact, and the lookup, claim, expiry and history methods do what the
  dispatcher relies on. The concrete log of the witnesses is at the start.
\<close>

section \<open>A concrete log\<close>

definition demo_key :: audit_key where
  "demo_key = \<lparr> ak_key_id = CURRENT_KEY_ID, ak_key_bytes = replicate 32 (CHR ''k'') \<rparr>"

definition demo_tx :: "str \<Rightarrow> new_transaction" where
  "demo_tx h = \<lparr> nt_request_id = ''req'', nt_request_hash = h, nt_action_name = ''UpdateSystem'',
     nt_risk_level = High, nt_approval_id = None, nt_summary = ''Upgrade'', nt_warnings = [] \<rparr>"

definition demo_preview :: preview_envelope where
  "demo_preview = \<lparr> pe_summary = ''Upgrade'', pe_risk_level = High, pe_current_state = JNull,
     pe_proposed_change = JNull, pe_expected_side_effects = [], pe_reboot_required = True,
     pe_rollback_available = True, pe_warnings = [], pe_request_hash = RequestHash ''h1'' \<rparr>"

definition demo_store :: tx_store where
  "demo_store = snd (record_previewed plain_externs 0 ''t1'' (demo_tx ''h1'') demo_preview (open_with_key demo_key))"

definition demo_row :: tx_row where
  "demo_row = new_row plain_externs demo_key 0 ''t1'' (demo_tx ''h1'') (1, [])"

lemma demo_key_id [simp]: "ak_key_id demo_key = CURRENT_KEY_ID"
  by (simp add: demo_key_def)

lemma demo_wf0: "wf_store plain_externs demo_key (open_with_key demo_key)"
  by (rule wf_open) simp

lemma demo_wf: "wf_store plain_externs demo_key demo_store"
  unfolding demo_store_def by (rule wf_record_previewed [OF demo_wf0])

lemma demo_rows: "st_rows demo_store = [demo_row]"
  by (simp add: demo_store_def record_previewed_cases [OF demo_wf0] demo_row_def appended_row_def
      chain_rows_def) (simp add: open_with_key_def)

lemma demo_row_linked: "row_linked (ex_mac plain_externs) demo_key [] (chain_row.truncate demo_row)"
  unfolding demo_row_def by (rule new_row_linked) simp

lemma demo_no_collision: "\<not> mac_collision (ex_mac plain_externs) key xs ys"
  by (auto simp: mac_collision_def plain_externs_def)

lemma demo_row_views [simp]:
  "cr_transaction_id demo_row = ''t1''" "tx_status demo_row = Queued" "cr_request_hash demo_row = ''h1''"
  "cr_created_at demo_row = strftime_ms 0" "cr_seq demo_row = 1" "cr_approval_id demo_row = None"
  "cr_summary demo_row = ''Upgrade''" "cr_action_name demo_row = ''UpdateSystem''"
  by (simp_all add: demo_row_def demo_tx_def) (simp_all add: new_row_def)

section \<open>The chain\<close>

text \<open>C11. The canonical encoding is unambiguous: two rows' bytes, each followed by a previous hash,
  are equal exactly when the previous hashes and all immutable fields are, where an absent approval
  and an empty one count as equal (the encoding writes both as the empty value).\<close>

theorem canonical_encoding_unambiguous:
  "canonical_bytes c @ p = canonical_bytes d @ q \<longleftrightarrow>
     c\<lparr>cc_approval_id := Some (unwrap_or (cc_approval_id c) [])\<rparr> =
     d\<lparr>cc_approval_id := Some (unwrap_or (cc_approval_id d) [])\<rparr> \<and> p = q"
  by (simp add: canonical_decodable norm_content_def)

text \<open>C27. The last chain hash of a verified log commits to the whole log: two logs that verify under
  one key and end in the same hash have the same rows (up to an absent or empty approval), unless two
  different authenticated messages of the logs have the same MAC.\<close>

theorem tip_hash_commits_to_log:
  assumes "\<And>m. mac (ak_key_bytes key) m \<noteq> []"
    and "verify_chain mac key rows = Intact n" "verify_chain mac key rows' = Intact n'"
    and "log_tip [] rows = log_tip [] rows'" "\<not> mac_collision mac key rows rows'"
  shows "map norm_row rows = map norm_row rows' \<and> n = n'"
proof -
  from assms(2,3) have v: "log_linked mac key [] rows" "log_linked mac key [] rows'"
      "n = length rows" "n' = length rows'" by (simp_all add: verify_chain_Intact)
  from tip_commits [OF assms(1) v(1,2) assms(4,5)] v(3,4) show ?thesis
    by (metis length_map)
qed

lemma tip_hash_commits_witness:
  "map norm_row [chain_row.truncate demo_row]
     = map norm_row [chain_row.truncate demo_row\<lparr>cr_approval_id := Some []\<rparr>] \<and> (1::nat) = 1"
proof (rule tip_hash_commits_to_log [of "ex_mac plain_externs" demo_key])
  show "\<And>m. ex_mac plain_externs (ak_key_bytes demo_key) m \<noteq> []" by (simp add: plain_externs_mac)
  show "verify_chain (ex_mac plain_externs) demo_key [chain_row.truncate demo_row] = Intact 1"
    using demo_row_linked by (simp add: verify_chain_Intact)
  have "row_linked (ex_mac plain_externs) demo_key []
      (chain_row.truncate demo_row\<lparr>cr_approval_id := Some []\<rparr>)"
    using demo_row_linked
    by (simp add: row_linked_def chain_hash_def row_content_def chain_row.truncate_def canonical_bytes_def)
  then show "verify_chain (ex_mac plain_externs) demo_key
      [chain_row.truncate demo_row\<lparr>cr_approval_id := Some []\<rparr>] = Intact 1"
    by (simp add: verify_chain_Intact)
qed (simp_all add: demo_no_collision log_tip_def chain_row.truncate_def)

text \<open>A row edited in place (its stored hash kept, an immutable field or its back link changed) is
  reported at its own position: the verifier returns \<open>Broken\<close> with the number of rows before it and
  its sequence number, or \<open>CannotVerify\<close> when the edit changed the key id.\<close>

theorem edited_row_reported:
  assumes "verify_chain mac key (pre @ r # post) = Intact n"
    and "cr_chain_hash r' = cr_chain_hash r" "norm_row r' \<noteq> norm_row r"
    and "\<not> mac_collision mac key [r'] [r]"
  shows "if cr_key_id r' = ak_key_id key
     then \<exists>expected actual. verify_chain mac key (pre @ r' # post')
            = Broken (length pre) (cr_seq r') (cr_transaction_id r') expected actual
     else verify_chain mac key (pre @ r' # post') = CannotVerify (cr_seq r') (cr_key_id r') (ak_key_id key)"
proof -
  from assms(1) have l: "log_linked mac key [] pre" "row_linked mac key (log_tip [] pre) r"
    by (simp_all add: verify_chain_Intact)
  from edit_unlinks [OF l(2) assms(2-4)] verify_chain_break [OF l(1)]
  show ?thesis by (auto simp: break_outcome_def)
qed

lemma edited_row_witness:
  "if cr_key_id (chain_row.truncate demo_row\<lparr>cr_summary := ''x''\<rparr>) = ak_key_id demo_key
   then \<exists>expected actual. verify_chain (ex_mac plain_externs) demo_key
          ([] @ [chain_row.truncate demo_row\<lparr>cr_summary := ''x''\<rparr>])
          = Broken (length ([] :: chain_row list)) (cr_seq (chain_row.truncate demo_row\<lparr>cr_summary := ''x''\<rparr>))
              (cr_transaction_id (chain_row.truncate demo_row\<lparr>cr_summary := ''x''\<rparr>)) expected actual
   else verify_chain (ex_mac plain_externs) demo_key
          ([] @ [chain_row.truncate demo_row\<lparr>cr_summary := ''x''\<rparr>])
        = CannotVerify (cr_seq (chain_row.truncate demo_row\<lparr>cr_summary := ''x''\<rparr>))
            (cr_key_id (chain_row.truncate demo_row\<lparr>cr_summary := ''x''\<rparr>)) (ak_key_id demo_key)"
proof (rule edited_row_reported)
  show "verify_chain (ex_mac plain_externs) demo_key ([] @ [chain_row.truncate demo_row]) = Intact 1"
    using demo_row_linked by (simp add: verify_chain_Intact)
qed (simp_all add: demo_no_collision norm_row_eq row_content_def norm_content_def chain_row.truncate_def)

text \<open>The chain walk cannot see a cut tail: whatever rows are removed from the end of an intact
  log, the rest verifies as intact (the module's threat model says so).\<close>

theorem tail_truncation_undetected:
  assumes "verify_chain mac key (rows @ removed) = Intact n"
  shows "verify_chain mac key rows = Intact (n - length removed)"
  using assms by (auto simp: verify_chain_Intact)

lemma tail_truncation_witness:
  "verify_chain (ex_mac plain_externs) demo_key [] = Intact (1 - length [chain_row.truncate demo_row])"
proof (rule tail_truncation_undetected)
  show "verify_chain (ex_mac plain_externs) demo_key ([] @ [chain_row.truncate demo_row]) = Intact 1"
    using demo_row_linked by (simp add: verify_chain_Intact)
qed

section \<open>The store\<close>

text \<open>C14. Whatever sequence of inserts, status updates, claims and cleanups is run on a store opened
  with a key, the audit chain verifies as intact over all rows, identifiers stay distinct, and the
  sequence numbers are 1, 2, 3 and so on in insertion order.\<close>

theorem writes_keep_log_intact:
  assumes "ak_key_id key = CURRENT_KEY_ID"
    and "st = run_ops (sqlite_store ext) ops (open_with_key key)"
  shows "verify_audit_chain ext key st = Inr (Intact (length (st_rows st))) \<and>
     distinct (map cr_transaction_id (st_rows st)) \<and>
     map cr_seq (st_rows st) = [1..<Suc (length (st_rows st))]"
proof -
  from sqlite.run_ops_inv [OF wf_open [OF assms(1)]] assms(2)
  have wf: "wf_store ext key st" by simp
  then have "fetch_chain_rows st = Inr (chain_rows (st_rows st))"
    by (simp add: fetch_chain_rows_def chain_rows_def)
  with wf have "verify_audit_chain ext key st = Inr (Intact (length (st_rows st)))"
    by (simp add: verify_audit_chain_def verify_chain_Intact wf_store_def) (simp add: chain_rows_def)
  with wf show ?thesis by (simp add: wf_store_def del: upt_Suc)
qed

lemma writes_keep_log_intact_witness:
  "verify_audit_chain plain_externs demo_key demo_store = Inr (Intact (length (st_rows demo_store))) \<and>
   distinct (map cr_transaction_id (st_rows demo_store)) \<and>
   map cr_seq (st_rows demo_store) = [1..<Suc (length (st_rows demo_store))]"
  by (rule writes_keep_log_intact [where ops = "[OpRecordPreviewed 0 ''t1'' (demo_tx ''h1'') demo_preview]"])
     (simp_all add: run_ops_def sqlite_store_def demo_store_def)

text \<open>C16. A transaction is claimed for execution at most once: in any sequence of writes, at most one
  claim of it is granted.\<close>

theorem claimed_at_most_once:
  assumes "ak_key_id key = CURRENT_KEY_ID"
  shows "claims_granted (sqlite_store ext) i ops (open_with_key key) \<le> 1"
  by (rule sqlite.claims_at_most_one [OF wf_open [OF assms]])

lemma claimed_at_most_once_witness:
  "claims_granted (sqlite_store plain_externs) ''t1''
     [OpRecordPreviewed 0 ''t1'' (demo_tx ''h1'') demo_preview, OpClaim ''t1'', OpClaim ''t1'']
     (open_with_key demo_key) \<le> 1"
  by (rule claimed_at_most_once) simp

text \<open>The status of a transaction only moves along the job state machine, whatever the writes: it
  stays, takes an allowed transition, or goes from \<open>Queued\<close> to a terminal state through
  \<open>Running\<close>; so a terminal status is final, and no write returns a row to \<open>Queued\<close>.\<close>

theorem status_follows_state_machine:
  assumes "wf_store ext key st" "tx_status_of st i = Some c"
  shows "\<exists>d. tx_status_of (run_ops (sqlite_store ext) ops st) i = Some d \<and>
     (d = c \<or> allowed_transition c d \<or> c = Queued \<and> terminal_state d)"
  using sqlite.run_ops_status [OF assms] by (auto simp: job_step_star_iff)

lemma status_follows_state_machine_witness:
  "\<exists>d. tx_status_of (run_ops (sqlite_store plain_externs) [OpClaim ''t1'', OpUpdate ''t1'' Failed] demo_store) ''t1''
       = Some d \<and> (d = Queued \<or> allowed_transition Queued d \<or> Queued = Queued \<and> terminal_state d)"
  by (rule status_follows_state_machine [OF demo_wf])
     (simp add: tx_status_of_def demo_rows find_tx_def)

text \<open>Status changes never touch the audited content: a sequence of updates, claims and cleanups
  returns the same chain rows, so the same verification result.\<close>

theorem status_changes_keep_audit_rows:
  "fetch_chain_rows (snd (update_status i s st)) = fetch_chain_rows st \<and>
   fetch_chain_rows (snd (claim_for_execution i st)) = fetch_chain_rows st \<and>
   fetch_chain_rows (snd (cleanup_stale_queued now st)) = fetch_chain_rows st"
proof -
  have *: "map chain_row.truncate (by_seq (set_status s p rows)) = map chain_row.truncate (by_seq rows)"
    for s p rows
  proof -
    have "by_seq (set_status s p rows) = set_status s p (by_seq rows)"
      unfolding by_seq_def set_status_def
      by (rule sort_key_map_same) simp
    then show ?thesis using set_status_views(4) by (simp add: chain_rows_def)
  qed
  show ?thesis
    by (auto simp: update_status_def claim_for_execution_def cleanup_stale_queued_def Let_def
        fetch_chain_rows_def * split: option.split)
qed

text \<open>The lookup behind the approval check answers with the newest live preview: among the rows
  with the requested hash that are \<open>Queued\<close> and not stale it converts the last one inserted, which
  is the one with the largest sequence number, and answers \<open>None\<close> exactly when there is none.\<close>

theorem lookup_finds_newest_live_preview:
  assumes "wf_store ext key st" "live = filter (live_preview now h) (st_rows st)"
  shows "find_by_request_hash ext now h st =
      (if live = [] then Inr None else rbind (row_to_record ext (last live)) (\<lambda>rec. Inr (Some rec)))
    \<and> sorted_wrt (<) (map cr_seq live)"
proof
  have "find_by_request_hash ext now h st = first_record ext (rev live)"
    unfolding find_by_request_hash_def by_seq_desc_filter_wf [OF assms(1)]
    by (simp add: assms(2) live_preview_def [abs_def])
  then show "find_by_request_hash ext now h st =
      (if live = [] then Inr None else rbind (row_to_record ext (last live)) (\<lambda>rec. Inr (Some rec)))"
    by (cases live rule: rev_cases) (simp_all add: first_record_def)
  have "sorted_wrt (<) (map cr_seq (st_rows st))"
    by (simp only: wf_seqs [OF assms(1)] sorted_wrt_upt)
  then show "sorted_wrt (<) (map cr_seq live)"
    by (simp add: assms(2) sorted_wrt_map sorted_wrt_filter)
qed

lemma lookup_finds_newest_live_preview_witness:
  "find_by_request_hash plain_externs 0 ''h1'' demo_store =
      (if [demo_row] = [] then Inr None
       else rbind (row_to_record plain_externs (last [demo_row])) (\<lambda>rec. Inr (Some rec)))
    \<and> sorted_wrt (<) (map cr_seq [demo_row])"
proof (rule lookup_finds_newest_live_preview [OF demo_wf])
  have "datetime_text 0 < strftime_ms 0"
    by (simp add: datetime_less_strftime day_of_def day_limit_def ms_per_day_def)
  then show "[demo_row] = filter (live_preview 0 ''h1'') (st_rows demo_store)"
    by (simp add: demo_rows live_preview_def)
qed

text \<open>How long a preview stays executable. A preview recorded at time \<open>t\<close>, the first with its
  hash, is found at time \<open>now\<close> exactly when the calendar day of \<open>now\<close> minus 15 minutes is not after
  the day of \<open>t\<close>. The statement means to expire it after 15 minutes, but it compares the stored
  \<open>...T...Z\<close> text with a \<open>datetime\<close> text, so only the dates are compared.\<close>

theorem preview_lives_by_calendar_day:
  assumes "wf_store ext key st" "tid \<notin> cr_transaction_id ` set (st_rows st)"
    and "\<forall>r\<in>set (st_rows st). cr_request_hash r \<noteq> nt_request_hash nt"
    and "strings_roundtrip ext" "day_of t < day_limit" "day_of (now - ttl_ms) < day_limit"
  shows "find_by_request_hash ext now (nt_request_hash nt) (snd (record_previewed ext t tid nt p st))
     = Inr (if day_of (now - ttl_ms) \<le> day_of t then Some (record_of_new tid nt) else None)"
proof -
  let ?row = "appended_row ext key t tid nt st"
  let ?st' = "snd (record_previewed ext t tid nt p st)"
  have rows: "st_rows ?st' = st_rows st @ [?row]"
    by (simp add: record_previewed_cases [OF assms(1)] assms(2))
  have live: "datetime_text (now - ttl_ms) < strftime_ms t \<longleftrightarrow> day_of (now - ttl_ms) \<le> day_of t"
    by (rule datetime_less_strftime [OF assms(6,5)])
  have old: "filter (\<lambda>r. cr_request_hash r = nt_request_hash nt \<and> P r) (st_rows st) = []" for P
    using assms(3) by (auto simp: filter_empty_conv)
  have "row_to_record ext ?row = Inr (record_of_new tid nt)"
    unfolding appended_row_def
    by (rule new_row_record) (use assms(4) in \<open>simp add: strings_roundtrip_def\<close>)
  then show ?thesis
    by (simp add: find_by_request_hash_def rows old live by_seq_desc_def by_seq_def first_record_def)
qed

lemma preview_lives_by_calendar_day_witness:
  "find_by_request_hash plain_externs (86400000 + 899999) (nt_request_hash (demo_tx ''h1''))
     (snd (record_previewed plain_externs 0 ''t1'' (demo_tx ''h1'') demo_preview (open_with_key demo_key)))
   = Inr (if day_of (86400000 + 899999 - ttl_ms) \<le> day_of 0
          then Some (record_of_new ''t1'' (demo_tx ''h1'')) else None)"
  by (rule preview_lives_by_calendar_day [OF demo_wf0])
     (simp_all add: open_with_key_def plain_externs_roundtrip day_of_def ms_per_day_def day_limit_def ttl_ms_def)

text \<open>The bulk expiry is the state machine run on each row: it changes exactly the stale \<open>Queued\<close>
  rows, each to what \<open>cancel\<close> gives on its job, leaves every other row (a \<open>Running\<close> one in
  particular) as it is, and returns their number.\<close>

theorem cleanup_cancels_stale_jobs:
  "cleanup_stale_queued now st =
    (Inr (length (filter (\<lambda>r. tx_status r = Queued \<and> stale_text now (cr_created_at r)) (st_rows st))),
     st\<lparr>st_rows := map (\<lambda>r. if tx_status r = Queued \<and> stale_text now (cr_created_at r)
        then r\<lparr>tx_status := jm_state (fst (cancel (new_job (cr_transaction_id r))))\<rparr> else r) (st_rows st)\<rparr>)"
  by (simp add: cleanup_stale_queued_def Let_def set_status_def stale_text_def cancel_def
      transition_to_def new_job_def)

text \<open>The history query returns the rows matching the filters, newest first, cut to \<open>limit\<close> and to
  100: it misses no matching row newer than one it returns.\<close>

theorem history_is_bounded_newest_first:
  assumes "wf_store ext key st"
    and "list_transactions ext now limit status_filter action_filter since st = Inr recs"
    and "matching = filter (\<lambda>r. (\<forall>s. status_filter = Some s \<longrightarrow> parse_status ext s = Inr (tx_status r)) \<and>
        (\<forall>a. action_filter = Some a \<longrightarrow> cr_action_name r = a) \<and>
        (\<forall>h. since = Some h \<longrightarrow> created_within now h r)) (st_rows st)"
  shows "list_all2 (\<lambda>r rec. row_to_record ext r = Inr rec) (take (min (unat limit) 100) (rev matching)) recs \<and>
      length recs = min (length matching) (min (unat limit) 100) \<and> sorted_wrt (<) (map cr_seq matching)"
proof -
  from assms(2) obtain status_ok where ok:
      "(case status_filter of None \<Rightarrow> Inr (\<lambda>r. True)
        | Some s \<Rightarrow> rbind (parse_status ext s) (\<lambda>js. Inr (\<lambda>r. tx_status r = js))) = Inr status_ok"
    and res: "map_result (row_to_record ext) (take (unat (min limit 100)) (by_seq_desc (filter
        (\<lambda>r. status_ok r \<and> (case action_filter of None \<Rightarrow> True | Some a \<Rightarrow> cr_action_name r = a) \<and>
          (case since of None \<Rightarrow> True | Some h \<Rightarrow> created_within now h r)) (st_rows st)))) = Inr recs"
    by (auto simp: list_transactions_def Let_def rbind_eq_Inr_conv)
  have st: "status_ok r \<longleftrightarrow> (\<forall>s. status_filter = Some s \<longrightarrow> parse_status ext s = Inr (tx_status r))" for r
    using ok by (auto simp: rbind_eq_Inr_conv split: option.splits)
  have m: "matching = filter (\<lambda>r. status_ok r \<and>
      (case action_filter of None \<Rightarrow> True | Some a \<Rightarrow> cr_action_name r = a) \<and>
      (case since of None \<Rightarrow> True | Some h \<Rightarrow> created_within now h r)) (st_rows st)"
    unfolding assms(3) by (rule filter_cong) (auto simp: st split: option.splits)
  have "sorted_wrt (<) (map cr_seq (st_rows st))"
    by (simp only: wf_seqs [OF assms(1)] sorted_wrt_upt)
  then have so: "sorted_wrt (<) (map cr_seq matching)"
    by (simp add: m sorted_wrt_map sorted_wrt_filter)
  have lim: "unat (min limit 100) = min (unat limit) 100"
    by (simp add: min_def word_le_nat_alt)
  from res have all2: "list_all2 (\<lambda>r rec. row_to_record ext r = Inr rec)
      (take (min (unat limit) 100) (rev matching)) recs"
    by (simp add: by_seq_desc_filter_wf [OF assms(1)] map_result_Inr m lim)
  from list_all2_lengthD [OF this] have "length recs = min (length matching) (min (unat limit) 100)"
    by simp
  with all2 so show ?thesis by blast
qed

lemma history_witness:
  "list_all2 (\<lambda>r rec. row_to_record plain_externs r = Inr rec)
      (take (min (unat (20 :: 32 word)) 100) (rev [demo_row])) [record_of_new ''t1'' (demo_tx ''h1'')] \<and>
   length [record_of_new ''t1'' (demo_tx ''h1'')] = min (length [demo_row]) (min (unat (20 :: 32 word)) 100) \<and>
   sorted_wrt (<) (map cr_seq [demo_row])"
proof (rule history_is_bounded_newest_first [OF demo_wf, where now = 0 and status_filter = "Some ''queued''"
    and action_filter = "Some ''UpdateSystem''" and since = None])
  have "row_to_record plain_externs demo_row = Inr (record_of_new ''t1'' (demo_tx ''h1''))"
    unfolding demo_row_def
    by (rule new_row_record) (use plain_externs_roundtrip in \<open>simp add: strings_roundtrip_def\<close>)
  moreover have q: "parse_status plain_externs ''queued'' = Inr Queued"
    by (simp add: parse_status_def plain_externs_def plain_strip_def job_state_names_def)
  ultimately show "list_transactions plain_externs 0 20 (Some ''queued'') (Some ''UpdateSystem'') None demo_store
      = Inr [record_of_new ''t1'' (demo_tx ''h1'')]"
    by (simp add: list_transactions_def demo_rows by_seq_desc_def by_seq_def)
  show "[demo_row] = filter (\<lambda>r. (\<forall>s. Some ''queued'' = Some s \<longrightarrow> parse_status plain_externs s = Inr (tx_status r)) \<and>
        (\<forall>a. Some ''UpdateSystem'' = Some a \<longrightarrow> cr_action_name r = a) \<and>
        (\<forall>h. None = Some h \<longrightarrow> created_within 0 h r)) (st_rows demo_store)"
    by (simp add: demo_rows q)
qed

end
