(* ===== verification/Executor_Properties.thy ===== *)
theory Executor_Properties
  imports Executor_Safety Policy
begin

text \<open>
  What the executor guarantees of every action it builds, and the repository files end to end: built from
  requests and executed on the file system.
\<close>

section \<open>Risk, roles and rollback\<close>

lemmas all_profiles = spec_profiles_def deployment_profiles_def flatpak_profiles_def container_profiles_def
  layering_profiles_def service_profiles_def toolbox_profiles_def system_profiles_def user_profiles_def
  apt_profiles_def snap_profiles_def grub_profiles_def ufw_profiles_def pro_profiles_def
  apparmor_profiles_def fail2ban_profiles_def

lemma risk_within_role:
  "list_all (\<lambda>(n, r, _). case min_role_for_action n of
      None \<Rightarrow> False | Some q \<Rightarrow> role_for_risk_level r \<le> q) spec_profiles"
  unfolding all_profiles by (simp add: table_simps)

lemma profile_within_role:
  assumes "map_of spec_profiles n = Some (r, p)"
  obtains q where "min_role_for_action n = Some q" "role_for_risk_level r \<le> q"
  using map_of_SomeD [OF assms] risk_within_role by (auto simp: list_all_iff split: option.splits)

text \<open>A caller that the policy table admits can only have actions built up to the risk level of its
  role, whatever overrides the operator configured: an observer low risk, a developer medium risk.\<close>

theorem allowed_risk_bounded:
  assumes "from_overrides raw = Inr pt" "action_allowed pt caller n" "build_action_spec n ps = Inr spec"
  shows "role_for_risk_level (sp_risk_level spec) \<le> caller"
proof -
  obtain p where p: "map_of spec_profiles n = Some p" "fits spec (n, p)" using assms(3) by (rule build_fits)
  obtain r p' where rp: "p = (r, p')" by (cases p)
  with p(1) obtain q where q: "min_role_for_action n = Some q" "role_for_risk_level r \<le> q"
    using profile_within_role by metis
  from assms(1,2) q(1) have "q \<le> caller"
    by (auto dest!: from_overrides_wf action_allowed_baseline simp: baseline_action_allowed_iff)
  with q(2) p(2) rp show ?thesis by (cases p') (auto intro: order_trans)
qed

lemmas deployment_lookup = build_action_spec_def action_arms_def find_arm deployment_arms_def

lemma build_rebase:
  "build_action_spec ''RebaseSystem'' (JObject [(''target_ref'', JString ''f42'')]) = Inr (rebase_system ''f42'')"
  by (simp add: deployment_lookup safe_param_def checked_param_def require_str_def
      validated_safe_arg_def ascii_defs SAFE_ARG_MAX_BYTES_def starts_with_char del: map_of_append)

theorem allowed_risk_witness: "role_for_risk_level (sp_risk_level (rebase_system ''f42'')) \<le> Admin"
proof (rule allowed_risk_bounded)
  show "from_overrides [] = Inr empty_policy" by (simp add: from_overrides_def empty_policy_def)
  show "action_allowed empty_policy Admin ''RebaseSystem''"
    by (simp add: action_allowed_iff table_min_role_Some table_simps empty_policy_def)
qed (rule build_rebase)

section \<open>Shell scripts\<close>

text \<open>C32. The parameters of a request cannot change what a shell does: two requests for the same action
  that are both built to scripts give scripts with closed quotes and the same shell operators.\<close>

theorem script_structure_fixed:
  assumes "build_action_spec n ps = Inr spec" "shell_script spec = Some s"
    and "build_action_spec n ps' = Inr spec'" "shell_script spec' = Some s'"
  shows "shell_operators s = shell_operators s' \<and> shell_operators s \<noteq> None"
proof -
  obtain p where p: "map_of spec_profiles n = Some p" "fits spec (n, p)" using assms(1) by (rule build_fits)
  obtain p' where p': "map_of spec_profiles n = Some p'" "fits spec' (n, p')" using assms(3) by (rule build_fits)
  from p(1) p'(1) have "p = p'" by simp
  with p(2) p'(2) assms(2,4) show ?thesis by (cases p) (auto simp: script_fits_def)
qed

lemma build_start_container:
  "build_action_spec ''StartContainer''
     (JObject [(''username'', JString ''ann''), (''name'', JString ''db'')]) = Inr (start_container ''ann'' ''db'')"
  "build_action_spec ''StartContainer''
     (JObject [(''user'', JString ''bo''), (''name'', JString ''web.1'')]) = Inr (start_container ''bo'' ''web.1'')"
  by (simp_all add: deployment_lookup flatpak_arms_def container_arms_def safe_param_def checked_param_def
      require_str_def validated_safe_arg_def ascii_defs SAFE_ARG_MAX_BYTES_def starts_with_char
      user_param_def resolve_username_def validated_username_def del: map_of_append)

theorem script_structure_witness:
  "shell_operators (''podman start '' @ quoted ''db'') = shell_operators (''podman start '' @ quoted ''web.1'') \<and>
   shell_operators (''podman start '' @ quoted ''db'') \<noteq> None"
  by (rule script_structure_fixed [OF build_start_container(1) _ build_start_container(2)])
     (simp_all add: start_container_def podman_as_def shell_script_def command_script_def)

section \<open>Repository files\<close>

text \<open>An action touches files directly only below \<open>/etc/yum.repos.d\<close>: it lists that directory, or it
  writes, patches or deletes \<open><id>.repo\<close> in it with an identifier without separators.\<close>

theorem file_actions_confined:
  "build_action_spec n ps = Inr spec \<Longrightarrow> file_confined (sp_mechanism spec)"
  by (rule build_confined)

definition repo_params :: "str \<Rightarrow> str \<Rightarrow> json" where
  "repo_params i url = JObject [(''repo_id'', JString i), (''repo_url'', JString url)]"

lemma build_add_repo:
  "build_action_spec ''AddPackageRepository'' ps =
     rbind (validated_repo_id ps) (\<lambda>i. rbind (validated_no_newline ps ''repo_url'') (\<lambda>url.
       Inr (add_package_repository i url)))"
  by (simp add: deployment_lookup flatpak_arms_def container_arms_def layering_arms_def del: map_of_append)

lemma build_toggle_repo:
  "build_action_spec ''DisablePackageRepository'' ps =
     rbind (validated_repo_id ps) (\<lambda>i. Inr (disable_package_repository i))"
  "build_action_spec ''EnablePackageRepository'' ps =
     rbind (validated_repo_id ps) (\<lambda>i. Inr (enable_package_repository i))"
  by (simp_all add: deployment_lookup flatpak_arms_def container_arms_def layering_arms_def del: map_of_append)

lemma repo_params_valid:
  "i \<noteq> [] \<Longrightarrow> list_all repo_id_char i \<Longrightarrow> validated_repo_id (repo_params i url) = Inr i"
  by (simp add: validated_repo_id_def repo_params_def require_str_def repo_id_char_def [abs_def])

lemma build_add_params:
  "i \<noteq> [] \<Longrightarrow> list_all repo_id_char i \<Longrightarrow> CHR 0x0A \<notin> set url \<Longrightarrow> CHR 0x0D \<notin> set url \<Longrightarrow>
   build_action_spec ''AddPackageRepository'' (repo_params i url) = Inr (add_package_repository i url)"
  by (simp add: build_add_repo repo_params_valid)
     (simp add: validated_no_newline_def require_str_def repo_params_def)

theorem file_actions_confined_witness:
  "file_confined (sp_mechanism (disable_package_repository ''fedora''))"
  by (rule file_actions_confined [of "''DisablePackageRepository''" "repo_params ''fedora'' []"])
     (simp add: build_toggle_repo repo_params_valid repo_id_char_def ascii_defs)

text \<open>The text of a repository file with its flag line, and its path.\<close>

definition repo_text :: "str \<Rightarrow> str \<Rightarrow> str \<Rightarrow> str" where
  "repo_text i url flag = join_with [CHR 0x0A] [''['' @ i @ '']'', ''baseurl='' @ url, flag, []]"

definition repo_file :: "str \<Rightarrow> str" where
  "repo_file i = ''/etc/yum.repos.d/'' @ i @ ''.repo''"

lemma repo_mechanism:
  "sp_mechanism (add_package_repository i url) = FileWrite (repo_file i) (repo_text i url ''enabled=1'')"
  "sp_mechanism (disable_package_repository i) = FilePatch (repo_file i) ''enabled=1'' ''enabled=0''"
  "sp_mechanism (enable_package_repository i) = FilePatch (repo_file i) ''enabled=0'' ''enabled=1''"
  by (simp_all add: add_package_repository_def disable_package_repository_def
      enable_package_repository_def mechanism_defs repo_file_def repo_text_def)

text \<open>A request cannot smuggle lines into a repository file: whatever identifier and URL it carries, the
  file written has the section line, the URL line and the flag line, and nothing else.\<close>

theorem repository_file_lines:
  assumes "build_action_spec ''AddPackageRepository'' ps = Inr spec"
  shows "\<exists>i url. json_get ps ''repo_id'' = Some (JString i) \<and> json_get ps ''repo_url'' = Some (JString url) \<and>
    sp_mechanism spec = FileWrite (repo_file i) (repo_text i url ''enabled=1'') \<and>
    split_on (CHR 0x0A) (repo_text i url ''enabled=1'') = [''['' @ i @ '']'', ''baseurl='' @ url, ''enabled=1'', []]"
proof -
  from assms obtain i url where v: "validated_repo_id ps = Inr i" "validated_no_newline ps ''repo_url'' = Inr url"
      "spec = add_package_repository i url"
    by (auto simp: build_add_repo rbind_eq_Inr_conv)
  from v(1) have i: "CHR 0x0A \<notin> set i"
    by (auto simp: validated_repo_id_Inr list_all_iff ascii_defs)
  from v(2) have "CHR 0x0A \<notin> set url" by (simp add: validated_no_newline_Inr)
  with i have "split_on (CHR 0x0A) (repo_text i url ''enabled=1'') =
      [''['' @ i @ '']'', ''baseurl='' @ url, ''enabled=1'', []]"
    unfolding repo_text_def by (intro split_join) auto
  with v show ?thesis
    by (auto simp: repo_mechanism validated_repo_id_Inr validated_no_newline_Inr)
qed

theorem repository_file_lines_witness:
  "\<exists>i url. json_get (repo_params ''fedora'' ''https://x/'') ''repo_id'' = Some (JString i) \<and>
    json_get (repo_params ''fedora'' ''https://x/'') ''repo_url'' = Some (JString url) \<and>
    sp_mechanism (add_package_repository ''fedora'' ''https://x/'') =
      FileWrite (repo_file i) (repo_text i url ''enabled=1'') \<and>
    split_on (CHR 0x0A) (repo_text i url ''enabled=1'') = [''['' @ i @ '']'', ''baseurl='' @ url, ''enabled=1'', []]"
  by (rule repository_file_lines) (simp add: build_add_params repo_id_char_def ascii_defs)

section \<open>Toggling a repository\<close>

lemma starts_with_break: "starts_with (s @ d # t) p \<Longrightarrow> d \<notin> set p \<Longrightarrow> starts_with s p"
  by (auto simp: starts_with_def prefix_append prefix_Cons)

lemma replace_first_skip:
  "\<not> contains_str s p \<Longrightarrow> d \<notin> set p \<Longrightarrow> p \<noteq> [] \<Longrightarrow>
   replace_first p r (s @ d # t) = s @ d # replace_first p r t"
proof (induction s)
  case Nil
  then have "\<not> starts_with (d # t) p" by (cases p) (auto simp: starts_with_def)
  then show ?case by simp
next
  case (Cons c s)
  then have "\<not> starts_with (c # s) p" "\<not> contains_str s p" by (auto simp: starts_with_def)
  moreover have "\<not> starts_with ((c # s) @ d # t) p"
    using starts_with_break [of "c # s" d t p] Cons.prems calculation by blast
  ultimately show ?case using Cons by simp
qed

lemma replace_first_hit: "p \<noteq> [] \<Longrightarrow> replace_first p r (p @ t) = r @ t"
  by (cases p) (auto simp: starts_with_def)

lemma replace_first_within:
  "contains_str s p \<Longrightarrow> p \<noteq> [] \<Longrightarrow> \<exists>a b. s = a @ p @ b \<and> (\<forall>t. replace_first p r (s @ t) = a @ r @ b @ t)"
proof (induction s)
  case (Cons c s)
  show ?case
  proof (cases "starts_with (c # s) p")
    case True
    then obtain b where b: "c # s = p @ b" by (auto simp: starts_with_def prefix_def)
    then have "replace_first p r ((c # s) @ t) = [] @ r @ b @ t" for t
      using replace_first_hit [OF Cons.prems(2), of r "b @ t"] by simp
    with b show ?thesis by (intro exI [of _ "[]"] exI [of _ b]) simp
  next
    case False
    with Cons.prems have "contains_str s p" by (simp add: starts_with_def)
    with Cons obtain a b where ab: "s = a @ p @ b" "\<And>t. replace_first p r (s @ t) = a @ r @ b @ t" by auto
    have "\<forall>t. replace_first p r ((c # s) @ t) = (c # a) @ r @ b @ t \<or> starts_with ((c # s) @ t) p"
      using ab(2) by simp
    moreover have "\<not> starts_with ((c # s) @ t) p" for t
    proof
      assume "starts_with ((c # s) @ t) p"
      then have "prefix p ((c # s) @ t)" by (simp add: starts_with_def)
      moreover have "length p \<le> length (c # s)" using ab(1) by simp
      ultimately have "prefix p (c # s)"
        by (metis prefix_length_prefix prefixI)
      with False show False by (simp add: starts_with_def)
    qed
    ultimately show ?thesis using ab(1) by (intro exI [of _ "c # a"] exI [of _ b]) auto
  qed
qed simp

text \<open>What a successful write or patch leaves behind, when the system refuses no operation.\<close>

abbreviation permissive :: "os \<Rightarrow> bool" where
  "permissive os \<equiv> os_denies os = (\<lambda>_ _. False)"

lemma write_leaves:
  assumes "execute_spec os spec m = (Inr out, m1)" "sp_mechanism spec = FileWrite p text"
  shows "map_of (m_files m1) p = Some text" "\<not> List.member (m_dirs m1) p"
    "List.member (m_dirs m1) (path_parent p)"
  using assms
  by (auto simp: execute_spec_def fs_write_def update_conv' split: sum.splits if_splits)

lemma patch_runs:
  assumes "permissive os" "sp_mechanism spec = FilePatch p search rep" "map_of (m_files m) p = Some text"
    and "\<not> List.member (m_dirs m) p" "List.member (m_dirs m) (path_parent p)"
    and "replace_first search rep text \<noteq> text"
  shows "execute_spec os spec m = (Inr (action_output [] [] 0),
    m\<lparr>m_files := AList.update p (replace_first search rep text) (m_files m)\<rparr>)"
  using assms by (simp add: execute_spec_def fs_read_to_string_def fs_write_def Let_def)

lemma enabled_not_in_head:
  "list_all repo_id_char i \<Longrightarrow> \<not> contains_str (''['' @ i @ '']'') ''enabled=1''"
  "list_all repo_id_char i \<Longrightarrow> \<not> contains_str (''['' @ i @ '']'') ''enabled=0''"
proof -
  assume "list_all repo_id_char i"
  then have "CHR ''='' \<notin> set (''['' @ i @ '']'')" by (auto simp: list_all_iff repo_id_char_def ascii_defs)
  moreover have "contains_str t p \<Longrightarrow> set p \<subseteq> set t" for t p by (auto simp: contains_str_iff)
  ultimately show "\<not> contains_str (''['' @ i @ '']'') ''enabled=1''" "\<not> contains_str (''['' @ i @ '']'') ''enabled=0''"
    by fastforce+
qed

lemma enabled_not_in_baseurl:
  "contains_str (''baseurl='' @ url) ''enabled=1'' = contains_str url ''enabled=1''"
  "contains_str (''baseurl='' @ url) ''enabled=0'' = contains_str url ''enabled=0''"
  by simp_all

lemma replace_flag:
  assumes "list_all repo_id_char i" "\<not> contains_str url p" "p = ''enabled=1'' \<or> p = ''enabled=0''"
  shows "replace_first p r (repo_text i url p) = repo_text i url r"
proof -
  have sp: "repo_text i url q = (''['' @ i @ '']'') @ CHR 0x0A # (''baseurl='' @ url) @ CHR 0x0A # q @ [CHR 0x0A]" for q
    by (simp add: repo_text_def)
  have h: "\<not> contains_str (''['' @ i @ '']'') p" "\<not> contains_str (''baseurl='' @ url) p"
    using enabled_not_in_head [OF assms(1)] enabled_not_in_baseurl [of url] assms(2,3) by auto
  have np: "CHR 0x0A \<notin> set p" "p \<noteq> []" using assms(3) by auto
  show ?thesis
    unfolding sp replace_first_skip [OF h(1) np] replace_first_skip [OF h(2) np] replace_first_hit [OF np(2)]
    by simp
qed

text \<open>Adding a repository, disabling it and enabling it again restores the file; in between its flag
  line says \<open>enabled=0\<close> and nothing else changed, when the URL does not contain a flag itself.\<close>

theorem repository_toggle_roundtrip:
  assumes "permissive os" "list_all repo_id_char i"
    and "\<not> contains_str url ''enabled=1''" "\<not> contains_str url ''enabled=0''"
    and "execute_spec os (add_package_repository i url) m = (Inr out, m1)"
    and "execute_spec os (disable_package_repository i) m1 = (r2, m2)"
    and "execute_spec os (enable_package_repository i) m2 = (r3, m3)"
  shows "map_of (m_files m1) (repo_file i) = Some (repo_text i url ''enabled=1'') \<and>
    r2 = Inr (action_output [] [] 0) \<and> m_files m2 = AList.update (repo_file i) (repo_text i url ''enabled=0'') (m_files m1) \<and>
    r3 = Inr (action_output [] [] 0) \<and> map_of (m_files m3) (repo_file i) = map_of (m_files m1) (repo_file i)"
proof -
  note w = write_leaves [OF assms(5) repo_mechanism(1)]
  have t: "repo_text i url ''enabled=0'' \<noteq> repo_text i url ''enabled=1''" by (simp add: repo_text_def)
  have "execute_spec os (disable_package_repository i) m1 = (Inr (action_output [] [] 0),
      m1\<lparr>m_files := AList.update (repo_file i) (repo_text i url ''enabled=0'') (m_files m1)\<rparr>)"
    using patch_runs [OF assms(1) repo_mechanism(2) w] t
    by (simp add: replace_flag [OF assms(2,3)])
  with assms(6) have m2: "r2 = Inr (action_output [] [] 0)"
      "m2 = m1\<lparr>m_files := AList.update (repo_file i) (repo_text i url ''enabled=0'') (m_files m1)\<rparr>"
    by simp_all
  have "execute_spec os (enable_package_repository i) m2 = (Inr (action_output [] [] 0),
      m2\<lparr>m_files := AList.update (repo_file i) (repo_text i url ''enabled=1'') (m_files m2)\<rparr>)"
    using patch_runs [OF assms(1) repo_mechanism(3), of m2 i "repo_text i url ''enabled=0''"] w m2(2) t
    by (simp add: replace_flag [OF assms(2,4)] update_conv')
  with assms(7) m2 w(1) show ?thesis by (simp add: update_conv')
qed

definition quiet_os :: os where
  "quiet_os = \<lparr>os_run = \<lambda>program args m. (Some ([], [], Some 0), m), os_denies = \<lambda>_ _. False\<rparr>"

definition empty_machine :: machine where
  "empty_machine = \<lparr>m_files = [], m_dirs = []\<rparr>"

lemma add_on_empty:
  "execute_spec quiet_os (add_package_repository ''a'' url) empty_machine =
     (Inr (action_output [] [] 0),
      \<lparr>m_files = [(repo_file ''a'', repo_text ''a'' url ''enabled=1'')],
       m_dirs = [''/etc/yum.repos.d'', ''/etc'', []]\<rparr>)"
  by (simp add: execute_spec_def repo_mechanism repo_file_def fs_create_dir_all_def fs_write_def quiet_os_def
      empty_machine_def path_parent_def ancestors.simps)

lemma quiet: "permissive quiet_os" "list_all repo_id_char ''a''"
  by (simp_all add: quiet_os_def repo_id_char_def ascii_defs)

abbreviation after_add :: "str \<Rightarrow> machine" where
  "after_add url \<equiv> snd (execute_spec quiet_os (add_package_repository ''a'' url) empty_machine)"

abbreviation after_disable :: "str \<Rightarrow> machine" where
  "after_disable url \<equiv> snd (execute_spec quiet_os (disable_package_repository ''a'') (after_add url))"

lemma no_flag: "\<not> contains_str ''u'' ''enabled=1''" "\<not> contains_str ''u'' ''enabled=0''"
  by simp_all

theorem repository_toggle_witness:
  "map_of (m_files (after_disable ''u'')) (repo_file ''a'') = Some (repo_text ''a'' ''u'' ''enabled=0'')"
  using repository_toggle_roundtrip [OF quiet no_flag add_on_empty surjective_pairing surjective_pairing]
  by (simp add: add_on_empty update_conv')

text \<open>When the URL of a repository contains \<open>enabled=1\<close>, disabling the repository reports
  success but edits the URL: the flag line still enables the repository.\<close>

theorem disable_patches_url:
  assumes "permissive os" "list_all repo_id_char i" "contains_str url ''enabled=1''"
    and "execute_spec os (add_package_repository i url) m = (Inr out, m1)"
    and "execute_spec os (disable_package_repository i) m1 = (r2, m2)"
  shows "r2 = Inr (action_output [] [] 0) \<and>
    (\<exists>url'. url' \<noteq> url \<and> map_of (m_files m2) (repo_file i) = Some (repo_text i url' ''enabled=1''))"
proof -
  let ?p = "''enabled=1''" and ?r = "''enabled=0''"
  note w = write_leaves [OF assms(4) repo_mechanism(1)]
  obtain a b where ab: "url = a @ ?p @ b" and rep: "\<And>t. replace_first ?p ?r (url @ t) = a @ ?r @ b @ t"
    using replace_first_within [OF assms(3)] by blast
  have sp: "repo_text i u q = (''['' @ i @ '']'') @ CHR 0x0A # ''baseurl='' @ u @ CHR 0x0A # q @ [CHR 0x0A]" for u q
    by (simp add: repo_text_def)
  have base: "replace_first ?p ?r (''baseurl='' @ t) = ''baseurl='' @ replace_first ?p ?r t" for t
    by (simp add: starts_with_def)
  have "replace_first ?p ?r (repo_text i url ?p) = repo_text i (a @ ?r @ b) ?p"
    unfolding sp replace_first_skip [OF enabled_not_in_head(1) [OF assms(2)], of "CHR 0x0A" _, simplified] base rep
    by (simp add: replace_first_skip [OF enabled_not_in_head(1) [OF assms(2)], simplified] base [simplified] rep)
  moreover have ne: "repo_text i (a @ ?r @ b) ?p \<noteq> repo_text i url ?p" "a @ ?r @ b \<noteq> url"
    by (simp_all add: ab repo_text_def)
  ultimately have "execute_spec os (disable_package_repository i) m1 = (Inr (action_output [] [] 0),
      m1\<lparr>m_files := AList.update (repo_file i) (repo_text i (a @ ?r @ b) ?p) (m_files m1)\<rparr>)"
    using patch_runs [OF assms(1) repo_mechanism(2) w] by simp
  with assms(5) ne(2) show ?thesis by (auto simp: update_conv')
qed

theorem disable_patches_url_witness:
  "\<exists>url'. url' \<noteq> ''u?enabled=1'' \<and>
    map_of (m_files (after_disable ''u?enabled=1'')) (repo_file ''a'') = Some (repo_text ''a'' url' ''enabled=1'')"
proof -
  have "contains_str ''u?enabled=1'' ''enabled=1''" by simp
  from disable_patches_url [OF quiet this add_on_empty surjective_pairing]
  show ?thesis by (simp add: add_on_empty)
qed

end
