(* ===== verification/Preview_Properties.thy ===== *)
theory Preview_Properties
  imports Executor_Safety Preview
begin

text \<open>
  The preview table against the executor: \<open>preview_key\<close> is what the two have in common, evaluated once for
  every action in \<open>preview_keys\<close>.
\<close>

definition preview_key :: "str \<Rightarrow> risk_level \<times> bool \<times> bool" where
  "preview_key n =
    (let p = preview_profile_of n in (pp_risk_level p, pp_reboot_required p, pp_rollback_available p))"

text \<open>The same table with only these three values in each arm.\<close>

fun match_key :: "str \<Rightarrow> (str list \<times> risk_level \<times> bool \<times> bool) list \<Rightarrow> risk_level \<times> bool \<times> bool" where
  "match_key n [] = (High, False, False)"
| "match_key n ((names, k) # arms) = (if n \<in> set names then k else match_key n arms)"

abbreviation key_of :: "preview_profile \<Rightarrow> risk_level \<times> bool \<times> bool" where
  "key_of p \<equiv> (pp_risk_level p, pp_reboot_required p, pp_rollback_available p)"

lemma match_key_arm: "key_of (match_arm n arms) = match_key n (map (\<lambda>(ns, p). (ns, key_of p)) arms)"
  by (induction n arms rule: match_arm.induct) (auto simp: unclassified_profile_def)

lemma preview_key_match: "preview_key n = match_key n (map (\<lambda>(ns, p). (ns, key_of p)) preview_arms)"
  unfolding preview_key_def Let_def preview_profile_of_def by (rule match_key_arm)

lemma preview_key_table: "preview_key n =
  (if n = ''GetSystemState'' \<or> n = ''CollectDiagnostics'' \<or> n = ''GetDeploymentHistory'' \<or> n
      = ''ListDeployments'' \<or> n = ''GetKernelArguments'' \<or> n = ''GetPendingUpdates'' \<or> n =
      ''SearchFlatpakApps'' \<or> n = ''ListFlatpakRemotes'' \<or> n = ''ListInstalledFlatpaks'' \<or> n
      = ''GetFlatpakAppInfo'' \<or> n = ''ListToolboxes'' \<or> n = ''ListServices'' \<or> n =
      ''GetServiceLogs'' \<or> n = ''GetServiceStatus'' \<or> n = ''ListTimers'' \<or> n =
      ''GetFirewallState'' \<or> n = ''ListUsers'' \<or> n = ''ListGroups'' \<or> n =
      ''ListPackageRepositories'' \<or> n = ''ListContainers'' \<or> n = ''GetContainerInfo'' \<or> n =
      ''GetLayeredPackages'' \<or> n = ''GetDiskUsage'' \<or> n = ''ListProcesses'' \<or> n =
      ''GetMemoryInfo'' \<or> n = ''GetNetworkStatus'' \<or> n = ''GetAuthorizedKeys'' \<or> n =
      ''GetDateTime'' \<or> n = ''ListJobHistory'' \<or> n = ''AptSearch'' \<or> n =
      ''AptListInstalled'' \<or> n = ''AptShow'' \<or> n = ''SnapList'' \<or> n = ''SnapInfo'' \<or> n =
      ''UfwStatus'' \<or> n = ''DistroboxList'' \<or> n = ''NetplanGetConfig'' \<or> n = ''ProStatus''
      \<or> n = ''LivepatchStatus'' \<or> n = ''MultipassList''
   then (Low, False, False)
   else if n = ''AptInstall'' \<or> n = ''AptRemove'' \<or> n = ''AptPurge'' \<or> n = ''AptHold'' \<or> n =
      ''AptUnhold''
   then (Medium, False, False)
   else if n = ''SnapInstall'' \<or> n = ''SnapRemove'' \<or> n = ''SnapRefresh'' \<or> n = ''SnapHold''
      \<or> n = ''SnapUnhold''
   then (Medium, False, False)
   else if n = ''DistroboxCreate'' \<or> n = ''DistroboxRemove''
   then (Medium, False, False)
   else if n = ''AptUpgrade''
   then (High, False, False)
   else if n = ''UfwEnable'' \<or> n = ''UfwDisable'' \<or> n = ''UfwAllow'' \<or> n = ''UfwDeny'' \<or> n =
      ''UfwReset''
   then (High, False, False)
   else if n = ''NetplanApply''
   then (High, False, False)
   else if n = ''NetplanGenerate''
   then (Medium, False, False)
   else if n = ''NetplanSet''
   then (High, False, True)
   else if n = ''UfwDeleteRule'' \<or> n = ''UfwLimit''
   then (High, False, False)
   else if n = ''ProAttach''
   then (High, False, True)
   else if n = ''ProDetach''
   then (High, False, True)
   else if n = ''UbuntuReleaseUpgrade''
   then (High, True, False)
   else if n = ''ReloadService''
   then (Medium, False, False)
   else if n = ''RestartService'' \<or> n = ''ReloadDaemon'' \<or> n = ''SetServiceEnabled'' \<or> n =
      ''StartService'' \<or> n = ''StopService'' \<or> n = ''ConfigureWifi'' \<or> n = ''SetDnsServers''
      \<or> n = ''ConfigureFirewall'' \<or> n = ''CreateToolbox'' \<or> n = ''RemoveToolbox'' \<or> n =
      ''InstallFlatpak'' \<or> n = ''RemoveFlatpak'' \<or> n = ''UpdateFlatpak'' \<or> n =
      ''AddFlatpakRemote'' \<or> n = ''RemoveFlatpakRemote'' \<or> n = ''MaskService'' \<or> n =
      ''UnmaskService'' \<or> n = ''SetHostname'' \<or> n = ''SetTimezone'' \<or> n = ''SetLocale''
      \<or> n = ''SetNtp'' \<or> n = ''CreateUser''
   then (Medium, False, False)
   else if n = ''AddUserToGroup'' \<or> n = ''RemoveUserFromGroup'' \<or> n = ''DeleteUser'' \<or> n =
      ''AddAuthorizedKey'' \<or> n = ''RemoveAuthorizedKey''
   then (High, False, False)
   else if n = ''AddPackageRepository'' \<or> n = ''RemovePackageRepository'' \<or> n =
      ''EnablePackageRepository'' \<or> n = ''DisablePackageRepository''
   then (Medium, False, False)
   else if n = ''CreateContainer'' \<or> n = ''StartContainer'' \<or> n = ''StopContainer'' \<or> n =
      ''RemoveContainer''
   then (Medium, False, False)
   else if n = ''UpdateSystem'' \<or> n = ''InstallPackages'' \<or> n = ''RemovePackages'' \<or> n =
      ''RebaseSystem'' \<or> n = ''RollbackDeployment'' \<or> n = ''AddLayeredPackage'' \<or> n =
      ''RemoveLayeredPackage'' \<or> n = ''ReplaceLayeredPackage'' \<or> n =
      ''ResetLayeredPackageOverride'' \<or> n = ''RemoveBasePackage''
   then (High, True, True)
   else if n = ''SetKernelArguments''
   then (High, True, True)
   else if n = ''RebootSystem''
   then (High, True, False)
   else if n = ''CleanupDeployments''
   then (High, False, False)
   else if n = ''PinDeployment'' \<or> n = ''UnpinDeployment''
   then (High, False, False)
   else (High, False, False))"
  unfolding preview_key_match preview_arms_defs
  by (simp only: append.simps list.map prod.case profile_sel match_key.simps list.set insert_iff empty_iff simp_thms)

lemma preview_keys_1:
  "preview_key ''GetSystemState'' = (Low, False, False)"
  "preview_key ''CollectDiagnostics'' = (Low, False, False)"
  "preview_key ''GetDeploymentHistory'' = (Low, False, False)"
  "preview_key ''ListDeployments'' = (Low, False, False)"
  "preview_key ''UpdateSystem'' = (High, True, True)"
  "preview_key ''CleanupDeployments'' = (High, False, False)"
  "preview_key ''RebootSystem'' = (High, True, False)"
  "preview_key ''RollbackDeployment'' = (High, True, True)"
  "preview_key ''GetKernelArguments'' = (Low, False, False)"
  "preview_key ''PinDeployment'' = (High, False, False)"
  "preview_key ''UnpinDeployment'' = (High, False, False)"
  "preview_key ''RebaseSystem'' = (High, True, True)"
  "preview_key ''SetKernelArguments'' = (High, True, True)"
  "preview_key ''ListFlatpakRemotes'' = (Low, False, False)"
  "preview_key ''InstallFlatpak'' = (Medium, False, False)"
  "preview_key ''RemoveFlatpak'' = (Medium, False, False)"
  "preview_key ''SearchFlatpakApps'' = (Low, False, False)"
  "preview_key ''AddFlatpakRemote'' = (Medium, False, False)"
  "preview_key ''RemoveFlatpakRemote'' = (Medium, False, False)"
  "preview_key ''GetFlatpakAppInfo'' = (Low, False, False)"
  by (simp_all only: preview_key_table string_eq cong: if_weak_cong)

lemma preview_keys_2:
  "preview_key ''ListInstalledFlatpaks'' = (Low, False, False)"
  "preview_key ''UpdateFlatpak'' = (Medium, False, False)"
  "preview_key ''ListContainers'' = (Low, False, False)"
  "preview_key ''CreateContainer'' = (Medium, False, False)"
  "preview_key ''StartContainer'' = (Medium, False, False)"
  "preview_key ''StopContainer'' = (Medium, False, False)"
  "preview_key ''RemoveContainer'' = (Medium, False, False)"
  "preview_key ''GetContainerInfo'' = (Low, False, False)"
  "preview_key ''GetLayeredPackages'' = (Low, False, False)"
  "preview_key ''ResetLayeredPackageOverride'' = (High, True, True)"
  "preview_key ''InstallPackages'' = (High, True, True)"
  "preview_key ''RemovePackages'' = (High, True, True)"
  "preview_key ''AddLayeredPackage'' = (High, True, True)"
  "preview_key ''RemoveLayeredPackage'' = (High, True, True)"
  "preview_key ''ReplaceLayeredPackage'' = (High, True, True)"
  "preview_key ''RemoveBasePackage'' = (High, True, True)"
  "preview_key ''GetPendingUpdates'' = (Low, False, False)"
  "preview_key ''ListPackageRepositories'' = (Low, False, False)"
  "preview_key ''AddPackageRepository'' = (Medium, False, False)"
  "preview_key ''RemovePackageRepository'' = (Medium, False, False)"
  by (simp_all only: preview_key_table string_eq cong: if_weak_cong)

lemma preview_keys_3:
  "preview_key ''EnablePackageRepository'' = (Medium, False, False)"
  "preview_key ''DisablePackageRepository'' = (Medium, False, False)"
  "preview_key ''ListServices'' = (Low, False, False)"
  "preview_key ''StartService'' = (Medium, False, False)"
  "preview_key ''StopService'' = (Medium, False, False)"
  "preview_key ''RestartService'' = (Medium, False, False)"
  "preview_key ''SetServiceEnabled'' = (Medium, False, False)"
  "preview_key ''MaskService'' = (Medium, False, False)"
  "preview_key ''UnmaskService'' = (Medium, False, False)"
  "preview_key ''GetServiceLogs'' = (Low, False, False)"
  "preview_key ''GetServiceStatus'' = (Low, False, False)"
  "preview_key ''ReloadService'' = (Medium, False, False)"
  "preview_key ''ListTimers'' = (Low, False, False)"
  "preview_key ''ReloadDaemon'' = (Medium, False, False)"
  "preview_key ''ListToolboxes'' = (Low, False, False)"
  "preview_key ''CreateToolbox'' = (Medium, False, False)"
  "preview_key ''RemoveToolbox'' = (Medium, False, False)"
  "preview_key ''GetDateTime'' = (Low, False, False)"
  "preview_key ''SetHostname'' = (Medium, False, False)"
  "preview_key ''SetTimezone'' = (Medium, False, False)"
  by (simp_all only: preview_key_table string_eq cong: if_weak_cong)

lemma preview_keys_4:
  "preview_key ''SetLocale'' = (Medium, False, False)"
  "preview_key ''SetNtp'' = (Medium, False, False)"
  "preview_key ''GetDiskUsage'' = (Low, False, False)"
  "preview_key ''ListProcesses'' = (Low, False, False)"
  "preview_key ''GetMemoryInfo'' = (Low, False, False)"
  "preview_key ''GetFirewallState'' = (Low, False, False)"
  "preview_key ''GetNetworkStatus'' = (Low, False, False)"
  "preview_key ''ConfigureWifi'' = (Medium, False, False)"
  "preview_key ''SetDnsServers'' = (Medium, False, False)"
  "preview_key ''ConfigureFirewall'' = (Medium, False, False)"
  "preview_key ''ListUsers'' = (Low, False, False)"
  "preview_key ''ListGroups'' = (Low, False, False)"
  "preview_key ''CreateUser'' = (Medium, False, False)"
  "preview_key ''DeleteUser'' = (High, False, False)"
  "preview_key ''AddUserToGroup'' = (High, False, False)"
  "preview_key ''RemoveUserFromGroup'' = (High, False, False)"
  "preview_key ''GetAuthorizedKeys'' = (Low, False, False)"
  "preview_key ''AddAuthorizedKey'' = (High, False, False)"
  "preview_key ''RemoveAuthorizedKey'' = (High, False, False)"
  "preview_key ''AptUpdate'' = (High, False, False)"
  by (simp_all only: preview_key_table string_eq cong: if_weak_cong)

lemma preview_keys_5:
  "preview_key ''AptUpgrade'' = (High, False, False)"
  "preview_key ''AptInstall'' = (Medium, False, False)"
  "preview_key ''AptRemove'' = (Medium, False, False)"
  "preview_key ''AptPurge'' = (Medium, False, False)"
  "preview_key ''AptAutoremove'' = (High, False, False)"
  "preview_key ''AptHold'' = (Medium, False, False)"
  "preview_key ''AptUnhold'' = (Medium, False, False)"
  "preview_key ''AptSearch'' = (Low, False, False)"
  "preview_key ''AptListInstalled'' = (Low, False, False)"
  "preview_key ''AptShow'' = (Low, False, False)"
  "preview_key ''AptListUpgradable'' = (High, False, False)"
  "preview_key ''AptHistoryList'' = (High, False, False)"
  "preview_key ''AddPpa'' = (High, False, False)"
  "preview_key ''RemovePpa'' = (High, False, False)"
  "preview_key ''SnapInstall'' = (Medium, False, False)"
  "preview_key ''SnapRemove'' = (Medium, False, False)"
  "preview_key ''SnapRefresh'' = (Medium, False, False)"
  "preview_key ''SnapHold'' = (Medium, False, False)"
  "preview_key ''SnapUnhold'' = (Medium, False, False)"
  "preview_key ''SnapList'' = (Low, False, False)"
  by (simp_all only: preview_key_table string_eq cong: if_weak_cong)

lemma preview_keys_6:
  "preview_key ''SnapInfo'' = (Low, False, False)"
  "preview_key ''SnapRevert'' = (High, False, False)"
  "preview_key ''SnapClassicInstall'' = (High, False, False)"
  "preview_key ''GrubGetKargs'' = (High, False, False)"
  "preview_key ''GrubSetKargs'' = (High, False, False)"
  "preview_key ''CheckPendingReboot'' = (High, False, False)"
  "preview_key ''UfwEnable'' = (High, False, False)"
  "preview_key ''UfwDisable'' = (High, False, False)"
  "preview_key ''UfwAllow'' = (High, False, False)"
  "preview_key ''UfwDeny'' = (High, False, False)"
  "preview_key ''UfwReset'' = (High, False, False)"
  "preview_key ''UfwStatus'' = (Low, False, False)"
  "preview_key ''DistroboxList'' = (Low, False, False)"
  "preview_key ''DistroboxCreate'' = (Medium, False, False)"
  "preview_key ''DistroboxRemove'' = (Medium, False, False)"
  "preview_key ''NetplanGetConfig'' = (Low, False, False)"
  "preview_key ''NetplanApply'' = (High, False, False)"
  "preview_key ''NetplanSet'' = (High, False, True)"
  "preview_key ''NetplanGenerate'' = (Medium, False, False)"
  "preview_key ''UfwDeleteRule'' = (High, False, False)"
  by (simp_all only: preview_key_table string_eq cong: if_weak_cong)

lemma preview_keys_7:
  "preview_key ''UfwLimit'' = (High, False, False)"
  "preview_key ''ProStatus'' = (Low, False, False)"
  "preview_key ''ProAttach'' = (High, False, True)"
  "preview_key ''ProDetach'' = (High, False, True)"
  "preview_key ''LivepatchStatus'' = (Low, False, False)"
  "preview_key ''MultipassList'' = (Low, False, False)"
  "preview_key ''UbuntuReleaseUpgrade'' = (High, True, False)"
  "preview_key ''ResolvectlStatus'' = (High, False, False)"
  "preview_key ''ResolvectlSetDns'' = (High, False, False)"
  "preview_key ''AppArmorStatus'' = (High, False, False)"
  "preview_key ''AppArmorEnforce'' = (High, False, False)"
  "preview_key ''AppArmorComplain'' = (High, False, False)"
  "preview_key ''CloudInitStatus'' = (High, False, False)"
  "preview_key ''UbuntuInstallFlatpak'' = (High, False, False)"
  "preview_key ''UbuntuRemoveFlatpak'' = (High, False, False)"
  "preview_key ''UbuntuUpdateFlatpak'' = (High, False, False)"
  "preview_key ''UbuntuListFlatpaks'' = (High, False, False)"
  "preview_key ''Fail2banStatus'' = (High, False, False)"
  "preview_key ''Fail2banBanIp'' = (High, False, False)"
  "preview_key ''Fail2banUnbanIp'' = (High, False, False)"
  by (simp_all only: preview_key_table string_eq cong: if_weak_cong)

lemmas preview_keys = preview_keys_1 preview_keys_2 preview_keys_3 preview_keys_4 preview_keys_5 preview_keys_6 preview_keys_7

section \<open>Where they differ\<close>

fun understated :: "spec_profile \<Rightarrow> bool" where
  "understated (n, r, b, k, ops) = (fst (preview_key n) < r)"

fun reboot_hidden :: "spec_profile \<Rightarrow> bool" where
  "reboot_hidden (n, r, b, k, ops) = (b \<and> \<not> fst (snd (preview_key n)))"

fun rollback_promised :: "spec_profile \<Rightarrow> bool" where
  "rollback_promised (n, r, b, k, ops) = (snd (snd (preview_key n)) \<and> rollback_spec_for n = None)"

fun rollback_missing :: "spec_profile \<Rightarrow> bool" where
  "rollback_missing (n, r, b, k, ops) = (k \<noteq> (rollback_spec_for n \<noteq> None))"

lemma rollback_spec_None: "rollback_spec_for n = None \<longleftrightarrow> \<not> (n = ''UpdateSystem'' \<or>
    n = ''InstallPackages'' \<or>
    n = ''RemovePackages'' \<or>
    n = ''RebaseSystem'' \<or>
    n = ''SetKernelArguments'' \<or>
    n = ''AddLayeredPackage'' \<or>
    n = ''RemoveLayeredPackage'' \<or>
    n = ''ReplaceLayeredPackage'' \<or>
    n = ''ResetLayeredPackageOverride'' \<or>
    n = ''RemoveBasePackage'')"
  by (simp add: rollback_spec_for_def rollback_actions_def)

lemma differ_deployment:
  "map fst (filter understated deployment_profiles) = []"
  "map fst (filter reboot_hidden deployment_profiles) = []"
  "map fst (filter rollback_promised deployment_profiles) = [''RollbackDeployment'']"
  "map fst (filter rollback_missing deployment_profiles) = []"
  by (simp_all add: deployment_profiles_def preview_keys less_risk_level_def rollback_spec_None)

lemma differ_flatpak:
  "map fst (filter understated flatpak_profiles) = []"
  "map fst (filter reboot_hidden flatpak_profiles) = []"
  "map fst (filter rollback_promised flatpak_profiles) = []"
  "map fst (filter rollback_missing flatpak_profiles) = []"
  by (simp_all add: flatpak_profiles_def preview_keys less_risk_level_def rollback_spec_None)

lemma differ_container:
  "map fst (filter understated container_profiles) = []"
  "map fst (filter reboot_hidden container_profiles) = []"
  "map fst (filter rollback_promised container_profiles) = []"
  "map fst (filter rollback_missing container_profiles) = []"
  by (simp_all add: container_profiles_def preview_keys less_risk_level_def rollback_spec_None)

lemma differ_layering:
  "map fst (filter understated layering_profiles) = [''AddPackageRepository'']"
  "map fst (filter reboot_hidden layering_profiles) = []"
  "map fst (filter rollback_promised layering_profiles) = []"
  "map fst (filter rollback_missing layering_profiles) = []"
  by (simp_all add: layering_profiles_def preview_keys less_risk_level_def rollback_spec_None)

lemma differ_service:
  "map fst (filter understated service_profiles) = [''MaskService'']"
  "map fst (filter reboot_hidden service_profiles) = []"
  "map fst (filter rollback_promised service_profiles) = []"
  "map fst (filter rollback_missing service_profiles) = []"
  by (simp_all add: service_profiles_def preview_keys less_risk_level_def rollback_spec_None)

lemma differ_toolbox:
  "map fst (filter understated toolbox_profiles) = []"
  "map fst (filter reboot_hidden toolbox_profiles) = []"
  "map fst (filter rollback_promised toolbox_profiles) = []"
  "map fst (filter rollback_missing toolbox_profiles) = []"
  by (simp_all add: toolbox_profiles_def preview_keys less_risk_level_def rollback_spec_None)

lemma differ_system:
  "map fst (filter understated system_profiles) = [''SetDnsServers'', ''ConfigureFirewall'']"
  "map fst (filter reboot_hidden system_profiles) = []"
  "map fst (filter rollback_promised system_profiles) = []"
  "map fst (filter rollback_missing system_profiles) = []"
  by (simp_all add: system_profiles_def preview_keys less_risk_level_def rollback_spec_None)

lemma differ_user:
  "map fst (filter understated user_profiles) = [''CreateUser'']"
  "map fst (filter reboot_hidden user_profiles) = []"
  "map fst (filter rollback_promised user_profiles) = []"
  "map fst (filter rollback_missing user_profiles) = []"
  by (simp_all add: user_profiles_def preview_keys less_risk_level_def rollback_spec_None)

lemma differ_apt:
  "map fst (filter understated apt_profiles) = []"
  "map fst (filter reboot_hidden apt_profiles) = []"
  "map fst (filter rollback_promised apt_profiles) = []"
  "map fst (filter rollback_missing apt_profiles) = [''AddPpa'', ''RemovePpa'']"
  by (simp_all add: apt_profiles_def preview_keys less_risk_level_def rollback_spec_None)

lemma differ_snap:
  "map fst (filter understated snap_profiles) = []"
  "map fst (filter reboot_hidden snap_profiles) = []"
  "map fst (filter rollback_promised snap_profiles) = []"
  "map fst (filter rollback_missing snap_profiles) = []"
  by (simp_all add: snap_profiles_def preview_keys less_risk_level_def rollback_spec_None)

lemma differ_grub:
  "map fst (filter understated grub_profiles) = []"
  "map fst (filter reboot_hidden grub_profiles) = [''GrubSetKargs'']"
  "map fst (filter rollback_promised grub_profiles) = []"
  "map fst (filter rollback_missing grub_profiles) = [''GrubSetKargs'']"
  by (simp_all add: grub_profiles_def preview_keys less_risk_level_def rollback_spec_None)

lemma differ_ufw:
  "map fst (filter understated ufw_profiles) = []"
  "map fst (filter reboot_hidden ufw_profiles) = []"
  "map fst (filter rollback_promised ufw_profiles) = [''NetplanSet'']"
  "map fst (filter rollback_missing ufw_profiles) = [''NetplanSet'']"
  by (simp_all add: ufw_profiles_def preview_keys less_risk_level_def rollback_spec_None)

lemma differ_pro:
  "map fst (filter understated pro_profiles) = []"
  "map fst (filter reboot_hidden pro_profiles) = []"
  "map fst (filter rollback_promised pro_profiles) = [''ProAttach'', ''ProDetach'']"
  "map fst (filter rollback_missing pro_profiles) = [''ProAttach'', ''ProDetach'']"
  by (simp_all add: pro_profiles_def preview_keys less_risk_level_def rollback_spec_None)

lemma differ_apparmor:
  "map fst (filter understated apparmor_profiles) = []"
  "map fst (filter reboot_hidden apparmor_profiles) = []"
  "map fst (filter rollback_promised apparmor_profiles) = []"
  "map fst (filter rollback_missing apparmor_profiles) = []"
  by (simp_all add: apparmor_profiles_def preview_keys less_risk_level_def rollback_spec_None)

lemma differ_fail2ban:
  "map fst (filter understated fail2ban_profiles) = []"
  "map fst (filter reboot_hidden fail2ban_profiles) = []"
  "map fst (filter rollback_promised fail2ban_profiles) = []"
  "map fst (filter rollback_missing fail2ban_profiles) = []"
  by (simp_all add: fail2ban_profiles_def preview_keys less_risk_level_def rollback_spec_None)

lemmas differ = spec_profiles_def filter_append map_append
  differ_deployment differ_flatpak differ_container differ_layering differ_service differ_toolbox
  differ_system differ_user differ_apt differ_snap differ_grub differ_ufw differ_pro
  differ_apparmor differ_fail2ban

text \<open>The preview and the executed specification agree on risk, reboot and rollback except as follows:
  five actions are previewed below their risk, the reboot of one is not announced, and four previews promise
  a rollback that the executor does not have.\<close>

theorem preview_against_spec:
  "map fst (filter understated spec_profiles) =
     [''AddPackageRepository'', ''MaskService'', ''SetDnsServers'', ''ConfigureFirewall'', ''CreateUser''] \<and>
   map fst (filter reboot_hidden spec_profiles) = [''GrubSetKargs''] \<and>
   map fst (filter rollback_promised spec_profiles) =
     [''RollbackDeployment'', ''NetplanSet'', ''ProAttach'', ''ProDetach'']"
  by (simp only: differ) simp

text \<open>Over all actions, the ones the executor declares revertible but has no rollback for are exactly
  these six; every action with a rollback is declared revertible.\<close>

theorem revertible_without_rollback:
  "map fst (filter rollback_missing spec_profiles) =
   [''AddPpa'', ''RemovePpa'', ''GrubSetKargs'', ''NetplanSet'', ''ProAttach'', ''ProDetach'']"
  by (simp only: differ) simp

end
