(* ===== verification/Plan.thy ===== *)
theory Plan
  imports Actions
begin

text \<open>
  Plans (\<open>crates/sysknife-brain/src/planner.rs\<close>, the types) and the parser of the model's
  \<open>propose_plan\<close> call (\<open>planning_tools/propose_plan.rs\<close>). The risk level of a step is the one the model
  wrote; the daemon computes its own.
\<close>

datatype plan_risk_level = PlanLow | PlanMedium | PlanHigh

fun plan_risk_level_str :: "plan_risk_level \<Rightarrow> str" where
  "plan_risk_level_str PlanLow = ''low''"
| "plan_risk_level_str PlanMedium = ''medium''"
| "plan_risk_level_str PlanHigh = ''high''"

record plan_step =
  ps_action_name :: action_name
  ps_summary :: str
  ps_risk_level :: plan_risk_level
  ps_params :: json

record plan =
  pl_intent :: str
  pl_summary :: str
  pl_explanation :: str
  pl_steps :: "plan_step list"

datatype plan_validation_error = PlanValidationError str

definition new_plan_step ::
  "action_name \<Rightarrow> str \<Rightarrow> plan_risk_level \<Rightarrow> json \<Rightarrow> (plan_validation_error, plan_step) result" where
  "new_plan_step name summary risk params =
    (if summary = [] then Inl (PlanValidationError ''PlanStep summary must not be empty'')
     else Inr \<lparr>ps_action_name = name, ps_summary = summary, ps_risk_level = risk, ps_params = params\<rparr>)"

definition approval_required :: "plan_step \<Rightarrow> bool" where
  "approval_required s = (ps_risk_level s \<noteq> PlanLow)"

definition new_plan :: "str \<Rightarrow> str \<Rightarrow> str \<Rightarrow> plan_step list \<Rightarrow> (plan_validation_error, plan) result" where
  "new_plan intent summary explanation steps =
    (if intent = [] then Inl (PlanValidationError ''Plan intent must not be empty'')
     else if summary = [] then Inl (PlanValidationError ''Plan summary must not be empty'')
     else if explanation = [] then Inl (PlanValidationError ''Plan explanation must not be empty'')
     else if steps = [] then Inl (PlanValidationError ''Plan must have at least one step'')
     else Inr \<lparr>pl_intent = intent, pl_summary = summary, pl_explanation = explanation, pl_steps = steps\<rparr>)"

datatype planning_error =
    EmptyIntent
  | IntentTooLong nat nat
  | IntentContainsSensitiveData
  | RateLimitExceeded nat
  | StateUnavailable str
  | PlannerStuck
  | NoPlanProposed
  | ProviderFailed str
  | InvalidPlanOutput str

fun planning_error_text :: "planning_error \<Rightarrow> str" where
  "planning_error_text EmptyIntent = ''intent must not be empty''"
| "planning_error_text (IntentTooLong len max_len) =
    ''intent exceeds maximum length of '' @ show_nat max_len @ '' bytes (got '' @ show_nat len @
    ''); shorten the request or split it into multiple commands''"
| "planning_error_text IntentContainsSensitiveData =
    ''intent contains sensitive data (API keys, passwords, or tokens must not be forwarded to LLM providers)''"
| "planning_error_text (RateLimitExceeded secs) =
    ''rate limit exceeded; too many planning requests in the last 60 seconds (retry after '' @ show_nat secs @ ''s)''"
| "planning_error_text (StateUnavailable m) = ''state unavailable: '' @ m"
| "planning_error_text PlannerStuck = ''planner did not propose a plan within the allowed turns''"
| "planning_error_text NoPlanProposed = ''planner ended without proposing a plan''"
| "planning_error_text (ProviderFailed m) = ''provider error: '' @ m"
| "planning_error_text (InvalidPlanOutput m) = ''invalid plan output: '' @ m"

fun of_validation :: "plan_validation_error \<Rightarrow> planning_error" where
  "of_validation (PlanValidationError m) = InvalidPlanOutput m"

section \<open>The parser\<close>

text \<open>\<open>serde_json::from_str\<close> and Rust's debug form of a string are parameters.\<close>

record plan_externs =
  px_parse :: "str \<Rightarrow> json option"
  px_debug :: "str \<Rightarrow> str"

definition non_empty_str :: "json \<Rightarrow> str \<Rightarrow> str option" where
  "non_empty_str v k = (case get_str v k of Some s \<Rightarrow> if s = [] then None else Some s | None \<Rightarrow> None)"

definition at_step :: "nat \<Rightarrow> str \<Rightarrow> planning_error" where
  "at_step i m = InvalidPlanOutput (''step '' @ show_nat i @ '': '' @ m)"

definition parse_risk :: "nat \<Rightarrow> str \<Rightarrow> (planning_error, plan_risk_level) result" where
  "parse_risk i s =
    (if s = ''low'' then Inr PlanLow
     else if s = ''medium'' then Inr PlanMedium
     else if s = ''high'' then Inr PlanHigh
     else Inl (at_step i (''invalid risk_level '' @ quoted s)))"

definition parse_params :: "plan_externs \<Rightarrow> nat \<Rightarrow> json option \<Rightarrow> (planning_error, json) result" where
  "parse_params px i v = (case v of
      Some (JString s) \<Rightarrow>
        if s = [] then Inr (JObject [])
        else ok_or (px_parse px s) (at_step i (quoted ''params'' @ '' is not valid JSON: '' @ px_debug px s))
    | Some v \<Rightarrow> Inr v
    | None \<Rightarrow> Inr (JObject []))"

definition parse_step :: "plan_externs \<Rightarrow> nat \<times> json \<Rightarrow> (planning_error, plan_step) result" where
  "parse_step px = (\<lambda>(i, v).
    rbind (ok_or (non_empty_str v ''action_name'') (at_step i (''missing '' @ quoted ''action_name''))) (\<lambda>name.
    rbind (map_err (\<lambda>_. at_step i (''unknown action_name '' @ quoted name)) (parse_action_name name)) (\<lambda>action_name.
    rbind (ok_or (non_empty_str v ''summary'') (at_step i (''missing '' @ quoted ''summary''))) (\<lambda>summary.
    rbind (ok_or (get_str v ''risk_level'') (at_step i (''missing '' @ quoted ''risk_level''))) (\<lambda>risk_str.
    rbind (parse_risk i risk_str) (\<lambda>risk_level.
    rbind (parse_params px i (json_get v ''params'')) (\<lambda>params.
    map_err of_validation (new_plan_step action_name summary risk_level params))))))))"

definition parse_proposed_plan :: "plan_externs \<Rightarrow> str \<Rightarrow> json \<Rightarrow> (planning_error, plan) result" where
  "parse_proposed_plan px intent input =
    rbind (ok_or (non_empty_str input ''summary'') (InvalidPlanOutput (''missing or empty '' @ quoted ''summary''))) (\<lambda>summary.
    rbind (ok_or (non_empty_str input ''explanation'') (InvalidPlanOutput (''missing or empty '' @ quoted ''explanation''))) (\<lambda>explanation.
    rbind (ok_or (Option.bind (json_get input ''steps'') as_array) (InvalidPlanOutput (quoted ''steps'' @ '' must be an array''))) (\<lambda>vs.
    if vs = [] then Inl (InvalidPlanOutput (quoted ''steps'' @ '' must not be empty''))
    else rbind (map_result (parse_step px) (enumerate 0 vs)) (\<lambda>steps.
    map_err of_validation (new_plan intent summary explanation steps)))))"

section \<open>What the parser accepts\<close>

lemma non_empty_str_Some: "non_empty_str v k = Some s \<longleftrightarrow> get_str v k = Some s \<and> s \<noteq> []"
  by (auto simp: non_empty_str_def split: option.splits)

lemma new_Inr [result_simps]:
  "new_plan_step n s r ps = Inr x \<longleftrightarrow>
    s \<noteq> [] \<and> x = \<lparr>ps_action_name = n, ps_summary = s, ps_risk_level = r, ps_params = ps\<rparr>"
  "new_plan i s e ss = Inr p \<longleftrightarrow>
    i \<noteq> [] \<and> s \<noteq> [] \<and> e \<noteq> [] \<and> ss \<noteq> [] \<and>
    p = \<lparr>pl_intent = i, pl_summary = s, pl_explanation = e, pl_steps = ss\<rparr>"
  by (auto simp: new_plan_step_def new_plan_def)

lemma plan_risk_level_str_inj [simp]: "plan_risk_level_str a = plan_risk_level_str b \<longleftrightarrow> a = b"
  by (cases a; cases b) simp_all

lemma parse_risk_Inr [result_simps]: "parse_risk i s = Inr r \<longleftrightarrow> s = plan_risk_level_str r"
  by (cases r) (auto simp: parse_risk_def)

definition params_read :: "plan_externs \<Rightarrow> json option \<Rightarrow> json \<Rightarrow> bool" where
  "params_read px v ps = (case v of
      Some (JString s) \<Rightarrow> if s = [] then ps = JObject [] else px_parse px s = Some ps
    | Some v \<Rightarrow> ps = v
    | None \<Rightarrow> ps = JObject [])"

lemma parse_params_Inr [result_simps]: "parse_params px i v = Inr ps \<longleftrightarrow> params_read px v ps"
  by (auto simp: parse_params_def params_read_def result_simps split: option.splits json.splits)

lemma parse_step_Inr:
  "parse_step px (i, v) = Inr s \<longleftrightarrow>
    (\<exists>n. ps_action_name s = ActionName n \<and> n \<noteq> [] \<and> n \<in> set KNOWN_ACTION_NAMES \<and> get_str v ''action_name'' = Some n) \<and>
    ps_summary s \<noteq> [] \<and> get_str v ''summary'' = Some (ps_summary s) \<and>
    get_str v ''risk_level'' = Some (plan_risk_level_str (ps_risk_level s)) \<and>
    params_read px (json_get v ''params'') (ps_params s)"
  by (cases s) (auto simp: parse_step_def result_simps non_empty_str_Some parse_action_name_Inr)

text \<open>The plans that can come out of the parser.\<close>

definition wf_step :: "plan_externs \<Rightarrow> plan_step \<Rightarrow> bool" where
  "wf_step px s = (action_name_str (ps_action_name s) \<in> set KNOWN_ACTION_NAMES \<and> ps_summary s \<noteq> [] \<and>
    (\<forall>t. ps_params s = JString t \<longrightarrow> (\<exists>u. u \<noteq> [] \<and> px_parse px u = Some (JString t))))"

definition wf_plan :: "plan_externs \<Rightarrow> plan \<Rightarrow> bool" where
  "wf_plan px p = (pl_intent p \<noteq> [] \<and> pl_summary p \<noteq> [] \<and> pl_explanation p \<noteq> [] \<and> pl_steps p \<noteq> [] \<and>
    list_all (wf_step px) (pl_steps p))"

definition step_json :: "plan_step \<Rightarrow> json \<Rightarrow> json" where
  "step_json s params = JObject
    [(''action_name'', JString (action_name_str (ps_action_name s))), (''summary'', JString (ps_summary s)),
     (''risk_level'', JString (plan_risk_level_str (ps_risk_level s))), (''params'', params)]"

definition plan_json :: "plan \<Rightarrow> json list \<Rightarrow> json" where
  "plan_json p vs = JObject
    [(''summary'', JString (pl_summary p)), (''explanation'', JString (pl_explanation p)), (''steps'', JArray vs)]"

lemma known_names_nonempty: "[] \<notin> set KNOWN_ACTION_NAMES"
  by (simp add: KNOWN_ACTION_NAMES_def)

lemma parse_step_wf: "parse_step px (i, v) = Inr s \<Longrightarrow> wf_step px s"
  by (auto simp: parse_step_Inr wf_step_def params_read_def split: option.splits json.splits if_splits)

lemma wf_step_params:
  assumes "wf_step px s"
  shows "\<exists>ps. params_read px (Some ps) (ps_params s)"
proof (cases "ps_params s")
  case (JString t)
  with assms obtain u where "u \<noteq> []" "px_parse px u = Some (JString t)"
    by (auto simp: wf_step_def)
  with JString show ?thesis by (intro exI [of _ "JString u"]) (simp add: params_read_def)
qed (auto simp: params_read_def intro: exI [of _ "ps_params s"])

lemma wf_step_parses:
  assumes "wf_step px s"
  shows "\<exists>v. \<forall>i. parse_step px (i, v) = Inr s"
proof -
  obtain ps where ps: "params_read px (Some ps) (ps_params s)"
    using wf_step_params [OF assms] by blast
  obtain n where n: "ps_action_name s = ActionName n" by (cases "ps_action_name s")
  have "parse_step px (i, step_json s ps) = Inr s" for i
    using assms known_names_nonempty ps n
    by (auto simp: parse_step_Inr wf_step_def step_json_def get_str_def)
  then show ?thesis by blast
qed

lemma wf_steps_parse:
  assumes "list_all (wf_step px) ss"
  shows "\<exists>vs. length vs = length ss \<and> map_result (parse_step px) (enumerate i vs) = Inr ss"
  using assms
proof (induction ss arbitrary: i)
  case Nil
  then show ?case by simp
next
  case (Cons s ss)
  then obtain v where v: "\<forall>i. parse_step px (i, v) = Inr s" using wf_step_parses [of px s] by auto
  from Cons obtain vs where "length vs = length ss" "map_result (parse_step px) (enumerate (Suc i) vs) = Inr ss"
    by auto
  with v show ?case by (intro exI [of _ "v # vs"]) simp
qed

lemma parsed_steps_wf:
  "map_result (parse_step px) (enumerate i vs) = Inr ss \<Longrightarrow> list_all (wf_step px) ss"
  by (induction vs arbitrary: i ss) (auto simp: result_simps parse_step_wf)

lemma wf_plan_parses:
  assumes "wf_plan px p"
  shows "\<exists>input. parse_proposed_plan px (pl_intent p) input = Inr p"
proof -
  obtain vs where "length vs = length (pl_steps p)"
      "map_result (parse_step px) (enumerate 0 vs) = Inr (pl_steps p)"
    using assms wf_steps_parse [of px "pl_steps p" 0] by (auto simp: wf_plan_def)
  with assms have "parse_proposed_plan px (pl_intent p) (plan_json p vs) = Inr p"
    by (auto simp: parse_proposed_plan_def plan_json_def wf_plan_def non_empty_str_def get_str_def map_err_eq_Inr_conv new_Inr)
  then show ?thesis ..
qed

lemma parsed_plan_wf: "parse_proposed_plan px intent input = Inr p \<Longrightarrow> wf_plan px p \<and> pl_intent p = intent"
  by (auto simp: parse_proposed_plan_def result_simps non_empty_str_Some wf_plan_def parsed_steps_wf split: if_splits)

text \<open>The parameters are not made an object: an array is taken as it is, as a value and as a text.\<close>

lemma params_any_shape:
  "parse_params px i (Some (JArray vs)) = Inr (JArray vs)"
  "t \<noteq> [] \<Longrightarrow> px_parse px t = Some (JArray vs) \<Longrightarrow> parse_params px i (Some (JString t)) = Inr (JArray vs)"
  by (simp_all add: parse_params_Inr params_read_def)

text \<open>C31. The plans the planner can return are exactly these: the intent, the summary and the explanation
  are not empty, there is a step, and every step has an action of the catalogue and a summary. The parser
  rejects everything else, and every such plan is what it reads from some call of the model. The parameters of a step
  may be any JSON value, although a comment says they are normalised to an object (\<open>params_any_shape\<close>); a text is among
  them only if it is what the JSON parser makes of a text.\<close>

theorem plans_are_fenced:
  "(\<exists>input. parse_proposed_plan px intent input = Inr p) \<longleftrightarrow> wf_plan px p \<and> pl_intent p = intent"
proof
  assume "\<exists>input. parse_proposed_plan px intent input = Inr p"
  then show "wf_plan px p \<and> pl_intent p = intent" using parsed_plan_wf by blast
next
  assume "wf_plan px p \<and> pl_intent p = intent"
  with wf_plan_parses [of px p] show "\<exists>input. parse_proposed_plan px intent input = Inr p" by simp
qed

end
