(* ===== verification/Approval.thy ===== *)
theory Approval
  imports Plan
begin

text \<open>
  The approval policy of the command line (\<open>apps/sysknife-cli/src/approval.rs\<close>): which steps of a plan
  run without a question. Its input is the risk level the plan states.
\<close>

datatype max_risk = MaxLow | MaxMedium | MaxHigh

fun max_risk_rank :: "max_risk \<Rightarrow> nat" where
  "max_risk_rank MaxLow = 0"
| "max_risk_rank MaxMedium = 1"
| "max_risk_rank MaxHigh = 2"

text \<open>The derived order.\<close>

instantiation max_risk :: linorder
begin

definition less_eq_max_risk :: "max_risk \<Rightarrow> max_risk \<Rightarrow> bool" where
  "less_eq_max_risk a b = (max_risk_rank a \<le> max_risk_rank b)"

definition less_max_risk :: "max_risk \<Rightarrow> max_risk \<Rightarrow> bool" where
  "less_max_risk a b = (max_risk_rank a < max_risk_rank b)"

instance
proof
  fix a b :: max_risk
  show "a \<le> b \<Longrightarrow> b \<le> a \<Longrightarrow> a = b"
    by (cases a; cases b) (simp_all add: less_eq_max_risk_def)
qed (auto simp: less_eq_max_risk_def less_max_risk_def)

end

definition HARDCODED_MAX_AUTO_APPROVE :: max_risk where "HARDCODED_MAX_AUTO_APPROVE = MaxMedium"

fun max_risk_str :: "max_risk \<Rightarrow> str" where
  "max_risk_str MaxLow = ''low''"
| "max_risk_str MaxMedium = ''medium''"
| "max_risk_str MaxHigh = ''high''"

fun ceiling_includes :: "max_risk \<Rightarrow> plan_risk_level \<Rightarrow> bool" where
  "ceiling_includes MaxLow risk = (risk = PlanLow)"
| "ceiling_includes MaxMedium risk = (risk = PlanLow \<or> risk = PlanMedium)"
| "ceiling_includes MaxHigh risk = True"

record approval_policy =
  ap_yes :: bool
  ap_max_risk :: "max_risk option"
  ap_non_interactive :: bool
  ap_dry_run :: bool

datatype approval_decision = AutoApproved | RequiresPrompt | RequiresInteraction | ExceedsCeiling

definition effective_auto_ceiling :: "approval_policy \<Rightarrow> max_risk option" where
  "effective_auto_ceiling ap =
    (if \<not> ap_yes ap then None
     else let requested = unwrap_or (ap_max_risk ap) MaxLow in Some (min requested HARDCODED_MAX_AUTO_APPROVE))"

definition decide_step :: "approval_policy \<Rightarrow> plan_risk_level \<Rightarrow> approval_decision" where
  "decide_step ap risk =
    (if ap_dry_run ap then AutoApproved
     else if (case ap_max_risk ap of Some ceiling \<Rightarrow> \<not> ceiling_includes ceiling risk | None \<Rightarrow> False) then ExceedsCeiling
     else if (case effective_auto_ceiling ap of Some ceiling \<Rightarrow> ceiling_includes ceiling risk | None \<Rightarrow> False) then AutoApproved
     else if ap_non_interactive ap then RequiresInteraction
     else RequiresPrompt)"

text \<open>The loop over the steps: \<open>worst\<close> so far, and the two decisions that end it.\<close>

fun decide_steps :: "approval_policy \<Rightarrow> approval_decision \<Rightarrow> plan_step list \<Rightarrow> approval_decision" where
  "decide_steps ap worst [] = worst"
| "decide_steps ap worst (s # ss) =
    (case decide_step ap (ps_risk_level s) of
       ExceedsCeiling \<Rightarrow> ExceedsCeiling
     | RequiresInteraction \<Rightarrow> RequiresInteraction
     | RequiresPrompt \<Rightarrow> decide_steps ap RequiresPrompt ss
     | AutoApproved \<Rightarrow> decide_steps ap worst ss)"

definition decide_plan :: "approval_policy \<Rightarrow> plan \<Rightarrow> approval_decision" where
  "decide_plan ap p = decide_steps ap AutoApproved (pl_steps p)"

section \<open>What is decided\<close>

lemma decide_step_cases:
  "decide_step ap risk = AutoApproved \<longleftrightarrow>
    ap_dry_run ap \<or> (ap_yes ap \<and> risk \<noteq> PlanHigh \<and> (risk = PlanMedium \<longrightarrow> ap_max_risk ap \<in> {Some MaxMedium, Some MaxHigh}))"
  "decide_step ap risk = ExceedsCeiling \<longleftrightarrow>
    \<not> ap_dry_run ap \<and> (\<exists>c. ap_max_risk ap = Some c \<and> \<not> ceiling_includes c risk)"
  "decide_step ap risk = RequiresInteraction \<Longrightarrow> ap_non_interactive ap"
  "decide_step ap risk = RequiresPrompt \<Longrightarrow> \<not> ap_non_interactive ap \<and> \<not> ap_dry_run ap"
  by (cases risk; cases "ap_max_risk ap"; cases "the (ap_max_risk ap)";
      auto simp: decide_step_def effective_auto_ceiling_def HARDCODED_MAX_AUTO_APPROVE_def
        min_def less_eq_max_risk_def split: if_splits)+

lemma decide_steps_auto:
  "decide_steps ap worst ss = AutoApproved \<longleftrightarrow>
    worst = AutoApproved \<and> (\<forall>s\<in>set ss. decide_step ap (ps_risk_level s) = AutoApproved)"
  by (induction ss arbitrary: worst) (auto split: approval_decision.splits)

lemma decide_steps_terminal:
  "decide_steps ap worst ss = ExceedsCeiling \<Longrightarrow>
    worst = ExceedsCeiling \<or> (\<exists>s\<in>set ss. decide_step ap (ps_risk_level s) = ExceedsCeiling)"
  "decide_steps ap worst ss = RequiresInteraction \<Longrightarrow>
    worst = RequiresInteraction \<or> (\<exists>s\<in>set ss. decide_step ap (ps_risk_level s) = RequiresInteraction)"
  by (induction ss arbitrary: worst) (auto split: approval_decision.splits)

lemma decide_steps_prompt:
  "decide_steps ap worst ss = RequiresPrompt \<longleftrightarrow>
    (worst = RequiresPrompt \<or> (\<exists>s\<in>set ss. decide_step ap (ps_risk_level s) = RequiresPrompt)) \<and>
    (\<forall>s\<in>set ss. decide_step ap (ps_risk_level s) \<in> {AutoApproved, RequiresPrompt})"
  by (induction ss arbitrary: worst) (auto split: approval_decision.splits)

end
