(* ===== verification/Cli_Client.thy ===== *)
theory Cli_Client
  imports Dispatch_Types Approval
begin

text \<open>
  The client of the daemon's socket (\<open>apps/sysknife-cli/src/client.rs\<close>) with the state it returns
  (\<open>sysknife-brain/src/state_client.rs\<close>). Every operation opens a connection, sends one request and reads
  replies; the peer is given by whether the connection and the writes succeed and by the bytes it sends
  before the stream ends. The texts of foreign errors, the parser of JSON text, serde's messages and the
  removal of terminal escapes are parameters.
\<close>

datatype cli_error =
    Rejected
  | ExecutionFailed str
  | PlanningFailed str
  | ConfigOrDaemon str
  | RiskCeilingExceeded plan_risk_level max_risk
  | NonInteractive
  | ExitCode int

fun exit_code :: "cli_error \<Rightarrow> int" where
  "exit_code Rejected = 1"
| "exit_code (RiskCeilingExceeded _ _) = 1"
| "exit_code NonInteractive = 1"
| "exit_code (ExecutionFailed _) = 2"
| "exit_code (PlanningFailed _) = 3"
| "exit_code (ConfigOrDaemon _) = 4"
| "exit_code (ExitCode code) = code"

record client_env =
  ce_ext :: externs
  ce_parse :: "str \<Rightarrow> json option"
  ce_strip_ansi :: "str \<Rightarrow> str"
  ce_io_text :: str
  ce_json_text :: str
  ce_serde_text :: "json \<Rightarrow> str"
  ce_debug_text :: "json \<Rightarrow> str"

section \<open>Targets\<close>

datatype socket_target = SocketUnix str | SocketVsock nat nat

definition try_from_str :: "str \<Rightarrow> (str, socket_target) result" where
  "try_from_str s = (case strip_prefix s ''vsock://'' of
      Some rest \<Rightarrow>
        (case split_once CHR '':'' rest of
           None \<Rightarrow> Inl (''vsock URI must be vsock://CID:PORT, got: '' @ s)
         | Some (cid_str, port_str) \<Rightarrow>
            rbind (ok_or (parse_uint u32_max cid_str) (''invalid CID in vsock URI: '' @ s)) (\<lambda>cid.
            rbind (ok_or (parse_uint u32_max port_str) (''invalid port in vsock URI: '' @ s)) (\<lambda>port.
            Inr (SocketVsock cid port))))
    | None \<Rightarrow> (case strip_prefix s ''unix://'' of
          Some path \<Rightarrow> Inr (SocketUnix path)
        | None \<Rightarrow> Inr (SocketUnix s)))"

text \<open>The token from the environment: unset and empty are the same.\<close>

definition vsock_token :: "str option \<Rightarrow> str option" where
  "vsock_token v = (case v of Some t \<Rightarrow> if t = [] then None else Some t | None \<Rightarrow> None)"

section \<open>Frames\<close>

definition MAX_FRAME_BYTES :: nat where "MAX_FRAME_BYTES = 4 * 1024 * 1024"

text \<open>\<open>write_framed\<close> and \<open>write_framed_async\<close>; \<open>None\<close> is the error of a length above 32 bits.\<close>

definition write_framed :: "str \<Rightarrow> str option" where
  "write_framed msg =
    (if length msg \<le> u32_max then Some (to_le_bytes (of_nat (length msg)) @ msg) else None)"

text \<open>\<open>read_framed\<close> and \<open>read_framed_async\<close>.\<close>

definition read_framed :: "client_env \<Rightarrow> str \<Rightarrow> (str, str \<times> str) result" where
  "read_framed ce s =
    (if length s < 4 then Inl (ce_io_text ce)
     else let len = from_le_bytes (take 4 s); rest = drop 4 s in
       if len > MAX_FRAME_BYTES then Inl (''frame too large: '' @ show_nat len @ '' bytes'')
       else if length rest < len then Inl (ce_io_text ce)
       else Inr (take len rest, drop len rest))"

section \<open>Requests\<close>

text \<open>\<open>json!\<close> builds a map in key order.\<close>

definition auth_json :: "str \<Rightarrow> json" where
  "auth_json token = JObject [(''token'', JString token), (''type'', JString ''auth'')]"

definition query_state_json :: json where
  "query_state_json = JObject [(''request_id'', JString ''cli-state''), (''type'', JString ''query_state'')]"

definition action_request :: "str \<Rightarrow> str \<Rightarrow> str \<Rightarrow> json \<Rightarrow> json" where
  "action_request tag rid action_name params = JObject
    [(''action_name'', JString action_name), (''params'', params), (''request_id'', JString (rid @ action_name)),
     (''type'', JString tag)]"

definition execute_request :: "str \<Rightarrow> json \<Rightarrow> str \<Rightarrow> json" where
  "execute_request action_name params approval_hash = JObject
    [(''action_name'', JString action_name), (''approval_hash'', JString approval_hash), (''params'', params),
     (''request_id'', JString (''cli-exec-'' @ action_name)), (''type'', JString ''execute'')]"

section \<open>Replies\<close>

text \<open>\<open>resp[k]\<close>: null when there is no such field.\<close>

definition json_index :: "json \<Rightarrow> str \<Rightarrow> json" where
  "json_index v k = unwrap_or (json_get v k) JNull"

text \<open>Derived deserialisation: a struct from an object or from the array of its fields, an enum without
  fields from its name or an object with that key and null.\<close>

definition struct_get :: "str list \<Rightarrow> json \<Rightarrow> (str \<Rightarrow> json option) option" where
  "struct_get names v = (case v of
      JObject m \<Rightarrow> Some (map_of m)
    | JArray xs \<Rightarrow> if length xs = length names then Some (map_of (zip names xs)) else None
    | _ \<Rightarrow> None)"

fun enum_name :: "json \<Rightarrow> str option" where
  "enum_name (JString s) = Some s"
| "enum_name (JObject [(s, JNull)]) = Some s"
| "enum_name _ = None"

definition risk_level_of :: "json \<Rightarrow> risk_level option" where
  "risk_level_of v = Option.bind (enum_name v) (\<lambda>s.
    if s = ''low'' then Some Low else if s = ''medium'' then Some Medium
    else if s = ''high'' then Some High else None)"

definition job_state_of :: "json \<Rightarrow> job_state option" where
  "job_state_of v = Option.bind (enum_name v) (\<lambda>s.
    if s = ''queued'' then Some Queued else if s = ''running'' then Some Running
    else if s = ''succeeded'' then Some Succeeded else if s = ''failed'' then Some Failed
    else if s = ''canceled'' then Some Canceled else if s = ''rolled_back'' then Some RolledBack
    else if s = ''needs_reboot'' then Some NeedsReboot else None)"

fun all_some :: "'a option list \<Rightarrow> 'a list option" where
  "all_some [] = Some []"
| "all_some (x # xs) = (case (x, all_some xs) of (Some y, Some ys) \<Rightarrow> Some (y # ys) | _ \<Rightarrow> None)"

definition strings_of :: "json \<Rightarrow> str list option" where
  "strings_of v = Option.bind (as_array v) (\<lambda>xs. all_some (map as_str xs))"

text \<open>An optional field may be missing or null.\<close>

fun opt_str_of :: "json option \<Rightarrow> str option option" where
  "opt_str_of None = Some None"
| "opt_str_of (Some JNull) = Some None"
| "opt_str_of (Some (JString s)) = Some (Some s)"
| "opt_str_of _ = None"

definition preview_envelope_of :: "json \<Rightarrow> preview_envelope option" where
  "preview_envelope_of v =
    Option.bind (struct_get [''summary'', ''risk_level'', ''current_state'', ''proposed_change'',
      ''expected_side_effects'', ''reboot_required'', ''rollback_available'', ''warnings'', ''request_hash''] v) (\<lambda>get.
    Option.bind (Option.bind (get ''summary'') as_str) (\<lambda>summary.
    Option.bind (Option.bind (get ''risk_level'') risk_level_of) (\<lambda>risk_level.
    Option.bind (get ''current_state'') (\<lambda>current_state.
    Option.bind (get ''proposed_change'') (\<lambda>proposed_change.
    Option.bind (Option.bind (get ''expected_side_effects'') strings_of) (\<lambda>effects.
    Option.bind (Option.bind (get ''reboot_required'') as_bool) (\<lambda>reboot_required.
    Option.bind (Option.bind (get ''rollback_available'') as_bool) (\<lambda>rollback_available.
    Option.bind (Option.bind (get ''warnings'') strings_of) (\<lambda>warnings.
    Option.bind (Option.bind (get ''request_hash'') as_str) (\<lambda>request_hash.
    Some \<lparr>pe_summary = summary, pe_risk_level = risk_level, pe_current_state = current_state,
      pe_proposed_change = proposed_change, pe_expected_side_effects = effects,
      pe_reboot_required = reboot_required, pe_rollback_available = rollback_available,
      pe_warnings = warnings, pe_request_hash = RequestHash request_hash\<rparr>))))))))))"

definition result_envelope_of :: "json \<Rightarrow> result_envelope option" where
  "result_envelope_of v =
    Option.bind (struct_get [''status'', ''summary'', ''warnings'', ''job_id'', ''needs_reboot'', ''rollback_ref'',
      ''transaction_id''] v) (\<lambda>get.
    Option.bind (Option.bind (get ''status'') job_state_of) (\<lambda>status.
    Option.bind (Option.bind (get ''summary'') as_str) (\<lambda>summary.
    Option.bind (Option.bind (get ''warnings'') strings_of) (\<lambda>warnings.
    Option.bind (opt_str_of (get ''job_id'')) (\<lambda>job_id.
    Option.bind (Option.bind (get ''needs_reboot'') as_bool) (\<lambda>needs_reboot.
    Option.bind (opt_str_of (get ''rollback_ref'')) (\<lambda>rollback_ref.
    Option.bind (Option.bind (get ''transaction_id'') as_str) (\<lambda>transaction_id.
    Some \<lparr>rs_status = status, rs_summary = summary, rs_warnings = warnings, rs_job_id = job_id,
      rs_needs_reboot = needs_reboot, rs_rollback_ref = rollback_ref, rs_transaction_id = transaction_id\<rparr>))))))))"

section \<open>The peer\<close>

record peer =
  peer_connects :: bool
  peer_takes_auth :: bool
  peer_takes_request :: bool
  peer_reply :: str

text \<open>\<open>connect_async\<close>: a vsock connection starts with the token.\<close>

definition connect_async :: "client_env \<Rightarrow> socket_target \<Rightarrow> str option \<Rightarrow> peer \<Rightarrow> (cli_error, unit) result" where
  "connect_async ce target token_var peer = (case target of
      SocketUnix path \<Rightarrow>
        if peer_connects peer then Inr ()
        else Inl (ConfigOrDaemon (''cannot connect to '' @ path @ '': '' @ ce_io_text ce))
    | SocketVsock cid port \<Rightarrow>
        if \<not> peer_connects peer
        then Inl (ConfigOrDaemon (''cannot connect to vsock '' @ show_nat cid @ '':'' @ show_nat port @ '': '' @ ce_io_text ce))
        else (case vsock_token token_var of
            None \<Rightarrow> Inl (ConfigOrDaemon ''SYSKNIFE_TOKEN is not set; vsock connections require a pre-shared token'')
          | Some token \<Rightarrow>
              if write_framed (json_display (ce_ext ce) (auth_json token)) \<noteq> None \<and> peer_takes_auth peer then Inr ()
              else Inl (ConfigOrDaemon (''send auth: '' @ ce_io_text ce))))"

text \<open>Connect, send one request; the result is what can be read then.\<close>

definition send_request :: "client_env \<Rightarrow> socket_target \<Rightarrow> str option \<Rightarrow> peer \<Rightarrow> json \<Rightarrow> (cli_error, str) result" where
  "send_request ce target token_var peer request =
    rbind (connect_async ce target token_var peer) (\<lambda>_.
    if write_framed (json_display (ce_ext ce) request) \<noteq> None \<and> peer_takes_request peer then Inr (peer_reply peer)
    else Inl (ConfigOrDaemon (''send: '' @ ce_io_text ce)))"

definition first_reply :: "client_env \<Rightarrow> str \<Rightarrow> (cli_error, json) result" where
  "first_reply ce bytes =
    rbind (map_err (\<lambda>e. ConfigOrDaemon (''recv: '' @ e)) (read_framed ce bytes)) (\<lambda>(raw, rest).
    ok_or (ce_parse ce raw) (ConfigOrDaemon (''parse response: '' @ ce_json_text ce)))"

definition error_reply_text :: "json \<Rightarrow> str" where
  "error_reply_text resp =
    unwrap_or (as_str (json_index resp ''category'')) ''error'' @ '': '' @
    unwrap_or (as_str (json_index resp ''message'')) ''unknown''"

definition preview_reply :: "client_env \<Rightarrow> json \<Rightarrow> (cli_error, preview_envelope) result" where
  "preview_reply ce resp =
    (let tag = as_str (json_index resp ''type'') in
     if tag = Some ''preview_response'' then
       ok_or (preview_envelope_of (json_index resp ''preview''))
         (ConfigOrDaemon (''parse preview envelope: '' @ ce_serde_text ce (json_index resp ''preview'')))
     else if tag = Some ''error_response'' then Inl (PlanningFailed (error_reply_text resp))
     else Inl (ConfigOrDaemon (''unexpected response type: '' @ ce_debug_text ce (json_index resp ''type''))))"

definition client_preview ::
  "client_env \<Rightarrow> socket_target \<Rightarrow> str option \<Rightarrow> peer \<Rightarrow> str \<Rightarrow> json \<Rightarrow> (cli_error, preview_envelope) result" where
  "client_preview ce target token_var peer action_name params =
    rbind (send_request ce target token_var peer (action_request ''preview'' ''cli-preview-'' action_name params)) (\<lambda>bytes.
    rbind (first_reply ce bytes) (preview_reply ce))"

definition describe_reply :: "client_env \<Rightarrow> json \<Rightarrow> (cli_error, str) result" where
  "describe_reply ce resp =
    (let tag = as_str (json_index resp ''type'') in
     if tag = Some ''describe_response'' then Inr (unwrap_or (as_str (json_index resp ''command'')) [])
     else if tag = Some ''error_response'' then Inl (PlanningFailed (error_reply_text resp))
     else Inl (ConfigOrDaemon (''unexpected response type: '' @ json_display (ce_ext ce) (json_index resp ''type''))))"

definition client_describe ::
  "client_env \<Rightarrow> socket_target \<Rightarrow> str option \<Rightarrow> peer \<Rightarrow> str \<Rightarrow> json \<Rightarrow> (cli_error, str) result" where
  "client_describe ce target token_var peer action_name params =
    rbind (send_request ce target token_var peer (action_request ''describe'' ''cli-describe-'' action_name params)) (\<lambda>bytes.
    rbind (first_reply ce bytes) (describe_reply ce))"

text \<open>One message of the execute loop: a line to show (or nothing), or the end of the loop.\<close>

datatype execute_step = Continue "str option" | Finish "(cli_error, result_envelope) result"

definition execute_message :: "client_env \<Rightarrow> json \<Rightarrow> execute_step" where
  "execute_message ce resp =
    (let tag = as_str (json_index resp ''type'') in
     if tag = Some ''job_started'' then Continue None
     else if tag = Some ''job_progress'' then
       (case as_str (json_index resp ''line'') of
          Some line \<Rightarrow> Continue (Some (ce_strip_ansi ce line))
        | None \<Rightarrow> Finish (Inl (ExecutionFailed (''job_progress message missing '' @ quoted ''line'' @ '' string field''))))
     else if tag = Some ''job_completed'' then
       Finish (ok_or (result_envelope_of (json_index resp ''result''))
         (ExecutionFailed (''parse result: '' @ ce_serde_text ce (json_index resp ''result''))))
     else if tag = Some ''error_response'' then Finish (Inl (ExecutionFailed (error_reply_text resp)))
     else Finish (Inl (ExecutionFailed (''unexpected response type: '' @ ce_debug_text ce (json_index resp ''type'')))))"

lemma read_framed_Inr:
  "read_framed ce s = Inr (d, rest) \<longleftrightarrow>
    4 \<le> length s \<and> s = take 4 s @ d @ rest \<and> from_le_bytes (take 4 s) = length d \<and> length d \<le> MAX_FRAME_BYTES"
  (is "?l \<longleftrightarrow> ?r")
proof
  assume ?l
  then show ?r
    by (auto simp: read_framed_def Let_def simp del: drop_drop split: if_splits)
next
  assume r: ?r
  then have "drop 4 s = d @ rest" by (metis append_take_drop_id same_append_eq)
  with r show ?l by (simp add: read_framed_def Let_def)
qed

text \<open>The loop, with the lines shown. It ends because every message takes bytes of the stream.\<close>

function execute_loop :: "client_env \<Rightarrow> str \<Rightarrow> str list \<times> (cli_error, result_envelope) result" where
  "execute_loop ce bytes = (case read_framed ce bytes of
      Inl e \<Rightarrow> ([], Inl (ExecutionFailed (''recv: '' @ e)))
    | Inr (raw, rest) \<Rightarrow> (case ce_parse ce raw of
        None \<Rightarrow> ([], Inl (ExecutionFailed (''parse: '' @ ce_json_text ce)))
      | Some resp \<Rightarrow> (case execute_message ce resp of
          Finish r \<Rightarrow> ([], r)
        | Continue shown \<Rightarrow>
            (case execute_loop ce rest of (lines, r) \<Rightarrow> ((case shown of None \<Rightarrow> lines | Some l \<Rightarrow> l # lines), r)))))"
  by auto
termination
  by (relation "measure (\<lambda>(ce, bytes). length bytes)") (auto simp: read_framed_def Let_def split: if_splits)

declare execute_loop.simps [simp del]

definition client_execute ::
  "client_env \<Rightarrow> socket_target \<Rightarrow> str option \<Rightarrow> peer \<Rightarrow> str \<Rightarrow> json \<Rightarrow> str \<Rightarrow>
    str list \<times> (cli_error, result_envelope) result" where
  "client_execute ce target token_var peer action_name params approval_hash =
    (case send_request ce target token_var peer (execute_request action_name params approval_hash) of
       Inl e \<Rightarrow> ([], Inl e)
     | Inr bytes \<Rightarrow> execute_loop ce bytes)"

section \<open>The planner's client\<close>

record curated_state =
  cu_host_name :: str
  cu_deployment :: str
  cu_services :: "str list"
  cu_flatpaks :: "str list"
  cu_toolboxes :: "str list"
  cu_layered_packages :: "str list"
  cu_containers :: "str list"
  cu_users :: "str list"

definition new_curated_state ::
  "str \<Rightarrow> str \<Rightarrow> str list \<Rightarrow> str list \<Rightarrow> str list \<Rightarrow> str list \<Rightarrow> str list \<Rightarrow> str list \<Rightarrow> (str, curated_state) result" where
  "new_curated_state host deployment services flatpaks toolboxes layered containers users =
    (if host = [] then Inl ''host_name must not be empty''
     else Inr \<lparr>cu_host_name = host, cu_deployment = deployment, cu_services = services, cu_flatpaks = flatpaks,
       cu_toolboxes = toolboxes, cu_layered_packages = layered, cu_containers = containers, cu_users = users\<rparr>)"

text \<open>\<open>string_array\<close>: null is the empty list.\<close>

definition string_item :: "str \<Rightarrow> nat \<times> json \<Rightarrow> (planning_error, str) result" where
  "string_item field_name = (\<lambda>(i, x). ok_or (as_str x)
    (StateUnavailable (''field '' @ quoted (field_name @ ''['' @ show_nat i @ '']'') @ '' is not a string'')))"

definition string_array :: "str \<Rightarrow> json \<Rightarrow> (planning_error, str list) result" where
  "string_array field_name v =
    (if v = JNull then Inr []
     else rbind (ok_or (as_array v) (StateUnavailable (''field '' @ quoted field_name @ '' is not an array''))) (\<lambda>xs.
       map_result (string_item field_name) (enumerate 0 xs)))"

definition connect_sync :: "client_env \<Rightarrow> socket_target \<Rightarrow> str option \<Rightarrow> peer \<Rightarrow> (planning_error, unit) result" where
  "connect_sync ce target token_var peer =
    (if \<not> peer_connects peer then Inl (StateUnavailable (''connect: '' @ ce_io_text ce))
     else (case target of
        SocketUnix path \<Rightarrow> Inr ()
      | SocketVsock cid port \<Rightarrow> (case vsock_token token_var of
          None \<Rightarrow> Inl (StateUnavailable ''SYSKNIFE_TOKEN is not set; vsock connections require a pre-shared token'')
        | Some token \<Rightarrow>
            if write_framed (json_display (ce_ext ce) (auth_json token)) \<noteq> None \<and> peer_takes_auth peer then Inr ()
            else Inl (StateUnavailable (''send auth: '' @ ce_io_text ce)))))"

definition ask_daemon :: "client_env \<Rightarrow> socket_target \<Rightarrow> str option \<Rightarrow> peer \<Rightarrow> json \<Rightarrow> (planning_error, json) result" where
  "ask_daemon ce target token_var peer request =
    rbind (connect_sync ce target token_var peer) (\<lambda>_.
    if write_framed (json_display (ce_ext ce) request) = None \<or> \<not> peer_takes_request peer
    then Inl (StateUnavailable (''send: '' @ ce_io_text ce))
    else rbind (map_err (\<lambda>e. StateUnavailable (''recv: '' @ e)) (read_framed ce (peer_reply peer))) (\<lambda>(raw, rest).
      ok_or (ce_parse ce raw) (StateUnavailable (''parse: '' @ ce_json_text ce))))"

definition other_reply :: "json \<Rightarrow> planning_error" where
  "other_reply resp =
    (if as_str (json_index resp ''type'') = Some ''error_response''
     then StateUnavailable (''daemon error: '' @ unwrap_or (as_str (json_index resp ''message'')) ''unknown'')
     else StateUnavailable ''unexpected response type'')"

definition curated_state_reply :: "json \<Rightarrow> (planning_error, curated_state) result" where
  "curated_state_reply resp =
    (if as_str (json_index resp ''type'') = Some ''state_response'' then
       rbind (ok_or (json_get resp ''state'') (StateUnavailable ''missing state field'')) (\<lambda>s.
       rbind (ok_or (as_str (json_index s ''host_name'')) (StateUnavailable ''missing host_name'')) (\<lambda>host.
       let deployment = unwrap_or (as_str (json_index s ''deployment'')) [];
           arr = (\<lambda>k. string_array k (json_index s k)) in
       rbind (arr ''services'') (\<lambda>services. rbind (arr ''flatpaks'') (\<lambda>flatpaks.
       rbind (arr ''toolboxes'') (\<lambda>toolboxes. rbind (arr ''layered_packages'') (\<lambda>layered.
       rbind (arr ''containers'') (\<lambda>containers. rbind (arr ''users'') (\<lambda>users.
       map_err StateUnavailable (new_curated_state host deployment services flatpaks toolboxes layered containers users)))))))))
     else Inl (other_reply resp))"

definition curated_state_inner ::
  "client_env \<Rightarrow> socket_target \<Rightarrow> str option \<Rightarrow> peer \<Rightarrow> (planning_error, curated_state) result" where
  "curated_state_inner ce target token_var peer =
    rbind (ask_daemon ce target token_var peer query_state_json) curated_state_reply"

definition query_action_reply :: "client_env \<Rightarrow> json \<Rightarrow> (planning_error, str) result" where
  "query_action_reply ce resp =
    (if as_str (json_index resp ''type'') = Some ''query_action_response''
     then map_err StateUnavailable (ok_or (map_option (ce_strip_ansi ce) (as_str (json_index resp ''output'')))
       (''query_action_response missing '' @ quoted ''output'' @ '' string field''))
     else Inl (other_reply resp))"

definition query_action_inner ::
  "client_env \<Rightarrow> socket_target \<Rightarrow> str option \<Rightarrow> peer \<Rightarrow> str \<Rightarrow> json \<Rightarrow> (planning_error, str) result" where
  "query_action_inner ce target token_var peer action_name params =
    rbind (ask_daemon ce target token_var peer (action_request ''query_action'' ''cli-query-'' action_name params))
      (query_action_reply ce)"

end
