(* ===== verification/Distro.thy ===== *)
theory Distro
  imports Auth
begin

text \<open>
  Distribution detection (\<open>crates/sysknife-core/src/distro.rs\<close>) and the guard that keeps actions of one
  family off the other (\<open>apps/sysknife-cli/src/distro_routing.rs\<close>).
\<close>

definition MAX_OS_RELEASE_BYTES :: nat where "MAX_OS_RELEASE_BYTES = 10 * 1024"

datatype os_release_error =
    FileTooLarge
  | OsReleaseEmpty
  | InvalidLine str
  | MismatchedQuotes str
  | InvalidByte str

record os_release =
  or_id :: str
  or_id_like :: "str list"
  or_version_id :: "str option"
  or_codename :: "str option"
  or_variant_id :: "str option"
  or_pretty_name :: "str option"

datatype distro_id =
    Fedora nat
  | FedoraSilverblue nat
  | Ubuntu nat nat
  | UbuntuCore nat nat
  | Debian "nat option"
  | OtherDistro str "str option"

datatype distro_family = FedoraFamily | DebianFamily | OtherFamily

definition two_digits :: "nat \<Rightarrow> str" where
  "two_digits n = (if n < 10 then CHR ''0'' # show_nat n else show_nat n)"

fun distro_display :: "distro_id \<Rightarrow> str" where
  "distro_display (Fedora v) = ''Fedora '' @ show_nat v"
| "distro_display (FedoraSilverblue v) = ''FedoraSilverblue '' @ show_nat v"
| "distro_display (Ubuntu major minor) = ''Ubuntu '' @ show_nat major @ ''.'' @ two_digits minor"
| "distro_display (UbuntuCore major minor) = ''UbuntuCore '' @ show_nat major @ ''.'' @ two_digits minor"
| "distro_display (Debian (Some v)) = ''Debian '' @ show_nat v"
| "distro_display (Debian None) = ''Debian (unknown version)''"
| "distro_display (OtherDistro i (Some v)) = i @ '' '' @ v"
| "distro_display (OtherDistro i None) = i"

fun family :: "distro_id \<Rightarrow> distro_family" where
  "family (Fedora _) = FedoraFamily"
| "family (FedoraSilverblue _) = FedoraFamily"
| "family (Ubuntu _ _) = DebianFamily"
| "family (UbuntuCore _ _) = DebianFamily"
| "family (Debian _) = DebianFamily"
| "family (OtherDistro i _) = (if contains_str i ''fedora'' then FedoraFamily else OtherFamily)"

fun is_supported :: "distro_id \<Rightarrow> bool" where
  "is_supported (Fedora v) = (41 \<le> v)"
| "is_supported (FedoraSilverblue v) = (41 \<le> v)"
| "is_supported (Ubuntu major minor) = ((major, minor) \<in> {(22, 4), (24, 4), (26, 4)})"
| "is_supported _ = False"

section \<open>The os-release parser\<close>

fun is_valid_key :: "str \<Rightarrow> bool" where
  "is_valid_key [] = False"
| "is_valid_key (c # cs) = (is_ascii_uppercase c \<and>
    list_all (\<lambda>c. is_ascii_uppercase c \<or> is_ascii_digit c \<or> c = CHR ''_'') cs)"

definition strip_quotes :: "str \<Rightarrow> str \<Rightarrow> (os_release_error, str) result" where
  "strip_quotes key raw =
    (if raw = [] then Inr []
     else if hd raw = CHR 0x22 \<or> hd raw = CHR 0x27
     then (if last raw \<noteq> hd raw \<or> length raw < 2 then Inl (MismatchedQuotes key)
           else Inr (butlast (tl raw)))
     else Inr raw)"

definition is_ascii_space :: "char \<Rightarrow> bool" where
  "is_ascii_space c = (c \<in> {CHR '' '', CHR 0x09, CHR 0x0A, CHR 0x0C, CHR 0x0D})"

text \<open>\<open>split_ascii_whitespace\<close>.\<close>

fun ascii_words :: "str \<Rightarrow> str \<Rightarrow> str list" where
  "ascii_words w [] = (if w = [] then [] else [w])"
| "ascii_words w (c # s) =
    (if is_ascii_space c then (if w = [] then ascii_words [] s else w # ascii_words [] s)
     else ascii_words (w @ [c]) s)"

definition raw_split_whitespace :: "str \<Rightarrow> str list" where
  "raw_split_whitespace s = ascii_words [] s"

text \<open>One line that is neither blank nor a comment.\<close>

definition os_line :: "str \<Rightarrow> (os_release_error, str \<times> str) result" where
  "os_line l = (case split_once CHR ''='' l of
      None \<Rightarrow> Inl (InvalidLine l)
    | Some (key, raw_value) \<Rightarrow>
        if \<not> is_valid_key key then Inl (InvalidLine l)
        else if raw_value = [] then Inl (InvalidLine l)
        else rbind (strip_quotes key raw_value) (\<lambda>value.
          if list_ex (\<lambda>c. c = CHR 0x00 \<or> (is_ascii_control c \<and> c \<noteq> CHR 0x09)) value
          then Inl (InvalidByte key) else Inr (key, value)))"

text \<open>The variables of the loop: the fields read so far and \<open>found_any\<close>.\<close>

record os_vars =
  ov_id :: "str option"
  ov_id_like :: "str list"
  ov_version_id :: "str option"
  ov_codename :: "str option"
  ov_variant_id :: "str option"
  ov_pretty_name :: "str option"
  ov_found_any :: bool

definition os_start :: os_vars where
  "os_start = \<lparr>ov_id = None, ov_id_like = [], ov_version_id = None, ov_codename = None,
    ov_variant_id = None, ov_pretty_name = None, ov_found_any = False\<rparr>"

definition set_key :: "str \<Rightarrow> str \<Rightarrow> os_vars \<Rightarrow> os_vars" where
  "set_key key value v =
    (let v = v\<lparr>ov_found_any := True\<rparr> in
     if key = ''ID'' then v\<lparr>ov_id := Some value\<rparr>
     else if key = ''ID_LIKE'' then v\<lparr>ov_id_like := raw_split_whitespace value\<rparr>
     else if key = ''VERSION_ID'' then v\<lparr>ov_version_id := Some value\<rparr>
     else if key = ''VERSION_CODENAME'' then v\<lparr>ov_codename := Some value\<rparr>
     else if key = ''VARIANT_ID'' then v\<lparr>ov_variant_id := Some value\<rparr>
     else if key = ''PRETTY_NAME'' then v\<lparr>ov_pretty_name := Some value\<rparr>
     else v)"

definition skipped :: "str \<Rightarrow> bool" where
  "skipped l = (l = [] \<or> starts_with l ''#'')"

fun os_loop :: "str list \<Rightarrow> os_vars \<Rightarrow> (os_release_error, os_vars) result" where
  "os_loop [] v = Inr v"
| "os_loop (l # ls) v =
    (if skipped l then os_loop ls v
     else rbind (os_line l) (\<lambda>(key, value). os_loop ls (set_key key value v)))"

definition parse_os_release :: "str \<Rightarrow> (os_release_error, os_release) result" where
  "parse_os_release contents =
    (if length contents > MAX_OS_RELEASE_BYTES then Inl FileTooLarge
     else rbind (os_loop (str_lines contents) os_start) (\<lambda>v.
       if \<not> ov_found_any v then Inl OsReleaseEmpty
       else rbind (ok_or (ov_id v) OsReleaseEmpty) (\<lambda>i.
         Inr \<lparr>or_id = i, or_id_like = ov_id_like v, or_version_id = ov_version_id v,
              or_codename = ov_codename v, or_variant_id = ov_variant_id v,
              or_pretty_name = ov_pretty_name v\<rparr>)))"

section \<open>Classification\<close>

definition detect_fedora :: "os_release \<Rightarrow> distro_id" where
  "detect_fedora release =
    (let is_immutable = or_variant_id release \<in> {Some ''silverblue'', Some ''kinoite'', Some ''sericea''}
     in case Option.bind (or_version_id release) (parse_uint u32_max) of
          Some v \<Rightarrow> if is_immutable then FedoraSilverblue v else Fedora v
        | None \<Rightarrow> OtherDistro (or_id release) (or_version_id release))"

definition parse_ubuntu_version :: "str \<Rightarrow> (nat \<times> nat) option" where
  "parse_ubuntu_version v = (case splitn 2 CHR ''.'' v of
      [a, b] \<Rightarrow> (case (parse_uint u32_max a, parse_uint u32_max b) of
          (Some major, Some minor) \<Rightarrow> Some (major, minor) | _ \<Rightarrow> None)
    | _ \<Rightarrow> None)"

definition detect_ubuntu :: "os_release \<Rightarrow> distro_id" where
  "detect_ubuntu release =
    (let is_core = or_variant_id release = Some ''core''
     in case Option.bind (or_version_id release) parse_ubuntu_version of
          Some (major, minor) \<Rightarrow> if is_core then UbuntuCore major minor else Ubuntu major minor
        | None \<Rightarrow> OtherDistro (or_id release) (or_version_id release))"

definition detect_debian :: "os_release \<Rightarrow> distro_id" where
  "detect_debian release = Debian (Option.bind (or_version_id release) (parse_uint u32_max))"

definition detect_distro :: "os_release \<Rightarrow> distro_id" where
  "detect_distro release =
    (if or_id release = ''fedora'' then detect_fedora release
     else if or_id release = ''ubuntu'' then detect_ubuntu release
     else if or_id release = ''debian'' then detect_debian release
     else OtherDistro (or_id release) (or_version_id release))"

text \<open>\<open>detect().ok()\<close> on what reading \<open>/etc/os-release\<close> gives.\<close>

definition detect :: "str option \<Rightarrow> distro_id option" where
  "detect file = Option.bind file (\<lambda>contents. map_option detect_distro (res_ok (parse_os_release contents)))"

section \<open>Routing\<close>

definition DEBIAN_ONLY_ACTIONS :: "str list" where
  "DEBIAN_ONLY_ACTIONS =
    [''AptUpdate'', ''AptUpgrade'', ''AptInstall'', ''AptRemove'', ''AptPurge'', ''AptAutoremove'', ''AptHold'',
     ''AptUnhold'', ''AptSearch'', ''AptListInstalled'', ''AptShow'', ''SnapInstall'', ''SnapRemove'',
     ''SnapRefresh'', ''SnapHold'', ''SnapUnhold'', ''SnapList'', ''SnapInfo'', ''UfwEnable'', ''UfwDisable'',
     ''UfwAllow'', ''UfwDeny'', ''UfwReset'', ''UfwStatus'', ''DistroboxList'', ''DistroboxCreate'',
     ''DistroboxRemove'', ''NetplanGetConfig'', ''NetplanApply'']"

definition FEDORA_ONLY_ACTIONS :: "str list" where
  "FEDORA_ONLY_ACTIONS =
    [''RebaseSystem'', ''AddLayeredPackage'', ''RemoveLayeredPackage'', ''ReplaceLayeredPackage'',
     ''RemoveBasePackage'', ''ResetLayeredPackageOverride'', ''GetLayeredPackages'', ''GetDeploymentHistory'',
     ''ListDeployments'', ''CleanupDeployments'', ''RollbackDeployment'', ''PinDeployment'',
     ''UnpinDeployment'', ''GetKernelArguments'', ''SetKernelArguments'']"

fun family_label :: "distro_family \<Rightarrow> str" where
  "family_label FedoraFamily = ''Fedora family''"
| "family_label DebianFamily = ''Debian family''"
| "family_label OtherFamily = ''unknown family''"

definition check_action_distro :: "str \<Rightarrow> distro_id option \<Rightarrow> (str, unit) result" where
  "check_action_distro action_name distro = (case distro of
      None \<Rightarrow> Inr ()
    | Some d \<Rightarrow>
      if List.member DEBIAN_ONLY_ACTIONS action_name \<and> family d \<noteq> DebianFamily
      then Inl (action_name @ '' is only valid on Debian-family distros (apt/snap/ufw); current distro is '' @
        distro_display d @ '' ('' @ family_label (family d) @ '')'')
      else if List.member FEDORA_ONLY_ACTIONS action_name \<and> family d \<noteq> FedoraFamily
      then Inl (action_name @ '' is only valid on Fedora-family distros (rpm-ostree/dnf); current distro is '' @
        distro_display d @ '' ('' @ family_label (family d) @ '')'')
      else Inr ())"

section \<open>What the parser reads\<close>

text \<open>The assignments of a file, in order; a later one replaces an earlier one of the same key.\<close>

definition os_entries :: "str \<Rightarrow> (os_release_error, (str \<times> str) list) result" where
  "os_entries s = map_result os_line (filter (\<lambda>l. \<not> skipped l) (str_lines s))"

definition assigned :: "(str \<times> str) list \<Rightarrow> str \<Rightarrow> str option" where
  "assigned es k = map_of (rev es) k"

lemma os_loop_fold:
  "os_loop ls v = rbind (map_result os_line (filter (\<lambda>l. \<not> skipped l) ls)) (\<lambda>es.
    Inr (fold (\<lambda>(k, x). set_key k x) es v))"
proof (induction ls arbitrary: v)
  case (Cons l ls)
  then show ?case
    by (cases "os_line l"; cases "map_result os_line (filter (\<lambda>l. \<not> skipped l) ls)") auto
qed simp

lemma assigned_snoc: "assigned (es @ [(k, x)]) j = (if j = k then Some x else assigned es j)"
  by (simp add: assigned_def)

lemma set_key_sel [simp]:
  "ov_found_any (set_key k x v)"
  "ov_id (set_key k x v) = (if k = ''ID'' then Some x else ov_id v)"
  "ov_id_like (set_key k x v) = (if k = ''ID_LIKE'' then raw_split_whitespace x else ov_id_like v)"
  "ov_version_id (set_key k x v) = (if k = ''VERSION_ID'' then Some x else ov_version_id v)"
  "ov_codename (set_key k x v) = (if k = ''VERSION_CODENAME'' then Some x else ov_codename v)"
  "ov_variant_id (set_key k x v) = (if k = ''VARIANT_ID'' then Some x else ov_variant_id v)"
  "ov_pretty_name (set_key k x v) = (if k = ''PRETTY_NAME'' then Some x else ov_pretty_name v)"
  by (simp_all add: set_key_def Let_def)

definition os_vars_of :: "(str \<times> str) list \<Rightarrow> os_vars" where
  "os_vars_of es = fold (\<lambda>(k, x). set_key k x) es os_start"

lemma os_vars_of_snoc: "os_vars_of (es @ [(k, x)]) = set_key k x (os_vars_of es)"
  by (simp add: os_vars_of_def)

lemma fold_set_key:
  "ov_found_any (os_vars_of es) \<longleftrightarrow> es \<noteq> []"
  "ov_id (os_vars_of es) = assigned es ''ID''"
  "ov_id_like (os_vars_of es) = (case assigned es ''ID_LIKE'' of None \<Rightarrow> [] | Some x \<Rightarrow> raw_split_whitespace x)"
  "ov_version_id (os_vars_of es) = assigned es ''VERSION_ID''"
  "ov_codename (os_vars_of es) = assigned es ''VERSION_CODENAME''"
  "ov_variant_id (os_vars_of es) = assigned es ''VARIANT_ID''"
  "ov_pretty_name (os_vars_of es) = assigned es ''PRETTY_NAME''"
  by (induction es rule: rev_induct)
     (simp_all add: os_vars_of_snoc assigned_snoc split_paired_all,
      simp_all add: os_vars_of_def os_start_def assigned_def)

text \<open>The os-release parser is strict and the last assignment wins: it accepts a file exactly when it is
  within the size limit, every line that is neither blank nor a comment is a valid assignment, and there
  is an assignment of \<open>ID\<close>; each field of the result is then the last value assigned to its key.\<close>

theorem os_release_exact:
  "parse_os_release s = Inr r \<longleftrightarrow>
    length s \<le> MAX_OS_RELEASE_BYTES \<and>
    (\<exists>es. os_entries s = Inr es \<and> assigned es ''ID'' = Some (or_id r) \<and>
      or_id_like r = (case assigned es ''ID_LIKE'' of None \<Rightarrow> [] | Some x \<Rightarrow> raw_split_whitespace x) \<and>
      or_version_id r = assigned es ''VERSION_ID'' \<and> or_codename r = assigned es ''VERSION_CODENAME'' \<and>
      or_variant_id r = assigned es ''VARIANT_ID'' \<and> or_pretty_name r = assigned es ''PRETTY_NAME'')"
proof -
  have "assigned [] k = None" for k by (simp add: assigned_def)
  then show ?thesis
    by (cases r; cases "os_entries s")
       (auto simp: parse_os_release_def os_loop_fold os_vars_of_def [symmetric] os_entries_def fold_set_key result_simps)
qed

section \<open>What the guard lets through\<close>

lemma fedora_routing:
  "check_action_distro a (Some (Fedora v)) = Inr () \<longleftrightarrow> \<not> List.member DEBIAN_ONLY_ACTIONS a"
  by (simp add: check_action_distro_def)

definition debian_prefixes :: "str list" where
  "debian_prefixes = [''Apt'', ''Snap'', ''Ufw'', ''Distrobox'', ''Netplan'']"

lemma debian_named:
  "filter (\<lambda>a. list_ex (starts_with a) debian_prefixes) KNOWN_ACTION_NAMES =
   [''AptUpdate'', ''AptUpgrade'', ''AptInstall'', ''AptRemove'', ''AptPurge'', ''AptAutoremove'', ''AptHold'',
    ''AptUnhold'', ''AptSearch'', ''AptListInstalled'', ''AptShow'', ''AptListUpgradable'', ''AptHistoryList'',
    ''SnapInstall'', ''SnapRemove'', ''SnapRefresh'', ''SnapHold'', ''SnapUnhold'', ''SnapList'', ''SnapInfo'',
    ''SnapRevert'', ''SnapClassicInstall'', ''UfwEnable'', ''UfwDisable'', ''UfwAllow'', ''UfwDeny'', ''UfwReset'',
    ''UfwStatus'', ''DistroboxList'', ''DistroboxCreate'', ''DistroboxRemove'', ''NetplanGetConfig'',
    ''NetplanApply'', ''NetplanSet'', ''NetplanGenerate'', ''UfwDeleteRule'', ''UfwLimit'']"
  by (simp add: KNOWN_ACTION_NAMES_def debian_prefixes_def starts_with_def)

text \<open>The guard is not what its module documentation says: of the catalogue's actions named \<open>Apt*\<close>,
  \<open>Snap*\<close>, \<open>Ufw*\<close>, \<open>Distrobox*\<close> and \<open>Netplan*\<close> it lets these eight run on Fedora.\<close>

theorem routing_guard_gaps:
  "filter (\<lambda>a. check_action_distro a (Some (Fedora v)) = Inr ())
     (filter (\<lambda>a. list_ex (starts_with a) debian_prefixes) KNOWN_ACTION_NAMES) =
   [''AptListUpgradable'', ''AptHistoryList'', ''SnapRevert'', ''SnapClassicInstall'', ''NetplanSet'',
    ''NetplanGenerate'', ''UfwDeleteRule'', ''UfwLimit'']"
  unfolding debian_named fedora_routing by (simp add: DEBIAN_ONLY_ACTIONS_def)

end
