(* ===== verification/Cli_Run.thy ===== *)
theory Cli_Run
  imports Cli_Client Distro
begin

text \<open>
  \<open>run_intent\<close> of \<open>apps/sysknife-cli/src/runner.rs\<close> as a program over its effects: the configuration, the
  planner, questions to the user, calls on the client, output. Rendering (colours, spinners, JSON lines) is
  the abstract output \<open>shown\<close>.
\<close>

record run_opts =
  ro_yes :: bool
  ro_max_risk :: "max_risk option"
  ro_non_interactive :: bool
  ro_dry_run :: bool
  ro_json :: bool
  ro_step_by_step :: bool

definition approval_policy_of :: "run_opts \<Rightarrow> approval_policy" where
  "approval_policy_of opts = \<lparr>ap_yes = ro_yes opts, ap_max_risk = ro_max_risk opts,
    ap_non_interactive = ro_non_interactive opts, ap_dry_run = ro_dry_run opts\<rparr>"

datatype question = ConfirmPlan nat plan_risk_level | ConfirmStep str str plan_risk_level

datatype shown = ShowPlan plan | ShowWarning | ShowPreview str preview_envelope | ShowResult result_envelope | ShowSuccess

datatype cli =
    Done "(cli_error, unit) result"
  | Panic
  | Configure "(str, unit) result \<Rightarrow> cli"
  | PlanIntent str "(planning_error, plan) result \<Rightarrow> cli"
  | Ask question "str option \<Rightarrow> cli"
  | CallPreview str json "(cli_error, preview_envelope) result \<Rightarrow> cli"
  | CallExecute str json str "(cli_error, result_envelope) result \<Rightarrow> cli"
  | Show shown cli

text \<open>\<open>prompt_confirm\<close>: the line read, \<open>None\<close> on an error; nothing read is the end of input.\<close>

definition prompt_confirm :: "str option \<Rightarrow> bool" where
  "prompt_confirm line = (case line of
      None \<Rightarrow> False
    | Some buf \<Rightarrow> buf \<noteq> [] \<and> to_ascii_lowercase (trim buf) \<in> {''y'', ''yes''})"

text \<open>\<open>max_by_key\<close> takes the last of the greatest.\<close>

fun risk_key :: "plan_risk_level \<Rightarrow> nat" where
  "risk_key PlanLow = 0"
| "risk_key PlanMedium = 1"
| "risk_key PlanHigh = 2"

fun highest_of :: "plan_risk_level list \<Rightarrow> plan_risk_level option" where
  "highest_of [] = None"
| "highest_of (r # rs) = (case highest_of rs of
      None \<Rightarrow> Some r | Some r' \<Rightarrow> if risk_key r' < risk_key r then Some r else Some r')"

definition highest_risk :: "plan \<Rightarrow> plan_risk_level option" where
  "highest_risk p = highest_of (map ps_risk_level (pl_steps p))"

text \<open>\<open>RiskCeilingExceeded\<close>, whose values are unwrapped.\<close>

definition over_ceiling :: "run_opts \<Rightarrow> plan_risk_level option \<Rightarrow> cli" where
  "over_ceiling opts highest = (case (highest, ro_max_risk opts) of
      (Some h, Some ceiling) \<Rightarrow> Done (Inl (RiskCeilingExceeded h ceiling))
    | _ \<Rightarrow> Panic)"

definition run_plan_step :: "run_opts \<Rightarrow> plan_step \<Rightarrow> cli \<Rightarrow> cli" where
  "run_plan_step opts s rest =
    (let name = action_name_str (ps_action_name s); params = ps_params s in
     CallPreview name params (\<lambda>r. case r of
       Inl e \<Rightarrow> Done (Inl e)
     | Inr preview \<Rightarrow> Show (ShowPreview name preview)
        (CallExecute name params (request_hash_str (pe_request_hash preview)) (\<lambda>r. case r of
          Inl e \<Rightarrow> Done (Inl e)
        | Inr res \<Rightarrow> Show (ShowResult res) rest))))"

definition ask_step :: "run_opts \<Rightarrow> plan_step \<Rightarrow> cli \<Rightarrow> cli" where
  "ask_step opts s go =
    (case decide_step (approval_policy_of opts) (ps_risk_level s) of
       AutoApproved \<Rightarrow> go
     | RequiresPrompt \<Rightarrow>
         Ask (ConfirmStep (action_name_str (ps_action_name s)) (ps_summary s) (ps_risk_level s))
           (\<lambda>line. if prompt_confirm line then go else Done (Inl Rejected))
     | RequiresInteraction \<Rightarrow> Done (Inl NonInteractive)
     | ExceedsCeiling \<Rightarrow> over_ceiling opts (Some (ps_risk_level s)))"

fun run_steps :: "run_opts \<Rightarrow> plan_step list \<Rightarrow> cli" where
  "run_steps opts [] = (if ro_json opts then Done (Inr ()) else Show ShowSuccess (Done (Inr ())))"
| "run_steps opts (s # ss) =
    (let go = run_plan_step opts s (run_steps opts ss)
     in if ro_step_by_step opts then ask_step opts s go else go)"

definition ask_plan :: "run_opts \<Rightarrow> plan \<Rightarrow> cli \<Rightarrow> cli" where
  "ask_plan opts p go =
    (case decide_plan (approval_policy_of opts) p of
       AutoApproved \<Rightarrow> go
     | RequiresPrompt \<Rightarrow> (case highest_risk p of
           None \<Rightarrow> Panic
         | Some highest \<Rightarrow> Ask (ConfirmPlan (length (pl_steps p)) highest)
             (\<lambda>line. if prompt_confirm line then go else Done (Inl Rejected)))
     | RequiresInteraction \<Rightarrow> Done (Inl NonInteractive)
     | ExceedsCeiling \<Rightarrow> over_ceiling opts (highest_risk p))"

definition run_plan :: "run_opts \<Rightarrow> distro_id option \<Rightarrow> plan \<Rightarrow> cli" where
  "run_plan opts distro p =
    (let guarded = (case check_all (\<lambda>s. check_action_distro (action_name_str (ps_action_name s)) distro) (pl_steps p) of
           Inl msg \<Rightarrow> Done (Inl (ConfigOrDaemon msg))
         | Inr _ \<Rightarrow> run_steps opts (pl_steps p))
     in Show (ShowPlan p)
       (if ro_dry_run opts
        then (if ro_step_by_step opts then Show ShowWarning (Done (Inr ())) else Done (Inr ()))
        else if ro_step_by_step opts then guarded else ask_plan opts p guarded))"

definition run_intent :: "run_opts \<Rightarrow> distro_id option \<Rightarrow> str \<Rightarrow> cli" where
  "run_intent opts distro intent =
    Configure (\<lambda>r. case r of
      Inl e \<Rightarrow> Done (Inl (ConfigOrDaemon e))
    | Inr _ \<Rightarrow> PlanIntent intent (\<lambda>r. case r of
        Inl e \<Rightarrow> Done (Inl (PlanningFailed (planning_error_text e)))
      | Inr p \<Rightarrow> run_plan opts distro p))"

section \<open>Runs\<close>

datatype cli_event =
    Configured "(str, unit) result"
  | Planned str "(planning_error, plan) result"
  | Answered question "str option"
  | PreviewedStep str json "(cli_error, preview_envelope) result"
  | ExecutedStep str json str "(cli_error, result_envelope) result"
  | Shown shown

fun cli_react :: "cli \<Rightarrow> cli_event \<Rightarrow> cli option" where
  "cli_react (Configure k) (Configured r) = Some (k r)"
| "cli_react (PlanIntent i k) (Planned i' r) = (if i' = i then Some (k r) else None)"
| "cli_react (Ask q k) (Answered q' line) = (if q' = q then Some (k line) else None)"
| "cli_react (CallPreview n ps k) (PreviewedStep n' ps' r) = (if n' = n \<and> ps' = ps then Some (k r) else None)"
| "cli_react (CallExecute n ps h k) (ExecutedStep n' ps' h' r) =
    (if n' = n \<and> ps' = ps \<and> h' = h then Some (k r) else None)"
| "cli_react (Show x p) (Shown y) = (if y = x then Some p else None)"
| "cli_react p e = None"

fun cli_follow :: "cli \<Rightarrow> cli_event list \<Rightarrow> cli option" where
  "cli_follow p [] = Some p"
| "cli_follow p (e # es) = Option.bind (cli_react p e) (\<lambda>q. cli_follow q es)"

end
