(* ===== verification/Cli_Daemon.thy ===== *)
theory Cli_Daemon
  imports Cli_Client Dispatch_Properties Store_Invariant
begin

text \<open>
  The client against the daemon: the messages a handler sends, as frames on the wire, and what the client's
  execute loop makes of them.
\<close>

section \<open>What the handler of an execution reports\<close>



















section \<open>What the client reads\<close>




lemma all_some_map [simp]: "all_some (map (\<lambda>x. Some (f x)) xs) = Some (map f xs)"
  by (induction xs) auto

lemma strings_of_sort [simp]: "strings_of (sort_json (strings_json ws)) = Some ws"
  by (simp add: strings_of_def strings_json_def o_def)

lemma job_state_of_str [simp]: "job_state_of (JString (job_state_str st)) = Some st"
  by (cases st) (simp_all add: job_state_of_def)

lemma opt_str_of_opt [simp]: "opt_str_of (Some (sort_json (opt_json x))) = Some x"
  by (cases x) simp_all


lemma wf_small [simp]: "wf_json (strings_json ws)" "wf_json (opt_json x)"
  by (simp add: strings_json_def list_all_iff, cases x) simp_all




section \<open>On the wire\<close>











text \<open>The failing update again, all messages delivered. The client's parser knows their texts.\<close>

fun delivered :: "event \<Rightarrow> event" where
  "delivered (Sent r b) = Sent r True"
| "delivered e = e"


definition demo_exchange :: "event list" where
  "demo_exchange = map delivered (sample_start @ sample_run # sample_finish)"

definition demo_client :: client_env where
  "demo_client = \<lparr>ce_ext = text_externs,
    ce_parse = (\<lambda>t. map_option (\<lambda>r. sort_json (response_json r))
      (find (\<lambda>r. json_display text_externs (response_json r) = t)
        (List.map_filter (\<lambda>e. case e of Sent r b \<Rightarrow> Some r | _ \<Rightarrow> None) demo_exchange))),
    ce_strip_ansi = (\<lambda>s. s), ce_io_text = [], ce_json_text = [], ce_serde_text = (\<lambda>_. []), ce_debug_text = (\<lambda>_. [])\<rparr>"

lemma demo_client_ext [simp]: "ce_ext demo_client = text_externs"
  by (simp add: demo_client_def)







end
