(* ===== verification/Cli_Properties.thy ===== *)
theory Cli_Properties
  imports Cli_Run Cli_Daemon
begin

text \<open>
  What the command line runs: the consent behind every call that executes a step, and the two places where
  its behaviour is not what the documentation promises.
\<close>

section \<open>Consent\<close>

text \<open>The calls that execute something, in order.\<close>

fun exec_call :: "cli_event \<Rightarrow> (str \<times> json \<times> str) option" where
  "exec_call (ExecutedStep n ps h r) = Some (n, ps, h)"
| "exec_call e = None"

definition exec_calls :: "cli_event list \<Rightarrow> (str \<times> json \<times> str) list" where
  "exec_calls es = List.map_filter exec_call es"

lemma exec_calls_simps [simp]:
  "exec_calls [] = []"
  "exec_calls (e # es) = (case exec_call e of None \<Rightarrow> exec_calls es | Some c \<Rightarrow> c # exec_calls es)"
  by (simp_all add: exec_calls_def List.map_filter_simps split: option.split)

lemma exec_calls_append [simp]: "exec_calls (es @ fs) = exec_calls es @ exec_calls fs"
  by (induction es) (auto split: option.split)

definition step_call :: "plan_step \<Rightarrow> str \<times> json" where
  "step_call s = (action_name_str (ps_action_name s), ps_params s)"

definition answered_yes :: "cli_event list \<Rightarrow> question \<Rightarrow> bool" where
  "answered_yes es q = (\<exists>line. Answered q line \<in> set es \<and> prompt_confirm line)"

definition step_question :: "plan_step \<Rightarrow> question" where
  "step_question s = ConfirmStep (action_name_str (ps_action_name s)) (ps_summary s) (ps_risk_level s)"

text \<open>The grounds for running a step: the policy, or the user's answer, to the question about this step or
  about the whole plan.\<close>

definition step_granted :: "run_opts \<Rightarrow> cli_event list \<Rightarrow> plan_step \<Rightarrow> bool" where
  "step_granted opts es s =
    (decide_step (approval_policy_of opts) (ps_risk_level s) = AutoApproved \<or>
     decide_step (approval_policy_of opts) (ps_risk_level s) = RequiresPrompt \<and> answered_yes es (step_question s))"

definition plan_granted :: "run_opts \<Rightarrow> cli_event list \<Rightarrow> plan \<Rightarrow> bool" where
  "plan_granted opts es p =
    (decide_plan (approval_policy_of opts) p = AutoApproved \<or>
     decide_plan (approval_policy_of opts) p = RequiresPrompt \<and>
       (\<exists>highest. highest_risk p = Some highest \<and> answered_yes es (ConfirmPlan (length (pl_steps p)) highest)))"

definition hash_previewed :: "cli_event list \<Rightarrow> str \<times> json \<times> str \<Rightarrow> bool" where
  "hash_previewed es = (\<lambda>(n, ps, h). \<exists>pe. PreviewedStep n ps (Inr pe) \<in> set es \<and> h = request_hash_str (pe_request_hash pe))"

lemma answered_yes_mono: "answered_yes es q \<Longrightarrow> set es \<subseteq> set fs \<Longrightarrow> answered_yes fs q"
  by (auto simp: answered_yes_def)

lemma step_granted_mono: "step_granted opts es s \<Longrightarrow> set es \<subseteq> set fs \<Longrightarrow> step_granted opts fs s"
  by (auto simp: step_granted_def dest: answered_yes_mono)

lemma hash_previewed_mono: "hash_previewed es c \<Longrightarrow> set es \<subseteq> set fs \<Longrightarrow> hash_previewed fs c"
  by (cases c) (auto simp: hash_previewed_def)

text \<open>Following each kind of node.\<close>

lemma follow_nodes:
  "cli_follow (Done x) es = Some q \<longleftrightarrow> es = [] \<and> q = Done x"
  "cli_follow Panic es = Some q \<longleftrightarrow> es = [] \<and> q = Panic"
  "cli_follow (Configure k1) es = Some q \<longleftrightarrow>
    es = [] \<and> q = Configure k1 \<or> (\<exists>r fs. es = Configured r # fs \<and> cli_follow (k1 r) fs = Some q)"
  "cli_follow (PlanIntent i k2) es = Some q \<longleftrightarrow>
    es = [] \<and> q = PlanIntent i k2 \<or> (\<exists>r fs. es = Planned i r # fs \<and> cli_follow (k2 r) fs = Some q)"
  "cli_follow (Ask w k3) es = Some q \<longleftrightarrow>
    es = [] \<and> q = Ask w k3 \<or> (\<exists>l fs. es = Answered w l # fs \<and> cli_follow (k3 l) fs = Some q)"
  "cli_follow (CallPreview n ps k4) es = Some q \<longleftrightarrow>
    es = [] \<and> q = CallPreview n ps k4 \<or> (\<exists>r fs. es = PreviewedStep n ps r # fs \<and> cli_follow (k4 r) fs = Some q)"
  "cli_follow (CallExecute n ps h k5) es = Some q \<longleftrightarrow>
    es = [] \<and> q = CallExecute n ps h k5 \<or> (\<exists>r fs. es = ExecutedStep n ps h r # fs \<and> cli_follow (k5 r) fs = Some q)"
  "cli_follow (Show y p) es = Some q \<longleftrightarrow>
    es = [] \<and> q = Show y p \<or> (\<exists>fs. es = Shown y # fs \<and> cli_follow p fs = Some q)"
  by (cases es; cases "hd es"; auto)+

text \<open>What is known after some calls of the steps: they are the first steps in order, each granted and with
  the hash of its preview.\<close>

definition steps_justified :: "run_opts \<Rightarrow> cli_event list \<Rightarrow> plan_step list \<Rightarrow> bool" where
  "steps_justified opts es ss =
    (\<exists>k\<le>length ss. map (\<lambda>(n, ps, h). (n, ps)) (exec_calls es) = map step_call (take k ss) \<and>
      (ro_step_by_step opts \<longrightarrow> list_all (step_granted opts es) (take k ss)) \<and>
      list_all (hash_previewed es) (exec_calls es))"

lemma justified_none: "exec_calls es = [] \<Longrightarrow> steps_justified opts es ss"
  unfolding steps_justified_def by (intro exI [of _ 0]) simp

lemma justified_later:
  "list_all (step_granted opts fs) xs \<Longrightarrow> set fs \<subseteq> set gs \<Longrightarrow> list_all (step_granted opts gs) xs"
  "list_all (hash_previewed fs) cs \<Longrightarrow> set fs \<subseteq> set gs \<Longrightarrow> list_all (hash_previewed gs) cs"
  by (auto simp: list_all_iff intro: step_granted_mono hash_previewed_mono)

lemma justified_prefix:
  assumes "steps_justified opts es ss" "exec_calls pre = []" shows "steps_justified opts (pre @ es) ss"
  using assms justified_later [where fs = es and gs = "pre @ es"] by (fastforce simp: steps_justified_def)

lemma run_plan_step_trace:
  assumes "cli_follow (run_plan_step opts s rest) es = Some q"
  shows "exec_calls es = [] \<or>
    (\<exists>n ps pe r fs. step_call s = (n, ps) \<and>
       es = PreviewedStep n ps (Inr pe) # Shown (ShowPreview n pe) #
         ExecutedStep n ps (request_hash_str (pe_request_hash pe)) r # fs \<and>
       (fs = [] \<or> (\<exists>v gs. fs = Shown (ShowResult v) # gs \<and> cli_follow rest gs = Some q)))"
  using assms by (auto simp: run_plan_step_def Let_def follow_nodes split_sum_ex step_call_def)

lemma justified_step:
  assumes "cli_follow (run_plan_step opts s (run_steps opts ss)) es = Some q"
    and "ro_step_by_step opts \<Longrightarrow> step_granted opts (pre @ es) s" "exec_calls pre = []"
    and IH: "\<And>es q. cli_follow (run_steps opts ss) es = Some q \<Longrightarrow> steps_justified opts es ss"
  shows "steps_justified opts (pre @ es) (s # ss)"
proof -
  from run_plan_step_trace [OF assms(1)] consider
      "exec_calls es = []"
    | n ps pe r fs where "step_call s = (n, ps)"
        "es = PreviewedStep n ps (Inr pe) # Shown (ShowPreview n pe) #
          ExecutedStep n ps (request_hash_str (pe_request_hash pe)) r # fs"
        "fs = [] \<or> (\<exists>v gs. fs = Shown (ShowResult v) # gs \<and> cli_follow (run_steps opts ss) gs = Some q)"
    by blast
  then show ?thesis
  proof cases
    case 1
    with assms(3) show ?thesis by (simp add: justified_none)
  next
    case 2
    let ?c = "(n, ps, request_hash_str (pe_request_hash pe))"
    have first: "hash_previewed (pre @ es) ?c" using 2(2) by (auto simp: hash_previewed_def)
    have "steps_justified opts fs ss"
      using 2(3) IH justified_prefix [of opts _ ss "[Shown x]" for x] by (auto simp: justified_none)
    then obtain k where k: "k \<le> length ss"
        "map (\<lambda>(n, ps, h). (n, ps)) (exec_calls fs) = map step_call (take k ss)"
        "ro_step_by_step opts \<longrightarrow> list_all (step_granted opts fs) (take k ss)"
        "list_all (hash_previewed fs) (exec_calls fs)"
      by (auto simp: steps_justified_def)
    have sub: "set fs \<subseteq> set (pre @ es)" using 2(2) by auto
    from k 2(1,2) assms(2,3) first justified_later [OF _ sub] show ?thesis
      unfolding steps_justified_def by (intro exI [of _ "Suc k"]) auto
  qed
qed

lemma run_steps_justified: "cli_follow (run_steps opts ss) es = Some q \<Longrightarrow> steps_justified opts es ss"
proof (induction ss arbitrary: es q)
  case Nil
  then show ?case by (auto simp: follow_nodes justified_none split: if_splits)
next
  case (Cons s ss)
  show ?case
  proof (cases "ro_step_by_step opts")
    case False
    with Cons.prems justified_step [of opts s ss es q "[]"] Cons.IH show ?thesis by simp
  next
    case True
    with Cons.prems have f: "cli_follow (ask_step opts s (run_plan_step opts s (run_steps opts ss))) es = Some q" by simp
    show ?thesis
    proof (cases "decide_step (approval_policy_of opts) (ps_risk_level s)")
      case AutoApproved
      with f justified_step [of opts s ss es q "[]"] Cons.IH show ?thesis
        by (simp add: ask_step_def step_granted_def)
    next
      case RequiresPrompt
      with f consider "exec_calls es = []" | l gs where "es = Answered (step_question s) l # gs" "prompt_confirm l"
          "cli_follow (run_plan_step opts s (run_steps opts ss)) gs = Some q"
        by (auto simp: ask_step_def follow_nodes step_question_def split: if_splits)
      then show ?thesis
      proof cases
        case 2
        then have "step_granted opts es s"
          using RequiresPrompt by (auto simp: step_granted_def answered_yes_def)
        with 2 justified_step [of opts s ss gs q "[Answered (step_question s) l]"] Cons.IH show ?thesis by simp
      qed (rule justified_none)
    next
      case RequiresInteraction
      with f show ?thesis by (simp add: ask_step_def follow_nodes justified_none)
    next
      case ExceedsCeiling
      with f show ?thesis
        by (auto simp: ask_step_def over_ceiling_def follow_nodes justified_none split: option.splits)
    qed
  qed
qed

lemma justified_one: "steps_justified opts es ss \<Longrightarrow> exec_call e = None \<Longrightarrow> steps_justified opts (e # es) ss"
  using justified_prefix [of opts es ss "[e]"] by simp

lemma decide_plan_nonempty: "decide_plan ap p \<noteq> AutoApproved \<Longrightarrow> highest_risk p \<noteq> None"
  by (cases "pl_steps p") (auto simp: decide_plan_def highest_risk_def split: option.split)

lemma decide_plan_ceiling: "decide_plan ap p = ExceedsCeiling \<Longrightarrow> ap_max_risk ap \<noteq> None"
  using decide_steps_terminal(1) decide_step_cases(2) by (fastforce simp: decide_plan_def)

lemma decide_plan_high:
  "decide_plan (approval_policy_of opts) p = AutoApproved \<Longrightarrow> \<not> ro_dry_run opts \<Longrightarrow> s \<in> set (pl_steps p) \<Longrightarrow>
    ps_risk_level s \<noteq> PlanHigh"
  by (auto simp: decide_plan_def decide_steps_auto decide_step_cases(1) approval_policy_of_def)

lemma step_granted_high:
  "step_granted opts es s \<Longrightarrow> \<not> ro_dry_run opts \<Longrightarrow> ps_risk_level s = PlanHigh \<Longrightarrow> \<exists>w. answered_yes es w"
  by (auto simp: step_granted_def decide_step_cases(1) approval_policy_of_def)

text \<open>What a run of the command line that executed something has behind it.\<close>

definition run_justified :: "run_opts \<Rightarrow> distro_id option \<Rightarrow> cli_event list \<Rightarrow> plan \<Rightarrow> bool" where
  "run_justified opts distro es p =
    (\<not> ro_dry_run opts \<and>
     list_all (\<lambda>s. check_action_distro (action_name_str (ps_action_name s)) distro = Inr ()) (pl_steps p) \<and>
     (ro_step_by_step opts \<or> plan_granted opts es p) \<and> steps_justified opts es (pl_steps p))"

lemma guarded_justified:
  assumes "cli_follow (case check_all (\<lambda>s. check_action_distro (action_name_str (ps_action_name s)) distro) (pl_steps p) of
      Inl msg \<Rightarrow> Done (Inl (ConfigOrDaemon msg)) | Inr _ \<Rightarrow> run_steps opts (pl_steps p)) es = Some q"
    and "exec_calls es \<noteq> []"
  shows "list_all (\<lambda>s. check_action_distro (action_name_str (ps_action_name s)) distro = Inr ()) (pl_steps p) \<and>
    steps_justified opts es (pl_steps p)"
  using assms run_steps_justified
  by (auto simp: follow_nodes check_all_Inr list_all_iff split: sum.splits)

lemma plan_justified:
  assumes "cli_follow (run_plan opts distro p) es = Some q" "exec_calls es \<noteq> []"
  shows "run_justified opts distro es p"
proof -
  let ?guarded = "case check_all (\<lambda>s. check_action_distro (action_name_str (ps_action_name s)) distro) (pl_steps p) of
      Inl msg \<Rightarrow> Done (Inl (ConfigOrDaemon msg)) | Inr _ \<Rightarrow> run_steps opts (pl_steps p)"
  from assms obtain fs where fs: "es = Shown (ShowPlan p) # fs" "exec_calls fs \<noteq> []" "\<not> ro_dry_run opts"
      "cli_follow (if ro_step_by_step opts then ?guarded else ask_plan opts p ?guarded) fs = Some q"
    by (auto simp: run_plan_def Let_def follow_nodes split: if_splits)
  show ?thesis
  proof (cases "ro_step_by_step opts")
    case True
    with fs guarded_justified [where distro = distro and p = p and opts = opts and es = fs and q = q] show ?thesis
      by (simp add: run_justified_def justified_one)
  next
    case False
    with fs have ask: "cli_follow (ask_plan opts p ?guarded) fs = Some q" by simp
    show ?thesis
    proof (cases "decide_plan (approval_policy_of opts) p")
      case AutoApproved
      with ask have "cli_follow ?guarded fs = Some q" by (simp add: ask_plan_def)
      from guarded_justified [OF this fs(2)] AutoApproved fs show ?thesis
        by (simp add: run_justified_def plan_granted_def justified_one)
    next
      case RequiresPrompt
      then have "decide_plan (approval_policy_of opts) p \<noteq> AutoApproved" by simp
      from decide_plan_nonempty [OF this] obtain r where r: "highest_risk p = Some r" by blast
      with ask RequiresPrompt fs(2) obtain l gs where gs: "fs = Answered (ConfirmPlan (length (pl_steps p)) r) l # gs"
          "prompt_confirm l" "cli_follow ?guarded gs = Some q"
        by (auto simp: ask_plan_def follow_nodes split: if_splits)
      then have "plan_granted opts es p"
        using r RequiresPrompt fs(1) by (auto simp: plan_granted_def answered_yes_def)
      moreover have "exec_calls gs \<noteq> []" using fs(2) gs(1) by simp
      ultimately show ?thesis
        using guarded_justified [OF gs(3)] gs(1) fs(1,3) by (simp add: run_justified_def justified_one)
    next
      case RequiresInteraction
      with ask fs(2) show ?thesis by (simp add: ask_plan_def follow_nodes)
    next
      case ExceedsCeiling
      with ask fs(2) show ?thesis
        by (auto simp: ask_plan_def over_ceiling_def follow_nodes split: option.splits)
    qed
  qed
qed

text \<open>C4. The command line executes nothing the user did not agree to: the calls that execute are the first
  steps of the plan, in its order, each with the parameters of the plan and the hash of its own preview,
  after the routing guard passed the whole plan and never in a dry run; and the policy approved the plan,
  or (step by step) each step, or the user answered yes to the question about it. A step the plan calls
  high is never run without such an answer.\<close>

theorem steps_run_with_consent:
  assumes "cli_follow (run_intent opts distro intent) es = Some q" "exec_calls es \<noteq> []"
  shows "\<exists>p. Planned intent (Inr p) \<in> set es \<and> run_justified opts distro es p \<and>
    ((\<exists>s\<in>set (take (length (exec_calls es)) (pl_steps p)). ps_risk_level s = PlanHigh) \<longrightarrow> (\<exists>w. answered_yes es w))"
proof -
  from assms obtain c p fs where fs: "es = Configured c # Planned intent (Inr p) # fs" "exec_calls fs \<noteq> []"
      "cli_follow (run_plan opts distro p) fs = Some q"
    by (auto simp: run_intent_def follow_nodes split_sum_ex)
  from plan_justified [OF fs(3,2)] have j: "run_justified opts distro fs p" .
  then have je: "run_justified opts distro es p"
    using fs(1) answered_yes_mono [of fs _ es]
    by (auto simp: run_justified_def plan_granted_def justified_one)
  have "\<exists>w. answered_yes es w"
    if s: "s \<in> set (take (length (exec_calls es)) (pl_steps p))" "ps_risk_level s = PlanHigh" for s
  proof (cases "ro_step_by_step opts")
    case False
    with je decide_plan_high [of opts p s] s in_set_takeD [OF s(1)] show ?thesis
      by (auto simp: run_justified_def plan_granted_def)
  next
    case True
    with je obtain k where k: "map (\<lambda>(n, ps, h). (n, ps)) (exec_calls es) = map step_call (take k (pl_steps p))"
        "list_all (step_granted opts es) (take k (pl_steps p))" "k \<le> length (pl_steps p)"
      by (auto simp: run_justified_def steps_justified_def)
    from arg_cong [OF k(1), of length] k(3) have "length (exec_calls es) = k" by simp
    with k(2) s step_granted_high je show ?thesis by (auto simp: list_all_iff run_justified_def)
  qed
  with je fs(1) show ?thesis by auto
qed

definition sample_step :: plan_step where
  "sample_step = \<lparr>ps_action_name = ActionName ''GetMemoryInfo'', ps_summary = ''memory'', ps_risk_level = PlanLow,
    ps_params = JObject []\<rparr>"

definition sample_plan :: plan where
  "sample_plan = \<lparr>pl_intent = ''memory?'', pl_summary = ''memory'', pl_explanation = ''reads it'', pl_steps = [sample_step]\<rparr>"

definition sample_opts :: run_opts where
  "sample_opts = \<lparr>ro_yes = True, ro_max_risk = None, ro_non_interactive = True, ro_dry_run = False, ro_json = True,
    ro_step_by_step = False\<rparr>"

definition sample_preview :: "risk_level \<Rightarrow> preview_envelope" where
  "sample_preview r = \<lparr>pe_summary = ''s'', pe_risk_level = r, pe_current_state = JNull, pe_proposed_change = JNull,
    pe_expected_side_effects = [], pe_reboot_required = False, pe_rollback_available = False, pe_warnings = [],
    pe_request_hash = RequestHash ''h''\<rparr>"

definition sample_result :: "job_state \<Rightarrow> result_envelope" where
  "sample_result st = \<lparr>rs_status = st, rs_summary = ''s'', rs_warnings = [], rs_job_id = None, rs_needs_reboot = False,
    rs_rollback_ref = None, rs_transaction_id = ''t''\<rparr>"

text \<open>What happens around one step: its preview, its execution and what is shown of them.\<close>

definition step_events :: "plan_step \<Rightarrow> preview_envelope \<Rightarrow> result_envelope \<Rightarrow> cli_event list" where
  "step_events s pe v =
    (let (n, ps) = step_call s in
     [PreviewedStep n ps (Inr pe), Shown (ShowPreview n pe),
      ExecutedStep n ps (request_hash_str (pe_request_hash pe)) (Inr v), Shown (ShowResult v)])"

lemma follow_step_events: "cli_follow (run_plan_step opts s rest) (step_events s pe v @ es) = cli_follow rest es"
  by (simp add: run_plan_step_def step_events_def step_call_def Let_def)

theorem steps_run_with_consent_witness:
  "\<exists>p. Planned ''memory?'' (Inr p) \<in> set ([Configured (Inr ()), Planned ''memory?'' (Inr sample_plan), Shown (ShowPlan sample_plan)]
      @ step_events sample_step (sample_preview Low) (sample_result Succeeded)) \<and>
     run_justified sample_opts None ([Configured (Inr ()), Planned ''memory?'' (Inr sample_plan), Shown (ShowPlan sample_plan)]
      @ step_events sample_step (sample_preview Low) (sample_result Succeeded)) p"
proof -
  let ?es = "[Configured (Inr ()), Planned ''memory?'' (Inr sample_plan), Shown (ShowPlan sample_plan)]
      @ step_events sample_step (sample_preview Low) (sample_result Succeeded)"
  have "cli_follow (run_intent sample_opts None ''memory?'') ?es \<noteq> None"
    by (simp add: run_intent_def run_plan_def sample_opts_def sample_plan_def ask_plan_def decide_plan_def sample_step_def
        decide_step_def approval_policy_of_def effective_auto_ceiling_def HARDCODED_MAX_AUTO_APPROVE_def
        min_def less_eq_max_risk_def check_action_distro_def run_plan_step_def step_events_def step_call_def Let_def)
  then obtain q where q: "cli_follow (run_intent sample_opts None ''memory?'') ?es = Some q" by blast
  have "exec_calls ?es \<noteq> []" by (simp add: step_events_def step_call_def)
  from steps_run_with_consent [OF q this] show ?thesis by blast
qed

text \<open>A step that failed does not stop the plan: whatever the jobs of the steps ended with, all steps are
  run in order and the command ends without an error.\<close>

theorem failed_steps_do_not_stop:
  "cli_follow (run_steps (opts\<lparr>ro_step_by_step := False\<rparr>) (map fst ts))
      (concat (map (\<lambda>(s, pe, v). step_events s pe v) ts) @ (if ro_json opts then [] else [Shown ShowSuccess])) =
    Some (Done (Inr ()))"
  by (induction ts) (auto simp: Let_def follow_step_events)

text \<open>The decision on a step called low, under \<open>--yes\<close>.\<close>

lemma low_is_auto:
  "ap_yes ap \<Longrightarrow> decide_step ap PlanLow = AutoApproved"
  by (simp add: decide_step_cases(1))

text \<open>With \<open>--yes\<close> the level that decides is the one the model wrote: for every action of the catalogue
  the parser accepts a plan that calls it low, and that plan is executed without a question, whatever risk
  level the daemon's preview states.\<close>

theorem auto_approval_trusts_the_label:
  assumes "n \<in> set KNOWN_ACTION_NAMES" "intent \<noteq> []" "ro_yes opts" "\<not> ro_dry_run opts"
    and "check_action_distro n distro = Inr ()"
  shows "\<exists>input p s. parse_proposed_plan px intent input = Inr p \<and> step_call s = (n, JObject ps) \<and>
    (\<forall>pe v. \<exists>q. cli_follow (run_intent opts distro intent)
      ([Configured (Inr ()), Planned intent (Inr p), Shown (ShowPlan p)] @ step_events s pe v) = Some q)"
proof -
  define s where "s = \<lparr>ps_action_name = ActionName n, ps_summary = ''s'', ps_risk_level = PlanLow, ps_params = JObject ps\<rparr>"
  define p where "p = \<lparr>pl_intent = intent, pl_summary = ''s'', pl_explanation = ''e'', pl_steps = [s]\<rparr>"
  have "wf_plan px p" using assms(1,2) by (simp add: wf_plan_def wf_step_def p_def s_def)
  from wf_plan_parses [OF this] obtain input where i: "parse_proposed_plan px intent input = Inr p"
    by (auto simp: p_def)
  have sel: "pl_steps p = [s]" "ps_action_name s = ActionName n" "ps_risk_level s = PlanLow" "step_call s = (n, JObject ps)"
    by (simp_all add: p_def s_def step_call_def)
  have auto: "decide_step (approval_policy_of opts) PlanLow = AutoApproved"
    using assms(3) by (simp add: low_is_auto approval_policy_of_def)
  have "\<exists>q. cli_follow (run_intent opts distro intent)
      ([Configured (Inr ()), Planned intent (Inr p), Shown (ShowPlan p)] @ step_events s pe v) = Some q" for pe v
    using assms(4,5) auto follow_step_events [of opts s _ pe v "[]"]
    by (auto simp: run_intent_def run_plan_def sel Let_def ask_plan_def decide_plan_def ask_step_def)
  with i sel(4) show ?thesis by blast
qed

theorem auto_approval_trusts_the_label_witness:
  "\<exists>input p s. parse_proposed_plan \<lparr>px_parse = \<lambda>_. None, px_debug = quoted\<rparr> ''restart'' input = Inr p \<and>
    step_call s = (''RebootSystem'', JObject []) \<and>
    (\<forall>pe v. \<exists>q. cli_follow (run_intent sample_opts None ''restart'')
      ([Configured (Inr ()), Planned ''restart'' (Inr p), Shown (ShowPlan p)] @ step_events s pe v) = Some q)"
proof (rule auto_approval_trusts_the_label)
  show "''RebootSystem'' \<in> set KNOWN_ACTION_NAMES" by (simp add: KNOWN_ACTION_NAMES_def)
qed (simp_all add: sample_opts_def check_action_distro_def)

end
