(* ===== verification/Interaction.thy ===== *)
theory Interaction
  imports Prelude
begin

text \<open>
  Programs over their effects: a program reacts to an event, the answer to the effect it waits for, with the
  program that is left. The locale is the contract of an invariant with a ghost state that the events move.
\<close>

fun follow_with :: "('p \<Rightarrow> 'e \<Rightarrow> 'p option) \<Rightarrow> 'p \<Rightarrow> 'e list \<Rightarrow> 'p option" where
  "follow_with react p [] = Some p"
| "follow_with react p (e # es) = Option.bind (react p e) (\<lambda>q. follow_with react q es)"

lemma follow_with_append:
  "follow_with react p (es @ fs) = Option.bind (follow_with react p es) (\<lambda>q. follow_with react q fs)"
  by (induction es arbitrary: p) (simp_all split: Option.bind_split)

locale guarded_program =
  fixes react :: "'p \<Rightarrow> 'e \<Rightarrow> 'p option"
    and fine :: "'p \<Rightarrow> 's \<Rightarrow> bool"
    and good :: "'s \<Rightarrow> 'e \<Rightarrow> bool"
    and upd :: "'s \<Rightarrow> 'e \<Rightarrow> 's"
  assumes step: "fine p s \<Longrightarrow> react p e = Some q \<Longrightarrow> good s e \<and> fine q (upd s e)"
begin

lemma stays_fine: "fine p s \<Longrightarrow> follow_with react p es = Some q \<Longrightarrow> fine q (foldl upd s es)"
  by (induction es arbitrary: p s) (auto simp: Option.bind_eq_Some_conv dest: step)

lemma event_good:
  assumes "fine p s" "follow_with react p (es @ e # fs) = Some q"
  shows "good (foldl upd s es) e"
  using assms stays_fine [OF assms(1), of es] step
  by (auto simp: follow_with_append Option.bind_eq_Some_conv)

lemma events_good:
  assumes "fine p s" "follow_with react p es = Some q" "e \<in> set es"
  shows "\<exists>xs ys. es = xs @ e # ys \<and> good (foldl upd s xs) e"
  using event_good [OF assms(1)] assms(2,3) split_list [of e es] by metis

end

end
