(* ===== verification/Prefs.thy ===== *)
theory Prefs
  imports State_Collector Validate
begin

text \<open>
  The preferences of the user (\<open>crates/sysknife-brain/src/prefs.rs\<close>): a file with one line per preference,
  and the filter for secrets that the planner also applies to every intent. The answers of the file system
  are arguments: the content read, \<open>None\<close> for a missing file, or the text of an error.
\<close>

definition PREFS_MAX_BYTES :: nat where "PREFS_MAX_BYTES = 10240"

definition SENSITIVE_PATTERNS :: "str list" where
  "SENSITIVE_PATTERNS =
    [''password'', ''passwd'', ''secret'', ''api_key'', ''apikey'', ''private_key'', ''token'', ''credential'',
     ''-----begin'', ''bearer '', ''akia'']"

definition SENSITIVE_PREFIXES :: "str list" where
  "SENSITIVE_PREFIXES =
    [''sk-'', ''ghp_'', ''github_pat_'', ''gho_'', ''xoxb-'', ''xoxp-'', ''sg.'', ''key_live_'', ''key_test_'',
     ''eyj'', ''hvs.'', ''hvb.'', ''npm_'', ''pypi-'']"

definition contains_sensitive :: "str \<Rightarrow> bool" where
  "contains_sensitive pref =
    (let lower = to_lowercase pref
     in list_ex (contains_str lower) SENSITIVE_PATTERNS \<or> list_ex (contains_str lower) SENSITIVE_PREFIXES)"

type_synonym file_read = "(str, str option) result"

definition read_prefs :: "file_read \<Rightarrow> (str, str option) result" where
  "read_prefs r = (case r of
      Inl e \<Rightarrow> Inl e
    | Inr None \<Rightarrow> Inr None
    | Inr (Some content) \<Rightarrow> Inr (if trim content = [] then None else Some content))"

text \<open>\<open>append_pref\<close> and \<open>remove_pref\<close> up to the write: the new content, or \<open>None\<close> when nothing is written.\<close>

definition append_content :: "(str, unit) result \<Rightarrow> file_read \<Rightarrow> str \<Rightarrow> (str, str option) result" where
  "append_content dir r pref =
    (if CHR 0x0A \<in> set pref \<or> CHR 0x0D \<in> set pref then Inl ''preference must be a single line''
     else rbind dir (\<lambda>_. rbind r (\<lambda>f.
       let existing = unwrap_or f [];
           new_line = ''- '' @ pref @ [CHR 0x0A]
       in if list_ex (\<lambda>l. strip_prefix l ''- '' = Some pref) (str_lines existing) then Inr None
          else if length existing + length new_line > PREFS_MAX_BYTES
          then Inl (''preferences file exceeds size limit ('' @ show_nat PREFS_MAX_BYTES @
            '' bytes); remove unused preferences before adding new ones'')
          else Inr (Some (existing @ new_line)))))"

definition remove_content :: "file_read \<Rightarrow> str \<Rightarrow> (str, str option) result" where
  "remove_content r pref = rbind r (\<lambda>f. case f of
      None \<Rightarrow> Inr None
    | Some content \<Rightarrow>
        let target = ''- '' @ pref;
            filtered = filter (\<lambda>l. l \<noteq> target) (str_lines content)
        in if List.member (str_lines content) target
           then Inr (Some (if filtered = [] then [] else join_with [CHR 0x0A] filtered @ [CHR 0x0A]))
           else Inr None)"

text \<open>The write through a temporary file: its error, or the new content of the file.\<close>

definition append_pref :: "(str, unit) result \<Rightarrow> (str, unit) result \<Rightarrow> file_read \<Rightarrow> str \<Rightarrow> (str, str option) result" where
  "append_pref dir write r pref = rbind (append_content dir r pref) (\<lambda>new. case new of
      None \<Rightarrow> r
    | Some content \<Rightarrow> rbind write (\<lambda>_. Inr (Some content)))"

definition remove_pref :: "(str, unit) result \<Rightarrow> file_read \<Rightarrow> str \<Rightarrow> (str, bool \<times> str option) result" where
  "remove_pref write r pref = rbind (remove_content r pref) (\<lambda>new. case new of
      None \<Rightarrow> rbind r (\<lambda>f. Inr (False, f))
    | Some content \<Rightarrow> rbind write (\<lambda>_. Inr (True, Some content)))"

section \<open>What the file holds\<close>

text \<open>A file as the two operations leave it: complete lines.\<close>

definition pref_file :: "str list \<Rightarrow> str" where
  "pref_file ls = concat (map (\<lambda>l. l @ [CHR 0x0A]) ls)"

definition pref_line :: "str \<Rightarrow> bool" where
  "pref_line l = (CHR 0x0A \<notin> set l \<and> (l = [] \<or> last l \<noteq> CHR 0x0D))"

lemma pref_lines: "list_all pref_line ls \<Longrightarrow> str_lines (pref_file ls) = ls"
  unfolding pref_file_def pref_line_def by (rule str_lines_concat)

lemma pref_file_Nil [simp]: "pref_file [] = []"
  by (simp add: pref_file_def)

lemma pref_file_append: "pref_file (ls @ [l]) = pref_file ls @ l @ [CHR 0x0A]"
  by (simp add: pref_file_def)

lemma pref_file_join: "ls \<noteq> [] \<Longrightarrow> join_with [CHR 0x0A] ls @ [CHR 0x0A] = pref_file ls"
  by (induction "[CHR 0x0A]" ls rule: join_with.induct) (auto simp: pref_file_def)

lemma open_lines:
  assumes "list_all pref_line ls" "CHR 0x0A \<notin> set l" "l \<noteq> []"
  shows "str_lines (pref_file ls @ l) = ls @ [l]"
proof -
  have join: "join_with [d] (xs @ [l]) = concat (map (\<lambda>x. x @ [d]) xs) @ l" for d and xs :: "str list"
  proof (induction xs)
    case (Cons x xs)
    then show ?case by (cases "xs @ [l]") auto
  qed simp
  have "split_on (CHR 0x0A) (pref_file ls @ l) = ls @ [l]"
    unfolding pref_file_def join [symmetric]
    by (rule split_join) (use assms in \<open>auto simp: list_all_iff pref_line_def\<close>)
  moreover have "map strip_cr ls = ls"
    using assms(1) by (induction ls) (auto simp: strip_cr_def pref_line_def)
  ultimately show ?thesis using assms(3) by (simp add: str_lines_def)
qed

lemma strip_dash: "strip_prefix l ''- '' = Some pref \<longleftrightarrow> l = ''- '' @ pref"
  by (simp add: strip_prefix_Some)

lemma no_cr_last: "d \<notin> set s \<Longrightarrow> s \<noteq> [] \<Longrightarrow> last s \<noteq> d"
  using last_in_set by metis

lemma append_is_line:
  "append_content dir r pref = Inr (Some new) \<Longrightarrow> CHR 0x0A \<notin> set pref \<and> CHR 0x0D \<notin> set pref"
  by (auto simp: append_content_def split: if_splits)

text \<open>A preference that is added is the last line of the file, the file stays below its bound, and removing
  the preference gives the file back.\<close>

lemma preferences_roundtrip:
  assumes "list_all pref_line ls" "append_pref dir write (Inr (Some (pref_file ls))) pref = Inr (Some new)"
    and "''- '' @ pref \<notin> set ls"
  shows "new = pref_file (ls @ [''- '' @ pref]) \<and> length new \<le> PREFS_MAX_BYTES \<and>
    remove_pref (Inr ()) (Inr (Some new)) pref = Inr (True, Some (pref_file ls))"
proof -
  have new: "new = pref_file (ls @ [''- '' @ pref])" "length new \<le> PREFS_MAX_BYTES"
      "CHR 0x0A \<notin> set pref" "CHR 0x0D \<notin> set pref"
    using assms(2,3) pref_lines [OF assms(1)]
    by (auto simp: append_pref_def append_content_def Let_def pref_file_append strip_dash list_ex_iff result_simps
        split: if_splits option.splits)
  then have "list_all pref_line (ls @ [''- '' @ pref])"
    using assms(1) no_cr_last [OF new(4)] by (auto simp: pref_line_def)
  note lines = pref_lines [OF this]
  have "filter (\<lambda>l. l \<noteq> ''- '' @ pref) ls = ls" using assms(3) by (auto simp: filter_id_conv)
  then have "remove_content (Inr (Some new)) pref = Inr (Some (pref_file ls))"
    using pref_file_join [of ls] lines by (auto simp: remove_content_def Let_def new(1))
  with new show ?thesis by (simp add: remove_pref_def)
qed

text \<open>A file that does not end with a line feed, as an editor may leave it: the new preference is glued to the
  last line, so it can neither be found again nor removed.\<close>

lemma unfinished_line_swallows:
  assumes "list_all pref_line (ls @ [l])" "l \<noteq> []"
    and "append_pref dir write (Inr (Some (pref_file ls @ l))) pref = Inr (Some new)"
    and "''- '' @ pref \<notin> set (ls @ [l])"
  shows "remove_content (Inr (Some new)) pref = Inr None"
proof -
  have l: "CHR 0x0A \<notin> set l" "last l \<noteq> CHR 0x0D" "list_all pref_line ls"
    using assms(1,2) by (simp_all add: pref_line_def)
  have "str_lines (pref_file ls @ l) = ls @ [l]" by (rule open_lines) (use l assms(2) in simp_all)
  with assms(3,4) have new: "new = pref_file (ls @ [l @ ''- '' @ pref])"
      "CHR 0x0A \<notin> set pref" "CHR 0x0D \<notin> set pref"
    by (auto simp: append_pref_def append_content_def Let_def pref_file_append strip_dash list_ex_iff result_simps
        split: if_splits option.splits)
  then have "list_all pref_line (ls @ [l @ ''- '' @ pref])"
    using l no_cr_last [OF new(3)] by (auto simp: pref_line_def)
  from pref_lines [OF this] assms(2,4) show ?thesis
    by (auto simp: remove_content_def Let_def new(1))
qed

section \<open>The filter for secrets\<close>

lemma to_lowercase_Cons: "byte_of a < 128 \<Longrightarrow> to_lowercase (a # s) = to_ascii_lower a # to_lowercase s"
  by (subst to_lowercase.simps) (auto simp del: to_lowercase.simps(2) split: list.split)

lemma to_lowercase_plain: "list_all (\<lambda>c. byte_of c < 128) s \<Longrightarrow> to_lowercase s = to_ascii_lowercase s"
  by (induction s) (simp_all add: to_lowercase_Cons to_ascii_lowercase_def del: to_lowercase.simps(2))

text \<open>The entries called prefixes are looked for anywhere: ordinary words with a hyphen are refused.\<close>

lemma ordinary_words_are_sensitive:
  assumes "list_all (\<lambda>c. byte_of c < 128) (a @ w @ b)"
    and "w \<in> {''disk-'', ''task-'', ''desk-'', ''risk-'', ''mask-''}"
  shows "contains_sensitive (a @ w @ b)"
proof -
  have w: "to_ascii_lowercase w = take 2 w @ ''sk-''" using assms(2) by (auto simp: to_ascii_lowercase_def to_ascii_lower_def is_ascii_uppercase_def)
  have "to_lowercase (a @ w @ b) = (to_ascii_lowercase a @ take 2 w) @ ''sk-'' @ to_ascii_lowercase b"
    using w by (simp add: to_lowercase_plain [OF assms(1)] to_ascii_lowercase_def)
  then have "contains_str (to_lowercase (a @ w @ b)) ''sk-''"
    unfolding contains_str_iff by blast
  then show ?thesis by (simp add: contains_sensitive_def SENSITIVE_PREFIXES_def Let_def)
qed

end
