(* ===== verification/Sanitize.thy ===== *)
theory Sanitize
  imports Rust_Std
begin

text \<open>
  What tools return before it is shown to the model (\<open>crates/sysknife-brain/src/sanitize.rs\<close>): the removal
  of terminal sequences and of dangerous characters, the blocking of envelope tags, the bound on the length
  and the envelope. \<open>None\<close> is the panic of a slice that does not start at a character; the normal form NFC
  of the crate \<open>unicode-normalization\<close> is a parameter.
\<close>

definition MAX_OUTPUT_BYTES :: nat where "MAX_OUTPUT_BYTES = 8 * 1024"

abbreviation ESC :: char where "ESC \<equiv> CHR 0x1B"

text \<open>The two inner loops: the bytes left behind the final byte of a CSI sequence, behind the terminator
  of an OSC sequence.\<close>

fun skip_csi :: "str \<Rightarrow> str" where
  "skip_csi [] = []"
| "skip_csi (c # s) = (if 64 \<le> byte_of c \<and> byte_of c \<le> 126 then s else skip_csi s)"

fun skip_osc :: "str \<Rightarrow> str" where
  "skip_osc [] = []"
| "skip_osc (c # s) =
    (if c = CHR 0x07 then s
     else case s of
       d # r \<Rightarrow> if c = ESC \<and> d = CHR 0x5C then r else skip_osc s
     | [] \<Rightarrow> skip_osc s)"

lemma skip_csi_length: "length (skip_csi s) \<le> length s"
  by (induction s) auto

lemma skip_osc_length: "length (skip_osc s) \<le> length s"
proof (induction s rule: skip_osc.induct)
  case (2 c s)
  then show ?case
    by (subst skip_osc.simps) (auto simp del: skip_osc.simps split: list.split)
qed simp

text \<open>Where the loop stands after an escape character and the byte behind it.\<close>

definition after_escape :: "char \<Rightarrow> str \<Rightarrow> str" where
  "after_escape d r =
    (if d = CHR ''['' then skip_csi r
     else if d = CHR '']'' then skip_osc r
     else if d \<in> set ''()*+'' then drop 1 r
     else r)"

lemma after_escape_length: "length (after_escape d r) \<le> length r"
  by (auto simp: after_escape_def skip_csi_length skip_osc_length)

function strip_ansi :: "str \<Rightarrow> str option" where
  "strip_ansi [] = Some []"
| "strip_ansi (c # s) =
    (if c = ESC then (case s of [] \<Rightarrow> Some [] | d # r \<Rightarrow> strip_ansi (after_escape d r))
     else if utf8_continuation c then None
     else map_option (\<lambda>t. c # takeWhile utf8_continuation s @ t) (strip_ansi (dropWhile utf8_continuation s)))"
  by pat_completeness auto
termination
  by (relation "measure length")
     (auto simp: le_imp_less_Suc length_dropWhile_le intro: le_less_trans [OF after_escape_length])

text \<open>The code point of a character.\<close>

definition lead_bits :: "char \<Rightarrow> nat" where
  "lead_bits c = (let n = byte_of c in
    if n < 128 then n else if n < 224 then n mod 32 else if n < 240 then n mod 16 else n mod 8)"

fun code_point :: "str \<Rightarrow> nat" where
  "code_point [] = 0"
| "code_point (c # r) = foldl (\<lambda>n b. n * 64 + byte_of b mod 64) (lead_bits c) r"

definition dangerous :: "nat \<Rightarrow> bool" where
  "dangerous code =
    (code \<le> 0x08 \<or> code = 0x0B \<or> code = 0x0C \<or> (0x0E \<le> code \<and> code \<le> 0x1F) \<or>
     (0x7F \<le> code \<and> code \<le> 0x9F) \<or>
     (0x200B \<le> code \<and> code \<le> 0x200F) \<or> (0x202A \<le> code \<and> code \<le> 0x202E) \<or>
     (0x2066 \<le> code \<and> code \<le> 0x2069) \<or> code = 0xFEFF \<or>
     (0xE0000 \<le> code \<and> code \<le> 0xE007F) \<or>
     (0xE000 \<le> code \<and> code \<le> 0xF8FF) \<or> (0xF0000 \<le> code \<and> code \<le> 0xFFFFD) \<or>
     (0x100000 \<le> code \<and> code \<le> 0x10FFFD))"

definition strip_dangerous_unicode :: "str \<Rightarrow> str" where
  "strip_dangerous_unicode s = concat (filter (\<lambda>ch. \<not> dangerous (code_point ch)) (utf8_chars s))"

definition neutralise_envelope_tags :: "str \<Rightarrow> str" where
  "neutralise_envelope_tags s =
    replace_all ''<untrusted_tool_output'' ''<untrusted_tool_output_BLOCKED''
      (replace_all ''</untrusted_tool_output>'' ''</untrusted_tool_output_BLOCKED>'' s)"

text \<open>\<open>collapse_blank_runs\<close>, with the count of newlines just seen.\<close>

fun collapse :: "nat \<Rightarrow> str \<Rightarrow> str" where
  "collapse n [] = []"
| "collapse n (c # s) =
    (if c = CHR 0x0A then (if n + 1 \<le> 2 then c # collapse (n + 1) s else collapse (n + 1) s)
     else c # collapse 0 s)"

definition collapse_blank_runs :: "str \<Rightarrow> str" where
  "collapse_blank_runs s = collapse 0 s"

definition MARKER :: str where "MARKER = CHR 0x0A # ''[...truncated]''"

fun back_to_boundary :: "str \<Rightarrow> nat \<Rightarrow> nat" where
  "back_to_boundary s pos = (if pos > 0 \<and> \<not> is_char_boundary s pos then back_to_boundary s (pos - 1) else pos)"

declare back_to_boundary.simps [simp del]

definition truncate_with_marker :: "str \<Rightarrow> nat \<Rightarrow> str" where
  "truncate_with_marker s mx =
    (if length s \<le> mx then s
     else take (back_to_boundary s (min (mx - length MARKER) (length s))) s @ MARKER)"

definition normalise_free_text :: "(str \<Rightarrow> str) \<Rightarrow> str \<Rightarrow> str option" where
  "normalise_free_text nfc raw = map_option
    (\<lambda>s. truncate_with_marker (collapse_blank_runs (neutralise_envelope_tags (nfc (strip_dangerous_unicode s)))) MAX_OUTPUT_BYTES)
    (strip_ansi raw)"

definition tool_name_char :: "char \<Rightarrow> bool" where
  "tool_name_char c = (is_ascii_alphanumeric c \<or> c = CHR ''_'' \<or> c = CHR ''-'')"

definition sanitise_tool_name :: "str \<Rightarrow> str" where
  "sanitise_tool_name name =
    (if list_all tool_name_char name \<and> name \<noteq> [] then name
     else let cleaned = map (\<lambda>ch. case ch of [c] \<Rightarrow> if tool_name_char c then c else CHR ''_'' | _ \<Rightarrow> CHR ''_'')
            (utf8_chars name)
       in if cleaned = [] then ''unknown'' else cleaned)"

definition OPEN_TAG :: str where "OPEN_TAG = ''<untrusted_tool_output source='' @ [CHR 0x22]"
definition CLOSE_TAG :: str where "CLOSE_TAG = ''</untrusted_tool_output>''"

definition sanitize_tool_output :: "(str \<Rightarrow> str) \<Rightarrow> str \<Rightarrow> str \<Rightarrow> str option" where
  "sanitize_tool_output nfc tool_name raw = map_option
    (\<lambda>normalised. OPEN_TAG @ sanitise_tool_name tool_name @ [CHR 0x22, CHR ''>'', CHR 0x0A] @ normalised @
      CHR 0x0A # CLOSE_TAG)
    (normalise_free_text nfc raw)"

section \<open>The envelope cannot be closed from inside\<close>

text \<open>Patterns that start with \<open><\<close> and have no other.\<close>

definition tag_like :: "str \<Rightarrow> bool" where
  "tag_like t = (\<exists>u. t = CHR ''<'' # u \<and> CHR ''<'' \<notin> set u)"

lemma contains_take: "contains_str (take n s) t \<Longrightarrow> contains_str s t"
  by (metis append.assoc append_take_drop_id contains_str_iff)

lemma contains_drop: "contains_str (drop n s) t \<Longrightarrow> contains_str s t"
  by (metis append.assoc append_take_drop_id contains_str_iff)

lemma replace_prefix:
  "tag_like p \<Longrightarrow> tag_like q \<Longrightarrow> CHR ''<'' \<notin> set u \<Longrightarrow> prefix u (replace_all p q s) \<Longrightarrow> prefix u s"
proof (induction p q s arbitrary: u rule: replace_all.induct)
  case (2 p q c s)
  show ?case
  proof (cases "p \<noteq> [] \<and> prefix p (c # s)")
    case True
    with 2 have "u = []" by (cases u) (auto simp: tag_like_def)
    then show ?thesis by simp
  next
    case False
    with 2 show ?thesis by (cases u) auto
  qed
qed simp

lemma contains_append_tag:
  assumes "contains_str (q @ r) t" "tag_like q" "tag_like t" "\<not> prefix t q" "\<not> prefix q t"
  shows "contains_str r t"
proof -
  have skip: "contains_str (u @ r) t \<Longrightarrow> contains_str r t" if "CHR ''<'' \<notin> set u" for u
    using that assms(3) by (induction u) (auto simp: tag_like_def)
  obtain u where u: "q = CHR ''<'' # u" "CHR ''<'' \<notin> set u" using assms(2) by (auto simp: tag_like_def)
  have "\<not> prefix t (q @ r)"
    using assms(4,5) by (metis prefix_same_cases prefixI)
  with assms(1) u skip [OF u(2)] show ?thesis by auto
qed

text \<open>A pattern can be in the text after the replacement only if it was there before and does not start
  with what was replaced.\<close>

lemma replace_contains:
  "tag_like p \<Longrightarrow> tag_like q \<Longrightarrow> tag_like t \<Longrightarrow> \<not> prefix t q \<Longrightarrow> \<not> prefix q t \<Longrightarrow>
    contains_str (replace_all p q s) t \<Longrightarrow> contains_str s t \<and> \<not> prefix p t"
proof (induction p q s rule: replace_all.induct)
  case (1 p q)
  then show ?case by (auto simp: tag_like_def)
next
  case (2 p q c s)
  have p: "p \<noteq> []" using "2.prems"(1) by (auto simp: tag_like_def)
  show ?case
  proof (cases "prefix p (c # s)")
    case True
    with 2 p have "contains_str (replace_all p q (drop (length p - 1) s)) t"
      using contains_append_tag [OF _ "2.prems"(2-5)] by auto
    with 2 True p have "contains_str (drop (length p - 1) s) t \<and> \<not> prefix p t" by simp
    then show ?thesis using contains_drop [of "length p - 1" s t] by auto
  next
    case False
    with "2.prems"(6) p consider "prefix t (c # replace_all p q s)" | "contains_str (replace_all p q s) t" by auto
    then show ?thesis
    proof cases
      case 1
      with "2.prems"(3) obtain u where u: "t = CHR ''<'' # u" "CHR ''<'' \<notin> set u" "c = CHR ''<''"
          "prefix u (replace_all p q s)"
        by (auto simp: tag_like_def)
      from replace_prefix [OF "2.prems"(1,2) u(2,4)] have "prefix t (c # s)" using u by simp
      with False show ?thesis using prefix_order.trans by auto
    next
      case 2
      with "2.IH"(2) "2.prems" False p show ?thesis by simp
    qed
  qed
qed

text \<open>Newlines are removed only next to a newline, so a pattern without one survives unchanged.\<close>

lemma collapse_prefix: "CHR 0x0A \<notin> set u \<Longrightarrow> prefix u (collapse 0 s) \<Longrightarrow> prefix u s"
proof (induction u arbitrary: s)
  case (Cons d u)
  then show ?case by (cases s) (auto split: if_splits)
qed simp

lemma collapse_contains: "CHR 0x0A \<notin> set t \<Longrightarrow> t \<noteq> [] \<Longrightarrow> contains_str (collapse n s) t \<Longrightarrow> contains_str s t"
proof (induction s arbitrary: n)
  case (Cons c s)
  show ?case
  proof (cases "c = CHR 0x0A")
    case True
    with Cons show ?thesis by (cases t) (auto split: if_splits)
  next
    case False
    obtain d u where t: "t = d # u" using Cons.prems(2) by (cases t) auto
    with Cons False collapse_prefix [of u s] show ?thesis by auto
  qed
qed simp

lemma contains_around_newline:
  "CHR 0x0A \<notin> set t \<Longrightarrow> t \<noteq> [] \<Longrightarrow> contains_str (x @ CHR 0x0A # y) t \<longleftrightarrow> contains_str x t \<or> contains_str y t"
proof (induction x)
  case Nil
  then show ?case by (cases t) auto
next
  case (Cons c x)
  have "prefix u (x @ CHR 0x0A # y) \<longleftrightarrow> prefix u x" if "CHR 0x0A \<notin> set u" for u
    using that by (induction u arbitrary: x) (auto simp: prefix_Cons prefix_append Cons_eq_append_conv)
  with Cons show ?case by (cases t) auto
qed

lemma marker_plain: "t \<noteq> [] \<Longrightarrow> hd t = CHR ''<'' \<Longrightarrow> \<not> contains_str ''[...truncated]'' t"
  by (cases t) auto

lemma truncate_contains:
  assumes "CHR 0x0A \<notin> set t" "tag_like t" "contains_str (truncate_with_marker s mx) t"
  shows "contains_str s t"
proof -
  have t: "t \<noteq> []" "hd t = CHR ''<''" using assms(2) by (auto simp: tag_like_def)
  show ?thesis
    using assms(3) contains_around_newline [OF assms(1) t(1)] marker_plain [OF t]
    by (auto simp: truncate_with_marker_def MARKER_def dest: contains_take split: if_splits)
qed

lemma back_to_boundary_le: "back_to_boundary s pos \<le> pos"
proof (induction s pos rule: back_to_boundary.induct)
  case (1 s pos)
  then show ?case
    using le_trans [OF _ diff_le_self [of pos 1]] by (subst back_to_boundary.simps) auto
qed

lemma truncate_length: "length MARKER \<le> mx \<Longrightarrow> length (truncate_with_marker s mx) \<le> mx"
  using back_to_boundary_le [of s "min (mx - length MARKER) (length s)"]
  by (auto simp: truncate_with_marker_def)

lemma tags:
  "tag_like CLOSE_TAG" "tag_like OPEN_TAG" "tag_like ''<untrusted_tool_output''"
  "tag_like ''<untrusted_tool_output_BLOCKED''" "tag_like ''</untrusted_tool_output_BLOCKED>''"
  by (simp_all add: tag_like_def CLOSE_TAG_def OPEN_TAG_def)

lemma neutralised:
  "\<not> contains_str (neutralise_envelope_tags s) CLOSE_TAG"
  "\<not> contains_str (neutralise_envelope_tags s) OPEN_TAG"
proof -
  have "\<not> contains_str (replace_all CLOSE_TAG ''</untrusted_tool_output_BLOCKED>'' s) CLOSE_TAG"
    using replace_contains [OF tags(1) tags(5) tags(1), where s = s] by (auto simp: CLOSE_TAG_def)
  then show "\<not> contains_str (neutralise_envelope_tags s) CLOSE_TAG"
    using replace_contains [OF tags(3) tags(4) tags(1)] by (auto simp: neutralise_envelope_tags_def CLOSE_TAG_def)
  show "\<not> contains_str (neutralise_envelope_tags s) OPEN_TAG"
    using replace_contains [OF tags(3) tags(4) tags(2)] by (auto simp: neutralise_envelope_tags_def OPEN_TAG_def)
qed

lemma normalised_body:
  assumes "normalise_free_text nfc raw = Some n"
  shows "\<not> contains_str n CLOSE_TAG" "\<not> contains_str n OPEN_TAG" "length n \<le> MAX_OUTPUT_BYTES"
proof -
  obtain x where n: "n = truncate_with_marker (collapse_blank_runs (neutralise_envelope_tags x)) MAX_OUTPUT_BYTES"
    using assms by (auto simp: normalise_free_text_def)
  have keeps: "contains_str n t \<Longrightarrow> contains_str (neutralise_envelope_tags x) t"
    if "tag_like t" "CHR 0x0A \<notin> set t" for t
    using that truncate_contains [of t] collapse_contains [of t]
    by (auto simp: n collapse_blank_runs_def tag_like_def)
  show "\<not> contains_str n CLOSE_TAG" "\<not> contains_str n OPEN_TAG"
    using keeps [OF tags(1)] keeps [OF tags(2)] neutralised by (auto simp: CLOSE_TAG_def OPEN_TAG_def)
  show "length n \<le> MAX_OUTPUT_BYTES"
    unfolding n by (rule truncate_length) (simp add: MARKER_def MAX_OUTPUT_BYTES_def)
qed

lemma tool_name_chars: "c \<in> set (sanitise_tool_name name) \<Longrightarrow> tool_name_char c"
  by (auto simp: sanitise_tool_name_def Let_def list_all_iff split: if_splits list.splits)
     (auto simp: tool_name_char_def ascii_defs)

lemma contains_tag_free: "CHR ''<'' \<notin> set u \<Longrightarrow> tag_like t \<Longrightarrow> contains_str (u @ s) t \<Longrightarrow> contains_str s t"
  by (induction u) (auto simp: tag_like_def)

text \<open>C30. What the model is shown of a tool is one envelope: it starts with the opening tag, ends with the
  closing tag, has neither of them anywhere else whatever the tool returned, names the tool with letters,
  digits, underscores and hyphens only, and its body has at most 8 KiB.\<close>

theorem tool_output_enveloped:
  assumes "sanitize_tool_output nfc tool_name raw = Some e"
  shows "prefix OPEN_TAG e \<and> \<not> contains_str (tl e) OPEN_TAG \<and>
    suffix CLOSE_TAG e \<and> \<not> contains_str (butlast e) CLOSE_TAG \<and>
    (\<exists>tool body. e = OPEN_TAG @ tool @ [CHR 0x22, CHR ''>'', CHR 0x0A] @ body @ CHR 0x0A # CLOSE_TAG \<and>
      list_all tool_name_char tool \<and> length body \<le> MAX_OUTPUT_BYTES)"
proof -
  let ?tool = "sanitise_tool_name tool_name"
  obtain n where n: "normalise_free_text nfc raw = Some n"
      "e = OPEN_TAG @ ?tool @ [CHR 0x22, CHR ''>'', CHR 0x0A] @ n @ CHR 0x0A # CLOSE_TAG"
    using assms by (auto simp: sanitize_tool_output_def)
  note body = normalised_body [OF n(1)]
  have tool: "CHR ''<'' \<notin> set ?tool" "list_all tool_name_char ?tool"
    using tool_name_chars by (fastforce simp: tool_name_char_def ascii_defs, simp add: list_all_iff)
  have nl: "CHR 0x0A \<notin> set CLOSE_TAG" "CHR 0x0A \<notin> set OPEN_TAG" "CLOSE_TAG \<noteq> []" "OPEN_TAG \<noteq> []"
    by (simp_all add: CLOSE_TAG_def OPEN_TAG_def)
  let ?head = "?tool @ [CHR 0x22, CHR ''>'', CHR 0x0A]"
  have head: "CHR ''<'' \<notin> set (tl OPEN_TAG @ ?head)" using tool(1) by (simp add: OPEN_TAG_def)
  have "tl e = (tl OPEN_TAG @ ?head) @ n @ CHR 0x0A # CLOSE_TAG" by (simp add: n(2) OPEN_TAG_def)
  then have "contains_str (tl e) OPEN_TAG \<Longrightarrow> contains_str (n @ CHR 0x0A # CLOSE_TAG) OPEN_TAG"
    using contains_tag_free [OF head tags(2)] by simp
  then have 1: "\<not> contains_str (tl e) OPEN_TAG"
    using contains_around_newline [OF nl(2,4)] body(2) by (auto simp: OPEN_TAG_def CLOSE_TAG_def)
  have "butlast e = CHR ''<'' # (tl OPEN_TAG @ ?head) @ n @ CHR 0x0A # butlast CLOSE_TAG"
    by (simp add: n(2) OPEN_TAG_def CLOSE_TAG_def butlast_append)
  then have "contains_str (butlast e) CLOSE_TAG \<Longrightarrow> contains_str (n @ CHR 0x0A # butlast CLOSE_TAG) CLOSE_TAG"
    using contains_tag_free [OF head tags(1)] by (auto simp: OPEN_TAG_def CLOSE_TAG_def)
  then have 2: "\<not> contains_str (butlast e) CLOSE_TAG"
    using contains_around_newline [OF nl(1,3)] body(1) by (auto simp: CLOSE_TAG_def)
  have 3: "prefix OPEN_TAG e" "suffix CLOSE_TAG e"
    unfolding n(2) by (simp, metis append.assoc append_Cons append_Nil suffixI)
  show ?thesis using 1 2 3 n(2) tool(2) body(3) by blast
qed

theorem tool_output_enveloped_witness:
  "\<exists>e. sanitize_tool_output (\<lambda>s. s) ''query_logs'' (''a'' @ CLOSE_TAG) = Some e \<and>
    suffix CLOSE_TAG e \<and> \<not> contains_str (butlast e) CLOSE_TAG"
proof -
  have "sanitize_tool_output (\<lambda>s. s) ''query_logs'' (''a'' @ CLOSE_TAG) \<noteq> None"
    by (simp add: sanitize_tool_output_def normalise_free_text_def CLOSE_TAG_def utf8_continuation_def)
  then obtain e where e: "sanitize_tool_output (\<lambda>s. s) ''query_logs'' (''a'' @ CLOSE_TAG) = Some e" by blast
  from tool_output_enveloped [OF this] e show ?thesis by blast
qed

definition starts_char :: "str \<Rightarrow> bool" where
  "starts_char s = (case s of [] \<Rightarrow> True | c # _ \<Rightarrow> \<not> utf8_continuation c)"

lemma starts_char_drop: "starts_char (dropWhile utf8_continuation s)"
  by (induction s) (auto simp: starts_char_def)

lemma while_append:
  assumes "rest = [] \<or> hd rest = ESC"
  shows "takeWhile utf8_continuation (s @ rest) = takeWhile utf8_continuation s"
    "dropWhile utf8_continuation (s @ rest) = dropWhile utf8_continuation s @ rest"
proof -
  have "takeWhile utf8_continuation rest = []" "dropWhile utf8_continuation rest = rest"
    using assms by (cases rest; auto simp: utf8_continuation_def)+
  then show "takeWhile utf8_continuation (s @ rest) = takeWhile utf8_continuation s"
    "dropWhile utf8_continuation (s @ rest) = dropWhile utf8_continuation s @ rest"
    by (induction s) auto
qed

lemma strip_ansi_plain:
  "ESC \<notin> set pre \<Longrightarrow> starts_char pre \<Longrightarrow> rest = [] \<or> hd rest = ESC \<Longrightarrow>
    strip_ansi (pre @ rest) = map_option ((@) pre) (strip_ansi rest)"
proof (induction pre rule: strip_ansi.induct)
  case 1
  then show ?case by (cases "strip_ansi rest") simp_all
next
  case (2 c s)
  have "ESC \<notin> set (dropWhile utf8_continuation s)"
    using "2.prems"(1) set_dropWhileD by fastforce
  moreover have "c \<noteq> ESC" "\<not> utf8_continuation c" using "2.prems" by (auto simp: starts_char_def)
  ultimately have "strip_ansi (dropWhile utf8_continuation s @ rest) =
      map_option ((@) (dropWhile utf8_continuation s)) (strip_ansi rest)"
    using "2.IH"(2) "2.prems"(3) starts_char_drop by blast
  with "2.prems" show ?case
    by (cases "strip_ansi rest") (auto simp: while_append starts_char_def)
qed

text \<open>An escape character before a character of several bytes makes the removal of terminal sequences
  panic: the byte behind the escape is taken for a whole character, and the next slice starts inside one.
  The same text without the escape is shown.\<close>

theorem escape_before_multibyte_panics:
  assumes "ESC \<notin> set pre" "starts_char pre" "192 \<le> byte_of lead" "utf8_continuation c"
  shows "sanitize_tool_output nfc tool (pre @ ESC # lead # c # rest) = None \<and>
    sanitize_tool_output nfc tool (pre @ [lead, c]) \<noteq> None"
proof -
  have lead: "lead \<noteq> ESC" "\<not> utf8_continuation lead" "lead \<notin> set ''[]()*+''"
    using assms(3) by (auto simp: utf8_continuation_def)
  have "strip_ansi (ESC # lead # c # rest) = None"
    using assms(4) lead by (auto simp: after_escape_def utf8_continuation_def)
  then have "strip_ansi (pre @ ESC # lead # c # rest) = None"
    using strip_ansi_plain [OF assms(1,2), of "ESC # lead # c # rest"] by simp
  moreover have "ESC \<notin> set (pre @ [lead, c])" "starts_char (pre @ [lead, c])"
    using assms lead by (auto simp: starts_char_def utf8_continuation_def split: list.splits)
  then have "strip_ansi (pre @ [lead, c]) \<noteq> None"
    using strip_ansi_plain [of "pre @ [lead, c]" "[]"] by simp
  ultimately show ?thesis by (auto simp: sanitize_tool_output_def normalise_free_text_def)
qed

theorem escape_before_multibyte_panics_witness:
  "sanitize_tool_output (\<lambda>s. s) ''query_logs'' (''caf'' @ ESC # CHR 0xC3 # CHR 0xA9 # '' open'') = None \<and>
    sanitize_tool_output (\<lambda>s. s) ''query_logs'' (''caf'' @ [CHR 0xC3, CHR 0xA9]) \<noteq> None"
  by (rule escape_before_multibyte_panics) (simp_all add: starts_char_def utf8_continuation_def)

end
