(* ===== verification/Query_Tools.thy ===== *)
theory Query_Tools
  imports Policy Actions
begin

text \<open>
  The tools the model may use while it plans (\<open>crates/sysknife-brain/src/planning_tools/query_tools.rs\<close>) and
  the daemon actions they stand for.
\<close>

definition require_str_param :: "json \<Rightarrow> str \<Rightarrow> str \<Rightarrow> (str, str) result" where
  "require_str_param input key tool_name =
    ok_or (case get_str input key of Some s \<Rightarrow> if s = [] then None else Some s | None \<Rightarrow> None)
      (tool_name @ '' requires '' @ quoted key @ '' param'')"

text \<open>The tools without parameters.\<close>

definition plain_query_tools :: "(str \<times> str) list" where
  "plain_query_tools =
    [(''query_services'', ''ListServices''), (''query_firewall'', ''GetFirewallState''),
     (''query_deployments'', ''ListDeployments''), (''query_packages'', ''GetLayeredPackages''),
     (''query_containers'', ''ListContainers''), (''query_users'', ''ListUsers''),
     (''query_kernel_args'', ''GetKernelArguments''), (''query_flatpak_remotes'', ''ListFlatpakRemotes''),
     (''query_toolboxes'', ''ListToolboxes''), (''query_groups'', ''ListGroups''),
     (''query_package_repos'', ''ListPackageRepositories''), (''query_diagnostics'', ''CollectDiagnostics''),
     (''query_deployment_history'', ''GetDeploymentHistory''), (''query_disk_usage'', ''GetDiskUsage''),
     (''query_processes'', ''ListProcesses''), (''query_memory'', ''GetMemoryInfo''),
     (''query_network'', ''GetNetworkStatus'')]"

text \<open>The tools with one required text: tool, action, key.\<close>

definition param_query_tools :: "(str \<times> str \<times> str) list" where
  "param_query_tools =
    [(''query_logs'', ''GetServiceLogs'', ''unit''), (''query_flatpak_info'', ''GetFlatpakAppInfo'', ''app_id''),
     (''query_container_info'', ''GetContainerInfo'', ''name''),
     (''query_authorized_keys'', ''GetAuthorizedKeys'', ''username'')]"

text \<open>The parameters of the job history that are present, as a map in key order.\<close>

definition history_params :: "json \<Rightarrow> json" where
  "history_params input = JObject (List.map_filter (\<lambda>k. map_option (Pair k) (json_get input k))
    [''action_filter'', ''limit'', ''since_hours'', ''status_filter''])"

definition query_tool_to_action :: "str \<Rightarrow> json \<Rightarrow> (str, (str \<times> json) option) result" where
  "query_tool_to_action tool_name input =
    (case map_of plain_query_tools tool_name of
       Some act \<Rightarrow> Inr (Some (act, JObject []))
     | None \<Rightarrow> (case map_of param_query_tools tool_name of
           Some (act, key) \<Rightarrow>
             rbind (require_str_param input key tool_name) (\<lambda>v. Inr (Some (act, JObject [(key, JString v)])))
         | None \<Rightarrow>
             if tool_name = ''query_job_history'' then Inr (Some (''ListJobHistory'', history_params input))
             else Inr None))"

lemma plain_tools_open: "list_all (\<lambda>(t, a). a \<in> set observer_actions) plain_query_tools"
  by (simp add: plain_query_tools_def observer_actions_def)

lemma param_tools_open: "list_all (\<lambda>(t, a, k). a \<in> set observer_actions) param_query_tools"
  by (simp add: param_query_tools_def observer_actions_def)

text \<open>Every tool stands for an action that needs no consent and the lowest role.\<close>

lemma query_tools_open:
  assumes "query_tool_to_action tool input = Inr (Some (a, ps))"
  shows "a \<in> set observer_actions"
proof (cases "map_of plain_query_tools tool")
  case (Some b)
  with assms have "(tool, a) \<in> set plain_query_tools"
    by (simp add: query_tool_to_action_def map_of_SomeD)
  with plain_tools_open show ?thesis by (fastforce simp: list_all_iff)
next
  case none: None
  show ?thesis
  proof (cases "map_of param_query_tools tool")
    case (Some b)
    then obtain c k where b: "b = (c, k)" by (cases b)
    with none Some assms have "a = c" by (simp add: query_tool_to_action_def rbind_eq_Inr_conv) blast
    with Some b have "(tool, a, k) \<in> set param_query_tools" by (simp add: map_of_SomeD)
    with param_tools_open show ?thesis by (fastforce simp: list_all_iff)
  next
    case None
    with none assms have "a = ''ListJobHistory''" by (simp add: query_tool_to_action_def split: if_splits)
    then show ?thesis by (simp add: observer_actions_def)
  qed
qed

end
