(* ===== verification/Planner_Properties.thy ===== *)
theory Planner_Properties
  imports Planner
begin

text \<open>
  What the planning loop does over all answers of the model, the daemon and the file system: it is bounded,
  its plans come out of the parser, what the model is shown of the system is enveloped, and it asks the
  daemon for open queries only.
\<close>

section \<open>The invariant\<close>

text \<open>The texts of the planner itself among the tool results.\<close>

definition own_text :: "str \<Rightarrow> bool" where
  "own_text c =
    (list_ex (starts_with c) [''Plan rejected: '', ''Error'', ''Preference '', ''unknown tool: ''] \<or>
     list_ex (\<lambda>key. suffix ('' requires '' @ quoted key @ '' param'') c) [''unit'', ''app_id'', ''name'', ''username''])"

definition shown_result :: "planner_env \<Rightarrow> str \<Rightarrow> bool" where
  "shown_result pv c = (own_text c \<or> (\<exists>tool raw. sanitize_tool_output (pv_nfc pv) tool raw = Some c))"

definition message_shown :: "planner_env \<Rightarrow> message \<Rightarrow> bool" where
  "message_shown pv m = (ms_role m = UserRole \<longrightarrow>
    (\<forall>i c t e. ToolResult i c t e \<in> set (ms_content m) \<longrightarrow> shown_result pv t))"

definition proposals :: "completion \<Rightarrow> json set" where
  "proposals c = {v. \<exists>i cid. (i, cid, ''propose_plan'', v) \<in> set (tool_calls_of (cp_content c))}"

definition reply_proposals :: "(provider_error, completion) result \<Rightarrow> json set" where
  "reply_proposals r = (case r of Inl _ \<Rightarrow> {} | Inr c \<Rightarrow> proposals c)"

definition reply_calls :: "(provider_error, completion) result \<Rightarrow> nat" where
  "reply_calls r = (case r of Inl _ \<Rightarrow> 0 | Inr c \<Rightarrow> length (tool_calls_of (cp_content c)))"

text \<open>The ghost state: the calls of the model that are left, the other effects that are left, the plans
  proposed so far.\<close>

type_synonym budget = "nat \<times> nat \<times> json set"

primrec plan_fine :: "planner_env \<Rightarrow> str \<Rightarrow> planner \<Rightarrow> budget \<Rightarrow> bool" where
  "plan_fine pv intent (PlanDone r) = (\<lambda>(n, c, vs).
    \<forall>p. r = Inr p \<longrightarrow> (\<exists>v\<in>vs. parse_proposed_plan (pv_ext pv) intent v = Inr p))"
| "plan_fine pv intent PlanPanic = (\<lambda>s. True)"
| "plan_fine pv intent (CheckRate k) = (\<lambda>(n, c, vs). 0 < c \<and> (\<forall>r. plan_fine pv intent (k r) (n, c - 1, vs)))"
| "plan_fine pv intent (ReadPrefs k) = (\<lambda>(n, c, vs). 0 < c \<and> (\<forall>r. plan_fine pv intent (k r) (n, c - 1, vs)))"
| "plan_fine pv intent (Complete s ms k) = (\<lambda>(n, c, vs). 0 < n \<and> list_all (message_shown pv) ms \<and>
    (\<forall>r. plan_fine pv intent (k r) (n - 1, c + 2 * reply_calls r, vs \<union> reply_proposals r)))"
| "plan_fine pv intent (Emit w p) = (\<lambda>(n, c, vs). 0 < c \<and> plan_fine pv intent p (n, c - 1, vs))"
| "plan_fine pv intent (GetState k) = (\<lambda>(n, c, vs). 0 < c \<and> (\<forall>r. plan_fine pv intent (k r) (n, c - 1, vs)))"
| "plan_fine pv intent (GetUser k) = (\<lambda>(n, c, vs). 0 < c \<and> (\<forall>r. plan_fine pv intent (k r) (n, c - 1, vs)))"
| "plan_fine pv intent (QueryDaemon a ps k) = (\<lambda>(n, c, vs). 0 < c \<and> a \<in> set observer_actions \<and>
    (\<forall>r. plan_fine pv intent (k r) (n, c - 1, vs)))"
| "plan_fine pv intent (LogRejection i r v p) = (\<lambda>(n, c, vs). 0 < c \<and> pv_audit_log pv \<and>
    plan_fine pv intent p (n, c - 1, vs))"
| "plan_fine pv intent (SavePref f k) = (\<lambda>(n, c, vs). 0 < c \<and> (\<forall>r. plan_fine pv intent (k r) (n, c - 1, vs)))"
| "plan_fine pv intent (DropPref f k) = (\<lambda>(n, c, vs). 0 < c \<and> (\<forall>r. plan_fine pv intent (k r) (n, c - 1, vs)))"

fun spend :: "budget \<Rightarrow> plan_effect \<Rightarrow> budget" where
  "spend (n, c, vs) (Completed s ms r) = (n - 1, c + 2 * reply_calls r, vs \<union> reply_proposals r)"
| "spend (n, c, vs) e = (n, c - 1, vs)"

fun effect_good :: "planner_env \<Rightarrow> budget \<Rightarrow> plan_effect \<Rightarrow> bool" where
  "effect_good pv (n, c, vs) (Completed s ms r) = (0 < n \<and> list_all (message_shown pv) ms)"
| "effect_good pv (n, c, vs) (DaemonQueried a ps r) = (0 < c \<and> a \<in> set observer_actions)"
| "effect_good pv (n, c, vs) (RejectionLogged i r v) = (0 < c \<and> pv_audit_log pv)"
| "effect_good pv (n, c, vs) e = (0 < c)"

lemma plan_step:
  "plan_fine pv intent p s \<Longrightarrow> plan_react p e = Some q \<Longrightarrow> effect_good pv s e \<and> plan_fine pv intent q (spend s e)"
  by (cases s rule: prod_cases3; cases p; clarsimp)

interpretation planning: guarded_program plan_react "plan_fine pv intent" "effect_good pv" spend for pv intent
  by unfold_locales (rule plan_step)

section \<open>The loop keeps it\<close>

definition reply_fine :: "planner_env \<Rightarrow> str \<Rightarrow> tool_reply \<Rightarrow> budget \<Rightarrow> bool" where
  "reply_fine pv intent k = (\<lambda>(n, c, vs). \<forall>content is_error c'. shown_result pv content \<longrightarrow> c \<le> c' \<longrightarrow>
    plan_fine pv intent (k content is_error) (n, c', vs))"

lemma reply_own:
  assumes "reply_fine pv intent k (n, c, vs)" "own_text t"
  shows "plan_fine pv intent (k t b) (n, c, vs)" "plan_fine pv intent (k t b) (n, Suc c, vs)"
  using assms by (simp_all add: reply_fine_def shown_result_def)

lemma sanitized_shown: "sanitize_tool_output (pv_nfc pv) tool raw = Some e \<Longrightarrow> shown_result pv e"
  by (auto simp: shown_result_def)

lemma enveloped_fine:
  "reply_fine pv intent k (n, c, vs) \<Longrightarrow> plan_fine pv intent (enveloped pv tool raw b k) (n, c, vs)"
  by (auto simp: enveloped_def reply_fine_def split: option.splits intro: sanitized_shown)

lemma propose_fine:
  assumes "reply_fine pv intent k (n, c, vs)" "input \<in> vs"
  shows "plan_fine pv intent (propose pv intent input k) (n, Suc c, vs)"
  using assms(2)
  by (auto simp: propose_def Let_def own_text_def starts_with_def split: sum.splits intro!: reply_own [OF assms(1)])

lemma remember_fine:
  assumes "reply_fine pv intent k (n, c, vs)"
  shows "plan_fine pv intent (remember pv input k) (n, Suc c, vs)"
  by (auto simp: remember_def Let_def own_text_def starts_with_def split: sum.splits intro!: reply_own [OF assms(1)])

lemma forget_fine:
  assumes "reply_fine pv intent k (n, c, vs)"
  shows "plan_fine pv intent (forget pv input k) (n, Suc c, vs)"
  by (auto simp: forget_def Let_def own_text_def starts_with_def split: sum.splits bool.splits
      intro!: reply_own [OF assms(1)])

lemma param_text_own:
  assumes "query_tool_to_action tool input = Inl msg"
  shows "own_text msg"
proof -
  obtain a key where k: "map_of param_query_tools tool = Some (a, key)" "msg = tool @ '' requires '' @ quoted key @ '' param''"
    using assms by (auto simp: query_tool_to_action_def require_str_param_def rbind_eq_Inl_conv ok_or_eq_conv
        split: option.splits if_splits)
  then have "key \<in> {''unit'', ''app_id'', ''name'', ''username''}"
    by (auto simp: param_query_tools_def split: if_splits)
  with k(2) show ?thesis by (auto simp: own_text_def suffix_def)
qed

lemma query_fine:
  assumes "reply_fine pv intent k (n, c, vs)"
  shows "plan_fine pv intent (query pv name input k) (n, Suc c, vs)"
proof (cases "query_tool_to_action name input")
  case (Inl msg)
  with assms param_text_own [OF Inl] show ?thesis
    by (simp add: query_def reply_own)
next
  case (Inr a)
  show ?thesis
  proof (cases a)
    case None
    with Inr show ?thesis
      by (auto simp: query_def own_text_def starts_with_def intro!: reply_own [OF assms])
  next
    case (Some b)
    with Inr query_tools_open [of name input] enveloped_fine [OF assms] show ?thesis
      by (cases b) (auto simp: query_def split: sum.splits)
  qed
qed

lemma dispatch_fine:
  assumes "reply_fine pv intent k (n, c, vs)" "name = ''propose_plan'' \<Longrightarrow> input \<in> vs"
  shows "plan_fine pv intent (dispatch_tool pv intent name input k) (n, Suc c, vs)"
  using propose_fine [OF assms(1), of input] remember_fine [OF assms(1)] forget_fine [OF assms(1)] query_fine [OF assms(1)]
    enveloped_fine [OF assms(1)] assms(2)
  by (auto simp: dispatch_tool_def split: sum.splits)

lemma run_tools_fine:
  assumes "\<And>rs c'. list_all (\<lambda>r. shown_result pv (tres_content r)) rs \<Longrightarrow> c \<le> c' \<Longrightarrow>
      plan_fine pv intent (k rs) (n, c', vs)"
    and "list_all (\<lambda>r. shown_result pv (tres_content r)) rs" "\<forall>(i, cid, name, v)\<in>set calls. name = ''propose_plan'' \<longrightarrow> v \<in> vs"
    and "c + 2 * length calls \<le> d"
  shows "plan_fine pv intent (run_tools pv intent calls rs k) (n, d, vs)"
  using assms(2-4)
proof (induction calls arbitrary: rs d)
  case Nil
  with assms(1) show ?case by simp
next
  case (Cons call calls)
  obtain i cid name v where call: "call = (i, cid, name, v)" by (cases call) auto
  obtain d' where d: "d = Suc (Suc d')" "c + 2 * length calls \<le> d'"
    using Cons.prems(3) by (cases d; cases "d - 1") auto
  have "reply_fine pv intent (\<lambda>content is_error. run_tools pv intent calls
      (rs @ [\<lparr>tres_id = i, tres_call_id = cid, tres_content = content, tres_is_error = is_error\<rparr>]) k) (n, d', vs)"
    unfolding reply_fine_def using Cons.prems d(2) by (auto intro: Cons.IH)
  from dispatch_fine [OF this, of name v] Cons.prems(2) show ?case by (simp add: call d)
qed

lemma results_shown: "list_all (\<lambda>r. shown_result pv (tres_content r)) rs \<Longrightarrow> message_shown pv (tool_results rs)"
  by (auto simp: message_shown_def tool_results_def list_all_iff)

lemma other_messages_shown: "message_shown pv (user_text t)" "message_shown pv (assistant_message bs)"
  by (simp_all add: message_shown_def user_text_def assistant_message_def)

lemma after_completion_fine:
  assumes "\<And>ms c vs. list_all (message_shown pv) ms \<Longrightarrow> plan_fine pv intent (next_turn ms) (n, n + c, vs)"
    and "list_all (message_shown pv) messages"
  shows "plan_fine pv intent (after_completion pv intent more_turns next_turn messages r)
    (n, n + c + 2 * reply_calls r, vs \<union> reply_proposals r)"
proof (cases r)
  case (Inr cp)
  let ?ms = "messages @ [assistant_message (cp_content cp)]" and ?vs = "vs \<union> proposals cp"
  have said: "plan_fine pv intent (next_turn (?ms @ [user_text correction_text])) (n, n + (c + 2 * reply_calls r), ?vs)"
    using assms(2) by (intro assms(1)) (simp add: other_messages_shown)
  have later: "plan_fine pv intent (next_turn ms) (n, c', ?vs)" if "list_all (message_shown pv) ms" "n + c \<le> c'" for ms c'
    using assms(1) [OF that(1), of "c' - n" ?vs] that(2) by simp
  have offered: "\<forall>(i, cid, name, v)\<in>set (tool_calls_of (cp_content cp)). name = ''propose_plan'' \<longrightarrow> v \<in> ?vs"
    by (auto simp: proposals_def)
  have "plan_fine pv intent (run_tools pv intent (tool_calls_of (cp_content cp)) []
      (\<lambda>rs. next_turn (?ms @ [tool_results rs]))) (n, n + c + 2 * length (tool_calls_of (cp_content cp)), ?vs)"
    by (rule run_tools_fine [where c = "n + c"])
       (use assms(2) offered in \<open>auto simp: other_messages_shown results_shown intro: later\<close>)
  with said show ?thesis
    by (auto simp: after_completion_def Let_def Inr reply_calls_def reply_proposals_def add.assoc split: stop_reason.split)
qed (simp add: after_completion_def)

lemma plan_turns_fine:
  "list_all (message_shown pv) messages \<Longrightarrow>
    plan_fine pv intent (plan_turns pv intent system n messages) (n, n + c, vs)"
proof (induction n arbitrary: messages c vs)
  case (Suc n)
  then show ?case by (simp add: after_completion_fine)
qed simp

definition start_budget :: "planner_env \<Rightarrow> budget" where
  "start_budget pv = (pv_max_turns pv, pv_max_turns pv + 2, {})"

lemma plan_intent_fine: "plan_fine pv (trim raw) (plan_intent pv raw) (start_budget pv)"
proof -
  have loop: "plan_fine pv intent (plan_turns pv intent system (pv_max_turns pv) [user_text intent])
      (pv_max_turns pv, pv_max_turns pv + c, {})" for intent system c
    by (rule plan_turns_fine) (simp add: other_messages_shown)
  then have "plan_fine pv intent (with_prompt pv (\<lambda>system. plan_turns pv intent system (pv_max_turns pv) [user_text intent]))
      (pv_max_turns pv, pv_max_turns pv + Suc c, {})" for intent c
    using loop [of _ _ "Suc c"] by (simp add: with_prompt_def)
  from this [of _ 0] this [of _ 1] show ?thesis
    by (auto simp: plan_intent_def Let_def with_rate_limit_def start_budget_def split: sum.splits)
qed

section \<open>What follows\<close>

definition completions :: "plan_effect list \<Rightarrow> nat" where
  "completions es = length (filter (\<lambda>e. case e of Completed _ _ _ \<Rightarrow> True | _ \<Rightarrow> False) es)"

definition calls_made :: "plan_effect list \<Rightarrow> nat" where
  "calls_made es = sum_list (map (\<lambda>e. case e of Completed _ _ r \<Rightarrow> reply_calls r | _ \<Rightarrow> 0) es)"

lemma count_simps [simp]:
  "completions [] = 0" "calls_made [] = 0"
  "completions (e # es) = (case e of Completed _ _ _ \<Rightarrow> 1 | _ \<Rightarrow> 0) + completions es"
  "calls_made (e # es) = (case e of Completed _ _ r \<Rightarrow> reply_calls r | _ \<Rightarrow> 0) + calls_made es"
  by (simp_all add: completions_def calls_made_def split: plan_effect.split)

lemma fine_bounds:
  "plan_fine pv intent p (n, c, vs) \<Longrightarrow> plan_follow p es = Some q \<Longrightarrow>
    completions es \<le> n \<and> length es \<le> c + completions es + 2 * calls_made es"
proof (induction es arbitrary: p n c vs)
  case (Cons e es)
  then obtain p' where p': "plan_react p e = Some p'" "plan_follow p' es = Some q"
    by (auto simp: Option.bind_eq_Some_conv)
  note step = plan_step [OF Cons.prems(1) p'(1)]
  obtain n' c' vs' where s: "spend (n, c, vs) e = (n', c', vs')" using prod_cases3 by blast
  with step have "plan_fine pv intent p' (n', c', vs')" by simp
  from Cons.IH [OF this p'(2)] s step show ?case by (cases e) auto
qed simp

text \<open>A program that is not done can go on.\<close>

lemma plan_goes_on: "(\<exists>r. p = PlanDone r) \<or> p = PlanPanic \<or> (\<exists>e. plan_react p e \<noteq> None)"
  by (cases p) auto

section \<open>Calls and ends\<close>

text \<open>The text of an answer that goes through the sanitizer, and whether the sanitizer gets through it.\<close>

fun answer_text :: "planner_env \<Rightarrow> plan_effect \<Rightarrow> str option" where
  "answer_text pv (StateRead (Inr s)) = Some (json_display (pv_json pv) (state_json s))"
| "answer_text pv (UserRead r) = Some (case r of Inr u \<Rightarrow> ''Current user: '' @ u
    | Inl e \<Rightarrow> ''Error: cannot determine current user: '' @ planning_error_text e)"
| "answer_text pv (DaemonQueried a ps r) = Some (case r of Inr out \<Rightarrow> out
    | Inl e \<Rightarrow> ''Query failed: '' @ planning_error_text e)"
| "answer_text pv e = None"

definition harmless :: "planner_env \<Rightarrow> plan_effect \<Rightarrow> bool" where
  "harmless pv e = (case answer_text pv e of None \<Rightarrow> True | Some t \<Rightarrow> strip_ansi t \<noteq> None)"

lemma sanitize_panics: "sanitize_tool_output nfc tool raw = None \<longleftrightarrow> strip_ansi raw = None"
  by (simp add: sanitize_tool_output_def normalise_free_text_def)

text \<open>The ghost state: the calls of the model that are not announced yet, whether an announced one may still act, and
  whether all answers were harmless.\<close>

type_synonym calls_left = "nat \<times> bool \<times> bool"

primrec calls_fine :: "planner_env \<Rightarrow> planner \<Rightarrow> calls_left \<Rightarrow> bool" where
  "calls_fine pv (PlanDone r) = (\<lambda>s. True)"
| "calls_fine pv PlanPanic = (\<lambda>(c, b, h). \<not> h)"
| "calls_fine pv (CheckRate k) = (\<lambda>s. \<forall>r. calls_fine pv (k r) s)"
| "calls_fine pv (ReadPrefs k) = (\<lambda>s. \<forall>r. calls_fine pv (k r) s)"
| "calls_fine pv (Complete sys ms k) = (\<lambda>(c, b, h). \<forall>r. calls_fine pv (k r) (c + reply_calls r, False, h))"
| "calls_fine pv (Emit w p) = (\<lambda>(c, b, h).
    if w = Thinking then calls_fine pv p (c, b, h) else 0 < c \<and> calls_fine pv p (c - 1, True, h))"
| "calls_fine pv (GetState k) = (\<lambda>(c, b, h). b \<and> (\<forall>r. calls_fine pv (k r) (c, False, h \<and> harmless pv (StateRead r))))"
| "calls_fine pv (GetUser k) = (\<lambda>(c, b, h). b \<and> (\<forall>r. calls_fine pv (k r) (c, False, h \<and> harmless pv (UserRead r))))"
| "calls_fine pv (QueryDaemon a ps k) = (\<lambda>(c, b, h). b \<and>
    (\<forall>r. calls_fine pv (k r) (c, False, h \<and> harmless pv (DaemonQueried a ps r))))"
| "calls_fine pv (LogRejection i r v p) = (\<lambda>(c, b, h). b \<and> calls_fine pv p (c, False, h))"
| "calls_fine pv (SavePref f k) = (\<lambda>(c, b, h). b \<and> (\<forall>r. calls_fine pv (k r) (c, False, h)))"
| "calls_fine pv (DropPref f k) = (\<lambda>(c, b, h). b \<and> (\<forall>r. calls_fine pv (k r) (c, False, h)))"

fun announces :: "plan_effect \<Rightarrow> bool" where
  "announces (Emitted w) = (w \<noteq> Thinking)"
| "announces e = False"

fun acts :: "plan_effect \<Rightarrow> bool" where
  "acts (StateRead r) = True"
| "acts (UserRead r) = True"
| "acts (DaemonQueried a ps r) = True"
| "acts (RejectionLogged i r v) = True"
| "acts (PrefSaved f r) = True"
| "acts (PrefDropped f r) = True"
| "acts e = False"

fun count_call :: "planner_env \<Rightarrow> calls_left \<Rightarrow> plan_effect \<Rightarrow> calls_left" where
  "count_call pv (c, b, h) (Completed sys ms r) = (c + reply_calls r, False, h)"
| "count_call pv (c, b, h) e = (if announces e then (c - 1, True, h) else (c, b \<and> \<not> acts e, h \<and> harmless pv e))"

fun call_good :: "calls_left \<Rightarrow> plan_effect \<Rightarrow> bool" where
  "call_good (c, b, h) e = ((announces e \<longrightarrow> 0 < c) \<and> (acts e \<longrightarrow> b))"

lemma calls_step:
  "calls_fine pv p s \<Longrightarrow> plan_react p e = Some q \<Longrightarrow> call_good s e \<and> calls_fine pv q (count_call pv s e)"
  by (cases s rule: prod_cases3; cases p) (auto simp: harmless_def split: if_splits)

interpretation calling: guarded_program plan_react "calls_fine pv" call_good "count_call pv" for pv
  by unfold_locales (rule calls_step)

lemma enveloped_calls:
  assumes "\<forall>t e b h. calls_fine pv (k t e) (c, b, h)" "h \<longrightarrow> strip_ansi raw \<noteq> None"
  shows "calls_fine pv (enveloped pv tool raw e k) (c, b, h)"
  using assms by (auto simp: enveloped_def sanitize_panics split: option.split)

lemma dispatch_calls:
  assumes k: "\<forall>t e b h. calls_fine pv (k t e) (c, b, h)"
  shows "calls_fine pv (dispatch_tool pv intent name input k) (c, True, h)"
proof -
  have q: "calls_fine pv (query pv name input k) (c, True, h)"
    by (auto simp: query_def harmless_def k enveloped_calls split: sum.split option.split)
  have p: "calls_fine pv (propose pv intent input k) (c, True, h)"
    by (auto simp: propose_def Let_def k split: sum.split)
  have r: "calls_fine pv (remember pv input k) (c, True, h)" "calls_fine pv (forget pv input k) (c, True, h)"
    by (auto simp: remember_def forget_def Let_def k split: sum.split bool.split)
  have st: "calls_fine pv (case r of Inl e \<Rightarrow> PlanDone (Inl e)
      | Inr s \<Rightarrow> enveloped pv tool (json_display (pv_json pv) (state_json s)) False k) (c, False, h \<and> harmless pv (StateRead r))"
    for r tool
    by (cases r) (simp_all add: enveloped_calls k harmless_def)
  have us: "calls_fine pv (case r of Inr u \<Rightarrow> enveloped pv tool (''Current user: '' @ u) False k
      | Inl e \<Rightarrow> enveloped pv tool (''Error: cannot determine current user: '' @ planning_error_text e) True k)
      (c, False, h \<and> harmless pv (UserRead r))" for r tool
    by (cases r) (simp_all add: enveloped_calls k harmless_def del: append.simps)
  show ?thesis unfolding dispatch_tool_def by (simp add: p q r st us del: append.simps)
qed

lemma run_tools_calls:
  assumes "\<And>rs c b h. calls_fine pv (k rs) (c, b, h)" "length calls \<le> c"
  shows "\<forall>rs b h. calls_fine pv (run_tools pv intent calls rs k) (c, b, h)"
  using assms(2)
proof (induction calls arbitrary: c)
  case (Cons call calls)
  obtain i cid name v where call: "call = (i, cid, name, v)" by (cases call) auto
  from Cons.prems have c: "0 < c" "length calls \<le> c - 1" by simp_all
  have "calls_fine pv (dispatch_tool pv intent name v (\<lambda>content is_error. run_tools pv intent calls
      (rs @ [\<lparr>tres_id = i, tres_call_id = cid, tres_content = content, tres_is_error = is_error\<rparr>]) k)) (c - 1, True, h)"
    for rs h
    by (rule dispatch_calls) (use Cons.IH [OF c(2)] in blast)
  moreover have "call_event name \<noteq> Thinking" by (simp add: call_event_def)
  ultimately show ?case using c(1) by (simp add: call)
qed (simp add: assms(1))

lemma plan_turns_calls: "calls_fine pv (plan_turns pv intent system n ms) (c, b, h)"
proof (induction n arbitrary: ms c b h)
  case (Suc n)
  show ?case
    by (auto simp: after_completion_def Let_def reply_calls_def Suc intro!: run_tools_calls [rule_format] split: sum.split stop_reason.split)
qed simp

lemma plan_intent_calls: "calls_fine pv (plan_intent pv raw) (0, False, True)"
  by (auto simp: plan_intent_def Let_def with_rate_limit_def with_prompt_def plan_turns_calls split: sum.split)

definition calls_announced :: "plan_effect list \<Rightarrow> nat" where
  "calls_announced es = length (filter announces es)"

definition tool_effects :: "plan_effect list \<Rightarrow> nat" where
  "tool_effects es = length (filter acts es)"

lemma calls_bound:
  "calls_fine pv p (c, b, h) \<Longrightarrow> plan_follow p es = Some q \<Longrightarrow>
    calls_announced es \<le> c + calls_made es \<and> tool_effects es \<le> of_bool b + calls_announced es"
proof (induction es arbitrary: p c b h)
  case (Cons e es)
  then obtain p' where p': "plan_react p e = Some p'" "plan_follow p' es = Some q"
    by (auto simp: Option.bind_eq_Some_conv)
  note step = calls_step [OF Cons.prems(1) p'(1)]
  obtain c' b' h' where s: "count_call pv (c, b, h) e = (c', b', h')" using prod_cases3 by blast
  with step have "calls_fine pv p' (c', b', h')" by simp
  from Cons.IH [OF this p'(2)] s step show ?case
    by (cases e) (auto simp: calls_announced_def tool_effects_def split: if_splits)
qed (simp add: calls_announced_def tool_effects_def)

lemma harmless_kept: "foldl (count_call pv) (c, b, h) es = (c', b', h') \<Longrightarrow> h \<Longrightarrow> list_all (harmless pv) es \<Longrightarrow> h'"
proof (induction es arbitrary: c b h)
  case (Cons e es)
  obtain c1 b1 h1 where s: "count_call pv (c, b, h) e = (c1, b1, h1)" using prod_cases3 by blast
  with Cons.prems have "h1" by (cases e) (auto split: if_splits)
  from Cons.IH [OF _ this, of c1 b1] Cons.prems s show ?case by simp
qed simp

text \<open>C13. The planning loop ends: the model is called at most \<open>max_turns\<close> times, each call of a tool that is carried
  out is one the model asked for and has at most one effect, and so a run is bounded by the turns and the calls asked
  for. A run that cannot go on has ended with a plan or an error, unless some answer of the daemon made the sanitizer
  panic; whether it does is a matter of the text alone.\<close>

theorem planner_is_bounded:
  assumes "plan_follow (plan_intent pv raw) es = Some q"
  shows "completions es \<le> pv_max_turns pv \<and> calls_announced es \<le> calls_made es \<and> tool_effects es \<le> calls_announced es \<and>
    length es \<le> 2 * pv_max_turns pv + 2 + 2 * calls_made es \<and>
    ((\<forall>e. plan_react q e = None) \<and> list_all (harmless pv) es \<longrightarrow> (\<exists>r. q = PlanDone r))"
proof -
  have "completions es \<le> pv_max_turns pv \<and> length es \<le> (pv_max_turns pv + 2) + completions es + 2 * calls_made es"
    using fine_bounds [OF plan_intent_fine [unfolded start_budget_def] assms] by simp
  moreover have "calls_announced es \<le> calls_made es \<and> tool_effects es \<le> calls_announced es"
    using calls_bound [OF plan_intent_calls assms] by simp
  moreover have "\<exists>r. q = PlanDone r" if "\<forall>e. plan_react q e = None" "list_all (harmless pv) es"
  proof -
    obtain c b h where s: "foldl (count_call pv) (0, False, True) es = (c, b, h)" using prod_cases3 by blast
    have "h" using harmless_kept [OF s] that(2) by simp
    with calling.stays_fine [OF plan_intent_calls assms] s have "q \<noteq> PlanPanic" by auto
    with plan_goes_on [of q] that(1) show ?thesis by auto
  qed
  ultimately show ?thesis by auto
qed

definition proposed_in :: "plan_effect list \<Rightarrow> json set" where
  "proposed_in es = (\<Union>e\<in>set es. case e of Completed _ _ r \<Rightarrow> reply_proposals r | _ \<Rightarrow> {})"

lemma spent_proposals: "foldl spend (n, c, vs) es = (n', c', vs') \<Longrightarrow> vs' = vs \<union> proposed_in es"
proof (induction es arbitrary: n c vs)
  case (Cons e es)
  obtain m d ws where s: "spend (n, c, vs) e = (m, d, ws)" using prod_cases3 by blast
  with Cons have "vs' = ws \<union> proposed_in es" by simp
  with s show ?case by (cases e) (auto simp: proposed_in_def)
qed (simp add: proposed_in_def)

text \<open>C7. A plan the loop returns was proposed by the model in this run, accepted by the parser for the
  trimmed intent, and so is well-formed; the intent was not empty, not too long, and passed the filter for
  secrets.\<close>

theorem planner_output_is_fenced:
  assumes "plan_follow (plan_intent pv raw) es = Some (PlanDone (Inr p))"
  shows "(\<exists>v\<in>proposed_in es. parse_proposed_plan (pv_ext pv) (trim raw) v = Inr p) \<and>
    wf_plan (pv_ext pv) p \<and> pl_intent p = trim raw \<and>
    trim raw \<noteq> [] \<and> length (trim raw) \<le> INTENT_MAX_BYTES \<and> \<not> contains_sensitive (trim raw)"
proof -
  obtain n c vs where s: "foldl spend (start_budget pv) es = (n, c, vs)" using prod_cases3 by blast
  from planning.stays_fine [OF plan_intent_fine assms] s
  obtain v where v: "v \<in> vs" "parse_proposed_plan (pv_ext pv) (trim raw) v = Inr p" by auto
  with spent_proposals [of _ _ "{}"] s have "v \<in> proposed_in es" by (simp add: start_budget_def)
  moreover have "trim raw \<noteq> []" "length (trim raw) \<le> INTENT_MAX_BYTES" "\<not> contains_sensitive (trim raw)"
    using assms by (auto simp: plan_intent_def Let_def split: if_splits) (cases es; simp)+
  ultimately show ?thesis using v(2) parsed_plan_wf [OF v(2)] by blast
qed

text \<open>Everything the model is shown of the system is in an envelope: a tool result among the messages it
  gets is an output of the sanitizer, or one of the fixed texts of the planner. And the daemon is asked for
  open queries only.\<close>

theorem model_sees_enveloped_output:
  assumes "plan_follow (plan_intent pv raw) es = Some q" "e \<in> set es"
  shows "case e of
      Completed s ms r \<Rightarrow> list_all (message_shown pv) ms
    | DaemonQueried a ps r \<Rightarrow> a \<in> set observer_actions
    | _ \<Rightarrow> True"
proof -
  obtain xs ys where xs: "effect_good pv (foldl spend (start_budget pv) xs) e"
    using planning.events_good [OF plan_intent_fine assms] by blast
  obtain n c vs where "foldl spend (start_budget pv) xs = (n, c, vs)" using prod_cases3 by blast
  with xs show ?thesis by (cases e) auto
qed

text \<open>No rejected plan gets into the safety log: the planner that is built from the configuration, with or
  without a distribution, has no log.\<close>

theorem rejections_are_not_logged:
  assumes "pv = from_config px ext nfc prompt n \<or> (\<exists>h. pv = with_distro (from_config px ext nfc prompt n) h)"
    and "plan_follow (plan_intent pv raw) es = Some q"
  shows "RejectionLogged i r v \<notin> set es"
proof
  assume "RejectionLogged i r v \<in> set es"
  from planning.events_good [OF plan_intent_fine assms(2) this] obtain xs where
    "effect_good pv (foldl spend (start_budget pv) xs) (RejectionLogged i r v)" by blast
  then have "pv_audit_log pv" by (cases "foldl spend (start_budget pv) xs" rule: prod_cases3) simp
  with assms(1) show False by (auto simp: from_config_def with_distro_def)
qed

text \<open>An intent that has \<open>disk-\<close>, \<open>task-\<close> or the like in it is refused as containing secrets before
  anything else is done.\<close>

theorem ordinary_intents_refused:
  assumes "trim raw = a @ w @ b" "w \<in> {''disk-'', ''task-'', ''desk-'', ''risk-'', ''mask-''}"
    and "list_all (\<lambda>c. byte_of c < 128) (trim raw)" "length (trim raw) \<le> INTENT_MAX_BYTES"
  shows "plan_intent pv raw = PlanDone (Inl IntentContainsSensitiveData)"
  using assms ordinary_words_are_sensitive [of a w b] by (auto simp: plan_intent_def Let_def)

section \<open>A run\<close>

definition demo_plan_json :: json where
  "demo_plan_json = plan_json
    \<lparr>pl_intent = ''memory?'', pl_summary = ''memory'', pl_explanation = ''reads it'', pl_steps = []\<rparr>
    [JObject [(''action_name'', JString ''GetMemoryInfo''), (''summary'', JString ''memory''), (''risk_level'', JString ''low'')]]"

definition demo_planner :: planner_env where
  "demo_planner = from_config \<lparr>px_parse = \<lambda>_. None, px_debug = quoted\<rparr> plain_externs (\<lambda>s. s) (\<lambda>_. ''prompt'') 3"

definition demo_completions :: "completion list" where
  "demo_completions =
    [\<lparr>cp_content = [ToolUse ''1'' None ''query_memory'' (JObject [])], cp_stop_reason = StopToolUse\<rparr>,
     \<lparr>cp_content = [ToolUse ''2'' None ''propose_plan'' demo_plan_json], cp_stop_reason = StopToolUse\<rparr>]"

definition demo_messages :: "message list" where
  "demo_messages = [user_text ''memory?'', assistant_message (cp_content (demo_completions ! 0)),
    tool_results [\<lparr>tres_id = ''1'', tres_call_id = None,
      tres_content = the (sanitize_tool_output (\<lambda>s. s) ''query_memory'' ''16 GB''), tres_is_error = False\<rparr>]]"

definition demo_effects :: "plan_effect list" where
  "demo_effects =
    [RateChecked (Inr ()), PrefsRead (Inr None), Emitted Thinking,
     Completed ''prompt'' [user_text ''memory?''] (Inr (demo_completions ! 0)),
     Emitted (QueryingTool ''query memory''), DaemonQueried ''GetMemoryInfo'' (JObject []) (Inr ''16 GB''),
     Emitted Thinking, Completed ''prompt'' demo_messages (Inr (demo_completions ! 1)), Emitted ProposingPlan]"

lemma demo_trim: "trim ''memory?'' = ''memory?''"
  by (rule trim_id) (auto simp: unicode_ws_def suffix_def)

lemma demo_insensitive: "\<not> contains_sensitive ''memory?''"
  by (simp add: contains_sensitive_def SENSITIVE_PATTERNS_def SENSITIVE_PREFIXES_def to_ascii_lower_def
      is_ascii_uppercase_def Let_def)

lemma demo_sel:
  "pv_max_turns demo_planner = Suc (Suc (Suc 0))" "pv_rate_limiter demo_planner" "pv_prefs_path demo_planner"
  "build_system_prompt demo_planner None = ''prompt''" "pv_nfc demo_planner = (\<lambda>s. s)"
  by (simp_all add: demo_planner_def from_config_def build_system_prompt_def append_prefs_def)

lemma demo_tool: "query_tool_to_action ''query_memory'' (JObject []) = Inr (Some (''GetMemoryInfo'', JObject []))"
  by (simp add: query_tool_to_action_def plain_query_tools_def)

lemma demo_shown: "\<exists>e. sanitize_tool_output (\<lambda>s. s) ''query_memory'' ''16 GB'' = Some e"
  by (simp add: sanitize_tool_output_def normalise_free_text_def utf8_continuation_def)

lemma demo_parse: "\<exists>p. parse_proposed_plan (pv_ext demo_planner) ''memory?'' demo_plan_json = Inr p"
proof -
  have "''GetMemoryInfo'' \<in> set KNOWN_ACTION_NAMES" by (simp add: KNOWN_ACTION_NAMES_def)
  then show ?thesis
    by (simp add: parse_proposed_plan_def demo_plan_json_def plan_json_def non_empty_str_def get_str_def parse_step_def
        parse_action_name_def parse_risk_def parse_params_def new_plan_step_def new_plan_def)
qed

lemma plan_answers:
  "plan_react (CheckRate k) (RateChecked r) = Some (k r)" "plan_react (ReadPrefs k') (PrefsRead r') = Some (k' r')"
  "plan_react (Emit w p) (Emitted w) = Some p" "plan_react (QueryDaemon a ps h) (DaemonQueried a ps x) = Some (h x)"
  "plan_react (Complete s ms g) (Completed s ms y) = Some (g y)"
  by simp_all

lemma demo_parts:
  "cp_stop_reason (demo_completions ! i) = StopToolUse" if "i < 2"
  using that by (cases i) (auto simp: demo_completions_def)

lemma demo_run:
  "\<exists>p. plan_follow (plan_intent demo_planner ''memory?'') demo_effects = Some (PlanDone (Inr p))"
proof -
  obtain e where e: "sanitize_tool_output (\<lambda>s. s) ''query_memory'' ''16 GB'' = Some e" using demo_shown by blast
  obtain p where p: "parse_proposed_plan (pv_ext demo_planner) ''memory?'' demo_plan_json = Inr p" using demo_parse by blast
  have ms: "demo_messages = [user_text ''memory?'', assistant_message [ToolUse ''1'' None ''query_memory'' (JObject [])],
      tool_results [\<lparr>tres_id = ''1'', tres_call_id = None, tres_content = e, tres_is_error = False\<rparr>]]"
    by (simp add: demo_messages_def demo_completions_def e)
  show ?thesis
    by (simp add: plan_intent_def Let_def demo_trim INTENT_MAX_BYTES_def demo_insensitive with_rate_limit_def
        with_prompt_def demo_sel demo_effects_def plan_answers after_completion_def demo_completions_def tool_calls_of_def
        List.map_filter_simps call_event_def dispatch_tool_def query_def demo_tool enveloped_def e ms propose_def p)
qed

theorem planner_is_bounded_witness:
  "completions demo_effects \<le> pv_max_turns demo_planner \<and> tool_effects demo_effects \<le> calls_made demo_effects \<and>
    length demo_effects \<le> 2 * pv_max_turns demo_planner + 2 + 2 * calls_made demo_effects"
  using demo_run planner_is_bounded [of demo_planner "''memory?''" demo_effects] le_trans by blast

theorem planner_output_is_fenced_witness:
  "\<exists>p. plan_follow (plan_intent demo_planner ''memory?'') demo_effects = Some (PlanDone (Inr p)) \<and>
    wf_plan (pv_ext demo_planner) p \<and> pl_intent p = trim ''memory?''"
  using demo_run planner_output_is_fenced [of demo_planner "''memory?''" demo_effects] by blast

theorem model_sees_enveloped_output_witness:
  "list_all (message_shown demo_planner) demo_messages \<and> ''GetMemoryInfo'' \<in> set observer_actions"
proof -
  obtain q where q: "plan_follow (plan_intent demo_planner ''memory?'') demo_effects = Some q" using demo_run by blast
  have "Completed ''prompt'' demo_messages (Inr (demo_completions ! 1)) \<in> set demo_effects"
      "DaemonQueried ''GetMemoryInfo'' (JObject []) (Inr ''16 GB'') \<in> set demo_effects"
    by (simp_all add: demo_effects_def)
  from this [THEN model_sees_enveloped_output [OF q]] show ?thesis by simp
qed

theorem rejections_are_not_logged_witness:
  "\<forall>i r v. RejectionLogged i r v \<notin> set demo_effects"
proof -
  obtain q where "plan_follow (plan_intent demo_planner ''memory?'') demo_effects = Some q" using demo_run by blast
  then show ?thesis using rejections_are_not_logged [of demo_planner] demo_planner_def by blast
qed

theorem ordinary_intents_refused_witness:
  "plan_intent demo_planner ''show the disk-usage'' = PlanDone (Inl IntentContainsSensitiveData)"
proof (rule ordinary_intents_refused)
  show "trim ''show the disk-usage'' = ''show the '' @ ''disk-'' @ ''usage''"
    by (simp, rule trim_id) (auto simp: unicode_ws_def suffix_def)
  then show "list_all (\<lambda>c. byte_of c < 128) (trim ''show the disk-usage'')"
    "length (trim ''show the disk-usage'') \<le> INTENT_MAX_BYTES"
    by (simp_all add: INTENT_MAX_BYTES_def)
qed simp

end
