(* ===== verification/Rate_Limit.thy ===== *)
theory Rate_Limit
  imports State_Collector
begin

text \<open>
  The limiter of planning calls (\<open>crates/sysknife-brain/src/rate_limit.rs\<close>): a file of time stamps, one per
  line, and the check against the last 60 seconds. The clock, what could be read of the file and whether
  the new content could be written are arguments; the additions of the retry time are those of 64-bit
  numbers, as a release build computes them.
\<close>

definition u64_max :: nat where "u64_max = 2 ^ 64 - 1"

definition DEFAULT_MAX_RPM :: nat where "DEFAULT_MAX_RPM = 20"

text \<open>\<open>RateLimiter::new\<close>: the limit of the environment if it is a positive number; \<open>None\<close> is the panic.\<close>

definition effective_limit :: "nat \<Rightarrow> str option \<Rightarrow> nat option" where
  "effective_limit max_per_minute var =
    (if max_per_minute = 0 then None
     else Some (case Option.bind var (\<lambda>v. parse_uint u64_max (trim v)) of
         Some n \<Rightarrow> if 1 \<le> n then n else max_per_minute
       | None \<Rightarrow> max_per_minute))"

definition stamps :: "str \<Rightarrow> nat list" where
  "stamps raw = List.map_filter (\<lambda>l. parse_uint u64_max (trim l)) (str_lines raw)"

definition stamp_lines :: "nat list \<Rightarrow> str" where
  "stamp_lines ts = concat (map (\<lambda>t. show_nat t @ [CHR 0x0A]) ts)"

definition window_start :: "nat \<Rightarrow> nat" where "window_start now = now - 60"

text \<open>The content read is empty when there is no file and when it cannot be read.\<close>

definition check_and_consume :: "nat \<Rightarrow> nat \<Rightarrow> str \<Rightarrow> (nat, str) result" where
  "check_and_consume max_per_minute now raw =
    (let in_window = filter (\<lambda>t. window_start now \<le> t) (stamps raw) in
     if max_per_minute \<le> length in_window then
       (let oldest = (if in_window = [] then window_start now else Min (set in_window))
        in Inl (max ((oldest + 60) mod 2 ^ 64 - now) 1))
     else Inr (stamp_lines (in_window @ [now])))"

text \<open>One call: the answer, and the file afterwards; a failed write leaves it, and the call is allowed.\<close>

definition rate_call :: "nat \<Rightarrow> nat \<Rightarrow> bool \<Rightarrow> str \<Rightarrow> (nat, unit) result \<times> str" where
  "rate_call max_per_minute now written raw = (case check_and_consume max_per_minute now raw of
      Inl secs \<Rightarrow> (Inl secs, raw)
    | Inr content \<Rightarrow> (Inr (), if written then content else raw))"

section \<open>The file is read back as it was written\<close>

lemma digit_not_ws: "is_ascii_digit c \<Longrightarrow> w \<in> set unicode_ws \<Longrightarrow> hd w \<noteq> c \<and> last w \<noteq> c"
  by (auto simp: unicode_ws_def is_ascii_digit_def)

lemma trim_number: "trim (show_nat n) = show_nat n"
proof (rule trim_id)
  fix w assume w: "w \<in> set unicode_ws"
  then have "w \<noteq> []" by (auto simp: unicode_ws_def)
  have ends: "is_ascii_digit (hd (show_nat n))" "is_ascii_digit (last (show_nat n))"
    using show_nat_digits [of _ n] show_nat_nonempty [of n] by simp_all
  show "\<not> prefix w (show_nat n)"
    using digit_not_ws [OF ends(1) w] \<open>w \<noteq> []\<close> by (auto simp: prefix_def)
  show "\<not> suffix w (show_nat n)"
    using digit_not_ws [OF ends(2) w] \<open>w \<noteq> []\<close> by (auto simp: suffix_def)
qed

lemma number_no_break: "CHR 0x0A \<notin> set (show_nat n)" "CHR 0x0D \<notin> set (show_nat n)"
  using show_nat_digits by (fastforce simp: is_ascii_digit_def)+

lemma str_lines_stamp: "str_lines (stamp_lines ts) = map show_nat ts"
  using str_lines_concat [of "map show_nat ts"] number_no_break show_nat_nonempty
  by (auto simp: list_all_iff stamp_lines_def comp_def) (metis last_in_set)

lemma stamps_read_back: "\<forall>t\<in>set ts. t \<le> u64_max \<Longrightarrow> stamps (stamp_lines ts) = ts"
  unfolding stamps_def str_lines_stamp
  by (induction ts) (simp_all add: List.map_filter_simps trim_number parse_show_nat)

lemma check_lines:
  "\<forall>t\<in>set ts. t \<le> u64_max \<Longrightarrow> mx \<noteq> 0 \<Longrightarrow> check_and_consume mx now (stamp_lines ts) =
    (let in_window = filter (\<lambda>t. now - 60 \<le> t) ts in
     if mx \<le> length in_window then Inl (max ((Min (set in_window) + 60) mod 2 ^ 64 - now) 1)
     else Inr (stamp_lines (in_window @ [now])))"
  by (simp add: check_and_consume_def stamps_read_back window_start_def Let_def)

lemma stamps_bound: "t \<in> set (stamps raw) \<Longrightarrow> t \<le> u64_max"
  by (auto simp: stamps_def map_filter_set dest: parse_uint_bound)

section \<open>The window\<close>

text \<open>The times of the calls allowed, when every write succeeds.\<close>

fun grants :: "nat \<Rightarrow> str \<Rightarrow> nat list \<Rightarrow> nat list" where
  "grants mx raw [] = []"
| "grants mx raw (now # nows) =
    (case rate_call mx now True raw of
       (Inl _, raw') \<Rightarrow> grants mx raw' nows
     | (Inr _, raw') \<Rightarrow> now # grants mx raw' nows)"

definition in_window_of :: "nat \<Rightarrow> nat \<Rightarrow> bool" where
  "in_window_of t g = (window_start t \<le> g \<and> g \<le> t)"

text \<open>The file knows every call allowed that is still in the window.\<close>

definition file_covers :: "nat \<Rightarrow> nat \<Rightarrow> nat list \<Rightarrow> str \<Rightarrow> bool" where
  "file_covers mx last_now gs raw =
    ((\<forall>w\<ge>window_start last_now. length (filter ((\<le>) w) gs) \<le> length (filter ((\<le>) w) (stamps raw))) \<and>
     (\<forall>t. length (filter (in_window_of t) gs) \<le> mx))"

lemma window_start_mono: "a \<le> b \<Longrightarrow> window_start a \<le> window_start b"
  by (simp add: window_start_def)

lemma length_filter_mono: "(\<And>x. P x \<Longrightarrow> Q x) \<Longrightarrow> length (filter P xs) \<le> length (filter Q xs)"
  by (induction xs) auto

lemma granted_stamps:
  assumes "check_and_consume mx now raw = Inr content" "now \<le> u64_max"
  shows "stamps content = filter ((\<le>) (window_start now)) (stamps raw) @ [now]"
    "length (filter ((\<le>) (window_start now)) (stamps raw)) < mx"
  using assms stamps_bound [of _ raw]
  by (auto simp: check_and_consume_def Let_def stamps_read_back split: if_splits)

lemma covers_grant:
  assumes "file_covers mx last_now gs raw" "last_now \<le> now" "now \<le> u64_max"
    and "check_and_consume mx now raw = Inr content"
  shows "file_covers mx now (gs @ [now]) content"
proof -
  note new = granted_stamps [OF assms(4,3)]
  have old: "length (filter ((\<le>) w) gs) \<le> length (filter ((\<le>) w) (stamps raw))" if "window_start now \<le> w" for w
    using that assms(1) window_start_mono [OF assms(2)] by (auto simp: file_covers_def)
  have "filter ((\<le>) w) (filter ((\<le>) (window_start now)) (stamps raw)) = filter ((\<le>) w) (stamps raw)"
    if "window_start now \<le> w" for w using that by (auto intro: filter_cong)
  then have 1: "length (filter ((\<le>) w) (gs @ [now])) \<le> length (filter ((\<le>) w) (stamps content))"
    if "window_start now \<le> w" for w using that old new(1) by simp
  have 2: "length (filter (in_window_of t) (gs @ [now])) \<le> mx" for t
  proof (cases "in_window_of t now")
    case False
    with assms(1) show ?thesis by (simp add: file_covers_def)
  next
    case True
    then have t: "window_start now \<le> window_start t" by (simp add: in_window_of_def window_start_mono)
    have "length (filter (in_window_of t) gs) \<le> length (filter ((\<le>) (window_start t)) gs)"
      by (rule length_filter_mono) (simp add: in_window_of_def)
    also have "\<dots> \<le> length (filter ((\<le>) (window_start t)) (stamps raw))" using old t by simp
    also have "\<dots> \<le> length (filter ((\<le>) (window_start now)) (stamps raw))"
      by (rule length_filter_mono) (use t in simp)
    finally show ?thesis using new(2) True by simp
  qed
  from 1 2 show ?thesis by (simp add: file_covers_def)
qed

lemma grants_covered:
  "file_covers mx last_now gs raw \<Longrightarrow> sorted (last_now # nows) \<Longrightarrow> \<forall>now\<in>set nows. now \<le> u64_max \<Longrightarrow>
    length (filter (in_window_of t) (gs @ grants mx raw nows)) \<le> mx"
proof (induction nows arbitrary: last_now gs raw)
  case Nil
  then show ?case by (simp add: file_covers_def)
next
  case (Cons now nows)
  show ?case
  proof (cases "check_and_consume mx now raw")
    case (Inl secs)
    have "file_covers mx now gs raw"
      using Cons.prems window_start_mono [of last_now now] by (auto simp: file_covers_def)
    with Cons Inl show ?thesis by (simp add: rate_call_def)
  next
    case (Inr content)
    with Cons.prems have "file_covers mx now (gs @ [now]) content" by (auto intro: covers_grant)
    from Cons.IH [OF this] Cons.prems Inr show ?thesis by (simp add: rate_call_def)
  qed
qed

text \<open>C36. The limiter keeps its limit: while the clock does not go back and the file can be written, no
  interval of 60 seconds holds more allowed calls than the limit, whatever the file held before.\<close>

theorem rate_window_respected:
  assumes "sorted nows" "\<forall>now\<in>set nows. now \<le> u64_max"
  shows "length (filter (in_window_of t) (grants mx raw nows)) \<le> mx"
  using grants_covered [of mx 0 "[]" raw nows t] assms by (simp add: file_covers_def)

theorem rate_window_respected_witness:
  "grants 2 (stamp_lines []) [100, 110, 120, 161] = [100, 110, 161] \<and>
    length (filter (in_window_of 161) (grants 2 (stamp_lines []) [100, 110, 120, 161])) \<le> 2"
proof
  show "grants 2 (stamp_lines []) [100, 110, 120, 161] = [100, 110, 161]"
    by (simp add: rate_call_def check_lines u64_max_def Let_def)
  show "length (filter (in_window_of 161) (grants 2 (stamp_lines []) [100, 110, 120, 161])) \<le> 2"
    by (rule rate_window_respected) (simp_all add: u64_max_def)
qed

text \<open>The waiting time of a refusal is one second short: a stamp that is exactly 60 seconds old still
  counts, so the same call after the time told is refused again.\<close>

theorem retry_after_is_one_short:
  assumes "check_and_consume mx now raw = Inl secs" "1 \<le> mx"
    and "\<forall>t\<in>set (stamps raw). now - 60 < t \<and> t \<le> now" "now + 60 \<le> u64_max"
  shows "check_and_consume mx (now + secs) raw = Inl 1"
proof -
  let ?S = "set (stamps raw)"
  have all: "filter (\<lambda>t. window_start now \<le> t) (stamps raw) = stamps raw"
    using assms(3) by (auto simp: window_start_def filter_id_conv)
  with assms(1,2) have ne: "stamps raw \<noteq> []" "mx \<le> length (stamps raw)"
    by (auto simp: check_and_consume_def Let_def split: if_splits)
  have "Min ?S \<in> ?S" using ne by simp
  with assms(3) have m: "now - 60 < Min ?S" "Min ?S \<le> now" by blast+
  have "secs = max (Min ?S + 60 - now) 1"
    using assms(1,4) all ne m by (auto simp: check_and_consume_def Let_def u64_max_def split: if_splits)
  moreover have "1 \<le> Min ?S + 60 - now" using m by linarith
  ultimately have secs: "secs = Min ?S + 60 - now" by simp
  have sum: "now + secs = Min ?S + 60" using secs m by linarith
  have later: "filter (\<lambda>t. window_start (now + secs) \<le> t) (stamps raw) = stamps raw"
    using sum by (auto simp: window_start_def filter_id_conv)
  show ?thesis
    using ne later sum m assms(4) by (simp add: check_and_consume_def Let_def u64_max_def)
qed

theorem retry_after_is_one_short_witness:
  "check_and_consume 1 100 (stamp_lines [90]) = Inl 50 \<and> check_and_consume 1 (100 + 50) (stamp_lines [90]) = Inl 1"
proof
  show first: "check_and_consume 1 100 (stamp_lines [90]) = Inl 50"
    by (simp add: check_lines u64_max_def Let_def)
  show "check_and_consume 1 (100 + 50) (stamp_lines [90]) = Inl 1"
    by (rule retry_after_is_one_short [OF first]) (simp_all add: stamps_read_back u64_max_def)
qed

end
