(* ===== verification/Audit_Forward.thy ===== *)
theory Audit_Forward
  imports Audit_Chain Dispatch_Types
begin

text \<open>
  The forwarding of audit events to a collector (\<open>crates/sysknife-daemon/src/audit_forward.rs\<close>): the bounded
  queue, the task that sends with its back-off, and the RFC 5424 frame, with the events the dispatcher
  builds. The outcomes of binding and sending, the host name and the process id are arguments.
\<close>

definition FORWARDER_QUEUE_DEPTH :: nat where "FORWARDER_QUEUE_DEPTH = 4096"
definition DROP_WARN_THRESHOLD :: "64 word" where "DROP_WARN_THRESHOLD = 8"
definition MAX_BACKOFF_SECS :: nat where "MAX_BACKOFF_SECS = 60"
definition INITIAL_BACKOFF_SECS :: nat where "INITIAL_BACKOFF_SECS = 1"

record audit_event =
  ae_seq :: nat
  ae_transaction_id :: str
  ae_action_name :: str
  ae_risk_level :: risk_level
  ae_summary :: str
  ae_approval_id :: "str option"
  ae_created_at :: str
  ae_chain_hash :: str
  ae_key_id :: str
  ae_caller_role :: "str option"
  ae_final_status :: "str option"

text \<open>The event of a chain row: at the preview without a status, at the end with the label of the final
  state (\<open>forward_audit_event\<close> and \<open>forward_status_change_event\<close> of the dispatcher).\<close>

definition event_of_row :: "chain_row \<Rightarrow> caller_role \<Rightarrow> job_state option \<Rightarrow> audit_event" where
  "event_of_row row caller final =
    \<lparr>ae_seq = cr_seq row, ae_transaction_id = cr_transaction_id row, ae_action_name = cr_action_name row,
     ae_risk_level = cr_risk_level row, ae_summary = cr_summary row, ae_approval_id = cr_approval_id row,
     ae_created_at = cr_created_at row, ae_chain_hash = cr_chain_hash row, ae_key_id = cr_key_id row,
     ae_caller_role = Some (debug_role caller),
     ae_final_status = map_option (\<lambda>s. to_ascii_lowercase (debug_state s)) final\<rparr>"

section \<open>The queue\<close>

record forwarder =
  fw_queue :: "audit_event list"
  fw_closed :: bool
  fw_drops :: "64 word"

datatype forward_warning = QueueFull | TaskGone

definition submit :: "audit_event \<Rightarrow> forwarder \<Rightarrow> forwarder \<times> forward_warning list" where
  "submit event fw =
    (if fw_closed fw then
       (fw\<lparr>fw_drops := fw_drops fw + 1\<rparr>, if fw_drops fw = 0 then [TaskGone] else [])
     else if FORWARDER_QUEUE_DEPTH \<le> length (fw_queue fw) then
       (fw\<lparr>fw_drops := fw_drops fw + 1\<rparr>, if fw_drops fw + 1 = DROP_WARN_THRESHOLD then [QueueFull] else [])
     else (fw\<lparr>fw_queue := fw_queue fw @ [event], fw_drops := 0\<rparr>, []))"

section \<open>The task\<close>

definition next_backoff_secs :: "nat \<Rightarrow> nat" where
  "next_backoff_secs prev = min (min (prev * 2) (2 ^ 64 - 1)) MAX_BACKOFF_SECS"

record forward_task =
  ft_socket :: bool
  ft_backoff :: nat

text \<open>One event: whether the frame goes out, how long the task sleeps. \<open>send_ok\<close> and \<open>bind_ok\<close> are the
  outcomes of the calls it may make.\<close>

definition forward_one :: "bool \<Rightarrow> bool \<Rightarrow> forward_task \<Rightarrow> forward_task \<times> bool \<times> nat option" where
  "forward_one send_ok bind_ok t =
    (if ft_socket t \<and> send_ok then (t, True, None)
     else if bind_ok then (t\<lparr>ft_socket := True, ft_backoff := 1\<rparr>, False, None)
     else (t\<lparr>ft_socket := False, ft_backoff := next_backoff_secs (ft_backoff t)\<rparr>, False, Some (ft_backoff t)))"

definition start_task :: "bool \<Rightarrow> forward_task" where
  "start_task bind_ok = \<lparr>ft_socket = bind_ok, ft_backoff = INITIAL_BACKOFF_SECS\<rparr>"

section \<open>The frame\<close>

fun sd_escape :: "str \<Rightarrow> str" where
  "sd_escape [] = []"
| "sd_escape (c # s) =
    (if c \<in> {CHR 0x22, CHR 0x5C, CHR '']''} then CHR 0x5C # c # sd_escape s
     else if 0x20 \<le> byte_of c \<and> byte_of c \<le> 0x7E then c # sd_escape s
     else sd_escape s)"

text \<open>\<open>read_hostname\<close>: what the kernel says, trimmed, or nothing when it cannot be read.\<close>

definition read_hostname :: "str option \<Rightarrow> str" where
  "read_hostname file =
    (let raw = (case file of Some s \<Rightarrow> trim s | None \<Rightarrow> [])
     in if raw = [] \<or> 255 < length raw \<or> \<not> list_all (\<lambda>c. 0x21 \<le> byte_of c \<and> byte_of c \<le> 0x7E) raw then ''-''
        else raw)"

definition sd_param :: "str \<Rightarrow> str \<Rightarrow> str" where
  "sd_param name txt = '' '' @ name @ ''='' @ [CHR 0x22] @ txt @ [CHR 0x22]"

definition format_rfc5424 :: "str option \<Rightarrow> nat \<Rightarrow> audit_event \<Rightarrow> nat \<Rightarrow> str" where
  "format_rfc5424 hostname_file pid event facility =
    (let pri = facility * 8 + 5;
         terminal = (case ae_final_status event of Some s \<Rightarrow> sd_param ''terminal_status'' (sd_escape s) | None \<Rightarrow> []);
         sd = ''[sysknife@32473'' @
           sd_param ''seq'' (show_nat (ae_seq event)) @
           sd_param ''tx'' (sd_escape (ae_transaction_id event)) @
           sd_param ''action'' (sd_escape (ae_action_name event)) @
           sd_param ''risk'' (risk_level_str (ae_risk_level event)) @
           sd_param ''approval'' (sd_escape (unwrap_or (ae_approval_id event) [])) @
           sd_param ''role'' (sd_escape (unwrap_or (ae_caller_role event) [])) @
           sd_param ''chain_hash'' (sd_escape (ae_chain_hash event)) @
           sd_param ''key_id'' (sd_escape (ae_key_id event)) @ terminal @ '']'';
         msg = ''['' @ ae_action_name event @ ''] '' @ ae_summary event
     in ''<'' @ show_nat pri @ ''>1 '' @ ae_created_at event @ '' '' @ read_hostname hostname_file @
        '' sysknife-daemon '' @ show_nat pid @ '' AUDIT '' @ sd @ '' '' @ msg)"

section \<open>Back-off and queue\<close>

definition task_ok :: "forward_task \<Rightarrow> bool" where
  "task_ok t = (1 \<le> ft_backoff t \<and> ft_backoff t \<le> MAX_BACKOFF_SECS)"

lemma forward_one_ok: "task_ok t \<Longrightarrow> forward_one so bo t = (t', sent, secs) \<Longrightarrow> task_ok t' \<and> (\<forall>n. secs = Some n \<longrightarrow> n \<le> 60)"
  by (auto simp: forward_one_def task_ok_def next_backoff_secs_def MAX_BACKOFF_SECS_def split: if_splits)

lemma start_task_ok: "task_ok (start_task b)"
  by (simp add: task_ok_def start_task_def INITIAL_BACKOFF_SECS_def MAX_BACKOFF_SECS_def)

lemma submit_bounded:
  "length (fw_queue fw) \<le> FORWARDER_QUEUE_DEPTH \<Longrightarrow> length (fw_queue (fst (submit e fw))) \<le> FORWARDER_QUEUE_DEPTH"
  by (auto simp: submit_def)

section \<open>A reader of the frame\<close>

text \<open>RFC 5424 as the collector reads it: a parameter value up to its closing quote, the parameters up to the
  closing bracket, and the header tokens.\<close>

fun sd_value :: "str \<Rightarrow> (str \<times> str) option" where
  "sd_value [] = None"
| "sd_value [c] = (if c = CHR 0x22 then Some ([], []) else None)"
| "sd_value (c # d # s) =
    (if c = CHR 0x22 then Some ([], d # s)
     else if c = CHR 0x5C \<and> d \<in> {CHR 0x22, CHR 0x5C, CHR '']''} then map_option (apfst (Cons d)) (sd_value s)
     else map_option (apfst (Cons c)) (sd_value (d # s)))"

lemma sd_value_shorter: "sd_value s = Some (v, r) \<Longrightarrow> length r < length s"
  by (induction s arbitrary: v rule: sd_value.induct) (auto split: if_splits)

function sd_params :: "str \<Rightarrow> ((str \<times> str) list \<times> str) option" where
  "sd_params s = (case s of
      [] \<Rightarrow> None
    | c # r \<Rightarrow>
        if c = CHR '']'' then Some ([], r)
        else if c \<noteq> CHR '' '' then None
        else (case split_once CHR ''='' r of
            Some (name, q # t) \<Rightarrow>
              if q = CHR 0x22 then (case sd_value t of
                  Some (v, u) \<Rightarrow> if length u < length s then map_option (apfst (Cons (name, v))) (sd_params u) else None
                | None \<Rightarrow> None)
              else None
          | _ \<Rightarrow> None))"
  by auto
termination
  by (relation "measure length") auto

declare sd_params.simps [simp del]

definition token :: "str \<Rightarrow> (str \<times> str) option" where
  "token s = split_once CHR '' '' s"

definition read_frame :: "str \<Rightarrow> (str \<times> str \<times> str \<times> (str \<times> str) list \<times> str) option" where
  "read_frame s =
    Option.bind (strip_prefix s ''<'') (\<lambda>s. Option.bind (split_once CHR ''>'' s) (\<lambda>(pri, s).
    Option.bind (token s) (\<lambda>(version, s). Option.bind (token s) (\<lambda>(ts, s). Option.bind (token s) (\<lambda>(host, s).
    Option.bind (token s) (\<lambda>(app, s). Option.bind (token s) (\<lambda>(pid, s). Option.bind (token s) (\<lambda>(msgid, s).
    Option.bind (strip_prefix s ''[sysknife@32473'') (\<lambda>s. Option.bind (sd_params s) (\<lambda>(ps, s).
    Option.bind (strip_prefix s '' '') (\<lambda>msg. Some (pri, ts, host, ps, msg))))))))))))"

definition printable :: "str \<Rightarrow> str" where
  "printable s = filter (\<lambda>c. 0x20 \<le> byte_of c \<and> byte_of c \<le> 0x7E) s"

lemma sd_value_escape: "sd_value (sd_escape v @ CHR 0x22 # r) = Some (printable v, r)"
proof (induction v)
  case Nil
  then show ?case by (cases r) (simp_all add: printable_def)
next
  case (Cons c v)
  obtain d u where u: "sd_escape v @ CHR 0x22 # r = d # u" by (cases "sd_escape v") auto
  with Cons show ?case by (auto simp: printable_def)
qed

lemma sd_params_step:
  assumes "CHR ''='' \<notin> set name"
  shows "sd_params (sd_param name (sd_escape v) @ s) = map_option (apfst (Cons (name, printable v))) (sd_params s)"
proof -
  have "split_once CHR ''='' (name @ CHR ''='' # CHR 0x22 # sd_escape v @ CHR 0x22 # s) =
      Some (name, CHR 0x22 # sd_escape v @ CHR 0x22 # s)"
    using assms by (simp add: split_once_Some)
  then show ?thesis
    by (subst sd_params.simps) (simp add: sd_param_def sd_value_escape)
qed

lemma sd_params_end: "sd_params (CHR '']'' # s) = Some ([], s)"
  by (subst sd_params.simps) simp

lemma escape_plain: "list_all is_ascii_alphanumeric s \<Longrightarrow> sd_escape s = s \<and> printable s = s"
  by (induction s) (auto simp: printable_def ascii_defs)

lemma show_nat_plain: "sd_escape (show_nat n) = show_nat n" "printable (show_nat n) = show_nat n"
  using escape_plain [of "show_nat n"] show_nat_digits [of _ n]
  by (auto simp: list_all_iff is_ascii_alphanumeric_def)

lemma risk_plain: "sd_escape (risk_level_str r) = risk_level_str r" "printable (risk_level_str r) = risk_level_str r"
  by (cases r; simp add: printable_def)+

lemma show_nat_no: "\<not> is_ascii_digit c \<Longrightarrow> c \<notin> set (show_nat n)"
  using show_nat_digits by blast

lemma hostname_no_space: "CHR '' '' \<notin> set (read_hostname file)"
  by (auto simp: read_hostname_def Let_def list_all_iff)

lemma split_once_here: "d \<notin> set a \<Longrightarrow> split_once d (a @ d # b) = Some (a, b)"
  by (simp add: split_once_Some)

definition event_params :: "audit_event \<Rightarrow> (str \<times> str) list" where
  "event_params ev =
    [(''seq'', show_nat (ae_seq ev)), (''tx'', printable (ae_transaction_id ev)),
     (''action'', printable (ae_action_name ev)), (''risk'', risk_level_str (ae_risk_level ev)),
     (''approval'', printable (unwrap_or (ae_approval_id ev) [])), (''role'', printable (unwrap_or (ae_caller_role ev) [])),
     (''chain_hash'', printable (ae_chain_hash ev)), (''key_id'', printable (ae_key_id ev))] @
    (case ae_final_status ev of None \<Rightarrow> [] | Some s \<Rightarrow> [(''terminal_status'', printable s)])"

lemma sd_params_plain:
  "CHR ''='' \<notin> set name \<Longrightarrow> sd_params (sd_param name (show_nat n) @ s) = map_option (apfst (Cons (name, show_nat n))) (sd_params s)"
  "CHR ''='' \<notin> set name \<Longrightarrow>
    sd_params (sd_param name (risk_level_str r) @ s) = map_option (apfst (Cons (name, risk_level_str r))) (sd_params s)"
  using sd_params_step [of name "show_nat n" s] sd_params_step [of name "risk_level_str r" s]
  by (simp_all add: show_nat_plain risk_plain)

text \<open>C37. What is forwarded can be read: for any event, whatever its texts hold, the frame is read back as
  its priority, time, host and exactly its parameters, and the message. No field can end its value or forge another. A
  text among the parameters reads back without its characters outside printable ASCII, which are deleted, and so
  unchanged only if it has none; an absent approval or role reads back as an empty one. The message is unchanged.\<close>

theorem forwarded_event_reads_back:
  assumes "CHR '' '' \<notin> set (ae_created_at ev)"
  shows "read_frame (format_rfc5424 hostname_file pid ev facility) =
    Some (show_nat (facility * 8 + 5), ae_created_at ev, read_hostname hostname_file, event_params ev,
      ''['' @ ae_action_name ev @ ''] '' @ ae_summary ev)"
proof -
  let ?host = "read_hostname hostname_file"
  define msg where "msg = '' '' @ ''['' @ ae_action_name ev @ ''] '' @ ae_summary ev"
  define terminal where "terminal = (case ae_final_status ev of Some s \<Rightarrow> sd_param ''terminal_status'' (sd_escape s) | None \<Rightarrow> [])"
  define sd where "sd = sd_param ''seq'' (show_nat (ae_seq ev)) @
      sd_param ''tx'' (sd_escape (ae_transaction_id ev)) @ sd_param ''action'' (sd_escape (ae_action_name ev)) @
      sd_param ''risk'' (risk_level_str (ae_risk_level ev)) @ sd_param ''approval'' (sd_escape (unwrap_or (ae_approval_id ev) [])) @
      sd_param ''role'' (sd_escape (unwrap_or (ae_caller_role ev) [])) @
      sd_param ''chain_hash'' (sd_escape (ae_chain_hash ev)) @ sd_param ''key_id'' (sd_escape (ae_key_id ev)) @ terminal"
  have last: "sd_params (terminal @ CHR '']'' # msg) =
      Some (case ae_final_status ev of None \<Rightarrow> [] | Some s \<Rightarrow> [(''terminal_status'', printable s)], msg)"
    by (cases "ae_final_status ev") (simp_all add: terminal_def sd_params_step sd_params_end)
  have params: "sd_params (sd @ CHR '']'' # msg) = Some (event_params ev, msg)"
    by (simp add: sd_def sd_params_step sd_params_plain last event_params_def)
  have frame: "format_rfc5424 hostname_file pid ev facility =
      ''<'' @ show_nat (facility * 8 + 5) @ CHR ''>'' # ''1'' @ CHR '' '' # ae_created_at ev @ CHR '' '' # ?host @
      CHR '' '' # ''sysknife-daemon'' @ CHR '' '' # show_nat pid @ CHR '' '' # ''AUDIT'' @ CHR '' '' #
      ''[sysknife@32473'' @ sd @ CHR '']'' # msg"
    by (simp add: format_rfc5424_def Let_def sd_def msg_def terminal_def)
  have no: "CHR ''>'' \<notin> set (show_nat n)" "CHR '' '' \<notin> set (show_nat n)" for n
    by (simp_all add: show_nat_no is_ascii_digit_def)
  have strip: "strip_prefix s [] = Some s" "strip_prefix (c # s) (c # p) = strip_prefix s p" for c and s p :: str
    by (simp_all add: strip_prefix_def)
  have m: "strip_prefix msg '' '' = Some (''['' @ ae_action_name ev @ ''] '' @ ae_summary ev)"
    by (simp add: msg_def strip)
  show ?thesis
    unfolding frame read_frame_def token_def
    by (simp add: strip split_once_here [OF no(1)] split_once_here [OF no(2)] split_once_here [OF assms]
        split_once_here [OF hostname_no_space] params m)
qed

definition demo_event :: audit_event where
  "demo_event = \<lparr>ae_seq = 7, ae_transaction_id = ''t1'', ae_action_name = ''SetHostname'', ae_risk_level = Medium,
    ae_summary = ''Set the host name'', ae_approval_id = None, ae_created_at = ''2026-01-02T03:04:05.678Z'',
    ae_chain_hash = ''ab'', ae_key_id = ''k'' @ [CHR 0x22] @ ''] x'', ae_caller_role = Some ''Dev'',
    ae_final_status = Some ''succeeded''\<rparr>"

theorem forwarded_event_reads_back_witness:
  "read_frame (format_rfc5424 None 42 demo_event 1) =
    Some (show_nat (1 * 8 + 5), ''2026-01-02T03:04:05.678Z'', ''-'', event_params demo_event,
      ''[SetHostname] Set the host name'')"
  using forwarded_event_reads_back [of demo_event None 42 1]
  by (simp add: demo_event_def read_hostname_def)

end
