(* ===== verification/Calendar.thy ===== *)
theory Calendar
  imports Sql_Time "HOL-Library.Signed_Division"
begin

text \<open>
  The two hand-written calendars: \<open>format_rfc3339\<close> of the planner's safety log
  (\<open>crates/sysknife-brain/src/audit.rs\<close>) and \<open>rfc3339_to_unix\<close> with \<open>since_to_hours\<close> of the command line
  (\<open>apps/sysknife-cli/src/runner.rs\<close>). Seconds and days are unbounded integers where no value can leave 64
  bits; the reader's sums wrap, as in a release build.
\<close>

section \<open>Writing a time\<close>

definition pad_min :: "nat \<Rightarrow> nat \<Rightarrow> str" where
  "pad_min w n = replicate (w - length (show_nat n)) CHR ''0'' @ show_nat n"

text \<open>Day of the era to year of the era, day of the year, month and day.\<close>

definition year_of_era :: "int \<Rightarrow> int" where
  "year_of_era doe = (doe - doe div 1460 + doe div 36524 - doe div 146096) div 365"

definition day_of_year :: "int \<Rightarrow> int" where
  "day_of_year doe = (let yoe = year_of_era doe in doe - (365 * yoe + yoe div 4 - yoe div 100))"

definition civil_of_days :: "int \<Rightarrow> int \<times> int \<times> int" where
  "civil_of_days days =
    (let z = days + 719468;
         era = (if z \<ge> 0 then z else z - 146096) sdiv 146097;
         doe = z - era * 146097;
         y = year_of_era doe + era * 400;
         doy = day_of_year doe;
         mp = (5 * doy + 2) div 153;
         d = doy - (153 * mp + 2) div 5 + 1;
         m = (if mp < 10 then mp + 3 else mp - 9)
     in (if m \<le> 2 then y + 1 else y, m, d))"

definition format_rfc3339 :: "nat \<Rightarrow> str" where
  "format_rfc3339 secs =
    (let days = int (secs div 86400);
         time_of_day = secs mod 86400;
         (y, m, d) = civil_of_days days
     in pad_min 4 (nat y) @ CHR ''-'' # pad_min 2 (nat m) @ CHR ''-'' # pad_min 2 (nat d) @ CHR ''T'' #
        pad_min 2 (time_of_day div 3600) @ CHR '':'' # pad_min 2 (time_of_day mod 3600 div 60) @ CHR '':'' #
        pad_min 2 (time_of_day mod 60) @ ''Z'')"

section \<open>Reading a time\<close>

definition i64_max :: nat where "i64_max = 2 ^ 63 - 1"

definition wrap64 :: "int \<Rightarrow> int" where
  "wrap64 n = (n + 2 ^ 63) mod 2 ^ 64 - 2 ^ 63"

text \<open>\<open>str::parse::<i64>\<close>.\<close>

definition parse_i64 :: "str \<Rightarrow> int option" where
  "parse_i64 s = (case s of
      [] \<Rightarrow> None
    | c # cs \<Rightarrow>
        if c = CHR ''+'' \<and> cs \<noteq> [] then map_option int (parse_digits i64_max 0 cs)
        else if c = CHR ''-'' \<and> cs \<noteq> [] then map_option (\<lambda>n. - int n) (parse_digits (2 ^ 63) 0 cs)
        else map_option int (parse_digits i64_max 0 s))"

definition strip_suffix :: "str \<Rightarrow> str \<Rightarrow> str option" where
  "strip_suffix s p = (if suffix p s then Some (take (length s - length p) s) else None)"

text \<open>Three numbers and nothing after them.\<close>

definition three_numbers :: "char \<Rightarrow> str \<Rightarrow> (int \<times> int \<times> int) option" where
  "three_numbers sep s = (case splitn 4 sep s of
      [a, b, c] \<Rightarrow> (case (parse_i64 a, parse_i64 b, parse_i64 c) of
          (Some x, Some y, Some z) \<Rightarrow> Some (x, y, z)
        | _ \<Rightarrow> None)
    | _ \<Rightarrow> None)"

definition days_of_civil :: "int \<Rightarrow> int \<Rightarrow> int \<Rightarrow> int" where
  "days_of_civil y m d =
    (let z = (if m > 2 then y else wrap64 (y - 1));
         era = (if z \<ge> 0 then z else wrap64 (z - 399)) sdiv 400;
         yoe = z - era * 400;
         m_adj = (if m > 2 then m - 3 else m + 9);
         doy = (153 * m_adj + 2) div 5 + d - 1;
         doe = yoe * 365 + yoe div 4 - yoe div 100 + doy
     in era * 146097 + doe - 719468)"

definition rfc3339_to_unix :: "str \<Rightarrow> int option" where
  "rfc3339_to_unix s =
    Option.bind (case strip_suffix s ''Z'' of Some r \<Rightarrow> Some r | None \<Rightarrow> strip_suffix s ''+00:00'') (\<lambda>s.
    Option.bind (split_once CHR ''T'' s) (\<lambda>(date_part, time_and_frac).
    let time_part = (case split_once CHR ''.'' time_and_frac of Some (t, _) \<Rightarrow> t | None \<Rightarrow> time_and_frac) in
    if length time_part < 8 then None
    else Option.bind (three_numbers CHR ''-'' date_part) (\<lambda>(y, m, d).
      Option.bind (three_numbers CHR '':'' time_part) (\<lambda>(h, mn, sec).
      if \<not> (1 \<le> m \<and> m \<le> 12) \<or> \<not> (1 \<le> d \<and> d \<le> 31) \<or> h > 23 \<or> mn > 59 \<or> sec > 60 then None
      else Some (wrap64 (days_of_civil y m d * 86400 + h * 3600 + mn * 60 + sec))))))"

text \<open>The clock is an argument; \<open>None\<close> also for a time in the future.\<close>

definition since_to_hours :: "int \<Rightarrow> str \<Rightarrow> nat option" where
  "since_to_hours now s = Option.bind (rfc3339_to_unix s) (\<lambda>epoch.
    if epoch > now then None
    else let hours = wrap64 (now - epoch) sdiv 3600
      in if 0 \<le> hours \<and> hours \<le> int u32_max then Some (nat hours) else None)"

section \<open>The algorithms against the calendar\<close>

lemma year_of_era_bounds:
  assumes "0 \<le> doe" "doe \<le> 146096"
  shows "0 \<le> year_of_era doe" "year_of_era doe \<le> 399" "0 \<le> day_of_year doe" "day_of_year doe \<le> 365"
proof -
  define q where "q = doe div 1460"
  define c where "c = doe div 36524"
  define e where "e = doe div 146096"
  define Y where "Y = (doe - q + c - e) div 365"
  define a where "a = Y div 4"
  have q: "1460 * q \<le> doe" "doe < 1460 * q + 1460" by (simp_all add: q_def)
  have c: "36524 * c \<le> doe" "doe < 36524 * c + 36524" by (simp_all add: c_def)
  have e: "146096 * e \<le> doe" "doe < 146096 * e + 146096" by (simp_all add: e_def)
  have Y: "365 * Y \<le> doe - q + c - e" "doe - q + c - e < 365 * Y + 365" by (simp_all add: Y_def)
  have a: "4 * a \<le> Y" "Y < 4 * a + 4" by (simp_all add: a_def)
  have yoe: "year_of_era doe = Y" by (simp add: year_of_era_def Y_def q_def c_def e_def)
  have doy: "day_of_year doe = doe - (365 * Y + a - Y div 100)" by (simp add: day_of_year_def yoe a_def Let_def)
  have "c \<in> {0, 1, 2, 3, 4}" using assms c by auto
  moreover have "e = (if doe = 146096 then 1 else 0)" using assms e by auto
  ultimately consider "doe = 146096" | "e = 0" "c \<in> {0, 1, 2, 3}" "doe < 146096" using c e assms by force
  then have "0 \<le> Y \<and> Y \<le> 399 \<and> 0 \<le> day_of_year doe \<and> day_of_year doe \<le> 365"
  proof cases
    case 1
    then show ?thesis by (simp add: day_of_year_def year_of_era_def a_def Y_def q_def c_def e_def Let_def)
  next
    case 2
    have lo: "100 * c \<le> Y" and hi: "Y < 100 * c + 100"
      using 2 q c Y by auto
    have "Y div 100 = c" using lo hi by (simp add: div_pos_geq)
    moreover have "a \<le> q" "q \<le> a + 1" using 2 q c Y a by auto
    ultimately show ?thesis using 2 q c Y a lo hi by (auto simp: doy)
  qed
  then show "0 \<le> year_of_era doe" "year_of_era doe \<le> 399" "0 \<le> day_of_year doe" "day_of_year doe \<le> 365"
    by (simp_all add: yoe)
qed

text \<open>The month and the day that \<open>civil_of_days\<close> computes are in range, and the reader's count undoes it.\<close>

lemma month_of_day:
  assumes "0 \<le> doy" "doy \<le> (365 :: int)"
  defines "mp \<equiv> (5 * doy + 2) div 153"
  shows "0 \<le> mp" "mp \<le> 11" "1 \<le> doy - (153 * mp + 2) div 5 + 1" "doy - (153 * mp + 2) div 5 + 1 \<le> 31"
proof -
  have mp: "153 * mp \<le> 5 * doy + 2" "5 * doy + 2 < 153 * mp + 153" by (simp_all add: mp_def)
  have q: "5 * ((153 * mp + 2) div 5) \<le> 153 * mp + 2" "153 * mp + 2 < 5 * ((153 * mp + 2) div 5) + 5" by simp_all
  show "0 \<le> mp" "mp \<le> 11" using mp assms by linarith+
  show "1 \<le> doy - (153 * mp + 2) div 5 + 1" using mp q by linarith
  show "doy - (153 * mp + 2) div 5 + 1 \<le> 31" using mp q by linarith
qed

lemma wrap64_small: "- (2 ^ 63) \<le> n \<Longrightarrow> n < 2 ^ 63 \<Longrightarrow> wrap64 n = n"
  by (simp add: wrap64_def)

lemma sdiv_nonneg: "0 \<le> a \<Longrightarrow> 0 \<le> b \<Longrightarrow> a sdiv b = a div (b :: int)"
  by (simp add: signed_divide_int_def sgn_if)

text \<open>The reader's count for years in which nothing wraps.\<close>

definition march_days :: "int \<Rightarrow> int" where
  "march_days z = 365 * z + z div 4 - z div 100 + z div 400 - 719468"

lemma days_of_civil_eq:
  assumes z: "z = (if m > 2 then y else y - 1)" "0 \<le> z" "z < 2 ^ 62"
  shows "days_of_civil y m d = march_days z + (153 * (if m > 2 then m - 3 else m + 9) + 2) div 5 + d - 1"
proof -
  define r where "r = z - z div 400 * 400"
  have r: "z = r + 400 * (z div 400)" by (simp add: r_def)
  have "z div 4 = r div 4 + 100 * (z div 400)" "z div 100 = r div 100 + 4 * (z div 400)"
    by (subst r, simp)+
  moreover have z1: "(if m > 2 then y else wrap64 (y - 1)) = z" using z by (auto simp: wrap64_small)
  moreover have e: "(if z \<ge> 0 then z else wrap64 (z - 399)) sdiv 400 = z div 400" using z(2) by (simp add: sdiv_nonneg)
  moreover define D where "D = (153 * (if m > 2 then m - 3 else m + 9) + 2) div 5"
  moreover have "days_of_civil y m d = z div 400 * 146097 + (r * 365 + r div 4 - r div 100 + (D + d - 1)) - 719468"
    unfolding days_of_civil_def Let_def z1 e r_def [symmetric] D_def [symmetric] by (rule refl)
  ultimately show ?thesis using r unfolding march_days_def by linarith
qed

lemma civil_of_days:
  assumes n: "0 \<le> n" "n < 2 ^ 60" and c: "civil_of_days n = (y, m, d)"
  shows "0 \<le> y" "y \<le> n + 719468" "1 \<le> m" "m \<le> 12" "1 \<le> d" "d \<le> 31" "days_of_civil y m d = n"
proof -
  define era where "era = (n + 719468) div 146097"
  define doe where "doe = n + 719468 - era * 146097"
  define Y where "Y = year_of_era doe"
  define doy where "doy = day_of_year doe"
  define mp where "mp = (5 * doy + 2) div 153"
  have era: "0 \<le> era" "146097 * era \<le> n + 719468" "n + 719468 < 146097 * era + 146097"
    using n by (simp_all add: era_def pos_imp_zdiv_nonneg_iff)
  then have doe: "0 \<le> doe" "doe \<le> 146096" by (simp_all add: doe_def)
  note Y = year_of_era_bounds [OF doe, folded Y_def doy_def]
  note mp = month_of_day [OF Y(3,4), folded mp_def]
  have doy: "doe = 365 * Y + Y div 4 - Y div 100 + doy" by (simp add: doy_def day_of_year_def Y_def Let_def)
  define M where "M = (if mp < 10 then mp + 3 else mp - 9)"
  have e0: "(if n + 719468 \<ge> 0 then n + 719468 else n + 719468 - 146096) sdiv 146097 = era"
    using n by (simp add: era_def sdiv_nonneg)
  have civil: "civil_of_days n =
      (if M \<le> 2 then Y + era * 400 + 1 else Y + era * 400, M, doy - (153 * mp + 2) div 5 + 1)"
    unfolding civil_of_days_def Let_def e0 doe_def [symmetric] Y_def [symmetric] doy_def [symmetric]
      mp_def [symmetric] M_def [symmetric] by (rule refl)
  have "M \<le> 2 \<longleftrightarrow> \<not> mp < 10" using mp by (simp add: M_def)
  with civil c have y: "y = (if mp < 10 then Y + era * 400 else Y + era * 400 + 1)"
    and m: "m = (if mp < 10 then mp + 3 else mp - 9)" and d: "d = doy - (153 * mp + 2) div 5 + 1"
    by (simp_all add: M_def)
  show "0 \<le> y" "1 \<le> m" "m \<le> 12" "1 \<le> d" "d \<le> 31" using y m d mp Y era by auto
  show "y \<le> n + 719468"
  proof -
    have "146097 * era + doe = n + 719468" by (simp add: doe_def)
    moreover have "0 < Y \<longrightarrow> 365 * Y \<le> doe" using doy Y zdiv_mono2 [of Y 4 100] by simp
    moreover have "mp < 10 \<or> 0 < doy" using mp(1) Y(3) by (auto simp: mp_def)
    ultimately show ?thesis using y Y era doy by (auto split: if_splits)
  qed
  have z: "(if m > 2 then y else y - 1) = Y + era * 400" and ma: "(if m > 2 then m - 3 else m + 9) = mp"
    using y m mp by auto
  have "days_of_civil y m d = march_days (Y + era * 400) + (153 * mp + 2) div 5 + d - 1"
    using days_of_civil_eq [of "Y + era * 400" m y d] z ma Y era n \<open>y \<le> n + 719468\<close> by (simp split: if_splits)
  moreover have "march_days (Y + era * 400) = 146097 * era + 365 * Y + Y div 4 - Y div 100 - 719468"
  proof -
    have "(Y + era * 400) div 4 = Y div 4 + era * 100" "(Y + era * 400) div 100 = Y div 100 + era * 4"
      using div_mult_self1 [of 4 Y "era * 100"] div_mult_self1 [of 100 Y "era * 4"] by (simp_all add: mult.assoc)
    with Y show ?thesis by (simp add: march_days_def)
  qed
  ultimately show "days_of_civil y m d = n" using doy d by (simp add: doe_def)
qed

text \<open>It also undoes the database's calendar, which counts day by day.\<close>

lemma march_days_Suc: "march_days (int (Suc x)) = march_days (int x) + 365 + (if is_leap (Suc x) then 1 else 0)"
proof -
  have step: "int (Suc x) div int k = int x div int k + (if k dvd Suc x then 1 else 0)" for k
    unfolding of_nat_div [symmetric] by (simp add: div_Suc dvd_eq_mod_eq_0)
  have "400 dvd Suc x \<Longrightarrow> 100 dvd Suc x" using dvd_trans [of 100 400 "Suc x"] by simp
  moreover have "100 dvd Suc x \<Longrightarrow> 4 dvd Suc x" using dvd_trans [of 4 100 "Suc x"] by simp
  moreover have "(C \<Longrightarrow> B) \<Longrightarrow> (B \<Longrightarrow> A) \<Longrightarrow>
      q4' = q4 + (if A then 1 else 0) \<Longrightarrow> q100' = q100 + (if B then 1 else 0) \<Longrightarrow> q400' = q400 + (if C then 1 else 0) \<Longrightarrow>
      365 * int (Suc x) + q4' - q100' + q400' - 719468 =
      365 * int x + q4 - q100 + q400 - 719468 + 365 + (if A \<and> (\<not> B \<or> C) then 1 else 0)"
    for A B C and q4 q4' q100 q100' q400 q400' :: int
    by (cases A; cases B; cases C) auto
  ultimately show ?thesis
    using step [of 4] step [of 100] step [of 400] unfolding march_days_def is_leap_def of_nat_numeral by blast
qed

fun day_number :: "nat \<times> nat \<times> nat \<Rightarrow> int" where
  "day_number (y, m, d) = days_of_civil (int y) (int m) (int d)"

lemma day_number_next:
  assumes ok: "date_ok p" and y: "1 \<le> fst p" "fst p < 10000"
  shows "day_number (next_date p) = day_number p + 1"
proof -
  obtain x m d where p: "p = (Suc x, m, d)" using y by (cases p; cases "fst p") auto
  have x: "x < 10000" using y p by simp
  have count: "day_number (Suc a, k, e) =
      (if k > 2 then march_days (int (Suc a)) else march_days (int a)) +
      (153 * (if k > 2 then int k - 3 else int k + 9) + 2) div 5 + int e - 1" if "a < 20000" for a k e
    using that days_of_civil_eq [of "if k > 2 then int (Suc a) else int a" "int k" "int (Suc a)" "int e"] by simp
  show ?thesis
  proof (cases "d < days_in_month (Suc x) m")
    case True
    with x show ?thesis by (simp add: p count del: day_number.simps of_nat_Suc)
  next
    case False
    then have d: "d = days_in_month (Suc x) m" using ok p by simp
    have "1 \<le> m" "m \<le> 12" using ok p by auto
    then have "m = 1 \<or> m = 2 \<or> m = 3 \<or> m = 4 \<or> m = 5 \<or> m = 6 \<or> m = 7 \<or> m = 8 \<or> m = 9 \<or> m = 10 \<or> m = 11 \<or> m = 12"
      by presburger
    then show ?thesis
      using x march_days_Suc [of x] unfolding p d by (elim disjE) (simp_all add: count days_in_month_def del: day_number.simps of_nat_Suc, simp_all)
  qed
qed

lemma day_number_of_day: "n < day_limit \<Longrightarrow> 1970 \<le> fst (date_of_day n) \<and> day_number (date_of_day n) = int n"
proof (induction n)
  case 0
  show ?case by (simp add: days_of_civil_eq [of 1969] march_days_def)
next
  case (Suc n)
  then have "1970 \<le> fst (date_of_day n)" "day_number (date_of_day n) = int n" by simp_all
  moreover have "fst (date_of_day n) < 10000" using Suc.prems year_bound [of n] by simp
  moreover have "fst p \<le> fst (next_date p)" for p by (cases p) simp
  ultimately show ?case
    using day_number_next [OF date_of_day_ok [of n]] by (simp del: next_date.simps) (use order_trans in blast)
qed

section \<open>The texts\<close>

lemma parse_pad: "n < 10 ^ w \<Longrightarrow> n \<le> mx \<Longrightarrow> parse_digits mx 0 (pad w n) = Some n"
proof (induction w arbitrary: n)
  case (Suc w)
  then have "parse_digits mx 0 (pad w (n div 10)) = Some (n div 10)" by (simp add: less_mult_imp_div_less)
  with Suc.prems show ?case by (simp add: parse_digits_append digit_char_digit digit_val_char)
qed simp

lemma parse_pad_min: "n \<le> mx \<Longrightarrow> parse_digits mx 0 (pad_min w n) = Some n"
proof -
  have "parse_digits mx 0 (replicate k CHR ''0'' @ s) = parse_digits mx 0 s" for k s
    by (induction k) (simp_all add: is_ascii_digit_def digit_val_def)
  then show "n \<le> mx \<Longrightarrow> ?thesis" by (simp add: pad_min_def parse_show_digits)
qed

lemma parse_i64_digits:
  assumes "parse_digits i64_max 0 s = Some n" "s \<noteq> []"
  shows "parse_i64 s = Some (int n)"
proof -
  obtain c cs where s: "s = c # cs" using assms by (cases s) auto
  have "is_ascii_digit c" using parse_digits_ascii [OF assms(1)] s by simp
  then have "c \<noteq> CHR ''+''" "c \<noteq> CHR ''-''" by (auto simp: is_ascii_digit_def)
  with s assms show ?thesis by (simp add: parse_i64_def)
qed

lemma three_numbers_digits:
  assumes n: "parse_digits i64_max 0 a = Some x" "parse_digits i64_max 0 b = Some y" "parse_digits i64_max 0 c = Some z"
    and ne: "a \<noteq> []" "b \<noteq> []" "c \<noteq> []" and sep: "\<not> is_ascii_digit sep"
  shows "three_numbers sep (a @ sep # b @ sep # c) = Some (int x, int y, int z)"
proof -
  have no: "sep \<notin> set a" "sep \<notin> set b" "sep \<notin> set c" using n sep parse_digits_ascii by (force simp: list_all_iff)+
  have "split_once sep (a @ sep # b @ sep # c) = Some (a, b @ sep # c)" "split_once sep (b @ sep # c) = Some (b, c)"
    "split_once sep c = None" using no by (simp_all add: split_once_Some split_once_None)
  then show ?thesis using parse_i64_digits n ne by (simp add: three_numbers_def eval_nat_numeral)
qed

text \<open>A text with digits in the six places, and what the reader makes of it.\<close>

definition six_fields :: "str \<Rightarrow> str \<Rightarrow> str \<Rightarrow> str \<Rightarrow> str \<Rightarrow> str \<Rightarrow> str" where
  "six_fields y m d h mn s = (y @ CHR ''-'' # m @ CHR ''-'' # d) @ CHR ''T'' # (h @ CHR '':'' # mn @ CHR '':'' # s)"

lemma rfc3339_to_unix_fields:
  assumes digits: "parse_digits i64_max 0 ys = Some y" "parse_digits i64_max 0 ms = Some m" "parse_digits i64_max 0 ds = Some d"
      "parse_digits i64_max 0 hs = Some h" "parse_digits i64_max 0 mns = Some mn" "parse_digits i64_max 0 ss = Some sec"
    and len: "ys \<noteq> []" "ms \<noteq> []" "ds \<noteq> []" "2 \<le> length hs" "2 \<le> length mns" "2 \<le> length ss"
    and range: "1 \<le> m" "m \<le> 12" "1 \<le> d" "d \<le> 31" "h \<le> 23" "mn \<le> 59" "sec \<le> 60"
    and frac: "frac = [] \<or> (\<exists>r. frac = CHR ''.'' # r)"
  shows "rfc3339_to_unix (six_fields ys ms ds hs mns ss @ frac @ ''Z'') =
    Some (wrap64 (days_of_civil (int y) (int m) (int d) * 86400 + int h * 3600 + int mn * 60 + int sec))"
proof -
  define dt where "dt = ys @ CHR ''-'' # ms @ CHR ''-'' # ds"
  define tm where "tm = hs @ CHR '':'' # mns @ CHR '':'' # ss"
  note ascii = digits [THEN parse_digits_ascii]
  have "CHR ''T'' \<notin> set dt" using ascii(1-3) by (auto simp: dt_def list_all_iff is_ascii_digit_def)
  then have T: "split_once CHR ''T'' (dt @ CHR ''T'' # tm @ frac) = Some (dt, tm @ frac)" by (simp add: split_once_Some)
  have dot: "CHR ''.'' \<notin> set tm" using ascii(4-6) by (auto simp: tm_def list_all_iff is_ascii_digit_def)
  have tp: "(case split_once CHR ''.'' (tm @ frac) of Some (t, _) \<Rightarrow> t | None \<Rightarrow> tm @ frac) = tm"
  proof (cases "frac = []")
    case True
    with dot have "split_once CHR ''.'' tm = None" by (simp add: split_once_None)
    with True show ?thesis by simp
  next
    case False
    then obtain r where "frac = CHR ''.'' # r" using frac by blast
    with dot have "split_once CHR ''.'' (tm @ frac) = Some (tm, r)" by (simp add: split_once_Some)
    then show ?thesis by simp
  qed
  have l: "8 \<le> length tm" using len by (simp add: tm_def)
  have d3: "three_numbers CHR ''-'' dt = Some (int y, int m, int d)"
    unfolding dt_def using digits len by (intro three_numbers_digits) (auto simp: is_ascii_digit_def)
  have t3: "three_numbers CHR '':'' tm = Some (int h, int mn, int sec)"
    unfolding tm_def using digits len by (intro three_numbers_digits) (auto simp: is_ascii_digit_def)
  have "strip_suffix (u @ ''Z'') ''Z'' = Some u" for u :: str by (simp add: strip_suffix_def suffix_def)
  from this [of "(dt @ CHR ''T'' # tm) @ frac"] show ?thesis
    unfolding six_fields_def dt_def [symmetric] tm_def [symmetric] rfc3339_to_unix_def
    using T tp l d3 t3 range by simp
qed

lemma six_fields_written:
  "format_rfc3339 t =
    (case civil_of_days (int (t div 86400)) of (y, m, d) \<Rightarrow>
      six_fields (pad_min 4 (nat y)) (pad_min 2 (nat m)) (pad_min 2 (nat d)) (pad_min 2 (t mod 86400 div 3600))
        (pad_min 2 (t mod 86400 mod 3600 div 60)) (pad_min 2 (t mod 86400 mod 60))) @ [] @ ''Z''"
  "strftime_ms t =
    (case date_of_day (day_of t) of (y, m, d) \<Rightarrow>
      six_fields (pad 4 y) (pad 2 m) (pad 2 d) (pad 2 (t mod ms_per_day div 1000 div 3600))
        (pad 2 (t mod ms_per_day div 1000 div 60 mod 60)) (pad 2 (t mod ms_per_day div 1000 mod 60)))
      @ (CHR ''.'' # pad 3 (t mod 1000)) @ ''Z''"
  by (auto simp: format_rfc3339_def strftime_ms_def six_fields_def render_hms_def Let_def split: prod.split simp del: pad.simps)

lemma pad_min_length: "w \<le> length (pad_min w n)"
  by (simp add: pad_min_def)

lemma clock_sum: "int (s div 3600) * 3600 + int (s div 60 mod 60) * 60 + int (s mod 60) = int s"
  "s mod 3600 div 60 = s div 60 mod 60"
proof -
  have "s div 60 div 60 = s div 3600" by (simp add: div_mult2_eq [symmetric])
  moreover have "s = s div 60 * 60 + s mod 60" "s div 60 = s div 60 div 60 * 60 + s div 60 mod 60" by simp_all
  ultimately have "s div 3600 * 3600 + s div 60 mod 60 * 60 + s mod 60 = s" by linarith
  then show "int (s div 3600) * 3600 + int (s div 60 mod 60) * 60 + int (s mod 60) = int s" by linarith
  show "s mod 3600 div 60 = s div 60 mod 60" using mod_mult2_eq [of s 60 60] by simp
qed

lemma written_time_read:
  assumes t: "t < 2 ^ 63"
  shows "rfc3339_to_unix (format_rfc3339 t) = Some (int t)"
proof -
  define r where "r = t mod 86400"
  obtain y m d where c: "civil_of_days (int (t div 86400)) = (y, m, d)" by (cases "civil_of_days (int (t div 86400))") auto
  have n: "int (t div 86400) < 2 ^ 60" using t by simp
  note civ = civil_of_days [OF _ n c]
  have r: "r < 86400" by (simp add: r_def)
  have b: "nat y \<le> i64_max" "nat m \<le> i64_max" "nat d \<le> i64_max" using civ n by (simp_all add: i64_max_def)
  have h: "r div 3600 \<le> 23" "r div 60 mod 60 \<le> 59" "r mod 60 \<le> 60" "r div 3600 \<le> i64_max" "r div 60 mod 60 \<le> i64_max"
    "r mod 60 \<le> i64_max" using r mod_less_divisor [of 60 "r div 60"] mod_less_divisor [of 60 r] by (simp_all add: i64_max_def)
  have fmt: "format_rfc3339 t = six_fields (pad_min 4 (nat y)) (pad_min 2 (nat m)) (pad_min 2 (nat d)) (pad_min 2 (r div 3600))
        (pad_min 2 (r div 60 mod 60)) (pad_min 2 (r mod 60)) @ [] @ ''Z''"
    unfolding six_fields_written(1) c r_def [symmetric] by (simp add: clock_sum(2))
  have ne: "pad_min w n \<noteq> []" for w n by (simp add: pad_min_def show_nat_nonempty)
  have sum: "int (t div 86400) * 86400 + int (r div 3600) * 3600 + int (r div 60 mod 60) * 60 + int (r mod 60) = int t"
    using clock_sum(1) [of r] div_mult_mod_eq [of t 86400] unfolding r_def by linarith
  have nm: "1 \<le> nat m" "nat m \<le> 12" "1 \<le> nat d" "nat d \<le> 31" using civ by simp_all
  have "rfc3339_to_unix (format_rfc3339 t) = Some (wrap64 (days_of_civil (int (nat y)) (int (nat m)) (int (nat d)) * 86400 +
      int (r div 3600) * 3600 + int (r div 60 mod 60) * 60 + int (r mod 60)))"
    unfolding fmt
    by (rule rfc3339_to_unix_fields [OF b [THEN parse_pad_min] h(4-6) [THEN parse_pad_min] ne ne ne
          pad_min_length pad_min_length pad_min_length nm h(1-3)]) simp
  also have "\<dots> = Some (int t)" using civ sum t by (simp add: wrap64_small)
  finally show ?thesis .
qed

lemma stored_time_read:
  assumes t: "day_of t < day_limit"
  shows "rfc3339_to_unix (strftime_ms t) = Some (int (t div 1000))"
proof -
  define r where "r = t mod ms_per_day div 1000"
  obtain y m d where c: "date_of_day (day_of t) = (y, m, d)" by (cases "date_of_day (day_of t)") auto
  have ok: "1 \<le> m" "m \<le> 12" "1 \<le> d" "d \<le> 31" "y < 10000"
    using date_of_day_ok [of "day_of t"] year_bound [OF t] c days_in_month_bounds(2) [of y m] by auto
  have num: "days_of_civil (int y) (int m) (int d) = int (day_of t)" using day_number_of_day [OF t] c by simp
  have r: "r < 86400" by (simp add: r_def ms_per_day_def)
  have h: "r div 3600 \<le> 23" "r div 60 mod 60 \<le> 59" "r mod 60 \<le> 60"
    using r mod_less_divisor [of 60 "r div 60"] mod_less_divisor [of 60 r] by simp_all
  have p: "parse_digits i64_max 0 (pad 2 n) = Some n" if "n \<le> 60" for n using that parse_pad [of n 2] by (simp add: i64_max_def)
  have y: "parse_digits i64_max 0 (pad 4 y) = Some y" using ok parse_pad [of y 4] by (simp add: i64_max_def)
  have sum: "int (day_of t) * 86400 + int (r div 3600) * 3600 + int (r div 60 mod 60) * 60 + int (r mod 60) = int (t div 1000)"
  proof -
    have "t div 1000 = day_of t * 86400 + r"
      using div_mult_mod_eq [of t ms_per_day] div_mult_self3 [of 1000 "day_of t * 86400" "t mod ms_per_day"]
      unfolding r_def by (simp add: day_of_def ms_per_day_def)
    then show ?thesis using clock_sum(1) [of r] by linarith
  qed
  have two: "parse_digits i64_max 0 (pad 2 m) = Some m" "parse_digits i64_max 0 (pad 2 d) = Some d"
      "parse_digits i64_max 0 (pad 2 (r div 3600)) = Some (r div 3600)"
      "parse_digits i64_max 0 (pad 2 (r div 60 mod 60)) = Some (r div 60 mod 60)"
      "parse_digits i64_max 0 (pad 2 (r mod 60)) = Some (r mod 60)"
    using ok h by (simp_all add: p del: pad.simps)
  have "pad w n \<noteq> []" if "0 < w" for w n using that pad_length [of w n] by fastforce
  then have ne: "pad 4 y \<noteq> []" "pad 2 m \<noteq> []" "pad 2 d \<noteq> []" by simp_all
  have len: "2 \<le> length (pad 2 a)" "2 \<le> length (pad 2 b)" "2 \<le> length (pad 2 c)" for a b c by (simp_all del: pad.simps)
  have "rfc3339_to_unix (strftime_ms t) = Some (wrap64 (days_of_civil (int y) (int m) (int d) * 86400 +
      int (r div 3600) * 3600 + int (r div 60 mod 60) * 60 + int (r mod 60)))"
    unfolding six_fields_written(2) c prod.case r_def [symmetric]
    by (rule rfc3339_to_unix_fields [OF y two ne len ok(1-4) h]) (simp_all del: pad.simps)
  also have "\<dots> = Some (int (t div 1000))"
  proof -
    have "t < day_limit * ms_per_day" using t by (simp add: day_of_def ms_per_day_def div_less_iff_less_mult)
    then have "int (t div 1000) < 2 ^ 63" by (simp add: day_limit_def ms_per_day_def)
    then show ?thesis using sum by (simp add: num wrap64_small)
  qed
  finally show ?thesis .
qed

text \<open>The command line reads the times the program writes: every time of the planner's safety log below
  \<open>2^63\<close> seconds is read back exactly, and every creation time of the store up to the year 9999 is read back as the second
  it lies in, so the two hand-written calendars agree with each other and with the calendar of the database, leap
  days included.\<close>

theorem timestamps_read_back:
  assumes "secs < 2 ^ 63" and "day_of t < day_limit"
  shows "rfc3339_to_unix (format_rfc3339 secs) = Some (int secs) \<and>
    rfc3339_to_unix (strftime_ms t) = Some (int (t div 1000))"
  using written_time_read [OF assms(1)] stored_time_read [OF assms(2)] by (rule conjI)

text \<open>The last second of the leap day of 2024.\<close>

theorem timestamps_read_back_witness:
  "rfc3339_to_unix (format_rfc3339 1709251199) = Some 1709251199 \<and>
    rfc3339_to_unix (strftime_ms 951868799999) = Some 951868799"
  using timestamps_read_back [of 1709251199 951868799999] by (simp add: day_of_def ms_per_day_def day_limit_def)

text \<open>The day is checked against 31 in every month: the last of February is read as the third of March.\<close>

lemma impossible_date_read: "days_of_civil 2026 2 31 = days_of_civil 2026 3 3"
  by (simp add: days_of_civil_eq [of 2025] days_of_civil_eq [of 2026] march_days_def)

end
