(* ===== verification/Mcp.thy ===== *)
theory Mcp
  imports Cli_Client Interaction Calendar
begin

text \<open>
  The tools of \<open>sysknife mcp-server\<close> (\<open>apps/sysknife-cli/src/mcp_server.rs\<close>) that plan and execute, as programs
  over their effects: the configuration, the planner, the calls on the client. An assistant calls them; its
  arguments are the arguments of the definitions, and what it is told is the value at the end. The debug form
  of strings is the parameter \<open>dbg\<close>.
\<close>

section \<open>Errors\<close>

text \<open>\<open>Display\<close> of \<open>CliError\<close>.\<close>

fun cli_error_text :: "cli_error \<Rightarrow> str" where
  "cli_error_text Rejected = ''plan rejected by user''"
| "cli_error_text (ExecutionFailed s) = ''execution failed: '' @ s"
| "cli_error_text (PlanningFailed s) = ''planning failed: '' @ s"
| "cli_error_text (ConfigOrDaemon s) = ''config/daemon error: '' @ s"
| "cli_error_text (RiskCeilingExceeded highest ceiling) =
    ''plan contains a '' @ plan_risk_level_str highest @ '' step, but --max-risk ceiling is '' @ max_risk_str ceiling"
| "cli_error_text NonInteractive = ''plan requires interactive approval but --non-interactive was set''"
| "cli_error_text (ExitCode code) = ''subcommand exit code '' @ show_int code"

section \<open>Inputs and outputs\<close>

record plan_step_output =
  po_action_name :: str
  po_summary :: str
  po_risk_level :: str
  po_params :: json
  po_command :: str

record plan_output =
  pt_intent :: str
  pt_summary :: str
  pt_explanation :: str
  pt_steps :: "plan_step_output list"

record step_to_execute =
  se_action_name :: str
  se_params :: json

record step_result =
  sr_action_name :: str
  sr_status :: str
  sr_summary :: str
  sr_output :: "str list"
  sr_warnings :: "str list"
  sr_needs_reboot :: bool
  sr_transaction_id :: str

record execute_output =
  eo_steps :: "step_result list"
  eo_needs_reboot :: bool

text \<open>The plan through its JSON form: the command of a step is missing there, and empty by default.\<close>

definition step_output :: "plan_step \<Rightarrow> plan_step_output" where
  "step_output s = \<lparr>po_action_name = action_name_str (ps_action_name s), po_summary = ps_summary s,
    po_risk_level = plan_risk_level_str (ps_risk_level s), po_params = ps_params s, po_command = []\<rparr>"

definition output_of_plan :: "plan \<Rightarrow> plan_output" where
  "output_of_plan p = \<lparr>pt_intent = pl_intent p, pt_summary = pl_summary p, pt_explanation = pl_explanation p,
    pt_steps = map step_output (pl_steps p)\<rparr>"

section \<open>Programs\<close>

datatype setup_error = BrainConfigError str | PlannerInitError str

datatype 'a mcp =
    McpDone "(str, 'a) result"
  | McpSetup "(setup_error, unit) result \<Rightarrow> 'a mcp"
  | McpPlan str "(planning_error, plan) result \<Rightarrow> 'a mcp"
  | McpDescribe str json "(cli_error, str) result \<Rightarrow> 'a mcp"
  | McpPreview str json "(cli_error, preview_envelope) result \<Rightarrow> 'a mcp"
  | McpExecute str json str "str list \<times> (cli_error, result_envelope) result \<Rightarrow> 'a mcp"

datatype mcp_event =
    McpSetUp "(setup_error, unit) result"
  | McpPlanned str "(planning_error, plan) result"
  | McpDescribed str json "(cli_error, str) result"
  | McpPreviewed str json "(cli_error, preview_envelope) result"
  | McpExecuted str json str "str list \<times> (cli_error, result_envelope) result"

fun mcp_react :: "'a mcp \<Rightarrow> mcp_event \<Rightarrow> 'a mcp option" where
  "mcp_react (McpSetup k) (McpSetUp r) = Some (k r)"
| "mcp_react (McpPlan i k) (McpPlanned i' r) = (if i' = i then Some (k r) else None)"
| "mcp_react (McpDescribe n ps k) (McpDescribed n' ps' r) = (if n' = n \<and> ps' = ps then Some (k r) else None)"
| "mcp_react (McpPreview n ps k) (McpPreviewed n' ps' r) = (if n' = n \<and> ps' = ps then Some (k r) else None)"
| "mcp_react (McpExecute n ps h k) (McpExecuted n' ps' h' r) =
    (if n' = n \<and> ps' = ps \<and> h' = h then Some (k r) else None)"
| "mcp_react p e = None"

abbreviation mcp_follow :: "'a mcp \<Rightarrow> mcp_event list \<Rightarrow> 'a mcp option" where
  "mcp_follow \<equiv> follow_with mcp_react"

section \<open>Planning\<close>

fun enrich_with_commands :: "plan_output \<Rightarrow> plan_step_output list \<Rightarrow> plan_step_output list \<Rightarrow> plan_output mcp" where
  "enrich_with_commands output [] done_steps = McpDone (Inr (output\<lparr>pt_steps := done_steps\<rparr>))"
| "enrich_with_commands output (s # ss) done_steps =
    McpDescribe (po_action_name s) (po_params s) (\<lambda>r.
      enrich_with_commands output ss (done_steps @ [s\<lparr>po_command := (case r of
          Inr command \<Rightarrow> command
        | Inl e \<Rightarrow> CHR ''['' # cli_error_text e @ '']'')\<rparr>]))"

definition setup_error_text :: "setup_error \<Rightarrow> str" where
  "setup_error_text e = (case e of
      BrainConfigError s \<Rightarrow> ''config error: '' @ s
    | PlannerInitError s \<Rightarrow> ''planner init error: '' @ s)"

definition sysknife_plan :: "str \<Rightarrow> plan_output mcp" where
  "sysknife_plan intent = McpSetup (\<lambda>r. case r of
      Inl e \<Rightarrow> McpDone (Inl (setup_error_text e))
    | Inr _ \<Rightarrow> McpPlan intent (\<lambda>r. case r of
        Inl e \<Rightarrow> McpDone (Inl (''planning error: '' @ planning_error_text e))
      | Inr p \<Rightarrow> (let output = output_of_plan p in enrich_with_commands output (pt_steps output) [])))"

section \<open>Execution\<close>

definition OUTPUT_LINE_LIMIT :: nat where "OUTPUT_LINE_LIMIT = 500"

definition truncate_output :: "str list \<Rightarrow> str list" where
  "truncate_output ls =
    (if length ls > OUTPUT_LINE_LIMIT
     then take OUTPUT_LINE_LIMIT ls @ [''[truncated: '' @ show_nat (length ls - OUTPUT_LINE_LIMIT) @ '' more lines omitted]'']
     else ls)"

definition dquoted :: "str \<Rightarrow> str" where
  "dquoted s = CHR 0x22 # s @ [CHR 0x22]"

definition parse_max_risk :: "(str \<Rightarrow> str) \<Rightarrow> str option \<Rightarrow> (str, nat) result" where
  "parse_max_risk dbg s =
    (let raw = unwrap_or s ''medium''; level = to_ascii_lowercase raw in
     if level = ''low'' then Inr 0
     else if level = ''medium'' then Inr 1
     else if level = ''high'' then Inl (''max_risk='' @ dquoted ''high'' @ '' is not allowed via MCP '' @ em_dash @
       '' high-risk plans must be approved via the CLI or GUI confirmation flow'')
     else Inl (''invalid max_risk '' @ dbg raw @ '': expected '' @ dquoted ''low'' @ '' or '' @ dquoted ''medium''))"

fun risk_level_ord :: "risk_level \<Rightarrow> nat" where
  "risk_level_ord Low = 0"
| "risk_level_ord Medium = 1"
| "risk_level_ord High = 2"

definition check_risk_ceiling :: "risk_level \<Rightarrow> nat \<Rightarrow> (unit, unit) result" where
  "check_risk_ceiling risk ceiling = (if ceiling < risk_level_ord risk then Inl () else Inr ())"

definition over_max_risk :: "str \<Rightarrow> risk_level \<Rightarrow> str option \<Rightarrow> str" where
  "over_max_risk action_name risk max_risk =
    ''step '' @ CHR 0x27 # action_name @ [CHR 0x27] @ '' has risk '' @ CHR 0x27 # debug_risk risk @ [CHR 0x27] @
    '' which exceeds max_risk ceiling '' @ CHR 0x27 # unwrap_or max_risk ''medium'' @ [CHR 0x27]"

definition step_result_of :: "str \<Rightarrow> str list \<Rightarrow> result_envelope \<Rightarrow> step_result" where
  "step_result_of action_name ls v =
    \<lparr>sr_action_name = action_name, sr_status = job_state_str (rs_status v), sr_summary = rs_summary v,
     sr_output = truncate_output ls, sr_warnings = rs_warnings v, sr_needs_reboot = rs_needs_reboot v,
     sr_transaction_id = rs_transaction_id v\<rparr>"

text \<open>One turn of the loop: the preview, the gate, the call; \<open>go\<close> is the rest of the turn.\<close>

definition run_mcp_step ::
  "str option \<Rightarrow> nat \<Rightarrow> step_to_execute \<Rightarrow> (step_result \<Rightarrow> result_envelope \<Rightarrow> 'a mcp) \<Rightarrow> 'a mcp" where
  "run_mcp_step max_risk ceiling s go =
    (let name = se_action_name s; params = se_params s in
     McpPreview name params (\<lambda>r. case r of
       Inl e \<Rightarrow> McpDone (Inl (''preview error for '' @ name @ '': '' @ cli_error_text e))
     | Inr preview \<Rightarrow> (case check_risk_ceiling (pe_risk_level preview) ceiling of
         Inl _ \<Rightarrow> McpDone (Inl (over_max_risk name (pe_risk_level preview) max_risk))
       | Inr _ \<Rightarrow> McpExecute name params (request_hash_str (pe_request_hash preview)) (\<lambda>(ls, r). case r of
           Inl e \<Rightarrow> McpDone (Inl (''execute error for '' @ name @ '': '' @ cli_error_text e))
         | Inr v \<Rightarrow> go (step_result_of name ls v) v))))"

fun execute_steps :: "str option \<Rightarrow> nat \<Rightarrow> step_to_execute list \<Rightarrow> step_result list \<Rightarrow> bool \<Rightarrow> execute_output mcp" where
  "execute_steps max_risk ceiling [] results reboot =
    McpDone (Inr \<lparr>eo_steps = results, eo_needs_reboot = reboot\<rparr>)"
| "execute_steps max_risk ceiling (s # ss) results reboot =
    run_mcp_step max_risk ceiling s (\<lambda>sr v.
      if rs_status v = Succeeded
      then execute_steps max_risk ceiling ss (results @ [sr]) (reboot \<or> rs_needs_reboot v)
      else McpDone (Inr \<lparr>eo_steps = results @ [sr], eo_needs_reboot = reboot \<or> rs_needs_reboot v\<rparr>))"

definition execute_steps_inner :: "(str \<Rightarrow> str) \<Rightarrow> step_to_execute list \<Rightarrow> str option \<Rightarrow> execute_output mcp" where
  "execute_steps_inner dbg steps max_risk = (case parse_max_risk dbg max_risk of
      Inl e \<Rightarrow> McpDone (Inl e)
    | Inr ceiling \<Rightarrow> execute_steps max_risk ceiling steps [] False)"

end
