(* ===== verification/Mcp_Properties.thy ===== *)
theory Mcp_Properties
  imports Mcp
begin

text \<open>
  What an assistant can make the MCP server execute, and where the refusal of a step leaves the steps before it.
\<close>

section \<open>Following the programs\<close>

lemma mcp_follow_nodes:
  "mcp_follow (McpDone x) es = Some q \<longleftrightarrow> es = [] \<and> q = McpDone x"
  "mcp_follow (McpPreview n ps k) es = Some q \<longleftrightarrow>
    es = [] \<and> q = McpPreview n ps k \<or> (\<exists>r fs. es = McpPreviewed n ps r # fs \<and> mcp_follow (k r) fs = Some q)"
  "mcp_follow (McpExecute n ps h k2) es = Some q \<longleftrightarrow>
    es = [] \<and> q = McpExecute n ps h k2 \<or> (\<exists>r fs. es = McpExecuted n ps h r # fs \<and> mcp_follow (k2 r) fs = Some q)"
  by (cases es; cases "hd es"; auto)+

text \<open>The calls that execute something, with their results.\<close>

fun executed_call :: "mcp_event \<Rightarrow> (str \<times> json \<times> str \<times> (cli_error, result_envelope) result) option" where
  "executed_call (McpExecuted n ps h r) = Some (n, ps, h, snd r)"
| "executed_call e = None"

definition executed_calls :: "mcp_event list \<Rightarrow> (str \<times> json \<times> str \<times> (cli_error, result_envelope) result) list" where
  "executed_calls es = List.map_filter executed_call es"

lemma executed_calls_simps [simp]:
  "executed_calls [] = []"
  "executed_calls (e # es) = (case executed_call e of None \<Rightarrow> executed_calls es | Some c \<Rightarrow> c # executed_calls es)"
  by (simp_all add: executed_calls_def List.map_filter_simps split: option.split)

section \<open>The ceiling\<close>

text \<open>The risk levels a \<open>max_risk\<close> argument allows.\<close>

definition max_risk_allows :: "str option \<Rightarrow> risk_level \<Rightarrow> bool" where
  "max_risk_allows max_risk r =
    (let level = to_ascii_lowercase (unwrap_or max_risk ''medium'') in
     level = ''low'' \<and> r = Low \<or> level = ''medium'' \<and> r \<noteq> High)"

lemma ceiling_allows:
  assumes "parse_max_risk dbg max_risk = Inr ceiling"
  shows "check_risk_ceiling r ceiling = Inr () \<longleftrightarrow> max_risk_allows max_risk r"
  using assms
  by (cases r) (auto simp: parse_max_risk_def check_risk_ceiling_def max_risk_allows_def Let_def split: if_splits)

definition named :: "step_to_execute \<Rightarrow> str \<times> json" where
  "named s = (se_action_name s, se_params s)"

definition call_allowed ::
  "str option \<Rightarrow> mcp_event list \<Rightarrow> str \<times> json \<times> str \<times> (cli_error, result_envelope) result \<Rightarrow> bool" where
  "call_allowed max_risk es = (\<lambda>(n, ps, h, r).
    \<exists>pe. McpPreviewed n ps (Inr pe) \<in> set es \<and> h = request_hash_str (pe_request_hash pe) \<and>
      max_risk_allows max_risk (pe_risk_level pe))"

definition call_succeeded :: "str \<times> json \<times> str \<times> (cli_error, result_envelope) result \<Rightarrow> bool" where
  "call_succeeded = (\<lambda>(n, ps, h, r). \<exists>v. r = Inr v \<and> rs_status v = Succeeded)"

definition calls_in_order :: "str option \<Rightarrow> mcp_event list \<Rightarrow> step_to_execute list \<Rightarrow> bool" where
  "calls_in_order max_risk es ss =
    (\<exists>k\<le>length ss. map (\<lambda>(n, ps, h, r). (n, ps)) (executed_calls es) = map named (take k ss) \<and>
      list_all (call_allowed max_risk es) (executed_calls es) \<and>
      list_all call_succeeded (butlast (executed_calls es)))"

lemma no_calls: "executed_calls es = [] \<Longrightarrow> calls_in_order max_risk es ss"
  unfolding calls_in_order_def by (intro exI [of _ 0]) simp

lemma call_allowed_later: "call_allowed max_risk es c \<Longrightarrow> set es \<subseteq> set fs \<Longrightarrow> call_allowed max_risk fs c"
  by (cases c) (auto simp: call_allowed_def)

lemma next_call:
  assumes "calls_in_order max_risk fs ss" "executed_calls fs = [] \<or> rs_status v = Succeeded"
    and "max_risk_allows max_risk (pe_risk_level pe)"
  shows "calls_in_order max_risk (McpPreviewed (se_action_name s) (se_params s) (Inr pe) #
      McpExecuted (se_action_name s) (se_params s) (request_hash_str (pe_request_hash pe)) (ls, Inr v) # fs) (s # ss)"
    (is "calls_in_order _ ?es _")
proof -
  from assms(1) obtain k where k: "k \<le> length ss" "map (\<lambda>(n, ps, h, r). (n, ps)) (executed_calls fs) = map named (take k ss)"
      "list_all (call_allowed max_risk fs) (executed_calls fs)" "list_all call_succeeded (butlast (executed_calls fs))"
    by (auto simp: calls_in_order_def)
  have "list_all (call_allowed max_risk ?es) (executed_calls fs)"
    using k(3) by (rule list.pred_mono_strong) (auto intro: call_allowed_later)
  moreover have "call_allowed max_risk ?es (se_action_name s, se_params s, request_hash_str (pe_request_hash pe), Inr v)"
    using assms(3) by (auto simp: call_allowed_def)
  moreover have "list_all call_succeeded (butlast (executed_calls ?es))"
    using assms(2) k(4) by (auto simp: call_succeeded_def)
  ultimately show ?thesis
    unfolding calls_in_order_def using k(1,2) by (intro exI [of _ "Suc k"]) (simp add: named_def)
qed

lemma run_mcp_step_trace:
  assumes "mcp_follow (run_mcp_step max_risk ceiling s go) es = Some q"
  shows "executed_calls es = [] \<or>
    (\<exists>pe ls r fs. es = McpPreviewed (se_action_name s) (se_params s) (Inr pe) #
        McpExecuted (se_action_name s) (se_params s) (request_hash_str (pe_request_hash pe)) (ls, r) # fs \<and>
      check_risk_ceiling (pe_risk_level pe) ceiling = Inr () \<and>
      (case r of Inl e \<Rightarrow> fs = [] | Inr v \<Rightarrow> mcp_follow (go (step_result_of (se_action_name s) ls v) v) fs = Some q))"
  using assms unfolding run_mcp_step_def Let_def
  by (auto simp: mcp_follow_nodes split_sum_ex check_risk_ceiling_def split: if_splits)

lemma steps_in_order:
  assumes "parse_max_risk dbg max_risk = Inr ceiling"
  shows "mcp_follow (execute_steps max_risk ceiling ss results reboot) es = Some q \<Longrightarrow> calls_in_order max_risk es ss"
proof (induction ss arbitrary: results reboot es)
  case Nil
  then show ?case by (simp add: mcp_follow_nodes no_calls)
next
  case (Cons s ss)
  let ?pre = "\<lambda>pe. McpPreviewed (se_action_name s) (se_params s) (Inr pe)"
  let ?exec = "\<lambda>pe. McpExecuted (se_action_name s) (se_params s) (request_hash_str (pe_request_hash pe))"
  from run_mcp_step_trace [OF Cons.prems [unfolded execute_steps.simps]] consider "executed_calls es = []"
    | pe ls r fs where "es = ?pre pe # ?exec pe (ls, r) # fs" "max_risk_allows max_risk (pe_risk_level pe)"
        "case r of Inl e \<Rightarrow> fs = [] | Inr v \<Rightarrow> mcp_follow (if rs_status v = Succeeded
           then execute_steps max_risk ceiling ss (results @ [step_result_of (se_action_name s) ls v]) (reboot \<or> rs_needs_reboot v)
           else McpDone (Inr \<lparr>eo_steps = results @ [step_result_of (se_action_name s) ls v],
             eo_needs_reboot = reboot \<or> rs_needs_reboot v\<rparr>)) fs = Some q"
    using ceiling_allows [OF assms] by blast
  then show ?case
  proof cases
    case 2
    show ?thesis
    proof (cases r)
      case (Inl e)
      with 2 show ?thesis
        unfolding calls_in_order_def by (intro exI [of _ 1]) (auto simp: named_def call_allowed_def)
    next
      case (Inr v)
      with 2(3) Cons.IH have "calls_in_order max_risk fs ss \<and> (executed_calls fs = [] \<or> rs_status v = Succeeded)"
        by (auto simp: mcp_follow_nodes no_calls split: if_splits)
      with 2 Inr next_call show ?thesis by blast
    qed
  qed (rule no_calls)
qed

text \<open>C17. An assistant cannot run anything above its ceiling through the MCP server: the calls that execute are
  the first of the steps it passed, in their order, each with the hash of a preview of that very step whose
  risk level, as the daemon stated it, is allowed by \<open>max_risk\<close>, so never high; and a call is only made after all
  calls before it ended as succeeded.\<close>

theorem mcp_runs_below_ceiling:
  assumes "mcp_follow (execute_steps_inner dbg steps max_risk) es = Some q"
  shows "calls_in_order max_risk es steps \<and>
    (\<forall>(n, ps, h, r)\<in>set (executed_calls es). \<exists>pe. McpPreviewed n ps (Inr pe) \<in> set es \<and>
      h = request_hash_str (pe_request_hash pe) \<and> pe_risk_level pe \<noteq> High)"
proof -
  have "calls_in_order max_risk es steps"
  proof (cases "parse_max_risk dbg max_risk")
    case (Inl e)
    with assms show ?thesis by (simp add: execute_steps_inner_def mcp_follow_nodes no_calls)
  next
    case (Inr ceiling)
    with assms steps_in_order [OF Inr] show ?thesis by (simp add: execute_steps_inner_def)
  qed
  then show ?thesis
    by (fastforce simp: calls_in_order_def list_all_iff call_allowed_def max_risk_allows_def Let_def)
qed

text \<open>What happens around a step that is executed.\<close>

definition mcp_step_events :: "step_to_execute \<Rightarrow> preview_envelope \<Rightarrow> str list \<Rightarrow> result_envelope \<Rightarrow> mcp_event list" where
  "mcp_step_events s pe ls v =
    [McpPreviewed (se_action_name s) (se_params s) (Inr pe),
     McpExecuted (se_action_name s) (se_params s) (request_hash_str (pe_request_hash pe)) (ls, Inr v)]"

definition memory_step :: step_to_execute where
  "memory_step = \<lparr>se_action_name = ''GetMemoryInfo'', se_params = JObject []\<rparr>"

definition plain_preview :: "risk_level \<Rightarrow> preview_envelope" where
  "plain_preview r = \<lparr>pe_summary = ''s'', pe_risk_level = r, pe_current_state = JNull, pe_proposed_change = JNull,
    pe_expected_side_effects = [], pe_reboot_required = False, pe_rollback_available = False, pe_warnings = [],
    pe_request_hash = RequestHash ''h''\<rparr>"

definition plain_result :: "job_state \<Rightarrow> result_envelope" where
  "plain_result st = \<lparr>rs_status = st, rs_summary = ''s'', rs_warnings = [], rs_job_id = None, rs_needs_reboot = False,
    rs_rollback_ref = None, rs_transaction_id = ''t''\<rparr>"

theorem mcp_runs_below_ceiling_witness:
  "calls_in_order (Some ''LOW'') (mcp_step_events memory_step (plain_preview Low) [''1''] (plain_result Succeeded)) [memory_step] \<and>
    executed_calls (mcp_step_events memory_step (plain_preview Low) [''1''] (plain_result Succeeded)) \<noteq> []"
proof -
  let ?es = "mcp_step_events memory_step (plain_preview Low) [''1''] (plain_result Succeeded)"
  have "to_ascii_lowercase ''LOW'' = ''low''" by code_simp
  then have low: "parse_max_risk id (Some ''LOW'') = Inr 0" by (simp add: parse_max_risk_def unwrap_or_def)
  have "\<exists>q. mcp_follow (execute_steps_inner id [memory_step] (Some ''LOW'')) ?es = Some q"
    by (simp add: execute_steps_inner_def low mcp_step_events_def run_mcp_step_def check_risk_ceiling_def
        plain_preview_def plain_result_def Let_def)
  then obtain q where q: "mcp_follow (execute_steps_inner id [memory_step] (Some ''LOW'')) ?es = Some q" by blast
  from mcp_runs_below_ceiling [OF q] show ?thesis by (simp add: mcp_step_events_def)
qed

section \<open>Refusals in the middle\<close>

lemma run_succeeding_steps:
  assumes "list_all (\<lambda>(s, pe, ls, v). check_risk_ceiling (pe_risk_level pe) ceiling = Inr () \<and> rs_status v = Succeeded) ts"
  shows "\<exists>results' reboot'.
    mcp_follow (execute_steps max_risk ceiling (map fst ts @ ss) results reboot)
      (concat (map (\<lambda>(s, pe, ls, v). mcp_step_events s pe ls v) ts) @ es) =
    mcp_follow (execute_steps max_risk ceiling ss results' reboot') es"
  using assms
proof (induction ts arbitrary: results reboot)
  case (Cons t ts)
  obtain s pe ls v where t: "t = (s, pe, ls, v)" by (cases t) auto
  with Cons.prems Cons.IH [of "results @ [step_result_of (se_action_name s) ls v]" "reboot \<or> rs_needs_reboot v"]
  show ?case by (auto simp: mcp_step_events_def run_mcp_step_def Let_def)
qed auto

text \<open>The refusal of a step does not come before any execution: when the steps in front of it are allowed and
  succeed, they have all been executed by the time the server answers that the plan exceeds the ceiling, and
  the answer is the error alone, without the results of those steps.\<close>

theorem refused_after_execution:
  assumes "parse_max_risk dbg max_risk = Inr ceiling"
    and "list_all (\<lambda>(s, pe, ls, v). max_risk_allows max_risk (pe_risk_level pe) \<and> rs_status v = Succeeded) ts"
    and "\<not> max_risk_allows max_risk (pe_risk_level pe)"
  shows "mcp_follow (execute_steps_inner dbg (map fst ts @ s # ss) max_risk)
      (concat (map (\<lambda>(s, pe, ls, v). mcp_step_events s pe ls v) ts) @
        [McpPreviewed (se_action_name s) (se_params s) (Inr pe)]) =
    Some (McpDone (Inl (over_max_risk (se_action_name s) (pe_risk_level pe) max_risk)))"
proof -
  note allows = ceiling_allows [OF assms(1)]
  have "list_all (\<lambda>(s, pe, ls, v). check_risk_ceiling (pe_risk_level pe) ceiling = Inr () \<and> rs_status v = Succeeded) ts"
    using assms(2) by (auto simp: list_all_iff allows)
  from run_succeeding_steps [OF this] obtain results reboot where
    r: "mcp_follow (execute_steps max_risk ceiling (map fst ts @ s # ss) [] False)
      (concat (map (\<lambda>(s, pe, ls, v). mcp_step_events s pe ls v) ts) @
        [McpPreviewed (se_action_name s) (se_params s) (Inr pe)]) =
      mcp_follow (execute_steps max_risk ceiling (s # ss) results reboot)
        [McpPreviewed (se_action_name s) (se_params s) (Inr pe)]"
    by blast
  have "check_risk_ceiling (pe_risk_level pe) ceiling = Inl ()"
    using assms(3) allows [of "pe_risk_level pe"] by (simp add: check_risk_ceiling_def split: if_splits)
  with r assms(1) show ?thesis by (simp add: execute_steps_inner_def run_mcp_step_def Let_def)
qed

theorem refused_after_execution_witness:
  "mcp_follow (execute_steps_inner id
      [memory_step, \<lparr>se_action_name = ''RebootSystem'', se_params = JObject []\<rparr>] None)
      (mcp_step_events memory_step (plain_preview Low) [''1''] (plain_result Succeeded) @
        [McpPreviewed ''RebootSystem'' (JObject []) (Inr (plain_preview High))]) =
    Some (McpDone (Inl (over_max_risk ''RebootSystem'' High None)))"
proof -
  have l: "to_ascii_lowercase ''medium'' = ''medium''" by code_simp
  then have m: "parse_max_risk id None = Inr 1" by (simp add: parse_max_risk_def unwrap_or_def)
  show ?thesis
    using refused_after_execution [OF m, of "[(memory_step, plain_preview Low, [''1''], plain_result Succeeded)]"
        "plain_preview High" "\<lparr>se_action_name = ''RebootSystem'', se_params = JObject []\<rparr>" "[]"] l
    by (simp add: max_risk_allows_def unwrap_or_def plain_preview_def plain_result_def Let_def)
qed

end
