(* ===== verification/History_View.thy ===== *)
theory History_View
  imports Mcp Dispatcher State_Collector Transactions
begin

text \<open>
  The history of executions on the client's side: the parameters of the query (\<open>build_history_params\<close>,
  \<open>run_history\<close> of \<open>runner.rs\<close>), and the reader of the daemon's text in the MCP server (\<open>history_inner\<close>,
  \<open>parse_history_text\<close> of \<open>mcp_server.rs\<close>). The one call on the daemon is the function \<open>query\<close>.
\<close>

section \<open>Asking\<close>

definition build_history_params :: "nat \<Rightarrow> str option \<Rightarrow> str option \<Rightarrow> nat option \<Rightarrow> json" where
  "build_history_params limit status action_name since_hours = JObject
    ((case action_name of None \<Rightarrow> [] | Some a \<Rightarrow> [(''action_filter'', JString a)]) @
     [(''limit'', JNumber (PosInt (of_nat limit)))] @
     (case since_hours of None \<Rightarrow> [] | Some h \<Rightarrow> [(''since_hours'', JNumber (PosInt (of_nat h)))]) @
     (case status of None \<Rightarrow> [] | Some s \<Rightarrow> [(''status_filter'', JString s)]))"

record history_args =
  ha_status :: "str option"
  ha_action :: "str option"
  ha_since :: "str option"
  ha_limit :: nat

text \<open>\<open>run_history\<close>: the text it prints. The clock is read once.\<close>

definition run_history ::
  "(str \<Rightarrow> str) \<Rightarrow> int \<Rightarrow> (str \<Rightarrow> json \<Rightarrow> (planning_error, str) result) \<Rightarrow> history_args \<Rightarrow> (cli_error, str) result" where
  "run_history dbg now query args =
    rbind (case ha_since args of
        None \<Rightarrow> Inr None
      | Some s \<Rightarrow>
          if rfc3339_to_unix s = None
          then Inl (ConfigOrDaemon (''--since: '' @ dbg s @ '' is not a valid UTC RFC 3339 timestamp '' @
            ''(accepted formats: 2026-01-15T10:30:00Z or 2026-01-15T10:30:00+00:00)''))
          else (case since_to_hours now s of
              Some h \<Rightarrow> Inr (Some h)
            | None \<Rightarrow> Inl (ConfigOrDaemon (''--since: '' @ dbg s @ '' is in the future'')))) (\<lambda>since_hours.
    map_err (\<lambda>e. ConfigOrDaemon (planning_error_text e))
      (query ''ListJobHistory'' (build_history_params (ha_limit args) (ha_status args) (ha_action args) since_hours)))"

section \<open>Reading\<close>

record history_entry =
  he_transaction_id :: str
  he_action :: str
  he_status :: str
  he_summary :: str
  he_created_at :: "str option"
  he_risk_level :: "str option"

text \<open>\<open>split("  ")\<close>.\<close>

fun split_pairs :: "str \<Rightarrow> str list" where
  "split_pairs [] = [[]]"
| "split_pairs [c] = [[c]]"
| "split_pairs (c # d # s) =
    (if c = CHR '' '' \<and> d = CHR '' '' then [] # split_pairs s
     else (case split_pairs (d # s) of [] \<Rightarrow> [[c]] | p # ps \<Rightarrow> (c # p) # ps))"

definition history_row :: "str \<Rightarrow> history_entry option" where
  "history_row line =
    (let trimmed = trim_start line in
     if trimmed = [] \<or> starts_with trimmed ''Transaction history'' \<or> starts_with trimmed ''No transactions found''
     then None
     else (case filter (\<lambda>s. s \<noteq> []) (split_pairs trimmed) of
         a # b # c # d # ds \<Rightarrow> Some \<lparr>he_transaction_id = trim a, he_action = trim b, he_status = trim c,
           he_summary = trim (join_with ''  '' (d # ds)), he_created_at = None, he_risk_level = None\<rparr>
       | _ \<Rightarrow> None))"

definition parse_history_text :: "str \<Rightarrow> history_entry list" where
  "parse_history_text raw = List.map_filter history_row (str_lines raw)"

definition HISTORY_DEFAULT_LIMIT :: nat where "HISTORY_DEFAULT_LIMIT = 20"

definition history_inner ::
  "(str \<Rightarrow> str) \<Rightarrow> int \<Rightarrow> (str \<Rightarrow> json \<Rightarrow> (planning_error, str) result) \<Rightarrow> str option \<Rightarrow> str option \<Rightarrow> str option \<Rightarrow>
    nat option \<Rightarrow> (str, history_entry list) result" where
  "history_inner dbg now query status action_name since limit =
    rbind (case since of
        None \<Rightarrow> Inr None
      | Some s \<Rightarrow> (case since_to_hours now s of
          Some h \<Rightarrow> Inr (Some h)
        | None \<Rightarrow> Inl (''since: '' @ dbg s @ '' is not a valid past UTC RFC 3339 timestamp '' @
            ''(accepted: 2026-01-15T10:30:00Z)''))) (\<lambda>since_hours.
    rbind (map_err (\<lambda>e. ''daemon error: '' @ planning_error_text e)
      (query ''ListJobHistory'' (build_history_params (unwrap_or limit HISTORY_DEFAULT_LIMIT) status action_name since_hours)))
    (\<lambda>raw. Inr (parse_history_text raw)))"

section \<open>A row is read back\<close>

definition blanks :: "nat \<Rightarrow> str" where "blanks n = replicate n (CHR '' '')"

lemma blanks_simps [simp]:
  "blanks 0 = []" "blanks (Suc n) = CHR '' '' # blanks n"
  by (simp_all add: blanks_def)

lemma split_pairs_nonempty: "split_pairs s \<noteq> []"
  by (induction s rule: split_pairs.induct) (auto split: list.splits)

lemma split_pairs_plain: "\<not> contains_str s (blanks 2) \<Longrightarrow> split_pairs s = [s]"
  by (induction s rule: split_pairs.induct) (auto simp: eval_nat_numeral)

lemma split_pairs_cell:
  "\<not> contains_str u (blanks 2) \<Longrightarrow> u \<noteq> [] \<Longrightarrow> last u \<noteq> CHR '' '' \<Longrightarrow> split_pairs (u @ blanks 2 @ s) = u # split_pairs s"
proof (induction u rule: split_pairs.induct)
  case (2 c)
  then show ?case by (auto simp: eval_nat_numeral)
next
  case (3 c d u)
  then show ?case by (auto simp: eval_nat_numeral)
qed simp

lemma split_pairs_even: "split_pairs (blanks (2 * n) @ s) = replicate n [] @ split_pairs s"
  by (induction n) simp_all

lemma split_pairs_blanks:
  "filter (\<lambda>s. s \<noteq> []) (split_pairs (blanks n @ s)) = filter (\<lambda>s. s \<noteq> []) (split_pairs (blanks (n mod 2) @ s))"
proof -
  have "blanks n = blanks (2 * (n div 2)) @ blanks (n mod 2)"
    unfolding blanks_def by (simp flip: replicate_add)
  then show ?thesis by (simp add: split_pairs_even)
qed

text \<open>A text that stands in a column: not empty, nothing to trim, no two blanks in a row.\<close>

definition cell :: "str \<Rightarrow> bool" where
  "cell s = (s \<noteq> [] \<and> trim s = s \<and> \<not> contains_str s (blanks 2) \<and> CHR 0x0A \<notin> set s)"

lemma ws_mem: "[CHR '' ''] \<in> set unicode_ws" "[CHR 0x0D] \<in> set unicode_ws"
  by (simp_all add: unicode_ws_def)

lemma cell_ends:
  assumes "cell s" shows "last s \<noteq> CHR '' ''" "last s \<noteq> CHR 0x0D" "trim_start s = s" "hd s \<noteq> CHR '' ''"
proof -
  have s: "s \<noteq> []" "trim s = s" using assms by (simp_all add: cell_def)
  have "last s \<noteq> c" if "[c] \<in> set unicode_ws" for c
  proof
    assume "last s = c"
    with s(1) have "suffix [c] s" using append_butlast_last_id [of s] suffixI by metis
    with trim_no_ws_ends [OF that, of s] s(2) show False by simp
  qed
  then show "last s \<noteq> CHR '' ''" "last s \<noteq> CHR 0x0D" using ws_mem by blast+
  have "suffix (trim_start s) s" unfolding trim_start_def by (rule strip_all_suffix)
  moreover have "prefix s (trim_start s)" using trim_end_prefix [of "trim_start s"] s(2) by (simp add: trim_def)
  ultimately show t: "trim_start s = s"
    by (metis prefix_length_le suffix_length_le le_antisym suffix_def append_self_conv2 length_append add_cancel_left_left length_0_conv)
  have "\<not> prefix [CHR '' ''] (trim_start s)"
    unfolding trim_start_def using ws_mem(1) by (intro strip_all_done) auto
  with t s(1) show "hd s \<noteq> CHR '' ''" by (cases s) (auto simp: prefix_def)
qed

lemma trim_start_blank: "trim_start (CHR '' '' # s) = trim_start s"
  by (simp add: trim_start_def strip_all.simps [of _ "CHR '' '' # s"] unicode_ws_def)

lemma trim_padded: "cell s \<Longrightarrow> trim (blanks n @ s) = s"
  by (induction n) (simp_all add: trim_def trim_start_blank, simp add: cell_def trim_def)

text \<open>One column with its padding; what is left starts with at most one blank.\<close>

lemma column_read:
  assumes "cell u" and "k < 2"
  shows "filter (\<lambda>s. s \<noteq> []) (split_pairs (blanks k @ u @ blanks (2 + n) @ s)) =
    (blanks k @ u) # filter (\<lambda>s. s \<noteq> []) (split_pairs (blanks (n mod 2) @ s))"
proof -
  have u: "u \<noteq> []" "\<not> contains_str u (blanks 2)" "hd u \<noteq> CHR '' ''" "last u \<noteq> CHR '' ''"
    using assms cell_ends by (auto simp: cell_def)
  then have "\<not> contains_str (blanks k @ u) (blanks 2)"
    using assms(2) by (cases u; cases k) (auto simp: less_2_cases_iff eval_nat_numeral)
  from split_pairs_cell [OF this, of "blanks n @ s"] u
  have "split_pairs (blanks k @ u @ blanks 2 @ blanks n @ s) = (blanks k @ u) # split_pairs (blanks n @ s)" by simp
  moreover have "blanks (2 + n) @ s = blanks 2 @ blanks n @ s" unfolding blanks_def replicate_add by simp
  ultimately show ?thesis using u(1) split_pairs_blanks [of n s] by (simp only: filter.simps) simp
qed

definition uuid_like :: "str \<Rightarrow> bool" where
  "uuid_like s = (s \<noteq> [] \<and> list_all (\<lambda>c. is_ascii_hexdigit c \<or> c = CHR ''-'') s)"

definition record_shown :: "transaction_record \<Rightarrow> bool" where
  "record_shown r = (uuid_like (tr_transaction_id r) \<and> cell (tr_action_name r) \<and> cell (tr_summary r))"

definition entry_of_record :: "transaction_record \<Rightarrow> history_entry" where
  "entry_of_record r = \<lparr>he_transaction_id = take 8 (tr_transaction_id r), he_action = tr_action_name r,
    he_status = to_ascii_lowercase (debug_state (tr_status r)), he_summary = tr_summary r, he_created_at = None,
    he_risk_level = None\<rparr>"

lemma ascii_no_continuation: "byte_of c < 128 \<Longrightarrow> \<not> utf8_continuation c"
  by (simp add: utf8_continuation_def)

lemma take_chars_ascii: "list_all (\<lambda>c. \<not> utf8_continuation c) s \<Longrightarrow> take_chars n s = take n s"
  by (induction s arbitrary: n) (auto split: nat.split)

lemma contains_set: "contains_str s p \<Longrightarrow> set p \<subseteq> set s"
  by (auto simp: contains_str_iff)

lemma no_ws_cell:
  assumes "s \<noteq> []" "\<And>c. c \<in> set s \<Longrightarrow> CHR ''!'' \<le> c \<and> c \<le> CHR ''z''"
  shows "cell s"
proof -
  have "\<not> prefix w s \<and> \<not> suffix w s" if "w \<in> set unicode_ws" for w
  proof -
    from that obtain c where "c \<in> set w" "\<not> (CHR ''!'' \<le> c \<and> c \<le> CHR ''z'')"
      by (fastforce simp: unicode_ws_def less_eq_char_def)
    with assms(2) show ?thesis using set_mono_prefix set_mono_suffix by blast
  qed
  then have "trim s = s" by (intro trim_id) auto
  moreover have "CHR 0x0A \<notin> set s" "CHR '' '' \<notin> set s" using assms(2) by (force simp: less_eq_char_def)+
  ultimately show ?thesis using assms(1) contains_set [of s "blanks 2"] by (auto simp: cell_def eval_nat_numeral)
qed

lemma states_are_cells: "cell (to_ascii_lowercase (debug_state st))"
proof (rule no_ws_cell)
  show "to_ascii_lowercase (debug_state st) \<noteq> []" by (cases st) (simp_all add: to_ascii_lowercase_def)
  have "\<forall>c\<in>set (to_ascii_lowercase (debug_state st)). CHR ''!'' \<le> c \<and> c \<le> CHR ''z''"
    by (cases st) (simp_all add: to_ascii_lowercase_def to_ascii_lower_def is_ascii_uppercase_def less_eq_char_def)
  then show "c \<in> set (to_ascii_lowercase (debug_state st)) \<Longrightarrow> CHR ''!'' \<le> c \<and> c \<le> CHR ''z''" for c by blast
qed

lemma uuid_cell:
  assumes "uuid_like s" shows "cell s" "\<not> starts_with (s @ r) ''T''" "\<not> starts_with (s @ r) ''N''" "take_chars n s = take n s"
proof -
  have c: "is_ascii_hexdigit c \<or> c = CHR ''-''" if "c \<in> set s" for c
    using assms that by (auto simp: uuid_like_def list_all_iff)
  then have "CHR ''!'' \<le> c \<and> c \<le> CHR ''z'' \<and> c \<noteq> CHR ''T'' \<and> c \<noteq> CHR ''N'' \<and> \<not> utf8_continuation c" if "c \<in> set s" for c
    using that by (fastforce simp: is_ascii_hexdigit_def less_eq_char_def utf8_continuation_def is_ascii_digit_def)
  then have "CHR ''T'' \<notin> set s" "CHR ''N'' \<notin> set s" "cell s" "list_all (\<lambda>c. \<not> utf8_continuation c) s"
    using assms by (auto simp: uuid_like_def list_all_iff intro: no_ws_cell)
  with assms show "cell s" "\<not> starts_with (s @ r) ''T''" "\<not> starts_with (s @ r) ''N''" "take_chars n s = take n s"
    by (auto intro!: take_chars_ascii simp: uuid_like_def starts_with_def prefix_def Cons_eq_append_conv append_eq_Cons_conv)
qed

lemma history_line_columns:
  assumes "uuid_like (tr_transaction_id r)"
  obtains n m where "history_line r = blanks 2 @ take 8 (tr_transaction_id r) @ blanks (2 + 0) @ tr_action_name r @
      blanks (2 + n) @ to_ascii_lowercase (debug_state (tr_status r)) @ blanks (2 + m) @ tr_summary r @ [CHR 0x0A]"
proof
  let ?n = "30 - char_count (tr_action_name r)"
  let ?m = "12 - char_count (to_ascii_lowercase (debug_state (tr_status r)))"
  have b: "blanks (2 + k) @ s = replicate k (CHR '' '') @ CHR '' '' # CHR '' '' # s" for k s
  proof -
    have "blanks (2 + k) = replicate k (CHR '' '') @ replicate 2 (CHR '' '')"
      unfolding blanks_def by (simp only: replicate_add [symmetric] add.commute)
    then show ?thesis by (simp add: eval_nat_numeral)
  qed
  show "history_line r = blanks 2 @ take 8 (tr_transaction_id r) @ blanks (2 + 0) @ tr_action_name r @
      blanks (2 + ?n) @ to_ascii_lowercase (debug_state (tr_status r)) @ blanks (2 + ?m) @ tr_summary r @ [CHR 0x0A]"
    unfolding b using uuid_cell(4) [OF assms, of 8]
    by (simp add: history_line_def pad_right_def TRANSACTION_ID_DISPLAY_PREFIX_LEN_def blanks_def eval_nat_numeral)
qed

lemma row_read:
  assumes "record_shown r" "history_line r = l @ [CHR 0x0A]"
  shows "history_row l = Some (entry_of_record r)"
    and "CHR 0x0A \<notin> set l \<and> (l = [] \<or> last l \<noteq> CHR 0x0D)"
proof -
  let ?id = "take 8 (tr_transaction_id r)" and ?st = "to_ascii_lowercase (debug_state (tr_status r))"
  have r: "uuid_like (tr_transaction_id r)" "cell (tr_action_name r)" "cell (tr_summary r)" "cell ?st"
    using assms(1) states_are_cells by (auto simp: record_shown_def)
  have uid: "uuid_like ?id" using r(1) by (cases "tr_transaction_id r") (auto simp: uuid_like_def list_all_iff dest: in_set_takeD)
  note id = uuid_cell [OF uid]
  obtain n m where nm: "history_line r = blanks 2 @ ?id @ blanks (2 + 0) @ tr_action_name r @ blanks (2 + n) @ ?st @
      blanks (2 + m) @ tr_summary r @ [CHR 0x0A]" using history_line_columns [OF r(1)] by blast
  let ?row = "?id @ blanks (2 + 0) @ tr_action_name r @ blanks (2 + n) @ ?st @ blanks (2 + m) @ tr_summary r"
  have l: "l = blanks 2 @ ?row" using assms(2) nm by simp
  have ne: "?id \<noteq> []" "tr_summary r \<noteq> []" using id(1) r(3) by (auto simp: cell_def)
  have hd: "trim_start l = ?row"
  proof -
    have "trim_start l = trim_start ?row" unfolding l by (simp add: eval_nat_numeral trim_start_blank)
    also have "\<dots> = ?row"
      unfolding trim_start_def
    proof (rule strip_all_id)
      fix w assume w: "w \<in> set unicode_ws"
      have "w \<noteq> [] \<and> \<not> (is_ascii_hexdigit (hd w) \<or> hd w = CHR ''-'')"
        using w by (auto simp: unicode_ws_def is_ascii_hexdigit_def is_ascii_digit_def)
      moreover have "is_ascii_hexdigit (hd ?id) \<or> hd ?id = CHR ''-''"
        using uid ne(1) by (cases ?id) (auto simp: uuid_like_def)
      moreover have "prefix w ?row \<Longrightarrow> w \<noteq> [] \<Longrightarrow> hd w = hd ?id"
        using ne(1) by (cases w; cases ?id) (auto simp: prefix_def)
      ultimately show "\<not> prefix w ?row" by auto
    qed
    finally show ?thesis .
  qed
  show "CHR 0x0A \<notin> set l \<and> (l = [] \<or> last l \<noteq> CHR 0x0D)"
    using l id(1) r ne cell_ends(2) [OF r(3)] by (auto simp: cell_def blanks_def)
  have last: "filter (\<lambda>s. s \<noteq> []) (split_pairs (blanks k @ tr_summary r)) = [blanks k @ tr_summary r]" if "k < 2" for k
  proof -
    have "\<not> contains_str (blanks k @ tr_summary r) (blanks 2)"
      using r(3) cell_ends(4) [OF r(3)] that by (cases k; cases "tr_summary r") (auto simp: eval_nat_numeral cell_def)
    from split_pairs_plain [OF this] ne show ?thesis by simp
  qed
  have cells: "filter (\<lambda>s. s \<noteq> []) (split_pairs ?row) =
      [?id, tr_action_name r, blanks (n mod 2) @ ?st, blanks (m mod 2) @ tr_summary r]"
    using column_read [OF id(1), of 0 0] column_read [OF r(2), of 0 n] column_read [OF r(4), of "n mod 2" m]
      last [of "m mod 2"] by simp
  have "\<not> starts_with ?row ''Transaction history''" "\<not> starts_with ?row ''No transactions found''"
    using id(2,3) [of "drop (length ?id) ?row"] by (auto simp: starts_with_def prefix_def)
  then show "history_row l = Some (entry_of_record r)"
    using cells ne id(1) r unfolding history_row_def hd Let_def
    by (simp add: entry_of_record_def trim_padded, simp add: cell_def)
qed

lemma header_rows:
  "history_row (''Transaction history ('' @ s) = None" "history_row [] = None"
proof -
  have "trim_start (''Transaction history ('' @ s) = ''Transaction history ('' @ s"
    unfolding trim_start_def by (rule strip_all_id) (auto simp: unicode_ws_def)
  then show "history_row (''Transaction history ('' @ s) = None" by (simp add: history_row_def starts_with_def)
  have "trim_start [] = []" unfolding trim_start_def by (rule strip_all_id) auto
  then show "history_row [] = None" by (simp add: history_row_def)
qed

text \<open>C38. The MCP server reads the daemon's history back: of a text with the records \<open>rs\<close>, however its columns
  are padded, it makes exactly one entry per record, in order, with the first eight characters of the
  transaction's id, the action, the status in small letters and the summary.\<close>

theorem history_reads_back:
  assumes "list_all record_shown rs"
  shows "parse_history_text (format_job_history rs) = map entry_of_record rs"
proof (cases "rs = []")
  case True
  have "trim_start ''No transactions found.'' = ''No transactions found.''"
    unfolding trim_start_def by (rule strip_all_id) (auto simp: unicode_ws_def)
  then have "history_row ''No transactions found.'' = None" by (simp add: history_row_def starts_with_def)
  moreover have "str_lines ''No transactions found.'' = [''No transactions found.'']" by code_simp
  ultimately show ?thesis using True by (simp add: parse_history_text_def format_job_history_def List.map_filter_simps)
next
  case False
  define ls where "ls = map (\<lambda>r. butlast (history_line r)) rs"
  have line: "history_line r = butlast (history_line r) @ [CHR 0x0A]" for r
    by (simp add: history_line_def butlast_append)
  have rows: "map history_row ls = map (\<lambda>r. Some (entry_of_record r)) rs"
    unfolding ls_def using assms row_read(1) [OF _ line] by (induction rs) auto
  define h where "h = ''Transaction history ('' @ show_nat (length rs) @ '' entries):''"
  have "CHR 0x0A \<notin> set h" "last h \<noteq> CHR 0x0D"
    using show_nat_digits [of "CHR 0x0A" "length rs"] by (auto simp: h_def is_ascii_digit_def)
  moreover have "list_all (\<lambda>l. CHR 0x0A \<notin> set l \<and> (l = [] \<or> last l \<noteq> CHR 0x0D)) ls"
    unfolding ls_def using assms row_read(2) [OF _ line] by (induction rs) auto
  ultimately have "str_lines (concat (map (\<lambda>l. l @ [CHR 0x0A]) (h # [] # ls))) = h # [] # ls"
    by (intro str_lines_concat) simp
  moreover have "format_job_history rs = concat (map (\<lambda>l. l @ [CHR 0x0A]) (h # [] # ls))"
    using False line by (simp add: format_job_history_def h_def ls_def comp_def)
  ultimately have "str_lines (format_job_history rs) = h # [] # ls" by simp
  moreover have "List.map_filter f xs = map the (filter (\<lambda>x. x \<noteq> None) (map f xs))" for f :: "str \<Rightarrow> history_entry option" and xs
    by (induction xs) (auto simp: List.map_filter_simps split: option.split)
  ultimately show ?thesis
    using header_rows(1) [of "show_nat (length rs) @ '' entries):''"] header_rows(2) rows
    by (simp add: parse_history_text_def h_def comp_def del: map_map) (simp add: filter_map comp_def)
qed

definition shown_record :: transaction_record where
  "shown_record = \<lparr>tr_transaction_id = ''3f2a91bc-55aa'', tr_request_id = ''r'', tr_request_hash = ''h'',
    tr_action_name = ''GetMemoryInfo'', tr_risk_level = Low, tr_status = NeedsReboot, tr_approval_id = None,
    tr_summary = ''Read memory information'', tr_warnings = []\<rparr>"

theorem history_reads_back_witness:
  "parse_history_text (format_job_history [shown_record]) = [entry_of_record shown_record] \<and>
    he_status (entry_of_record shown_record) = ''needsreboot''"
proof
  have "cell ''Read memory information''" unfolding cell_def
    by (intro conjI trim_id) (auto simp: unicode_ws_def suffix_def prefix_def eval_nat_numeral)
  moreover have "cell ''GetMemoryInfo''" by (rule no_ws_cell) (auto simp: less_eq_char_def)
  moreover have "uuid_like ''3f2a91bc-55aa''" by code_simp
  ultimately have "list_all record_shown [shown_record]" by (simp add: record_shown_def shown_record_def)
  from history_reads_back [OF this]
  show "parse_history_text (format_job_history [shown_record]) = [entry_of_record shown_record]" by simp
  have "to_ascii_lowercase ''NeedsReboot'' = ''needsreboot''" by code_simp
  then show "he_status (entry_of_record shown_record) = ''needsreboot''"
    by (simp add: entry_of_record_def shown_record_def)
qed

section \<open>Since\<close>

text \<open>The time of \<open>--since\<close> goes to the daemon as a number of hours rounded down, and the daemon compares dates.\<close>

lemma since_hours_sent:
  assumes "secs \<le> now_s" "now_s < 2 ^ 62" "(now_s - secs) div 3600 \<le> u32_max"
  shows "since_to_hours (int now_s) (format_rfc3339 secs) = Some ((now_s - secs) div 3600)"
proof -
  have "rfc3339_to_unix (format_rfc3339 secs) = Some (int secs)" using assms by (intro written_time_read) simp
  moreover have "wrap64 (int now_s - int secs) = int (now_s - secs)"
    using assms by (subst wrap64_small) (simp_all add: of_nat_diff)
  moreover have "int (now_s - secs) sdiv 3600 = int ((now_s - secs) div 3600)"
    by (simp add: sdiv_nonneg zdiv_int)
  ultimately show ?thesis using assms by (simp add: since_to_hours_def)
qed

text \<open>What \<open>--since\<close> shows: of a record created at time \<open>t\<close>, nothing but its day counts, against the day of now
  minus the whole hours that have passed since the time asked for. Records after that time are left out when
  midnight lies in the part of an hour that is dropped, and records before it are shown when they are of the
  same day.\<close>

theorem since_counts_days:
  assumes "secs \<le> now div 1000" "(now div 1000 - secs) div 3600 \<le> u32_max" "day_of now < day_limit" "day_of t < day_limit"
    and "cr_created_at r = strftime_ms t"
  shows "\<exists>h. since_to_hours (int (now div 1000)) (format_rfc3339 secs) = Some h \<and>
    (created_within now (of_nat h) r \<longleftrightarrow> day_of (now - h * 3600000) \<le> day_of t)"
proof -
  define h where "h = (now div 1000 - secs) div 3600"
  have "now < day_limit * ms_per_day" using assms(3) by (simp add: day_of_def ms_per_day_def div_less_iff_less_mult)
  then have "now div 1000 < 2 ^ 62" by (simp add: day_limit_def ms_per_day_def)
  from since_hours_sent [OF assms(1) this assms(2)]
  have sent: "since_to_hours (int (now div 1000)) (format_rfc3339 secs) = Some h" by (simp add: h_def)
  have u: "unat (of_nat h :: 32 word) = h"
    using assms(2) by (simp add: h_def u32_max_def unat_of_nat take_bit_eq_mod)
  have "h * 3600 \<le> now div 1000" unfolding h_def using assms(1) by (metis diff_le_self div_times_less_eq_dividend le_trans)
  then have le: "h * 3600000 \<le> now" by linarith
  have "day_of (now - h * 3600000) \<le> day_of now" by (simp add: day_of_def div_le_mono)
  then have "day_of (now - h * 3600000) < day_limit" using assms(3) by linarith
  from datetime_less_strftime [OF this assms(4)] le u
  have "created_within now (of_nat h) r \<longleftrightarrow> day_of (now - h * 3600000) \<le> day_of t"
    by (simp add: created_within_def hours_ms_def assms(5))
  with sent show ?thesis by blast
qed

text \<open>Asked at half past midnight for everything since a quarter to, the history leaves out the record of ten to.\<close>

theorem since_counts_days_witness:
  "\<exists>h. since_to_hours 88200 (format_rfc3339 85500) = Some h \<and>
    (\<forall>r. \<not> created_within 88200000 (of_nat h) (r\<lparr>cr_created_at := strftime_ms 85800000\<rparr> :: tx_row))"
proof -
  have "\<exists>h. since_to_hours (int (88200000 div 1000)) (format_rfc3339 85500) = Some h \<and>
    (created_within 88200000 (of_nat h) (r\<lparr>cr_created_at := strftime_ms 85800000\<rparr>) \<longleftrightarrow>
      day_of (88200000 - h * 3600000) \<le> day_of 85800000)" for r :: tx_row
    by (rule since_counts_days) (simp_all add: u32_max_def day_of_def ms_per_day_def day_limit_def)
  moreover have "since_to_hours 88200 (format_rfc3339 85500) = Some 0"
    using since_hours_sent [of 85500 88200] by (simp add: u32_max_def)
  ultimately show ?thesis by (simp add: day_of_def ms_per_day_def)
qed

end
