(* ===== verification/Audit_Report.thy ===== *)
theory Audit_Report
  imports Transactions Cli_Client Interaction
begin

text \<open>
  The three ways the client side verifies the audit log: \<open>sysknife audit verify\<close> (\<open>run_audit_verify\<close>,
  \<open>verify_sqlite\<close>, \<open>emit_verify_outcome\<close> of \<open>runner.rs\<close>), the MCP tool (\<open>audit_verify_inner\<close>,
  \<open>outcome_to_report\<close>) and the diagnosis (\<open>audit_chain_quick_check\<close>) of \<open>mcp_server.rs\<close>. What they find on the
  machine is the record \<open>verify_world\<close>: the key file, the database file with what opening it gives, and what the
  verification against a Postgres server gives.
\<close>

section \<open>Outcomes\<close>

datatype chain_report =
    ReportIntact nat
  | ReportBroken nat nat str str str
  | ReportUnknown str

fun report_of :: "(str \<Rightarrow> str) \<Rightarrow> verify_outcome \<Rightarrow> chain_report" where
  "report_of dbg (Intact n) = ReportIntact n"
| "report_of dbg (Broken n seq tid expected actual) = ReportBroken n seq tid expected actual"
| "report_of dbg (CannotVerify seq row_key loaded) =
    ReportUnknown (''row seq='' @ show_nat seq @ '' uses key_id='' @ dbg row_key @ '' but only '' @ dbg loaded @
      '' is loaded; epoch keys not yet supported'')"

record verify_world =
  vw_ext :: externs
  vw_dbg :: "str \<Rightarrow> str"
  vw_pretty :: "json \<Rightarrow> str"
  vw_key_error :: "audit_key_error \<Rightarrow> str"
  vw_store_error :: "store_error \<Rightarrow> str"
  vw_backend :: "str option"
  vw_key_path :: str
  vw_key_io :: key_io
  vw_key_file :: "key_file option"
  vw_db_path :: str
  vw_db_exists :: bool
  vw_db :: "(store_error, tx_store) result"
  vw_postgres :: "audit_key \<Rightarrow> chain_report"

definition uses_postgres :: "verify_world \<Rightarrow> bool" where
  "uses_postgres w = (case vw_backend w of
      Some b \<Rightarrow> to_ascii_lowercase b = ''postgres''
    | None \<Rightarrow> False)"

definition backend_label :: "verify_world \<Rightarrow> str" where
  "backend_label w = (if uses_postgres w then ''postgres'' else vw_db_path w)"

definition verify_sqlite :: "verify_world \<Rightarrow> audit_key \<Rightarrow> chain_report" where
  "verify_sqlite w key =
    (if \<not> vw_db_exists w
     then ReportUnknown (''audit database not found at '' @ vw_db_path w @
       ''; set $SYSKNIFE_DATABASE_PATH or run the daemon first'')
     else (case vw_db w of
         Inl e \<Rightarrow> ReportUnknown (''opening audit database failed: '' @ vw_store_error w e)
       | Inr st \<Rightarrow> (case verify_audit_chain (vw_ext w) key st of
           Inr outcome \<Rightarrow> report_of (vw_dbg w) outcome
         | Inl e \<Rightarrow> ReportUnknown (''audit chain query failed: '' @ vw_store_error w e))))"

definition verify_backend :: "verify_world \<Rightarrow> audit_key \<Rightarrow> chain_report" where
  "verify_backend w key = (if uses_postgres w then vw_postgres w key else verify_sqlite w key)"

section \<open>The command line\<close>

definition emit_verify_outcome :: "verify_world \<Rightarrow> bool \<Rightarrow> chain_report \<Rightarrow> str" where
  "emit_verify_outcome w as_json outcome =
    (let label = backend_label w in
     if as_json then vw_pretty w (JObject (case outcome of
         ReportIntact n \<Rightarrow>
           [(''backend'', JString label), (''rows_checked'', JNumber (PosInt (of_nat n))), (''status'', JString ''intact'')]
       | ReportBroken n seq tid expected actual \<Rightarrow>
           [(''actual'', JString actual), (''backend'', JString label), (''expected'', JString expected),
            (''first_broken_seq'', JNumber (PosInt (of_nat seq))), (''first_broken_transaction_id'', JString tid),
            (''rows_checked'', JNumber (PosInt (of_nat n))), (''status'', JString ''broken'')]
       | ReportUnknown reason \<Rightarrow>
           [(''backend'', JString label), (''reason'', JString reason), (''status'', JString ''cannot_verify'')]))
     else (case outcome of
         ReportIntact n \<Rightarrow> ''OK: '' @ show_nat n @ '' row(s) verified in '' @ label
       | ReportBroken n seq tid expected actual \<Rightarrow>
           ''BROKEN: chain intact for first '' @ show_nat n @ '' row(s); row seq='' @ show_nat seq @
           '' (transaction '' @ tid @ '') does not chain.'' @ CHR 0x0A # ''  expected: '' @ expected @
           CHR 0x0A # ''  actual:   '' @ actual
       | ReportUnknown reason \<Rightarrow> ''CANNOT VERIFY: '' @ reason))"

definition key_not_found :: "verify_world \<Rightarrow> str" where
  "key_not_found w = ''audit key not found at '' @ vw_key_path w @
    ''; the daemon generates this on first run, or set $SYSKNIFE_AUDIT_KEY_PATH''"

text \<open>The exit code of an outcome, as \<open>outcome_to_exit_code\<close> gives it.\<close>

fun report_exit_code :: "chain_report \<Rightarrow> int" where
  "report_exit_code (ReportIntact _) = 0"
| "report_exit_code (ReportBroken _ _ _ _ _) = 1"
| "report_exit_code (ReportUnknown _) = 2"

definition run_audit_verify :: "verify_world \<Rightarrow> bool \<Rightarrow> str \<times> (cli_error, unit) result" where
  "run_audit_verify w as_json =
    (case vw_key_file w of
       None \<Rightarrow> (emit_verify_outcome w as_json (ReportUnknown (key_not_found w)), Inl (ExitCode 2))
     | Some f \<Rightarrow> (case fst (load_or_generate (vw_key_io w) (Some f)) of
         Inl e \<Rightarrow> (emit_verify_outcome w as_json (ReportUnknown (''audit key load failed: '' @ vw_key_error w e)),
           Inl (ExitCode 2))
       | Inr key \<Rightarrow>
           (let outcome = verify_backend w key; code = report_exit_code outcome
            in (emit_verify_outcome w as_json outcome, if code = 0 then Inr () else Inl (ExitCode code)))))"

section \<open>The MCP server\<close>

record audit_verify_report =
  av_status :: str
  av_rows_checked :: nat
  av_first_broken_seq :: "nat option"
  av_first_broken_transaction_id :: "str option"
  av_expected :: "str option"
  av_actual :: "str option"
  av_reason :: "str option"
  av_backend :: str

definition cannot_verify_report :: "str \<Rightarrow> str \<Rightarrow> audit_verify_report" where
  "cannot_verify_report backend reason =
    \<lparr>av_status = ''cannot_verify'', av_rows_checked = 0, av_first_broken_seq = None,
     av_first_broken_transaction_id = None, av_expected = None, av_actual = None, av_reason = Some reason,
     av_backend = backend\<rparr>"

fun outcome_to_report :: "str \<Rightarrow> chain_report \<Rightarrow> audit_verify_report" where
  "outcome_to_report backend (ReportIntact n) =
    \<lparr>av_status = ''intact'', av_rows_checked = n, av_first_broken_seq = None,
     av_first_broken_transaction_id = None, av_expected = None, av_actual = None, av_reason = None,
     av_backend = backend\<rparr>"
| "outcome_to_report backend (ReportBroken n seq tid expected actual) =
    \<lparr>av_status = ''broken'', av_rows_checked = n, av_first_broken_seq = Some seq,
     av_first_broken_transaction_id = Some tid, av_expected = Some expected, av_actual = Some actual,
     av_reason = None, av_backend = backend\<rparr>"
| "outcome_to_report backend (ReportUnknown reason) = cannot_verify_report backend reason"

definition audit_verify_inner :: "verify_world \<Rightarrow> audit_verify_report" where
  "audit_verify_inner w =
    (case vw_key_file w of
       None \<Rightarrow> cannot_verify_report (backend_label w) (key_not_found w)
     | Some f \<Rightarrow> (case fst (load_or_generate (vw_key_io w) (Some f)) of
         Inl e \<Rightarrow> cannot_verify_report (backend_label w) (''audit key load failed: '' @ vw_key_error w e)
       | Inr key \<Rightarrow> outcome_to_report (backend_label w) (verify_backend w key)))"

datatype verify_kind = KindIntact | KindBroken | KindUnknown

text \<open>The kind, and the warning it adds.\<close>

definition audit_chain_quick_check :: "verify_world \<Rightarrow> verify_kind \<times> str list" where
  "audit_chain_quick_check w =
    (case vw_key_file w of
       None \<Rightarrow> (KindUnknown, [''audit key not found at '' @ vw_key_path w])
     | Some f \<Rightarrow> (case fst (load_or_generate (vw_key_io w) (Some f)) of
         Inl e \<Rightarrow> (KindUnknown, [''audit key load failed: '' @ vw_key_error w e])
       | Inr key \<Rightarrow> (case verify_backend w key of
           ReportIntact n \<Rightarrow> (KindIntact, [])
         | ReportBroken n seq tid expected actual \<Rightarrow> (KindBroken, [])
         | ReportUnknown reason \<Rightarrow> (KindUnknown, [''audit chain cannot be verified: '' @ reason]))))"

section \<open>What the three say\<close>

text \<open>A log the verification accepts, found with a usable key.\<close>

definition log_accepted :: "verify_world \<Rightarrow> nat \<Rightarrow> bool" where
  "log_accepted w n =
    (\<exists>f key. vw_key_file w = Some f \<and> load_key_file (vw_key_io w) f = Inr key \<and>
      (if uses_postgres w then vw_postgres w key = ReportIntact n
       else vw_db_exists w \<and> (\<exists>st. vw_db w = Inr st \<and> verify_audit_chain (vw_ext w) key st = Inr (Intact n))))"

lemma report_of_Intact [simp]: "report_of dbg outcome = ReportIntact n \<longleftrightarrow> outcome = Intact n"
  by (cases outcome) auto

lemma verify_backend_Intact:
  "verify_backend w key = ReportIntact n \<longleftrightarrow>
    (if uses_postgres w then vw_postgres w key = ReportIntact n
     else vw_db_exists w \<and> (\<exists>st. vw_db w = Inr st \<and> verify_audit_chain (vw_ext w) key st = Inr (Intact n)))"
  by (auto simp: verify_backend_def verify_sqlite_def split: sum.splits)

lemma report_exit_code_0: "report_exit_code r = 0 \<longleftrightarrow> (\<exists>n. r = ReportIntact n)"
  by (cases r) auto

text \<open>C39. The three verifiers say the same, and say that the log is intact exactly when it is: the exit code is 0, the
  MCP status is intact and the diagnosis is intact exactly when a key that passes the checks was found and the
  chain of the opened store verifies under it (a missing key or database is never a pass); the exit code is 1
  exactly when the MCP status is broken, and 2 exactly when it is \<open>cannot_verify\<close>.\<close>

theorem verifiers_agree:
  "(snd (run_audit_verify w as_json) = Inr () \<longleftrightarrow> (\<exists>n. log_accepted w n)) \<and>
   (av_status (audit_verify_inner w) = ''intact'' \<longleftrightarrow> (\<exists>n. log_accepted w n)) \<and>
   (fst (audit_chain_quick_check w) = KindIntact \<longleftrightarrow> (\<exists>n. log_accepted w n)) \<and>
   (snd (run_audit_verify w as_json) = Inl (ExitCode 1) \<longleftrightarrow> av_status (audit_verify_inner w) = ''broken'') \<and>
   (snd (run_audit_verify w as_json) = Inl (ExitCode 2) \<longleftrightarrow> av_status (audit_verify_inner w) = ''cannot_verify'')"
proof (cases "vw_key_file w")
  case None
  then show ?thesis
    by (simp add: run_audit_verify_def audit_verify_inner_def audit_chain_quick_check_def log_accepted_def
        cannot_verify_report_def)
next
  case (Some f)
  show ?thesis
  proof (cases "load_key_file (vw_key_io w) f")
    case (Inl e)
    with Some show ?thesis
      by (simp add: run_audit_verify_def audit_verify_inner_def audit_chain_quick_check_def log_accepted_def
          cannot_verify_report_def load_or_generate_def)
  next
    case (Inr key)
    have "log_accepted w n \<longleftrightarrow> verify_backend w key = ReportIntact n" for n
      using Some Inr by (simp add: log_accepted_def verify_backend_Intact)
    with Some Inr show ?thesis
      by (cases "verify_backend w key")
         (simp_all add: run_audit_verify_def audit_verify_inner_def audit_chain_quick_check_def
          cannot_verify_report_def load_or_generate_def Let_def)
  qed
qed

end
