(* ===== verification/Shell.thy ===== *)
theory Shell
  imports Planner
begin

text \<open>
  The backend of the desktop shell (\<open>apps/sysknife-shell/src-tauri/src/daemon_client.rs\<close> and
  \<open>commands.rs\<close>): its own client of the daemon's socket, the execution of an approved plan, and the review of
  the result by the model. The peer of a connection is given as in \<open>Cli_Client\<close>; the texts of foreign errors
  and the JSON parser are those of \<open>client_env\<close>. A timeout is a failed read.
\<close>

section \<open>Frames\<close>

definition MAX_RESPONSE_BYTES :: nat where "MAX_RESPONSE_BYTES = 4 * 1024 * 1024"

text \<open>\<open>read_framed\<close> and \<open>async_read_framed\<close>; writing is as in the command line's client.\<close>

definition shell_read_framed :: "client_env \<Rightarrow> str \<Rightarrow> (str, str \<times> str) result" where
  "shell_read_framed ce s =
    (if length s < 4 then Inl (ce_io_text ce)
     else let len = from_le_bytes (take 4 s); rest = drop 4 s in
       if len > MAX_RESPONSE_BYTES then Inl (''daemon response too large: '' @ show_nat len @ '' bytes'')
       else if length rest < len then Inl (ce_io_text ce)
       else Inr (take len rest, drop len rest))"

lemma shell_read_framed_shorter: "shell_read_framed ce s = Inr (raw, rest) \<Longrightarrow> length rest < length s"
  by (auto simp: shell_read_framed_def Let_def split: if_splits)

section \<open>State and queries\<close>

text \<open>Anything that is not an array of strings is read as far as it is one.\<close>

definition shell_string_array :: "json \<Rightarrow> str list" where
  "shell_string_array v = (case as_array v of None \<Rightarrow> [] | Some xs \<Rightarrow> List.map_filter as_str xs)"

definition shell_state_request :: json where
  "shell_state_request = JObject [(''request_id'', JString ''shell-state-query''), (''type'', JString ''query_state'')]"

definition shell_state_reply :: "json \<Rightarrow> (str, curated_state) result" where
  "shell_state_reply resp =
    (let tag = as_str (json_index resp ''type'') in
     if tag = Some ''state_response'' then
       rbind (ok_or (json_get resp ''state'') (''state_response missing '' @ quoted ''state'' @ '' object'')) (\<lambda>s.
       rbind (ok_or (Option.bind (json_get s ''host_name'') as_str) ''state.host_name missing or not a string'') (\<lambda>host.
       map_err (\<lambda>e. ''invalid state from daemon: '' @ e) (new_curated_state host
         (unwrap_or (Option.bind (json_get s ''deployment'') as_str) [])
         (shell_string_array (json_index s ''services'')) (shell_string_array (json_index s ''flatpaks''))
         (shell_string_array (json_index s ''toolboxes'')) (shell_string_array (json_index s ''layered_packages''))
         (shell_string_array (json_index s ''containers'')) (shell_string_array (json_index s ''users'')))))
     else if tag = Some ''error_response'' then
       Inl (''daemon error ('' @ unwrap_or (as_str (json_index resp ''category'')) ''unknown'' @ ''): '' @
         unwrap_or (as_str (json_index resp ''message'')) ''no message'')
     else Inl (''unexpected response type from daemon: '' @ unwrap_or tag ''<missing>''))"

text \<open>The two synchronous calls differ in their texts only; \<open>t\<close> holds those of the failing steps.\<close>

record call_texts =
  ct_connect :: str
  ct_send :: str
  ct_read :: str
  ct_parse :: str

definition shell_call :: "client_env \<Rightarrow> call_texts \<Rightarrow> peer \<Rightarrow> json \<Rightarrow> (str, json) result" where
  "shell_call ce t peer request =
    (if \<not> peer_connects peer then Inl (ct_connect t @ ce_io_text ce)
     else if write_framed (json_display (ce_ext ce) request) = None \<or> \<not> peer_takes_request peer
     then Inl (ct_send t @ ce_io_text ce)
     else rbind (map_err (\<lambda>e. ct_read t @ e) (shell_read_framed ce (peer_reply peer))) (\<lambda>(raw, rest).
       ok_or (ce_parse ce raw) (ct_parse t @ ce_json_text ce)))"

definition query_state_inner :: "client_env \<Rightarrow> str \<Rightarrow> peer \<Rightarrow> (str, curated_state) result" where
  "query_state_inner ce socket_path peer =
    rbind (shell_call ce \<lparr>ct_connect = ''cannot connect to daemon at '' @ socket_path @ '': '',
        ct_send = ''failed to send query_state: '', ct_read = ''failed to read daemon response: '',
        ct_parse = ''invalid JSON from daemon: ''\<rparr> peer shell_state_request)
      shell_state_reply"

definition shell_query_reply :: "json \<Rightarrow> (str, str) result" where
  "shell_query_reply resp =
    (let tag = as_str (json_index resp ''type'') in
     if tag = Some ''query_action_response'' then Inr (unwrap_or (as_str (json_index resp ''output'')) [])
     else if tag = Some ''error_response''
     then Inl (''daemon error: '' @ unwrap_or (as_str (json_index resp ''message'')) ''unknown'')
     else Inl (''unexpected: '' @ unwrap_or tag ''<missing>''))"

definition shell_query_action :: "client_env \<Rightarrow> peer \<Rightarrow> str \<Rightarrow> json \<Rightarrow> (str, str) result" where
  "shell_query_action ce peer action_name params =
    rbind (shell_call ce \<lparr>ct_connect = ''daemon connect: '', ct_send = ''send: '', ct_read = ''read: '',
        ct_parse = ''parse: ''\<rparr> peer (action_request ''query_action'' ''query-'' action_name params))
      shell_query_reply"

section \<open>One step\<close>

record shell_peer =
  sp_connects :: bool
  sp_takes_preview :: bool
  sp_takes_execute :: bool
  sp_reply :: str

text \<open>What happens on the connection and on the timeline of the window.\<close>

datatype shell_event = SentPreview str json | SentExecute str json str | TimelineEntry str

definition step_request :: "str \<Rightarrow> str \<Rightarrow> str \<Rightarrow> json \<Rightarrow> str option \<Rightarrow> json" where
  "step_request tag rid action_name params hash = JObject
    ([(''action_name'', JString action_name)] @
     (case hash of None \<Rightarrow> [] | Some h \<Rightarrow> [(''approval_hash'', JString h)]) @
     [(''params'', params), (''request_id'', JString rid), (''type'', JString tag)])"

definition category_text :: "json \<Rightarrow> str" where
  "category_text resp = unwrap_or (as_str (json_index resp ''category'')) ''unknown'' @ ''): '' @
    unwrap_or (as_str (json_index resp ''message'')) ''no message''"

definition preview_hash :: "str \<Rightarrow> json \<Rightarrow> (str, str) result" where
  "preview_hash action_name resp =
    (let tag = as_str (json_index resp ''type'') in
     if tag = Some ''preview_response'' then
       ok_or (as_str (json_index (json_index resp ''preview'') ''request_hash'')) ''preview_response missing request_hash field''
     else if tag = Some ''error_response'' then
       Inl (''daemon rejected preview for '' @ quoted action_name @ '' ('' @ category_text resp)
     else Inl (''unexpected response type to preview: '' @ unwrap_or tag ''<missing>''))"

text \<open>A message of the execution: the entries it adds to the timeline, the line it keeps, and whether it is the last.\<close>

datatype shell_step =
    ShellGoOn "str list" "str option"
  | ShellEnd "str list" str
  | ShellFail str

definition ellipsis :: str where "ellipsis = [CHR 0xE2, CHR 0x80, CHR 0xA6]"

definition shell_message :: "str \<Rightarrow> json \<Rightarrow> shell_step" where
  "shell_message action_name msg =
    (let tag = as_str (json_index msg ''type'') in
     if tag = Some ''job_started'' then ShellGoOn [''Executing '' @ action_name @ ellipsis] None
     else if tag = Some ''job_progress'' then
       (case as_str (json_index msg ''line'') of
          Some line \<Rightarrow> if line = [] then ShellGoOn [] None else ShellGoOn [line] (Some line)
        | None \<Rightarrow> ShellGoOn [] None)
     else if tag = Some ''job_completed'' then
       ShellEnd
         (case as_str (json_index (json_index msg ''result'') ''summary'') of
            Some summary \<Rightarrow> if summary = [] then [] else [summary]
          | None \<Rightarrow> [])
         (unwrap_or (as_str (json_index (json_index msg ''result'') ''status'')) ''failed'')
     else if tag = Some ''error_response'' then ShellFail (''daemon error during execute ('' @ category_text msg)
     else ShellFail (''unexpected response type during execute: '' @ unwrap_or tag ''<missing>''))"

function shell_execute_loop ::
  "client_env \<Rightarrow> str \<Rightarrow> str list \<Rightarrow> str \<Rightarrow> shell_event list \<times> (str, str \<times> str list) result" where
  "shell_execute_loop ce action_name collected bytes = (case shell_read_framed ce bytes of
      Inl e \<Rightarrow> ([], Inl (''failed to read execute response: '' @ e))
    | Inr (raw, rest) \<Rightarrow> (case ce_parse ce raw of
        None \<Rightarrow> ([], Inl (''invalid JSON in execute response: '' @ ce_json_text ce))
      | Some msg \<Rightarrow> (case shell_message action_name msg of
          ShellFail e \<Rightarrow> ([], Inl e)
        | ShellEnd shown status \<Rightarrow> (map TimelineEntry shown, Inr (status, collected @ shown))
        | ShellGoOn shown kept \<Rightarrow>
            (case shell_execute_loop ce action_name (collected @ (case kept of None \<Rightarrow> [] | Some l \<Rightarrow> [l])) rest of
               (evs, r) \<Rightarrow> (map TimelineEntry shown @ evs, r)))))"
  by auto
termination
  by (relation "measure (\<lambda>(ce, n, c, bytes). length bytes)") (auto dest: shell_read_framed_shorter)

declare shell_execute_loop.simps [simp del]

definition execute_action ::
  "client_env \<Rightarrow> str \<Rightarrow> shell_peer \<Rightarrow> str \<Rightarrow> json \<Rightarrow> shell_event list \<times> (str, str \<times> str list) result" where
  "execute_action ce socket_path peer action_name params =
    (if \<not> sp_connects peer then ([], Inl (''cannot connect to daemon at '' @ socket_path @ '': '' @ ce_io_text ce))
     else if write_framed (json_display (ce_ext ce) (step_request ''preview'' ''shell-preview'' action_name params None)) = None \<or>
       \<not> sp_takes_preview peer
     then ([], Inl (''failed to send preview request: '' @ ce_io_text ce))
     else
       (let sent = SentPreview action_name params in
        case shell_read_framed ce (sp_reply peer) of
          Inl e \<Rightarrow> ([sent], Inl (''failed to read preview response: '' @ e))
        | Inr (raw, rest) \<Rightarrow> (case ce_parse ce raw of
            None \<Rightarrow> ([sent], Inl (''invalid JSON in preview response: '' @ ce_json_text ce))
          | Some resp \<Rightarrow> (case preview_hash action_name resp of
              Inl e \<Rightarrow> ([sent], Inl e)
            | Inr hash \<Rightarrow>
                let ready = [sent, TimelineEntry (''Preview ready for '' @ action_name)] in
                if write_framed (json_display (ce_ext ce)
                     (step_request ''execute'' ''shell-execute'' action_name params (Some hash))) = None \<or>
                   \<not> sp_takes_execute peer
                then (ready, Inl (''failed to send execute request: '' @ ce_io_text ce))
                else (case shell_execute_loop ce action_name [] rest of
                    (evs, r) \<Rightarrow> (ready @ SentExecute action_name params hash # evs, r))))))"

section \<open>The approved plan\<close>

record step_output_line =
  so_action_name :: str
  so_status :: str
  so_output_lines :: "str list"

record execution_result =
  er_outcome :: str
  er_step_outputs :: "step_output_line list"

datatype job_outcome = OutcomeSucceeded | OutcomeNeedsReboot | OutcomeFailed | OutcomeRolledBack

definition outcome_of_status :: "str \<Rightarrow> job_outcome" where
  "outcome_of_status status =
    (if status = ''succeeded'' then OutcomeSucceeded
     else if status = ''needs_reboot'' then OutcomeNeedsReboot
     else if status = ''rolled_back'' then OutcomeRolledBack
     else OutcomeFailed)"

text \<open>\<open>approve_preview\<close>: a step with the peer of its connection; the final status, the outputs and the events.\<close>

fun approve_steps ::
  "client_env \<Rightarrow> str \<Rightarrow> str \<Rightarrow> (str \<times> json \<times> shell_peer) list \<Rightarrow> shell_event list \<times> str \<times> step_output_line list" where
  "approve_steps ce socket_path status [] = ([], status, [])"
| "approve_steps ce socket_path status ((n, ps, peer) # ss) =
    (case execute_action ce socket_path peer n ps of
       (evs, Inl e) \<Rightarrow> (evs, ''failed'', [\<lparr>so_action_name = n, so_status = ''failed'', so_output_lines = [e]\<rparr>])
     | (evs, Inr (status, ls)) \<Rightarrow>
         (let line = \<lparr>so_action_name = n, so_status = status, so_output_lines = ls\<rparr> in
          if status \<noteq> ''succeeded'' then (evs, status, [line])
          else (case approve_steps ce socket_path status ss of
              (evs', final, lines') \<Rightarrow> (evs @ evs', final, line # lines'))))"

definition approve_preview ::
  "client_env \<Rightarrow> str \<Rightarrow> (str \<times> json \<times> shell_peer) list \<Rightarrow> shell_event list \<times> execution_result \<times> job_outcome" where
  "approve_preview ce socket_path steps = (case approve_steps ce socket_path ''succeeded'' steps of
      (evs, status, outputs) \<Rightarrow>
        (evs, \<lparr>er_outcome = status, er_step_outputs = outputs\<rparr>, outcome_of_status status))"

section \<open>Planning\<close>

record shell_error =
  sh_code :: str
  sh_message :: str
  sh_system_changed :: bool

definition pre_flight :: "str \<Rightarrow> str \<Rightarrow> shell_error" where
  "pre_flight code message = \<lparr>sh_code = code, sh_message = message, sh_system_changed = False\<rparr>"

definition provider_code :: "str \<Rightarrow> str" where
  "provider_code s =
    (if contains_str s ''429'' then ''llm_rate_limit''
     else if starts_with s ''http'' \<or> contains_str s ''HTTP'' then ''llm_http_error''
     else ''llm_parse_error'')"

fun planning_error_code :: "planning_error \<Rightarrow> str" where
  "planning_error_code EmptyIntent = ''intent_empty''"
| "planning_error_code (IntentTooLong len max_len) = ''intent_too_long''"
| "planning_error_code IntentContainsSensitiveData = ''intent_contains_sensitive_data''"
| "planning_error_code (RateLimitExceeded secs) = ''rate_limit_exceeded''"
| "planning_error_code (StateUnavailable m) = ''daemon_not_running''"
| "planning_error_code (ProviderFailed s) = provider_code s"
| "planning_error_code (InvalidPlanOutput m) = ''llm_parse_error''"
| "planning_error_code _ = ''unknown''"

definition map_planning_error :: "planning_error \<Rightarrow> shell_error" where
  "map_planning_error e = pre_flight (planning_error_code e) (planning_error_text e)"

record plan_step_response =
  qs_action_name :: str
  qs_summary :: str
  qs_risk_level :: str
  qs_approval_required :: bool
  qs_params :: json

record plan_response =
  qp_summary :: str
  qp_explanation :: str
  qp_approval_required :: bool
  qp_steps :: "plan_step_response list"
  qp_host_name :: str
  qp_deployment :: str
  qp_toolbox_count :: nat
  qp_flatpak_count :: nat

definition step_response :: "plan_step \<Rightarrow> plan_step_response" where
  "step_response s = \<lparr>qs_action_name = action_name_str (ps_action_name s), qs_summary = ps_summary s,
    qs_risk_level = plan_risk_level_str (ps_risk_level s), qs_approval_required = approval_required s, qs_params = ps_params s\<rparr>"

definition plan_to_response :: "plan \<Rightarrow> curated_state \<Rightarrow> plan_response" where
  "plan_to_response p curated =
    \<lparr>qp_summary = pl_summary p, qp_explanation = pl_explanation p,
     qp_approval_required = list_ex approval_required (pl_steps p), qp_steps = map step_response (pl_steps p),
     qp_host_name = cu_host_name curated, qp_deployment = cu_deployment curated,
     qp_toolbox_count = length (cu_toolboxes curated), qp_flatpak_count = length (cu_flatpaks curated)\<rparr>"

text \<open>\<open>execute_plan_intent\<close>, over what the state client and the planner answer.\<close>

definition execute_plan_intent ::
  "(planning_error, curated_state) result \<Rightarrow> (planning_error, plan) result \<Rightarrow> str \<Rightarrow> (shell_error, plan_response) result" where
  "execute_plan_intent state planned intent =
    (if intent = [] then Inl (pre_flight ''intent_empty'' ''Intent is empty'')
     else rbind (map_err (\<lambda>e. pre_flight ''unknown'' (planning_error_text e)) state) (\<lambda>curated.
       rbind (map_err map_planning_error planned) (\<lambda>p. Inr (plan_to_response p curated))))"

section \<open>The review\<close>

text \<open>\<open>chars().filter(..).take(n)\<close>, with the control characters of Unicode: those of ASCII and U+0080 to U+009F.\<close>

definition is_control :: "str \<Rightarrow> bool" where
  "is_control ch = (code_point ch < 32 \<or> (127 \<le> code_point ch \<and> code_point ch < 160))"

definition sanitize_intent_for_prompt :: "str \<Rightarrow> nat \<Rightarrow> str" where
  "sanitize_intent_for_prompt intent max_len =
    concat (take max_len (filter (\<lambda>ch. \<not> is_control ch \<and> ch \<noteq> [CHR 0x22]) (utf8_chars intent)))"

definition MAX_LINES :: nat where "MAX_LINES = 50"
definition MAX_LINE_LEN :: nat where "MAX_LINE_LEN = 500"

text \<open>The slice panics (\<open>None\<close>) when the byte is inside a character.\<close>

definition cut_line :: "str \<Rightarrow> str option" where
  "cut_line line =
    (if length line > MAX_LINE_LEN
     then (if is_char_boundary line MAX_LINE_LEN then Some (take MAX_LINE_LEN line) else None)
     else Some line)"

definition newline :: str where "newline = [CHR 0x0A]"

definition step_text :: "step_output_line \<Rightarrow> str option" where
  "step_text o_step =
    map_option (\<lambda>ls. ''Step: '' @ so_action_name o_step @ '' ('' @ so_status o_step @ '')'' @ newline @
        concat (map (\<lambda>l. ''  '' @ l @ newline) ls) @
        (if length (so_output_lines o_step) > MAX_LINES
         then ''  ... ('' @ show_nat (length (so_output_lines o_step) - MAX_LINES) @ '' more lines)'' @ newline else []) @
        newline)
      (all_some (map cut_line (take MAX_LINES (so_output_lines o_step))))"

definition output_text :: "execution_result \<Rightarrow> str option" where
  "output_text r = map_option (\<lambda>ts. ''Outcome: '' @ er_outcome r @ newline @ newline @ concat ts)
    (all_some (map step_text (er_step_outputs r)))"

definition summary_intent :: "str \<Rightarrow> str \<Rightarrow> str" where
  "summary_intent safe_intent txt =
    ''Summarize the following SysKnife execution result in 2-3 plain-language sentences for the user. '' @
    ''The user'' @ [CHR 0x27] @ ''s original task was: '' @ safe_intent @ ''. '' @
    ''Explain what happened and whether the task was successful. '' @
    ''If there were errors, mention them briefly. Do not propose a plan '' @ [CHR 0xE2, CHR 0x80, CHR 0x94] @
    '' just summarize.'' @ newline @ newline @ ''Execution output:'' @ newline @ txt"

text \<open>\<open>LlmPlanner::summarize\<close>: the error before the model is asked, if any, and what its answer is worth.\<close>

definition summarize_refused :: "nat option \<Rightarrow> str \<Rightarrow> planning_error option" where
  "summarize_refused retry_after prompt =
    (if length prompt > INTENT_MAX_BYTES then Some (IntentTooLong (length prompt) INTENT_MAX_BYTES)
     else if contains_sensitive prompt then Some IntentContainsSensitiveData
     else map_option RateLimitExceeded retry_after)"

definition summary_of :: "(provider_error, completion) result \<Rightarrow> (planning_error, str) result" where
  "summary_of r = (case r of
      Inl e \<Rightarrow> Inl (of_provider e)
    | Inr c \<Rightarrow>
        (let text = join_with newline (List.map_filter (\<lambda>b. case b of TextBlock t \<Rightarrow> Some t | _ \<Rightarrow> None) (cp_content c))
         in if text = [] then Inl NoPlanProposed else Inr text))"

definition summarize ::
  "nat option \<Rightarrow> (str \<Rightarrow> (provider_error, completion) result) \<Rightarrow> str \<Rightarrow> (planning_error, str) result" where
  "summarize retry_after model prompt = (case summarize_refused retry_after prompt of
      Some e \<Rightarrow> Inl e
    | None \<Rightarrow> summary_of (model prompt))"

text \<open>\<open>review_execution\<close>; \<open>None\<close> is the panic of a slice.\<close>

definition review_execution ::
  "nat option \<Rightarrow> (str \<Rightarrow> (provider_error, completion) result) \<Rightarrow> execution_result \<Rightarrow> str \<Rightarrow> str option" where
  "review_execution retry_after model result intent =
    map_option (\<lambda>txt. (case summarize retry_after model
        (summary_intent (sanitize_intent_for_prompt intent 500) txt) of
          Inr t \<Rightarrow> t
        | Inl e \<Rightarrow> txt))
      (output_text result)"

end
