(* ===== verification/Shell_Properties.thy ===== *)
theory Shell_Properties
  imports Shell
begin

text \<open>
  What the desktop shell sends to the daemon for an approved plan and what it reports of it, and when the review of
  the result fails.
\<close>

section \<open>Execution\<close>

text \<open>The execute requests of a run, and the hash the peer of a step offers in its first message.\<close>

fun execute_of :: "shell_event \<Rightarrow> (str \<times> json \<times> str) option" where
  "execute_of (SentExecute n ps h) = Some (n, ps, h)"
| "execute_of e = None"

definition executes :: "shell_event list \<Rightarrow> (str \<times> json \<times> str) list" where
  "executes evs = List.map_filter execute_of evs"

lemma executes_simps [simp]:
  "executes [] = []"
  "executes (e # es) = (case execute_of e of None \<Rightarrow> executes es | Some c \<Rightarrow> c # executes es)"
  "executes (es @ fs) = executes es @ executes fs"
  by (simp_all add: executes_def List.map_filter_def split: option.split)

lemma executes_timeline [simp]: "executes (map TimelineEntry ls) = []"
  by (induction ls) simp_all















section \<open>The review\<close>

lemma all_some_None: "all_some (map f xs) = None \<longleftrightarrow> (\<exists>x\<in>set xs. f x = None)"
  by (induction xs) (auto split: option.splits)

text \<open>The review of a result panics exactly when one of the first fifty lines of a step is longer than 500 bytes
  and has its 500th byte boundary inside a character; on every other result it gives a text.\<close>

theorem review_panics_iff:
  "review_execution retry_after model r intent = None \<longleftrightarrow>
    (\<exists>st\<in>set (er_step_outputs r). \<exists>line\<in>set (take 50 (so_output_lines st)).
      500 < length line \<and> \<not> is_char_boundary line 500)"
proof -
  have cut: "cut_line line = None \<longleftrightarrow> 500 < length line \<and> \<not> is_char_boundary line 500" for line
    by (simp add: cut_line_def MAX_LINE_LEN_def)
  have "step_text st = None \<longleftrightarrow> (\<exists>line\<in>set (take 50 (so_output_lines st)). cut_line line = None)" for st
    by (auto simp: step_text_def all_some_None MAX_LINES_def)
  then have "output_text r = None \<longleftrightarrow> (\<exists>st\<in>set (er_step_outputs r). \<exists>line\<in>set (take 50 (so_output_lines st)). cut_line line = None)"
    by (auto simp: output_text_def all_some_None)
  then show ?thesis by (simp add: review_execution_def cut)
qed

text \<open>Results of more than 2048 bytes are never summarised: the limit for intents holds for the whole prompt.\<close>

lemma long_results_not_summarized:
  assumes "output_text r = Some txt" "INTENT_MAX_BYTES < length txt"
  shows "review_execution retry_after model r intent = Some txt"
proof -
  have "length txt \<le> length (summary_intent i txt)" for i by (simp add: summary_intent_def)
  then have "INTENT_MAX_BYTES < length (summary_intent (sanitize_intent_for_prompt intent 500) txt)"
    using assms(2) le_less_trans less_le_trans by blast
  then have "\<exists>e. summarize retry_after model (summary_intent (sanitize_intent_for_prompt intent 500) txt) = Inl e"
    by (simp add: summarize_def summarize_refused_def)
  then show ?thesis by (auto simp: review_execution_def assms(1))
qed

end
