(* ===== verification/Config.thy ===== *)
theory Config
  imports Validate
begin

text \<open>
  Configuration: the process environment, the file \<open>config.toml\<close> that fills its gaps
  (\<open>crates/sysknife-core/src/config.rs\<close>, \<open>lib.rs\<close>), and what the planner makes of it
  (\<open>crates/sysknife-brain/src/config.rs\<close>, \<open>resolve_ollama_think\<close> of \<open>planner.rs\<close>). The environment is a map
  from names to texts; the file is the value the TOML parser gives. Paths are texts, joined as
  \<open>PathBuf::join\<close> does.
\<close>

type_synonym environment = "str \<rightharpoonup> str"

section \<open>The file\<close>

record daemon_section =
  ds_socket :: "str option"
  ds_database :: "str option"

record llm_section =
  ls_provider :: "str option"
  ls_model :: "str option"
  ls_ollama_url :: "str option"
  ls_anthropic_url :: "str option"
  ls_max_turns :: "nat option"
  ls_ollama_think :: "bool option"

record storage_pool =
  sp_max_connections :: "nat option"
  sp_acquire_timeout_secs :: "nat option"
  sp_statement_cache_capacity :: "nat option"

record storage_section =
  ss_backend :: str
  ss_url :: "str option"
  ss_pool :: "storage_pool option"

text \<open>The table of overrides is a list of pairs; the daemon checks it at startup (\<open>Policy\<close>).\<close>

record syslog_section =
  sl_host :: str
  sl_facility :: nat

record lacs_config =
  lc_daemon :: "daemon_section option"
  lc_llm :: "llm_section option"
  lc_policy :: "(str \<times> str) list option"
  lc_audit :: "syslog_section option"
  lc_storage :: "storage_section option"

datatype storage_backend = SqliteBackend | PostgresBackend str storage_pool

definition storage_parsed :: "(str \<Rightarrow> str) \<Rightarrow> storage_section \<Rightarrow> (str, storage_backend) result" where
  "storage_parsed dbg s =
    (let backend = to_ascii_lowercase (ss_backend s) in
     if backend = ''sqlite'' then Inr SqliteBackend
     else if backend = ''postgres'' then
       rbind (ok_or (ss_url s) (''[storage] backend = '' @ CHR 0x22 # ''postgres'' @ CHR 0x22 #
           '' requires `url = '' @ CHR 0x22 # ''postgres://...'' @ CHR 0x22 # ''`'')) (\<lambda>url.
       Inr (PostgresBackend url (unwrap_or (ss_pool s)
         \<lparr>sp_max_connections = None, sp_acquire_timeout_secs = None, sp_statement_cache_capacity = None\<rparr>)))
     else Inl (''[storage] unknown backend '' @ dbg backend @ ''; expected '' @ CHR 0x22 # ''sqlite'' @ CHR 0x22 #
       '' or '' @ CHR 0x22 # ''postgres'' @ [CHR 0x22]))"

text \<open>\<open>LacsConfig::load\<close>: the parsed file, or nothing.\<close>

definition default_config :: lacs_config where
  "default_config = \<lparr>lc_daemon = None, lc_llm = None, lc_policy = None, lc_audit = None, lc_storage = None\<rparr>"

definition load_config :: "(str \<Rightarrow> lacs_config option) \<Rightarrow> str option \<Rightarrow> lacs_config" where
  "load_config parse content = (case content of
      Some c \<Rightarrow> unwrap_or (parse c) default_config
    | None \<Rightarrow> default_config)"

section \<open>Filling the environment\<close>

definition set_if_absent :: "str \<Rightarrow> str option \<Rightarrow> environment \<Rightarrow> environment" where
  "set_if_absent key val env = (case val of
      Some v \<Rightarrow> if env key = None then env(key \<mapsto> v) else env
    | None \<Rightarrow> env)"

definition socket_uri :: "str \<Rightarrow> str" where
  "socket_uri socket = (if starts_with socket ''unix://'' then socket else ''unix://'' @ socket)"

definition daemon_defaults :: "daemon_section \<Rightarrow> (str \<times> str option) list" where
  "daemon_defaults d =
    [(''SYSKNIFE_LISTEN_URI'', map_option socket_uri (ds_socket d)),
     (''SYSKNIFE_DATABASE_PATH'', ds_database d)]"

definition llm_defaults :: "llm_section \<Rightarrow> (str \<times> str option) list" where
  "llm_defaults l =
    [(''SYSKNIFE_LLM_PROVIDER'', ls_provider l), (''SYSKNIFE_LLM_MODEL'', ls_model l),
     (''SYSKNIFE_OLLAMA_URL'', ls_ollama_url l), (''SYSKNIFE_ANTHROPIC_URL'', ls_anthropic_url l),
     (''SYSKNIFE_BRAIN_MAX_TURNS'', map_option show_nat (ls_max_turns l)),
     (''SYSKNIFE_OLLAMA_THINK'', map_option (\<lambda>think. if think then ''true'' else ''false'') (ls_ollama_think l))]"

definition config_defaults :: "lacs_config \<Rightarrow> (str \<times> str option) list" where
  "config_defaults cfg =
    (case lc_daemon cfg of None \<Rightarrow> [] | Some d \<Rightarrow> daemon_defaults d) @
    (case lc_llm cfg of None \<Rightarrow> [] | Some l \<Rightarrow> llm_defaults l)"

definition apply_defaults_to_env :: "lacs_config \<Rightarrow> environment \<Rightarrow> environment" where
  "apply_defaults_to_env cfg env = fold (\<lambda>(key, val). set_if_absent key val) (config_defaults cfg) env"

section \<open>Paths\<close>

definition path_join :: "str \<Rightarrow> str \<Rightarrow> str" where
  "path_join base p =
    (if starts_with p ''/'' then p
     else if base = [] \<or> ends_with base ''/'' then base @ p
     else base @ CHR ''/'' # p)"

definition is_absolute :: "str \<Rightarrow> bool" where
  "is_absolute p = starts_with p ''/''"

definition has_parent_dir :: "str \<Rightarrow> bool" where
  "has_parent_dir p = List.member (split_on CHR ''/'' p) ''..''"

text \<open>\<open>None\<close> is the panic on an unset \<open>HOME\<close>.\<close>

definition config_dir :: "environment \<Rightarrow> str option" where
  "config_dir env =
    (let xdg_valid = Option.bind (env ''XDG_CONFIG_HOME'')
           (\<lambda>p. if is_absolute p \<and> \<not> has_parent_dir p then Some p else None)
     in map_option (\<lambda>base. path_join base ''sysknife'')
       (case xdg_valid of
          Some p \<Rightarrow> Some p
        | None \<Rightarrow> map_option (\<lambda>home. path_join home ''.config'') (env ''HOME'')))"

definition config_path :: "environment \<Rightarrow> str option" where
  "config_path env = map_option (\<lambda>d. path_join d ''config.toml'') (config_dir env)"

definition prefs_path :: "environment \<Rightarrow> str option" where
  "prefs_path env = map_option (\<lambda>d. path_join d ''prefs.md'') (config_dir env)"

definition PRODUCTION_DATABASE_PATH :: str where
  "PRODUCTION_DATABASE_PATH = ''/var/lib/sysknife/daemon.sqlite''"

definition default_listen_uri :: "nat \<Rightarrow> environment \<Rightarrow> str" where
  "default_listen_uri uid env = (case env ''SYSKNIFE_LISTEN_URI'' of
      Some uri \<Rightarrow> uri
    | None \<Rightarrow> (case env ''XDG_RUNTIME_DIR'' of
        Some runtime \<Rightarrow> ''unix://'' @ path_join runtime ''sysknife/daemon.sock''
      | None \<Rightarrow> ''unix:///tmp/sysknife-'' @ show_nat uid @ ''.sock''))"

definition default_database_path :: "environment \<Rightarrow> str" where
  "default_database_path env = (case env ''SYSKNIFE_DATABASE_PATH'' of
      Some path \<Rightarrow> path
    | None \<Rightarrow> (case env ''XDG_STATE_HOME'' of
        Some state \<Rightarrow> path_join state ''sysknife/daemon.sqlite''
      | None \<Rightarrow> (case env ''HOME'' of
          Some home \<Rightarrow> path_join home ''.local/state/sysknife/daemon.sqlite''
        | None \<Rightarrow> PRODUCTION_DATABASE_PATH)))"

section \<open>The environment wins\<close>

lemma set_if_absent_apply:
  "set_if_absent key val env k = (if k = key \<and> env k = None then val else env k)"
  by (auto simp: set_if_absent_def split: option.splits)

lemma fold_set_if_absent:
  "distinct (map fst ps) \<Longrightarrow>
   fold (\<lambda>(key, val). set_if_absent key val) ps env k =
     (case env k of Some v \<Rightarrow> Some v | None \<Rightarrow> Option.bind (map_of ps k) (\<lambda>v. v))"
proof (induction ps arbitrary: env)
  case (Cons p ps)
  obtain key val where p: "p = (key, val)" by (cases p)
  from Cons.prems p have "k = key \<Longrightarrow> map_of ps k = None"
    by (auto simp: map_of_eq_None_iff)
  then show ?case using Cons.IH [of "set_if_absent key val env"] Cons.prems p
    by (auto simp: set_if_absent_apply split: option.splits)
qed (simp split: option.splits)

lemma config_keys_distinct: "distinct (map fst (config_defaults cfg))"
  by (cases "lc_daemon cfg"; cases "lc_llm cfg") (simp_all add: config_defaults_def daemon_defaults_def llm_defaults_def)

text \<open>A variable of the process environment is never changed by the configuration file; a variable that is
  not set gets the value the file gives it, if it gives one, and nothing else changes.\<close>

theorem environment_wins:
  "apply_defaults_to_env cfg env k =
    (case env k of Some v \<Rightarrow> Some v | None \<Rightarrow> Option.bind (map_of (config_defaults cfg) k) (\<lambda>v. v))"
  unfolding apply_defaults_to_env_def by (rule fold_set_if_absent [OF config_keys_distinct])

lemma defaults_applied_once:
  "apply_defaults_to_env cfg (apply_defaults_to_env cfg env) = apply_defaults_to_env cfg env"
  by (rule ext) (simp add: apply_defaults_to_env_def fold_set_if_absent [OF config_keys_distinct] split: option.splits)

lemma daemon_socket_is_uri:
  "env ''SYSKNIFE_LISTEN_URI'' = None \<Longrightarrow> lc_daemon cfg = Some d \<Longrightarrow> ds_socket d = Some s \<Longrightarrow>
   default_listen_uri uid (apply_defaults_to_env cfg env) = socket_uri s"
  unfolding default_listen_uri_def apply_defaults_to_env_def fold_set_if_absent [OF config_keys_distinct]
  by (simp add: config_defaults_def daemon_defaults_def)

text \<open>The directory of the preferences is under an absolute path without \<open>..\<close> of the environment, or the home
  directory; a system directory such as \<open>/etc\<close> passes the check.\<close>

lemma system_directory_accepted:
  "env ''XDG_CONFIG_HOME'' = Some ''/etc'' \<Longrightarrow> prefs_path env = Some ''/etc/sysknife/prefs.md''"
  by (simp add: prefs_path_def config_dir_def is_absolute_def has_parent_dir_def path_join_def
      starts_with_def ends_with_def prefix_def suffix_def)

end
