(* ===== verification/Brain_Config.thy ===== *)
theory Brain_Config
  imports Config Shell Rate_Limit
begin

text \<open>
  The configuration of the planner (\<open>crates/sysknife-brain/src/config.rs\<close>), the model backend it selects
  (\<open>resolve_ollama_think\<close> and \<open>LlmPlanner::from_config\<close> of \<open>planner.rs\<close>), and what the desktop shell shows of it
  (\<open>ShellCommandState::new\<close>, \<open>check_setup_status\<close> of \<open>commands.rs\<close>). The clients of the providers belong to the
  library \<open>rig\<close> and to \<open>async-openai\<close>: a backend is the data they are built from, and \<open>init\<close> tells whether the
  library could build the client.
\<close>

section \<open>Provider and errors\<close>

datatype provider_config =
    Anthropic (pc_api_key: str) (pc_model: str) (pc_base_url: str)
  | Ollama (pc_base_url: str) (pc_model: str)
  | OpenAI (pc_api_key: str) (pc_model: str)
  | Gemini (pc_api_key: str) (pc_model: str)
  | Groq (pc_api_key: str) (pc_model: str)
  | DeepSeek (pc_api_key: str) (pc_model: str)
  | Mistral (pc_api_key: str) (pc_model: str)
  | XAI (pc_api_key: str) (pc_model: str)

record brain_config =
  bc_provider :: provider_config
  bc_max_turns :: nat

datatype config_error =
    MissingAnthropicKey
  | MissingApiKey str str
  | UnknownProvider str
  | InvalidMaxTurns str

fun config_error_text :: "config_error \<Rightarrow> str" where
  "config_error_text MissingAnthropicKey =
    ''ANTHROPIC_API_KEY is required when provider is '' @ quoted ''anthropic'' @ '' and must not be empty''"
| "config_error_text (MissingApiKey var provider) =
    ''API key environment variable '' @ quoted var @ '' is required for provider '' @ quoted provider @
    '' and must not be empty''"
| "config_error_text (UnknownProvider p) =
    ''unknown provider '' @ quoted p @
    '': expected one of: anthropic, ollama, openai, gemini, groq, deepseek, mistral, xai''"
| "config_error_text (InvalidMaxTurns raw) =
    ''SYSKNIFE_BRAIN_MAX_TURNS must be a positive integer (>= 1), got '' @ quoted raw"

section \<open>Loading\<close>

definition DEFAULT_MAX_TURNS :: nat where "DEFAULT_MAX_TURNS = 10"

definition DEFAULT_ANTHROPIC_MODEL :: str where "DEFAULT_ANTHROPIC_MODEL = ''claude-sonnet-4-6''"
definition DEFAULT_ANTHROPIC_BASE_URL :: str where "DEFAULT_ANTHROPIC_BASE_URL = ''https://api.anthropic.com''"
definition DEFAULT_OLLAMA_MODEL :: str where "DEFAULT_OLLAMA_MODEL = ''qwen3:8b''"
definition DEFAULT_OLLAMA_BASE_URL :: str where "DEFAULT_OLLAMA_BASE_URL = ''http://localhost:11434''"
definition DEFAULT_OPENAI_MODEL :: str where "DEFAULT_OPENAI_MODEL = ''gpt-4.1''"
definition DEFAULT_GEMINI_MODEL :: str where "DEFAULT_GEMINI_MODEL = ''gemini-2.0-flash''"
definition DEFAULT_GROQ_MODEL :: str where "DEFAULT_GROQ_MODEL = ''llama-3.3-70b-versatile''"
definition DEFAULT_DEEPSEEK_MODEL :: str where "DEFAULT_DEEPSEEK_MODEL = ''deepseek-chat''"
definition DEFAULT_MISTRAL_MODEL :: str where "DEFAULT_MISTRAL_MODEL = ''mistral-large-latest''"
definition DEFAULT_XAI_MODEL :: str where "DEFAULT_XAI_MODEL = ''grok-3''"

text \<open>A key that counts: set, and not blank.\<close>

definition usable_key :: "environment \<Rightarrow> str \<Rightarrow> str option" where
  "usable_key env var = (case env var of
      Some k \<Rightarrow> if trim k \<noteq> [] then Some k else None
    | None \<Rightarrow> None)"

definition require_api_key :: "environment \<Rightarrow> str \<Rightarrow> str \<Rightarrow> (config_error, str) result" where
  "require_api_key env var provider = ok_or (usable_key env var) (MissingApiKey var provider)"

definition max_turns_of :: "environment \<Rightarrow> (config_error, nat) result" where
  "max_turns_of env = (case env ''SYSKNIFE_BRAIN_MAX_TURNS'' of
      None \<Rightarrow> Inr DEFAULT_MAX_TURNS
    | Some raw \<Rightarrow> (case parse_uint u64_max raw of
        None \<Rightarrow> Inl (InvalidMaxTurns raw)
      | Some parsed \<Rightarrow> if parsed = 0 then Inl (InvalidMaxTurns raw) else Inr parsed))"

definition selected_provider :: "environment \<Rightarrow> str" where
  "selected_provider env = (case env ''SYSKNIFE_LLM_PROVIDER'' of
      Some name \<Rightarrow> name
    | None \<Rightarrow> if usable_key env ''ANTHROPIC_API_KEY'' \<noteq> None then ''anthropic'' else ''ollama'')"

text \<open>The providers that need their own key: name, variable, default model, constructor.\<close>

definition keyed_providers :: "(str \<times> str \<times> str \<times> (str \<Rightarrow> str \<Rightarrow> provider_config)) list" where
  "keyed_providers =
    [(''openai'', ''OPENAI_API_KEY'', DEFAULT_OPENAI_MODEL, OpenAI),
     (''gemini'', ''GEMINI_API_KEY'', DEFAULT_GEMINI_MODEL, Gemini),
     (''groq'', ''GROQ_API_KEY'', DEFAULT_GROQ_MODEL, Groq),
     (''deepseek'', ''DEEPSEEK_API_KEY'', DEFAULT_DEEPSEEK_MODEL, DeepSeek),
     (''mistral'', ''MISTRAL_API_KEY'', DEFAULT_MISTRAL_MODEL, Mistral),
     (''xai'', ''XAI_API_KEY'', DEFAULT_XAI_MODEL, XAI)]"

definition provider_of :: "environment \<Rightarrow> str \<Rightarrow> (config_error, provider_config) result" where
  "provider_of env name =
    (let model = (\<lambda>d. unwrap_or (env ''SYSKNIFE_LLM_MODEL'') d) in
     if name = ''anthropic'' then
       rbind (ok_or (usable_key env ''ANTHROPIC_API_KEY'') MissingAnthropicKey) (\<lambda>api_key.
       Inr (Anthropic api_key (model DEFAULT_ANTHROPIC_MODEL)
         (unwrap_or (env ''SYSKNIFE_ANTHROPIC_URL'') DEFAULT_ANTHROPIC_BASE_URL)))
     else if name = ''ollama'' then
       Inr (Ollama (unwrap_or (env ''SYSKNIFE_OLLAMA_URL'') DEFAULT_OLLAMA_BASE_URL) (model DEFAULT_OLLAMA_MODEL))
     else (case map_of keyed_providers name of
         Some (var, default_model, mk) \<Rightarrow>
           rbind (require_api_key env var name) (\<lambda>api_key. Inr (mk api_key (model default_model)))
       | None \<Rightarrow> Inl (UnknownProvider name)))"

definition from_env :: "environment \<Rightarrow> (config_error, brain_config) result" where
  "from_env env =
    rbind (max_turns_of env) (\<lambda>max_turns.
    rbind (provider_of env (to_lowercase (selected_provider env))) (\<lambda>provider.
    Inr \<lparr>bc_provider = provider, bc_max_turns = max_turns\<rparr>))"

definition ollama_defaults :: brain_config where
  "ollama_defaults = \<lparr>bc_provider = Ollama DEFAULT_OLLAMA_BASE_URL DEFAULT_OLLAMA_MODEL,
    bc_max_turns = DEFAULT_MAX_TURNS\<rparr>"

section \<open>What is shown of it\<close>

fun provider_name :: "provider_config \<Rightarrow> str" where
  "provider_name (Anthropic _ _ _) = ''anthropic''"
| "provider_name (Ollama _ _) = ''ollama''"
| "provider_name (OpenAI _ _) = ''openai''"
| "provider_name (Gemini _ _) = ''gemini''"
| "provider_name (Groq _ _) = ''groq''"
| "provider_name (DeepSeek _ _) = ''deepseek''"
| "provider_name (Mistral _ _) = ''mistral''"
| "provider_name (XAI _ _) = ''xai''"

definition model_name :: "brain_config \<Rightarrow> str" where
  "model_name c = pc_model (bc_provider c)"

text \<open>\<open>debug_struct\<close> without the pretty flag; \<open>dbg\<close> is the \<open>Debug\<close> of a text.\<close>

definition debug_struct :: "str \<Rightarrow> (str \<times> str) list \<Rightarrow> str" where
  "debug_struct name fs = name @ '' { '' @ join_with '', '' (map (\<lambda>(k, v). k @ '': '' @ v) fs) @ '' }''"

definition redacted_fields :: "(str \<Rightarrow> str) \<Rightarrow> str \<Rightarrow> (str \<times> str) list" where
  "redacted_fields dbg model = [(''api_key'', dbg ''[redacted]''), (''model'', dbg model)]"

fun provider_debug :: "(str \<Rightarrow> str) \<Rightarrow> provider_config \<Rightarrow> str" where
  "provider_debug dbg (Anthropic _ model url) =
    debug_struct ''Anthropic'' (redacted_fields dbg model @ [(''base_url'', dbg url)])"
| "provider_debug dbg (Ollama url model) =
    debug_struct ''Ollama'' [(''base_url'', dbg url), (''model'', dbg model)]"
| "provider_debug dbg (OpenAI _ model) = debug_struct ''OpenAI'' (redacted_fields dbg model)"
| "provider_debug dbg (Gemini _ model) = debug_struct ''Gemini'' (redacted_fields dbg model)"
| "provider_debug dbg (Groq _ model) = debug_struct ''Groq'' (redacted_fields dbg model)"
| "provider_debug dbg (DeepSeek _ model) = debug_struct ''DeepSeek'' (redacted_fields dbg model)"
| "provider_debug dbg (Mistral _ model) = debug_struct ''Mistral'' (redacted_fields dbg model)"
| "provider_debug dbg (XAI _ model) = debug_struct ''xAI'' (redacted_fields dbg model)"

definition brain_config_debug :: "(str \<Rightarrow> str) \<Rightarrow> brain_config \<Rightarrow> str" where
  "brain_config_debug dbg c = debug_struct ''BrainConfig''
    [(''provider'', provider_debug dbg (bc_provider c)), (''max_turns'', show_nat (bc_max_turns c))]"

section \<open>The backend\<close>

definition THINKING_MODEL_PREFIXES :: "str list" where
  "THINKING_MODEL_PREFIXES = [''qwen3'', ''qwq'', ''deepseek-r'']"

definition resolve_ollama_think :: "environment \<Rightarrow> str \<Rightarrow> bool" where
  "resolve_ollama_think env model =
    (let auto_detected = list_ex (\<lambda>prefix. starts_with (to_lowercase model) prefix) THINKING_MODEL_PREFIXES in
     case env ''SYSKNIFE_OLLAMA_THINK'' of
       Some raw \<Rightarrow>
         (let v = to_lowercase (trim raw) in
          if v = ''true'' then True else if v = ''false'' then False else auto_detected)
     | None \<Rightarrow> auto_detected)"

definition OLLAMA_NUM_PREDICT :: nat where "OLLAMA_NUM_PREDICT = 4096"

definition ollama_params :: "environment \<Rightarrow> str \<Rightarrow> json" where
  "ollama_params env model = JObject
    ((''num_predict'', JNumber (PosInt (of_nat OLLAMA_NUM_PREDICT))) #
     (if resolve_ollama_think env model then [(''think'', JBool True)] else []))"

record rig_client =
  rc_provider :: str
  rc_api_key :: "str option"
  rc_base_url :: "str option"

datatype model_backend =
    RigBackend rig_client str "json option"
  | ChatCompletions str str

definition rig_backend ::
  "(rig_client \<Rightarrow> (str, unit) result) \<Rightarrow> rig_client \<Rightarrow> str \<Rightarrow> json option \<Rightarrow> (str, model_backend) result" where
  "rig_backend init client model params =
    rbind (map_err (\<lambda>e. ''failed to initialize '' @ rc_provider client @ '' provider: '' @ e) (init client))
      (\<lambda>_. Inr (RigBackend client model params))"

fun provider_backend ::
  "(rig_client \<Rightarrow> (str, unit) result) \<Rightarrow> environment \<Rightarrow> provider_config \<Rightarrow> (str, model_backend) result" where
  "provider_backend init env (Anthropic key model url) =
    rig_backend init \<lparr>rc_provider = ''anthropic'', rc_api_key = Some key, rc_base_url = Some url\<rparr> model None"
| "provider_backend init env (Ollama url model) =
    rig_backend init \<lparr>rc_provider = ''ollama'', rc_api_key = None, rc_base_url = Some url\<rparr> model
      (Some (ollama_params env model))"
| "provider_backend init env (OpenAI key model) = Inr (ChatCompletions key model)"
| "provider_backend init env (Gemini key model) =
    rig_backend init \<lparr>rc_provider = ''gemini'', rc_api_key = Some key, rc_base_url = None\<rparr> model None"
| "provider_backend init env (Groq key model) =
    rig_backend init \<lparr>rc_provider = ''groq'', rc_api_key = Some key, rc_base_url = None\<rparr> model None"
| "provider_backend init env (DeepSeek key model) =
    rig_backend init \<lparr>rc_provider = ''deepseek'', rc_api_key = Some key, rc_base_url = None\<rparr> model None"
| "provider_backend init env (Mistral key model) =
    rig_backend init \<lparr>rc_provider = ''mistral'', rc_api_key = Some key, rc_base_url = None\<rparr> model None"
| "provider_backend init env (XAI key model) =
    rig_backend init \<lparr>rc_provider = ''xai'', rc_api_key = Some key, rc_base_url = None\<rparr> model None"

text \<open>What \<open>from_config\<close> builds: the backend, the turns, the two files. \<open>None\<close> is a panic: of \<open>LlmPlanner::new\<close>
  without turns, or of \<open>prefs_path\<close> without a home.\<close>

record planner_setup =
  pl_backend :: model_backend
  pl_max_turns :: nat
  pl_prefs_path :: str
  pl_rate_log :: str
  pl_rate_limit :: nat

definition data_dir :: "environment \<Rightarrow> str" where
  "data_dir env =
    (let xdg = unwrap_or (env ''XDG_DATA_HOME'') [] in
     if xdg = [] then path_join (unwrap_or (env ''HOME'') ''/tmp'') ''.local/share'' else xdg)"

definition rate_log_path :: "environment \<Rightarrow> str" where
  "rate_log_path env = path_join (path_join (data_dir env) ''sysknife'') ''rate-limit.log''"

definition build_planner ::
  "(rig_client \<Rightarrow> (str, unit) result) \<Rightarrow> environment \<Rightarrow> brain_config \<Rightarrow> (str, planner_setup) result option" where
  "build_planner init env config = (case provider_backend init env (bc_provider config) of
      Inl e \<Rightarrow> Some (Inl e)
    | Inr backend \<Rightarrow>
        if bc_max_turns config < 1 then None
        else Option.bind (prefs_path env) (\<lambda>prefs.
          map_option (\<lambda>limit. Inr \<lparr>pl_backend = backend, pl_max_turns = bc_max_turns config, pl_prefs_path = prefs,
              pl_rate_log = rate_log_path env, pl_rate_limit = limit\<rparr>)
            (effective_limit DEFAULT_MAX_RPM (env ''SYSKNIFE_MAX_RPM''))))"

section \<open>The state of the desktop shell\<close>

record brain_config_response =
  br_provider :: str
  br_model :: str
  br_fallback :: bool

definition shell_state ::
  "(rig_client \<Rightarrow> (str, unit) result) \<Rightarrow> environment \<Rightarrow> (planner_setup \<times> brain_config_response) option" where
  "shell_state init env =
    (let env_result = from_env env;
         config = (case env_result of Inr c \<Rightarrow> c | Inl e \<Rightarrow> ollama_defaults);
         shown = \<lparr>br_provider = provider_name (bc_provider config), br_model = model_name config,
                  br_fallback = (case env_result of Inl e \<Rightarrow> True | Inr c \<Rightarrow> False)\<rparr>
     in case build_planner init env config of
          None \<Rightarrow> None
        | Some (Inr planner) \<Rightarrow> Some (planner, shown)
        | Some (Inl e) \<Rightarrow> (case build_planner init env ollama_defaults of
              Some (Inr planner) \<Rightarrow> Some (planner, shown)
            | _ \<Rightarrow> None))"

record setup_status =
  st_config_exists :: bool
  st_provider_configured :: bool

definition provider_is_configured :: "environment \<Rightarrow> lacs_config \<Rightarrow> bool" where
  "provider_is_configured env cfg =
    (unwrap_or (env ''ANTHROPIC_API_KEY'') [] \<noteq> [] \<or> unwrap_or (env ''SYSKNIFE_LLM_PROVIDER'') [] \<noteq> [] \<or>
     unwrap_or (Option.bind (lc_llm cfg) ls_provider) [] \<noteq> [])"

definition check_setup_status :: "(str \<Rightarrow> bool) \<Rightarrow> environment \<Rightarrow> lacs_config \<Rightarrow> setup_status option" where
  "check_setup_status is_file env cfg = map_option (\<lambda>path.
      \<lparr>st_config_exists = is_file path, st_provider_configured = provider_is_configured env cfg\<rparr>)
    (config_path env)"

definition resolve_socket_path :: "nat \<Rightarrow> environment \<Rightarrow> str" where
  "resolve_socket_path uid env =
    (let uri = default_listen_uri uid env in unwrap_or (strip_prefix uri ''unix://'') uri)"

section \<open>Keys stay hidden\<close>

definition key_vars :: "str list" where
  "key_vars = ''ANTHROPIC_API_KEY'' # map (\<lambda>(name, var, model, mk). var) keyed_providers"

text \<open>Two environments that differ in the values of usable keys only.\<close>

definition same_but_keys :: "environment \<Rightarrow> environment \<Rightarrow> bool" where
  "same_but_keys env env' \<longleftrightarrow>
    (\<forall>k. k \<notin> set key_vars \<longrightarrow> env k = env' k) \<and>
    (\<forall>k\<in>set key_vars. (usable_key env k = None) = (usable_key env' k = None))"

definition shown_config :: "(str \<Rightarrow> str) \<Rightarrow> environment \<Rightarrow> (str, str \<times> str \<times> str) result" where
  "shown_config dbg env = (case from_env env of
      Inl e \<Rightarrow> Inl (config_error_text e)
    | Inr c \<Rightarrow> Inr (brain_config_debug dbg c, provider_name (bc_provider c), model_name c))"

definition same_shown :: "(config_error, provider_config) result \<Rightarrow> (config_error, provider_config) result \<Rightarrow> bool" where
  "same_shown r r' = (case r of
      Inl e \<Rightarrow> r' = Inl e
    | Inr p \<Rightarrow> (case r' of
        Inl e \<Rightarrow> False
      | Inr p' \<Rightarrow> (\<forall>dbg. provider_debug dbg p = provider_debug dbg p') \<and> provider_name p = provider_name p' \<and>
          pc_model p = pc_model p'))"

lemma same_shown_keyed:
  assumes "(usable_key env var = None) = (usable_key env' var = None)"
    and "\<And>k k'. same_shown (Inr (mk k)) (Inr (mk k'))"
  shows "same_shown (rbind (ok_or (usable_key env var) e) (\<lambda>k. Inr (mk k)))
    (rbind (ok_or (usable_key env' var) e) (\<lambda>k. Inr (mk k)))"
  using assms by (cases "usable_key env var"; cases "usable_key env' var") (auto simp: same_shown_def)

lemma keyed_shown:
  assumes "map_of keyed_providers name = Some (var, d, mk)"
  shows "var \<in> set key_vars" "same_shown (Inr (mk k m)) (Inr (mk k' m))"
proof -
  from assms have mem: "(name, var, d, mk) \<in> set keyed_providers" by (rule map_of_SomeD)
  then show "var \<in> set key_vars" unfolding key_vars_def by force
  from mem show "same_shown (Inr (mk k m)) (Inr (mk k' m))"
    by (auto simp: keyed_providers_def same_shown_def)
qed

lemma plain_vars:
  "''SYSKNIFE_BRAIN_MAX_TURNS'' \<notin> set key_vars" "''SYSKNIFE_LLM_PROVIDER'' \<notin> set key_vars"
  "''SYSKNIFE_LLM_MODEL'' \<notin> set key_vars" "''SYSKNIFE_ANTHROPIC_URL'' \<notin> set key_vars"
  "''SYSKNIFE_OLLAMA_URL'' \<notin> set key_vars" "''ANTHROPIC_API_KEY'' \<in> set key_vars"
  by (simp_all add: key_vars_def keyed_providers_def)

lemma provider_of_shown:
  assumes "same_but_keys env env'"
  shows "same_shown (provider_of env name) (provider_of env' name)"
proof -
  have vars: "env k = env' k" if "k \<notin> set key_vars" for k using assms that by (simp add: same_but_keys_def)
  have keys: "(usable_key env k = None) = (usable_key env' k = None)" if "k \<in> set key_vars" for k
    using assms that by (simp add: same_but_keys_def)
  note same = vars [OF plain_vars(3)] vars [OF plain_vars(4)] vars [OF plain_vars(5)]
  consider "name = ''anthropic''" | "name = ''ollama''" | "name \<noteq> ''anthropic'' \<and> name \<noteq> ''ollama''" by blast
  then show ?thesis
  proof cases
    case 1
    show ?thesis unfolding provider_of_def Let_def same 1 simp_thms if_True
      by (rule same_shown_keyed [OF keys [OF plain_vars(6)]]) (simp add: same_shown_def)
  next
    case 2
    then show ?thesis by (simp add: provider_of_def Let_def same same_shown_def)
  next
    case 3
    show ?thesis
    proof (cases "map_of keyed_providers name")
      case None
      with 3 show ?thesis by (simp add: provider_of_def same_shown_def)
    next
      case (Some t)
      then obtain var d mk where t: "map_of keyed_providers name = Some (var, d, mk)" by (cases t) auto
      show ?thesis using 3
        by (simp add: provider_of_def Let_def t require_api_key_def same
            same_shown_keyed [OF keys [OF keyed_shown(1) [OF t]] keyed_shown(2) [OF t]])
    qed
  qed
qed

text \<open>C29. The value of an API key cannot be told from what the configuration shows (its debug output, the names
  the clients display, the error texts): two environments in which the same keys are usable show the same.\<close>

theorem config_hides_keys:
  assumes "same_but_keys env env'"
  shows "shown_config dbg env = shown_config dbg env'"
proof -
  have vars: "env k = env' k" if "k \<notin> set key_vars" for k using assms that by (simp add: same_but_keys_def)
  have turns: "max_turns_of env = max_turns_of env'"
    by (simp add: max_turns_of_def vars [OF plain_vars(1)])
  have "(usable_key env ''ANTHROPIC_API_KEY'' = None) = (usable_key env' ''ANTHROPIC_API_KEY'' = None)"
    using assms plain_vars(6) by (simp add: same_but_keys_def)
  then have sel: "selected_provider env = selected_provider env'"
    by (simp add: selected_provider_def vars [OF plain_vars(2)] split: option.splits)
  show ?thesis using provider_of_shown [OF assms, of "to_lowercase (selected_provider env')"]
    by (auto simp: shown_config_def from_env_def turns sel same_shown_def brain_config_debug_def model_name_def
        rbind_def split: sum.splits)
qed

definition env_with_key :: "str \<Rightarrow> environment" where
  "env_with_key key = [''SYSKNIFE_LLM_PROVIDER'' \<mapsto> ''groq'', ''GROQ_API_KEY'' \<mapsto> key]"

theorem config_hides_keys_witness:
  "shown_config id (env_with_key ''gsk_1'') = shown_config id (env_with_key ''gsk_2'') \<and>
   shown_config id (env_with_key ''gsk_1'') \<noteq> shown_config id (env_with_key '' '')"
proof
  have t: "trim ''gsk_1'' \<noteq> []" "trim ''gsk_2'' \<noteq> []" by code_simp+
  have "same_but_keys (env_with_key ''gsk_1'') (env_with_key ''gsk_2'')"
    using t by (auto simp: same_but_keys_def usable_key_def env_with_key_def key_vars_def keyed_providers_def)
  then show "shown_config id (env_with_key ''gsk_1'') = shown_config id (env_with_key ''gsk_2'')"
    by (rule config_hides_keys)
  show "shown_config id (env_with_key ''gsk_1'') \<noteq> shown_config id (env_with_key '' '')" by code_simp
qed

section \<open>The planner starts\<close>

lemma from_env_turns: "from_env env = Inr c \<Longrightarrow> 1 \<le> bc_max_turns c"
  by (auto simp: from_env_def max_turns_of_def DEFAULT_MAX_TURNS_def rbind_eq_Inr_conv
      split: option.splits if_splits)

lemma effective_limit_default: "\<exists>n\<ge>1. effective_limit DEFAULT_MAX_RPM var = Some n"
  by (auto simp: effective_limit_def DEFAULT_MAX_RPM_def split: option.splits)

lemma build_planner_starts:
  assumes "1 \<le> bc_max_turns c" "prefs_path env \<noteq> None" "provider_backend init env (bc_provider c) = Inr b"
  shows "\<exists>s. build_planner init env c = Some (Inr s) \<and> 1 \<le> pl_max_turns s \<and> 1 \<le> pl_rate_limit s \<and> pl_backend s = b"
  using assms effective_limit_default [of "env ''SYSKNIFE_MAX_RPM''"] by (auto simp: build_planner_def)

definition ollama_client :: rig_client where
  "ollama_client = \<lparr>rc_provider = ''ollama'', rc_api_key = None, rc_base_url = Some DEFAULT_OLLAMA_BASE_URL\<rparr>"

lemma ollama_backend:
  "init ollama_client = Inr () \<Longrightarrow> provider_backend init env (bc_provider ollama_defaults) =
    Inr (RigBackend ollama_client DEFAULT_OLLAMA_MODEL (Some (ollama_params env DEFAULT_OLLAMA_MODEL)))"
  by (simp add: ollama_defaults_def ollama_client_def rig_backend_def map_err_def)

text \<open>Whatever the environment holds, the desktop shell comes up with a planner that may take at least one
  turn and one call a minute, if there is a home directory and the client of the local model can be built.\<close>

theorem shell_starts:
  assumes home: "prefs_path env \<noteq> None" and ollama: "init ollama_client = Inr ()"
  shows "\<exists>p shown. shell_state init env = Some (p, shown) \<and> 1 \<le> pl_max_turns p \<and> 1 \<le> pl_rate_limit p"
proof -
  define config where "config = (case from_env env of Inr c \<Rightarrow> c | Inl e \<Rightarrow> ollama_defaults)"
  have turns: "1 \<le> bc_max_turns config"
    using from_env_turns [of env]
    by (auto simp: config_def ollama_defaults_def DEFAULT_MAX_TURNS_def split: sum.splits)
  have dflt: "1 \<le> bc_max_turns ollama_defaults" by (simp add: ollama_defaults_def DEFAULT_MAX_TURNS_def)
  obtain d where d: "build_planner init env ollama_defaults = Some (Inr d)" "1 \<le> pl_max_turns d" "1 \<le> pl_rate_limit d"
    using build_planner_starts [OF dflt home ollama_backend [of init env]] ollama by blast
  show ?thesis
  proof (cases "provider_backend init env (bc_provider config)")
    case (Inr b)
    from build_planner_starts [OF turns home this] show ?thesis
      by (auto simp: shell_state_def Let_def config_def [symmetric])
  next
    case (Inl e)
    then have "build_planner init env config = Some (Inl e)" by (simp add: build_planner_def)
    with d show ?thesis by (auto simp: shell_state_def Let_def config_def [symmetric])
  qed
qed

theorem shell_starts_witness:
  "\<exists>p shown. shell_state (\<lambda>_. Inr ()) [''HOME'' \<mapsto> ''/root'', ''SYSKNIFE_BRAIN_MAX_TURNS'' \<mapsto> ''0''] = Some (p, shown) \<and>
     1 \<le> pl_max_turns p \<and> 1 \<le> pl_rate_limit p"
  by (rule shell_starts) (simp_all add: prefs_path_def config_dir_def)

text \<open>When the client of the configured provider cannot be built, the planner falls back to the local model
  while the window goes on to show the configured provider as the one in use.\<close>

lemma fallback_not_shown:
  assumes "from_env env = Inr c" "provider_backend init env (bc_provider c) = Inl e"
    and "shell_state init env = Some (p, shown)"
  shows "br_provider shown = provider_name (bc_provider c) \<and> \<not> br_fallback shown \<and>
    (\<exists>client model params. pl_backend p = RigBackend client model params \<and> rc_provider client = ''ollama'')"
  using assms
  by (auto simp: shell_state_def build_planner_def ollama_defaults_def rig_backend_def rbind_def map_err_def
      split: option.splits sum.splits if_splits bind_splits)

text \<open>A blank key counts as configured for the setup screen and as missing for the planner.\<close>

lemma blank_key_counts_as_configured:
  "provider_is_configured [''ANTHROPIC_API_KEY'' \<mapsto> '' ''] default_config \<and>
   selected_provider [''ANTHROPIC_API_KEY'' \<mapsto> '' ''] = ''ollama''"
  by code_simp

end
