(* ===== verification/Postgres.thy ===== *)
theory Postgres
  imports Store_Invariant
begin

text \<open>
  The Postgres store of \<open>store/postgres.rs\<close>: the tables as lists of rows, one definition per method with its SQL
  statements written as functions of the rows. The columns are those of SQLite; a method differs where its
  statement does: the text of \<open>created_at\<close>, the comparison of times as times, the name of a violated
  constraint. The cast to \<open>timestamptz\<close> is the parameter \<open>pe_timestamptz\<close> (\<open>None\<close> is an error of the statement), and
  \<open>pe_earliest\<close> is the first time the server can represent, in milliseconds before 1970. The time of an insert is
  the daemon's clock, that of a lookup the server's. A connection that fails is not modelled. The last section is
  about inserts on several connections.
\<close>

record pg_store =
  pg_rows :: "tx_row list"
  pg_previews :: "(str \<times> preview_envelope) list"
  pg_audit_key :: audit_key

record pg_env =
  pe_ext :: externs
  pe_timestamptz :: "str \<Rightarrow> nat option"
  pe_earliest :: nat

section \<open>Inserting\<close>

text \<open>The format \<open>%Y-%m-%dT%H:%M:%.3fZ\<close> of \<open>chrono\<close>: \<open>%.3f\<close> is the fraction with its point, and there is no \<open>%S\<close>.\<close>

definition render_hm :: "nat \<Rightarrow> str" where
  "render_hm t = (let s = t mod ms_per_day div 1000 in pad 2 (s div 3600) @ CHR '':'' # pad 2 (s div 60 mod 60))"

definition now_iso :: "nat \<Rightarrow> str" where
  "now_iso t = render_date (date_of_day (day_of t)) @ CHR ''T'' # render_hm t @ CHR '':'' # CHR ''.'' #
    pad 3 (t mod 1000) @ ''Z''"

text \<open>The last row of the chain, and what follows it.\<close>

definition pg_tip :: "tx_row list \<Rightarrow> (nat \<times> str) option" where
  "pg_tip rows = (case by_seq_desc rows of
      r # _ \<Rightarrow> Some (cr_seq r, cr_chain_hash r)
    | [] \<Rightarrow> None)"

definition pg_next :: "(nat \<times> str) option \<Rightarrow> nat \<times> str" where
  "pg_next prev = (case prev of Some (s, h) \<Rightarrow> (s + 1, h) | None \<Rightarrow> (1, []))"

definition pg_row :: "externs \<Rightarrow> audit_key \<Rightarrow> nat \<Rightarrow> str \<Rightarrow> new_transaction \<Rightarrow> nat \<times> str \<Rightarrow> tx_row" where
  "pg_row ext key now tid nt = (\<lambda>(seq, prev).
    let warnings_json = ex_ser_strings ext (nt_warnings nt); created_at = now_iso now;
        content = \<lparr> cc_seq = seq, cc_key_id = CURRENT_KEY_ID, cc_transaction_id = tid,
          cc_request_id = nt_request_id nt, cc_request_hash = nt_request_hash nt,
          cc_action_name = nt_action_name nt, cc_risk_level = nt_risk_level nt,
          cc_summary = nt_summary nt, cc_approval_id = nt_approval_id nt,
          cc_warnings_json = warnings_json, cc_created_at = created_at \<rparr>
    in \<lparr> cr_seq = seq, cr_key_id = CURRENT_KEY_ID, cr_transaction_id = tid,
         cr_request_id = nt_request_id nt, cr_request_hash = nt_request_hash nt,
         cr_action_name = nt_action_name nt, cr_risk_level = nt_risk_level nt,
         cr_summary = nt_summary nt, cr_approval_id = nt_approval_id nt,
         cr_warnings_json = warnings_json, cr_created_at = created_at,
         cr_prev_chain_hash = prev, cr_chain_hash = chain_hash (ex_mac ext) key content prev,
         tx_status = Queued \<rparr>)"

text \<open>The \<open>INSERT\<close> and its two constraints.\<close>

definition pg_insert_row :: "tx_row \<Rightarrow> tx_row list \<Rightarrow> (store_error, tx_row list) result" where
  "pg_insert_row row rows =
    (if List.member (map cr_transaction_id rows) (cr_transaction_id row) \<or> List.member (map cr_seq rows) (cr_seq row)
     then Inl StoreIo else Inr (rows @ [row]))"

definition pg_insert_transaction ::
    "externs \<Rightarrow> audit_key \<Rightarrow> nat \<Rightarrow> str \<Rightarrow> new_transaction \<Rightarrow> tx_row list \<Rightarrow>
      (store_error, transaction_record \<times> tx_row list) result" where
  "pg_insert_transaction ext key now tid nt rows =
    rbind (pg_insert_row (pg_row ext key now tid nt (pg_next (pg_tip rows))) rows) (\<lambda>rows'.
    Inr (record_of_new tid nt, rows'))"

definition pg_record ::
    "pg_env \<Rightarrow> nat \<Rightarrow> str \<Rightarrow> new_transaction \<Rightarrow> pg_store \<Rightarrow> (store_error, transaction_record) result \<times> pg_store" where
  "pg_record pe now tid nt st =
    (case pg_insert_transaction (pe_ext pe) (pg_audit_key st) now tid nt (pg_rows st) of
       Inl e \<Rightarrow> (Inl e, st)
     | Inr (rec, rows) \<Rightarrow> (Inr rec, st\<lparr>pg_rows := rows\<rparr>))"

definition pg_record_previewed ::
    "pg_env \<Rightarrow> nat \<Rightarrow> str \<Rightarrow> new_transaction \<Rightarrow> preview_envelope \<Rightarrow> pg_store \<Rightarrow>
      (store_error, recorded_previewed) result \<times> pg_store" where
  "pg_record_previewed pe now tid nt p st =
    (case pg_insert_transaction (pe_ext pe) (pg_audit_key st) now tid nt (pg_rows st) of
       Inl e \<Rightarrow> (Inl e, st)
     | Inr (rec, rows) \<Rightarrow>
        if List.member (map fst (pg_previews st)) (tr_transaction_id rec) then (Inl StoreIo, st)
        else (Inr \<lparr> rp_transaction = rec, rp_preview = p \<rparr>,
          st\<lparr>pg_rows := rows, pg_previews := pg_previews st @ [(tr_transaction_id rec, p)]\<rparr>))"

section \<open>Reading\<close>

definition pg_get :: "pg_env \<Rightarrow> str \<Rightarrow> pg_store \<Rightarrow> (store_error, transaction_record option) result" where
  "pg_get pe tid st = first_record (pe_ext pe) (filter (\<lambda>r. cr_transaction_id r = tid) (pg_rows st))"

text \<open>A condition on the time of creation, over the rows that meet the other conditions: the statement fails when
  one of them has no time.\<close>

definition where_created ::
    "pg_env \<Rightarrow> (nat \<Rightarrow> bool) \<Rightarrow> tx_row list \<Rightarrow> (store_error, tx_row list) result" where
  "where_created pe p rows =
    (if list_ex (\<lambda>r. pe_timestamptz pe (cr_created_at r) = None) rows then Inl StoreIo
     else Inr (filter (\<lambda>r. case pe_timestamptz pe (cr_created_at r) of Some t \<Rightarrow> p t | None \<Rightarrow> False) rows))"

definition pg_find_by_request_hash ::
    "pg_env \<Rightarrow> nat \<Rightarrow> str \<Rightarrow> pg_store \<Rightarrow> (store_error, transaction_record option) result" where
  "pg_find_by_request_hash pe now h st =
    rbind (where_created pe (\<lambda>t. now < t + ttl_ms)
        (filter (\<lambda>r. cr_request_hash r = h \<and> tx_status r = Queued) (pg_rows st))) (\<lambda>rows.
    first_record (pe_ext pe) (by_seq_desc rows))"

definition pg_get_preview :: "str \<Rightarrow> pg_store \<Rightarrow> (store_error, preview_envelope option) result" where
  "pg_get_preview tid st = Inr (map_of (pg_previews st) tid)"

definition pg_fetch_chain_row :: "str \<Rightarrow> pg_store \<Rightarrow> (store_error, chain_row option) result" where
  "pg_fetch_chain_row tid st =
    Inr (map_option chain_row.truncate (find (\<lambda>r. cr_transaction_id r = tid) (pg_rows st)))"

definition pg_fetch_chain_rows :: "pg_store \<Rightarrow> (store_error, chain_row list) result" where
  "pg_fetch_chain_rows st = Inr (map chain_row.truncate (by_seq (pg_rows st)))"

definition pg_verify_audit_chain :: "pg_env \<Rightarrow> audit_key \<Rightarrow> pg_store \<Rightarrow> (store_error, verify_outcome) result" where
  "pg_verify_audit_chain pe key st =
    rbind (pg_fetch_chain_rows st) (\<lambda>rows. Inr (verify_chain (ex_mac (pe_ext pe)) key rows))"

section \<open>Status changes\<close>

definition pg_update_status ::
    "str \<Rightarrow> job_state \<Rightarrow> pg_store \<Rightarrow> (store_error, unit) result \<times> pg_store" where
  "pg_update_status tid new st =
    (case find (\<lambda>r. cr_transaction_id r = tid) (pg_rows st) of
       None \<Rightarrow> (Inl (NotFound tid), st)
     | Some r \<Rightarrow>
        if \<not> allowed_transition (tx_status r) new
        then (Inl (InvalidStatus (tx_status r) new), st)
        else (Inr (), st\<lparr>pg_rows := set_status new (\<lambda>r. cr_transaction_id r = tid) (pg_rows st)\<rparr>))"

definition pg_claim_for_execution :: "str \<Rightarrow> pg_store \<Rightarrow> (store_error, bool) result \<times> pg_store" where
  "pg_claim_for_execution tid st =
    (let p = (\<lambda>r. cr_transaction_id r = tid \<and> tx_status r = Queued);
         rows_affected = length (filter p (pg_rows st))
     in (Inr (rows_affected > 0), st\<lparr>pg_rows := set_status Running p (pg_rows st)\<rparr>))"

definition pg_cleanup_stale_queued :: "pg_env \<Rightarrow> nat \<Rightarrow> pg_store \<Rightarrow> (store_error, nat) result \<times> pg_store" where
  "pg_cleanup_stale_queued pe now st =
    (case where_created pe (\<lambda>t. t + ttl_ms \<le> now) (filter (\<lambda>r. tx_status r = Queued) (pg_rows st)) of
       Inl e \<Rightarrow> (Inl e, st)
     | Inr stale \<Rightarrow> (Inr (length stale),
         st\<lparr>pg_rows := set_status Canceled (List.member stale) (pg_rows st)\<rparr>))"

section \<open>The history query\<close>

definition pg_list_transactions ::
    "pg_env \<Rightarrow> nat \<Rightarrow> 32 word \<Rightarrow> str option \<Rightarrow> str option \<Rightarrow> 32 word option \<Rightarrow> pg_store \<Rightarrow>
      (store_error, transaction_record list) result" where
  "pg_list_transactions pe now limit status_filter action_filter since_hours st =
    rbind (case status_filter of
        None \<Rightarrow> Inr (\<lambda>r. True)
      | Some s \<Rightarrow> rbind (parse_status (pe_ext pe) s) (\<lambda>js. Inr (\<lambda>r. tx_status r = js))) (\<lambda>status_ok.
    let chosen = filter (\<lambda>r. status_ok r \<and> (case action_filter of None \<Rightarrow> True | Some a \<Rightarrow> cr_action_name r = a)) (pg_rows st)
    in rbind (case since_hours of
          None \<Rightarrow> Inr chosen
        | Some h \<Rightarrow>
            if hours_ms h > now + pe_earliest pe then Inl StoreIo
            else where_created pe (\<lambda>t. now < t + hours_ms h) chosen) (\<lambda>rows.
       map_result (row_to_record (pe_ext pe)) (take (unat (min limit 100)) (by_seq_desc rows))))"

section \<open>The method table\<close>

definition postgres_store :: "pg_env \<Rightarrow> pg_store audit_store" where
  "postgres_store pe =
    \<lparr> as_record = pg_record pe, as_record_previewed = pg_record_previewed pe, as_get = pg_get pe,
      as_find_by_request_hash = pg_find_by_request_hash pe, as_get_preview = pg_get_preview,
      as_update_status = pg_update_status, as_claim_for_execution = pg_claim_for_execution,
      as_cleanup_stale_queued = pg_cleanup_stale_queued pe,
      as_list_transactions = pg_list_transactions pe, as_fetch_chain_row = pg_fetch_chain_row,
      as_fetch_chain_rows = pg_fetch_chain_rows, as_verify_audit_chain = pg_verify_audit_chain pe \<rparr>"

section \<open>Inserts on several connections\<close>

text \<open>An insert is a database transaction of its own connection \<open>w\<close>, in the isolation level the pool leaves at its
  default, Read Committed. A statement sees the rows committed before it starts. \<open>SELECT ... FOR UPDATE\<close> chooses its row
  then, waits for the row's lock, and returns that row when it has the lock: a row inserted meanwhile is not looked
  for again. A uniqueness constraint is checked against committed rows, after waiting for a transaction that has an
  uncommitted row of the same key; insert and commit are therefore one step.\<close>

datatype pg_phase =
    Waiting tx_row
  | Inserting "(nat \<times> str) option"
  | Committed
  | RolledBackInsert store_error

record pg_server =
  ps_rows :: "tx_row list"
  ps_lock :: "nat \<Rightarrow> nat option"
  ps_phase :: "nat \<Rightarrow> pg_phase option"

record pg_insert_request =
  iq_now :: nat
  iq_transaction_id :: str
  iq_transaction :: new_transaction

definition end_insert :: "nat \<Rightarrow> pg_phase \<Rightarrow> pg_server \<Rightarrow> pg_server" where
  "end_insert w ph sv = sv\<lparr>ps_lock := (\<lambda>s. if ps_lock sv s = Some w then None else ps_lock sv s),
    ps_phase := (ps_phase sv)(w \<mapsto> ph)\<rparr>"

inductive pg_step :: "externs \<Rightarrow> audit_key \<Rightarrow> (nat \<Rightarrow> pg_insert_request) \<Rightarrow> pg_server \<Rightarrow> pg_server \<Rightarrow> bool"
  for ext key req where
  select_empty: "ps_phase sv w = None \<Longrightarrow> by_seq_desc (ps_rows sv) = [] \<Longrightarrow>
    pg_step ext key req sv (sv\<lparr>ps_phase := (ps_phase sv)(w \<mapsto> Inserting None)\<rparr>)"
| select_tip: "ps_phase sv w = None \<Longrightarrow> by_seq_desc (ps_rows sv) = r # rs \<Longrightarrow>
    pg_step ext key req sv (sv\<lparr>ps_phase := (ps_phase sv)(w \<mapsto> Waiting r)\<rparr>)"
| lock_tip: "ps_phase sv w = Some (Waiting r) \<Longrightarrow> ps_lock sv (cr_seq r) = None \<Longrightarrow>
    pg_step ext key req sv (sv\<lparr>ps_lock := (ps_lock sv)(cr_seq r \<mapsto> w),
      ps_phase := (ps_phase sv)(w \<mapsto> Inserting (Some (cr_seq r, cr_chain_hash r)))\<rparr>)"
| commit: "ps_phase sv w = Some (Inserting prev) \<Longrightarrow>
    pg_insert_row (pg_row ext key (iq_now (req w)) (iq_transaction_id (req w)) (iq_transaction (req w)) (pg_next prev))
      (ps_rows sv) = Inr rows \<Longrightarrow>
    pg_step ext key req sv (end_insert w Committed (sv\<lparr>ps_rows := rows\<rparr>))"
| roll_back: "ps_phase sv w = Some (Inserting prev) \<Longrightarrow>
    pg_insert_row (pg_row ext key (iq_now (req w)) (iq_transaction_id (req w)) (iq_transaction (req w)) (pg_next prev))
      (ps_rows sv) = Inl e \<Longrightarrow>
    pg_step ext key req sv (end_insert w (RolledBackInsert e) sv)"

end
