(* ===== verification/Daemon_Start.thy ===== *)
theory Daemon_Start
  imports Daemon_System Config Audit_Report Audit_Forward Postgres Ip_Addr Policy
begin

text \<open>
  The start of the daemon (\<open>main\<close>, \<open>build_forwarder\<close>, \<open>build_postgres_audit\<close> of \<open>main.rs\<close>, the constructors of
  \<open>state.rs\<close>), its accept loops as functions of what the listener gives (\<open>unix_accept_loop\<close>, \<open>vsock_accept_loop\<close>,
  \<open>classify_accept_error\<close>), the Postgres side of the verification (\<open>verify_postgres\<close> of \<open>runner.rs\<close>), and the
  daemon's own detection of the distribution (\<open>distro.rs\<close>). What the start finds on the machine is the record
  \<open>start_world\<close>; the texts of foreign errors are its fields.
\<close>

section \<open>Socket addresses\<close>

text \<open>\<open>SocketAddr::from_str\<close>: an IPv4 address or an IPv6 address in brackets, with an optional scope, and a port.\<close>

definition read_port :: "str \<Rightarrow> (nat \<times> str) option" where
  "read_port s = (case s of
      c # r \<Rightarrow> if c = CHR '':'' then read_number 10 is_ascii_digit (length r) 65535 True r else None
    | [] \<Rightarrow> None)"

definition read_scope :: "str \<Rightarrow> nat \<times> str" where
  "read_scope s = (case s of
      c # r \<Rightarrow> (if c = CHR ''%''
        then (case read_number 10 is_ascii_digit (length r) u32_max True r of Some x \<Rightarrow> x | None \<Rightarrow> (0, s))
        else (0, s))
    | [] \<Rightarrow> (0, s))"

definition read_socket_v4 :: "str \<Rightarrow> ((ip_addr \<times> nat \<times> nat) \<times> str) option" where
  "read_socket_v4 s =
    Option.bind (read_ipv4 s) (\<lambda>((a, b, c, d), s).
    Option.bind (read_port s) (\<lambda>(port, s). Some ((V4 a b c d, 0, port), s)))"

definition read_socket_v6 :: "str \<Rightarrow> ((ip_addr \<times> nat \<times> nat) \<times> str) option" where
  "read_socket_v6 s =
    Option.bind (strip_prefix s ''['') (\<lambda>s.
    Option.bind (read_ipv6 s) (\<lambda>(gs, s).
    case read_scope s of (scope, s) \<Rightarrow>
    Option.bind (strip_prefix s '']'') (\<lambda>s.
    Option.bind (read_port s) (\<lambda>(port, s). Some ((V6 gs, scope, port), s)))))"

definition parse_socket_addr :: "str \<Rightarrow> (ip_addr \<times> nat \<times> nat) option" where
  "parse_socket_addr s =
    (case (case read_socket_v4 s of Some x \<Rightarrow> Some x | None \<Rightarrow> read_socket_v6 s) of
       Some (a, []) \<Rightarrow> Some a
     | _ \<Rightarrow> None)"

section \<open>What the start finds\<close>

record postgres_config =
  pc_url :: str
  pc_max_connections :: nat
  pc_acquire_timeout :: nat
  pc_statement_cache_capacity :: nat

record start_world =
  sw_config :: lacs_config
  sw_env :: environment
  sw_uid :: nat
  sw_dbg :: "str \<Rightarrow> str"
  sw_addr_error :: "str \<Rightarrow> str"
  sw_key_error :: "audit_key_error \<Rightarrow> str"
  sw_store_error :: "store_error \<Rightarrow> str"
  sw_key_io :: key_io
  sw_key_file :: "key_file option"
  sw_connect :: "postgres_config \<Rightarrow> audit_key \<Rightarrow> (store_error, pg_store) result"
  sw_open :: "str \<Rightarrow> (store_error, tx_store) result"
  sw_bind :: bind_answers
  sw_bind_vsock :: "nat \<Rightarrow> bool"

section \<open>Forwarding\<close>

datatype audit_sink_spec = SyslogUdp "ip_addr \<times> nat \<times> nat" nat

definition build_forwarder :: "start_world \<Rightarrow> (str, audit_sink_spec option) result" where
  "build_forwarder w = (case lc_audit (sw_config w) of
      None \<Rightarrow> Inr None
    | Some syslog \<Rightarrow> (case parse_socket_addr (sl_host syslog) of
        None \<Rightarrow> Inl (''[audit.forward.syslog] host '' @ sw_dbg w (sl_host syslog) @ '' is not a valid host:port: '' @
          sw_addr_error w (sl_host syslog))
      | Some host \<Rightarrow> Inr (Some (SyslogUdp host (sl_facility syslog)))))"

section \<open>The Postgres backend\<close>

definition default_postgres_config :: postgres_config where
  "default_postgres_config = \<lparr>pc_url = [], pc_max_connections = 8, pc_acquire_timeout = 10, pc_statement_cache_capacity = 100\<rparr>"

definition postgres_config_of :: "str \<Rightarrow> storage_pool \<Rightarrow> postgres_config" where
  "postgres_config_of url pool =
    \<lparr>pc_url = url,
     pc_max_connections = unwrap_or (sp_max_connections pool) (pc_max_connections default_postgres_config),
     pc_acquire_timeout = unwrap_or (sp_acquire_timeout_secs pool) (pc_acquire_timeout default_postgres_config),
     pc_statement_cache_capacity =
       unwrap_or (sp_statement_cache_capacity pool) (pc_statement_cache_capacity default_postgres_config)\<rparr>"

definition build_postgres_audit :: "start_world \<Rightarrow> (str, pg_store option) result" where
  "build_postgres_audit w = (case lc_storage (sw_config w) of
      None \<Rightarrow> Inr None
    | Some storage \<Rightarrow> rbind (storage_parsed (sw_dbg w) storage) (\<lambda>backend. case backend of
        SqliteBackend \<Rightarrow> Inr None
      | PostgresBackend url pool \<Rightarrow>
          rbind (map_err (\<lambda>e. ''audit key load failed: '' @ sw_key_error w e)
            (fst (load_or_generate (sw_key_io w) (sw_key_file w)))) (\<lambda>key.
          rbind (map_err (\<lambda>e. ''postgres connect failed: '' @ sw_store_error w e)
            (sw_connect w (postgres_config_of url pool) key)) (\<lambda>store. Inr (Some store)))))"

text \<open>\<open>verify_postgres\<close>; \<open>connect\<close> gives the store or the text of its error, and the store its rows or an error.\<close>

definition verify_postgres ::
  "pg_env \<Rightarrow> (str \<Rightarrow> str) \<Rightarrow> (store_error \<Rightarrow> str) \<Rightarrow> (postgres_config \<Rightarrow> audit_key \<Rightarrow> (store_error, pg_store) result) \<Rightarrow>
    storage_section \<Rightarrow> audit_key \<Rightarrow> chain_report" where
  "verify_postgres pe dbg err connect storage key = (case storage_parsed dbg storage of
      Inl reason \<Rightarrow> ReportUnknown reason
    | Inr SqliteBackend \<Rightarrow> ReportUnknown (''verify_postgres called with backend = '' @ CHR 0x22 # ''sqlite'' @ CHR 0x22 #
        '' '' @ [CHR 0xE2, CHR 0x80, CHR 0x94] @ '' caller picks the wrong path'')
    | Inr (PostgresBackend url pool) \<Rightarrow> (case connect (postgres_config_of url pool) key of
        Inl e \<Rightarrow> ReportUnknown (''postgres connect failed: '' @ err e)
      | Inr store \<Rightarrow> (case pg_verify_audit_chain pe key store of
          Inr outcome \<Rightarrow> report_of dbg outcome
        | Inl e \<Rightarrow> ReportUnknown (''postgres audit chain query failed: '' @ err e))))"

section \<open>The start\<close>

datatype audit_backend = SqliteAudit tx_store | PostgresAudit pg_store

record daemon_config =
  dg_listen_target :: listen_target
  dg_database_path :: str

record daemon_state =
  ds_config :: daemon_config
  ds_audit :: audit_backend
  ds_policy :: policy_table
  ds_forwarder :: "audit_sink_spec option"

datatype start_error =
    PolicyRejected policy_error
  | ForwarderInvalid str
  | ListenInvalid listen_error
  | PostgresFailed str
  | StoreFailed store_error
  | BindFailed "listen_error option"

definition open_full :: "start_world \<Rightarrow> daemon_config \<Rightarrow> policy_table \<Rightarrow> audit_sink_spec option \<Rightarrow>
    (store_error, daemon_state) result" where
  "open_full w config policy forwarder =
    rbind (sw_open w (dg_database_path config)) (\<lambda>store.
    Inr \<lparr>ds_config = config, ds_audit = SqliteAudit store, ds_policy = policy, ds_forwarder = forwarder\<rparr>)"

definition open_with_audit :: "daemon_config \<Rightarrow> policy_table \<Rightarrow> audit_sink_spec option \<Rightarrow> audit_backend \<Rightarrow> daemon_state" where
  "open_with_audit config policy forwarder audit =
    \<lparr>ds_config = config, ds_audit = audit, ds_policy = policy, ds_forwarder = forwarder\<rparr>"

definition open_state :: "start_world \<Rightarrow> daemon_config \<Rightarrow> policy_table \<Rightarrow> audit_sink_spec option \<Rightarrow>
    (start_error, daemon_state) result" where
  "open_state w config policy forwarder = (case build_postgres_audit w of
      Inr (Some audit) \<Rightarrow> Inr (open_with_audit config policy forwarder (PostgresAudit audit))
    | Inr None \<Rightarrow> map_err StoreFailed (open_full w config policy forwarder)
    | Inl e \<Rightarrow> Inl (PostgresFailed e))"

definition bind_listener :: "start_world \<Rightarrow> listen_target \<Rightarrow> (start_error, unit) result" where
  "bind_listener w target = (case target of
      Unix path \<Rightarrow> map_err (\<lambda>e. BindFailed (Some e)) (rbind (bind_unix_listener (sw_bind w) (Unix path)) (\<lambda>calls. Inr ()))
    | Vsock port \<Rightarrow> if sw_bind_vsock w port then Inr () else Inl (BindFailed None))"

text \<open>\<open>main\<close> up to the accept loop.\<close>

definition daemon_start :: "start_world \<Rightarrow> (start_error, daemon_state) result" where
  "daemon_start w =
    (let env = apply_defaults_to_env (sw_config w) (sw_env w);
         database_path = default_database_path env
     in rbind (map_err PolicyRejected (from_overrides (unwrap_or (lc_policy (sw_config w)) []))) (\<lambda>policy.
        rbind (map_err ForwarderInvalid (build_forwarder w)) (\<lambda>forwarder.
        rbind (map_err ListenInvalid (try_from_uri (default_listen_uri (sw_uid w) env))) (\<lambda>target.
        rbind (open_state w \<lparr>dg_listen_target = target, dg_database_path = database_path\<rparr> policy forwarder) (\<lambda>state.
        rbind (bind_listener w target) (\<lambda>_. Inr state))))))"

section \<open>The accept loop\<close>

text \<open>What the loop waits for, with the releases of permits in between: a connection, an error of \<open>accept\<close>, the
  interrupt, and the end of a handler.\<close>

datatype io_error_kind = ConnectionAborted | ConnectionReset | OtherKind nat

datatype accept_error_action = LogTransient | BreakFatal

definition classify_accept_error :: "io_error_kind \<Rightarrow> accept_error_action" where
  "classify_accept_error ek = (case ek of
      ConnectionAborted \<Rightarrow> LogTransient
    | ConnectionReset \<Rightarrow> LogTransient
    | OtherKind _ \<Rightarrow> BreakFatal)"

datatype loop_event = Accepted nat | AcceptFailed io_error_kind | CtrlC | HandlerEnded

datatype loop_action = Spawned nat | Dropped nat

text \<open>\<open>permits\<close> is the number of free permits; the result is what the loop did, the permits, and whether it still runs.\<close>

fun accept_loop :: "nat \<Rightarrow> loop_event list \<Rightarrow> loop_action list \<times> nat \<times> bool" where
  "accept_loop permits [] = ([], permits, True)"
| "accept_loop permits (Accepted c # es) =
    (case permits of
       Suc p \<Rightarrow> (case accept_loop p es of (as, r) \<Rightarrow> (Spawned c # as, r))
     | 0 \<Rightarrow> (case accept_loop 0 es of (as, r) \<Rightarrow> (Dropped c # as, r)))"
| "accept_loop permits (AcceptFailed ek # es) = (case classify_accept_error ek of
      LogTransient \<Rightarrow> accept_loop permits es
    | BreakFatal \<Rightarrow> ([], permits, False))"
| "accept_loop permits (CtrlC # es) = ([], permits, False)"
| "accept_loop permits (HandlerEnded # es) = accept_loop (Suc permits) es"

section \<open>The daemon's distribution\<close>

datatype distro = FedoraAtomic | UbuntuDistro | UnknownDistro

fun distro_as_str :: "distro \<Rightarrow> str" where
  "distro_as_str FedoraAtomic = ''Fedora Atomic''"
| "distro_as_str UbuntuDistro = ''Ubuntu''"
| "distro_as_str UnknownDistro = ''Unknown''"

definition trim_quotes :: "str \<Rightarrow> str" where
  "trim_quotes s = rev (dropWhile (\<lambda>c. c = CHR 0x22) (rev (dropWhile (\<lambda>c. c = CHR 0x22) s)))"

fun first_field :: "str \<Rightarrow> str list \<Rightarrow> str option" where
  "first_field key [] = None"
| "first_field key (l # ls) = (case strip_prefix l (key @ ''='') of
      Some rest \<Rightarrow> Some (trim_quotes rest)
    | None \<Rightarrow> first_field key ls)"

definition parse_os_release_field :: "str \<Rightarrow> str \<Rightarrow> str option" where
  "parse_os_release_field content key = first_field key (str_lines content)"

definition daemon_detect :: "str option \<Rightarrow> distro" where
  "daemon_detect file =
    (let content = unwrap_or file [];
         i = unwrap_or (parse_os_release_field content ''ID'') [];
         variant_id = unwrap_or (parse_os_release_field content ''VARIANT_ID'') []
     in if i = ''fedora'' \<and>
           List.member [''silverblue'', ''kinoite'', ''sericea'', ''onyx'', ''cosmic-atomic''] variant_id
        then FedoraAtomic
        else if i = ''ubuntu'' then UbuntuDistro
        else UnknownDistro)"

end
