(* ===== verification/Postgres_Properties.thy ===== *)
theory Postgres_Properties
  imports Postgres Calendar Daemon_Properties
begin

text \<open>
  The Postgres store keeps the invariant of the SQLite store, read through the view \<open>pg_view\<close>, and is a second
  instance of the interface \<open>audit_log\<close>. Inserts on several connections never break the chain, but a connection that
  waits for the last row while another commits always loses its insert. The times it writes are not RFC 3339.
\<close>

section \<open>The view\<close>

definition pg_view :: "pg_store \<Rightarrow> tx_store" where
  "pg_view st = \<lparr>st_rows = pg_rows st, st_previews = pg_previews st, st_audit_key = Some (pg_audit_key st)\<rparr>"

lemma pg_view_sel [simp]:
  "st_rows (pg_view st) = pg_rows st" "st_previews (pg_view st) = pg_previews st"
  "st_audit_key (pg_view st) = Some (pg_audit_key st)"
  by (simp_all add: pg_view_def)

lemma pg_view_upd [simp]:
  "pg_view (st\<lparr>pg_rows := rs\<rparr>) = (pg_view st)\<lparr>st_rows := rs\<rparr>"
  "pg_view (st\<lparr>pg_previews := ps\<rparr>) = (pg_view st)\<lparr>st_previews := ps\<rparr>"
  by (simp_all add: pg_view_def)

definition wf_pg :: "pg_env \<Rightarrow> audit_key \<Rightarrow> pg_store \<Rightarrow> bool" where
  "wf_pg pe key st = wf_store (pe_ext pe) key (pg_view st)"

abbreviation "pg_status_of st \<equiv> tx_status_of (pg_view st)"
abbreviation "pg_hash_of st \<equiv> tx_hash_of (pg_view st)"

lemma wf_pg_open: "ak_key_id key = CURRENT_KEY_ID \<Longrightarrow> wf_pg pe key \<lparr>pg_rows = [], pg_previews = [], pg_audit_key = key\<rparr>"
  using wf_open [of key "pe_ext pe"] by (simp add: wf_pg_def pg_view_def open_with_key_def)

section \<open>Rows\<close>

lemma pg_row_views [simp]:
  "cr_seq (pg_row ext key now tid nt (n, h)) = n"
  "cr_transaction_id (pg_row ext key now tid nt (n, h)) = tid"
  "cr_request_hash (pg_row ext key now tid nt (n, h)) = nt_request_hash nt"
  "cr_created_at (pg_row ext key now tid nt (n, h)) = now_iso now"
  "tx_status (pg_row ext key now tid nt (n, h)) = Queued"
  by (simp_all add: pg_row_def Let_def)

lemma pg_row_linked:
  "ak_key_id key = CURRENT_KEY_ID \<Longrightarrow>
     row_linked (ex_mac ext) key h (chain_row.truncate (pg_row ext key now tid nt (n, h)))"
  by (simp add: pg_row_def Let_def row_linked_def row_content_def chain_row.truncate_def)

text \<open>The rows of a sound log: the part of the invariant that an insert is about.\<close>

definition wf_rows :: "externs \<Rightarrow> audit_key \<Rightarrow> tx_row list \<Rightarrow> bool" where
  "wf_rows ext key rows \<longleftrightarrow> ak_key_id key = CURRENT_KEY_ID \<and> distinct (map cr_transaction_id rows) \<and>
     map cr_seq rows = [1..<Suc (length rows)] \<and> log_linked (ex_mac ext) key [] (chain_rows rows)"

lemma wf_store_rows: "wf_store ext key st \<longleftrightarrow>
    st_audit_key st = Some key \<and> wf_rows ext key (st_rows st) \<and> distinct (map fst (st_previews st)) \<and>
    fst ` set (st_previews st) \<subseteq> cr_transaction_id ` set (st_rows st)"
  by (auto simp: wf_store_def wf_rows_def)

lemma wf_rows_seqs: "wf_rows ext key rows \<Longrightarrow> cr_seq ` set rows = {1..length rows}"
proof -
  assume "wf_rows ext key rows"
  then have "map cr_seq rows = [1..<Suc (length rows)]" by (simp only: wf_rows_def)
  from arg_cong [OF this, of set] show ?thesis by (simp del: upt_Suc add: atLeastLessThanSuc_atLeastAtMost)
qed

lemma wf_rows_nth: "wf_rows ext key rows \<Longrightarrow> i < length rows \<Longrightarrow> cr_seq (rows ! i) = Suc i"
  unfolding wf_rows_def using nth_map [of i rows cr_seq] by (simp del: upt_Suc nth_map add: nth_upt)

lemma wf_rows_last: "wf_rows ext key rows \<Longrightarrow> r \<in> set rows \<Longrightarrow> cr_seq r = length rows \<Longrightarrow> r = last rows"
  by (metis wf_rows_nth in_set_conv_nth last_conv_nth length_greater_0_conv length_pos_if_in_set diff_Suc_1)

lemma wf_rows_append:
  assumes "wf_rows ext key rows" "tid \<notin> cr_transaction_id ` set rows"
  shows "wf_rows ext key (rows @ [pg_row ext key now tid nt (Suc (length rows), log_tip [] (chain_rows rows))])"
  using assms pg_row_linked [of key ext "log_tip [] (chain_rows rows)"]
  by (auto simp: wf_rows_def chain_rows_def)

text \<open>An insert behind the row \<open>r\<close> of a sound log succeeds only when \<open>r\<close> is the last row.\<close>

lemma insert_behind:
  assumes "wf_rows ext key rows" "r \<in> set rows"
    and "pg_insert_row (pg_row ext key now tid nt (pg_next (Some (cr_seq r, cr_chain_hash r)))) rows = Inr rows'"
  shows "cr_seq r = length rows" "wf_rows ext key rows'" "\<exists>row. rows' = rows @ [row]"
proof -
  from assms(3) have new: "tid \<notin> cr_transaction_id ` set rows" "Suc (cr_seq r) \<notin> cr_seq ` set rows"
    and rows': "rows' = rows @ [pg_row ext key now tid nt (Suc (cr_seq r), cr_chain_hash r)]"
    by (auto simp: pg_insert_row_def pg_next_def split: if_splits)
  show "\<exists>row. rows' = rows @ [row]" using rows' by blast
  from wf_rows_seqs [OF assms(1)] assms(2) have "cr_seq r \<le> length rows" by auto
  moreover from wf_rows_seqs [OF assms(1)] new(2) have "length rows < Suc (cr_seq r)" by auto
  ultimately show seq: "cr_seq r = length rows" by simp
  from wf_rows_last [OF assms(1,2) seq] assms(2) have "cr_chain_hash r = log_tip [] (chain_rows rows)"
    by (auto simp: log_tip_def chain_rows_def last_map)
  with wf_rows_append [OF assms(1) new(1)] seq rows' show "wf_rows ext key rows'" by simp
qed

lemma insert_first:
  assumes "wf_rows ext key rows" "pg_insert_row (pg_row ext key now tid nt (pg_next None)) rows = Inr rows'"
  shows "rows = []" "wf_rows ext key rows'" "\<exists>row. rows' = rows @ [row]"
proof -
  from assms(2) have new: "tid \<notin> cr_transaction_id ` set rows" "Suc 0 \<notin> cr_seq ` set rows"
    and rows': "rows' = rows @ [pg_row ext key now tid nt (Suc 0, [])]"
    by (auto simp: pg_insert_row_def pg_next_def split: if_splits)
  show "\<exists>row. rows' = rows @ [row]" using rows' by blast
  from new(2) wf_rows_seqs [OF assms(1)] show e: "rows = []" by (cases rows) auto
  with wf_rows_append [OF assms(1) new(1)] rows' show "wf_rows ext key rows'" by (simp add: chain_rows_def)
qed

lemma pg_tip_in: "pg_tip rows = Some (s, h) \<Longrightarrow> \<exists>r\<in>set rows. s = cr_seq r \<and> h = cr_chain_hash r"
proof -
  assume "pg_tip rows = Some (s, h)"
  then obtain r rs where r: "by_seq_desc rows = r # rs" "s = cr_seq r" "h = cr_chain_hash r"
    by (auto simp: pg_tip_def split: list.splits)
  have "r \<in> set (by_seq_desc rows)" by (simp add: r(1))
  with r(2,3) show ?thesis by auto
qed

lemma pg_insert_transaction_wf:
  assumes "wf_rows ext key rows" "pg_insert_transaction ext key now tid nt rows = Inr (rec, rows')"
  shows "wf_rows ext key rows'" "rec = record_of_new tid nt" "tid \<notin> cr_transaction_id ` set rows"
    "\<exists>s h. rows' = rows @ [pg_row ext key now tid nt (s, h)]"
proof -
  define row where "row = pg_row ext key now tid nt (pg_next (pg_tip rows))"
  have ins: "pg_insert_row row rows = Inr rows'" and rec: "rec = record_of_new tid nt"
    using assms(2) by (auto simp: pg_insert_transaction_def row_def rbind_eq_Inr_conv)
  show "rec = record_of_new tid nt" by (rule rec)
  obtain s h where sh: "pg_next (pg_tip rows) = (s, h)" by (cases "pg_next (pg_tip rows)")
  show "\<exists>s h. rows' = rows @ [pg_row ext key now tid nt (s, h)]"
    using ins unfolding row_def sh by (auto simp: pg_insert_row_def split: if_splits)
  show "tid \<notin> cr_transaction_id ` set rows"
    using ins unfolding row_def sh by (auto simp: pg_insert_row_def split: if_splits)
  show "wf_rows ext key rows'"
  proof (cases "pg_tip rows")
    case None
    with ins insert_first(2) [OF assms(1)] show ?thesis by (simp add: row_def)
  next
    case (Some t)
    obtain s h where t: "t = (s, h)" by (cases t)
    from pg_tip_in [of rows s h] Some t obtain r where r: "r \<in> set rows" "s = cr_seq r" "h = cr_chain_hash r" by auto
    from ins have "pg_insert_row (pg_row ext key now tid nt (pg_next (Some (cr_seq r, cr_chain_hash r)))) rows = Inr rows'"
      by (simp add: row_def Some t r)
    from insert_behind(2) [OF assms(1) r(1) this] show ?thesis .
  qed
qed

lemma pg_insert_transaction_error: "pg_insert_transaction ext key now tid nt rows = Inl e \<Longrightarrow> e = StoreIo"
  by (auto simp: pg_insert_transaction_def pg_insert_row_def rbind_eq_Inl_conv split: if_splits)

section \<open>The methods keep the invariant\<close>

lemma pg_record_Inr:
  assumes "wf_pg pe key st" "pg_record pe now tid nt st = (Inr rec, st')"
  shows "\<exists>s h. st' = st\<lparr>pg_rows := pg_rows st @ [pg_row (pe_ext pe) key now tid nt (s, h)]\<rparr>"
    "wf_pg pe key st'" "rec = record_of_new tid nt" "tid \<notin> cr_transaction_id ` set (pg_rows st)"
proof -
  have wf: "wf_rows (pe_ext pe) key (pg_rows st)" "pg_audit_key st = key"
    using assms(1) by (simp_all add: wf_pg_def wf_store_rows)
  from assms(2) obtain rows where i: "pg_insert_transaction (pe_ext pe) key now tid nt (pg_rows st) = Inr (rec, rows)"
    and st': "st' = st\<lparr>pg_rows := rows\<rparr>"
    by (auto simp: pg_record_def wf(2) split: sum.splits)
  note r = pg_insert_transaction_wf [OF wf(1) i]
  show "\<exists>s h. st' = st\<lparr>pg_rows := pg_rows st @ [pg_row (pe_ext pe) key now tid nt (s, h)]\<rparr>" using st' r(4) by auto
  show "rec = record_of_new tid nt" "tid \<notin> cr_transaction_id ` set (pg_rows st)" by (rule r)+
  show "wf_pg pe key st'" using assms(1) r(1,4) by (auto simp: wf_pg_def wf_store_rows st')
qed

lemma pg_record_Inl: "pg_record pe now tid nt st = (Inl e, st') \<Longrightarrow> st' = st"
  by (auto simp: pg_record_def split: sum.splits)

lemma pg_record_previewed_Inr:
  assumes "wf_pg pe key st" "pg_record_previewed pe now tid nt p st = (Inr rp, st')"
  shows "\<exists>s h. st' = st\<lparr>pg_rows := pg_rows st @ [pg_row (pe_ext pe) key now tid nt (s, h)],
      pg_previews := pg_previews st @ [(tid, p)]\<rparr>"
    "wf_pg pe key st'" "rp = \<lparr>rp_transaction = record_of_new tid nt, rp_preview = p\<rparr>"
    "tid \<notin> cr_transaction_id ` set (pg_rows st)"
proof -
  have wf: "wf_rows (pe_ext pe) key (pg_rows st)" "pg_audit_key st = key"
    using assms(1) by (simp_all add: wf_pg_def wf_store_rows)
  from assms(2) obtain rec rows where i: "pg_insert_transaction (pe_ext pe) key now tid nt (pg_rows st) = Inr (rec, rows)"
    and st': "st' = st\<lparr>pg_rows := rows, pg_previews := pg_previews st @ [(tr_transaction_id rec, p)]\<rparr>"
    and rp: "rp = \<lparr>rp_transaction = rec, rp_preview = p\<rparr>" "tr_transaction_id rec \<notin> fst ` set (pg_previews st)"
    by (auto simp: pg_record_previewed_def wf(2) split: sum.splits if_splits)
  note r = pg_insert_transaction_wf [OF wf(1) i]
  have tid: "tr_transaction_id rec = tid" by (simp add: r(2) record_of_new_def)
  show "\<exists>s h. st' = st\<lparr>pg_rows := pg_rows st @ [pg_row (pe_ext pe) key now tid nt (s, h)],
      pg_previews := pg_previews st @ [(tid, p)]\<rparr>" using st' r(4) tid by auto
  show "rp = \<lparr>rp_transaction = record_of_new tid nt, rp_preview = p\<rparr>" using rp(1) r(2) by simp
  show "tid \<notin> cr_transaction_id ` set (pg_rows st)" by (rule r)
  show "wf_pg pe key st'" using assms(1) r(1,4) rp(2) by (auto simp: wf_pg_def wf_store_rows st' tid)
qed

lemma pg_record_previewed_Inl: "pg_record_previewed pe now tid nt p st = (Inl e, st') \<Longrightarrow> st' = st"
  by (auto simp: pg_record_previewed_def split: sum.splits if_splits)

lemma pg_update_view:
  "pg_view (snd (pg_update_status i s st)) = snd (update_status i s (pg_view st))"
  "fst (pg_update_status i s st) = fst (update_status i s (pg_view st))"
  by (auto simp: pg_update_status_def update_status_def split: option.splits)

lemma pg_claim_view:
  "pg_view (snd (pg_claim_for_execution i st)) = snd (claim_for_execution i (pg_view st))"
  "fst (pg_claim_for_execution i st) = fst (claim_for_execution i (pg_view st))"
  by (simp_all add: pg_claim_for_execution_def claim_for_execution_def Let_def)

lemma where_created_subset: "where_created pe p rows = Inr rows' \<Longrightarrow> set rows' \<subseteq> set rows"
  by (auto simp: where_created_def split: if_splits)

text \<open>The cleanup sets \<open>Canceled\<close> on rows that were \<open>Queued\<close>.\<close>

lemma pg_cleanup_view:
  "\<exists>p. pg_view (snd (pg_cleanup_stale_queued pe now st)) =
      (pg_view st)\<lparr>st_rows := set_status Canceled p (pg_rows st)\<rparr> \<and> (\<forall>r. p r \<longrightarrow> tx_status r = Queued)"
proof (cases "where_created pe (\<lambda>t. t + ttl_ms \<le> now) (filter (\<lambda>r. tx_status r = Queued) (pg_rows st))")
  case (Inl e)
  then show ?thesis
    by (intro exI [of _ "\<lambda>r. False"]) (simp add: pg_cleanup_stale_queued_def set_status_def)
next
  case (Inr stale)
  with where_created_subset [OF Inr] show ?thesis
    by (intro exI [of _ "List.member stale"]) (auto simp: pg_cleanup_stale_queued_def)
qed

lemma pg_cleanup_views:
  "pg_status_of (snd (pg_cleanup_stale_queued pe now st)) i = pg_status_of st i \<or>
     pg_status_of st i = Some Queued \<and> pg_status_of (snd (pg_cleanup_stale_queued pe now st)) i = Some Canceled"
  "pg_hash_of (snd (pg_cleanup_stale_queued pe now st)) = pg_hash_of st"
proof -
  obtain p where p: "pg_view (snd (pg_cleanup_stale_queued pe now st)) =
      (pg_view st)\<lparr>st_rows := set_status Canceled p (st_rows (pg_view st))\<rparr>" "\<And>r. p r \<Longrightarrow> tx_status r = Queued"
    using pg_cleanup_view [of pe now st] by auto
  show "pg_hash_of (snd (pg_cleanup_stale_queued pe now st)) = pg_hash_of st" unfolding p(1) by (rule tx_hash_set_status)
  show "pg_status_of (snd (pg_cleanup_stale_queued pe now st)) i = pg_status_of st i \<or>
     pg_status_of st i = Some Queued \<and> pg_status_of (snd (pg_cleanup_stale_queued pe now st)) i = Some Canceled"
    unfolding p(1) tx_status_set_status using p(2)
    by (auto simp: tx_status_of_def split: option.splits)
qed

lemma wf_pg_run_op: "wf_pg pe key st \<Longrightarrow> wf_pg pe key (run_op (postgres_store pe) x st)"
proof (cases x)
  case (OpRecord now i nt)
  assume wf: "wf_pg pe key st"
  with OpRecord show ?thesis
    using pg_record_Inr(2) [OF wf, of now i nt] pg_record_Inl [of pe now i nt st]
    by (cases "pg_record pe now i nt st"; cases "fst (pg_record pe now i nt st)") (auto simp: postgres_store_def)
next
  case (OpRecordPreviewed now i nt p)
  assume wf: "wf_pg pe key st"
  with OpRecordPreviewed show ?thesis
    using pg_record_previewed_Inr(2) [OF wf, of now i nt p] pg_record_previewed_Inl [of pe now i nt p st]
    by (cases "pg_record_previewed pe now i nt p st"; cases "fst (pg_record_previewed pe now i nt p st)")
       (auto simp: postgres_store_def)
next
  case (OpUpdate i s)
  assume "wf_pg pe key st"
  with OpUpdate show ?thesis by (simp add: postgres_store_def wf_pg_def pg_update_view wf_update_status)
next
  case (OpClaim i)
  assume "wf_pg pe key st"
  with OpClaim show ?thesis by (simp add: postgres_store_def wf_pg_def pg_claim_view wf_claim)
next
  case (OpCleanup now)
  assume "wf_pg pe key st"
  with OpCleanup pg_cleanup_view [of pe now st] show ?thesis
    using wf_set_status [of "pe_ext pe" key "pg_view st"] by (auto simp: postgres_store_def wf_pg_def)
qed

section \<open>A second audit log\<close>

lemma views_append_row:
  assumes "tid \<notin> cr_transaction_id ` set (st_rows st)" "cr_transaction_id row = tid"
  shows "tx_status_of (st\<lparr>st_rows := st_rows st @ [row]\<rparr>) = (tx_status_of st)(tid \<mapsto> tx_status row)"
    and "tx_hash_of (st\<lparr>st_rows := st_rows st @ [row]\<rparr>) = (tx_hash_of st)(tid \<mapsto> cr_request_hash row)"
    and "tx_status_of st tid = None"
  using assms find_tx_None [of "st_rows st" tid]
  by (auto simp: tx_status_of_def tx_hash_of_def find_tx_append fun_eq_iff split: option.splits)

lemma pg_find_queued:
  assumes "wf_pg pe key st" "pg_find_by_request_hash pe now h st = Inr (Some rec)"
  shows "pg_status_of st (tr_transaction_id rec) = Some Queued \<and> pg_hash_of st (tr_transaction_id rec) = Some h"
proof -
  from assms(2) obtain rows r rs where w: "where_created pe (\<lambda>t. now < t + ttl_ms)
        (filter (\<lambda>r. cr_request_hash r = h \<and> tx_status r = Queued) (pg_rows st)) = Inr rows"
      and r: "by_seq_desc rows = r # rs" "row_to_record (pe_ext pe) r = Inr rec"
    by (auto simp: pg_find_by_request_hash_def rbind_eq_Inr_conv first_record_Some)
  have "r \<in> set (by_seq_desc rows)" by (simp add: r(1))
  with where_created_subset [OF w] have m: "r \<in> set (st_rows (pg_view st))" "cr_request_hash r = h" "tx_status r = Queued"
    by auto
  from wf_find_tx [OF assms(1) [unfolded wf_pg_def] m(1)] row_to_record_views [OF r(2)] m(2,3)
  show ?thesis by (simp add: tx_status_of_def tx_hash_of_def)
qed

interpretation postgres: audit_log "postgres_store pe" "wf_pg pe key" "\<lambda>st. pg_status_of st" "\<lambda>st. pg_hash_of st"
  for pe key
proof (unfold_locales, goal_cases)
  case (1 s op)
  then show ?case by (rule wf_pg_run_op)
next
  case (2 s now h r)
  then show ?case by (simp add: postgres_store_def pg_find_queued)
next
  case (3 s i b s')
  then have c: "claim_for_execution i (pg_view s) = (Inr b, pg_view s')"
    using pg_claim_view [of i s] by (cases "claim_for_execution i (pg_view s)") (simp add: postgres_store_def)
  from claim_views [OF 3(1) [unfolded wf_pg_def] c] show ?case by simp
next
  case (4 s i e s')
  then show ?case by (simp add: postgres_store_def pg_claim_for_execution_def Let_def)
next
  case (5 s i st u s')
  then have "update_status i st (pg_view s) = (Inr u, pg_view s')"
    using pg_update_view [of i st s] by (cases "update_status i st (pg_view s)") (simp add: postgres_store_def)
  from update_views [OF this] show ?case by simp
next
  case (6 s i st e s')
  then show ?case by (auto simp: postgres_store_def pg_update_status_def split: option.splits if_splits)
next
  case (7 s now i nt r s')
  then have rec: "pg_record pe now i nt s = (Inr r, s')" by (simp add: postgres_store_def)
  obtain q h where s': "s' = s\<lparr>pg_rows := pg_rows s @ [pg_row (pe_ext pe) key now i nt (q, h)]\<rparr>"
    using pg_record_Inr(1) [OF 7(1) rec] by blast
  have new: "i \<notin> cr_transaction_id ` set (st_rows (pg_view s))" using pg_record_Inr(4) [OF 7(1) rec] by simp
  show ?case using views_append_row [OF new, of "pg_row (pe_ext pe) key now i nt (q, h)"] pg_record_Inr(3) [OF 7(1) rec]
    by (simp add: s' record_of_new_def)
next
  case (8 s now i nt e s')
  then show ?case by (simp add: postgres_store_def pg_record_Inl)
next
  case (9 s now i nt p rp s')
  then have rec: "pg_record_previewed pe now i nt p s = (Inr rp, s')" by (simp add: postgres_store_def)
  obtain q h where s': "s' = s\<lparr>pg_rows := pg_rows s @ [pg_row (pe_ext pe) key now i nt (q, h)],
      pg_previews := pg_previews s @ [(i, p)]\<rparr>"
    using pg_record_previewed_Inr(1) [OF 9(1) rec] by blast
  have new: "i \<notin> cr_transaction_id ` set (st_rows (pg_view s))" using pg_record_previewed_Inr(4) [OF 9(1) rec] by simp
  show ?case using views_append_row [OF new, of "pg_row (pe_ext pe) key now i nt (q, h)"] pg_record_previewed_Inr(3) [OF 9(1) rec]
    by (simp add: s' record_of_new_def)
next
  case (10 s now i nt p e s')
  then show ?case by (simp add: postgres_store_def pg_record_previewed_Inl)
next
  case (11 s now s' i)
  then show ?case using pg_cleanup_views(1) [of pe now s i] pg_cleanup_views(2) [of pe now s] by (auto simp: postgres_store_def)
qed

text \<open>The Postgres store keeps the promise of the audit log in every sequence of writes: a transaction is
  claimed at most once, and the verification accepts every row.\<close>

theorem postgres_log_sound:
  assumes "wf_pg pe key st"
  shows "claims_granted (postgres_store pe) i ops st \<le> 1 \<and>
    pg_verify_audit_chain pe key (run_ops (postgres_store pe) ops st) =
      Inr (Intact (length (pg_rows (run_ops (postgres_store pe) ops st))))"
proof
  show "claims_granted (postgres_store pe) i ops st \<le> 1" by (rule postgres.claims_at_most_one [OF assms])
  have wf: "wf_pg pe key (run_ops (postgres_store pe) ops st)" by (rule postgres.run_ops_inv [OF assms])
  then have "by_seq (pg_rows (run_ops (postgres_store pe) ops st)) = pg_rows (run_ops (postgres_store pe) ops st)"
    unfolding wf_pg_def using by_seq_wf by fastforce
  with wf show "pg_verify_audit_chain pe key (run_ops (postgres_store pe) ops st) =
      Inr (Intact (length (pg_rows (run_ops (postgres_store pe) ops st))))"
    by (simp add: pg_verify_audit_chain_def pg_fetch_chain_rows_def verify_chain_Intact wf_pg_def wf_store_def
        chain_rows_def)
qed

definition pg_example_env :: pg_env where
  "pg_example_env = \<lparr>pe_ext = plain_externs, pe_timestamptz = (\<lambda>s. Some 0), pe_earliest = 210866803200000\<rparr>"

definition example_key :: audit_key where
  "example_key = \<lparr>ak_key_id = CURRENT_KEY_ID, ak_key_bytes = []\<rparr>"

definition example_insert :: new_transaction where
  "example_insert = \<lparr>nt_request_id = ''q'', nt_request_hash = ''h'', nt_action_name = ''GetMemoryInfo'',
     nt_risk_level = Low, nt_approval_id = None, nt_summary = [], nt_warnings = []\<rparr>"

definition empty_pg :: pg_store where
  "empty_pg = \<lparr>pg_rows = [], pg_previews = [], pg_audit_key = example_key\<rparr>"

theorem postgres_log_sound_witness:
  "claims_granted (postgres_store pg_example_env) ''t''
     [OpRecord 0 ''t'' example_insert, OpClaim ''t'', OpClaim ''t''] empty_pg \<le> 1 \<and>
   pg_verify_audit_chain pg_example_env example_key (run_ops (postgres_store pg_example_env)
     [OpRecord 0 ''t'' example_insert, OpClaim ''t'', OpClaim ''t''] empty_pg) =
     Inr (Intact (length (pg_rows (run_ops (postgres_store pg_example_env)
       [OpRecord 0 ''t'' example_insert, OpClaim ''t'', OpClaim ''t''] empty_pg))))"
  unfolding empty_pg_def by (rule postgres_log_sound, rule wf_pg_open) (simp add: example_key_def)

section \<open>Inserts on several connections\<close>

text \<open>The rows only grow, and what a connection remembers is a row of the log.\<close>

definition pg_server_ok :: "externs \<Rightarrow> audit_key \<Rightarrow> pg_server \<Rightarrow> bool" where
  "pg_server_ok ext key sv \<longleftrightarrow> wf_rows ext key (ps_rows sv) \<and>
    (\<forall>w r. ps_phase sv w = Some (Waiting r) \<longrightarrow> r \<in> set (ps_rows sv)) \<and>
    (\<forall>w s h. ps_phase sv w = Some (Inserting (Some (s, h))) \<longrightarrow>
      (\<exists>r\<in>set (ps_rows sv). s = cr_seq r \<and> h = cr_chain_hash r))"

lemma pg_commit_ok:
  assumes "pg_server_ok ext key sv" "ps_phase sv w = Some (Inserting prev)"
    and "pg_insert_row (pg_row ext key now tid nt (pg_next prev)) (ps_rows sv) = Inr rows"
  shows "wf_rows ext key rows \<and> (\<exists>row. rows = ps_rows sv @ [row])"
proof (cases prev)
  case None
  with assms insert_first(2,3) show ?thesis unfolding pg_server_ok_def by blast
next
  case (Some t)
  obtain s h where t: "t = (s, h)" by (cases t)
  have "\<exists>r\<in>set (ps_rows sv). s = cr_seq r \<and> h = cr_chain_hash r"
    using assms(1,2) unfolding pg_server_ok_def Some t by blast
  then obtain r where r: "r \<in> set (ps_rows sv)" "s = cr_seq r" "h = cr_chain_hash r" by blast
  have wf: "wf_rows ext key (ps_rows sv)" using assms(1) by (simp add: pg_server_ok_def)
  from assms(3) have "pg_insert_row (pg_row ext key now tid nt (pg_next (Some (cr_seq r, cr_chain_hash r)))) (ps_rows sv) = Inr rows"
    by (simp add: Some t r)
  from insert_behind(2,3) [OF wf r(1) this] show ?thesis by blast
qed

lemma end_insert_phases:
  "ps_rows (end_insert w ph sv) = ps_rows sv" "ps_phase (end_insert w ph sv) = (ps_phase sv)(w \<mapsto> ph)"
  by (simp_all add: end_insert_def)

lemma pg_step_ok:
  "pg_step ext key req sv sv' \<Longrightarrow> pg_server_ok ext key sv \<Longrightarrow>
     pg_server_ok ext key sv' \<and> (\<exists>rs. ps_rows sv' = ps_rows sv @ rs)"
proof (induction rule: pg_step.induct)
  case (select_tip sv w r rs)
  have "r \<in> set (ps_rows sv)" using by_seq_desc_set [of "ps_rows sv"] select_tip.hyps(2) by (metis list.set_intros(1))
  with select_tip.prems show ?case by (auto simp: pg_server_ok_def)
next
  case (commit sv w prev rows)
  from pg_commit_ok [OF commit.prems commit.hyps] commit.prems show ?case
    by (auto simp: pg_server_ok_def end_insert_phases)
qed (auto simp: pg_server_ok_def end_insert_phases)

lemma pg_steps_ok:
  "(pg_step ext key req)\<^sup>*\<^sup>* sv sv' \<Longrightarrow> pg_server_ok ext key sv \<Longrightarrow>
     pg_server_ok ext key sv' \<and> (\<exists>rs. ps_rows sv' = ps_rows sv @ rs)"
proof (induction rule: rtranclp_induct)
  case (step y z)
  then obtain rs where y: "pg_server_ok ext key y" "ps_rows y = ps_rows sv @ rs" by auto
  from pg_step_ok [OF step(2) y(1)] y(2) show ?case by auto
qed simp

definition quiet_server :: "tx_row list \<Rightarrow> pg_server" where
  "quiet_server rows = \<lparr>ps_rows = rows, ps_lock = (\<lambda>s. None), ps_phase = (\<lambda>w. None)\<rparr>"

lemma quiet_server_ok: "wf_rows ext key rows \<Longrightarrow> pg_server_ok ext key (quiet_server rows)"
  by (simp add: pg_server_ok_def quiet_server_def)

text \<open>The row of a connection that has committed.\<close>

definition row_committed :: "externs \<Rightarrow> audit_key \<Rightarrow> pg_insert_request \<Rightarrow> tx_row list \<Rightarrow> bool" where
  "row_committed ext key q rows \<longleftrightarrow>
    (\<exists>prev. pg_row ext key (iq_now q) (iq_transaction_id q) (iq_transaction q) prev \<in> set rows)"

lemma row_committed_last:
  "row_committed ext key q (rows @ [pg_row ext key (iq_now q) (iq_transaction_id q) (iq_transaction q) prev])"
  unfolding row_committed_def by (rule exI [of _ prev]) simp

lemma row_committed_append: "row_committed ext key q rows \<Longrightarrow> row_committed ext key q (rows @ rs)"
  unfolding row_committed_def by fastforce

lemma pg_step_committed:
  "pg_step ext key req sv sv' \<Longrightarrow> pg_server_ok ext key sv \<Longrightarrow>
    (\<forall>w. ps_phase sv w = Some Committed \<longrightarrow> row_committed ext key (req w) (ps_rows sv)) \<Longrightarrow>
    ps_phase sv' w = Some Committed \<Longrightarrow> row_committed ext key (req w) (ps_rows sv')"
proof (induction rule: pg_step.induct)
  case (commit sv v prev rows)
  from commit.hyps(2) have rows: "rows = ps_rows sv @ [pg_row ext key (iq_now (req v)) (iq_transaction_id (req v))
      (iq_transaction (req v)) (pg_next prev)]"
    by (auto simp: pg_insert_row_def split: if_splits)
  with commit.prems show ?case
    by (cases "w = v") (simp_all add: end_insert_phases row_committed_last row_committed_append)
qed (auto simp: end_insert_phases split: if_splits)

lemma pg_steps_committed:
  assumes "(pg_step ext key req)\<^sup>*\<^sup>* (quiet_server rows) sv" "wf_rows ext key rows" "ps_phase sv w = Some Committed"
  shows "row_committed ext key (req w) (ps_rows sv)"
  using assms(1,3)
proof (induction arbitrary: w rule: rtranclp_induct)
  case (step y z)
  have "pg_server_ok ext key y" using pg_steps_ok [OF step(1) quiet_server_ok [OF assms(2)]] by blast
  from pg_step_committed [OF step(2) this _ step.prems] step.IH show ?case by blast
qed (simp add: quiet_server_def)

text \<open>C15. However the inserts of several connections interleave, the log stays a chain: it verifies, its numbers have
  no gaps, and no committed row is lost or changed: between any two moments the log only grows at its end, and the row
  of every connection that has committed, as that connection asked for it, is in the log at every later moment.\<close>

theorem concurrent_inserts_keep_chain:
  assumes "wf_rows ext key rows" "(pg_step ext key req)\<^sup>*\<^sup>* (quiet_server rows) sv" "(pg_step ext key req)\<^sup>*\<^sup>* sv sv'"
  shows "verify_chain (ex_mac ext) key (chain_rows (ps_rows sv')) = Intact (length (ps_rows sv')) \<and>
    map cr_seq (ps_rows sv') = [1..<Suc (length (ps_rows sv'))] \<and> (\<exists>rs. ps_rows sv' = ps_rows sv @ rs) \<and>
    (\<forall>w. ps_phase sv w = Some Committed \<longrightarrow>
      (\<exists>prev. pg_row ext key (iq_now (req w)) (iq_transaction_id (req w)) (iq_transaction (req w)) prev \<in> set (ps_rows sv')))"
proof -
  have ok: "pg_server_ok ext key sv" using pg_steps_ok [OF assms(2) quiet_server_ok [OF assms(1)]] by blast
  from pg_steps_ok [OF assms(3) ok] obtain rs where rs: "wf_rows ext key (ps_rows sv')" "ps_rows sv' = ps_rows sv @ rs"
    by (auto simp: pg_server_ok_def)
  from pg_steps_committed [OF assms(2,1)] rs(2) have "\<forall>w. ps_phase sv w = Some Committed \<longrightarrow>
      (\<exists>prev. pg_row ext key (iq_now (req w)) (iq_transaction_id (req w)) (iq_transaction (req w)) prev \<in> set (ps_rows sv'))"
    by (fastforce simp: row_committed_def)
  moreover from rs(1) have "verify_chain (ex_mac ext) key (chain_rows (ps_rows sv')) = Intact (length (ps_rows sv')) \<and>
      map cr_seq (ps_rows sv') = [1..<Suc (length (ps_rows sv'))]"
    by (simp add: wf_rows_def verify_chain_Intact chain_rows_def)
  ultimately show ?thesis using rs(2) by blast
qed

text \<open>A connection whose row is no longer the last cannot commit.\<close>

definition behind :: "nat \<Rightarrow> nat \<Rightarrow> pg_server \<Rightarrow> bool" where
  "behind w n sv \<longleftrightarrow> n < length (ps_rows sv) \<and>
    (case ps_phase sv w of
       Some (Waiting r) \<Rightarrow> cr_seq r = n
     | Some (Inserting (Some (s, h))) \<Rightarrow> s = n
     | Some (RolledBackInsert e) \<Rightarrow> True
     | _ \<Rightarrow> False)"

lemma insert_behind_fails:
  "wf_rows ext key rows \<Longrightarrow> n < length rows \<Longrightarrow>
     pg_insert_row (pg_row ext key now tid nt (pg_next (Some (n, h)))) rows = Inl StoreIo"
  using wf_rows_seqs [of ext key rows] by (simp add: pg_insert_row_def pg_next_def)

lemma behind_step:
  "pg_step ext key req sv sv' \<Longrightarrow> pg_server_ok ext key sv \<Longrightarrow> behind w n sv \<Longrightarrow> behind w n sv'"
proof (induction rule: pg_step.induct)
  case (commit sv v prev rows)
  have wf: "wf_rows ext key (ps_rows sv)" using commit.prems by (simp add: pg_server_ok_def)
  have "v \<noteq> w"
  proof
    assume "v = w"
    with commit obtain h where "prev = Some (n, h)"
      by (auto simp: behind_def split: option.splits)
    with insert_behind_fails [OF wf, of n] commit show False by (simp add: behind_def)
  qed
  moreover from pg_commit_ok [OF commit.prems(1) commit.hyps] obtain row where "rows = ps_rows sv @ [row]" by blast
  ultimately show ?case using commit.prems(2) by (simp add: behind_def end_insert_phases)
next
  case (lock_tip sv v r)
  then show ?case by (auto simp: behind_def split: option.splits)
qed (auto simp: behind_def end_insert_phases split: option.splits)

lemma behind_steps:
  "(pg_step ext key req)\<^sup>*\<^sup>* sv sv' \<Longrightarrow> pg_server_ok ext key sv \<Longrightarrow> behind w n sv \<Longrightarrow> behind w n sv'"
proof (induction rule: rtranclp_induct)
  case (step y z)
  have "pg_server_ok ext key y" using pg_steps_ok [OF step(1) step.prems(1)] by blast
  with step show ?case using behind_step by blast
qed simp

text \<open>Locking the last row does not order the inserts: a connection that chose a row before another insert was
  committed behind it can only be rolled back.\<close>

theorem overtaken_insert_is_lost:
  assumes "wf_rows ext key rows" "(pg_step ext key req)\<^sup>*\<^sup>* (quiet_server rows) sv"
    and "ps_phase sv w = Some (Waiting r)" "cr_seq r < length (ps_rows sv)"
    and "(pg_step ext key req)\<^sup>*\<^sup>* sv sv'"
  shows "ps_phase sv' w \<noteq> Some Committed"
proof -
  have ok: "pg_server_ok ext key sv" using pg_steps_ok [OF assms(2) quiet_server_ok [OF assms(1)]] by blast
  have "behind w (cr_seq r) sv" using assms(3,4) by (simp add: behind_def)
  from behind_steps [OF assms(5) ok this] show ?thesis by (auto simp: behind_def)
qed

text \<open>Two connections and a log of one row.\<close>

definition first_row :: tx_row where
  "first_row = pg_row plain_externs example_key 0 ''t'' example_insert (1, [])"

definition two_requests :: "nat \<Rightarrow> pg_insert_request" where
  "two_requests w = \<lparr>iq_now = 0, iq_transaction_id = (if w = 0 then ''u'' else ''v''), iq_transaction = example_insert\<rparr>"

abbreviation "two_step \<equiv> pg_step plain_externs example_key two_requests"

lemma first_row_wf: "wf_rows plain_externs example_key [first_row]"
  using wf_rows_append [of plain_externs example_key "[]" "''t''" 0 example_insert]
  by (simp add: first_row_def wf_rows_def chain_rows_def example_key_def)

lemma first_row_views: "cr_seq first_row = 1" "cr_transaction_id first_row = ''t''"
  by (simp_all add: first_row_def)

definition both_wait :: pg_server where
  "both_wait = (quiet_server [first_row])\<lparr>ps_phase := [0 \<mapsto> Waiting first_row, 1 \<mapsto> Waiting first_row]\<rparr>"

lemma both_wait_reached: "two_step\<^sup>*\<^sup>* (quiet_server [first_row]) both_wait"
proof -
  have tip: "by_seq_desc [first_row] = first_row # []" by (simp add: by_seq_desc_def by_seq_def)
  define sv where "sv = (quiet_server [first_row])\<lparr>ps_phase := [0 \<mapsto> Waiting first_row]\<rparr>"
  have "two_step (quiet_server [first_row]) sv"
    using pg_step.select_tip [of "quiet_server [first_row]" 0 first_row "[]" plain_externs example_key two_requests] tip
    by (simp add: sv_def quiet_server_def)
  moreover have "two_step sv both_wait"
    using pg_step.select_tip [of sv 1 first_row "[]" plain_externs example_key two_requests] tip
    by (simp add: sv_def both_wait_def quiet_server_def)
  ultimately show ?thesis by (rule rtranclp.rtrancl_into_rtrancl [OF r_into_rtranclp])
qed

definition second_row :: tx_row where
  "second_row = pg_row plain_externs example_key 0 ''u'' example_insert (2, cr_chain_hash first_row)"

definition one_committed :: pg_server where
  "one_committed = \<lparr>ps_rows = [first_row, second_row], ps_lock = (\<lambda>s. None),
    ps_phase = [0 \<mapsto> Committed, 1 \<mapsto> Waiting first_row]\<rparr>"

lemma one_committed_reached: "two_step\<^sup>*\<^sup>* (quiet_server [first_row]) one_committed"
proof -
  define sv where "sv = both_wait\<lparr>ps_lock := [1 \<mapsto> 0],
    ps_phase := [0 \<mapsto> Inserting (Some (1, cr_chain_hash first_row)), 1 \<mapsto> Waiting first_row]\<rparr>"
  have "two_step both_wait sv"
    using pg_step.lock_tip [of both_wait 0 first_row plain_externs example_key two_requests]
    by (simp add: sv_def both_wait_def quiet_server_def first_row_views fun_upd_twist)
  moreover have "two_step sv one_committed"
  proof -
    have ins: "pg_insert_row (pg_row plain_externs example_key (iq_now (two_requests 0))
        (iq_transaction_id (two_requests 0)) (iq_transaction (two_requests 0))
        (pg_next (Some (1, cr_chain_hash first_row)))) (ps_rows sv) = Inr [first_row, second_row]"
      by (simp add: sv_def both_wait_def quiet_server_def two_requests_def pg_next_def pg_insert_row_def
          first_row_views second_row_def numeral_2_eq_2)
    have ph: "ps_phase sv 0 = Some (Inserting (Some (1, cr_chain_hash first_row)))" by (simp add: sv_def)
    have "end_insert 0 Committed (sv\<lparr>ps_rows := [first_row, second_row]\<rparr>) = one_committed"
      by (auto simp: end_insert_def sv_def both_wait_def quiet_server_def one_committed_def fun_eq_iff)
    with pg_step.commit [where sv = sv and w = 0 and ext = plain_externs and key = example_key and req = two_requests, OF ph ins] show ?thesis by simp
  qed
  ultimately show ?thesis using both_wait_reached by (meson rtranclp.rtrancl_into_rtrancl)
qed

definition one_rolled_back :: pg_server where
  "one_rolled_back = \<lparr>ps_rows = [first_row, second_row], ps_lock = (\<lambda>s. None),
    ps_phase = [0 \<mapsto> Committed, 1 \<mapsto> RolledBackInsert StoreIo]\<rparr>"

lemma one_rolled_back_reached: "two_step\<^sup>*\<^sup>* one_committed one_rolled_back"
proof -
  define sv where "sv = one_committed\<lparr>ps_lock := [1 \<mapsto> 1],
    ps_phase := [0 \<mapsto> Committed, 1 \<mapsto> Inserting (Some (1, cr_chain_hash first_row))]\<rparr>"
  have "two_step one_committed sv"
    using pg_step.lock_tip [of one_committed 1 first_row plain_externs example_key two_requests]
    by (simp add: sv_def one_committed_def first_row_views)
  moreover have "two_step sv (end_insert 1 (RolledBackInsert StoreIo) sv)"
    by (rule pg_step.roll_back [where prev = "Some (1, cr_chain_hash first_row)"])
       (simp_all add: sv_def one_committed_def two_requests_def pg_next_def pg_insert_row_def first_row_views
         second_row_def numeral_2_eq_2)
  moreover have "end_insert 1 (RolledBackInsert StoreIo) sv = one_rolled_back"
    by (auto simp: end_insert_def sv_def one_committed_def one_rolled_back_def fun_eq_iff)
  ultimately show ?thesis by (metis (no_types) rtranclp.rtrancl_into_rtrancl r_into_rtranclp)
qed

theorem overtaken_insert_is_lost_witness:
  "two_step\<^sup>*\<^sup>* one_committed one_rolled_back \<and> ps_phase one_rolled_back 1 = Some (RolledBackInsert StoreIo) \<and>
     ps_phase one_rolled_back 1 \<noteq> Some Committed"
proof -
  have w: "ps_phase one_committed 1 = Some (Waiting first_row)" "cr_seq first_row < length (ps_rows one_committed)"
    by (simp_all add: one_committed_def first_row_views)
  have "ps_phase one_rolled_back 1 \<noteq> Some Committed"
    by (rule overtaken_insert_is_lost [OF first_row_wf one_committed_reached w one_rolled_back_reached])
  with one_rolled_back_reached show ?thesis by (simp add: one_rolled_back_def)
qed

theorem concurrent_inserts_keep_chain_witness:
  "verify_chain (ex_mac plain_externs) example_key (chain_rows (ps_rows one_rolled_back)) = Intact (length (ps_rows one_rolled_back)) \<and>
   map cr_seq (ps_rows one_rolled_back) = [1..<Suc (length (ps_rows one_rolled_back))] \<and>
   (\<exists>prev. pg_row plain_externs example_key 0 ''u'' example_insert prev \<in> set (ps_rows one_rolled_back))"
proof -
  have "ps_phase one_committed 0 = Some Committed" by (simp add: one_committed_def)
  with concurrent_inserts_keep_chain [OF first_row_wf one_committed_reached one_rolled_back_reached]
  have "\<exists>prev. pg_row plain_externs example_key (iq_now (two_requests 0)) (iq_transaction_id (two_requests 0))
      (iq_transaction (two_requests 0)) prev \<in> set (ps_rows one_rolled_back)" by blast
  then show ?thesis
    using concurrent_inserts_keep_chain [OF first_row_wf one_committed_reached one_rolled_back_reached]
    by (simp add: two_requests_def del: upt_Suc)
qed

section \<open>The times it writes\<close>

lemma render_hm_length: "length (render_hm t) = 5"
  by (simp add: render_hm_def Let_def)

lemma pad_chars: "c \<in> set (pad w n) \<Longrightarrow> is_ascii_digit c"
  by (induction w arbitrary: n) (auto simp: digit_char_digit)

text \<open>No row the Postgres store writes has a time the command line can read: the seconds are missing.\<close>

theorem postgres_times_unreadable:
  "rfc3339_to_unix (cr_created_at (pg_row ext key now tid nt prev)) = None"
proof -
  obtain y m d where ymd: "date_of_day (day_of now) = (y, m, d)" by (cases "date_of_day (day_of now)")
  define date where "date = render_date (date_of_day (day_of now))"
  have date: "CHR ''T'' \<notin> set date"
    by (auto simp: date_def ymd is_ascii_digit_def dest!: pad_chars simp del: pad.simps)
  have hm: "CHR ''.'' \<notin> set (render_hm now)"
    by (auto simp: render_hm_def Let_def is_ascii_digit_def dest!: pad_chars simp del: pad.simps)
  define frac where "frac = pad 3 (now mod 1000)"
  have "cr_created_at (pg_row ext key now tid nt prev) = now_iso now"
    by (cases prev) simp
  also have "\<dots> = (date @ CHR ''T'' # (render_hm now @ [CHR '':'']) @ CHR ''.'' # frac) @ ''Z''"
    by (simp add: now_iso_def date_def frac_def)
  finally have created: "cr_created_at (pg_row ext key now tid nt prev) =
      (date @ CHR ''T'' # (render_hm now @ [CHR '':'']) @ CHR ''.'' # frac) @ ''Z''" .
  have strip: "strip_suffix (u @ ''Z'') ''Z'' = Some u" for u :: str by (simp add: strip_suffix_def suffix_def)
  have T: "split_once CHR ''T'' (date @ CHR ''T'' # (render_hm now @ [CHR '':'']) @ CHR ''.'' # frac) =
      Some (date, (render_hm now @ [CHR '':'']) @ CHR ''.'' # frac)"
    using date by (simp add: split_once_Some)
  have dot: "split_once CHR ''.'' ((render_hm now @ [CHR '':'']) @ CHR ''.'' # frac) = Some (render_hm now @ [CHR '':''], frac)"
    using hm by (simp add: split_once_Some)
  show ?thesis unfolding created rfc3339_to_unix_def strip option.case bind.bind_lunit T prod.case dot Let_def
    by (simp add: render_hm_length)
qed

end
