(* ===== verification/Daemon_Start_Properties.thy ===== *)
theory Daemon_Start_Properties
  imports Daemon_Start Postgres_Properties Distro
begin

text \<open>
  A daemon that starts uses exactly what its configuration says; its accept loop survives connections that fail and
  never hands out more permits than it has; the guarantees of the running daemon hold on the Postgres backend; and
  the daemon's detection of the distribution compared with that of the clients (\<open>Distro\<close>).
\<close>

section \<open>The start\<close>

lemma build_postgres_audit_None:
  "build_postgres_audit w = Inr None \<Longrightarrow> lc_storage (sw_config w) = Some s \<Longrightarrow>
     storage_parsed (sw_dbg w) s = Inr SqliteBackend"
proof -
  assume none: "build_postgres_audit w = Inr None" and s: "lc_storage (sw_config w) = Some s"
  then obtain b where b: "storage_parsed (sw_dbg w) s = Inr b" by (auto simp: build_postgres_audit_def rbind_eq_Inr_conv)
  with none s show ?thesis by (cases b) (auto simp: build_postgres_audit_def rbind_eq_Inr_conv)
qed

text \<open>C26. A daemon that starts enforces the configured policy, which only raises roles above the built-in ones; it
  forwards its audit events if a sink is configured; and it uses Postgres if the configuration says so, never SQLite
  in its place. Every error in one of these sections stops the start.\<close>

theorem start_is_configured:
  assumes "daemon_start w = Inr st"
  shows "from_overrides (unwrap_or (lc_policy (sw_config w)) []) = Inr (ds_policy st) \<and>
    (\<forall>caller a. action_allowed (ds_policy st) caller a \<longrightarrow> baseline_action_allowed caller a) \<and>
    (ds_forwarder st = None \<longleftrightarrow> lc_audit (sw_config w) = None) \<and>
    (\<forall>s. lc_storage (sw_config w) = Some s \<and> to_ascii_lowercase (ss_backend s) = ''postgres'' \<longrightarrow>
      (\<exists>pg. ds_audit st = PostgresAudit pg)) \<and>
    (\<forall>s. lc_storage (sw_config w) = Some s \<longrightarrow> to_ascii_lowercase (ss_backend s) \<in> {''sqlite'', ''postgres''})"
proof -
  define env where "env = apply_defaults_to_env (sw_config w) (sw_env w)"
  from assms obtain policy forwarder target where
    policy: "from_overrides (unwrap_or (lc_policy (sw_config w)) []) = Inr policy"
    and fwd: "build_forwarder w = Inr forwarder"
    and opened: "open_state w \<lparr>dg_listen_target = target, dg_database_path = default_database_path env\<rparr> policy forwarder = Inr st"
    by (auto simp: daemon_start_def Let_def rbind_eq_Inr_conv map_err_def env_def split: sum.splits)
  from opened consider
      pg where "build_postgres_audit w = Inr (Some pg)" "ds_audit st = PostgresAudit pg"
        "ds_policy st = policy" "ds_forwarder st = forwarder"
    | "build_postgres_audit w = Inr None" "ds_policy st = policy" "ds_forwarder st = forwarder"
    by (auto simp: open_state_def open_with_audit_def open_full_def map_err_def rbind_def
        split: sum.splits option.splits)
  note backend = this
  have p: "ds_policy st = policy" "ds_forwarder st = forwarder" by (rule backend; simp)+
  have f: "forwarder = None \<longleftrightarrow> lc_audit (sw_config w) = None"
    using fwd by (auto simp: build_forwarder_def split: option.splits)
  have pg: "\<exists>pg. ds_audit st = PostgresAudit pg"
    if "lc_storage (sw_config w) = Some s" "to_ascii_lowercase (ss_backend s) = ''postgres''" for s
  proof (rule backend)
    assume "build_postgres_audit w = Inr None"
    from build_postgres_audit_None [OF this that(1)] that(2) show ?thesis
      by (simp add: storage_parsed_def rbind_eq_Inr_conv)
  qed blast
  have known: "to_ascii_lowercase (ss_backend s) \<in> {''sqlite'', ''postgres''}" if "lc_storage (sw_config w) = Some s" for s
  proof -
    have "\<exists>x. build_postgres_audit w = Inr x" by (rule backend; blast)
    with that obtain b where "storage_parsed (sw_dbg w) s = Inr b"
      by (auto simp: build_postgres_audit_def rbind_eq_Inr_conv)
    then show ?thesis by (auto simp: storage_parsed_def Let_def split: if_splits)
  qed
  show ?thesis using policy f pg known action_allowed_baseline [OF from_overrides_wf [OF policy]] by (auto simp: p)
qed

section \<open>The accept loop\<close>

fun stops_loop :: "loop_event \<Rightarrow> bool" where
  "stops_loop CtrlC = True"
| "stops_loop (AcceptFailed ek) = (classify_accept_error ek = BreakFatal)"
| "stops_loop _ = False"

text \<open>The loop goes on unless it is told to stop, and answers every connection it accepts.\<close>

lemma loop_goes_on:
  "list_all (\<lambda>e. \<not> stops_loop e) es \<Longrightarrow> accept_loop permits es = (as, p, running) \<Longrightarrow>
     running \<and> length as = length (filter (\<lambda>e. case e of Accepted c \<Rightarrow> True | _ \<Rightarrow> False) es)"
proof (induction permits es arbitrary: "as" p running rule: accept_loop.induct)
  case (2 permits c es)
  then show ?case by (auto split: nat.splits prod.splits)
next
  case (3 permits ek es)
  then show ?case by (cases ek) (auto simp: classify_accept_error_def)
qed auto

text \<open>Free permits and running handlers add up to what the loop started with.\<close>

definition spawned :: "loop_action list \<Rightarrow> nat" where
  "spawned as = length (filter (\<lambda>a. case a of Spawned c \<Rightarrow> True | Dropped c \<Rightarrow> False) as)"

lemma permits_add_up:
  "list_all (\<lambda>e. \<not> stops_loop e) es \<Longrightarrow> accept_loop permits es = (as, p, running) \<Longrightarrow>
     p + spawned as = permits + length (filter (\<lambda>e. e = HandlerEnded) es)"
proof (induction permits es arbitrary: "as" p running rule: accept_loop.induct)
  case (2 permits c es)
  then show ?case by (fastforce simp: spawned_def split: nat.splits prod.splits)
next
  case (3 permits ek es)
  then show ?case by (cases ek) (auto simp: classify_accept_error_def)
qed (auto simp: spawned_def)

section \<open>The running daemon on Postgres\<close>

text \<open>C10. With the Postgres store in the place of SQLite the daemon keeps its guarantees: in every state it can
  reach no transaction is run twice, and the verification accepts the whole log.\<close>

theorem postgres_daemon_sound:
  assumes "dp_audit dp = postgres_store pe" "wf_pg pe key s" "daemon_reaches dp (booted s m) w"
  shows "distinct (run_ids (w_log w)) \<and>
    pg_verify_audit_chain pe key (w_store w) = Inr (Intact (length (pg_rows (w_store w))))"
proof
  note inv = postgres.daemon_inv_reaches [OF assms(2,1,3)]
  then have "system_ok (dp_env dp) (pg_status_of (w_store w), pg_hash_of (w_store w)) w"
    by (simp add: postgres.daemon_inv_def postgres.views_of_def)
  from system_okD(4) [OF this] show "distinct (run_ids (w_log w))" .
  have wf: "wf_store (pe_ext pe) key (pg_view (w_store w))"
    using inv by (simp add: postgres.daemon_inv_def wf_pg_def)
  from by_seq_wf [OF wf] wf show "pg_verify_audit_chain pe key (w_store w) = Inr (Intact (length (pg_rows (w_store w))))"
    by (simp add: pg_verify_audit_chain_def pg_fetch_chain_rows_def verify_chain_Intact wf_store_def chain_rows_def)
qed

section \<open>Witnesses\<close>

definition demo_config :: lacs_config where
  "demo_config = \<lparr>lc_daemon = Some \<lparr>ds_socket = Some ''/run/sysknife/daemon.sock'', ds_database = None\<rparr>, lc_llm = None,
    lc_policy = Some [(''InstallFlatpak'', ''High'')],
    lc_audit = Some \<lparr>sl_host = ''10.0.0.7:514'', sl_facility = 1\<rparr>,
    lc_storage = Some \<lparr>ss_backend = ''Postgres'', ss_url = Some ''postgres://db/audit'', ss_pool = None\<rparr>\<rparr>"

definition demo_world :: start_world where
  "demo_world = \<lparr>sw_config = demo_config, sw_env = Map.empty, sw_uid = 0, sw_dbg = id, sw_addr_error = id,
    sw_key_error = (\<lambda>e. []), sw_store_error = (\<lambda>e. []),
    sw_key_io = \<lparr>io_random = Some (replicate 32 CHR ''k''), io_stat_ok = True, io_read_ok = True\<rparr>,
    sw_key_file = None, sw_connect = (\<lambda>cfg key. Inr \<lparr>pg_rows = [], pg_previews = [], pg_audit_key = key\<rparr>),
    sw_open = (\<lambda>p. Inl StoreIo),
    sw_bind = \<lparr>ba_has_parent = True, ba_exists = False, ba_is_socket = Inl (), ba_denies = (\<lambda>c. False)\<rparr>,
    sw_bind_vsock = (\<lambda>p. False)\<rparr>"

lemma demo_host: "parse_socket_addr ''10.0.0.7:514'' = Some (V4 10 0 0 7, 0, 514)"
  by (simp add: parse_socket_addr_def read_socket_v4_def read_ipv4_def read_octet_def read_number_def read_sep_def
      read_port_def hex_digit_val_def is_ascii_digit_def)

lemma demo_world_parts:
  "is_ok (from_overrides [(''InstallFlatpak'', ''High'')])"
  "try_from_uri (socket_uri ''/run/sysknife/daemon.sock'') = Inr (Unix ''/run/sysknife/daemon.sock'')"
  "is_ok (fst (load_or_generate (sw_key_io demo_world) (sw_key_file demo_world)))"
  "is_ok (bind_unix_listener (sw_bind demo_world) (Unix ''/run/sysknife/daemon.sock''))"
  "storage_parsed id \<lparr>ss_backend = ''Postgres'', ss_url = Some ''postgres://db/audit'', ss_pool = None\<rparr> =
    Inr (PostgresBackend ''postgres://db/audit''
      \<lparr>sp_max_connections = None, sp_acquire_timeout_secs = None, sp_statement_cache_capacity = None\<rparr>)"
  by code_simp+

lemma demo_starts: "is_ok (daemon_start demo_world)"
proof -
  have uri: "default_listen_uri (sw_uid demo_world) (apply_defaults_to_env (sw_config demo_world) (sw_env demo_world)) =
      socket_uri ''/run/sysknife/daemon.sock''"
    by (rule daemon_socket_is_uri [where d = "\<lparr>ds_socket = Some ''/run/sysknife/daemon.sock'', ds_database = None\<rparr>"]) (simp_all add: demo_world_def demo_config_def)
  have fwd: "build_forwarder demo_world = Inr (Some (SyslogUdp (V4 10 0 0 7, 0, 514) 1))"
    by (simp add: build_forwarder_def demo_world_def demo_config_def demo_host)
  have pg: "\<exists>a. build_postgres_audit demo_world = Inr (Some a)"
    using demo_world_parts(3,5) by (auto simp: build_postgres_audit_def demo_world_def demo_config_def is_ok_iff map_err_def)
  have c: "lc_policy (sw_config demo_world) = Some [(''InstallFlatpak'', ''High'')]"
    by (simp add: demo_world_def demo_config_def)
  from demo_world_parts(1) obtain policy where policy: "from_overrides [(''InstallFlatpak'', ''High'')] = Inr policy"
    by (auto simp: is_ok_iff)
  from demo_world_parts(4) obtain calls where calls: "bind_unix_listener (sw_bind demo_world) (Unix ''/run/sysknife/daemon.sock'') = Inr calls"
    by (auto simp: is_ok_iff)
  from pg obtain a where a: "build_postgres_audit demo_world = Inr (Some a)" by blast
  show ?thesis
    by (simp add: daemon_start_def Let_def uri fwd demo_world_parts(2) c policy calls a open_state_def bind_listener_def
        map_err_def is_ok_iff)
qed

theorem start_is_configured_witness:
  "\<exists>st pg. daemon_start demo_world = Inr st \<and> ds_audit st = PostgresAudit pg \<and> ds_forwarder st \<noteq> None \<and>
     from_overrides [(''InstallFlatpak'', ''High'')] = Inr (ds_policy st)"
proof -
  obtain st where st: "daemon_start demo_world = Inr st" using demo_starts by (auto simp: is_ok_iff)
  have c: "lc_policy (sw_config demo_world) = Some [(''InstallFlatpak'', ''High'')]"
    "lc_audit (sw_config demo_world) \<noteq> None"
    "lc_storage (sw_config demo_world) = Some \<lparr>ss_backend = ''Postgres'', ss_url = Some ''postgres://db/audit'', ss_pool = None\<rparr>"
    by (simp_all add: demo_world_def demo_config_def)
  have low: "to_ascii_lowercase ''Postgres'' = ''postgres''" by code_simp
  from start_is_configured [OF st] c low st show ?thesis by auto
qed

definition postgres_deployment :: "pg_store deployment" where
  "postgres_deployment = \<lparr>dp_env = demo_env, dp_audit = postgres_store pg_example_env,
    dp_os = dp_os demo_deployment, dp_target = dp_target demo_deployment\<rparr>"

definition one_row_pg :: pg_store where
  "one_row_pg = \<lparr>pg_rows = [first_row], pg_previews = [], pg_audit_key = example_key\<rparr>"

theorem postgres_daemon_sound_witness:
  "distinct (run_ids (w_log (booted one_row_pg \<lparr>m_files = [], m_dirs = []\<rparr>))) \<and>
   pg_verify_audit_chain pg_example_env example_key one_row_pg = Inr (Intact 1)"
proof -
  have wf: "wf_pg pg_example_env example_key one_row_pg"
    using first_row_wf by (simp add: wf_pg_def wf_store_rows one_row_pg_def pg_example_env_def)
  have "dp_audit postgres_deployment = postgres_store pg_example_env" by (simp add: postgres_deployment_def)
  from postgres_daemon_sound [OF this wf, of "\<lparr>m_files = [], m_dirs = []\<rparr>"
      "booted one_row_pg \<lparr>m_files = [], m_dirs = []\<rparr>"]
  show ?thesis by (simp add: daemon_reaches_def booted_def one_row_pg_def)
qed

section \<open>Two detections\<close>

text \<open>The daemon's reader of \<open>os-release\<close> and that of the clients differ on the flavours of Fedora: an Onyx system is
  an atomic desktop for the daemon and a plain Fedora for the clients, and quotes of the other kind count for one only.\<close>

lemma detections_differ:
  "daemon_detect (Some (''ID=fedora'' @ [CHR 0x0A] @ ''VERSION_ID=41'' @ [CHR 0x0A] @ ''VARIANT_ID=onyx'')) = FedoraAtomic \<and>
   detect (Some (''ID=fedora'' @ [CHR 0x0A] @ ''VERSION_ID=41'' @ [CHR 0x0A] @ ''VARIANT_ID=onyx'')) = Some (Fedora 41)"
  "daemon_detect (Some (''ID='' @ [CHR 0x27] @ ''ubuntu'' @ [CHR 0x27, CHR 0x0A] @ ''VERSION_ID=24.04'')) = UnknownDistro \<and>
   detect (Some (''ID='' @ [CHR 0x27] @ ''ubuntu'' @ [CHR 0x27, CHR 0x0A] @ ''VERSION_ID=24.04'')) = Some (Ubuntu 24 4)"
proof -
  have v: "parse_uint u32_max ''41'' = Some 41" "parse_uint u32_max ''24'' = Some 24" "parse_uint u32_max ''04'' = Some 4"
    by (simp_all add: parse_uint_def u32_max_def is_ascii_digit_def digit_val_def)
  have d: "daemon_detect (Some (''ID=fedora'' @ [CHR 0x0A] @ ''VERSION_ID=41'' @ [CHR 0x0A] @ ''VARIANT_ID=onyx'')) = FedoraAtomic"
    "daemon_detect (Some (''ID='' @ [CHR 0x27] @ ''ubuntu'' @ [CHR 0x27, CHR 0x0A] @ ''VERSION_ID=24.04'')) = UnknownDistro"
    by code_simp+
  have l: "os_loop (str_lines (''ID=fedora'' @ [CHR 0x0A] @ ''VERSION_ID=41'' @ [CHR 0x0A] @ ''VARIANT_ID=onyx'')) os_start =
      Inr (os_start\<lparr>ov_id := Some ''fedora'', ov_version_id := Some ''41'', ov_variant_id := Some ''onyx'', ov_found_any := True\<rparr>)"
    "os_loop (str_lines (''ID='' @ [CHR 0x27] @ ''ubuntu'' @ [CHR 0x27, CHR 0x0A] @ ''VERSION_ID=24.04'')) os_start =
      Inr (os_start\<lparr>ov_id := Some ''ubuntu'', ov_version_id := Some ''24.04'', ov_found_any := True\<rparr>)"
    by code_simp+
  have sp: "splitn 2 CHR ''.'' ''24.04'' = [''24'', ''04'']" by code_simp
  note sims = detect_def parse_os_release_def MAX_OS_RELEASE_BYTES_def os_start_def detect_distro_def detect_fedora_def
    detect_ubuntu_def parse_ubuntu_version_def v sp
  show "daemon_detect (Some (''ID=fedora'' @ [CHR 0x0A] @ ''VERSION_ID=41'' @ [CHR 0x0A] @ ''VARIANT_ID=onyx'')) = FedoraAtomic \<and>
   detect (Some (''ID=fedora'' @ [CHR 0x0A] @ ''VERSION_ID=41'' @ [CHR 0x0A] @ ''VARIANT_ID=onyx'')) = Some (Fedora 41)"
    by (rule conjI [OF d(1)]) (simp add: sims l(1) [unfolded os_start_def append.simps])
  show "daemon_detect (Some (''ID='' @ [CHR 0x27] @ ''ubuntu'' @ [CHR 0x27, CHR 0x0A] @ ''VERSION_ID=24.04'')) = UnknownDistro \<and>
   detect (Some (''ID='' @ [CHR 0x27] @ ''ubuntu'' @ [CHR 0x27, CHR 0x0A] @ ''VERSION_ID=24.04'')) = Some (Ubuntu 24 4)"
    by (rule conjI [OF d(2)]) (simp add: sims l(2) [unfolded os_start_def append.simps])
qed

end
