(* ===== verification/Providers.thy ===== *)
theory Providers
  imports Planner
begin

text \<open>
  The adapters between the planner and the libraries of the model providers
  (\<open>crates/sysknife-brain/src/providers/\<close>): the translation of a conversation into the messages of \<open>rig\<close>
  (\<open>rig_adapter.rs\<close>) and of the Chat Completions API (\<open>openai_adapter.rs\<close>), of an answer back, and the
  classification of errors with the removal of keys from their text (\<open>mod.rs\<close>). The libraries are parameters: what a
  request gives, the text of an error, the parser of arguments. \<open>lower\<close> is \<open>str::to_lowercase\<close>, whose effect on
  lengths matters here. \<open>None\<close> is a panic. Traces and warnings are left out.
\<close>

section \<open>Keys in error texts\<close>

definition KEY_PARAMS :: "str list" where
  "KEY_PARAMS = [''?key='', ''?api_key='', ''&key='', ''&api_key='']"

text \<open>\<open>str::find\<close>, of a string and of white space.\<close>

fun find_str :: "str \<Rightarrow> str \<Rightarrow> nat option" where
  "find_str p [] = (if p = [] then Some 0 else None)"
| "find_str p (c # s) = (if prefix p (c # s) then Some 0 else map_option Suc (find_str p s))"

definition starts_white :: "str \<Rightarrow> bool" where
  "starts_white s = list_ex (\<lambda>w. prefix w s) unicode_ws"

fun find_white :: "str \<Rightarrow> nat option" where
  "find_white [] = None"
| "find_white (c # s) = (if starts_white (c # s) then Some 0 else map_option Suc (find_white s))"

lemma find_str_bound: "find_str p s = Some i \<Longrightarrow> i + length p \<le> length s"
  by (induction p s arbitrary: i rule: find_str.induct) (auto simp: prefix_length_le split: if_splits dest: prefix_length_le)

text \<open>The ranges of one pattern: behind its first character and up to the next white space, or to the end of the
  message, whose length is \<open>n\<close>.\<close>

function param_ranges :: "nat \<Rightarrow> str \<Rightarrow> str \<Rightarrow> nat \<Rightarrow> (nat \<times> nat) list" where
  "param_ranges n lower p search_from = (case find_str p (drop search_from lower) of
      None \<Rightarrow> []
    | Some rel \<Rightarrow>
        let start = search_from + rel;
            stop = (case find_white (drop start lower) of Some s \<Rightarrow> start + s | None \<Rightarrow> n)
        in (start + 1, stop) # (if p = [] then [] else param_ranges n lower p (start + length p)))"
  by pat_completeness auto
termination
proof (relation "measure (\<lambda>(n, lower, p, search_from). length lower - search_from)", goal_cases)
  case (2 n lower p search_from rel start stop)
  from find_str_bound [OF 2(1)] 2 show ?case by (cases p) auto
qed simp

declare param_ranges.simps [simp del]

text \<open>\<open>dedup_by\<close> merges a range into the one kept before it if they meet.\<close>

fun merge_ranges :: "(nat \<times> nat) list \<Rightarrow> (nat \<times> nat) list" where
  "merge_ranges (a # b # rs) =
    (if snd a \<ge> fst b then merge_ranges ((fst a, max (snd a) (snd b)) # rs) else a # merge_ranges (b # rs))"
| "merge_ranges rs = rs"

definition replace_range :: "nat \<times> nat \<Rightarrow> str \<Rightarrow> str option" where
  "replace_range r s = (case r of (a, b) \<Rightarrow>
    if a \<le> b \<and> is_char_boundary s a \<and> is_char_boundary s b then Some (take a s @ ''[REDACTED]'' @ drop b s) else None)"

definition sanitize_error_msg :: "(str \<Rightarrow> str) \<Rightarrow> str \<Rightarrow> str option" where
  "sanitize_error_msg lower msg =
    (let ranges = concat (map (\<lambda>p. param_ranges (length msg) (lower msg) p 0) KEY_PARAMS)
     in if ranges = [] then Some msg
        else foldr (\<lambda>r m. Option.bind m (replace_range r)) (merge_ranges (sort_key fst ranges)) (Some msg))"

section \<open>The adapter of rig\<close>

datatype user_content = UserText str | UserToolResult str str str

datatype assistant_content =
    AssistantText str
  | AssistantToolCall str "str option" str json
  | AssistantReasoning
  | AssistantImage

datatype rig_message = RigSystem str | RigUser "user_content list" | RigAssistant "assistant_content list"

record tool_definition =
  td_name :: str
  td_description :: str
  td_input_schema :: json

record rig_tool_definition =
  rt_name :: str
  rt_description :: str
  rt_parameters :: json

record rig_request =
  rr_chat_history :: "rig_message list"
  rr_tools :: "rig_tool_definition list"
  rr_max_tokens :: nat
  rr_additional_params :: "json option"

fun is_result :: "content_block \<Rightarrow> bool" where
  "is_result (ToolResult _ _ _ _) = True"
| "is_result _ = False"

definition all_results :: "content_block list \<Rightarrow> bool" where
  "all_results bs = (bs \<noteq> [] \<and> list_all is_result bs)"

definition result_text :: "str \<Rightarrow> bool \<Rightarrow> str" where
  "result_text content is_error = (if is_error then ''[TOOL ERROR] '' @ content else content)"

definition joined_text :: "content_block list \<Rightarrow> str" where
  "joined_text bs = join_with [CHR 0x0A] (List.map_filter (\<lambda>b. case b of TextBlock t \<Rightarrow> Some t | _ \<Rightarrow> None) bs)"

definition rig_results :: "content_block list \<Rightarrow> user_content list" where
  "rig_results bs = List.map_filter
    (\<lambda>b. case b of ToolResult i c t e \<Rightarrow> Some (UserToolResult i (unwrap_or c i) (result_text t e)) | _ \<Rightarrow> None) bs"

definition rig_user :: "content_block list \<Rightarrow> rig_message list" where
  "rig_user bs =
    (if all_results bs then (case rig_results bs of [] \<Rightarrow> [] | x # xs \<Rightarrow> [RigUser (x # xs)])
     else [RigUser [UserText (joined_text bs)]])"

definition rig_contents :: "content_block list \<Rightarrow> assistant_content list" where
  "rig_contents bs = List.map_filter (\<lambda>b. case b of
      TextBlock t \<Rightarrow> Some (AssistantText t)
    | ToolUse i c n v \<Rightarrow> Some (AssistantToolCall i (Some (unwrap_or c i)) n v)
    | ToolResult _ _ _ _ \<Rightarrow> None) bs"

definition rig_assistant :: "content_block list \<Rightarrow> rig_message list" where
  "rig_assistant bs = (case rig_contents bs of [] \<Rightarrow> [] | x # xs \<Rightarrow> [RigAssistant (x # xs)])"

definition to_rig_messages :: "str \<Rightarrow> message list \<Rightarrow> rig_message list" where
  "to_rig_messages system messages = RigSystem system # concat (map (\<lambda>m. case ms_role m of
      UserRole \<Rightarrow> rig_user (ms_content m)
    | AssistantRole \<Rightarrow> rig_assistant (ms_content m)) messages)"

definition to_rig_tools :: "tool_definition list \<Rightarrow> rig_tool_definition list" where
  "to_rig_tools tools = map (\<lambda>t. \<lparr>rt_name = td_name t, rt_description = td_description t,
    rt_parameters = td_input_schema t\<rparr>) tools"

definition rig_block :: "assistant_content \<Rightarrow> content_block option" where
  "rig_block item = (case item of
      AssistantText t \<Rightarrow> if t = [] then None else Some (TextBlock t)
    | AssistantToolCall i c n v \<Rightarrow>
        Some (ToolUse i (case c of Some s \<Rightarrow> if s = [] then None else Some s | None \<Rightarrow> None) n v)
    | AssistantReasoning \<Rightarrow> None
    | AssistantImage \<Rightarrow> None)"

definition is_tool_call :: "assistant_content \<Rightarrow> bool" where
  "is_tool_call item = (case item of AssistantToolCall _ _ _ _ \<Rightarrow> True | _ \<Rightarrow> False)"

definition from_rig_response :: "assistant_content list \<Rightarrow> (provider_error, completion) result" where
  "from_rig_response choice =
    (let content = List.map_filter rig_block choice
     in if content = [] \<and> choice \<noteq> [] then
          Inl (ParseFailed (''model response contained only unsupported content types '' @
            ''(reasoning/image); no text or tool calls found''))
        else Inr \<lparr>cp_content = content,
          cp_stop_reason = (if list_ex is_tool_call choice then StopToolUse else EndTurn)\<rparr>)"

definition map_rig_error :: "(str \<Rightarrow> str) \<Rightarrow> str \<Rightarrow> provider_error option" where
  "map_rig_error lower err = map_option (\<lambda>msg.
    if contains_str msg ''401'' \<or> contains_str (lower msg) ''auth'' then AuthFailed msg
    else if contains_str msg ''429'' \<or> contains_str (lower msg) ''rate'' then RateLimited
    else RequestFailed msg) (sanitize_error_msg lower err)"

text \<open>An error of the library, mapped by \<open>f\<close>.\<close>

definition or_error :: "(str \<Rightarrow> provider_error option) \<Rightarrow> (str, 'a) result \<Rightarrow> ('a \<Rightarrow> (provider_error, 'b) result option) \<Rightarrow>
    (provider_error, 'b) result option" where
  "or_error f r k = (case r of Inl err \<Rightarrow> map_option Inl (f err) | Inr x \<Rightarrow> k x)"

text \<open>The stream that \<open>model\<close> gives for the request: its items, then the choice.\<close>

record rig_stream =
  rs_items :: "(str, unit) result list"
  rs_choice :: "assistant_content list"

definition rig_complete ::
  "(str \<Rightarrow> str) \<Rightarrow> json option \<Rightarrow> (rig_request \<Rightarrow> (str, rig_stream) result) \<Rightarrow>
    str \<Rightarrow> message list \<Rightarrow> tool_definition list \<Rightarrow> nat \<Rightarrow> (provider_error, completion) result option" where
  "rig_complete lower additional_params model system messages tools max_tokens =
    (let rig_messages = to_rig_messages system messages
     in if rig_messages = [] then Some (Inl (RequestFailed (''message conversion produced an empty chat history; '' @
          ''at minimum a system message is expected'')))
        else or_error (map_rig_error lower)
          (model \<lparr>rr_chat_history = rig_messages, rr_tools = to_rig_tools tools, rr_max_tokens = max_tokens,
             rr_additional_params = additional_params\<rparr>) (\<lambda>stream.
          or_error (map_rig_error lower) (check_all id (rs_items stream)) (\<lambda>_.
            Some (from_rig_response (rs_choice stream)))))"

section \<open>The adapter of OpenAI\<close>

datatype oai_tool_call = FunctionCall str str str | CustomCall

datatype oai_message =
    OaiSystem str
  | OaiUser str
  | OaiTool str str
  | OaiAssistant "str option" "oai_tool_call list option"

datatype finish_reason = FinishStop | FinishLength | FinishToolCalls | FinishContentFilter | FinishFunctionCall

record oai_choice =
  oc_content :: "str option"
  oc_tool_calls :: "oai_tool_call list option"
  oc_finish_reason :: "finish_reason option"

record oai_function =
  of_name :: str
  of_description :: "str option"
  of_parameters :: "json option"

record oai_request =
  or_model :: str
  or_messages :: "oai_message list"
  or_max_completion_tokens :: nat
  or_tools :: "oai_function list option"

definition oai_user :: "content_block list \<Rightarrow> oai_message list" where
  "oai_user bs =
    (if all_results bs then
       List.map_filter (\<lambda>b. case b of ToolResult i c t e \<Rightarrow> Some (OaiTool i (result_text t e)) | _ \<Rightarrow> None) bs
     else [OaiUser (joined_text bs)])"

definition text_parts :: "content_block list \<Rightarrow> str list" where
  "text_parts bs = List.map_filter (\<lambda>b. case b of TextBlock t \<Rightarrow> Some t | _ \<Rightarrow> None) bs"

definition oai_calls :: "externs \<Rightarrow> content_block list \<Rightarrow> oai_tool_call list" where
  "oai_calls ext bs = List.map_filter (\<lambda>b. case b of
      ToolUse i c n v \<Rightarrow> Some (FunctionCall i n (json_display ext v))
    | _ \<Rightarrow> None) bs"

definition oai_assistant :: "externs \<Rightarrow> nat \<Rightarrow> content_block list \<Rightarrow> (str, oai_message) result" where
  "oai_assistant ext position bs =
    (let texts = text_parts bs; calls = oai_calls ext bs
     in if texts = [] \<and> calls = [] then
          Inl (''assistant message at history position '' @ show_nat position @ '' has no text and no tool calls '' @
            [CHR 0xE2, CHR 0x80, CHR 0x94] @ '' this indicates a conversation history bug'')
        else Inr (OaiAssistant (if texts = [] then None else Some (join_with [CHR 0x0A] texts))
          (if calls = [] then None else Some calls)))"

text \<open>\<open>so_far\<close> is what has been pushed.\<close>

fun push_messages :: "externs \<Rightarrow> oai_message list \<Rightarrow> message list \<Rightarrow> (str, oai_message list) result" where
  "push_messages ext so_far [] = Inr so_far"
| "push_messages ext so_far (m # ms) = (case ms_role m of
      UserRole \<Rightarrow> push_messages ext (so_far @ oai_user (ms_content m)) ms
    | AssistantRole \<Rightarrow> rbind (oai_assistant ext (length so_far) (ms_content m)) (\<lambda>a.
        push_messages ext (so_far @ [a]) ms))"

definition to_openai_messages :: "externs \<Rightarrow> str \<Rightarrow> message list \<Rightarrow> (str, oai_message list) result" where
  "to_openai_messages ext system messages = push_messages ext [OaiSystem system] messages"

definition to_openai_tools :: "tool_definition list \<Rightarrow> oai_function list" where
  "to_openai_tools tools = map (\<lambda>t. \<lparr>of_name = td_name t, of_description = Some (td_description t),
    of_parameters = Some (td_input_schema t)\<rparr>) tools"

definition wide_dash :: str where "wide_dash = [CHR '' '', CHR 0xE2, CHR 0x80, CHR 0x94, CHR '' '']"

text \<open>The blocks of the calls; \<open>parse\<close> reads the arguments and \<open>dbg\<close> is the debug form of a string.\<close>

fun call_blocks :: "(str \<Rightarrow> (str, json) result) \<Rightarrow> (str \<Rightarrow> str) \<Rightarrow> oai_tool_call list \<Rightarrow>
    (provider_error, content_block list) result" where
  "call_blocks parse dbg [] = Inr []"
| "call_blocks parse dbg (CustomCall # cs) = call_blocks parse dbg cs"
| "call_blocks parse dbg (FunctionCall i n arguments # cs) =
    rbind (map_err (\<lambda>e. ParseFailed (''tool call '' @ [CHR 0x27] @ n @ [CHR 0x27] @ '' has invalid JSON arguments: '' @ e @
      wide_dash @ ''raw: '' @ dbg arguments)) (parse arguments)) (\<lambda>input.
    rbind (call_blocks parse dbg cs) (\<lambda>bs. Inr (ToolUse i None n input # bs)))"

definition from_openai_response :: "(str \<Rightarrow> (str, json) result) \<Rightarrow> (str \<Rightarrow> str) \<Rightarrow> oai_choice list \<Rightarrow>
    (provider_error, completion) result" where
  "from_openai_response parse dbg choices = (case choices of
      [] \<Rightarrow> Inl (ParseFailed ''response contained no choices'')
    | choice # _ \<Rightarrow>
        if oc_finish_reason choice = Some FinishContentFilter then
          Inl (RequestFailed (''OpenAI content filter blocked the response'' @ wide_dash @
            ''the request was refused on content-policy grounds''))
        else
          let stop_reason = (case oc_finish_reason choice of
                Some FinishToolCalls \<Rightarrow> StopToolUse
              | Some FinishLength \<Rightarrow> MaxTokens
              | _ \<Rightarrow> EndTurn);
              text_blocks = (case oc_content choice of
                Some t \<Rightarrow> if t = [] then [] else [TextBlock t]
              | None \<Rightarrow> [])
          in rbind (call_blocks parse dbg (unwrap_or (oc_tool_calls choice) [])) (\<lambda>calls.
             if text_blocks @ calls = [] then Inl (ParseFailed ''model response contained no text or tool calls'')
             else Inr \<lparr>cp_content = text_blocks @ calls, cp_stop_reason = stop_reason\<rparr>))"

definition map_openai_error :: "(str \<Rightarrow> str) \<Rightarrow> str \<Rightarrow> provider_error option" where
  "map_openai_error lower err = map_option (\<lambda>msg.
    if contains_str msg ''401'' \<or> contains_str (lower msg) ''authentication'' \<or> contains_str (lower msg) ''api key'' \<or>
       contains_str (lower msg) ''incorrect api key'' then
      AuthFailed (''OpenAI authentication failed'' @ wide_dash @ ''check your API key'')
    else if contains_str msg ''429'' \<or> contains_str (lower msg) ''rate limit'' then RateLimited
    else RequestFailed msg) (sanitize_error_msg lower err)"

text \<open>The builder of the request fails only without a model or messages, which are set.\<close>

definition openai_complete ::
  "(str \<Rightarrow> str) \<Rightarrow> externs \<Rightarrow> (str \<Rightarrow> (str, json) result) \<Rightarrow> (str \<Rightarrow> str) \<Rightarrow> str \<Rightarrow>
    (oai_request \<Rightarrow> (str, oai_choice list) result) \<Rightarrow> str \<Rightarrow> message list \<Rightarrow> tool_definition list \<Rightarrow> nat \<Rightarrow>
    (provider_error, completion) result option" where
  "openai_complete lower ext parse dbg model create system messages tools max_tokens =
    (case to_openai_messages ext system messages of
       Inl e \<Rightarrow> Some (Inl (RequestFailed e))
     | Inr oai_messages \<Rightarrow>
         or_error (map_openai_error lower)
           (create \<lparr>or_model = model, or_messages = oai_messages, or_max_completion_tokens = max_tokens,
              or_tools = (if to_openai_tools tools = [] then None else Some (to_openai_tools tools))\<rparr>) (\<lambda>response.
           Some (from_openai_response parse dbg response)))"

end
