(* ===== verification/Providers_Properties.thy ===== *)
theory Providers_Properties
  imports Providers
begin

text \<open>
  What the adapters promise. The removal of keys from an error text is compared with a reading that goes from left
  to right, from which the value of a key parameter is never shown. The conversations the planning loop sends are
  well formed for both interfaces: every tool call is answered at once, in order.
\<close>

section \<open>Where the ranges are\<close>

text \<open>The index, counted from \<open>i\<close>, at which the run of text at the start of \<open>s\<close> ends.\<close>

definition run_end :: "nat \<Rightarrow> str \<Rightarrow> nat" where
  "run_end i s = (case find_white s of Some k \<Rightarrow> i + k | None \<Rightarrow> i + length s)"

definition key_param_at :: "str \<Rightarrow> bool" where
  "key_param_at s = list_ex (\<lambda>p. prefix p (to_ascii_lowercase s)) KEY_PARAMS"

text \<open>From left to right: behind the first character of a key parameter everything up to the next white space is
  replaced.\<close>

function hide_keys :: "str \<Rightarrow> str" where
  "hide_keys [] = []"
| "hide_keys (c # s) =
    (if key_param_at (c # s) then c # ''[REDACTED]'' @ hide_keys (drop (run_end 0 s) s) else c # hide_keys s)"
  by pat_completeness auto
termination
  by (relation "measure length") auto

fun key_ranges :: "nat \<Rightarrow> str \<Rightarrow> (nat \<times> nat) list" where
  "key_ranges i [] = []"
| "key_ranges i (c # s) =
    (if key_param_at (c # s) then [(Suc i, run_end i (c # s))] else []) @ key_ranges (Suc i) s"

lemma run_end_white: "starts_white s \<Longrightarrow> s \<noteq> [] \<Longrightarrow> run_end i s = i"
  by (cases s) (simp_all add: run_end_def)

lemma run_end_next: "\<not> starts_white (c # s) \<Longrightarrow> run_end i (c # s) = run_end (Suc i) s"
  by (simp add: run_end_def split: option.split)

lemma run_end_add: "run_end i s = i + run_end 0 s"
  by (simp add: run_end_def split: option.split)

lemma find_white_less: "find_white s = Some k \<Longrightarrow> k < length s \<and> starts_white (drop k s)"
  by (induction s arbitrary: k) (auto split: if_splits)

lemma run_end_le: "run_end 0 s \<le> length s"
  using find_white_less [of s] by (auto simp: run_end_def split: option.split)

lemma run_end_rest: "drop (run_end 0 s) s \<noteq> [] \<Longrightarrow> starts_white (drop (run_end 0 s) s)"
  using find_white_less [of s] by (auto simp: run_end_def split: option.splits)

lemma ws_start: "starts_white (c # s) \<Longrightarrow> \<not> utf8_continuation c"
  by (auto simp: starts_white_def unicode_ws_def utf8_continuation_def)

lemma lower_other: "byte_of (to_ascii_lower c) < 97 \<Longrightarrow> to_ascii_lower c = c"
  by (auto simp: to_ascii_lower_def is_ascii_uppercase_def)

lemma key_param_start:
  assumes "key_param_at (c # s)"
  shows "c \<in> {CHR ''?'', CHR ''&''}" "\<exists>d r. s = d # r \<and> \<not> utf8_continuation d"
proof -
  from assms obtain p where p: "p \<in> set KEY_PARAMS" "prefix p (to_ascii_lowercase (c # s))"
    by (auto simp: key_param_at_def list_ex_iff)
  then have low: "to_ascii_lower c \<in> {CHR ''?'', CHR ''&''}" "\<exists>d r. s = d # r \<and> to_ascii_lower d \<in> {CHR ''k'', CHR ''a''}"
    by (auto simp: KEY_PARAMS_def to_ascii_lowercase_def prefix_def Cons_eq_map_conv)
  from low(1) have "byte_of (to_ascii_lower c) < 97" by auto
  from lower_other [OF this] low(1) show "c \<in> {CHR ''?'', CHR ''&''}" by simp
  from low(2) obtain d r where s: "s = d # r" and d: "to_ascii_lower d \<in> {CHR ''k'', CHR ''a''}" by blast
  have "\<not> utf8_continuation d"
  proof
    assume "utf8_continuation d"
    then have "to_ascii_lower d = d" "128 \<le> byte_of d"
      by (simp_all add: utf8_continuation_def to_ascii_lower_def is_ascii_uppercase_def)
    with d show False by auto
  qed
  with s show "\<exists>d r. s = d # r \<and> \<not> utf8_continuation d" by blast
qed

lemma key_param_not_white: "key_param_at (c # s) \<Longrightarrow> \<not> starts_white (c # s)"
  using key_param_start(1) [of c s] by (auto simp: starts_white_def unicode_ws_def)

lemma run_end_key:
  assumes "key_param_at (c # s)"
  shows "run_end i (c # s) = Suc i + run_end 0 s"
  using run_end_next [OF key_param_not_white [OF assms]] run_end_add by metis

section \<open>Merging and replacing\<close>

lemma key_ranges_after: "r \<in> set (key_ranges i s) \<Longrightarrow> i < fst r"
  by (induction i s arbitrary: r rule: key_ranges.induct) (auto split: if_splits intro: Suc_lessD)

lemma merge_apart: "\<forall>r\<in>set rs. b < fst r \<Longrightarrow> merge_ranges ((a, b) # rs) = (a, b) # merge_ranges rs"
  by (cases rs) auto

lemma merge_run:
  "merge_ranges ((a, run_end i s) # key_ranges i s) =
    (a, run_end i s) # merge_ranges (key_ranges (run_end i s) (drop (run_end 0 s) s))"
proof (induction i s rule: key_ranges.induct)
  case (2 i c s)
  show ?case
  proof (cases "starts_white (c # s)")
    case True
    have "\<forall>r\<in>set (key_ranges i (c # s)). i < fst r" using key_ranges_after by blast
    from merge_apart [OF this] run_end_white [OF True] show ?thesis by simp
  next
    case False
    then have r: "run_end i (c # s) = run_end (Suc i) s" "run_end 0 (c # s) = Suc (run_end 0 s)"
      using run_end_next [OF False] run_end_add [of 1 s] by simp_all
    then show ?thesis using 2 run_end_add [of "Suc i" s] by simp
  qed
qed (simp add: run_end_def)

lemma hide_keys_start: "hide_keys (c # s) = c # tl (hide_keys (c # s))"
  by simp

definition redacted :: "(nat \<times> nat) list \<Rightarrow> str \<Rightarrow> str option" where
  "redacted rs m = foldr (\<lambda>r m. Option.bind m (replace_range r)) rs (Some m)"

lemma replace_keys: "redacted (merge_ranges (key_ranges (length pre) s)) (pre @ s) = Some (pre @ hide_keys s)"
proof (induction s arbitrary: pre rule: hide_keys.induct)
  case (2 c s)
  show ?case
  proof (cases "key_param_at (c # s)")
    case False
    with 2(2) [OF False, of "pre @ [c]"] show ?thesis by simp
  next
    case True
    let ?n = "run_end 0 s" and ?i = "Suc (length pre)"
    let ?rest = "drop ?n s"
    have len: "length (pre @ c # take ?n s) = ?i + ?n" using run_end_le [of s] by simp
    have ranges: "merge_ranges (key_ranges (length pre) (c # s)) =
        (?i, ?i + ?n) # merge_ranges (key_ranges (?i + ?n) ?rest)"
      using True merge_run [of ?i ?i s] run_end_add [of ?i s] by (simp add: run_end_key)
    have later: "redacted (merge_ranges (key_ranges (?i + ?n) ?rest)) (pre @ c # s) =
        Some ((pre @ c # take ?n s) @ hide_keys ?rest)"
      using 2(1) [OF True, of "pre @ c # take ?n s", unfolded len] by simp
    let ?m = "(pre @ c # take ?n s) @ hide_keys ?rest"
    obtain d r where s: "s = d # r" "\<not> utf8_continuation d" using key_param_start(2) [OF True] by blast
    have stop: "is_char_boundary ?m (?i + ?n)"
    proof (cases ?rest)
      case Nil
      then show ?thesis using len by (simp add: is_char_boundary_def)
    next
      case (Cons w ws)
      have "\<not> utf8_continuation w" using run_end_rest [of s] Cons ws_start by auto
      moreover have "?m ! (?i + ?n) = w" using len Cons hide_keys_start [of w ws]
        by (metis nth_append_length)
      moreover have "?i + ?n < length ?m" using len Cons hide_keys_start [of w ws] by (metis length_append length_Cons less_add_same_cancel1 zero_less_Suc)
      ultimately show ?thesis by (simp add: is_char_boundary_def)
    qed
    have start: "is_char_boundary ?m ?i"
    proof (cases "?n = 0")
      case True
      with stop show ?thesis by simp
    next
      case False
      then have "?m ! ?i = d" "?i < length ?m" using s by (auto simp: nth_append take_Cons')
      with s show ?thesis by (simp add: is_char_boundary_def)
    qed
    have "take ?i ?m = pre @ [c]" "drop (?i + ?n) ?m = hide_keys ?rest"
      using len by (simp, metis append_eq_conv_conj)
    with start stop have "replace_range (?i, ?i + ?n) ?m = Some ((pre @ [c]) @ ''[REDACTED]'' @ hide_keys ?rest)"
      by (simp add: replace_range_def)
    then have "redacted ((?i, ?i + ?n) # merge_ranges (key_ranges (?i + ?n) ?rest)) (pre @ c # s) =
        Some ((pre @ [c]) @ ''[REDACTED]'' @ hide_keys ?rest)"
      using later by (simp add: redacted_def)
    with True show ?thesis unfolding ranges by simp
  qed
qed (simp add: redacted_def)

section \<open>The ranges the code collects\<close>

lemma find_str_Some:
  assumes "p \<noteq> []"
  shows "find_str p s = Some k \<longleftrightarrow> prefix p (drop k s) \<and> (\<forall>j<k. \<not> prefix p (drop j s))"
proof (induction s arbitrary: k)
  case (Cons c s)
  show ?case
  proof (cases k)
    case (Suc m)
    with Cons show ?thesis by (auto simp: less_Suc_eq_0_disj)
  qed auto
qed (use assms in auto)

lemma find_str_None: "p \<noteq> [] \<Longrightarrow> find_str p s = None \<Longrightarrow> \<not> prefix p (drop j s)"
proof (induction s arbitrary: j)
  case (Cons c s)
  then show ?case by (cases j) (auto split: if_splits)
qed simp

definition stop_at :: "nat \<Rightarrow> str \<Rightarrow> nat \<Rightarrow> nat" where
  "stop_at n t i = (case find_white (drop i t) of Some k \<Rightarrow> i + k | None \<Rightarrow> n)"

text \<open>A pattern whose first character does not come again cannot overlap itself.\<close>

lemma no_overlap:
  assumes "p \<noteq> []" "hd p \<notin> set (tl p)" "prefix p (drop i t)" "prefix p (drop j t)" "i < j"
  shows "i + length p \<le> j"
proof (rule ccontr)
  assume "\<not> i + length p \<le> j"
  then obtain k where k: "j = i + Suc k" "Suc k < length p" using assms(5) less_imp_Suc_add by fastforce
  from assms(3) obtain u where u: "drop i t = p @ u" by (auto simp: prefix_def)
  from assms(1,4) obtain v where "drop j t = hd p # v" by (cases p) (auto simp: prefix_def)
  moreover have "drop j t = drop (Suc k) (p @ u)" using u k(1) by (metis add.commute drop_drop)
  ultimately have "hd p = p ! Suc k" using k(2) by (metis append_is_Nil_conv drop_append hd_append2 hd_conv_nth hd_drop_conv_nth list.sel(1) drop_eq_Nil not_le)
  then have "hd p = tl p ! k" using assms(1) by (simp add: nth_tl k(2) less_diff_conv)
  with assms(2) k(2) show False by (metis Suc_less_eq length_tl less_diff_conv nth_mem plus_1_eq_Suc add.commute)
qed

lemma param_ranges_collect:
  assumes p: "p \<noteq> []" "hd p \<notin> set (tl p)"
  shows "set (param_ranges n t p f) = {(Suc i, stop_at n t i) |i. f \<le> i \<and> prefix p (drop i t)} \<and>
    distinct (map fst (param_ranges n t p f))"
  using p
proof (induction n t p f rule: param_ranges.induct)
  case (1 n t p f)
  show ?case
  proof (cases "find_str p (drop f t)")
    case None
    then have "\<not> prefix p (drop i t)" if "f \<le> i" for i
      using find_str_None [OF 1(2) None, of "i - f"] that by simp
    with None show ?thesis by (auto simp: param_ranges.simps [of n t p f])
  next
    case (Some rel)
    let ?start = "f + rel"
    have here: "prefix p (drop ?start t)" and before: "\<And>j. f \<le> j \<Longrightarrow> j < ?start \<Longrightarrow> \<not> prefix p (drop j t)"
    proof -
      from Some show "prefix p (drop ?start t)" by (simp add: find_str_Some [OF 1(2)] add.commute)
      fix j assume "f \<le> j" "j < ?start"
      then show "\<not> prefix p (drop j t)" using Some by (simp add: find_str_Some [OF 1(2)]) (metis add.commute le_add_diff_inverse2 less_diff_conv2)
    qed
    let ?rest = "param_ranges n t p (?start + length p)"
    have eq: "param_ranges n t p f = (Suc ?start, stop_at n t ?start) # ?rest"
      using Some 1(2) by (simp add: param_ranges.simps [of n t p f] stop_at_def Let_def)
    have IH: "set ?rest = {(Suc i, stop_at n t i) |i. ?start + length p \<le> i \<and> prefix p (drop i t)}"
        "distinct (map fst ?rest)"
      using 1(1) [OF Some refl refl 1(2)] 1(2,3) by simp_all
    have after: "f \<le> i \<and> prefix p (drop i t) \<longleftrightarrow> i = ?start \<or> (?start + length p \<le> i \<and> prefix p (drop i t))" for i
      using here before [of i] no_overlap [OF 1(2,3) here, of i] by (cases i ?start rule: linorder_cases) auto
    have "Suc ?start \<notin> fst ` set ?rest" using 1(2) by (auto simp: IH(1))
    moreover have "{(Suc i, stop_at n t i) |i. f \<le> i \<and> prefix p (drop i t)} =
        insert (Suc ?start, stop_at n t ?start) {(Suc i, stop_at n t i) |i. ?start + length p \<le> i \<and> prefix p (drop i t)}"
      unfolding after by auto
    ultimately show ?thesis using IH by (simp add: eq)
  qed
qed

lemma lower_letter: "\<not> is_ascii_lowercase d \<Longrightarrow> \<not> is_ascii_uppercase d \<Longrightarrow> d = to_ascii_lower c \<longleftrightarrow> d = c"
  by (auto simp: to_ascii_lower_def is_ascii_lowercase_def is_ascii_uppercase_def)

lemma prefix_lower:
  "list_all (\<lambda>d. \<not> is_ascii_lowercase d \<and> \<not> is_ascii_uppercase d) w \<Longrightarrow>
    prefix w (to_ascii_lowercase s) \<longleftrightarrow> prefix w s"
proof (induction w arbitrary: s)
  case (Cons d w)
  then show ?case by (cases s) (simp_all add: to_ascii_lowercase_def lower_letter)
qed simp

lemma starts_white_lower [simp]: "starts_white (to_ascii_lowercase s) = starts_white s"
proof -
  have "list_all (list_all (\<lambda>d. \<not> is_ascii_lowercase d \<and> \<not> is_ascii_uppercase d)) unicode_ws"
    by (simp add: unicode_ws_def is_ascii_lowercase_def is_ascii_uppercase_def)
  then show ?thesis by (auto simp: starts_white_def list_ex_iff list_all_iff prefix_lower)
qed

lemma find_white_lower [simp]: "find_white (to_ascii_lowercase s) = find_white s"
proof (induction s)
  case (Cons c s)
  have "to_ascii_lowercase (c # s) = to_ascii_lower c # to_ascii_lowercase s" by (simp add: to_ascii_lowercase_def)
  with Cons starts_white_lower [of "c # s"] show ?case by simp
qed (simp add: to_ascii_lowercase_def)

lemma drop_lower: "drop i (to_ascii_lowercase s) = to_ascii_lowercase (drop i s)"
  by (simp add: to_ascii_lowercase_def drop_map)

lemma stop_at_lower: "i \<le> length s \<Longrightarrow> stop_at (length s) (to_ascii_lowercase s) i = run_end i (drop i s)"
  by (simp add: stop_at_def run_end_def drop_lower split: option.split)

lemma key_ranges_collect:
  "set (key_ranges j s) = {(Suc (j + i), run_end (j + i) (drop i s)) |i. i < length s \<and> key_param_at (drop i s)} \<and>
    sorted (map fst (key_ranges j s)) \<and> distinct (map fst (key_ranges j s))"
proof (induction j s rule: key_ranges.induct)
  case (2 j c s)
  have split: "(\<exists>i. P i \<and> i < length (c # s)) \<longleftrightarrow> P 0 \<or> (\<exists>i. P (Suc i) \<and> i < length s)" for P
    by (metis Suc_less_eq length_Cons not0_implies_Suc zero_less_Suc)
  have "set (key_ranges j (c # s)) = {(Suc (j + i), run_end (j + i) (drop i (c # s))) |i. i < length (c # s) \<and> key_param_at (drop i (c # s))}"
  proof (rule set_eqI)
    fix x
    have "x \<in> set (key_ranges j (c # s)) \<longleftrightarrow> (x = (Suc j, run_end j (c # s)) \<and> key_param_at (c # s)) \<or>
        (\<exists>i. (x = (Suc (Suc j + i), run_end (Suc j + i) (drop i s)) \<and> key_param_at (drop i s)) \<and> i < length s)"
      using 2 by auto
    also have "\<dots> \<longleftrightarrow> (\<exists>i. (x = (Suc (j + i), run_end (j + i) (drop i (c # s))) \<and> key_param_at (drop i (c # s))) \<and> i < length (c # s))"
      unfolding split [of "\<lambda>i. x = (Suc (j + i), run_end (j + i) (drop i (c # s))) \<and> key_param_at (drop i (c # s))"] by simp
    finally show "x \<in> set (key_ranges j (c # s)) \<longleftrightarrow>
        x \<in> {(Suc (j + i), run_end (j + i) (drop i (c # s))) |i. i < length (c # s) \<and> key_param_at (drop i (c # s))}" by auto
  qed
  moreover have "\<forall>x\<in>set (map fst (key_ranges (Suc j) s)). Suc j < x" using key_ranges_after by fastforce
  ultimately show ?case using 2 by auto
qed simp

text \<open>At one place at most one of the patterns matches.\<close>

lemma key_param_unique:
  assumes "p \<in> set KEY_PARAMS" "q \<in> set KEY_PARAMS" "prefix p s" "prefix q s"
  shows "p = q"
proof -
  have "prefix p q \<or> prefix q p" using assms(3,4) prefix_same_cases by blast
  with assms(1,2) show ?thesis by (auto simp: KEY_PARAMS_def)
qed

lemma key_param_shape: "p \<in> set KEY_PARAMS \<Longrightarrow> p \<noteq> [] \<and> hd p \<notin> set (tl p)"
  by (auto simp: KEY_PARAMS_def)

lemma distinct_key_params: "distinct KEY_PARAMS"
  by (simp add: KEY_PARAMS_def)

lemma distinct_sorted_map: "distinct (map f (sort_key g xs)) \<longleftrightarrow> distinct (map f xs)"
  by (simp add: distinct_map)

lemma collected_ranges:
  assumes "lower msg = to_ascii_lowercase msg"
  shows "sort_key fst (concat (map (\<lambda>p. param_ranges (length msg) (lower msg) p 0) KEY_PARAMS)) = key_ranges 0 msg"
    (is "sort_key fst ?raw = _")
proof (rule map_sorted_distinct_set_unique [where f = fst])
  let ?t = "to_ascii_lowercase msg" and ?n = "length msg"
  have one: "set (param_ranges ?n ?t p 0) = {(Suc i, stop_at ?n ?t i) |i. prefix p (drop i ?t)}"
      "distinct (map fst (param_ranges ?n ?t p 0))" if "p \<in> set KEY_PARAMS" for p
    using param_ranges_collect [of p ?n ?t 0] key_param_shape [OF that] by simp_all
  have inside: "i < ?n" if "p \<in> set KEY_PARAMS" "prefix p (drop i ?t)" for p i
    using that key_param_shape [OF that(1)] by (cases "i < ?n") auto
  have "set ?raw = {(Suc i, stop_at ?n ?t i) |i. \<exists>p\<in>set KEY_PARAMS. prefix p (drop i ?t)}"
    using one(1) assms by auto
  also have "\<dots> = {(Suc i, run_end i (drop i msg)) |i. i < ?n \<and> key_param_at (drop i msg)}"
  proof (rule set_eqI, rule iffI)
    fix x
    assume "x \<in> {(Suc i, stop_at ?n ?t i) |i. \<exists>p\<in>set KEY_PARAMS. prefix p (drop i ?t)}"
    then obtain i p where "x = (Suc i, stop_at ?n ?t i)" "p \<in> set KEY_PARAMS" "prefix p (drop i ?t)" by auto
    with inside [of p i] show "x \<in> {(Suc i, run_end i (drop i msg)) |i. i < ?n \<and> key_param_at (drop i msg)}"
      by (auto simp: key_param_at_def list_ex_iff drop_lower stop_at_lower)
  next
    fix x
    assume "x \<in> {(Suc i, run_end i (drop i msg)) |i. i < ?n \<and> key_param_at (drop i msg)}"
    then show "x \<in> {(Suc i, stop_at ?n ?t i) |i. \<exists>p\<in>set KEY_PARAMS. prefix p (drop i ?t)}"
      by (auto simp: key_param_at_def list_ex_iff drop_lower stop_at_lower)
  qed
  finally show same: "set (sort_key fst ?raw) = set (key_ranges 0 msg)" using key_ranges_collect [of 0 msg] by simp
  show "sorted (map fst (key_ranges 0 msg))" and d: "distinct (map fst (key_ranges 0 msg))"
    using key_ranges_collect [of 0 msg] by simp_all
  show "inj_on fst (set (sort_key fst ?raw) \<union> set (key_ranges 0 msg))"
    unfolding same using d by (simp add: distinct_map)
  have "distinct (map fst (concat (map (\<lambda>p. param_ranges ?n ?t p 0) ps)))"
    if "set ps \<subseteq> set KEY_PARAMS" "distinct ps" for ps
    using that
  proof (induction ps)
    case (Cons p ps)
    have "fst ` set (param_ranges ?n ?t p 0) \<inter> fst ` set (concat (map (\<lambda>p. param_ranges ?n ?t p 0) ps)) = {}"
    proof (rule ccontr)
      assume "\<not> ?thesis"
      then obtain r q where r: "r \<in> set (param_ranges ?n ?t p 0)" "q \<in> set ps" "fst r \<in> fst ` set (param_ranges ?n ?t q 0)"
        by auto
      with Cons.prems have "p \<in> set KEY_PARAMS" "q \<in> set KEY_PARAMS" "p \<noteq> q" by auto
      moreover from r obtain i where "prefix p (drop i ?t)" "prefix q (drop i ?t)"
        unfolding one(1) [OF calculation(1)] one(1) [OF calculation(2)] by auto
      ultimately show False using key_param_unique by blast
    qed
    with Cons one(2) [of p] show ?case by simp
  qed simp
  from this [OF subset_refl distinct_key_params] have "distinct (map fst ?raw)" unfolding assms .
  then show "distinct (map fst (sort_key fst ?raw))" unfolding distinct_sorted_map .
qed (rule sorted_sort_key)

lemma sanitize_hides:
  assumes "lower msg = to_ascii_lowercase msg"
  shows "sanitize_error_msg lower msg = Some (hide_keys msg)"
proof -
  note same = collected_ranges [of lower msg, OF assms]
  show ?thesis
  proof (cases "concat (map (\<lambda>p. param_ranges (length msg) (lower msg) p 0) KEY_PARAMS) = []")
    case True
    from arg_cong [where f = "sort_key fst", OF True] have "key_ranges 0 msg = []" unfolding same by simp
    with replace_keys [of "[]" msg] True show ?thesis by (simp add: sanitize_error_msg_def redacted_def)
  next
    case False
    show ?thesis unfolding sanitize_error_msg_def Let_def if_not_P [OF False] same
      using replace_keys [of "[]" msg] by (simp add: redacted_def)
  qed
qed

section \<open>What is shown does not depend on the key\<close>

lemma ws_tail: "w \<in> set unicode_ws \<Longrightarrow> w \<noteq> [] \<and> list_all utf8_continuation (tl w)"
  by (auto simp: unicode_ws_def utf8_continuation_def)

text \<open>Text that starts with a character does not change where white space is in the text before it.\<close>

lemma starts_white_append:
  assumes "b = [] \<or> \<not> utf8_continuation (hd b)"
  shows "starts_white ((c # x) @ b) = starts_white (c # x)"
proof -
  have "prefix w (c # x)" if w: "w \<in> set unicode_ws" "prefix w ((c # x) @ b)" for w
  proof (rule ccontr)
    assume no: "\<not> prefix w (c # x)"
    with w(2) obtain v where v: "w = (c # x) @ v" "prefix v b" unfolding prefix_append by blast
    with no have "v \<noteq> []" by auto
    with v(2) obtain d u where d: "v = d # u" "b \<noteq> []" "hd b = d" by (cases v) (auto simp: prefix_def)
    from ws_tail [OF w(1)] v(1) d(1) have "utf8_continuation d" by simp
    with assms d show False by simp
  qed
  then show ?thesis by (auto simp: starts_white_def list_ex_iff simp del: append_Cons intro: prefix_prefix)
qed

lemma find_white_append:
  assumes "b = [] \<or> \<not> utf8_continuation (hd b)"
  shows "find_white (x @ b) = (case find_white x of Some k \<Rightarrow> Some k | None \<Rightarrow> map_option ((+) (length x)) (find_white b))"
proof (induction x)
  case (Cons c x)
  have "(\<lambda>k. Suc (length x + k)) = (+) (length (c # x))" by auto
  with Cons starts_white_append [OF assms, of c x] show ?case
    by (auto simp: option.map_comp o_def split: option.split)
qed (cases "find_white b", simp_all)

lemma key_chars: "p \<in> set KEY_PARAMS \<Longrightarrow> c \<in> set p \<Longrightarrow> \<not> starts_white (c # s) \<and> \<not> utf8_continuation c"
  by (auto simp: KEY_PARAMS_def starts_white_def unicode_ws_def utf8_continuation_def)

lemma find_white_key:
  "p \<in> set KEY_PARAMS \<Longrightarrow> set x \<subseteq> set p \<Longrightarrow> find_white s = None \<Longrightarrow> find_white (x @ s) = None"
  by (induction x) (auto dest: key_chars)

lemma run_end_secret:
  assumes "find_white x = None" "b = [] \<or> starts_white b"
  shows "drop (run_end 0 (x @ b)) (x @ b) = b"
proof -
  have "b = [] \<or> \<not> utf8_continuation (hd b)" using assms(2) ws_start by (cases b) auto
  from find_white_append [OF this, of x] assms show ?thesis by (cases b) (auto simp: run_end_def)
qed

lemma key_param_local:
  assumes "p \<in> set KEY_PARAMS"
  shows "key_param_at ((d # a) @ p @ t) = key_param_at (d # a)"
proof -
  have "prefix q (to_ascii_lowercase (d # a))"
    if q: "q \<in> set KEY_PARAMS" "prefix q (to_ascii_lowercase (d # a) @ to_ascii_lowercase (p @ t))" for q
  proof (rule ccontr)
    assume "\<not> ?thesis"
    with q(2) obtain v where v: "q = to_ascii_lowercase (d # a) @ v" "prefix v (to_ascii_lowercase (p @ t))" "v \<noteq> []"
      by (auto simp: prefix_append)
    then have "hd v \<in> set (tl q)" by (cases v) (auto simp: to_ascii_lowercase_def)
    moreover have "hd v = hd p"
      using v(2,3) assms by (cases v) (auto simp: KEY_PARAMS_def to_ascii_lowercase_def prefix_def to_ascii_lower_def is_ascii_uppercase_def)
    ultimately show False using q(1) assms by (auto simp: KEY_PARAMS_def)
  qed
  then show ?thesis
    by (auto simp: key_param_at_def list_ex_iff to_ascii_lowercase_def simp del: append_Cons intro: prefix_prefix)
qed

lemma key_param_here: "p \<in> set KEY_PARAMS \<Longrightarrow> key_param_at (p @ t)"
  by (auto simp: KEY_PARAMS_def key_param_at_def to_ascii_lowercase_def to_ascii_lower_def is_ascii_uppercase_def)

lemma hide_keys_secret:
  assumes p: "p \<in> set KEY_PARAMS" and s: "find_white s = None" "find_white s' = None" and b: "b = [] \<or> starts_white b"
  shows "hide_keys (a @ p @ s @ b) = hide_keys (a @ p @ s' @ b)"
proof (induction "length a" arbitrary: a rule: less_induct)
  case less
  obtain e p' where pe: "p = e # p'" using key_param_shape [OF p] by (cases p) auto
  have e: "\<not> utf8_continuation e" using key_chars [OF p] by (simp add: pe)
  have rest: "drop (run_end 0 (a' @ p @ u @ b)) (a' @ p @ u @ b) = (if find_white a' = None then b
      else drop (run_end 0 a') a' @ p @ u @ b)" if "find_white u = None" for a' u
  proof (cases "find_white a'")
    case None
    have "find_white (p @ u) = None" using find_white_key [OF p subset_refl that] .
    then have "find_white (a' @ p @ u) = None" using find_white_append [of "p @ u" a'] e None by (simp add: pe)
    from run_end_secret [OF this b] None show ?thesis by simp
  next
    case (Some k)
    with find_white_append [of "p @ u @ b" a'] e find_white_less [OF Some] show ?thesis by (simp add: run_end_def pe)
  qed
  show ?case
  proof (cases a)
    case Nil
    have "drop (run_end 0 (p' @ u @ b)) (p' @ u @ b) = b" if "find_white u = None" for u
      using run_end_secret [OF find_white_key [OF p _ that], of p' b] b pe by auto
    with s key_param_here [OF p] show ?thesis by (simp add: Nil pe)
  next
    case (Cons d a')
    have IH: "hide_keys (x @ p @ s @ b) = hide_keys (x @ p @ s' @ b)" if "length x \<le> length a'" for x
      using less [of x] that by (simp add: Cons)
    have "length (drop (run_end 0 a') a') \<le> length a'" by simp
    from IH [OF this] IH [of a'] rest [OF s(1), of a'] rest [OF s(2), of a'] show ?thesis
      using key_param_local [OF p, of d a'] by (simp add: Cons)
  qed
qed

section \<open>Lower case\<close>

text \<open>What is needed of the lower case of a text: every byte keeps its place, as it does when no character's lower case
  has another length; a byte that is ASCII in one of the two texts has its lower case in the other, and white space is
  where it was. Letters outside ASCII may change.\<close>

definition keeps_positions :: "(str \<Rightarrow> str) \<Rightarrow> str \<Rightarrow> bool" where
  "keeps_positions lower s \<longleftrightarrow> length (lower s) = length s \<and>
    list_all (\<lambda>i. (byte_of (s ! i) < 128 \<or> byte_of (lower s ! i) < 128 \<longrightarrow> lower s ! i = to_ascii_lower (s ! i)) \<and>
      starts_white (drop i (lower s)) = starts_white (drop i s)) [0..<length s]"

definition same_ascii :: "char \<Rightarrow> char \<Rightarrow> bool" where
  "same_ascii c d \<longleftrightarrow> (byte_of c < 128 \<or> byte_of d < 128 \<longrightarrow> c = d)"

lemma same_ascii_prefix:
  "list_all2 same_ascii t u \<Longrightarrow> list_all (\<lambda>c. byte_of c < 128) p \<Longrightarrow> prefix p t \<longleftrightarrow> prefix p u"
  by (induction arbitrary: p rule: list_all2_induct) (auto simp: prefix_Cons same_ascii_def)

lemma same_ascii_find:
  "list_all2 same_ascii t u \<Longrightarrow> list_all (\<lambda>c. byte_of c < 128) p \<Longrightarrow> find_str p t = find_str p u"
proof (induction rule: list_all2_induct)
  case (Cons c t d u)
  then have "prefix p (c # t) \<longleftrightarrow> prefix p (d # u)" by (intro same_ascii_prefix) simp_all
  with Cons show ?case by simp
qed simp

lemma same_white_find:
  "length t = length u \<Longrightarrow> (\<And>i. i < length t \<Longrightarrow> starts_white (drop i t) = starts_white (drop i u)) \<Longrightarrow>
    find_white t = find_white u"
proof (induction t u rule: list_induct2)
  case (Cons c t d u)
  have "starts_white (drop i t) = starts_white (drop i u)" if "i < length t" for i
    using Cons.prems [of "Suc i"] that by simp
  with Cons.IH Cons.prems [of 0] show ?case by simp
qed simp

lemma same_ranges:
  assumes t: "list_all2 same_ascii t u" and w: "\<And>i. i < length t \<Longrightarrow> starts_white (drop i t) = starts_white (drop i u)"
    and p: "list_all (\<lambda>c. byte_of c < 128) p"
  shows "param_ranges n t p f = param_ranges n u p f"
proof -
  have str: "find_str p (drop f t) = find_str p (drop f u)" for f
    using same_ascii_find [OF list_all2_dropI [OF t] p] .
  have white: "find_white (drop i t) = find_white (drop i u)" for i
  proof (rule same_white_find)
    show "length (drop i t) = length (drop i u)" using list_all2_lengthD [OF t] by simp
    show "starts_white (drop j (drop i t)) = starts_white (drop j (drop i u))" if "j < length (drop i t)" for j
      using w [of "j + i"] that by simp
  qed
  have "t' = t \<Longrightarrow> p' = p \<Longrightarrow> param_ranges n t' p' f = param_ranges n u p' f" for t' p'
  proof (induction n t' p' f rule: param_ranges.induct)
    case (1 n t' p' f)
    then show ?case
      by (simp add: param_ranges.simps [of n t p f] param_ranges.simps [of n u p f] str white Let_def split: option.split)
  qed
  then show ?thesis by simp
qed

lemma lower_ascii: "byte_of (to_ascii_lower c) < 128 \<longleftrightarrow> byte_of c < 128"
  by (cases "is_ascii_uppercase c") (auto simp: to_ascii_lower_def is_ascii_uppercase_def)

lemma keys_ascii: "p \<in> set KEY_PARAMS \<Longrightarrow> list_all (\<lambda>c. byte_of c < 128) p"
  by (auto simp: KEY_PARAMS_def)

lemma sanitize_as_ascii:
  assumes "keeps_positions lower s"
  shows "sanitize_error_msg lower s = Some (hide_keys s)"
proof -
  have len: "length (lower s) = length s"
    and nth: "\<And>i. i < length s \<Longrightarrow> byte_of (s ! i) < 128 \<or> byte_of (lower s ! i) < 128 \<Longrightarrow> lower s ! i = to_ascii_lower (s ! i)"
    and white: "\<And>i. i < length s \<Longrightarrow> starts_white (drop i (lower s)) = starts_white (drop i s)"
    using assms by (auto simp: keeps_positions_def list_all_iff)
  have "list_all2 same_ascii (lower s) (to_ascii_lowercase s)"
    using len nth by (auto simp: list_all2_conv_all_nth same_ascii_def to_ascii_lowercase_def lower_ascii)
  from same_ranges [OF this, of _ "length s" 0] white keys_ascii
  have "map (\<lambda>p. param_ranges (length s) (lower s) p 0) KEY_PARAMS =
      map (\<lambda>p. param_ranges (length s) (to_ascii_lowercase s) p 0) KEY_PARAMS"
    by (intro map_cong) (simp_all add: len drop_lower)
  then have "sanitize_error_msg lower s = sanitize_error_msg to_ascii_lowercase s" by (simp only: sanitize_error_msg_def)
  with sanitize_hides [of to_ascii_lowercase s, OF refl] show ?thesis by simp
qed

text \<open>C19. The value of a key parameter in an error of a provider's library is not shown: what the two adapters make of
  the error (\<open>map_rig_error\<close>, \<open>map_openai_error\<close>) is the same for any two values, whether it is an authentication error,
  a rate limit or another, and removing the values does not panic. The lower case of the text must keep its positions.
  Errors the adapters make themselves are not about a URL and are not covered.\<close>

theorem error_hides_keys:
  assumes "p \<in> set KEY_PARAMS" "find_white s = None" "find_white s' = None" "b = [] \<or> starts_white b"
    and "keeps_positions lower (a @ p @ s @ b)" "keeps_positions lower (a @ p @ s' @ b)"
  shows "map_rig_error lower (a @ p @ s @ b) = map_rig_error lower (a @ p @ s' @ b) \<and>
    map_openai_error lower (a @ p @ s @ b) = map_openai_error lower (a @ p @ s' @ b) \<and>
    map_rig_error lower (a @ p @ s @ b) \<noteq> None \<and> map_openai_error lower (a @ p @ s @ b) \<noteq> None"
proof -
  have "sanitize_error_msg lower (a @ p @ s @ b) = sanitize_error_msg lower (a @ p @ s' @ b)"
    using sanitize_as_ascii [OF assms(5)] sanitize_as_ascii [OF assms(6)] hide_keys_secret [OF assms(1-4)] by simp
  with sanitize_as_ascii [OF assms(5)] show ?thesis by (simp add: map_rig_error_def map_openai_error_def)
qed

text \<open>A lower case that changes a letter outside ASCII, of two bytes.\<close>

fun accent_lower :: "str \<Rightarrow> str" where
  "accent_lower (c # d # s) =
    (if c = CHR 0xC3 \<and> d = CHR 0x89 then c # CHR 0xA9 # accent_lower s else to_ascii_lower c # accent_lower (d # s))"
| "accent_lower [c] = [to_ascii_lower c]"
| "accent_lower [] = []"

definition accent_error :: "str \<Rightarrow> str" where
  "accent_error key = [CHR 0xC3, CHR 0x89] @ ''?key='' @ key @ '' 5''"

theorem error_hides_keys_witness:
  "map_rig_error accent_lower (accent_error ''a9'') = map_rig_error accent_lower (accent_error ''x'')"
proof -
  have "keeps_positions accent_lower (accent_error ''a9'')" "keeps_positions accent_lower (accent_error ''x'')"
    by (simp_all add: keeps_positions_def accent_error_def starts_white_def unicode_ws_def to_ascii_lower_def is_ascii_uppercase_def upt_rec)
  then show ?thesis
    using error_hides_keys [of "''?key=''" "''a9''" "''x''" "'' 5''" accent_lower
        "[CHR 0xC3, CHR 0x89]", folded accent_error_def]
    by (simp add: KEY_PARAMS_def starts_white_def unicode_ws_def)
qed

section \<open>Where the adapters go wrong\<close>

text \<open>The offsets found in the lower case text are applied to the text itself. A Kelvin sign is two bytes shorter in
  lower case, so the end of the key stays; a dotted capital I is one byte longer, and six of them move the range out
  of the text.\<close>

lemma shifted_redaction:
  "sanitize_error_msg to_lowercase ([CHR 0xE2, CHR 0x84, CHR 0xAA] @ '' ?key=secret x'') =
    Some ([CHR 0xE2, CHR 0x84, CHR 0xAA] @ ''[REDACTED]et x'')"
  "sanitize_error_msg to_lowercase (concat (replicate 6 [CHR 0xC4, CHR 0xB0]) @ ''?key=s'') = None"
  by code_simp+

text \<open>The error classes of rig are found by parts of words.\<close>

lemma parts_of_words:
  "map_rig_error to_lowercase ''could not generate a response'' = Some RateLimited"
  "map_rig_error to_lowercase ''the author is unknown'' = Some (AuthFailed ''the author is unknown'')"
  by code_simp+

end
