(* ===== verification/Conversations.thy ===== *)
theory Conversations
  imports Providers Planner_Properties
begin

text \<open>
  The conversations the planning loop builds from the answers of the adapters, and what becomes of them in the two
  interfaces. Both require that the calls of an assistant message are answered by the next messages, one result for
  each call in their order. The invariant of the loop is stated on its own messages and is an interpretation of the
  locale of guarded programs.
\<close>

section \<open>Answered conversations\<close>

definition calls_of_results :: "tool_result list \<Rightarrow> (str \<times> str option) list" where
  "calls_of_results rs = map (\<lambda>r. (tres_id r, tres_call_id r)) rs"

definition call_ids :: "content_block list \<Rightarrow> (str \<times> str option) list" where
  "call_ids bs = map (\<lambda>(i, c, n, v). (i, c)) (tool_calls_of bs)"

definition spoken :: "content_block list \<Rightarrow> bool" where
  "spoken bs = (bs \<noteq> [] \<and> \<not> list_ex is_result bs)"

inductive answered :: "message list \<Rightarrow> bool" where
  start: "answered []"
| asked: "answered ms \<Longrightarrow> answered (ms @ [user_text t])"
| replied: "answered ms \<Longrightarrow> spoken bs \<Longrightarrow> tool_calls_of bs = [] \<Longrightarrow> answered (ms @ [assistant_message bs])"
| called: "answered ms \<Longrightarrow> spoken bs \<Longrightarrow> tool_calls_of bs \<noteq> [] \<Longrightarrow> calls_of_results rs = call_ids bs \<Longrightarrow>
    answered (ms @ [assistant_message bs, tool_results rs])"

text \<open>An answer of the model that an adapter may give: it is not empty, and has calls if and only if the model stopped
  for them, or ran out of tokens.\<close>

definition closed_reply :: "completion \<Rightarrow> bool" where
  "closed_reply c = (spoken (cp_content c) \<and> (cp_stop_reason c = EndTurn \<longrightarrow> tool_calls_of (cp_content c) = []))"

primrec talks :: "planner \<Rightarrow> bool" where
  "talks (PlanDone r) = True"
| "talks PlanPanic = True"
| "talks (CheckRate k) = (\<forall>r. talks (k r))"
| "talks (ReadPrefs k) = (\<forall>r. talks (k r))"
| "talks (Complete s ms k) = (answered ms \<and> (\<forall>r. (\<forall>c. r = Inr c \<longrightarrow> closed_reply c) \<longrightarrow> talks (k r)))"
| "talks (Emit w p) = talks p"
| "talks (GetState k) = (\<forall>r. talks (k r))"
| "talks (GetUser k) = (\<forall>r. talks (k r))"
| "talks (QueryDaemon a ps k) = (\<forall>r. talks (k r))"
| "talks (LogRejection i r v p) = talks p"
| "talks (SavePref f k) = (\<forall>r. talks (k r))"
| "talks (DropPref f k) = (\<forall>r. talks (k r))"

text \<open>The ghost state is whether every answer so far was closed.\<close>

fun closed_effect :: "plan_effect \<Rightarrow> bool" where
  "closed_effect (Completed s ms (Inr c)) = closed_reply c"
| "closed_effect e = True"

fun sent_answered :: "plan_effect \<Rightarrow> bool" where
  "sent_answered (Completed s ms r) = answered ms"
| "sent_answered e = True"

lemma talks_step:
  assumes "talks p" "plan_react p e = Some q"
  shows "sent_answered e \<and> (closed_effect e \<longrightarrow> talks q)"
proof (cases p)
  case (Complete s ms k)
  with assms obtain r where e: "e = Completed s ms r" "q = k r" by auto
  with assms(1) show ?thesis by (cases r) (auto simp: Complete)
qed (use assms in auto)

interpretation talking: guarded_program plan_react "\<lambda>p b. b \<longrightarrow> talks p" "\<lambda>b e. b \<longrightarrow> sent_answered e"
    "\<lambda>b e. b \<and> closed_effect e"
  by unfold_locales (use talks_step in blast)

section \<open>The loop keeps it\<close>

lemma enveloped_talks: "(\<And>t b. talks (k t b)) \<Longrightarrow> talks (enveloped pv tool raw b k)"
  by (simp add: enveloped_def split: option.split)

lemma dispatch_talks:
  assumes "\<And>t b. talks (k t b)"
  shows "talks (dispatch_tool pv intent name input k)"
  using assms enveloped_talks [of k, OF assms]
  by (auto simp: dispatch_tool_def propose_def remember_def forget_def query_def Let_def
      split: sum.splits option.splits bool.splits)

lemma run_tools_talks:
  assumes "\<And>rs'. calls_of_results rs' = calls_of_results rs @ map (\<lambda>(i, c, n, v). (i, c)) calls \<Longrightarrow> talks (k rs')"
  shows "talks (run_tools pv intent calls rs k)"
  using assms
proof (induction calls arbitrary: rs)
  case (Cons call calls)
  obtain i c n v where call: "call = (i, c, n, v)" by (cases call) auto
  have "talks (run_tools pv intent calls (rs @ [\<lparr>tres_id = i, tres_call_id = c, tres_content = t, tres_is_error = b\<rparr>]) k)" for t b
    by (rule Cons.IH, rule Cons.prems) (simp add: calls_of_results_def call)
  then show ?case by (simp add: call dispatch_talks)
qed (simp add: calls_of_results_def)

lemma after_completion_talks:
  assumes "\<And>ms. answered ms \<Longrightarrow> talks (next_turn ms)" "answered messages" "\<forall>c. r = Inr c \<longrightarrow> closed_reply c"
  shows "talks (after_completion pv intent more_turns next_turn messages r)"
proof (cases r)
  case (Inr c)
  with assms(3) have c: "spoken (cp_content c)" "cp_stop_reason c = EndTurn \<Longrightarrow> tool_calls_of (cp_content c) = []"
    by (simp_all add: closed_reply_def)
  have said: "talks (next_turn (messages @ [assistant_message (cp_content c), user_text t]))"
    if "tool_calls_of (cp_content c) = []" for t
    using assms(1) [OF answered.asked [OF answered.replied [OF assms(2) c(1) that]]] by simp
  have "talks (run_tools pv intent (tool_calls_of (cp_content c)) []
      (\<lambda>rs. next_turn (messages @ [assistant_message (cp_content c), tool_results rs])))"
    if "tool_calls_of (cp_content c) \<noteq> []"
    by (rule run_tools_talks, rule assms(1), rule answered.called [OF assms(2) c(1) that])
       (simp add: calls_of_results_def call_ids_def)
  with said c(2) Inr show ?thesis by (auto simp: after_completion_def Let_def split: stop_reason.split)
qed (simp add: after_completion_def)

lemma plan_turns_talks: "answered messages \<Longrightarrow> talks (plan_turns pv intent system n messages)"
  by (induction n arbitrary: messages) (auto intro: after_completion_talks)

lemma plan_intent_talks: "talks (plan_intent pv raw)"
proof -
  have "answered [user_text t]" for t using answered.asked [OF answered.start] by simp
  then show ?thesis
    by (auto simp: plan_intent_def Let_def with_rate_limit_def with_prompt_def split: sum.split intro: plan_turns_talks)
qed

section \<open>In the two interfaces\<close>

text \<open>A call and its result are matched by the identifier of the call.\<close>

fun oai_call_id :: "oai_tool_call \<Rightarrow> str option" where
  "oai_call_id (FunctionCall i n a) = Some i"
| "oai_call_id CustomCall = None"

fun oai_result_id :: "oai_message \<Rightarrow> str option" where
  "oai_result_id (OaiTool i t) = Some i"
| "oai_result_id m = None"

function chat_ok :: "oai_message list \<Rightarrow> bool" where
  "chat_ok [] = True"
| "chat_ok (OaiAssistant t (Some calls) # ms) =
    (calls \<noteq> [] \<and> map oai_result_id (take (length calls) ms) = map oai_call_id calls \<and> chat_ok (drop (length calls) ms))"
| "chat_ok (OaiAssistant t None # ms) = (t \<noteq> None \<and> chat_ok ms)"
| "chat_ok (OaiTool i t # ms) = False"
| "chat_ok (OaiSystem t # ms) = chat_ok ms"
| "chat_ok (OaiUser t # ms) = chat_ok ms"
  by pat_completeness auto
termination
  by (relation "measure length") auto

lemma chat_ok_append: "chat_ok xs \<Longrightarrow> chat_ok (xs @ ys) = chat_ok ys"
proof (induction xs rule: chat_ok.induct)
  case (2 t calls ms)
  from 2(2) have "length calls \<le> length ms" by simp (metis length_map length_take min.absorb_iff2)
  with 2 show ?case by simp
qed auto

definition rig_calls :: "assistant_content list \<Rightarrow> (str \<times> str option) list" where
  "rig_calls items = List.map_filter (\<lambda>x. case x of AssistantToolCall i c n v \<Rightarrow> Some (i, c) | _ \<Rightarrow> None) items"

fun rig_result :: "user_content \<Rightarrow> (str \<times> str option) option" where
  "rig_result (UserToolResult i c t) = Some (i, Some c)"
| "rig_result (UserText t) = None"

fun rig_ok :: "rig_message list \<Rightarrow> bool" where
  "rig_ok [] = True"
| "rig_ok (RigSystem t # ms) = rig_ok ms"
| "rig_ok (RigUser xs # ms) = ((case xs of [UserText t] \<Rightarrow> True | _ \<Rightarrow> False) \<and> rig_ok ms)"
| "rig_ok (RigAssistant items # RigUser xs # ms) = (items \<noteq> [] \<and>
    (if rig_calls items = [] then rig_ok (RigUser xs # ms)
     else map rig_result xs = map Some (rig_calls items) \<and> rig_ok ms))"
| "rig_ok (RigAssistant items # ms) = (items \<noteq> [] \<and> rig_calls items = [] \<and> rig_ok ms)"

lemma rig_ok_plain: "rig_calls items = [] \<Longrightarrow> rig_ok (RigAssistant items # ms) \<longleftrightarrow> items \<noteq> [] \<and> rig_ok ms"
  by (cases ms rule: rig_ok.cases) auto

lemma rig_ok_append: "rig_ok xs \<Longrightarrow> rig_ok (xs @ ys) = rig_ok ys"
  by (induction xs rule: rig_ok.induct) (auto simp: rig_ok_plain split: if_splits)

text \<open>The messages of one exchange.\<close>

lemma filter_calls:
  "map oai_call_id (oai_calls ext bs) = map (Some \<circ> fst) (call_ids bs)"
  "rig_calls (rig_contents bs) = map (\<lambda>(i, c). (i, Some (unwrap_or c i))) (call_ids bs)"
  by (induction bs)
     (auto simp: oai_calls_def call_ids_def tool_calls_of_def rig_calls_def rig_contents_def map_filter_simps
       split: content_block.splits)

lemma filter_results:
  "List.map_filter (\<lambda>b. case b of ToolResult i c t e \<Rightarrow> Some (f i c t e) | _ \<Rightarrow> None) (ms_content (tool_results rs)) =
    map (\<lambda>r. f (tres_id r) (tres_call_id r) (tres_content r) (tres_is_error r)) rs"
  by (induction rs) (simp_all add: tool_results_def map_filter_simps)

lemma result_messages:
  assumes "rs \<noteq> []"
  shows "oai_user (ms_content (tool_results rs)) = map (\<lambda>r. OaiTool (tres_id r) (result_text (tres_content r) (tres_is_error r))) rs"
    and "rig_user (ms_content (tool_results rs)) =
      [RigUser (map (\<lambda>r. UserToolResult (tres_id r) (unwrap_or (tres_call_id r) (tres_id r))
        (result_text (tres_content r) (tres_is_error r))) rs)]"
proof -
  have all: "all_results (ms_content (tool_results rs))"
    using assms by (simp add: all_results_def tool_results_def list_all_iff)
  show "oai_user (ms_content (tool_results rs)) = map (\<lambda>r. OaiTool (tres_id r) (result_text (tres_content r) (tres_is_error r))) rs"
    using all by (simp add: oai_user_def filter_results)
  show "rig_user (ms_content (tool_results rs)) =
      [RigUser (map (\<lambda>r. UserToolResult (tres_id r) (unwrap_or (tres_call_id r) (tres_id r))
        (result_text (tres_content r) (tres_is_error r))) rs)]"
    using all assms by (cases rs) (simp_all add: rig_user_def rig_results_def filter_results)
qed

lemma spoken_texts: "spoken bs \<Longrightarrow> tool_calls_of bs = [] \<Longrightarrow> text_parts bs \<noteq> []"
  by (cases bs) (auto simp: spoken_def text_parts_def tool_calls_of_def map_filter_simps split: content_block.splits)

lemma spoken_contents: "spoken bs \<Longrightarrow> rig_contents bs \<noteq> []"
  by (cases bs) (auto simp: spoken_def rig_contents_def map_filter_simps split: content_block.splits)

lemma call_ids_Nil: "call_ids bs = [] \<longleftrightarrow> tool_calls_of bs = []"
  by (simp add: call_ids_def)

lemma oai_calls_Nil: "oai_calls ext bs = [] \<longleftrightarrow> tool_calls_of bs = []"
  using filter_calls(1) [of ext bs] call_ids_Nil [of bs] by (metis map_is_Nil_conv)

lemma push_messages_append:
  "push_messages ext so_far (ms @ ms') = rbind (push_messages ext so_far ms) (\<lambda>done. push_messages ext done ms')"
  by (induction ms arbitrary: so_far) (auto simp: rbind_assoc split: message_role.split)

lemma results_role: "ms_role (tool_results rs) = UserRole"
  by (simp add: tool_results_def)

lemma answered_openai:
  "answered ms \<Longrightarrow> \<exists>chat. push_messages ext so_far ms = Inr (so_far @ chat) \<and> chat_ok chat"
proof (induction rule: answered.induct)
  case (asked ms t)
  then obtain chat where "push_messages ext so_far ms = Inr (so_far @ chat)" "chat_ok chat" by blast
  then show ?case
    by (intro exI [of _ "chat @ [OaiUser t]"])
       (simp add: push_messages_append chat_ok_append user_text_def oai_user_def all_results_def joined_text_def map_filter_simps)
next
  case (replied ms bs)
  then obtain chat where "push_messages ext so_far ms = Inr (so_far @ chat)" "chat_ok chat" by blast
  with spoken_texts [OF replied(2,3)] show ?case
    by (intro exI [of _ "chat @ [OaiAssistant (Some (join_with [CHR 0x0A] (text_parts bs))) None]"])
       (simp add: push_messages_append chat_ok_append assistant_message_def oai_assistant_def oai_calls_Nil replied(3))
next
  case (called ms bs rs)
  then obtain chat where c: "push_messages ext so_far ms = Inr (so_far @ chat)" "chat_ok chat" by blast
  let ?a = "OaiAssistant (if text_parts bs = [] then None else Some (join_with [CHR 0x0A] (text_parts bs))) (Some (oai_calls ext bs))"
  let ?rs = "map (\<lambda>r. OaiTool (tres_id r) (result_text (tres_content r) (tres_is_error r))) rs"
  have ids: "map oai_result_id ?rs = map oai_call_id (oai_calls ext bs)"
    using filter_calls(1) [of ext bs] called(4) [symmetric] by (simp add: calls_of_results_def)
  then have len: "length (oai_calls ext bs) = length rs" by (metis length_map)
  have rs: "rs \<noteq> []" using len called(3) by (auto simp: oai_calls_Nil)
  have "chat_ok (?a # ?rs)" using called(3) ids len by (simp add: oai_calls_Nil)
  moreover have "push_messages ext so_far (ms @ [assistant_message bs, tool_results rs]) = Inr (so_far @ chat @ ?a # ?rs)"
    using c(1) called(3) by (simp add: push_messages_append assistant_message_def oai_assistant_def oai_calls_Nil
        result_messages(1) [OF rs] results_role Let_def)
  ultimately show ?case using c(2) by (intro exI [of _ "chat @ ?a # ?rs"]) (simp add: chat_ok_append)
qed simp

lemma answered_rig: "answered ms \<Longrightarrow> rig_ok (to_rig_messages system ms)"
proof (induction rule: answered.induct)
  case start
  show ?case by (simp add: to_rig_messages_def)
next
  case (asked ms t)
  have "to_rig_messages system (ms @ [user_text t]) = to_rig_messages system ms @ [RigUser [UserText t]]"
    by (simp add: to_rig_messages_def user_text_def rig_user_def all_results_def joined_text_def map_filter_simps)
  with asked show ?case by (simp add: rig_ok_append)
next
  case (replied ms bs)
  have "rig_calls (rig_contents bs) = []" using replied(3) by (simp add: filter_calls(2) call_ids_Nil)
  moreover have "to_rig_messages system (ms @ [assistant_message bs]) = to_rig_messages system ms @ [RigAssistant (rig_contents bs)]"
    using spoken_contents [OF replied(2)]
    by (simp add: to_rig_messages_def assistant_message_def rig_assistant_def split: list.split)
  ultimately show ?case using replied spoken_contents [OF replied(2)] by (simp add: rig_ok_append)
next
  case (called ms bs rs)
  let ?rs = "map (\<lambda>r. UserToolResult (tres_id r) (unwrap_or (tres_call_id r) (tres_id r))
        (result_text (tres_content r) (tres_is_error r))) rs"
  have "map rig_result ?rs = map (\<lambda>(i, c). Some (i, Some (unwrap_or c i))) (call_ids bs)"
    using called(4) [symmetric] by (simp add: calls_of_results_def)
  then have "map rig_result ?rs = map Some (rig_calls (rig_contents bs))" by (simp add: filter_calls(2) split_def)
  moreover have rs: "rs \<noteq> []" using called(3,4) call_ids_Nil [of bs] by (metis calls_of_results_def list.map_disc_iff)
  have "to_rig_messages system (ms @ [assistant_message bs, tool_results rs]) =
      to_rig_messages system ms @ [RigAssistant (rig_contents bs), RigUser ?rs]"
    using spoken_contents [OF called(2)] by (simp add: to_rig_messages_def result_messages(2) [OF rs] results_role)
      (simp add: assistant_message_def rig_assistant_def split: list.split)
  ultimately show ?case using called spoken_contents [OF called(2)] rs
    by (simp add: rig_ok_append filter_calls(2) call_ids_Nil)
qed

section \<open>The answers of the adapters\<close>

definition has_functions :: "oai_choice \<Rightarrow> bool" where
  "has_functions ch = list_ex (\<lambda>c. c \<noteq> CustomCall) (unwrap_or (oc_tool_calls ch) [])"

text \<open>An answer of rig, or one of OpenAI whose reason to stop says that there are calls when there are.\<close>

definition adapter_answer :: "completion \<Rightarrow> bool" where
  "adapter_answer c \<longleftrightarrow>
    (\<exists>choice. choice \<noteq> [] \<and> from_rig_response choice = Inr c) \<or>
    (\<exists>parse dbg ch chs. from_openai_response parse dbg (ch # chs) = Inr c \<and>
      (has_functions ch \<longrightarrow> oc_finish_reason ch \<in> {Some FinishToolCalls, Some FinishLength}))"

lemma rig_answer_closed:
  assumes "choice \<noteq> []" "from_rig_response choice = Inr c"
  shows "closed_reply c"
proof -
  have c: "c = \<lparr>cp_content = List.map_filter rig_block choice,
      cp_stop_reason = (if list_ex is_tool_call choice then StopToolUse else EndTurn)\<rparr>" "List.map_filter rig_block choice \<noteq> []"
    using assms by (auto simp: from_rig_response_def Let_def split: if_splits)
  have "\<not> list_ex is_result (List.map_filter rig_block choice)"
    by (induction choice) (auto simp: map_filter_simps rig_block_def split: assistant_content.split option.split)
  moreover have "\<not> list_ex is_tool_call choice \<Longrightarrow> tool_calls_of (List.map_filter rig_block choice) = []"
    by (induction choice) (auto simp: tool_calls_of_def map_filter_simps rig_block_def is_tool_call_def split: assistant_content.splits)
  ultimately show ?thesis using c(2) by (simp add: c(1) closed_reply_def spoken_def)
qed

lemma call_blocks_Inr:
  "call_blocks parse dbg cs = Inr bs \<Longrightarrow> list_all (\<lambda>b. \<exists>i n v. b = ToolUse i None n v) bs \<and>
    (list_ex (\<lambda>c. c \<noteq> CustomCall) cs \<longleftrightarrow> bs \<noteq> [])"
  by (induction parse dbg cs arbitrary: bs rule: call_blocks.induct) (auto simp: rbind_eq_Inr_conv)

lemma openai_answer_closed:
  assumes "from_openai_response parse dbg (ch # chs) = Inr c"
    and "has_functions ch \<longrightarrow> oc_finish_reason ch \<in> {Some FinishToolCalls, Some FinishLength}"
  shows "closed_reply c"
proof -
  let ?text = "case oc_content ch of Some t \<Rightarrow> if t = [] then [] else [TextBlock t] | None \<Rightarrow> []"
  obtain bs where bs: "call_blocks parse dbg (unwrap_or (oc_tool_calls ch) []) = Inr bs" "cp_content c = ?text @ bs" "?text @ bs \<noteq> []"
    and reason: "cp_stop_reason c = (case oc_finish_reason ch of
        Some FinishToolCalls \<Rightarrow> StopToolUse | Some FinishLength \<Rightarrow> MaxTokens | _ \<Rightarrow> EndTurn)"
    using assms(1) by (auto simp: from_openai_response_def Let_def rbind_eq_Inr_conv split: if_splits)
  then have stop: "cp_stop_reason c = EndTurn \<Longrightarrow> oc_finish_reason ch \<notin> {Some FinishToolCalls, Some FinishLength}"
    by (auto split: option.splits finish_reason.splits)
  from call_blocks_Inr [OF bs(1)] have uses: "list_all (\<lambda>b. \<exists>i n v. b = ToolUse i None n v) bs" and
    calls: "has_functions ch \<longleftrightarrow> bs \<noteq> []" by (simp_all add: has_functions_def)
  have "\<not> list_ex is_result (?text @ bs)" using uses by (auto simp: list_all_iff list_ex_iff split: option.splits if_splits)
  moreover have "tool_calls_of ?text = []" by (simp add: tool_calls_of_def map_filter_simps split: option.split)
  then have "tool_calls_of (?text @ bs) = []" if "bs = []" using that by simp
  ultimately show ?thesis using bs(2,3) stop calls assms(2) by (auto simp: closed_reply_def spoken_def)
qed

text \<open>C18. Every conversation the planner sends to a model is well formed for both interfaces: it can be translated, and
  every message with tool calls is followed at once by one result for each of its calls, in their order, and no result
  stands elsewhere. The answers before it must come from the adapters; an answer of OpenAI that has calls must say so in
  its reason to stop.\<close>

theorem conversations_are_answered:
  assumes "plan_follow (plan_intent pv raw) (es @ Completed system ms r # fs) = Some q"
    and "\<And>s m c. Completed s m (Inr c) \<in> set es \<Longrightarrow> adapter_answer c"
  shows "(\<exists>chat. to_openai_messages ext system ms = Inr chat \<and> chat_ok chat) \<and> rig_ok (to_rig_messages system ms)"
proof -
  have "closed_effect e" if "e \<in> set es" for e
  proof (cases e rule: closed_effect.cases)
    case (1 s m c)
    with assms(2) [of s m c] that have "adapter_answer c" by simp
    with 1 show ?thesis using rig_answer_closed openai_answer_closed by (auto simp: adapter_answer_def)
  qed simp_all
  moreover have "foldl (\<lambda>b e. b \<and> closed_effect e) True es" if "\<forall>e\<in>set es. closed_effect e" for es
    using that by (induction es) simp_all
  ultimately have "foldl (\<lambda>b e. b \<and> closed_effect e) True es" by blast
  with talking.event_good [where p = "plan_intent pv raw" and s = True, OF _ assms(1)] plan_intent_talks
  have ms: "answered ms" by simp
  obtain chat where "push_messages ext [OaiSystem system] ms = Inr ([OaiSystem system] @ chat)" "chat_ok chat"
    using answered_openai [OF ms] by blast
  with answered_rig [OF ms] show ?thesis by (simp add: to_openai_messages_def)
qed

text \<open>If OpenAI answers with text and calls but gives another reason to stop, the loop asks for a tool call and leaves
  the calls without results: the next conversation is one the interface does not accept.\<close>

lemma stopped_with_calls:
  assumes "from_openai_response parse dbg (ch # chs) = Inr c" "oc_finish_reason ch = Some FinishStop"
    and "oc_content ch = Some t" "t \<noteq> []" "has_functions ch" "answered ms"
  shows "\<exists>k chat. plan_follow (plan_turns pv intent system (Suc (Suc n)) ms)
      [Emitted Thinking, Completed system ms (Inr c), Emitted Thinking] =
        Some (Complete system (ms @ [assistant_message (cp_content c), user_text correction_text]) k) \<and>
    to_openai_messages ext system (ms @ [assistant_message (cp_content c), user_text correction_text]) = Inr chat \<and>
    \<not> chat_ok chat"
proof -
  obtain bs where bs: "call_blocks parse dbg (unwrap_or (oc_tool_calls ch) []) = Inr bs" "cp_content c = TextBlock t # bs"
    and stop: "cp_stop_reason c = EndTurn"
    using assms(1-4) by (auto simp: from_openai_response_def Let_def rbind_eq_Inr_conv split: if_splits)
  obtain i v nm bs' where b: "bs = ToolUse i None nm v # bs'"
    using call_blocks_Inr [OF bs(1)] assms(5) by (cases bs) (auto simp: has_functions_def)
  have calls: "oai_calls ext (cp_content c) = FunctionCall i nm (json_display ext v) # oai_calls ext bs'"
    by (simp add: bs(2) b oai_calls_def map_filter_simps)
  have texts: "text_parts (cp_content c) \<noteq> []" by (simp add: bs(2) text_parts_def map_filter_simps)
  obtain chat where chat: "push_messages ext [OaiSystem system] ms = Inr (OaiSystem system # chat)" "chat_ok chat"
    using answered_openai [OF assms(6), of ext "[OaiSystem system]"] by auto
  let ?a = "OaiAssistant (Some (join_with [CHR 0x0A] (text_parts (cp_content c)))) (Some (oai_calls ext (cp_content c)))"
  have "to_openai_messages ext system (ms @ [assistant_message (cp_content c), user_text correction_text]) =
      Inr (OaiSystem system # chat @ [?a, OaiUser correction_text])"
    using chat(1) calls texts by (simp add: to_openai_messages_def push_messages_append assistant_message_def oai_assistant_def
        user_text_def oai_user_def all_results_def joined_text_def map_filter_simps)
  moreover have "\<not> chat_ok (OaiSystem system # chat @ [?a, OaiUser correction_text])"
    using chat(2) calls by (auto simp: chat_ok_append take_Cons')
  moreover have "plan_follow (plan_turns pv intent system (Suc (Suc n)) ms)
      [Emitted Thinking, Completed system ms (Inr c), Emitted Thinking] =
        Some (Complete system (ms @ [assistant_message (cp_content c), user_text correction_text])
          (after_completion pv intent (0 < n) (plan_turns pv intent system n) (ms @ [assistant_message (cp_content c), user_text correction_text])))"
    using stop bs(2) by (simp add: after_completion_def has_text_def plan_react_def)
  ultimately show ?thesis by blast
qed

theorem conversations_are_answered_witness:
  "(\<exists>chat. to_openai_messages plain_externs ''prompt'' demo_messages = Inr chat \<and> chat_ok chat) \<and>
    rig_ok (to_rig_messages ''prompt'' demo_messages)"
proof -
  let ?es = "take 7 demo_effects" and ?e = "Completed ''prompt'' demo_messages (Inr (demo_completions ! 1))"
  have split: "demo_effects = ?es @ ?e # drop 8 demo_effects" by (simp add: demo_effects_def)
  obtain q where q: "plan_follow (plan_intent demo_planner ''memory?'') (?es @ ?e # drop 8 demo_effects) = Some q"
    using demo_run unfolding split [symmetric] by blast
  have "from_rig_response [AssistantToolCall ''1'' None ''query_memory'' (JObject [])] = Inr (demo_completions ! 0)"
    by (simp add: from_rig_response_def rig_block_def is_tool_call_def map_filter_simps demo_completions_def)
  then have "adapter_answer (demo_completions ! 0)" unfolding adapter_answer_def by blast
  then have answers: "adapter_answer c" if "Completed s m (Inr c) \<in> set ?es" for s m c
    using that by (auto simp: demo_effects_def)
  show ?thesis by (rule conversations_are_answered [OF q]) (rule answers)
qed

end
