(* ===== verification/Cli_Main.thy ===== *)
theory Cli_Main
  imports Cli_Run Brain_Config Audit_Report
begin

text \<open>
  The rest of the command line: what is printed (\<open>render.rs\<close>, with the logger of \<open>runner.rs\<close>), the questions of
  \<open>run_intent\<close>, the diagnosis (\<open>run_doctor\<close> of \<open>runner.rs\<close>, \<open>doctor_inner\<close> of \<open>mcp_server.rs\<close>), the interactive loop
  (\<open>run_repl\<close>), and the arguments with their dispatch and the exit code (\<open>cli.rs\<close>, \<open>main.rs\<close>). Whether a stream shows
  colours is the parameter \<open>paint\<close>, which without colours is \<open>plain_paint\<close>. Spinners are left out.
\<close>

section \<open>What is printed\<close>

datatype colour = Green | Yellow | Red | Cyan | Bold | Dimmed

type_synonym paint = "colour list \<Rightarrow> str \<Rightarrow> str"

definition plain_paint :: paint where "plain_paint cs s = s"

definition dot :: str where "dot = [CHR 0xE2, CHR 0x97, CHR 0x8F]"
definition rule_mark :: str where "rule_mark = [CHR 0xE2, CHR 0x94, CHR 0x80]"
definition line_mark :: str where "line_mark = [CHR 0xE2, CHR 0x80, CHR 0xBA]"
definition check_mark :: str where "check_mark = [CHR 0xE2, CHR 0x9C, CHR 0x93]"
definition cross_mark :: str where "cross_mark = [CHR 0xE2, CHR 0x9C, CHR 0x97]"

fun risk_colored :: "paint \<Rightarrow> plan_risk_level \<Rightarrow> str" where
  "risk_colored paint PlanLow = dot @ '' '' @ paint [Green] ''low''"
| "risk_colored paint PlanMedium = dot @ '' '' @ paint [Yellow] ''medium''"
| "risk_colored paint PlanHigh = dot @ '' '' @ paint [Red, Bold] ''HIGH''"

text \<open>\<open>{:<32}\<close>, of a name in ASCII.\<close>

definition pad_cell :: "nat \<Rightarrow> str \<Rightarrow> str" where
  "pad_cell w s = s @ replicate (w - length s) (CHR '' '')"

definition step_lines :: "paint \<Rightarrow> nat \<Rightarrow> plan_step \<Rightarrow> str list" where
  "step_lines paint i step =
    [''  '' @ paint [Dimmed] (show_nat (i + 1)) @ ''  '' @ paint [Bold] (pad_cell 32 (action_name_str (ps_action_name step))) @
       ''  '' @ risk_colored paint (ps_risk_level step) @ ''  '' @
       (if approval_required step then paint [Yellow] ''approval required'' else paint [Dimmed] ''auto''),
     ''     '' @ paint [Dimmed] (ps_summary step)]"

definition print_plan :: "paint \<Rightarrow> plan \<Rightarrow> str list" where
  "print_plan paint p =
    [[], ''  '' @ paint [Bold] (pl_summary p), ''  '' @ paint [Dimmed] (concat (replicate 50 rule_mark))] @
    concat (map (\<lambda>(i, step). step_lines paint i step) (enumerate 0 (pl_steps p))) @ [[]]"


definition print_output_line :: "str \<Rightarrow> str" where
  "print_output_line line = ''  '' @ line_mark @ '' '' @ line"




definition print_doctor_ok :: "paint \<Rightarrow> str \<Rightarrow> str \<Rightarrow> str \<Rightarrow> str \<Rightarrow> str \<Rightarrow> str list" where
  "print_doctor_ok paint socket host provider model distro =
    [paint [Green] check_mark @ ''  daemon ok'', ''  socket    '' @ socket, ''  host      '' @ host,
     ''  provider  '' @ provider, ''  model     '' @ model, ''  distro    '' @ distro]"

definition print_doctor_fail :: "paint \<Rightarrow> str \<Rightarrow> str" where
  "print_doctor_fail paint e = paint [Red] cross_mark @ ''  daemon unreachable: '' @ e"

text \<open>\<open>Logger\<close>: lines go to standard output and, until a write fails, to the file.\<close>

record logger =
  lg_stdout :: "str list"
  lg_file :: "str list option"

definition log_println :: "bool \<Rightarrow> str \<Rightarrow> logger \<Rightarrow> logger" where
  "log_println write_ok line lg =
    \<lparr>lg_stdout = lg_stdout lg @ [line],
     lg_file = (case lg_file lg of Some f \<Rightarrow> if write_ok then Some (f @ [line]) else None | None \<Rightarrow> None)\<rparr>"

section \<open>The questions\<close>




section \<open>The diagnosis\<close>

text \<open>\<open>distro_label\<close>: \<open>detected\<close> is the result of the detection with the text of its error.\<close>

definition distro_label :: "(str, distro_id) result \<Rightarrow> str" where
  "distro_label detected = (case detected of
      Inr d \<Rightarrow> distro_display d
    | Inl e \<Rightarrow> ''unknown ('' @ e @ '')'')"

definition doctor_json :: "str \<Rightarrow> brain_config \<Rightarrow> str \<Rightarrow> str \<Rightarrow> json" where
  "doctor_json socket_label config distro host = JObject
    [(''distro'', JString distro), (''host'', JString host), (''model'', JString (model_name config)),
     (''ok'', JBool True), (''provider'', JString (provider_name (bc_provider config))), (''socket'', JString socket_label)]"

text \<open>What \<open>run_doctor\<close> prints to standard output and standard error, and its result; \<open>ask\<close> is the state of the daemon, or
  the error of the thread that asks.\<close>

definition run_doctor ::
  "environment \<Rightarrow> paint \<Rightarrow> (json \<Rightarrow> str) \<Rightarrow> str \<Rightarrow> (str, distro_id) result \<Rightarrow>
    (str, (planning_error, curated_state) result) result \<Rightarrow> bool \<Rightarrow> str list \<times> str list \<times> (cli_error, unit) result" where
  "run_doctor env paint to_text socket_label detected ask json_out = (case from_env env of
      Inl e \<Rightarrow> ([], [], Inl (ConfigOrDaemon (config_error_text e)))
    | Inr config \<Rightarrow> (case ask of
        Inl e \<Rightarrow> ([], [], Inl (ConfigOrDaemon (''join: '' @ e)))
      | Inr (Inr state) \<Rightarrow>
          (if json_out then [to_text (doctor_json socket_label config (distro_label detected) (cu_host_name state))]
           else print_doctor_ok paint socket_label (cu_host_name state) (provider_name (bc_provider config)) (model_name config)
             (distro_label detected), [], Inr ())
      | Inr (Inl e) \<Rightarrow>
          (if json_out then [to_text (JObject [(''error'', JString (planning_error_text e)), (''ok'', JBool False)])] else [],
           if json_out then [] else [print_doctor_fail paint (planning_error_text e)],
           Inl (ConfigOrDaemon (planning_error_text e)))))"

record doctor_report =
  dr_daemon_socket :: str
  dr_daemon_reachable :: bool
  dr_brain_provider :: str
  dr_brain_model :: str
  dr_distro :: str
  dr_audit_db_path :: str
  dr_audit_chain_status :: str
  dr_warnings :: "str list"

fun verify_kind_str :: "verify_kind \<Rightarrow> str" where
  "verify_kind_str KindIntact = ''intact''"
| "verify_kind_str KindBroken = ''broken''"
| "verify_kind_str KindUnknown = ''unknown''"

definition doctor_inner ::
  "environment \<Rightarrow> verify_world \<Rightarrow> str \<Rightarrow> (str, distro_id) result \<Rightarrow>
    (str, (planning_error, curated_state) result) result \<Rightarrow> doctor_report" where
  "doctor_inner env w socket_label detected ask =
    (let distro_warnings = (case detected of Inl e \<Rightarrow> [''distro detection failed: '' @ e] | Inr _ \<Rightarrow> []);
         (daemon_reachable, daemon_warnings) = (case ask of
             Inr (Inr _) \<Rightarrow> (True, [])
           | Inr (Inl e) \<Rightarrow> (False, [''daemon unreachable: '' @ planning_error_text e])
           | Inl e \<Rightarrow> (False, [''daemon ping join error: '' @ e]));
         (brain_provider, brain_model, brain_warnings) = (case from_env env of
             Inr cfg \<Rightarrow> (provider_name (bc_provider cfg), model_name cfg, [])
           | Inl e \<Rightarrow> (''unknown'', ''unknown'', [''brain config unreadable: '' @ config_error_text e]));
         (audit_kind, audit_warnings) = audit_chain_quick_check w
     in \<lparr>dr_daemon_socket = socket_label, dr_daemon_reachable = daemon_reachable, dr_brain_provider = brain_provider,
         dr_brain_model = brain_model, dr_distro = distro_label detected, dr_audit_db_path = backend_label w,
         dr_audit_chain_status = verify_kind_str audit_kind,
         dr_warnings = distro_warnings @ daemon_warnings @ brain_warnings @ audit_warnings\<rparr>)"

section \<open>The interactive loop\<close>

datatype readline = ReadLine str | ReadInterrupted | ReadEof | ReadError str

text \<open>The intents that are run for what is read, and whether the loop has ended. The error of an intent is printed
  and does not end it.\<close>

fun run_repl :: "readline list \<Rightarrow> str list \<times> bool" where
  "run_repl [] = ([], False)"
| "run_repl (ReadLine line # rs) =
    (let intent = trim line
     in if intent = [] then run_repl rs
        else if intent = ''exit'' \<or> intent = ''quit'' then ([], True)
        else (case run_repl rs of (intents, ended) \<Rightarrow> (intent # intents, ended)))"
| "run_repl (ReadInterrupted # rs) = ([], True)"
| "run_repl (ReadEof # rs) = ([], True)"
| "run_repl (ReadError e # rs) = ([], True)"

definition history_path :: "environment \<Rightarrow> str option" where
  "history_path env = map_option (\<lambda>h. path_join h ''.local/share/sysknife/history'') (env ''HOME'')"

section \<open>Arguments and the exit code\<close>

record history_arguments =
  ha_status :: "str option"
  ha_action :: "str option"
  ha_since :: "str option"
  ha_limit :: nat

datatype command =
    DoctorCommand
  | HistoryCommand history_arguments
  | CompletionsCommand str
  | McpServerCommand
  | AuditVerifyCommand bool
  | IntentCommand "str list"

record cli_args =
  cl_yes :: bool
  cl_max_risk :: "max_risk option"
  cl_non_interactive :: bool
  cl_dry_run :: bool
  cl_json :: bool
  cl_timeout :: "nat option"
  cl_log_to :: "str option"
  cl_step_by_step :: bool
  cl_command :: "command option"

definition intent_string :: "command \<Rightarrow> str option" where
  "intent_string c = (case c of IntentCommand ws \<Rightarrow> Some (join_with '' '' ws) | _ \<Rightarrow> None)"

definition build_run_opts :: "cli_args \<Rightarrow> run_opts" where
  "build_run_opts cli = \<lparr>ro_yes = cl_yes cli, ro_max_risk = cl_max_risk cli, ro_non_interactive = cl_non_interactive cli,
    ro_dry_run = cl_dry_run cli, ro_json = cl_json cli, ro_step_by_step = cl_step_by_step cli\<rparr>"

datatype dispatched =
    RunCompletions str
  | RunDoctor bool
  | RunHistory history_arguments
  | RunMcpServer
  | RunAuditVerify bool
  | RunIntent str run_opts
  | RunRepl run_opts

definition dispatch :: "cli_args \<Rightarrow> dispatched" where
  "dispatch cli = (case cl_command cli of
      Some (CompletionsCommand shell) \<Rightarrow> RunCompletions shell
    | Some DoctorCommand \<Rightarrow> RunDoctor (cl_json cli)
    | Some (HistoryCommand args) \<Rightarrow> RunHistory args
    | Some McpServerCommand \<Rightarrow> RunMcpServer
    | Some (AuditVerifyCommand as_json) \<Rightarrow> RunAuditVerify as_json
    | Some (IntentCommand ws) \<Rightarrow> RunIntent (join_with '' '' ws) (build_run_opts cli)
    | None \<Rightarrow> RunRepl (build_run_opts cli))"

text \<open>The exit code: \<open>log_file\<close> is what opening the log gives, \<open>finished\<close> the result of the command, or \<open>None\<close> if it has
  not finished when the time is over; without a limit there is none to wait for.\<close>

definition cli_main :: "cli_args \<Rightarrow> (str, unit) result \<Rightarrow> (cli_error, unit) result option \<Rightarrow> int option" where
  "cli_main cli log_file finished = (case (if cl_log_to cli = None then Inr () else log_file) of
      Inl e \<Rightarrow> Some 4
    | Inr _ \<Rightarrow>
        map_option (\<lambda>r. case r of Inl e \<Rightarrow> exit_code e | Inr _ \<Rightarrow> 0)
          (case finished of
             Some r \<Rightarrow> Some r
           | None \<Rightarrow> map_option (\<lambda>secs. Inl (ExecutionFailed (''operation timed out after '' @ show_nat secs @ ''s''))) (cl_timeout cli)))"

section \<open>What a person sees before consenting\<close>




























text \<open>The summary of a step may hold line breaks; one step can be printed as two.\<close>

definition printed_text :: "str list \<Rightarrow> str" where
  "printed_text ls = concat (map (\<lambda>l. l @ [CHR 0x0A]) ls)"

lemma printed_append: "printed_text (xs @ ys) = printed_text xs @ printed_text ys"
  by (simp add: printed_text_def)

lemma print_plan_steps:
  "printed_text (print_plan paint p) =
    printed_text [[], ''  '' @ paint [Bold] (pl_summary p), ''  '' @ paint [Dimmed] (concat (replicate 50 rule_mark))] @
    printed_text (concat (map (\<lambda>(i, step). step_lines paint i step) (enumerate 0 (pl_steps p)))) @ printed_text [[]]"
  unfolding print_plan_def printed_append ..

lemma summary_forges_a_step:
  assumes "pl_steps p = [s, s2]"
    and "p' = p\<lparr>pl_steps := [s\<lparr>ps_summary := join_with [CHR 0x0A] (ps_summary s # step_lines plain_paint 1 s2)\<rparr>]\<rparr>"
  shows "printed_text (print_plan plain_paint p') = printed_text (print_plan plain_paint p)"
proof -
  let ?s = "s\<lparr>ps_summary := join_with [CHR 0x0A] (ps_summary s # step_lines plain_paint 1 s2)\<rparr>"
  obtain a b where two: "step_lines plain_paint 1 s2 = [a, b]" by (simp add: step_lines_def)
  obtain c where one: "step_lines plain_paint 0 s = [c, ''     '' @ ps_summary s]" "step_lines plain_paint 0 ?s = [c, ''     '' @ ps_summary ?s]"
    by (simp add: step_lines_def plain_paint_def approval_required_def)
  have summary: "ps_summary ?s = ps_summary s @ CHR 0x0A # a @ CHR 0x0A # b" by (simp add: two [unfolded One_nat_def])
  have "printed_text (step_lines plain_paint 0 ?s) = printed_text (step_lines plain_paint 0 s @ step_lines plain_paint 1 s2)"
    unfolding one unfolding summary unfolding two by (simp add: printed_text_def)
  then show ?thesis unfolding print_plan_steps using assms by simp
qed

lemma log_file_follows:
  assumes "lg_file lg = Some f" "list_all fst writes"
  shows "lg_file (fold (\<lambda>(ok, line). log_println ok line) writes lg) = Some (f @ map snd writes)"
  using assms by (induction writes arbitrary: lg f) (auto simp: log_println_def)

lemma doctor_agrees:
  "dr_daemon_reachable (doctor_inner env w label detected ask) \<longleftrightarrow>
    (\<exists>state. ask = Inr (Inr state))"
  "snd (snd (run_doctor env paint to_text label detected ask json_out)) = Inr () \<longleftrightarrow>
    dr_daemon_reachable (doctor_inner env w label detected ask) \<and> is_ok (from_env env)"
  by (auto simp: doctor_inner_def run_doctor_def Let_def is_ok_iff split: sum.splits prod.splits)

end
