(* ===== verification/Safety_Log.thy ===== *)
theory Safety_Log
  imports Calendar Config Request_Hash Framing
begin

text \<open>
  The safety log of the planner (\<open>crates/sysknife-brain/src/audit.rs\<close>) and the journal it forwards to
  (\<open>journal.rs\<close>): the entry as a line of JSON, its appending to a contents, and the fields of a journal message in the
  native protocol. What the contents system does is the record \<open>log_world\<close>. The reader of the protocol is the one its
  documentation describes; the messages are shown to read back.
\<close>

section \<open>The journal\<close>

definition line_break :: char where "line_break = CHR 0x0A"

definition le64_bytes :: "nat \<Rightarrow> str" where
  "le64_bytes n = map (\<lambda>i. char_of (n div 256 ^ i mod 256)) [0..<8]"

definition journal_field :: "str \<times> str \<Rightarrow> str" where
  "journal_field = (\<lambda>(key, value).
    if line_break \<in> set value then key @ [line_break] @ le64_bytes (length value) @ value @ [line_break]
    else key @ [CHR ''=''] @ value @ [line_break])"

definition journal_message :: "(str \<times> str) list \<Rightarrow> str" where
  "journal_message fs = concat (map journal_field fs)"

text \<open>The socket of the journal: whether it is there, what making a socket and sending a datagram to it gives, and
  whether it is there when a failure is reported.\<close>

record journal_socket =
  js_exists :: bool
  js_send :: "str \<Rightarrow> (str, unit) result"
  js_still :: bool

text \<open>The datagrams that went out.\<close>

definition try_send :: "journal_socket \<Rightarrow> (str \<times> str) list \<Rightarrow> (str, str list) result" where
  "try_send js fs =
    (if \<not> js_exists js then Inr []
     else let msg = journal_message fs in rbind (js_send js msg) (\<lambda>_. Inr [msg]))"

definition send_warning :: "str \<Rightarrow> str" where
  "send_warning e = ''[sysknife-brain] journald send failed (socket present but write errored): '' @ e @ '' '' @
    [CHR 0xE2, CHR 0x80, CHR 0x94] @ '' security events may not reach the journal''"

text \<open>What went out, and what is printed: a failure if the socket is there.\<close>

definition send :: "journal_socket \<Rightarrow> (str \<times> str) list \<Rightarrow> str list \<times> str list" where
  "send js fs = (case try_send js fs of
      Inr sent \<Rightarrow> (sent, [])
    | Inl e \<Rightarrow> ([], if js_still js then [send_warning e] else []))"

text \<open>The reader: a field whose name ends at an equals sign goes to the end of the line; one whose name ends at a line
  break has its length in eight bytes.\<close>

definition in_name :: "char \<Rightarrow> bool" where
  "in_name c = (c \<noteq> CHR ''='' \<and> c \<noteq> line_break)"

definition in_line :: "char \<Rightarrow> bool" where
  "in_line c = (c \<noteq> line_break)"

definition read_field :: "str \<Rightarrow> ((str \<times> str) \<times> str) option" where
  "read_field s = (case dropWhile in_name s of
      [] \<Rightarrow> None
    | c # r \<Rightarrow>
        if c = line_break then
          (let n = from_le_bytes (take 8 r)
           in (case drop n (drop 8 r) of
                [] \<Rightarrow> None
              | d # r' \<Rightarrow>
                  if d = line_break then Some ((takeWhile in_name s, take n (drop 8 r)), r') else None))
        else
          (case dropWhile in_line r of
             [] \<Rightarrow> None
           | _ # r' \<Rightarrow> Some ((takeWhile in_name s, takeWhile in_line r), r')))"

lemma read_field_shorter:
  assumes "read_field s = Some (f, r')"
  shows "length r' < length s"
proof -
  obtain c r where c: "dropWhile in_name s = c # r"
    using assms by (auto simp: read_field_def split: list.splits)
  have r: "length r < length s" using length_dropWhile_le [of in_name s] by (simp add: c)
  show ?thesis
  proof (cases "c = line_break")
    case True
    with assms c obtain n where "drop n (drop 8 r) = line_break # r'"
      by (auto simp: read_field_def Let_def split: list.splits if_splits)
    then have "length (line_break # r') \<le> length r" by (metis drop_drop length_drop diff_le_self)
    with r show ?thesis by simp
  next
    case False
    with assms c obtain d where "dropWhile in_line r = d # r'"
      by (auto simp: read_field_def split: list.splits)
    then have "length (d # r') \<le> length r" by (metis length_dropWhile_le)
    with r show ?thesis by simp
  qed
qed

function read_journal :: "str \<Rightarrow> (str \<times> str) list option" where
  "read_journal s =
    (if s = [] then Some []
     else (case read_field s of None \<Rightarrow> None | Some (f, r) \<Rightarrow> map_option ((#) f) (read_journal r)))"
  by pat_completeness auto
termination by (relation "measure length") (auto dest: read_field_shorter)

declare read_journal.simps [simp del]

section \<open>The file\<close>

record audit_entry =
  ae_timestamp :: str
  ae_event :: str
  ae_intent :: str
  ae_reason :: str
  ae_raw_plan :: str

definition entry_json :: "audit_entry \<Rightarrow> json" where
  "entry_json e = JObject [(''timestamp'', JString (ae_timestamp e)), (''event'', JString (ae_event e)),
    (''intent'', JString (ae_intent e)), (''reason'', JString (ae_reason e)), (''raw_plan'', JString (ae_raw_plan e))]"

definition safety_log_path :: "environment \<Rightarrow> str" where
  "safety_log_path env =
    (let base = (case env ''XDG_DATA_HOME'' of
         Some xdg \<Rightarrow> if xdg = [] then None else Some (path_join xdg ''sysknife'')
       | None \<Rightarrow> None)
     in path_join (unwrap_or base (path_join (unwrap_or (env ''HOME'') ''/tmp'') ''.local/share/sysknife''))
          ''safety-audit.jsonl'')"

text \<open>The directories, opening the file, and writing to it, which may stop after some bytes.\<close>

record log_world =
  lw_path :: str
  lw_dirs :: "(str, unit) result"
  lw_open :: "(str, unit) result"
  lw_write :: "(str \<times> nat, unit) result"
  lw_journal :: journal_socket

text \<open>The result and the file after it; no file is the empty file.\<close>

definition append_entry :: "externs \<Rightarrow> log_world \<Rightarrow> audit_entry \<Rightarrow> str \<Rightarrow> (str, unit) result \<times> str" where
  "append_entry ext w entry contents = (case lw_dirs w of
      Inl e \<Rightarrow> (Inl e, contents)
    | Inr _ \<Rightarrow> (case lw_open w of
        Inl e \<Rightarrow> (Inl e, contents)
      | Inr _ \<Rightarrow>
          let line = json_display ext (entry_json entry) @ [line_break]
          in (case lw_write w of
               Inr _ \<Rightarrow> (Inr (), contents @ line)
             | Inl (e, n) \<Rightarrow> (Inl e, contents @ take n line))))"

definition rejection_entry :: "nat \<Rightarrow> str \<Rightarrow> str \<Rightarrow> str \<Rightarrow> audit_entry" where
  "rejection_entry now intent reason raw_plan =
    \<lparr>ae_timestamp = format_rfc3339 now, ae_event = ''safety_fence_rejection'', ae_intent = intent, ae_reason = reason,
     ae_raw_plan = raw_plan\<rparr>"

definition write_failure_fields :: "str \<Rightarrow> str \<Rightarrow> str \<Rightarrow> (str \<times> str) list" where
  "write_failure_fields e intent reason =
    [(''PRIORITY'', ''3''), (''SYSLOG_IDENTIFIER'', ''sysknife-brain''),
     (''MESSAGE'', ''SysKnife audit JSONL write failed: '' @ e), (''SYSKNIFE_EVENT'', ''audit_write_failure''),
     (''SYSKNIFE_INTENT'', intent), (''SYSKNIFE_REASON'', reason)]"

definition rejection_fields :: "audit_entry \<Rightarrow> (str \<times> str) list" where
  "rejection_fields entry =
    [(''PRIORITY'', ''4''), (''SYSLOG_IDENTIFIER'', ''sysknife-brain''),
     (''MESSAGE'', ''SysKnife safety fence rejection: '' @ ae_reason entry), (''SYSKNIFE_EVENT'', ''safety_fence_rejection''),
     (''SYSKNIFE_INTENT'', ae_intent entry), (''SYSKNIFE_REASON'', ae_reason entry),
     (''SYSKNIFE_TIMESTAMP'', ae_timestamp entry)]"

text \<open>The file, what is sent to the journal, and what is printed.\<close>

definition log_rejection ::
  "externs \<Rightarrow> log_world \<Rightarrow> nat \<Rightarrow> str \<Rightarrow> str \<Rightarrow> str \<Rightarrow> str \<Rightarrow> str \<times> str list \<times> str list" where
  "log_rejection ext w now intent reason raw_plan contents =
    (let entry = rejection_entry now intent reason raw_plan;
         (r, contents') = append_entry ext w entry contents;
         (sent, printed) = (case r of
             Inl e \<Rightarrow> map_prod id ((#) (''[SYSKNIFE AUDIT] failed to write safety audit log to '' @ lw_path w @ '': '' @ e))
               (send (lw_journal w) (write_failure_fields e intent reason))
           | Inr _ \<Rightarrow> ([], []));
         (sent', printed') = send (lw_journal w) (rejection_fields entry)
     in (contents', sent @ sent', printed @ printed'))"

section \<open>What is recorded reads back\<close>

definition plain_key :: "str \<Rightarrow> bool" where
  "plain_key k = (CHR ''='' \<notin> set k \<and> line_break \<notin> set k)"

lemma le64_length [simp]: "length (le64_bytes n) = 8"
  by (simp add: le64_bytes_def)

lemma from_le64: "n < 2 ^ 64 \<Longrightarrow> from_le_bytes (le64_bytes n) = n"
proof -
  assume n: "n < 2 ^ 64"
  have digits: "from_le_bytes (map (\<lambda>i. char_of (m div 256 ^ i mod 256)) [0..<k]) = m mod 256 ^ k" for m k :: nat
  proof (induction k arbitrary: m)
    case (Suc k)
    have "[0..<Suc k] = 0 # map Suc [0..<k]" by (simp add: upt_conv_Cons map_Suc_upt del: upt_Suc)
    then have "from_le_bytes (map (\<lambda>i. char_of (m div 256 ^ i mod 256)) [0..<Suc k]) =
        m mod 256 + 256 * from_le_bytes (map (\<lambda>i. char_of (m div 256 div 256 ^ i mod 256)) [0..<k])"
      by (simp add: o_def div_mult2_eq)
    with Suc [of "m div 256"] show ?case by (simp add: mod_mult2_eq)
  qed simp
  from digits [of n 8] n show ?thesis by (simp add: le64_bytes_def)
qed

lemma scan_past:
  assumes "list_all p k" "\<not> p d"
  shows "takeWhile p (k @ d # u) = k" "dropWhile p (k @ d # u) = d # u"
  using assms by (induction k) auto

lemma read_journal_field:
  assumes "plain_key k" "length v < 2 ^ 64"
  shows "read_journal (journal_field (k, v) @ s) = map_option ((#) (k, v)) (read_journal s)"
proof -
  have k: "list_all in_name k" using assms(1) by (auto simp: plain_key_def in_name_def list_all_iff)
  have stops: "\<not> in_name (CHR ''='')" "\<not> in_name line_break" "\<not> in_line line_break" "CHR ''='' \<noteq> line_break"
    by (simp_all add: in_name_def in_line_def line_break_def)
  have "read_field (journal_field (k, v) @ s) = Some ((k, v), s)"
  proof (cases "line_break \<in> set v")
    case True
    let ?r = "le64_bytes (length v) @ v @ line_break # s"
    have "journal_field (k, v) @ s = k @ line_break # ?r" using True by (simp add: journal_field_def)
    then show ?thesis by (simp add: read_field_def scan_past k stops from_le64 [OF assms(2)])
  next
    case False
    have v: "list_all in_line v" using False by (auto simp: in_line_def list_all_iff)
    have "journal_field (k, v) @ s = k @ CHR ''='' # v @ line_break # s" using False by (simp add: journal_field_def)
    then show ?thesis by (simp add: read_field_def scan_past k v stops)
  qed
  moreover have "journal_field (k, v) \<noteq> []" by (simp add: journal_field_def)
  ultimately show ?thesis by (simp add: read_journal.simps [of "journal_field (k, v) @ s"])
qed

lemma read_journal_message:
  "list_all (\<lambda>(k, v). plain_key k \<and> length v < 2 ^ 64) fs \<Longrightarrow> read_journal (journal_message fs) = Some fs"
proof (induction fs)
  case Nil
  show ?case by (simp add: journal_message_def read_journal.simps)
next
  case (Cons f fs)
  obtain k v where f: "f = (k, v)" by (cases f)
  have "journal_message (f # fs) = journal_field (k, v) @ journal_message fs"
    by (simp add: journal_message_def f)
  with Cons read_journal_field [of k v "journal_message fs"] show ?case by (simp add: f)
qed

lemma show_nat_length: "length (show_nat n) \<le> Suc n"
proof (induction n rule: show_nat.induct)
  case (1 n)
  show ?case
  proof (cases "n < 10")
    case False
    then have "Suc (Suc (n div 10)) \<le> Suc n" by linarith
    with 1 False show ?thesis by (simp add: show_nat.simps [of n])
  qed (simp add: show_nat.simps [of n])
qed

lemma pad_min_length_le: "length (pad_min w n) \<le> w + Suc n"
  using show_nat_length [of n] by (simp add: pad_min_def)

lemma format_rfc3339_length:
  assumes "now < 2 ^ 63"
  shows "length (format_rfc3339 now) < 2 ^ 64"
proof -
  obtain y m d where c: "civil_of_days (int (now div 86400)) = (y, m, d)"
    by (cases "civil_of_days (int (now div 86400))") auto
  have n: "int (now div 86400) < 2 ^ 60" using assms by simp
  note civ = civil_of_days [OF _ n c]
  have y: "nat y \<le> i64_max" "nat m \<le> 12" "nat d \<le> 31" using civ n by (simp_all add: i64_max_def)
  have t: "now mod 86400 div 3600 \<le> 86400" "now mod 86400 mod 3600 div 60 \<le> 86400" "now mod 86400 mod 60 \<le> 86400"
    by (auto intro: order_trans [OF div_le_dividend] less_imp_le [OF order_less_le_trans [OF mod_less_divisor]])
  show ?thesis
    using pad_min_length_le [of 4 "nat y"] pad_min_length_le [of 2 "nat m"] pad_min_length_le [of 2 "nat d"]
      pad_min_length_le [of 2 "now mod 86400 div 3600"] pad_min_length_le [of 2 "now mod 86400 mod 3600 div 60"]
      pad_min_length_le [of 2 "now mod 86400 mod 60"] y t
    unfolding format_rfc3339_def Let_def c by (simp add: i64_max_def)
qed

lemma read_rejection:
  assumes "length intent < 2 ^ 62" "length reason < 2 ^ 62" "now < 2 ^ 63"
  shows "read_journal (journal_message (rejection_fields (rejection_entry now intent reason raw_plan))) =
    Some (rejection_fields (rejection_entry now intent reason raw_plan))"
  by (rule read_journal_message)
    (use assms format_rfc3339_length [OF assms(3)] in
      \<open>simp add: rejection_fields_def rejection_entry_def plain_key_def line_break_def\<close>)

lemma read_write_failure:
  assumes "length e < 2 ^ 62" "length intent < 2 ^ 62" "length reason < 2 ^ 62"
  shows "read_journal (journal_message (write_failure_fields e intent reason)) = Some (write_failure_fields e intent reason)"
  by (rule read_journal_message) (use assms in \<open>simp add: write_failure_fields_def plain_key_def line_break_def\<close>)

lemma entry_on_a_line:
  assumes "\<And>s. line_break \<notin> set (ex_json_quote ext s)"
  shows "line_break \<notin> set (json_display ext (entry_json entry))"
  using assms by (simp add: entry_json_def line_break_def)

lemma append_cases:
  "case append_entry ext w entry contents of (r, contents') \<Rightarrow>
    (case r of Inr _ \<Rightarrow> contents' = contents @ json_display ext (entry_json entry) @ [line_break]
     | Inl _ \<Rightarrow> \<exists>n. contents' = contents @ take n (json_display ext (entry_json entry) @ [line_break]))"
  by (auto simp: append_entry_def Let_def split: sum.splits intro: exI [of _ 0])

text \<open>The messages for the journal: one that the file was not written, if it was not, and the rejection.\<close>

definition rejection_messages :: "(str, unit) result \<Rightarrow> audit_entry \<Rightarrow> (str \<times> str) list list" where
  "rejection_messages r entry =
    (case r of Inl e \<Rightarrow> [write_failure_fields e (ae_intent entry) (ae_reason entry)] | Inr _ \<Rightarrow> []) @ [rejection_fields entry]"

lemma send_results:
  "fst (send js fs) = filter (\<lambda>m. js_exists js \<and> is_ok (js_send js m)) [journal_message fs]"
  "js_exists js \<Longrightarrow> js_still js \<Longrightarrow> js_send js (journal_message fs) = Inl e \<Longrightarrow> send_warning e \<in> set (snd (send js fs))"
  by (cases "js_send js (journal_message fs)"; simp add: send_def try_send_def Let_def is_ok_iff)+

lemma log_rejection_results:
  assumes "log_rejection ext w now intent reason raw_plan contents = (contents', sent, printed)"
  defines "entry \<equiv> rejection_entry now intent reason raw_plan"
  shows "contents' = snd (append_entry ext w entry contents)"
    and "sent = filter (\<lambda>m. js_exists (lw_journal w) \<and> is_ok (js_send (lw_journal w) m))
      (map journal_message (rejection_messages (fst (append_entry ext w entry contents)) entry))"
    and "fs \<in> set (rejection_messages (fst (append_entry ext w entry contents)) entry) \<Longrightarrow>
      set (snd (send (lw_journal w) fs)) \<subseteq> set printed"
  using assms(1)
  by (auto simp: log_rejection_def Let_def rejection_messages_def entry_def [symmetric] send_results(1) prod_eq_iff
      case_prod_beta split: sum.splits) (auto simp: entry_def rejection_entry_def)

text \<open>C20. A rejection by the safety fence leaves its record whatever the intent, the reason and the refused plan say. When
  the directory, the file and the write work, the log grows by exactly one line, which nothing inside the entry can end
  early, so that a request with line breaks forges no second entry; when one of them fails, the file holds at most a
  beginning of the line more. The journal is sent the rejection, after a message that the file was not written if it was
  not; each message reads back, by the rules of its protocol, as exactly the fields that were sent, line breaks and
  equals signs included. What the socket takes are exactly these messages, and for each it does not take a warning is
  printed while the socket is there.\<close>

theorem rejection_recorded:
  assumes quoting: "\<And>s. line_break \<notin> set (ex_json_quote ext s)"
    and sizes: "length intent < 2 ^ 62" "length reason < 2 ^ 62" "now < 2 ^ 63"
      "\<And>e. fst (append_entry ext w (rejection_entry now intent reason raw_plan) contents) = Inl e \<Longrightarrow> length e < 2 ^ 62"
    and result: "log_rejection ext w now intent reason raw_plan contents = (contents', sent, printed)"
  shows "\<exists>line written. line_break \<notin> set line \<and>
    written = fst (append_entry ext w (rejection_entry now intent reason raw_plan) contents) \<and>
    (case written of
       Inr _ \<Rightarrow> contents' = contents @ line @ [line_break]
     | Inl _ \<Rightarrow> \<exists>n. contents' = contents @ take n (line @ [line_break])) \<and>
    sent = filter (\<lambda>m. js_exists (lw_journal w) \<and> is_ok (js_send (lw_journal w) m))
      (map journal_message (rejection_messages written (rejection_entry now intent reason raw_plan))) \<and>
    (\<forall>fs\<in>set (rejection_messages written (rejection_entry now intent reason raw_plan)).
      read_journal (journal_message fs) = Some fs \<and>
      (\<forall>e. js_exists (lw_journal w) \<longrightarrow> js_still (lw_journal w) \<longrightarrow> js_send (lw_journal w) (journal_message fs) = Inl e \<longrightarrow>
        send_warning e \<in> set printed))"
proof -
  define entry where "entry = rejection_entry now intent reason raw_plan"
  define written where "written = fst (append_entry ext w entry contents)"
  note results = log_rejection_results [OF result, folded entry_def, folded written_def]
  have reads: "read_journal (journal_message fs) = Some fs" if "fs \<in> set (rejection_messages written entry)" for fs
  proof (cases written)
    case (Inl e)
    with sizes(4) have "length e < 2 ^ 62" by (simp add: written_def entry_def)
    with that Inl read_write_failure [OF _ sizes(1,2)] read_rejection [OF sizes(1-3), of raw_plan, folded entry_def] show ?thesis
      by (auto simp: rejection_messages_def entry_def rejection_entry_def)
  qed (use that read_rejection [OF sizes(1-3), of raw_plan, folded entry_def] in \<open>simp add: rejection_messages_def\<close>)
  have warned: "send_warning e \<in> set printed"
    if "fs \<in> set (rejection_messages written entry)" "js_exists (lw_journal w)" "js_still (lw_journal w)"
      "js_send (lw_journal w) (journal_message fs) = Inl e" for fs e
    using results(3) [OF that(1)] send_results(2) [OF that(2-4)] by blast
  have grown: "case written of Inr _ \<Rightarrow> contents' = contents @ json_display ext (entry_json entry) @ [line_break]
     | Inl _ \<Rightarrow> \<exists>n. contents' = contents @ take n (json_display ext (entry_json entry) @ [line_break])"
    using append_cases [where ext = ext and w = w and entry = entry and contents = contents]
    unfolding results(1) written_def case_prod_beta .
  show ?thesis
    unfolding entry_def [symmetric]
    using entry_on_a_line [OF quoting, of entry] grown results(2) reads warned written_def by blast
qed

definition demo_quoting :: externs where
  "demo_quoting = plain_externs\<lparr>ex_json_quote :=
    \<lambda>s. CHR 0x22 # concat (map (\<lambda>c. if c = line_break then [CHR 0x5C, CHR ''n''] else [c]) s) @ [CHR 0x22]\<rparr>"

lemma demo_quoting: "line_break \<notin> set (ex_json_quote demo_quoting s)"
  by (induction s) (auto simp: demo_quoting_def line_break_def split: if_splits)

text \<open>A request that tries to write its own field and its own line, on a full disk, with a journal that takes short
  messages only.\<close>

definition full_disk :: log_world where
  "full_disk = \<lparr>lw_path = ''/var/log/a'', lw_dirs = Inr (), lw_open = Inr (), lw_write = Inl (''No space left on device'', 5),
    lw_journal = \<lparr>js_exists = True, js_send = (\<lambda>m. if length m < 100000 then Inr () else Inl ''Message too long''), js_still = True\<rparr>\<rparr>"

definition forging_intent :: str where
  "forging_intent = ''tidy'' @ line_break # ''SYSKNIFE_EVENT=ok''"

theorem rejection_recorded_witness:
  "\<exists>contents' sent printed.
    log_rejection demo_quoting full_disk 1700000000 forging_intent ''unknown action'' ''{}'' [] = (contents', sent, printed) \<and>
    (\<forall>m\<in>set sent. read_journal m \<in>
      {Some (write_failure_fields ''No space left on device'' forging_intent ''unknown action''),
       Some (rejection_fields (rejection_entry 1700000000 forging_intent ''unknown action'' ''{}''))})"
proof -
  obtain c' sent printed where r:
    "log_rejection demo_quoting full_disk 1700000000 forging_intent ''unknown action'' ''{}'' [] = (c', sent, printed)"
    using prod_cases3 by blast
  have failed: "fst (append_entry demo_quoting full_disk entry []) = Inl ''No space left on device''" for entry
    by (simp add: append_entry_def Let_def full_disk_def)
  have "length forging_intent < 2 ^ 62" by (simp add: forging_intent_def)
  from rejection_recorded [OF demo_quoting this _ _ _ r] failed obtain written where w:
    "written = Inl ''No space left on device''"
    "set sent \<subseteq> journal_message ` set (rejection_messages written (rejection_entry 1700000000 forging_intent ''unknown action'' ''{}''))"
    "\<forall>fs\<in>set (rejection_messages written (rejection_entry 1700000000 forging_intent ''unknown action'' ''{}'')).
      read_journal (journal_message fs) = Some fs"
    by auto
  have "read_journal m \<in> Some ` set (rejection_messages written (rejection_entry 1700000000 forging_intent ''unknown action'' ''{}''))"
    if "m \<in> set sent" for m
    using w(2,3) that by fastforce
  then have "\<forall>m\<in>set sent. read_journal m \<in>
      {Some (write_failure_fields ''No space left on device'' forging_intent ''unknown action''),
       Some (rejection_fields (rejection_entry 1700000000 forging_intent ''unknown action'' ''{}''))}"
    by (simp add: w(1) rejection_messages_def) (simp add: rejection_entry_def)
  with r show ?thesis by blast
qed

end
