(* ===== verification/Shell_Probes.thy ===== *)
theory Shell_Probes
  imports Brain_Config Auth
begin

text \<open>
  The probes of the desktop shell: the poller that tells the windows whether the daemon is reachable
  (\<open>spawn_daemon_health_poller\<close> of \<open>apps/sysknife-shell/src-tauri/src/main.rs\<close>), and the detection of the hardware and of
  an Ollama server (\<open>commands.rs\<close>). What a poll finds, the programs and the server are parameters. Times are seconds.
\<close>

section \<open>The poller\<close>

definition HEALTHY_INTERVAL :: nat where "HEALTHY_INTERVAL = 5"

definition MAX_BACKOFF :: nat where "MAX_BACKOFF = 30"

record poller =
  po_was_connected :: bool
  po_backoff :: nat

definition poller_start :: poller where
  "poller_start = \<lparr>po_was_connected = False, po_backoff = 1\<rparr>"

datatype daemon_status = StatusConnected | StatusReconnecting

text \<open>One turn of the loop: the event, if one is emitted, and the time slept.\<close>

definition poll :: "bool \<Rightarrow> poller \<Rightarrow> daemon_status option \<times> nat \<times> poller" where
  "poll connected p =
    (let (event, p') =
       (if connected \<and> \<not> po_was_connected p then
          (Some StatusConnected, \<lparr>po_was_connected = True, po_backoff = 1\<rparr>)
        else if \<not> connected \<and> po_was_connected p then
          (Some StatusReconnecting, p\<lparr>po_was_connected := False\<rparr>)
        else if connected \<and> po_backoff p = 1 then
          (Some StatusConnected, p\<lparr>po_was_connected := True\<rparr>)
        else (None, p))
     in if connected then (event, HEALTHY_INTERVAL, p')
        else (event, po_backoff p', p'\<lparr>po_backoff := min (po_backoff p' * 2) MAX_BACKOFF\<rparr>))"

fun polls :: "poller \<Rightarrow> bool list \<Rightarrow> (daemon_status option \<times> nat) list" where
  "polls p [] = []"
| "polls p (c # cs) = (case poll c p of (event, wait, p') \<Rightarrow> (event, wait) # polls p' cs)"

section \<open>What the poller promises\<close>

text \<open>The failures in a row that end the list, and the answer to the last poll.\<close>

fun failures :: "bool list \<Rightarrow> nat" where
  "failures cs = length (takeWhile Not (rev cs))"

definition poll_event :: "bool list \<Rightarrow> bool \<Rightarrow> daemon_status option" where
  "poll_event before c =
    (if c then Some StatusConnected
     else if before \<noteq> [] \<and> last before then Some StatusReconnecting
     else None)"

definition poll_wait :: "bool list \<Rightarrow> bool \<Rightarrow> nat" where
  "poll_wait before c = (if c then 5 else min 30 (2 ^ failures before))"

text \<open>The state after the polls \<open>before\<close>.\<close>

definition poller_after :: "bool list \<Rightarrow> poller" where
  "poller_after before =
    \<lparr>po_was_connected = (before \<noteq> [] \<and> last before), po_backoff = min 30 (2 ^ failures before)\<rparr>"

lemma failures_snoc: "failures (cs @ [c]) = (if c then 0 else Suc (failures cs))"
  by simp

lemma failures_none: "before \<noteq> [] \<Longrightarrow> last before \<Longrightarrow> failures before = 0"
  by (cases before rule: rev_cases) simp_all

declare failures.simps [simp del]

lemma capped_double: "min (min 30 (2 ^ n) * 2) 30 = min 30 (2 ^ Suc n :: nat)"
  by (simp add: min_def)

lemma poll_after:
  "poll c (poller_after before) = (poll_event before c, poll_wait before c, poller_after (before @ [c]))"
proof (cases "before \<noteq> [] \<and> last before")
  case True
  then show ?thesis
    by (simp add: poll_def poller_after_def poll_event_def poll_wait_def failures_snoc failures_none HEALTHY_INTERVAL_def
        MAX_BACKOFF_def)
next
  case False
  then show ?thesis
    by (cases c) (auto simp: poll_def poller_after_def poll_event_def poll_wait_def failures_snoc HEALTHY_INTERVAL_def
        MAX_BACKOFF_def capped_double)
qed

lemma polls_after:
  "polls (poller_after before) cs =
    map (\<lambda>i. (poll_event (before @ take i cs) (cs ! i), poll_wait (before @ take i cs) (cs ! i))) [0..<length cs]"
proof (induction cs arbitrary: before)
  case (Cons c cs)
  have "[0..<length (c # cs)] = 0 # map Suc [0..<length cs]" by (simp add: upt_conv_Cons map_Suc_upt del: upt_Suc)
  with Cons [of "before @ [c]"] show ?case by (simp add: poll_after o_def del: upt_Suc)
qed simp

lemma poller_starts: "poller_start = poller_after []"
  by (simp add: poller_start_def poller_after_def failures.simps)

text \<open>C35. The poller as a function of what it has found: whatever the order of outages, it says that the daemon is connected at
  every successful poll and not only at a change, that it reconnects at the first failure after a success and never else,
  and so nothing at all while a daemon that was never reached is down. It sleeps five seconds after a success and after
  the n-th failure in a row two to the power of n - 1 seconds, at most thirty.
\<close>

theorem poller_reports:
  "polls poller_start found =
    map (\<lambda>i. (poll_event (take i found) (found ! i), poll_wait (take i found) (found ! i))) [0..<length found]"
  unfolding poller_starts polls_after by simp

lemma change_reported:
  "map fst (polls poller_start [False, False, True, True, False, False, True]) =
    [None, None, Some StatusConnected, Some StatusConnected, Some StatusReconnecting, None, Some StatusConnected]"
  by code_simp

section \<open>Hardware\<close>

text \<open>\<open>nvidia\<close> and \<open>rocm\<close> are the output of a program that ran with success.\<close>

definition nvidia_gpu :: "str \<Rightarrow> (str \<times> nat option) option" where
  "nvidia_gpu stdout = map_option (\<lambda>(name, vram_str). (trim name, parse_uint u64_max (trim vram_str)))
    (split_once CHR '','' (trim stdout))"

definition rocm_line :: "str \<Rightarrow> nat option" where
  "rocm_line line = (case split_on CHR '','' line of
      _ # col # _ \<Rightarrow> map_option (\<lambda>bytes. bytes div (1024 * 1024)) (parse_uint u64_max (trim col))
    | _ \<Rightarrow> None)"

definition rocm_vram :: "str \<Rightarrow> nat option" where
  "rocm_vram stdout = (case filter_map rocm_line (drop 1 (str_lines stdout)) of [] \<Rightarrow> None | mb # _ \<Rightarrow> Some mb)"

definition detect_gpu :: "str option \<Rightarrow> str option \<Rightarrow> str option \<times> nat option" where
  "detect_gpu nvidia rocm = (case Option.bind nvidia nvidia_gpu of
      Some (name, vram) \<Rightarrow> (Some name, vram)
    | None \<Rightarrow> (case Option.bind rocm rocm_vram of
        Some mb \<Rightarrow> (Some ''AMD GPU'', Some mb)
      | None \<Rightarrow> (None, None)))"

definition mem_total :: "str \<Rightarrow> nat option" where
  "mem_total line = (if starts_with line ''MemTotal:'' then (case split_ws [] line of
      _ # w # _ \<Rightarrow> map_option (\<lambda>kb. kb div 1024) (parse_uint u64_max w)
    | _ \<Rightarrow> None) else None)"

definition detect_ram_mb :: "str option \<Rightarrow> nat option" where
  "detect_ram_mb meminfo = Option.bind meminfo (\<lambda>s.
    case filter_map mem_total (str_lines s) of [] \<Rightarrow> None | mb # _ \<Rightarrow> Some mb)"

record hardware_info =
  hw_gpu_name :: "str option"
  hw_vram_mb :: "nat option"
  hw_ram_mb :: "nat option"

definition detect_hardware :: "str option \<Rightarrow> str option \<Rightarrow> str option \<Rightarrow> hardware_info" where
  "detect_hardware nvidia rocm meminfo = (case detect_gpu nvidia rocm of (name, vram) \<Rightarrow>
    \<lparr>hw_gpu_name = name, hw_vram_mb = vram, hw_ram_mb = detect_ram_mb meminfo\<rparr>)"

text \<open>With two cards of NVIDIA the memory is unknown: the rest of the output after the first comma is no number.\<close>

lemma parse_uint_chars: "parse_uint mx s = Some n \<Longrightarrow> c \<in> set s \<Longrightarrow> is_ascii_digit c \<or> c = CHR ''+''"
  unfolding parse_uint_def
  by (auto simp: list_all_iff simp del: parse_digits.simps split: list.splits if_splits dest!: parse_digits_ascii)

lemma parse_uint_no_number: "c \<in> set s \<Longrightarrow> \<not> is_ascii_digit c \<Longrightarrow> c \<noteq> CHR ''+'' \<Longrightarrow> parse_uint mx s = None"
  by (cases "parse_uint mx s") (auto dest: parse_uint_chars)

lemma two_cards_no_memory:
  "detect_gpu (Some (''NVIDIA RTX 4070, 12282'' @ CHR 0x0A # ''NVIDIA RTX 4070, 12282'')) rocm = (Some ''NVIDIA RTX 4070'', None)"
proof -
  let ?s = "''NVIDIA RTX 4070, 12282'' @ CHR 0x0A # ''NVIDIA RTX 4070, 12282''"
  have "split_once CHR '','' (trim ?s) = Some (''NVIDIA RTX 4070'', '' 12282'' @ CHR 0x0A # ''NVIDIA RTX 4070, 12282'')"
    and "trim ''NVIDIA RTX 4070'' = ''NVIDIA RTX 4070''"
    and t: "trim ('' 12282'' @ CHR 0x0A # ''NVIDIA RTX 4070, 12282'') = ''12282'' @ CHR 0x0A # ''NVIDIA RTX 4070, 12282''"
    by code_simp+
  moreover have "parse_uint u64_max (trim ('' 12282'' @ CHR 0x0A # ''NVIDIA RTX 4070, 12282'')) = None"
    unfolding t by (rule parse_uint_no_number [of "CHR '',''"]) (simp_all add: is_ascii_digit_def)
  ultimately have "nvidia_gpu (?s) = Some (''NVIDIA RTX 4070'', None)" by (simp only: nvidia_gpu_def option.map prod.case)
  then show ?thesis by (simp only: detect_gpu_def Option.bind.bind_lunit option.case prod.case)
qed

section \<open>The Ollama server\<close>

definition ollama_tags_url :: "environment \<Rightarrow> str" where
  "ollama_tags_url env =
    unwrap_or (case env ''SYSKNIFE_OLLAMA_URL'' of Some u \<Rightarrow> Some u | None \<Rightarrow> env ''OLLAMA_HOST'')
      ''http://localhost:11434'' @ ''/api/tags''"

definition model_names :: "json \<Rightarrow> str list" where
  "model_names body = (case Option.bind (json_get body ''models'') as_array of
      Some arr \<Rightarrow> filter_map (\<lambda>m. Option.bind (json_get m ''name'') as_str) arr
    | None \<Rightarrow> [])"

record ollama_status =
  ol_reachable :: bool
  ol_models :: "str list"
  ol_error_message :: "str option"

text \<open>\<open>fetch\<close> is the body of the answer to a GET of the address, or the text of the error.\<close>

definition check_ollama_status :: "environment \<Rightarrow> (str \<Rightarrow> (str, json) result) \<Rightarrow> ollama_status" where
  "check_ollama_status env fetch = (case fetch (ollama_tags_url env) of
      Inr body \<Rightarrow> \<lparr>ol_reachable = True, ol_models = model_names body, ol_error_message = None\<rparr>
    | Inl e \<Rightarrow> \<lparr>ol_reachable = False, ol_models = [], ol_error_message = Some e\<rparr>)"

definition cancel_job :: "str \<Rightarrow> (shell_error, unit) result" where
  "cancel_job job_id = Inl \<lparr>sh_code = ''not_implemented'',
    sh_message = ''cancel_job: daemon does not yet support job cancellation. '' @
      ''Wait for the running job to complete or terminate the daemon process to abort it.'',
    sh_system_changed = False\<rparr>"

end
