(* ===== verification/Tool_Catalogue.thy ===== *)
theory Tool_Catalogue
  imports Providers Query_Tools Plan
begin

text \<open>
  The tools the planner offers to the model (\<open>LlmPlanner::new\<close> of \<open>crates/sysknife-brain/src/planner.rs\<close>): the query
  tools, the tools of the preferences, the state and the plan, with the schemas and the texts the model reads
  (\<open>planning_tools/query_tools.rs\<close>, \<open>preferences.rs\<close>, \<open>get_state.rs\<close>, \<open>propose_plan.rs\<close>). A JSON object is in the order of
  its keys. The texts are part of the definitions because the model is held to them; the lemmas look at the schemas.
\<close>

definition long_dash :: str where "long_dash = [CHR 0xE2, CHR 0x80, CHR 0x94]"
definition short_dash :: str where "short_dash = [CHR 0xE2, CHR 0x80, CHR 0x93]"
definition bullet :: str where "bullet = [CHR 0xE2, CHR 0x80, CHR 0xA2]"

definition tool :: "str \<Rightarrow> str \<Rightarrow> json \<Rightarrow> tool_definition" where
  "tool name description schema = \<lparr>td_name = name, td_description = description, td_input_schema = schema\<rparr>"

definition object_schema :: "(str \<times> json) list \<Rightarrow> str list \<Rightarrow> json" where
  "object_schema properties required = JObject
    [(''additionalProperties'', JBool False), (''properties'', JObject properties),
     (''required'', JArray (map JString required)), (''type'', JString ''object'')]"

definition text_property :: "str \<Rightarrow> str \<Rightarrow> json" where
  "text_property type description = JObject [(''description'', JString description), (''type'', JString type)]"

definition empty_schema :: json where
  "empty_schema = object_schema [] []"

section \<open>Queries and preferences\<close>

definition query_tools :: "tool_definition list" where
  "query_tools =
    [tool ''query_services''
      ''List all running systemd services. Returns one service name per line.''
      empty_schema,
     tool ''query_firewall''
      ''Show current firewall rules and allowed services.''
      empty_schema,
     tool ''query_deployments''
      ''List all rpm-ostree deployments with their index, version, and pinned status.''
      empty_schema,
     tool ''query_packages''
      ''List all layered packages installed via rpm-ostree.''
      empty_schema,
     tool ''query_containers''
      ''List all running containers (podman) with name and status.''
      empty_schema,
     tool ''query_users''
      ''List local user accounts (uid >= 1000) with username and groups.''
      empty_schema,
     tool ''query_logs''
      ''Show recent systemd journal logs for a specific service unit.''
      (object_schema [(''unit'', text_property ''string''
        ''The systemd unit name (e.g. 'sshd.service')'')] [''unit'']),
     tool ''query_kernel_args''
      ''Show the current kernel boot arguments.''
      empty_schema,
     tool ''query_flatpak_remotes''
      ''List configured Flatpak remotes.''
      empty_schema,
     tool ''query_toolboxes''
      ''List all toolbox containers.''
      empty_schema,
     tool ''query_groups''
      ''List all local groups on the system.''
      empty_schema,
     tool ''query_flatpak_info''
      ''Show detailed info for an installed Flatpak application.''
      (object_schema [(''app_id'', text_property ''string''
        ''The Flatpak application ID (e.g. 'org.mozilla.firefox')'')] [''app_id'']),
     tool ''query_container_info''
      ''Show detailed info for a specific container.''
      (object_schema [(''name'', text_property ''string''
        ''The container name'')] [''name'']),
     tool ''query_package_repos''
      ''List configured package repositories.''
      empty_schema,
     tool ''query_diagnostics''
      ''Collect system diagnostics including recent errors and resource usage.''
      empty_schema,
     tool ''query_deployment_history''
      ''Show the deployment history of rpm-ostree upgrades and rollbacks.''
      empty_schema,
     tool ''query_disk_usage''
      ''Show disk usage for all mounted filesystems.''
      empty_schema,
     tool ''query_processes''
      ''List running processes sorted by memory usage.''
      empty_schema,
     tool ''query_memory''
      ''Show system memory usage (total, used, free, swap).''
      empty_schema,
     tool ''query_network''
      ''Show network interface addresses and status.''
      empty_schema,
     tool ''query_authorized_keys''
      ''Show SSH authorized keys for a user account.''
      (object_schema [(''username'', text_property ''string''
        ''The username whose authorized_keys to read'')] [''username'']),
     tool ''query_current_user''
      (''Return the Linux username of the user who launched sysknife. Call this before any '' @
       ''action that requires a `username` param when the username is not already known from '' @ ''context.'')
      empty_schema,
     tool ''query_job_history''
      (''Show recent SysKnife transaction history. Use this to check what actions SysKnife '' @
       ''has executed (or attempted) recently. Returns action names, statuses, and summaries.'')
      (object_schema [(''action_filter'', text_property ''string''
        (''Filter by exact action name, e.g. 'AddLayeredPackage'' @ [CHR 0x27])), (''limit'', text_property ''integer''
        ''Max number of records to return (default 20, max 100)''), (''since_hours'', text_property ''integer''
        ''Only return records from the last N hours''), (''status_filter'', text_property ''string''
        (''Filter by status: 'succeeded', 'failed', 'queued', 'running', 'canceled', '' @
         '''rolled_back', 'needs_reboot'' @ [CHR 0x27]))] [])]"

definition remember_tool_def :: tool_definition where
  "remember_tool_def = tool ''remember''
      (''Save a user preference that should apply to all future planning sessions. Use this '' @
       ''when the user explicitly asks you to remember something about how they want their '' @
       ''system managed. Do NOT use this to store system facts '' @ long_dash @
       '' only user preferences and stated intentions.'')
      (object_schema [(''fact'', text_property ''string''
        (''The preference to save, in plain language. Be specific and actionable. Example: '' @
         '''Prefer vim-enhanced over vim for package layering requests'.''))] [''fact''])"

definition forget_tool_def :: tool_definition where
  "forget_tool_def = tool ''forget''
      (''Remove a previously saved user preference. Use this when the user asks you to forget '' @
       ''or stop applying a preference. The fact string must match an existing preference '' @ ''exactly.'')
      (object_schema [(''fact'', text_property ''string''
        ''The preference to remove. Must match an existing entry exactly.'')] [''fact''])"

definition get_state_tool_def :: tool_definition where
  "get_state_tool_def = tool ''get_system_state''
    (''Retrieve the current curated system state from the SysKnife daemon. Call this before '' @
     ''proposing a plan that depends on current system configuration: deployments, '' @
     ''installed packages, services, containers, or user accounts.'')
    (JObject [(''properties'', JObject []), (''required'', JArray []), (''type'', JString ''object'')])"

section \<open>The catalogue of actions\<close>

definition known_actions_1 :: "(str \<times> str) list" where
  "known_actions_1 =
    [(''GetSystemState'',
      ''full rpm-ostree deployment snapshot: layered packages, pinned/staged deployments, '' @
      ''booted/pending OSTree refs''),
     (''CollectDiagnostics'',
      ''recent system journal log (last 500 lines) for error diagnosis and troubleshooting''),
     (''GetDeploymentHistory'',
      ''rpm-ostree deployment history: past and current OSTree commits with timestamps''),
     (''ListDeployments'',
      ''list all currently staged, pending, and booted deployments''),
     (''UpdateSystem'',
      ''download and stage the latest OSTree update (does not reboot)''),
     (''CleanupDeployments'',
      ''remove old staged deployments to free disk space''),
     (''RebootSystem'',
      ''reboot the machine into the current or staged deployment''),
     (''RollbackDeployment'',
      ''roll back to the previous booted deployment''),
     (''GetKernelArguments'',
      ''list current kernel command-line arguments (kargs)''),
     (''PinDeployment'',
      ''pin a deployment so it is not GC'd '' @ long_dash @
      '' param: index (u32, deployment index from ListDeployments)''),
     (''UnpinDeployment'',
      ''unpin a previously pinned deployment '' @ long_dash @ '' param: index (u32)''),
     (''RebaseSystem'',
      ''switch to a different OSTree ref/remote '' @ long_dash @
      '' param: target_ref (string, e.g. fedora/40/x86_64/silverblue)''),
     (''SetKernelArguments'',
      ''add/remove kernel command-line args '' @ long_dash @ '' params: add (string[]), remove (string[]) '' @
      long_dash @ '' either may be []''),
     (''InstallFlatpak'',
      ''install a Flatpak app '' @ long_dash @
      '' params: username* (Linux user), app_id* (e.g. org.mozilla.firefox), remote* (e.g. '' @ ''flathub)''),
     (''RemoveFlatpak'',
      ''uninstall a Flatpak app '' @ long_dash @ '' params: username*, app_id*''),
     (''UpdateFlatpak'',
      ''update Flatpak apps '' @ long_dash @ '' params: username* (required); app_id (optional '' @ long_dash @
      '' omit to update all)''),
     (''SearchFlatpakApps'',
      ''search Flatpak remotes for apps '' @ long_dash @ '' param: term* (query string) '' @ long_dash @
      '' no username needed''),
     (''ListFlatpakRemotes'',
      ''list configured Flatpak remotes '' @ long_dash @ '' param: username*''),
     (''ListInstalledFlatpaks'',
      ''list installed Flatpak apps for a user '' @ long_dash @ '' param: username*''),
     (''AddFlatpakRemote'',
      ''add a Flatpak remote '' @ long_dash @ '' params: username*, remote* (name), url*''),
     (''RemoveFlatpakRemote'',
      ''remove a Flatpak remote '' @ long_dash @ '' params: username*, remote* (name)''),
     (''GetFlatpakAppInfo'',
      ''show metadata for an installed Flatpak '' @ long_dash @ '' params: username*, app_id*''),
     (''ListToolboxes'',
      ''list toolbox containers for a user '' @ long_dash @ '' param: username*''),
     (''CreateToolbox'',
      ''create a toolbox container '' @ long_dash @ '' params: username*, name*; optional: image, release''),
     (''RemoveToolbox'',
      ''remove a toolbox container '' @ long_dash @ '' params: username*, name*''),
     (''GetLayeredPackages'',
      ''list RPM packages layered on top of the base OS image '' @ long_dash @ '' no params''),
     (''ResetLayeredPackageOverride'',
      ''reset all rpm-ostree override changes '' @ long_dash @ '' no params''),
     (''GetPendingUpdates'',
      ''check for a staged update and show its diff '' @ long_dash @ '' no params''),
     (''InstallPackages'',
      ''layer multiple RPM packages '' @ long_dash @ '' param: packages* (string[])''),
     (''RemovePackages'',
      ''remove layered RPM packages '' @ long_dash @ '' param: packages* (string[])'')]"

definition known_actions_2 :: "(str \<times> str) list" where
  "known_actions_2 =
    [(''AddLayeredPackage'',
      ''layer a single RPM package (requires reboot) '' @ long_dash @ '' param: package* (string)''),
     (''RemoveLayeredPackage'',
      ''remove a single layered RPM package (requires reboot) '' @ long_dash @ '' param: package* (string)''),
     (''ReplaceLayeredPackage'',
      ''replace one layered package with another '' @ long_dash @ '' params: old* (string), new* (string)''),
     (''RemoveBasePackage'',
      ''exclude a base OS package from the deployment '' @ long_dash @ '' param: package* (string)''),
     (''ListServices'',
      ''list all systemd units and their active/enabled state '' @ long_dash @ '' no params''),
     (''ListTimers'',
      ''list all systemd timer units with next trigger time '' @ long_dash @ '' no params''),
     (''ReloadDaemon'',
      ''run systemctl daemon-reload to pick up changed unit files '' @ long_dash @ '' no params''),
     (''StartService'',
      ''start a systemd service '' @ long_dash @ '' param: unit* (e.g. sshd.service)''),
     (''StopService'',
      ''stop a systemd service '' @ long_dash @ '' param: unit*''),
     (''RestartService'',
      ''restart a systemd service '' @ long_dash @ '' param: unit*''),
     (''ReloadService'',
      ''reload a service config without restart (SIGHUP) '' @ long_dash @ '' param: unit*''),
     (''SetServiceEnabled'',
      ''enable or disable a service at boot '' @ long_dash @ '' params: unit*, enabled* (bool)''),
     (''MaskService'',
      ''mask a unit so it cannot start by any means '' @ long_dash @ '' param: unit*''),
     (''UnmaskService'',
      ''unmask a previously masked unit '' @ long_dash @ '' param: unit*''),
     (''GetServiceLogs'',
      ''fetch recent journald log lines for a service '' @ long_dash @ '' param: unit*''),
     (''GetServiceStatus'',
      ''show detailed status of a service '' @ long_dash @ '' param: unit*''),
     (''GetFirewallState'',
      ''show current firewalld zones, open services, and port rules '' @ long_dash @ '' no params''),
     (''GetNetworkStatus'',
      ''show network interfaces, IP addresses, and connection state '' @ long_dash @ '' no params''),
     (''ConfigureWifi'',
      ''connect to a Wi-Fi network '' @ long_dash @ '' params: ssid*, password (optional for open networks)''),
     (''SetDnsServers'',
      ''set DNS servers for an interface '' @ long_dash @ '' params: interface* (e.g. wlp1s0), servers* (string[])''),
     (''ConfigureFirewall'',
      ''add/remove a service in a firewalld zone '' @ long_dash @ '' params: zone*, service*, enabled* (bool)''),
     (''GetDiskUsage'',
      ''show disk space usage for all mounted filesystems (df -h) '' @ long_dash @ '' no params''),
     (''ListProcesses'',
      ''list running processes with CPU and memory usage '' @ long_dash @ '' no params''),
     (''GetMemoryInfo'',
      ''show RAM and swap usage (free -h) '' @ long_dash @ '' no params''),
     (''GetDateTime'',
      ''current date, time, timezone, and NTP status (timedatectl) '' @ long_dash @ '' no params''),
     (''SetHostname'',
      ''change the system hostname '' @ long_dash @ '' param: hostname* (string)''),
     (''SetTimezone'',
      ''change the system timezone '' @ long_dash @ '' param: timezone* (e.g. America/Chicago)''),
     (''SetLocale'',
      ''change the system locale '' @ long_dash @ '' param: locale* (e.g. en_US.UTF-8)''),
     (''SetNtp'',
      ''enable or disable NTP sync '' @ long_dash @ '' param: enabled* (bool)''),
     (''ListPackageRepositories'',
      ''list configured DNF/rpm-ostree repos and their enabled state '' @ long_dash @ '' no params'')]"

definition known_actions_3 :: "(str \<times> str) list" where
  "known_actions_3 =
    [(''AddPackageRepository'',
      ''add a DNF repo '' @ long_dash @ '' params: repo_id*, repo_url*''),
     (''RemovePackageRepository'',
      ''remove a DNF repo '' @ long_dash @ '' param: repo_id*''),
     (''EnablePackageRepository'',
      ''enable a disabled DNF repo '' @ long_dash @ '' param: repo_id*''),
     (''DisablePackageRepository'',
      ''disable a DNF repo without removing it '' @ long_dash @ '' param: repo_id*''),
     (''ListContainers'',
      ''list Podman containers for a user '' @ long_dash @ '' param: username*''),
     (''CreateContainer'',
      ''create a Podman container '' @ long_dash @ '' params: username*, name*, image* (e.g. ubuntu:22.04)''),
     (''StartContainer'',
      ''start a Podman container '' @ long_dash @ '' params: username*, name*''),
     (''StopContainer'',
      ''stop a Podman container '' @ long_dash @ '' params: username*, name*''),
     (''RemoveContainer'',
      ''remove a stopped Podman container '' @ long_dash @ '' params: username*, name*''),
     (''GetContainerInfo'',
      ''inspect a Podman container '' @ long_dash @ '' params: username*, name*''),
     (''ListUsers'',
      ''list all local user accounts '' @ long_dash @ '' no params''),
     (''ListGroups'',
      ''list all local groups '' @ long_dash @ '' no params''),
     (''CreateUser'',
      ''create a local user account '' @ long_dash @ '' param: username*; optional: shell, home''),
     (''DeleteUser'',
      ''delete a local user account '' @ long_dash @ '' param: username*''),
     (''AddUserToGroup'',
      ''add a user to a group '' @ long_dash @ '' params: username*, group*''),
     (''RemoveUserFromGroup'',
      ''remove a user from a group '' @ long_dash @ '' params: username*, group*''),
     (''GetAuthorizedKeys'',
      ''list SSH authorized_keys for a user '' @ long_dash @ '' param: username*''),
     (''AddAuthorizedKey'',
      ''append an SSH public key to a user's authorized_keys '' @ long_dash @
      '' params: username*, public_key* (full key string)''),
     (''RemoveAuthorizedKey'',
      ''remove an SSH public key from a user's authorized_keys '' @ long_dash @
      '' params: username*, public_key* (full key string)''),
     (''ListJobHistory'',
      ''show SysKnife's own job log '' @ long_dash @
      '' optional params: limit (int), status_filter, action_filter, since_hours (int)''),
     (''AptUpdate'',
      ''refresh apt package index (apt-get update) '' @ long_dash @ '' no params; Ubuntu only''),
     (''AptUpgrade'',
      ''upgrade all installed packages via dist-upgrade '' @ long_dash @ '' no params; Ubuntu only; High risk''),
     (''AptInstall'',
      ''install a package '' @ long_dash @ '' param: package* (string, e.g. nginx); Ubuntu only''),
     (''AptRemove'',
      ''remove a package, keep config files '' @ long_dash @ '' param: package*; Ubuntu only''),
     (''AptPurge'',
      ''remove a package AND its config files '' @ long_dash @ '' param: package*; Ubuntu only''),
     (''AptAutoremove'',
      ''remove automatically-installed packages no longer needed '' @ long_dash @ '' no params; Ubuntu only''),
     (''AptHold'',
      ''pin a package at its current version (apt-mark hold) '' @ long_dash @ '' param: package*; Ubuntu only''),
     (''AptUnhold'',
      ''unpin a package to allow upgrades (apt-mark unhold) '' @ long_dash @ '' param: package*; Ubuntu only''),
     (''AptSearch'',
      ''search apt repos for packages '' @ long_dash @ '' param: term*; Ubuntu only; read-only''),
     (''AptListInstalled'',
      ''list all installed packages (dpkg -l) '' @ long_dash @ '' no params; Ubuntu only; read-only'')]"

definition known_actions_4 :: "(str \<times> str) list" where
  "known_actions_4 =
    [(''AptShow'',
      ''show package details (version, deps, description) '' @ long_dash @
      '' param: package*; Ubuntu only; read-only''),
     (''AptListUpgradable'',
      ''list packages with available upgrades '' @ long_dash @
      '' no params; Ubuntu only; read-only. Use for 'are there pending updates?' or 'what '' @
      ''updates are available?'' @ [CHR 0x27]),
     (''AptHistoryList'',
      ''show recent apt transaction history '' @ long_dash @ '' no params; Ubuntu only; read-only''),
     (''AddPpa'',
      ''add a Launchpad PPA '' @ long_dash @
      '' param: name* in <user>/<ppa> format (e.g. 'deadsnakes/ppa'); Ubuntu only; requires '' @
      ''software-properties-common''),
     (''RemovePpa'',
      ''remove a Launchpad PPA '' @ long_dash @ '' param: name* in <user>/<ppa> format; Ubuntu only''),
     (''SnapInstall'',
      ''install a snap (auto-holds to prevent auto-refresh) '' @ long_dash @
      '' params: name*; optional: channel (default stable), auto_update (bool, default '' @ ''false); Ubuntu only''),
     (''SnapRemove'',
      ''remove a snap '' @ long_dash @ '' param: name*; Ubuntu only''),
     (''SnapRefresh'',
      ''update a snap or all snaps '' @ long_dash @ '' param: name (optional, omit for all); Ubuntu only''),
     (''SnapHold'',
      ''pin a snap at its current version (snap refresh --hold) '' @ long_dash @ '' param: name*; Ubuntu only''),
     (''SnapUnhold'',
      ''allow a held snap to auto-refresh again '' @ long_dash @ '' param: name*; Ubuntu only''),
     (''SnapList'',
      ''list installed snaps '' @ long_dash @ '' no params; Ubuntu only; read-only''),
     (''SnapInfo'',
      ''show snap details (version, channel, description) '' @ long_dash @ '' param: name*; Ubuntu only; read-only''),
     (''SnapRevert'',
      ''revert a snap to its previous revision '' @ long_dash @ '' param: name*; Ubuntu only''),
     (''SnapClassicInstall'',
      ''install a snap with classic confinement (full system access) '' @ long_dash @ '' param: name*; Ubuntu only''),
     (''UfwEnable'',
      ''enable the ufw firewall '' @ long_dash @ '' no params; Ubuntu only; High risk''),
     (''UfwDisable'',
      ''disable the ufw firewall '' @ long_dash @ '' no params; Ubuntu only; High risk''),
     (''UfwAllow'',
      ''allow inbound traffic on a port or service '' @ long_dash @
      '' param: port_or_service* (e.g. 22, 22/tcp, OpenSSH); Ubuntu only; High risk''),
     (''UfwDeny'',
      ''deny inbound traffic on a port or service '' @ long_dash @
      '' param: port_or_service*; Ubuntu only; High risk''),
     (''UfwReset'',
      ''reset ufw to defaults, removing all rules '' @ long_dash @
      '' no params; Ubuntu only; High risk; irreversible''),
     (''UfwStatus'',
      ''show current ufw status and rules '' @ long_dash @ '' no params; Ubuntu only; read-only''),
     (''DistroboxList'',
      ''list distrobox containers '' @ long_dash @ '' no params; Ubuntu only; read-only''),
     (''DistroboxCreate'',
      ''create a distrobox container '' @ long_dash @
      '' params: name*, image* (e.g. ubuntu:24.04, fedora:41); Ubuntu only''),
     (''DistroboxRemove'',
      ''remove a distrobox container '' @ long_dash @ '' param: name*; Ubuntu only''),
     (''NetplanGetConfig'',
      ''read current netplan YAML config from /etc/netplan/ '' @ long_dash @ '' no params; Ubuntu only; read-only''),
     (''NetplanApply'',
      ''apply netplan network configuration immediately '' @ long_dash @
      '' no params; Ubuntu only; High risk; can disconnect SSH''),
     (''GrubGetKargs'',
      ''read current GRUB_CMDLINE_LINUX from /etc/default/grub '' @ long_dash @ '' no params; Ubuntu only; read-only''),
     (''GrubSetKargs'',
      ''modify GRUB kernel arguments and run update-grub '' @ long_dash @
      '' params: append (list), delete (list); Ubuntu only; High risk; requires reboot''),
     (''CheckPendingReboot'',
      ''check whether a reboot is pending (/var/run/reboot-required) '' @ long_dash @
      '' no params; Ubuntu/Debian only; read-only''),
     (''ResolvectlStatus'',
      ''show DNS resolution status for all network interfaces (resolvectl status) '' @ long_dash @
      '' no params; cross-distro (any systemd-resolved host); read-only''),
     (''ResolvectlSetDns'',
      ''set DNS servers for a network interface '' @ long_dash @
      '' params: interface* (e.g. eth0), servers* (string[]); cross-distro; Medium risk'')]"

definition known_actions_5 :: "(str \<times> str) list" where
  "known_actions_5 =
    [(''AppArmorStatus'',
      ''show status of all loaded AppArmor profiles (aa-status) '' @ long_dash @
      '' no params; Ubuntu only; read-only''),
     (''AppArmorEnforce'',
      ''put an AppArmor profile into enforce mode (aa-enforce) '' @ long_dash @
      '' param: profile_path* (e.g. /etc/apparmor.d/usr.bin.firefox); Ubuntu only; High risk''),
     (''AppArmorComplain'',
      ''put an AppArmor profile into complain/learning mode (aa-complain) '' @ long_dash @
      '' param: profile_path*; Ubuntu only; Medium risk''),
     (''CloudInitStatus'',
      ''show cloud-init provisioning status (cloud-init status --long) '' @ long_dash @
      '' no params; Ubuntu only; read-only''),
     (''UbuntuInstallFlatpak'',
      ''install a Flatpak app on Ubuntu '' @ long_dash @
      '' params: username*, app_id*, remote* (e.g. flathub); Ubuntu only; Medium risk''),
     (''UbuntuRemoveFlatpak'',
      ''remove a Flatpak app on Ubuntu '' @ long_dash @ '' params: username*, app_id*; Ubuntu only; Medium risk''),
     (''UbuntuUpdateFlatpak'',
      ''update Flatpak app(s) on Ubuntu '' @ long_dash @
      '' param: username*; optional: app_id (omit for all); Ubuntu only; Medium risk''),
     (''UbuntuListFlatpaks'',
      ''list installed Flatpak apps on Ubuntu '' @ long_dash @ '' param: username*; Ubuntu only; read-only''),
     (''Fail2banStatus'',
      ''show fail2ban jail status '' @ long_dash @
      '' optional param: jail (omit for all jails); Ubuntu only; read-only''),
     (''Fail2banBanIp'',
      ''ban an IP address in a fail2ban jail '' @ long_dash @
      '' params: jail* (string), ip* (IPv4 or IPv6); Ubuntu only; High risk''),
     (''Fail2banUnbanIp'',
      ''unban an IP address from a fail2ban jail '' @ long_dash @ '' params: jail*, ip*; Ubuntu only; Medium risk''),
     (''NetplanSet'',
      ''set a single netplan key to a value '' @ long_dash @
      '' params: key* (e.g. 'ethernets.eth0.dhcp4'), value*; Ubuntu only; High risk; run '' @
      ''NetplanApply to activate''),
     (''NetplanGenerate'',
      ''regenerate netplan backend config without applying '' @ long_dash @
      '' no params; Ubuntu only; Medium risk; dry-run before NetplanApply''),
     (''UfwDeleteRule'',
      ''delete a ufw rule by number '' @ long_dash @
      '' param: rule_number* (positive integer from 'ufw status numbered'); Ubuntu only; '' @ ''High risk''),
     (''UfwLimit'',
      ''add rate-limiting rule on a port/service (>6 connections/30s blocked) '' @ long_dash @
      '' param: target* (e.g. '22' or 'ssh'); Ubuntu only; High risk; use for SSH '' @ ''brute-force mitigation''),
     (''UbuntuReleaseUpgrade'',
      ''upgrade to the next Ubuntu release (do-release-upgrade) '' @ long_dash @
      '' no params; Ubuntu only; High risk; takes 20'' @ short_dash @
      ''45 min; requires reboot; only for explicit distribution upgrade requests''),
     (''ProStatus'',
      ''show Ubuntu Pro subscription status '' @ long_dash @ '' no params; Ubuntu only; read-only''),
     (''ProAttach'',
      ''attach machine to an Ubuntu Pro subscription '' @ long_dash @
      '' param: token* (credential, never log); Ubuntu only; High risk''),
     (''ProDetach'',
      ''detach from Ubuntu Pro subscription '' @ long_dash @ '' no params; Ubuntu only; High risk''),
     (''LivepatchStatus'',
      ''show Canonical Livepatch kernel-patch status '' @ long_dash @
      '' no params; Ubuntu only; read-only; requires canonical-livepatch installed and '' @ ''Ubuntu Pro''),
     (''MultipassList'',
      ''list Multipass VMs and their state '' @ long_dash @ '' no params; Ubuntu only; read-only'')]"

definition KNOWN_ACTIONS :: "(str \<times> str) list" where
  "KNOWN_ACTIONS = known_actions_1 @ known_actions_2 @ known_actions_3 @ known_actions_4 @ known_actions_5"

section \<open>The plan\<close>

definition params_description :: str where
  "params_description = join_with [CHR 0x0A]
    [''Action parameters as a JSON string. Use \"{}\" only for no-param actions (see action '' @
      ''description). For all others include EXACT key names '' @ long_dash @ '' the daemon rejects unknown keys.'',
     bullet @ '' Flatpak (username is REQUIRED, use key 'username' not 'user'):'',
     ''  InstallFlatpak: '' @ ''{\"username\":\"alice\",\"app_id\":\"org.mozilla.firefox\",\"remote\":\"flathub\"}'',
     ''  RemoveFlatpak / GetFlatpakAppInfo: '' @ ''{\"username\":\"alice\",\"app_id\":\"org.mozilla.firefox\"}'',
     ''  UpdateFlatpak: {\"username\":\"alice\"} or '' @
      ''{\"username\":\"alice\",\"app_id\":\"org.mozilla.firefox\"}'',
     ''  ListInstalledFlatpaks / ListFlatpakRemotes: {\"username\":\"alice\"}'',
     ''  SearchFlatpakApps: {\"term\":\"firefox\"}'',
     ''  AddFlatpakRemote: '' @ ''{\"username\":\"alice\",\"remote\":\"flathub\",\"url\":\"https://...\"}'',
     ''  RemoveFlatpakRemote: {\"username\":\"alice\",\"remote\":\"flathub\"}'',
     bullet @ '' Containers/Toolbox (all require username):'',
     ''  ListContainers / ListToolboxes: {\"username\":\"alice\"}'',
     ''  CreateContainer: '' @ ''{\"username\":\"alice\",\"name\":\"mybox\",\"image\":\"ubuntu:22.04\"}'',
     ''  Start/Stop/Remove/GetContainerInfo: {\"username\":\"alice\",\"name\":\"mybox\"}'',
     ''  CreateToolbox: {\"username\":\"alice\",\"name\":\"mybox\"} (image/release optional)'',
     ''  RemoveToolbox: {\"username\":\"alice\",\"name\":\"mybox\"}'',
     bullet @ '' Services: {\"unit\":\"sshd.service\"} for '' @
      ''Start/Stop/Restart/Reload/Mask/Unmask/GetLogs/GetStatus'',
     ''  SetServiceEnabled: {\"unit\":\"sshd.service\",\"enabled\":true}'',
     bullet @ '' SSH: GetAuthorizedKeys: {\"username\":\"alice\"}'',
     ''  Add/RemoveAuthorizedKey: {\"username\":\"alice\",\"public_key\":\"ssh-ed25519 '' @ ''AAAA... comment\"}'',
     bullet @ '' Users: CreateUser: {\"username\":\"alice\"} (shell/home optional); DeleteUser: '' @
      ''{\"username\":\"alice\"}'',
     ''  AddUserToGroup/RemoveUserFromGroup: {\"username\":\"alice\",\"group\":\"wheel\"}'',
     bullet @ '' Identity: SetHostname: {\"hostname\":\"myhost\"}; SetTimezone: '' @
      ''{\"timezone\":\"America/Chicago\"}'',
     ''  SetLocale: {\"locale\":\"en_US.UTF-8\"}; SetNtp: {\"enabled\":true}'',
     bullet @ '' Layering: AddLayeredPackage/RemoveLayeredPackage/RemoveBasePackage: '' @ ''{\"package\":\"vim\"}'',
     ''  InstallPackages/RemovePackages: {\"packages\":[\"vim\",\"git\"]}'',
     ''  ReplaceLayeredPackage: {\"old\":\"vim\",\"new\":\"vim-enhanced\"}'',
     ''  PinDeployment/UnpinDeployment: {\"index\":0}'',
     ''  RebaseSystem: {\"target_ref\":\"fedora/40/x86_64/silverblue\"}'',
     ''  SetKernelArguments: {\"add\":[\"quiet\"],\"remove\":[\"rhgb\"]}'',
     bullet @ '' Repos: AddPackageRepository: {\"repo_id\":\"epel\",\"repo_url\":\"https://...\"}'',
     ''  Remove/Enable/DisablePackageRepository: {\"repo_id\":\"epel\"}'',
     bullet @ '' Network: ConfigureFirewall: '' @ ''{\"zone\":\"public\",\"service\":\"ssh\",\"enabled\":true}'',
     ''  ConfigureWifi: {\"ssid\":\"MyNet\",\"password\":\"secret\"}; SetDnsServers: '' @
      ''{\"interface\":\"wlp1s0\",\"servers\":[\"1.1.1.1\"]}'',
     ''IMPORTANT: Extract parameter values verbatim from intent. Never omit required '' @
      ''fields. Never guess key names '' @ long_dash @ '' use exact names from the action description.'']"

definition action_name_description :: str where
  "action_name_description =
    ''SysKnife action name from the approved list. Choose by PURPOSE, not by name '' @
    ''similarity. Catalogue (name '' @ long_dash @ '' what it does):'' @ [CHR 0x0A] @
    join_with [CHR 0x0A] (map (\<lambda>(name, desc). name @ '' '' @ long_dash @ '' '' @ desc) KNOWN_ACTIONS)"

definition step_schema :: json where
  "step_schema = object_schema
    [(''action_name'', JObject [(''description'', JString action_name_description),
        (''enum'', JArray (map (\<lambda>(name, _). JString name) KNOWN_ACTIONS)), (''type'', JString ''string'')]),
     (''params'', text_property ''string'' params_description),
     (''risk_level'', JObject [(''description'', JString ''Risk classification for this step.''),
        (''enum'', JArray [JString ''low'', JString ''medium'', JString ''high'']), (''type'', JString ''string'')]),
     (''summary'', text_property ''string'' ''One sentence describing what this step does and why.'')]
    [''action_name'', ''summary'', ''risk_level'', ''params'']"

definition propose_plan_schema :: json where
  "propose_plan_schema = object_schema
    [(''explanation'', text_property ''string''
        (''2'' @ short_dash @ ''4 sentence explanation for the user: what will happen, why, and what to watch for.'')),
     (''steps'', JObject [(''description'', JString
        (''Ordered list of SysKnife actions. Steps execute in order; a failure stops the plan.'')),
        (''items'', step_schema), (''type'', JString ''array'')]),
     (''summary'', text_property ''string'' ''One-sentence plain-language summary of the full plan.'')]
    [''summary'', ''explanation'', ''steps'']"

definition propose_plan_tool_def :: tool_definition where
  "propose_plan_tool_def = tool ''propose_plan''
    (''Emit the final typed SysKnife action plan. Call this exactly once after you have '' @
     ''gathered enough information to make a confident plan. Each step must use an '' @
     ''action_name from the approved list.'')
    propose_plan_schema"

definition planner_tools :: "tool_definition list" where
  "planner_tools = get_state_tool_def # query_tools @ [remember_tool_def, forget_tool_def, propose_plan_tool_def]"

end
