(* ===== verification/Tool_Properties.thy ===== *)
theory Tool_Properties
  imports Tool_Catalogue Dispatch_Properties
begin

text \<open>
  What the tools offered to the model lead to: which calls the planner knows, which of them the daemon can answer, and
  what a plan that follows the schema of \<open>propose_plan\<close> is for the parser.
\<close>

section \<open>Queries at the daemon\<close>

definition username_tools :: "(str \<times> str) list" where
  "username_tools =
    [(''query_containers'', ''ListContainers''), (''query_flatpak_remotes'', ''ListFlatpakRemotes''),
     (''query_toolboxes'', ''ListToolboxes''), (''query_flatpak_info'', ''GetFlatpakAppInfo''),
     (''query_container_info'', ''GetContainerInfo'')]"

lemma no_username: "resolve_username (JObject []) = Inl (MissingParam ''username'')"
  "k \<noteq> ''username'' \<Longrightarrow> k \<noteq> ''user'' \<Longrightarrow> resolve_username (JObject [(k, v)]) = Inl (MissingParam ''username'')"
  by (simp_all add: resolve_username_def)

lemma flatpak_container_build:
  assumes "resolve_username ps = Inl (MissingParam ''username'')"
  shows "build_action_spec ''ListFlatpakRemotes'' ps = Inl (MissingParam ''username'')"
    "build_action_spec ''GetFlatpakAppInfo'' ps = Inl (MissingParam ''username'')"
    "build_action_spec ''ListContainers'' ps = Inl (MissingParam ''username'')"
    "build_action_spec ''GetContainerInfo'' ps = Inl (MissingParam ''username'')"
    "build_action_spec ''ListToolboxes'' ps = Inl (MissingParam ''username'')"
  by (simp_all add: build_action_spec_def action_arms_def find_arm deployment_arms_def flatpak_arms_def container_arms_def
      layering_arms_def service_arms_def toolbox_arms_def user_param_def assms result_simps del: map_of_append)

lemma username_tools_translated:
  assumes "(t, a) \<in> set username_tools" "query_tool_to_action t input = Inr (Some (b, ps))"
  shows "b = a \<and> resolve_username ps = Inl (MissingParam ''username'')"
  using assms
  by (auto simp: username_tools_def query_tool_to_action_def plain_query_tools_def param_query_tools_def no_username
      rbind_eq_Inr_conv)

text \<open>C22. Five of the query tools the model is offered can never answer: the containers, the toolboxes, the Flatpak
  remotes and the two details of an application and of a container. Their schemas have no key for a user and the
  translation passes none on, the daemon demands one, so that whatever the model sends and however the daemon is
  configured the reply is an error.\<close>

theorem username_tools_never_answer:
  assumes "tool_name \<in> set (map fst username_tools)" "query_tool_to_action tool_name input = Inr (Some (action_name, params))"
  shows "tool_name \<in> set (map td_name query_tools) \<and>
    (\<exists>category message. handle_query_action env action_name params request_id = send_error request_id category message)"
proof -
  from assms(1) obtain a where a: "(tool_name, a) \<in> set username_tools" by auto
  with username_tools_translated assms(2) have "action_name = a" and u: "resolve_username params = Inl (MissingParam ''username'')"
    by blast+
  with a flatpak_container_build [OF u] have "build_action_spec action_name params = Inl (MissingParam ''username'')"
    "action_name \<noteq> ''ListJobHistory''" by (auto simp: username_tools_def)
  moreover have "tool_name \<in> set (map td_name query_tools)"
    using a by (auto simp: username_tools_def query_tools_def tool_def)
  ultimately show ?thesis by (auto simp: handle_query_action_def split: option.split)
qed

theorem username_tools_never_answer_witness:
  "\<exists>category message. handle_query_action sample_env ''ListContainers'' (JObject []) ''r1'' = send_error ''r1'' category message"
  using username_tools_never_answer [of "''query_containers''" "JObject []" "''ListContainers''" "JObject []" sample_env "''r1''"]
  by (simp add: username_tools_def query_tool_to_action_def plain_query_tools_def)

text \<open>No tool the planner offers is unknown to it, and a query that is not translated lacks its key.\<close>

definition planner_own_tools :: "str list" where
  "planner_own_tools = [''get_system_state'', ''remember'', ''forget'', ''propose_plan'', ''query_current_user'']"

lemma query_names:
  "set (map td_name query_tools) \<subseteq> {''query_current_user'', ''query_job_history''} \<union> set (map fst plain_query_tools) \<union>
    set (map fst param_query_tools)"
  by (simp add: query_tools_def tool_def plain_query_tools_def param_query_tools_def)

lemma translated_tools:
  assumes "t \<in> {''query_job_history''} \<union> set (map fst plain_query_tools) \<union> set (map fst param_query_tools)"
  shows "query_tool_to_action t input \<noteq> Inr None"
proof (cases "map_of plain_query_tools t")
  case None
  then have p: "t \<notin> set (map fst plain_query_tools)" by (simp add: map_of_eq_None_iff)
  show ?thesis
  proof (cases "map_of param_query_tools t")
    case no: None
    then have "t \<notin> set (map fst param_query_tools)" by (simp add: map_of_eq_None_iff)
    with p assms have "t = ''query_job_history''" by blast
    with None no show ?thesis by (simp add: query_tool_to_action_def)
  next
    case (Some b)
    with None show ?thesis by (cases b) (auto simp: query_tool_to_action_def rbind_eq_Inr_conv)
  qed
qed (simp add: query_tool_to_action_def)

lemma offered_tools_known:
  assumes "td \<in> set planner_tools" "td_name td \<notin> set planner_own_tools"
  shows "query_tool_to_action (td_name td) input \<noteq> Inr None"
proof (rule translated_tools)
  have "td_name td \<in> set (map td_name query_tools)"
    using assms by (auto simp: planner_tools_def planner_own_tools_def get_state_tool_def_def remember_tool_def_def
        forget_tool_def_def propose_plan_tool_def_def tool_def)
  with query_names assms(2)
  show "td_name td \<in> {''query_job_history''} \<union> set (map fst plain_query_tools) \<union> set (map fst param_query_tools)"
    by (auto simp: planner_own_tools_def)
qed

section \<open>The catalogue\<close>

lemma catalogue_start: "map fst (known_actions_1 @ known_actions_2 @ known_actions_3) = take 90 KNOWN_ACTION_NAMES"
  by (simp add: known_actions_1_def known_actions_2_def known_actions_3_def KNOWN_ACTION_NAMES_def)

lemma catalogue_end:
  "set (map fst (known_actions_4 @ known_actions_5)) \<subseteq> set (drop 90 KNOWN_ACTION_NAMES)"
  "set (drop 90 KNOWN_ACTION_NAMES) \<subseteq> set (map fst (known_actions_4 @ known_actions_5))"
  by (simp_all add: known_actions_4_def known_actions_5_def KNOWN_ACTION_NAMES_def)

lemma catalogue_known: "set (map fst KNOWN_ACTIONS) = set KNOWN_ACTION_NAMES"
proof -
  have "set (map fst KNOWN_ACTIONS) =
      set (map fst (known_actions_1 @ known_actions_2 @ known_actions_3)) \<union> set (map fst (known_actions_4 @ known_actions_5))"
    by (auto simp: KNOWN_ACTIONS_def)
  also have "\<dots> = set (take 90 KNOWN_ACTION_NAMES) \<union> set (drop 90 KNOWN_ACTION_NAMES)"
    using catalogue_end unfolding catalogue_start by blast
  also have "\<dots> = set KNOWN_ACTION_NAMES" by (metis append_take_drop_id set_append)
  finally show ?thesis .
qed

section \<open>Schemas\<close>

text \<open>The part of JSON Schema that the definitions use, for values from a model.\<close>

fun type_name :: "json \<Rightarrow> str" where
  "type_name JNull = ''null''"
| "type_name (JBool _) = ''boolean''"
| "type_name (JNumber _) = ''integer''"
| "type_name (JString _) = ''string''"
| "type_name (JArray _) = ''array''"
| "type_name (JObject _) = ''object''"

definition type_fits :: "json \<Rightarrow> json \<Rightarrow> bool" where
  "type_fits schema v = (json_get schema ''type'' = Some (JString (type_name v)) \<and>
    (case Option.bind (json_get schema ''enum'') as_array of Some vs \<Rightarrow> v \<in> set vs | None \<Rightarrow> True))"

definition required_keys :: "json \<Rightarrow> str list" where
  "required_keys schema = (case Option.bind (json_get schema ''required'') as_array of
    Some vs \<Rightarrow> List.map_filter as_str vs | None \<Rightarrow> [])"

definition property_schema :: "json \<Rightarrow> str \<Rightarrow> json option" where
  "property_schema schema k = Option.bind (json_get schema ''properties'') (\<lambda>ps. json_get ps k)"

fun conforms :: "json \<Rightarrow> json \<Rightarrow> bool" where
  "conforms schema (JArray xs) = (type_fits schema (JArray xs) \<and>
    (case json_get schema ''items'' of Some item \<Rightarrow> \<forall>x\<in>set xs. conforms item x | None \<Rightarrow> True))"
| "conforms schema (JObject m) = (type_fits schema (JObject m) \<and>
    (\<forall>k\<in>set (required_keys schema). map_of m k \<noteq> None) \<and>
    (\<forall>p\<in>set m. case property_schema schema (fst p) of
        Some q \<Rightarrow> conforms q (snd p)
      | None \<Rightarrow> json_get schema ''additionalProperties'' \<noteq> Some (JBool False)))"
| "conforms schema v = type_fits schema v"

lemma conforms_text: "conforms (text_property ''string'' d) v \<longleftrightarrow> (\<exists>s. v = JString s)"
  by (cases v) (simp_all add: text_property_def type_fits_def)

lemma map_filter_strings: "List.map_filter as_str (map JString ks) = ks"
  by (induction ks) (simp_all add: map_filter_simps)

lemma conforms_object:
  "conforms (object_schema ps ks) v \<longleftrightarrow>
    (\<exists>m. v = JObject m \<and> (\<forall>k\<in>set ks. map_of m k \<noteq> None) \<and>
      (\<forall>p\<in>set m. \<exists>q. map_of ps (fst p) = Some q \<and> conforms q (snd p)))"
  by (cases v) (auto simp: object_schema_def type_fits_def required_keys_def property_schema_def map_filter_strings
      split: option.splits)

lemma conforms_property:
  assumes "conforms (object_schema ps ks) (JObject m)" "k \<in> set ks" "map_of ps k = Some q"
  obtains x where "map_of m k = Some x" "conforms q x"
proof -
  have m: "\<forall>k\<in>set ks. map_of m k \<noteq> None" "\<forall>p\<in>set m. \<exists>q. map_of ps (fst p) = Some q \<and> conforms q (snd p)"
    using assms(1) unfolding conforms_object by auto
  with assms(2) obtain x where x: "map_of m k = Some x" by blast
  have "conforms q x" using m(2) [rule_format, OF map_of_SomeD [OF x]] assms(3) by simp
  with x that show thesis by blast
qed

lemma conforms_enum:
  "conforms (JObject [(''description'', d), (''enum'', JArray (map JString ns)), (''type'', JString ''string'')]) v \<longleftrightarrow>
    (\<exists>s. v = JString s \<and> s \<in> set ns)"
  by (cases v) (auto simp: type_fits_def)

lemma conforms_array:
  "conforms (JObject [(''description'', d), (''items'', item), (''type'', JString ''array'')]) v \<longleftrightarrow>
    (\<exists>xs. v = JArray xs \<and> (\<forall>x\<in>set xs. conforms item x))"
  by (cases v) (auto simp: type_fits_def)

declare conforms.simps [simp del]

section \<open>A plan that follows the schema\<close>

lemma text_of: "get_str (JObject m) k = Some t \<longleftrightarrow> map_of m k = Some (JString t)"
  by (auto simp: get_str_def bind_eq_Some_conv)

lemma names_listed: "map (\<lambda>(name, _). JString name) KNOWN_ACTIONS = map JString (map fst KNOWN_ACTIONS)"
  by (simp add: case_prod_beta)

lemma risk_level_written:
  assumes "r \<in> set [''low'', ''medium'', ''high'']"
  shows "\<exists>l. r = plan_risk_level_str l"
proof -
  from assms consider "r = plan_risk_level_str PlanLow" | "r = plan_risk_level_str PlanMedium" | "r = plan_risk_level_str PlanHigh"
    by auto
  then show ?thesis by cases blast+
qed

lemma step_follows:
  assumes "conforms step_schema v" "get_str v ''summary'' \<noteq> Some []"
    and "\<And>t. get_str v ''params'' = Some t \<Longrightarrow> t = [] \<or> px_parse px t \<noteq> None"
  shows "\<exists>s. \<forall>i. parse_step px (i, v) = Inr s"
proof -
  obtain m where v: "v = JObject m" using assms(1) unfolding step_schema_def conforms_object by blast
  note schema = assms(1) [unfolded step_schema_def v names_listed]
  obtain n where n: "map_of m ''action_name'' = Some (JString n)" "n \<in> set (map fst KNOWN_ACTIONS)"
    by (rule conforms_property [OF schema, of "''action_name''"])
      (auto simp: conforms_enum simp del: map_map set_map)
  obtain r where r: "map_of m ''risk_level'' = Some (JString r)" "r \<in> set [''low'', ''medium'', ''high'']"
    by (rule conforms_property [OF schema, of "''risk_level''"])
      (use conforms_enum [of _ "[''low'', ''medium'', ''high'']"] in auto)
  obtain t where t: "map_of m ''params'' = Some (JString t)"
    by (rule conforms_property [OF schema, of "''params''"]) (auto simp: conforms_text)
  obtain u where u: "map_of m ''summary'' = Some (JString u)"
    by (rule conforms_property [OF schema, of "''summary''"]) (auto simp: conforms_text)
  obtain ps where ps: "params_read px (Some (JString t)) ps"
    using assms(3) [of t] t by (cases "t = []") (auto simp: v text_of params_read_def)
  obtain l where l: "r = plan_risk_level_str l" using risk_level_written [OF r(2)] ..
  have n': "n \<in> set KNOWN_ACTION_NAMES" using n(2) unfolding catalogue_known .
  then have "n \<noteq> []" using known_names_nonempty by blast
  moreover have "u \<noteq> []" using assms(2) u by (auto simp: v text_of)
  ultimately have "parse_step px (i, v) = Inr \<lparr>ps_action_name = ActionName n, ps_summary = u, ps_risk_level = l, ps_params = ps\<rparr>" for i
    using n(1) n' r(1) t u ps by (simp add: parse_step_Inr v text_of l)
  then show ?thesis by blast
qed

lemma steps_follow:
  assumes "\<And>v. v \<in> set vs \<Longrightarrow> \<exists>s. \<forall>i. parse_step px (i, v) = Inr s"
  shows "\<exists>ss. length ss = length vs \<and> map_result (parse_step px) (enumerate i vs) = Inr ss"
  using assms
proof (induction vs arbitrary: i)
  case (Cons v vs)
  from Cons.prems [of v] obtain s where s: "\<forall>i. parse_step px (i, v) = Inr s" by auto
  from Cons obtain ss where "length ss = length vs" "map_result (parse_step px) (enumerate (Suc i) vs) = Inr ss"
    by (metis list.set_intros(2))
  with s show ?case by (intro exI [of _ "s # ss"]) simp
qed simp

lemma step_conforms:
  "conforms step_schema (JObject
    [(''action_name'', JString n), (''params'', JString t), (''risk_level'', JString r), (''summary'', JString u)]) \<longleftrightarrow>
    n \<in> set KNOWN_ACTION_NAMES \<and> r \<in> {''low'', ''medium'', ''high''}"
  unfolding step_schema_def names_listed conforms_object
  by (auto simp: conforms_text conforms_enum catalogue_known [symmetric] conforms_enum [of _ "[''low'', ''medium'', ''high'']", simplified]
      simp del: map_map)

text \<open>C23. The schema the model gets with \<open>propose_plan\<close> asks for what the parser reads: whatever a model sends that
  conforms to it becomes a plan with as many steps, as long as no text is empty, there is a step, and every \<open>params\<close> is
  empty or the text of a JSON value. The schema allows exactly the names the fence of the parser knows, each with
  exactly the three labels of risk.\<close>

theorem schema_plans_parse:
  assumes schema: "conforms propose_plan_schema input"
    and texts: "intent \<noteq> []" "get_str input ''summary'' \<noteq> Some []" "get_str input ''explanation'' \<noteq> Some []"
    and steps: "json_get input ''steps'' \<noteq> Some (JArray [])"
    and each: "\<And>vs v. json_get input ''steps'' = Some (JArray vs) \<Longrightarrow> v \<in> set vs \<Longrightarrow> get_str v ''summary'' \<noteq> Some [] \<and>
      (\<forall>t. get_str v ''params'' = Some t \<longrightarrow> t = [] \<or> px_parse px t \<noteq> None)"
  shows "\<exists>vs p. json_get input ''steps'' = Some (JArray vs) \<and> parse_proposed_plan px intent input = Inr p \<and>
    length (pl_steps p) = length vs \<and>
    (\<forall>n t r u. conforms step_schema (JObject [(''action_name'', JString n), (''params'', JString t),
        (''risk_level'', JString r), (''summary'', JString u)]) \<longleftrightarrow>
      n \<in> set KNOWN_ACTION_NAMES \<and> r \<in> {''low'', ''medium'', ''high''})"
proof -
  obtain m where v: "input = JObject m" using schema unfolding propose_plan_schema_def conforms_object by blast
  note schema = schema [unfolded propose_plan_schema_def v]
  obtain t where t: "map_of m ''summary'' = Some (JString t)"
    by (rule conforms_property [OF schema, of "''summary''"]) (auto simp: conforms_text)
  obtain u where u: "map_of m ''explanation'' = Some (JString u)"
    by (rule conforms_property [OF schema, of "''explanation''"]) (auto simp: conforms_text)
  obtain vs where vs: "map_of m ''steps'' = Some (JArray vs)" "\<forall>v\<in>set vs. conforms step_schema v"
    by (rule conforms_property [OF schema, of "''steps''"]) (auto simp: conforms_array)
  have "\<exists>s. \<forall>i. parse_step px (i, v) = Inr s" if "v \<in> set vs" for v
    using step_follows [of v px] vs each that by (simp add: v)
  then obtain ss where ss: "length ss = length vs" "map_result (parse_step px) (enumerate 0 vs) = Inr ss"
    using steps_follow by blast
  have "t \<noteq> []" "u \<noteq> []" "vs \<noteq> []" "ss \<noteq> []" using texts steps t u vs ss(1) by (auto simp: v text_of)
  moreover from this have "non_empty_str input ''summary'' = Some t" "non_empty_str input ''explanation'' = Some u"
    using t u by (simp_all add: non_empty_str_Some v text_of)
  ultimately have "parse_proposed_plan px intent input =
      Inr \<lparr>pl_intent = intent, pl_summary = t, pl_explanation = u, pl_steps = ss\<rparr>"
    using texts(1) vs(1) ss(2) by (simp add: parse_proposed_plan_def new_plan_def v)
  with vs(1) ss(1) show ?thesis unfolding step_conforms by (simp add: v)
qed

definition demo_input :: json where
  "demo_input = JObject [(''explanation'', JString ''restarts it''), (''steps'', JArray [JObject
    [(''action_name'', JString ''RestartService''), (''params'', JString ''{}''), (''risk_level'', JString ''medium''),
     (''summary'', JString ''restart'')]]), (''summary'', JString ''restart sshd'')]"

lemma demo_input_conforms: "conforms propose_plan_schema demo_input"
proof -
  have "''RestartService'' \<in> set KNOWN_ACTION_NAMES" by (simp add: KNOWN_ACTION_NAMES_def)
  then show ?thesis
    unfolding propose_plan_schema_def demo_input_def conforms_object
    by (simp add: conforms_text conforms_array step_conforms)
qed

theorem schema_plans_parse_witness:
  "\<exists>p. parse_proposed_plan \<lparr>px_parse = \<lambda>_. Some (JObject []), px_debug = id\<rparr> ''restart sshd'' demo_input = Inr p \<and>
    length (pl_steps p) = 1"
proof -
  let ?px = "\<lparr>px_parse = \<lambda>_. Some (JObject []), px_debug = id\<rparr> :: plan_externs"
  have "\<exists>vs p. json_get demo_input ''steps'' = Some (JArray vs) \<and>
      parse_proposed_plan ?px ''restart sshd'' demo_input = Inr p \<and> length (pl_steps p) = length vs \<and>
      (\<forall>n t r u. conforms step_schema (JObject [(''action_name'', JString n), (''params'', JString t),
          (''risk_level'', JString r), (''summary'', JString u)]) \<longleftrightarrow>
        n \<in> set KNOWN_ACTION_NAMES \<and> r \<in> {''low'', ''medium'', ''high''})"
    by (rule schema_plans_parse [OF demo_input_conforms]) (auto simp: demo_input_def get_str_def)
  then show ?thesis by (auto simp: demo_input_def)
qed

end
