(* ===== verification/Prompt_Properties.thy ===== *)
theory Prompt_Properties
  imports Prompt Tool_Properties Executor_Safety Approval
begin

text \<open>
  The labels of risk in the prompt against the risk the daemon gives the same actions, and what follows for consent.
\<close>

section \<open>The tables as read\<close>

lemma risk_labels_lines:
  "ls \<noteq> [] \<and> (\<forall>l\<in>set ls. CHR 0x0A \<notin> set l) \<Longrightarrow> risk_labels (join_with [CHR 0x0A] ls) = risk_table None ls"
  by (simp add: risk_labels_def split_join)

lemma cross_table:
  "risk_labels CROSS_DISTRO_RISK_TABLES =
     [(''GetSystemState'', PlanLow), (''CollectDiagnostics'', PlanLow), (''ListServices'', PlanLow),
      (''GetServiceLogs'', PlanLow), (''GetServiceStatus'', PlanLow), (''ListTimers'', PlanLow),
      (''GetNetworkStatus'', PlanLow), (''GetDiskUsage'', PlanLow), (''GetDateTime'', PlanLow),
      (''ListProcesses'', PlanLow), (''GetMemoryInfo'', PlanLow), (''GetAuthorizedKeys'', PlanLow),
      (''ListPackageRepositories'', PlanLow), (''ListContainers'', PlanLow), (''GetContainerInfo'', PlanLow),
      (''ListUsers'', PlanLow), (''ListGroups'', PlanLow), (''ListJobHistory'', PlanLow),
      (''ResolvectlStatus'', PlanLow), (''ResolvectlSetDns'', PlanMedium)]"
  unfolding CROSS_DISTRO_RISK_TABLES_def by (subst risk_labels_lines) code_simp+

lemma fedora_table:
  "risk_labels FEDORA_RISK_TABLES =
     [(''GetDeploymentHistory'', PlanLow), (''ListDeployments'', PlanLow), (''GetKernelArguments'', PlanLow),
      (''GetPendingUpdates'', PlanLow), (''GetLayeredPackages'', PlanLow), (''ListToolboxes'', PlanLow),
      (''ListInstalledFlatpaks'', PlanLow), (''SearchFlatpakApps'', PlanLow), (''ListFlatpakRemotes'', PlanLow),
      (''GetFlatpakAppInfo'', PlanLow), (''GetFirewallState'', PlanLow), (''CreateToolbox'', PlanMedium),
      (''RemoveToolbox'', PlanMedium), (''InstallFlatpak'', PlanMedium), (''RemoveFlatpak'', PlanMedium),
      (''UpdateFlatpak'', PlanMedium), (''AddFlatpakRemote'', PlanMedium), (''RemoveFlatpakRemote'', PlanMedium),
      (''ConfigureFirewall'', PlanMedium), (''UpdateSystem'', PlanHigh), (''PinDeployment'', PlanHigh),
      (''UnpinDeployment'', PlanHigh), (''RebaseSystem'', PlanHigh), (''CleanupDeployments'', PlanHigh),
      (''RollbackDeployment'', PlanHigh), (''SetKernelArguments'', PlanHigh), (''InstallPackages'', PlanHigh),
      (''RemovePackages'', PlanHigh), (''AddLayeredPackage'', PlanHigh), (''RemoveLayeredPackage'', PlanHigh),
      (''ReplaceLayeredPackage'', PlanHigh), (''ResetLayeredPackageOverride'', PlanHigh),
      (''RemoveBasePackage'', PlanHigh)]"
  unfolding FEDORA_RISK_TABLES_def by (subst risk_labels_lines) code_simp+

lemma debian_table:
  "risk_labels DEBIAN_RISK_TABLES =
     [(''AptUpdate'', PlanLow), (''AptSearch'', PlanLow), (''AptListInstalled'', PlanLow), (''AptShow'', PlanLow),
      (''AptAutoremove'', PlanLow), (''AptListUpgradable'', PlanLow), (''AptHistoryList'', PlanLow),
      (''CheckPendingReboot'', PlanLow), (''SnapList'', PlanLow), (''SnapInfo'', PlanLow),
      (''UfwStatus'', PlanLow), (''NetplanGetConfig'', PlanLow), (''GrubGetKargs'', PlanLow),
      (''DistroboxList'', PlanLow), (''AppArmorStatus'', PlanLow), (''CloudInitStatus'', PlanLow),
      (''UbuntuListFlatpaks'', PlanLow), (''Fail2banStatus'', PlanLow), (''ProStatus'', PlanLow),
      (''LivepatchStatus'', PlanLow), (''MultipassList'', PlanLow), (''AptInstall'', PlanMedium),
      (''AptRemove'', PlanMedium), (''AptPurge'', PlanMedium), (''AptHold'', PlanMedium),
      (''AptUnhold'', PlanMedium), (''SnapInstall'', PlanMedium), (''SnapRemove'', PlanMedium),
      (''SnapRefresh'', PlanMedium), (''SnapHold'', PlanMedium), (''SnapUnhold'', PlanMedium),
      (''SnapRevert'', PlanMedium), (''SnapClassicInstall'', PlanMedium), (''AddPpa'', PlanMedium),
      (''RemovePpa'', PlanMedium), (''DistroboxCreate'', PlanMedium), (''DistroboxRemove'', PlanMedium),
      (''AppArmorComplain'', PlanMedium), (''UbuntuInstallFlatpak'', PlanMedium),
      (''UbuntuRemoveFlatpak'', PlanMedium), (''UbuntuUpdateFlatpak'', PlanMedium),
      (''Fail2banUnbanIp'', PlanMedium), (''NetplanGenerate'', PlanMedium), (''AptUpgrade'', PlanHigh),
      (''GrubSetKargs'', PlanHigh), (''UfwEnable'', PlanHigh), (''UfwDisable'', PlanHigh),
      (''UfwAllow'', PlanHigh), (''UfwDeny'', PlanHigh), (''UfwReset'', PlanHigh), (''UfwDeleteRule'', PlanHigh),
      (''UfwLimit'', PlanHigh), (''NetplanApply'', PlanHigh), (''NetplanSet'', PlanHigh),
      (''AppArmorEnforce'', PlanHigh), (''Fail2banBanIp'', PlanHigh), (''ProAttach'', PlanHigh),
      (''ProDetach'', PlanHigh), (''UbuntuReleaseUpgrade'', PlanHigh)]"
  unfolding DEBIAN_RISK_TABLES_def by (subst risk_labels_lines) code_simp+

lemma rules_table:
  "risk_labels CROSS_DISTRO_RISK_RULES =
     [(''StartService'', PlanMedium), (''StopService'', PlanMedium), (''RestartService'', PlanMedium),
      (''ReloadService'', PlanMedium), (''ReloadDaemon'', PlanMedium), (''SetServiceEnabled'', PlanMedium),
      (''MaskService'', PlanMedium), (''UnmaskService'', PlanMedium), (''ConfigureWifi'', PlanMedium),
      (''SetDnsServers'', PlanMedium), (''SetHostname'', PlanMedium), (''SetTimezone'', PlanMedium),
      (''SetLocale'', PlanMedium), (''SetNtp'', PlanMedium), (''AddPackageRepository'', PlanMedium),
      (''RemovePackageRepository'', PlanMedium), (''EnablePackageRepository'', PlanMedium),
      (''DisablePackageRepository'', PlanMedium), (''CreateContainer'', PlanMedium),
      (''StartContainer'', PlanMedium), (''StopContainer'', PlanMedium), (''RemoveContainer'', PlanMedium),
      (''CreateUser'', PlanMedium), (''RebootSystem'', PlanHigh), (''AddUserToGroup'', PlanHigh),
      (''RemoveUserFromGroup'', PlanHigh), (''DeleteUser'', PlanHigh), (''AddAuthorizedKey'', PlanHigh),
      (''RemoveAuthorizedKey'', PlanHigh)]"
  unfolding CROSS_DISTRO_RISK_RULES_def by (subst risk_labels_lines) code_simp+

section \<open>Against the daemon\<close>

text \<open>The tables of a prompt in their order, which the prompt holds as one piece, and the labels they give.\<close>

fun prompt_tables :: "base_prompt \<Rightarrow> str list" where
  "prompt_tables (FedoraPrompt version) = [CROSS_DISTRO_RISK_TABLES, FEDORA_RISK_TABLES, CROSS_DISTRO_RISK_RULES]"
| "prompt_tables (DebianPrompt version) = [CROSS_DISTRO_RISK_TABLES, DEBIAN_RISK_TABLES, CROSS_DISTRO_RISK_RULES]"
| "prompt_tables GenericPrompt = [CROSS_DISTRO_RISK_TABLES, CROSS_DISTRO_RISK_RULES]"

lemma prompt_holds_tables:
  "\<exists>rest. fixed_prompt p = PREAMBLE @ SPOTLIGHTING_CLAUSE @ EXAMPLES @ concat (prompt_tables p) @ rest"
  by (cases p) (simp_all add: render_fedora_prompt_def render_debian_prompt_def render_generic_prompt_def)

definition prompt_labels :: "base_prompt \<Rightarrow> (str \<times> plan_risk_level) list" where
  "prompt_labels p = concat (map risk_labels (prompt_tables p))"

fun label_of :: "risk_level \<Rightarrow> plan_risk_level" where
  "label_of Low = PlanLow"
| "label_of Medium = PlanMedium"
| "label_of High = PlanHigh"

definition understated :: "str list" where
  "understated = [''AddPackageRepository'', ''ConfigureFirewall'', ''CreateUser'', ''MaskService'', ''SetDnsServers'']"

definition overstated :: "str list" where
  "overstated = [''AddAuthorizedKey'', ''RemoveAuthorizedKey'']"

definition label_checked :: "str \<Rightarrow> plan_risk_level \<Rightarrow> risk_level \<Rightarrow> bool" where
  "label_checked n l r \<longleftrightarrow>
    (if n \<in> set understated then l = PlanMedium \<and> r = High
     else if n \<in> set overstated then l = PlanHigh \<and> r = Medium
     else l = label_of r)"

text \<open>The actions the daemon gives a risk.\<close>

definition names_of :: "risk_level \<Rightarrow> str list" where
  "names_of r = map fst (filter (\<lambda>(_, r', _). r' = r) spec_profiles)"

definition row_checked :: "str \<times> plan_risk_level \<Rightarrow> bool" where
  "row_checked = (\<lambda>(n, l). (n \<in> set (names_of Low) \<longrightarrow> label_checked n l Low) \<and>
    (n \<in> set (names_of Medium) \<longrightarrow> label_checked n l Medium) \<and> (n \<in> set (names_of High) \<longrightarrow> label_checked n l High))"

text \<open>Names are compared as numbers, which the simplifier tells apart faster.\<close>

definition name_code :: "str \<Rightarrow> int" where
  "name_code s = foldl (\<lambda>n c. n * 2 + of_char c) 0 s"

definition coded :: "risk_level \<Rightarrow> int list" where
  "coded r = map name_code (names_of r)"

definition row_ok :: "int list \<Rightarrow> int list \<Rightarrow> int list \<Rightarrow> str \<times> plan_risk_level \<Rightarrow> bool" where
  "row_ok low medium high = (\<lambda>(n, l). let e = name_code n in
    (if List.member low e then label_checked n l Low else True) \<and>
    (if List.member medium e then label_checked n l Medium else True) \<and>
    (if List.member high e then label_checked n l High else True))"

definition rows_ok :: "(str \<times> plan_risk_level) list \<Rightarrow> bool" where
  "rows_ok rows = (let low = coded Low; medium = coded Medium; high = coded High in list_all (row_ok low medium high) rows)"

lemma row_ok_checked: "row_ok (coded Low) (coded Medium) (coded High) row \<Longrightarrow> row_checked row"
  by (cases row) (auto simp: row_ok_def row_checked_def coded_def Let_def split: if_splits)

lemma rows_checked: "rows_ok rows \<Longrightarrow> list_all row_checked rows"
  unfolding rows_ok_def Let_def by (erule list.pred_mono_strong) (rule row_ok_checked)

lemma cross_checked: "list_all row_checked (risk_labels CROSS_DISTRO_RISK_TABLES)"
  unfolding cross_table by (rule rows_checked) code_simp

lemma fedora_checked: "list_all row_checked (risk_labels FEDORA_RISK_TABLES)"
  unfolding fedora_table by (rule rows_checked) code_simp

lemma debian_checked: "list_all row_checked (risk_labels DEBIAN_RISK_TABLES)"
  unfolding debian_table by (rule rows_checked) code_simp

lemma rules_checked: "list_all row_checked (risk_labels CROSS_DISTRO_RISK_RULES)"
  unfolding rules_table by (rule rows_checked) code_simp

lemma labels_checked: "list_all row_checked (prompt_labels p)"
  by (cases p) (simp_all add: prompt_labels_def cross_checked fedora_checked debian_checked rules_checked)

lemma named_by_risk:
  assumes "build_action_spec n ps = Inr spec"
  shows "n \<in> set (names_of (sp_risk_level spec))"
proof -
  obtain q where q: "map_of spec_profiles n = Some q" "fits spec (n, q)" using assms by (rule build_fits)
  obtain r b k ops where r: "q = (r, b, k, ops)" by (cases q)
  with q have "(n, r, b, k, ops) \<in> set spec_profiles" "sp_risk_level spec = r" by (auto dest: map_of_SomeD)
  then show ?thesis by (force simp: names_of_def)
qed

lemma label_of_built:
  assumes "(n, l) \<in> set (prompt_labels p)" "build_action_spec n ps = Inr spec"
  shows "label_checked n l (sp_risk_level spec)"
proof -
  have "row_checked (n, l)" using labels_checked [of p] assms(1) by (auto simp: list_all_iff)
  with named_by_risk [OF assms(2)] show ?thesis by (cases "sp_risk_level spec") (auto simp: row_checked_def)
qed

text \<open>The rows of the tables that differ from the executor, with the prompts that have them.\<close>

fun for_fedora :: "base_prompt \<Rightarrow> bool" where
  "for_fedora (FedoraPrompt version) = True"
| "for_fedora _ = False"

lemma lax_rows: "n \<in> set understated \<Longrightarrow> n = ''ConfigureFirewall'' \<longrightarrow> for_fedora p \<Longrightarrow> (n, PlanMedium) \<in> set (prompt_labels p)"
  by (cases p) (auto simp: understated_def prompt_labels_def rules_table fedora_table)

lemma strict_rows: "n \<in> set overstated \<Longrightarrow> (n, PlanHigh) \<in> set (prompt_labels p)"
  by (cases p) (auto simp: overstated_def prompt_labels_def rules_table)

text \<open>C21. The labels of risk the prompt dictates against the risk in the specifications the daemon executes. Every prompt
  holds its tables. Two rows of every prompt are stricter than the executor and four are laxer, and one more in the prompt
  for Fedora: they tell the model to call medium what the executor runs and records as high, as the static table of the
  previews does. Every other row agrees. A model that obeys makes plans with steps of high risk which
  \<open>--yes --max-risk medium\<close> runs without a question, although high risk is documented always to need one.\<close>

theorem prompt_labels_understate:
  assumes "ap_yes ap" "ap_max_risk ap = Some MaxMedium"
  shows "(\<exists>before after. fixed_prompt p = before @ concat (prompt_tables p) @ after) \<and>
    (\<forall>n\<in>set understated. (n = ''ConfigureFirewall'' \<longrightarrow> for_fedora p) \<longrightarrow> (n, PlanMedium) \<in> set (prompt_labels p)) \<and>
    (\<forall>n\<in>set overstated. (n, PlanHigh) \<in> set (prompt_labels p)) \<and>
    (\<forall>n l ps spec. (n, l) \<in> set (prompt_labels p) \<and> build_action_spec n ps = Inr spec \<longrightarrow>
      (n \<in> set understated \<and> sp_risk_level spec = High \<and> decide_step ap l = AutoApproved) \<or>
      (n \<in> set overstated \<and> sp_risk_level spec = Medium \<and> l = PlanHigh) \<or>
      (n \<notin> set understated \<and> l = label_of (sp_risk_level spec) \<and>
        (sp_risk_level spec = High \<longrightarrow> decide_step ap l = AutoApproved \<longrightarrow> ap_dry_run ap)))"
proof (intro conjI allI impI)
  from prompt_holds_tables [of p] obtain rest where "fixed_prompt p = (PREAMBLE @ SPOTLIGHTING_CLAUSE @ EXAMPLES) @ concat (prompt_tables p) @ rest"
    by auto
  then show "\<exists>before after. fixed_prompt p = before @ concat (prompt_tables p) @ after" by blast
  show "\<forall>n\<in>set understated. (n = ''ConfigureFirewall'' \<longrightarrow> for_fedora p) \<longrightarrow> (n, PlanMedium) \<in> set (prompt_labels p)"
    using lax_rows by blast
  show "\<forall>n\<in>set overstated. (n, PlanHigh) \<in> set (prompt_labels p)" using strict_rows by blast
  fix n l ps spec
  assume "(n, l) \<in> set (prompt_labels p) \<and> build_action_spec n ps = Inr spec"
  then show "(n \<in> set understated \<and> sp_risk_level spec = High \<and> decide_step ap l = AutoApproved) \<or>
      (n \<in> set overstated \<and> sp_risk_level spec = Medium \<and> l = PlanHigh) \<or>
      (n \<notin> set understated \<and> l = label_of (sp_risk_level spec) \<and>
        (sp_risk_level spec = High \<longrightarrow> decide_step ap l = AutoApproved \<longrightarrow> ap_dry_run ap))"
    using label_of_built [of n l p ps spec] assms by (auto simp: label_checked_def decide_step_cases split: if_splits)
qed

lemma mask_build: "build_action_spec ''MaskService'' (JObject [(''unit'', JString ''sshd'')]) = Inr (mask_service ''sshd'')"
  by (simp add: build_action_spec_def action_arms_def find_arm deployment_arms_def flatpak_arms_def container_arms_def
      layering_arms_def service_arms_def checked_param_def require_str_def validated_unit_name_def ascii_defs
      del: map_of_append)

definition medium_policy :: approval_policy where
  "medium_policy = \<lparr>ap_yes = True, ap_max_risk = Some MaxMedium, ap_non_interactive = True, ap_dry_run = False\<rparr>"

theorem prompt_labels_understate_witness:
  "(''MaskService'', PlanMedium) \<in> set (prompt_labels GenericPrompt) \<and> sp_risk_level (mask_service ''sshd'') = High \<and>
    decide_step medium_policy PlanMedium = AutoApproved"
proof -
  have "ap_yes medium_policy" "ap_max_risk medium_policy = Some MaxMedium" by (simp_all add: medium_policy_def)
  note C = prompt_labels_understate [OF this, of GenericPrompt]
  have m: "''MaskService'' \<in> set understated" "''MaskService'' \<notin> set overstated" "''MaskService'' \<noteq> ''ConfigureFirewall''"
    by (simp_all add: understated_def overstated_def)
  have row: "(''MaskService'', PlanMedium) \<in> set (prompt_labels GenericPrompt)"
    using C [THEN conjunct2, THEN conjunct1] m(1,3) by simp
  note D = C [THEN conjunct2, THEN conjunct2, THEN conjunct2, rule_format, OF conjI [OF row mask_build]]
  from D m(1,2) have "sp_risk_level (mask_service ''sshd'') = High" "decide_step medium_policy PlanMedium = AutoApproved"
    by simp_all
  with row show ?thesis by simp
qed

text \<open>The plan of the example in the prompt that lists toolboxes and remotes without parameters cannot be previewed.\<close>

lemma example_not_previewed:
  "build_action_spec ''ListToolboxes'' (JObject []) = Inl (MissingParam ''username'')"
  "build_action_spec ''ListFlatpakRemotes'' (JObject []) = Inl (MissingParam ''username'')"
  using flatpak_container_build [OF no_username(1)] by blast+

end
