(* ===== verification/Spec2Isabelle.thy ===== *)
theory Spec2Isabelle
  imports Daemon_Properties Audit_Properties Executor_Properties Preview_Properties
    Cli_Properties State_Collector Listen Framing Approval_Binding
    Planner_Properties Rate_Limit Audit_Forward Calendar
    Mcp_Properties History_View Audit_Report Shell_Properties
    Brain_Config Daemon_Start_Properties
    Providers_Properties Conversations Cli_Main Safety_Log Shell_Probes
    Tool_Properties Prompt_Properties
begin

text \<open>
  A verification development for SysKnife (\<open>src/\<close>), a system administration assistant: a language model turns
  an intent into a plan of typed actions, a person approves it, and a privileged daemon executes the actions and
  keeps a tamper-evident log. Paths below are relative to \<open>src/\<close>; \<open>D\<close> is \<open>crates/sysknife-daemon/src\<close>, \<open>B\<close> is
  \<open>crates/sysknife-brain/src\<close>, \<open>C\<close> is \<open>crates/sysknife-core/src\<close>, \<open>A\<close> is \<open>apps/sysknife-cli/src\<close> and \<open>S\<close> is
  \<open>apps/sysknife-shell/src-tauri/src\<close>.

  \<^bold>\<open>The parts and how they interact.\<close> Three clients (the command line, the MCP server, the desktop shell) ask the
  planner for a plan. The planner talks to a model, looks at the system through read-only queries of the daemon and
  gives a plan. A client previews each step at the daemon, which records a transaction with the hash of the request,
  and executes it with that hash as the approval. The daemon looks the transaction up by the hash, claims it, runs
  the action as a child process or a file edit, rolls back if it can, records the final status and answers. Every
  insertion extends a hash chain that the clients and the daemon can verify, and an event may be forwarded to a
  collector.

  \<^bold>\<open>Foundations.\<close>
  \<^item> \<open>Prelude\<close>: \<open>Result\<close> as a sum (\<open>Inl\<close> the error) with \<open>rbind\<close>, strings as lists of bytes, the collections of
    simplification rules. \<open>Rust_Std\<close>: the functions of Rust's standard library on strings (UTF-8 as bytes: a
    slice inside a character is a panic, so functions that slice return an option). \<open>Json\<close>: \<open>serde_json::Value\<close>.
    \<open>Externs\<close>: the code outside \<open>src/\<close> as functions (HMAC, SHA-256, serde_json on strings) with the laws relied on.
  \<^item> \<open>Prefix_Code\<close>: the locales of uniquely decodable encodings; interpreted by the fields of the audit chain
    (\<open>Audit_Chain\<close>) and by JSON strings (\<open>Approval_Binding\<close>). \<open>Interaction\<close>: programs over effects and the locale of
    an invariant of such a program, interpreted by the planning loop.
  \<^item> \<open>Sys_Types\<close>: \<open>crates/sysknife-types/src/lib.rs\<close> and the conversions to the protocol buffers. \<open>Sql_Time\<close> and
    \<open>Calendar\<close>: SQLite's date functions and the two calendars written by hand (\<open>B/audit.rs\<close>, \<open>A/runner.rs\<close>).

  \<^bold>\<open>The daemon.\<close>
  \<^item> Who may do what: \<open>Auth\<close> (\<open>D/auth.rs\<close>, peer credentials, groups, vsock tokens) and \<open>Policy\<close> (\<open>D/policy.rs\<close>).
  \<^item> What an action is: \<open>Validate\<close> and \<open>Ip_Addr\<close> (the checks of parameters), \<open>Actions\<close>, \<open>Actions_Fedora\<close>,
    \<open>Actions_System\<close>, \<open>Actions_Ubuntu\<close> (\<open>D/actions\<close>), \<open>Executor\<close> (\<open>build_action_spec\<close> as one list of arms per section of
    \<open>D/executor.rs\<close>, running an action, file edits), \<open>Executor_Safety\<close> and \<open>Executor_Properties\<close> (a profile of every
    arm, from which: risk and role agree, scripts have a fixed structure, edits stay in the repository directory).
  \<^item> What is shown: \<open>Preview\<close>, \<open>Preview_Properties\<close> (the static table against the executor), \<open>Redaction\<close>.
  \<^item> What an approval covers: \<open>Request_Hash\<close> (canonical JSON) and \<open>Approval_Binding\<close> (equal hashes build the same
    action, or exhibit a SHA-256 collision).
  \<^item> The log: \<open>Audit_Chain\<close> (\<open>D/audit_chain.rs\<close>), \<open>Jobs\<close> (\<open>D/jobs.rs\<close>), \<open>Audit_Store\<close> (the trait of \<open>D/store.rs\<close> as a
    record of methods, and its contract as the locale \<open>audit_log\<close>), \<open>Transactions\<close> with \<open>Store_Invariant\<close> and
    \<open>Audit_Properties\<close> (SQLite), \<open>Postgres\<close> with \<open>Postgres_Properties\<close> (\<open>D/store/postgres.rs\<close>, inserts of several
    connections included). Both stores interpret the locale; the lemmas about the daemon are proved once, for any.
  \<^item> The server: \<open>Framing\<close> and \<open>Listen\<close> (\<open>D/transport\<close>), \<open>State_Collector\<close>, \<open>Dispatch_Types\<close> and \<open>Dispatcher\<close>
    (\<open>D/dispatcher.rs\<close>: a handler is a program over its effects, each branch and each error included),
    \<open>Dispatch_Protocol\<close> (the abstract protocol, a monitor, and the proof that every handler obeys it),
    \<open>Dispatch_Properties\<close>, \<open>Daemon_System\<close> (connections, the limit of sixteen, and the interleaving of handlers over one
    store and one machine as an inductive step relation) and \<open>Daemon_Properties\<close> (its invariant and what follows:
    no transaction runs twice, what runs was previewed by a caller with the role for it). \<open>Audit_Forward\<close> is the
    forwarding to a collector. \<open>Daemon_Start\<close> and \<open>Daemon_Start_Properties\<close> are \<open>D/main.rs\<close> and \<open>D/state.rs\<close>.

  \<^bold>\<open>The planner.\<close> \<open>Plan\<close> (the types and \<open>parse_proposed_plan\<close>), \<open>Sanitize\<close> (\<open>B/sanitize.rs\<close>), \<open>Prefs\<close>, \<open>Rate_Limit\<close>,
  \<open>Query_Tools\<close>, \<open>Planner\<close> (\<open>plan_intent\<close> over all answers of the model and the daemon), \<open>Planner_Properties\<close>,
  \<open>Config\<close> and \<open>Brain_Config\<close> (\<open>C/config.rs\<close>, \<open>B/config.rs\<close>, the choice of the backend). \<open>Providers\<close> is \<open>B/providers\<close>: the
  conversion of a history to the messages of both provider libraries, of their answers, and the redaction of their
  errors (\<open>Providers_Properties\<close>: no key stays in an error). \<open>Conversations\<close> joins the planner and the adapters: every
  call of a tool is answered in what is sent. \<open>Tool_Catalogue\<close> has the tools offered to the model with their texts and
  schemas (\<open>B/planning_tools\<close>); \<open>Tool_Properties\<close> compares them with what the planner parses and the daemon answers:
  a plan that follows the schema is parsed, five query tools can never be answered. \<open>Prompt\<close> has the texts of
  \<open>B/prompt.rs\<close> line by line, with a reader of the risk tables in them; \<open>Prompt_Properties\<close> compares those labels with
  the risks of the daemon and follows a difference up to the consent of the user. \<open>Safety_Log\<close> is \<open>B/audit.rs\<close> and \<open>B/journal.rs\<close>.

  \<^bold>\<open>The clients.\<close> \<open>Distro\<close> (\<open>C/distro.rs\<close>, \<open>A/distro_routing.rs\<close>), \<open>Approval\<close> (\<open>A/approval.rs\<close>), \<open>Cli_Client\<close> (\<open>A/client.rs\<close>),
  \<open>Cli_Daemon\<close> (the client against the daemon), \<open>Cli_Run\<close> and \<open>Cli_Properties\<close> (\<open>run_intent\<close> of \<open>A/runner.rs\<close>), \<open>Mcp\<close> and
  \<open>Mcp_Properties\<close> (\<open>A/mcp_server.rs\<close>), \<open>History_View\<close>, \<open>Audit_Report\<close>, \<open>Cli_Main\<close> (what is printed and asked, \<open>A/render.rs\<close>;
  the diagnosis, the interactive loop, the arguments and the exit code), \<open>Shell\<close> and \<open>Shell_Properties\<close>
  (\<open>S/commands.rs\<close>, \<open>S/daemon_client.rs\<close>), \<open>Shell_Probes\<close> (the health poller of \<open>S/main.rs\<close>, hardware, Ollama).

  \<^bold>\<open>Conventions.\<close> A definition has the name of the function it models. Structs are records, enums datatypes, \<open>Result\<close>
  is a sum, \<open>u32\<close> fields of requests are words. Functions of \<open>async\<close> code that wait for something are programs: a
  datatype with one constructor per effect and a continuation for its result, so a theorem quantifies over all
  results, in every order. A clock, a random number, the file system and a child process enter as such results or as
  fields of an environment record. SQL statements are functions on lists of rows.

  \<^bold>\<open>Bounds and fuel.\<close> The only recursion with fuel is in the concrete choice of \<open>Externs\<close>, where the length of the
  text suffices (\<open>plain_de_fuel_ser\<close>). The loops over input (\<open>recv_all\<close>, \<open>execute_loop\<close>, \<open>strip_ansi\<close>, \<open>utf8_chars\<close>) end
  because the input gets shorter; the planning loop ends because its turns are counted (\<open>planner_is_bounded\<close>).
  Sequence numbers and milliseconds are natural numbers; the code has 64 bits for them.

  \<^bold>\<open>Not modelled.\<close> The live test harness \<open>crates/sysknife-daemon-test\<close>: it is a test of the deployed system. What the
  model makes of the texts and schemas it is sent: the model is an arbitrary answer. The two lists of action names in
  \<open>B/prompt.rs\<close> that nothing in the program reads. The libraries behind the program: the clients of the providers, the
  parser of arguments, the line editor, spinners, Tauri, the MCP transport. Failures of a database connection and the
  creation of tables. Deadlines are events: when a timer fires is not computed. Child processes give a list of lines
  and an exit status.
\<close>

end
